(* ===== verification/Prelude.thy ===== *)
theory Prelude
  imports Main "HOL-Library.List_Lexorder" "HOL-Library.Monad_Syntax"
begin

text \<open>
  The vocabulary every other theory shares: JavaScript strings as lists of UTF-16 code
  units, JavaScript values as the validators of the program meet them
  (\<^verbatim>\<open>unknown\<close>), property access on plain objects, insertion-ordered sets,
  and the small generic lemmas about them.  Two fact collections are declared here:
  \<^verbatim>\<open>js_eval\<close> (equations that evaluate literals and closed inputs) and
  \<^verbatim>\<open>char_class\<close> (the definitions of the character classes of the program's
  regular expressions).
\<close>

named_theorems js_eval \<open>equations that evaluate closed JavaScript values\<close>
named_theorems char_class \<open>definitions of the character classes of regular expressions\<close>

subsection \<open>Strings\<close>

text \<open>
  A JavaScript string is a sequence of 16-bit code units; \<^verbatim>\<open>length\<close>,
  indexing and \<^verbatim>\<open>charCodeAt\<close> all count code units, so a string is a list of
  natural numbers here (every statement holds for all lists, in particular for those whose
  elements are below \<open>2 ^ 16\<close>).  The relational order of JavaScript is
  the lexicographic order of code units, which is the order of theory
  \<^verbatim>\<open>List_Lexorder\<close>.
\<close>

type_synonym jstr = "nat list"

definition js :: "string \<Rightarrow> jstr" where
  "js s = map of_char s"

lemma js_Nil [js_eval]: "js [] = []"
  by (simp add: js_def)

lemma js_Cons [js_eval]: "js (c # cs) = of_char c # js cs"
  by (simp add: js_def)

lemma js_inject [simp]: "js s = js t \<longleftrightarrow> s = t"
  by (simp add: js_def inj_map_eq_map inj_on_def)

lemma js_append: "js (s @ t) = js s @ js t"
  by (simp add: js_def)

lemma length_js [simp]: "length (js s) = length s"
  by (simp add: js_def)

lemma js_eq_Nil [simp]: "js s = [] \<longleftrightarrow> s = []"
  by (simp add: js_def)

lemma of_char_less_256: "(of_char c :: nat) < 256"
  by (metis nat_of_char_less_256)

lemma js_byte: "c \<in> set (js s) \<Longrightarrow> c < 256"
  by (auto simp: js_def of_char_less_256)

text \<open>\<^verbatim>\<open>startsWith\<close>, \<^verbatim>\<open>endsWith\<close> and \<^verbatim>\<open>includes\<close>.\<close>

fun starts_with :: "jstr \<Rightarrow> jstr \<Rightarrow> bool" where
  "starts_with s [] = True"
| "starts_with [] (p # ps) = False"
| "starts_with (c # s) (p # ps) = (c = p \<and> starts_with s ps)"

definition ends_with :: "jstr \<Rightarrow> jstr \<Rightarrow> bool" where
  "ends_with s p = starts_with (rev s) (rev p)"

fun str_includes :: "jstr \<Rightarrow> jstr \<Rightarrow> bool" where
  "str_includes [] p = (p = [])"
| "str_includes (c # s) p = (starts_with (c # s) p \<or> str_includes s p)"

lemma starts_with_iff: "starts_with s p \<longleftrightarrow> (\<exists>t. s = p @ t)"
  by (induction s p rule: starts_with.induct) auto

lemma starts_with_append [simp]: "starts_with (p @ t) p"
  by (auto simp: starts_with_iff)

lemma ends_with_iff: "ends_with s p \<longleftrightarrow> (\<exists>t. s = t @ p)"
  unfolding ends_with_def starts_with_iff
  by (metis rev_append rev_rev_ident)

lemma str_includes_iff: "str_includes s p \<longleftrightarrow> (\<exists>u t. s = u @ p @ t)"
proof (induction s)
  case Nil
  then show ?case by auto
next
  case (Cons c s)
  have "(\<exists>u t. c # s = u @ p @ t) \<longleftrightarrow> (\<exists>t. c # s = p @ t) \<or> (\<exists>u t. s = u @ p @ t)"
  proof
    assume "\<exists>u t. c # s = u @ p @ t"
    then obtain u t where "c # s = u @ p @ t" by blast
    then show "(\<exists>t. c # s = p @ t) \<or> (\<exists>u t. s = u @ p @ t)"
      by (cases u) auto
  next
    assume "(\<exists>t. c # s = p @ t) \<or> (\<exists>u t. s = u @ p @ t)"
    then show "\<exists>u t. c # s = u @ p @ t"
      by (metis append_Cons append_Nil)
  qed
  then show ?case by (simp add: Cons.IH starts_with_iff)
qed

text \<open>\<^verbatim>\<open>value.split(sep)\<close> for a one-unit separator: never the empty list.\<close>

fun split_on :: "nat \<Rightarrow> jstr \<Rightarrow> jstr list" where
  "split_on d [] = [[]]"
| "split_on d (c # s) =
     (if c = d then [] # split_on d s
      else (case split_on d s of [] \<Rightarrow> [[c]] | w # ws \<Rightarrow> (c # w) # ws))"

fun join_with :: "nat \<Rightarrow> jstr list \<Rightarrow> jstr" where
  "join_with d [] = []"
| "join_with d [w] = w"
| "join_with d (w # v # ws) = w @ d # join_with d (v # ws)"

lemma split_on_not_Nil [simp]: "split_on d s \<noteq> []"
  by (induction s) (auto split: list.splits)

lemma split_on_no_sep: "w \<in> set (split_on d s) \<Longrightarrow> d \<notin> set w"
proof (induction s arbitrary: w)
  case Nil
  then show ?case by simp
next
  case (Cons c s)
  then show ?case
    by (cases "split_on d s") (auto split: if_splits)
qed

lemma join_split_on: "join_with d (split_on d s) = s"
proof (induction s)
  case Nil
  then show ?case by simp
next
  case (Cons c s)
  then show ?case
    by (cases "split_on d s"; cases "tl (split_on d s)") auto
qed

lemma split_on_append_sep:
  "d \<notin> set w \<Longrightarrow> split_on d (w @ d # s) = w # split_on d s"
  by (induction w) auto

lemma split_on_single: "d \<notin> set w \<Longrightarrow> split_on d w = [w]"
  by (induction w) auto

text \<open>Sorting a set or an array of strings: \<^verbatim>\<open>[...xs].sort()\<close>.\<close>

definition sort_strings :: "jstr list \<Rightarrow> jstr list" where
  "sort_strings xs = sort xs"

lemma set_sort_strings [simp]: "set (sort_strings xs) = set xs"
  by (simp add: sort_strings_def)

lemma sorted_sort_strings [simp]: "sorted (sort_strings xs)"
  by (simp add: sort_strings_def)

lemma distinct_sort_strings [simp]: "distinct (sort_strings xs) = distinct xs"
  by (simp add: sort_strings_def)

lemma sort_strings_eq_Nil [simp]: "sort_strings xs = [] \<longleftrightarrow> xs = []"
  by (metis set_empty set_sort_strings)

text \<open>An optional string in a template.\<close>

definition or_empty :: "jstr option \<Rightarrow> jstr" where
  "or_empty x = (case x of None \<Rightarrow> [] | Some s \<Rightarrow> s)"

lemma or_empty_simps [simp]: "or_empty None = []" "or_empty (Some s) = s"
  by (simp_all add: or_empty_def)

subsection \<open>Character classes\<close>

text \<open>The ASCII classes of the program's regular expressions, on code units.\<close>

definition is_lower :: "nat \<Rightarrow> bool" where [char_class]: "is_lower c \<longleftrightarrow> 97 \<le> c \<and> c \<le> 122"
definition is_upper :: "nat \<Rightarrow> bool" where [char_class]: "is_upper c \<longleftrightarrow> 65 \<le> c \<and> c \<le> 90"
definition is_digit :: "nat \<Rightarrow> bool" where [char_class]: "is_digit c \<longleftrightarrow> 48 \<le> c \<and> c \<le> 57"
definition is_alnum :: "nat \<Rightarrow> bool" where
  [char_class]: "is_alnum c \<longleftrightarrow> is_lower c \<or> is_upper c \<or> is_digit c"

text \<open>Pure ASCII strings: the inputs on which Unicode normalisation is the identity.\<close>

definition is_ascii :: "jstr \<Rightarrow> bool" where
  "is_ascii s \<longleftrightarrow> (\<forall>c \<in> set s. c < 128)"

lemma is_ascii_Nil [simp]: "is_ascii []"
  by (simp add: is_ascii_def)

lemma is_ascii_Cons [simp]: "is_ascii (c # s) \<longleftrightarrow> c < 128 \<and> is_ascii s"
  by (auto simp: is_ascii_def)

lemma is_ascii_append [simp]: "is_ascii (s @ t) \<longleftrightarrow> is_ascii s \<and> is_ascii t"
  by (auto simp: is_ascii_def)

text \<open>
  The byte length of the UTF-8 encoding of a string (\<^verbatim>\<open>TextEncoder.encode\<close>,
  \<^verbatim>\<open>Buffer.byteLength\<close>): a surrogate pair takes four bytes, a lone surrogate
  is replaced by U+FFFD, which takes three.
\<close>

fun utf8_length :: "jstr \<Rightarrow> nat" where
  "utf8_length [] = 0"
| "utf8_length [c] = (if c < 128 then 1 else if c < 2048 then 2 else 3)"
| "utf8_length (c # d # s) =
     (if 55296 \<le> c \<and> c < 56320 \<and> 56320 \<le> d \<and> d < 57344 then 4 + utf8_length s
      else (if c < 128 then 1 else if c < 2048 then 2 else 3) + utf8_length (d # s))"

lemma utf8_length_ascii: "is_ascii s \<Longrightarrow> utf8_length s = length s"
  by (induction s rule: utf8_length.induct) auto

lemma utf8_length_ge: "length s \<le> utf8_length s"
  by (induction s rule: utf8_length.induct) auto

subsection \<open>Decimal numerals\<close>

text \<open>\<^verbatim>\<open>String(n)\<close> and \<^verbatim>\<open>Number(s)\<close> on digit strings.\<close>

fun digits_of :: "nat \<Rightarrow> jstr" where
  "digits_of n = (if n < 10 then [48 + n] else digits_of (n div 10) @ [48 + n mod 10])"

declare digits_of.simps [simp del]

definition number_of_digits :: "jstr \<Rightarrow> nat" where
  "number_of_digits s = foldl (\<lambda>n c. 10 * n + (c - 48)) 0 s"

lemma digits_of_not_Nil [simp]: "digits_of n \<noteq> []"
  by (subst digits_of.simps) simp

lemma digits_of_is_digit: "c \<in> set (digits_of n) \<Longrightarrow> is_digit c"
proof (induction n rule: digits_of.induct)
  case (1 n)
  then show ?case
    by (subst (asm) digits_of.simps) (auto simp: is_digit_def split: if_splits)
qed

lemma number_of_digits_of [simp]: "number_of_digits (digits_of n) = n"
proof (induction n rule: digits_of.induct)
  case (1 n)
  show ?case
  proof (cases "n < 10")
    case True
    then show ?thesis by (simp add: digits_of.simps [of n] number_of_digits_def)
  next
    case False
    with 1 show ?thesis by (simp add: digits_of.simps [of n] number_of_digits_def)
  qed
qed

subsection \<open>Values\<close>

text \<open>
  What an \<^verbatim>\<open>unknown\<close> of the program can be: the JSON values, with
  \<^verbatim>\<open>undefined\<close> beside them.  Numbers keep the distinctions the validators make
  (integers, other finite doubles as a mantissa over a power of two, negative zero, the infinities and NaN).  An object is the
  association list of its own enumerable properties in insertion order; functions,
  symbols and class instances are not values here.
\<close>

datatype js_number =
    Integral int
  | Fractional int nat
  | NegZero
  | Infinite
  | NegInfinite
  | NaN

datatype jsval =
    JUndef
  | JNull
  | JBool bool
  | JNum js_number
  | JStr jstr
  | JArr "jsval list"
  | JObj "(jstr \<times> jsval) list"

definition max_safe_integer :: int where
  "max_safe_integer = 9007199254740991"

text \<open>\<^verbatim>\<open>value.key\<close>, \<^verbatim>\<open>key in value\<close> and \<^verbatim>\<open>Object.keys(value)\<close>.\<close>

fun get_prop :: "jsval \<Rightarrow> jstr \<Rightarrow> jsval" where
  "get_prop (JObj kvs) k = (case map_of kvs k of None \<Rightarrow> JUndef | Some v \<Rightarrow> v)"
| "get_prop _ k = JUndef"

fun has_prop :: "jsval \<Rightarrow> jstr \<Rightarrow> bool" where
  "has_prop (JObj kvs) k = (k \<in> fst ` set kvs)"
| "has_prop _ k = False"

fun object_keys :: "jsval \<Rightarrow> jstr list" where
  "object_keys (JObj kvs) = map fst kvs"
| "object_keys _ = []"

fun is_record :: "jsval \<Rightarrow> bool" where
  "is_record (JObj kvs) = True"
| "is_record _ = False"

lemma has_prop_iff: "has_prop v k \<longleftrightarrow> k \<in> set (object_keys v)"
  by (cases v) auto

lemma get_prop_absent: "\<not> has_prop v k \<Longrightarrow> get_prop v k = JUndef"
  by (cases v) (force dest: map_of_SomeD split: option.splits)+

lemma is_recordE:
  assumes "is_record v"
  obtains kvs where "v = JObj kvs"
  using assms by (cases v) auto

text \<open>\<^verbatim>\<open>Number.isSafeInteger\<close> on a value.\<close>

fun safe_integer :: "jsval \<Rightarrow> int option" where
  "safe_integer (JNum (Integral n)) = (if \<bar>n\<bar> \<le> max_safe_integer then Some n else None)"
| "safe_integer (JNum NegZero) = Some 0"
| "safe_integer _ = None"

lemma safe_integer_bound: "safe_integer v = Some n \<Longrightarrow> \<bar>n\<bar> \<le> max_safe_integer"
  by (cases v rule: safe_integer.cases) (auto simp: max_safe_integer_def split: if_splits)

subsection \<open>Errors\<close>

text \<open>Sequencing of computations that may throw: \<^const>\<open>Inl\<close> is the thrown error.\<close>

definition on_ok :: "'e + 'a \<Rightarrow> ('a \<Rightarrow> 'e + 'b) \<Rightarrow> 'e + 'b" where
  "on_ok x f = (case x of Inl e \<Rightarrow> Inl e | Inr v \<Rightarrow> f v)"

lemma on_ok_simps [simp]: "on_ok (Inl e) f = Inl e" "on_ok (Inr v) f = f v"
  by (simp_all add: on_ok_def)

lemma on_ok_Inr [simp]: "on_ok x f = Inr v \<longleftrightarrow> (\<exists>u. x = Inr u \<and> f u = Inr v)"
  by (cases x) auto

lemma on_ok_Inl: "on_ok x f = Inl e \<longleftrightarrow> x = Inl e \<or> (\<exists>u. x = Inr u \<and> f u = Inl e)"
  by (cases x) auto

subsection \<open>Insertion-ordered sets\<close>

text \<open>\<^verbatim>\<open>new Set()\<close> with \<^verbatim>\<open>add\<close>: first insertion wins the position.\<close>

definition set_add :: "'a \<Rightarrow> 'a list \<Rightarrow> 'a list" where
  "set_add x xs = (if x \<in> set xs then xs else xs @ [x])"

definition set_add_all :: "'a list \<Rightarrow> 'a list \<Rightarrow> 'a list" where
  "set_add_all ys xs = foldl (\<lambda>acc y. set_add y acc) xs ys"

lemma set_set_add [simp]: "set (set_add x xs) = insert x (set xs)"
  by (auto simp: set_add_def)

lemma distinct_set_add [simp]: "distinct xs \<Longrightarrow> distinct (set_add x xs)"
  by (auto simp: set_add_def)

lemma set_add_not_Nil [simp]: "set_add x xs \<noteq> []"
  by (auto simp: set_add_def)

lemma set_set_add_all [simp]: "set (set_add_all ys xs) = set ys \<union> set xs"
  unfolding set_add_all_def by (induction ys arbitrary: xs) auto

lemma distinct_set_add_all [simp]: "distinct xs \<Longrightarrow> distinct (set_add_all ys xs)"
  unfolding set_add_all_def by (induction ys arbitrary: xs) auto

end
