(* ===== verification/Change_Types.thy ===== *)
theory Change_Types
  imports Prelude
begin

text \<open>
  The data of the Change contract that the execution machines and the trusted adapter
  exchange: the types of \<^verbatim>\<open>src/change.ts\<close> and of
  \<^verbatim>\<open>src/change-execution-port.ts\<close>.  Optional properties are
  \<^verbatim>\<open>option\<close> fields; unions discriminated by \<^verbatim>\<open>kind\<close> are
  datatypes; payloads the modelled code only passes on (Semantic Pull Request plans, branch
  plans, rendered contracts) are values of type \<^typ>\<open>jsval\<close>.
\<close>

subsection \<open>Changes\<close>

datatype change_state =
  DEFINED | DRAFT | REVIEW | ACCEPTED | MERGED | ABORTED | RECOVERY_REQUIRED

datatype change_transition = OpIssue | OpReady | OpAbort | OpMerge

record change_identity =
  repository_host :: jstr
  repository_id :: jstr
  root_issue :: int

record change_provenance =
  requester :: "jstr option"
  issuer :: "jstr option"
  implementer :: "jstr option"
  reviewer :: "jstr option"
  merger :: "jstr option"

record change_projection =
  cp_branch :: "jstr option"
  cp_pull_request :: "int option"

record change =
  ch_identity :: change_identity
  ch_state :: change_state
  ch_provenance :: change_provenance
  ch_projection :: "change_projection option"

text \<open>The principal of the trusted issuer.\<close>

definition inari_issuer_principal :: jstr where
  "inari_issuer_principal = js ''app:inari-issuer''"

subsection \<open>Effects\<close>

datatype change_effect =
    CREATE_BRANCH (eff_branch: jstr) (eff_base: jstr)
  | CREATE_PROVENANCE_COMMIT jstr int jstr
  | CREATE_PULL_REQUEST jstr jstr int jstr jstr "jsval option"
  | MARK_PULL_REQUEST_READY int
  | CLOSE_PULL_REQUEST int
  | DELETE_BRANCH jstr "jstr option"

datatype change_effect_kind =
    K_CREATE_BRANCH
  | K_CREATE_PROVENANCE_COMMIT
  | K_CREATE_PULL_REQUEST
  | K_MARK_PULL_REQUEST_READY
  | K_CLOSE_PULL_REQUEST
  | K_DELETE_BRANCH

fun effect_kind :: "change_effect \<Rightarrow> change_effect_kind" where
  "effect_kind (CREATE_BRANCH b base) = K_CREATE_BRANCH"
| "effect_kind (CREATE_PROVENANCE_COMMIT b i p) = K_CREATE_PROVENANCE_COMMIT"
| "effect_kind (CREATE_PULL_REQUEST b base i t bd sp) = K_CREATE_PULL_REQUEST"
| "effect_kind (MARK_PULL_REQUEST_READY n) = K_MARK_PULL_REQUEST_READY"
| "effect_kind (CLOSE_PULL_REQUEST n) = K_CLOSE_PULL_REQUEST"
| "effect_kind (DELETE_BRANCH b sha) = K_DELETE_BRANCH"

datatype effect_success_evidence =
    EV_CREATE_BRANCH jstr jstr jstr
  | EV_CREATE_PROVENANCE_COMMIT jstr int jstr jstr
  | EV_CREATE_PULL_REQUEST jstr jstr int int
  | EV_MARK_PULL_REQUEST_READY int
  | EV_CLOSE_PULL_REQUEST int
  | EV_DELETE_BRANCH jstr
  | EV_DELETE_BRANCH_COMPARED jstr jstr bool

datatype effect_failure_reason =
  Credential | Scope | Transport | Provider_Http | Response_Validation | Generation_Mismatch

datatype provider_category =
  Validation_Failed | Authentication_Failed | Conflict | Rate_Limit

record provider_diagnostic =
  pd_category :: provider_category
  pd_resource :: "jstr option"
  pd_field :: "jstr option"
  pd_code :: "jstr option"

record effect_failure =
  ef_code :: jstr
  ef_message :: jstr
  ef_reason :: "effect_failure_reason option"
  ef_status :: "int option"
  ef_provider :: "provider_diagnostic option"

record effect_failure_evidence =
  fe_effect :: change_effect
  fe_failure :: effect_failure

datatype attempt_status = Succeeded | Failed

record effect_attempt =
  at_effect :: change_effect
  at_status :: attempt_status
  at_evidence :: "effect_success_evidence option"

subsection \<open>Diagnostics\<close>

record change_diagnostic =
  cd_code :: jstr
  cd_path :: jstr
  cd_message :: jstr

subsection \<open>Evidence and projections\<close>

datatype projection_status =
  Healthy | Absent | Partial | Duplicate | Wrong_Base | Ambiguous | Unavailable

datatype candidate_class = Canonical | Noncanonical | Conflicting

datatype issue_state = Open_State | Closed_State

record branch_evidence =
  be_name :: jstr
  be_sha :: "jstr option"
  be_root_issue :: "int option"

record pull_request_evidence =
  pe_number :: int
  pe_head :: jstr
  pe_head_sha :: "jstr option"
  pe_base :: jstr
  pe_state :: issue_state
  pe_draft :: bool
  pe_merged :: "bool option"
  pe_accepted :: "bool option"
  pe_root_issue :: "int option"
  pe_provenance :: "change_provenance option"

record 'a candidate =
  cand_value :: 'a
  cand_class :: candidate_class
  cand_reason :: jstr

record projection_result =
  pr_valid :: bool
  pr_status :: projection_status
  pr_canonical_branch :: "jstr option"
  pr_canonical_base :: "jstr option"
  pr_branches :: "branch_evidence candidate list"
  pr_pull_requests :: "pull_request_evidence candidate list"
  pr_change :: "change option"
  pr_diagnostics :: "change_diagnostic list"

definition projection_root_issue :: "projection_result \<Rightarrow> int option" where
  "projection_root_issue p = map_option (\<lambda>c. root_issue (ch_identity c)) (pr_change p)"

subsection \<open>Plans\<close>

record transition_target =
  tt_branch_plan :: "jsval option"
  tt_branch :: "jstr option"
  tt_base_branch :: "jstr option"
  tt_pull_request :: "int option"
  tt_branch_commit_sha :: "jstr option"
  tt_semantic_plan :: "jsval option"
  tt_semantic_merge_plan :: "jsval option"

record transition_request =
  tq_transition :: change_transition
  tq_change :: change
  tq_target :: "transition_target option"

record transition_plan =
  tp_request :: transition_request
  tp_from :: change_state
  tp_to :: change_state
  tp_result :: change
  tp_effects :: "change_effect list"

datatype issuance_mode = Create_Mode | Return_Existing

record issuance_transaction =
  it_identity :: change_identity
  it_idempotency_key :: jstr

record issuance_verification =
  iv_branch :: jstr
  iv_base :: jstr
  iv_state :: change_state
  iv_pull_request :: "int option"

record issuance_plan =
  ip_mode :: issuance_mode
  ip_source_status :: projection_status
  ip_transaction :: issuance_transaction
  ip_branch_plan :: "jsval option"
  ip_result :: change
  ip_effects :: "change_effect list"
  ip_verification :: issuance_verification

subsection \<open>The execution port\<close>

datatype execution_effect_kind = Change_Effect change_effect_kind | Merge_Pull_Request

record effect_evidence =
  ee_kind :: execution_effect_kind
  ee_status :: attempt_status
  ee_created_commit :: "jstr option"

datatype execution_outcome = Verified | Returned_Existing | Compensated | Recovery_Needed | Exec_Failed

record execution_failure_evidence =
  xf_kind :: execution_effect_kind
  xf_failure :: effect_failure

datatype compensation_status = Not_Required | Comp_Succeeded | Comp_Failed

record execution_evidence =
  xe_operation :: change_transition
  xe_outcome :: execution_outcome
  xe_requester :: "jstr option"
  xe_issuer :: "jstr option"
  xe_effects :: "effect_evidence list"
  xe_compensation :: "compensation_status option"
  xe_compensation_failure :: "execution_failure_evidence option"
  xe_failure :: "execution_failure_evidence option"

record execution_result =
  xr_projection :: projection_result
  xr_evidence :: "execution_evidence option"

record mutation_request =
  mr_issue :: int
  mr_operation :: change_transition
  mr_semantic_plan :: "jsval option"
  mr_merge_strategy :: "jstr option"
  mr_signed_provenance :: "jsval option"
  mr_implementation_conformance :: "jsval option"

datatype execution_failure_code =
    READ_FAILED
  | PRECONDITION_FAILED
  | EFFECT_FAILED
  | PROJECTION_VERIFICATION_FAILED
  | EXECUTION_RECOVERY_REQUIRED

record execution_failure =
  xl_code :: execution_failure_code
  xl_message :: jstr
  xl_diagnostics :: "change_diagnostic list"
  xl_evidence :: "execution_evidence option"

text \<open>What a machine resolves to: a result, or a failure the adapter throws.\<close>

datatype execution_outcome_value = Result execution_result | Failure execution_failure

definition exec_failure :: "execution_failure_code \<Rightarrow> string \<Rightarrow> change_diagnostic list \<Rightarrow> execution_failure" where
  "exec_failure code msg ds = \<lparr>xl_code = code, xl_message = js msg, xl_diagnostics = ds, xl_evidence = None\<rparr>"

lemma exec_failure_sel [simp]:
  "xl_code (exec_failure c m ds) = c"
  "xl_message (exec_failure c m ds) = js m"
  "xl_diagnostics (exec_failure c m ds) = ds"
  "xl_evidence (exec_failure c m ds) = None"
  by (simp_all add: exec_failure_def)

end
