(* ===== verification/Lifecycle.thy ===== *)
theory Lifecycle
  imports Change_Types "HOL-Library.Sublist"
begin

text \<open>
  The Change lifecycle machine, \<^verbatim>\<open>src/change/machine/lifecycle-machine.ts\<close>: the
  XState graph with its transient \<^verbatim>\<open>admit\<close> node, one event per operation, the
  pure transition function, the stateful facade and the edge resolver.  An actor is created for
  one transition, started (which leaves \<^verbatim>\<open>admit\<close> through the first enabled guard),
  sent one event and read.
\<close>

subsection \<open>The graph\<close>

datatype lifecycle_event = ISSUE | READY | ABORT | MERGE

record lifecycle_context =
  initial_state :: change_state
  last_accepted :: "lifecycle_event option"

datatype lifecycle_node = Admit | Node change_state

definition lifecycle_states :: "change_state list" where
  "lifecycle_states = [DEFINED, DRAFT, REVIEW, ACCEPTED, MERGED, ABORTED, RECOVERY_REQUIRED]"

text \<open>The eventless transitions of \<^verbatim>\<open>admit\<close>: the first whose guard holds.\<close>

definition admit_always :: "lifecycle_context \<Rightarrow> lifecycle_node" where
  "admit_always ctx =
     (case find (\<lambda>s. initial_state ctx = s) lifecycle_states of
        None \<Rightarrow> Admit
      | Some s \<Rightarrow> Node s)"

text \<open>The \<^verbatim>\<open>on\<close> tables; an event without an entry is dropped by the actor.\<close>

fun lifecycle_on :: "change_state \<Rightarrow> lifecycle_event \<Rightarrow> change_state option" where
  "lifecycle_on DEFINED ISSUE = Some DRAFT"
| "lifecycle_on DRAFT READY = Some REVIEW"
| "lifecycle_on DRAFT ABORT = Some ABORTED"
| "lifecycle_on REVIEW READY = Some REVIEW"
| "lifecycle_on REVIEW MERGE = Some MERGED"
| "lifecycle_on REVIEW ABORT = Some ABORTED"
| "lifecycle_on ACCEPTED MERGE = Some MERGED"
| "lifecycle_on ABORTED ABORT = Some ABORTED"
| "lifecycle_on RECOVERY_REQUIRED ABORT = Some ABORTED"
| "lifecycle_on _ _ = None"

definition lifecycle_start :: "change_state \<Rightarrow> lifecycle_node \<times> lifecycle_context" where
  "lifecycle_start s =
     (let ctx = \<lparr>initial_state = s, last_accepted = None\<rparr> in (admit_always ctx, ctx))"

text \<open>Sending one event: a taken transition runs \<^verbatim>\<open>recordAcceptedEvent\<close>.\<close>

fun lifecycle_send ::
  "lifecycle_event \<Rightarrow> lifecycle_node \<times> lifecycle_context \<Rightarrow> lifecycle_node \<times> lifecycle_context"
where
  "lifecycle_send e (Admit, ctx) = (Admit, ctx)"
| "lifecycle_send e (Node s, ctx) =
     (case lifecycle_on s e of
        None \<Rightarrow> (Node s, ctx)
      | Some t \<Rightarrow> (Node t, ctx\<lparr>last_accepted := Some e\<rparr>))"

subsection \<open>One transition\<close>

text \<open>
  \<^verbatim>\<open>Other_Operation\<close> is a value the caller forged past the type of
  operations, which \<^verbatim>\<open>eventForOperation\<close> answers with \<^verbatim>\<open>undefined\<close>.
\<close>

datatype lifecycle_operation = Operation change_transition | Other_Operation jstr

datatype lifecycle_error = Unknown_Lifecycle_State jstr | Invalid_Public_State

datatype lifecycle_rejection = Not_Allowed | Unsupported

record lifecycle_result =
  lr_operation :: lifecycle_operation
  lr_from :: change_state
  lr_to :: change_state
  lr_accepted :: bool
  lr_idempotent :: bool
  lr_rejection :: "lifecycle_rejection option"

fun change_state_name :: "change_state \<Rightarrow> jstr" where
  "change_state_name DEFINED = js ''DEFINED''"
| "change_state_name DRAFT = js ''DRAFT''"
| "change_state_name REVIEW = js ''REVIEW''"
| "change_state_name ACCEPTED = js ''ACCEPTED''"
| "change_state_name MERGED = js ''MERGED''"
| "change_state_name ABORTED = js ''ABORTED''"
| "change_state_name RECOVERY_REQUIRED = js ''RECOVERY_REQUIRED''"

definition assert_lifecycle_state :: "jstr \<Rightarrow> lifecycle_error + change_state" where
  "assert_lifecycle_state name =
     (case find (\<lambda>s. change_state_name s = name) lifecycle_states of
        None \<Rightarrow> Inl (Unknown_Lifecycle_State name)
      | Some s \<Rightarrow> Inr s)"

fun state_from_snapshot :: "lifecycle_node \<Rightarrow> lifecycle_error + change_state" where
  "state_from_snapshot Admit = Inl Invalid_Public_State"
| "state_from_snapshot (Node s) =
     (if s \<in> set lifecycle_states then Inr s else Inl Invalid_Public_State)"

fun event_for_operation :: "lifecycle_operation \<Rightarrow> lifecycle_event option" where
  "event_for_operation (Operation OpIssue) = Some ISSUE"
| "event_for_operation (Operation OpReady) = Some READY"
| "event_for_operation (Operation OpAbort) = Some ABORT"
| "event_for_operation (Operation OpMerge) = Some MERGE"
| "event_for_operation (Other_Operation _) = None"

definition rejected_transition ::
  "lifecycle_operation \<Rightarrow> change_state \<Rightarrow> lifecycle_rejection \<Rightarrow> lifecycle_result" where
  "rejected_transition op s r =
     \<lparr>lr_operation = op, lr_from = s, lr_to = s, lr_accepted = False,
      lr_idempotent = False, lr_rejection = Some r\<rparr>"

definition transition_change_lifecycle ::
  "change_state \<Rightarrow> lifecycle_operation \<Rightarrow> lifecycle_error + lifecycle_result" where
  "transition_change_lifecycle s op =
     (case event_for_operation op of
        None \<Rightarrow> Inr (rejected_transition op s Unsupported)
      | Some e \<Rightarrow>
          (let (node, ctx) = lifecycle_send e (lifecycle_start s) in
           case state_from_snapshot node of
             Inl err \<Rightarrow> Inl err
           | Inr t \<Rightarrow>
               if last_accepted ctx \<noteq> Some e then Inr (rejected_transition op s Not_Allowed)
               else Inr \<lparr>lr_operation = op, lr_from = s, lr_to = t, lr_accepted = True,
                         lr_idempotent = (s = t), lr_rejection = None\<rparr>))"

text \<open>The exported entry point also asserts that the state it was given is a known one.\<close>

definition transition_named_lifecycle ::
  "jstr \<Rightarrow> lifecycle_operation \<Rightarrow> lifecycle_error + lifecycle_result" where
  "transition_named_lifecycle name op =
     (case assert_lifecycle_state name of
        Inl err \<Rightarrow> Inl err
      | Inr s \<Rightarrow> transition_change_lifecycle s op)"

definition resolve_change_lifecycle_transition ::
  "lifecycle_operation \<Rightarrow> change_state \<Rightarrow>
     (lifecycle_operation \<times> change_state \<times> change_state) option" where
  "resolve_change_lifecycle_transition op s =
     (case transition_change_lifecycle s op of
        Inl err \<Rightarrow> None
      | Inr r \<Rightarrow> if lr_accepted r then Some (op, lr_from r, lr_to r) else None)"

subsection \<open>The stateful facade\<close>

text \<open>\<^verbatim>\<open>createChangeLifecycleMachine\<close>: the state moves to \<^verbatim>\<open>result.to\<close>.\<close>

definition facade_transition ::
  "change_state \<Rightarrow> lifecycle_operation \<Rightarrow> lifecycle_error + (lifecycle_result \<times> change_state)" where
  "facade_transition s op =
     (case transition_change_lifecycle s op of
        Inl err \<Rightarrow> Inl err
      | Inr r \<Rightarrow> Inr (r, lr_to r))"

fun facade_run ::
  "change_state \<Rightarrow> lifecycle_operation list \<Rightarrow> lifecycle_error + (lifecycle_result list \<times> change_state)"
where
  "facade_run s [] = Inr ([], s)"
| "facade_run s (op # ops) =
     (case facade_transition s op of
        Inl err \<Rightarrow> Inl err
      | Inr (r, t) \<Rightarrow>
          (case facade_run t ops of
             Inl err \<Rightarrow> Inl err
           | Inr (rs, u) \<Rightarrow> Inr (r # rs, u)))"

subsection \<open>The contract: an abstract lifecycle relation\<close>

text \<open>
  The edges of the lifecycle as a relation.  The facade refines it: an accepted result is an
  edge, a rejected one leaves the state alone.
\<close>

inductive lifecycle_edge :: "change_state \<Rightarrow> change_transition \<Rightarrow> change_state \<Rightarrow> bool" where
  issue: "lifecycle_edge DEFINED OpIssue DRAFT"
| ready: "s \<in> {DRAFT, REVIEW} \<Longrightarrow> lifecycle_edge s OpReady REVIEW"
| merge: "s \<in> {REVIEW, ACCEPTED} \<Longrightarrow> lifecycle_edge s OpMerge MERGED"
| abort: "s \<in> {DRAFT, REVIEW, ABORTED, RECOVERY_REQUIRED} \<Longrightarrow> lifecycle_edge s OpAbort ABORTED"

inductive_simps lifecycle_edge_iff: "lifecycle_edge s op t"
inductive_cases edge_to_merged: "lifecycle_edge s op MERGED"
inductive_cases edge_to_review: "lifecycle_edge s op REVIEW"
inductive_cases edge_to_draft: "lifecycle_edge s op DRAFT"

lemma lifecycle_states_all [simp]: "s \<in> set lifecycle_states"
  by (cases s) (simp_all add: lifecycle_states_def)

lemma admit_always_eq [simp]: "admit_always ctx = Node (initial_state ctx)"
  by (cases "initial_state ctx") (simp_all add: admit_always_def lifecycle_states_def)

lemma lifecycle_start_eq [simp]:
  "lifecycle_start s = (Node s, \<lparr>initial_state = s, last_accepted = None\<rparr>)"
  by (simp add: lifecycle_start_def)

lemma assert_state_name [simp]: "assert_lifecycle_state (change_state_name s) = Inr s"
  by (cases s) (simp_all add: assert_lifecycle_state_def lifecycle_states_def)

text \<open>The transition function in closed form: it never throws.\<close>

lemma transition_eq:
  "transition_change_lifecycle s op =
     (case event_for_operation op of
        None \<Rightarrow> Inr (rejected_transition op s Unsupported)
      | Some e \<Rightarrow>
          (case lifecycle_on s e of
             None \<Rightarrow> Inr (rejected_transition op s Not_Allowed)
           | Some t \<Rightarrow> Inr \<lparr>lr_operation = op, lr_from = s, lr_to = t, lr_accepted = True,
                            lr_idempotent = (s = t), lr_rejection = None\<rparr>))"
  by (simp add: transition_change_lifecycle_def split: option.splits)

lemma transition_total: "\<exists>r. transition_change_lifecycle s op = Inr r"
  by (simp add: transition_eq split: option.splits)

lemma transition_edge:
  "(\<exists>r. transition_change_lifecycle s (Operation op) = Inr r \<and> lr_accepted r \<and> lr_to r = t)
     \<longleftrightarrow> lifecycle_edge s op t"
  by (cases s; cases op; cases t)
     (simp_all add: transition_eq lifecycle_edge_iff rejected_transition_def)

lemma transition_rejected_stays:
  "transition_change_lifecycle s op = Inr r \<Longrightarrow> \<not> lr_accepted r \<Longrightarrow> lr_to r = s"
  by (auto simp: transition_eq rejected_transition_def split: option.splits)

lemma transition_fields:
  "transition_change_lifecycle s op = Inr r \<Longrightarrow>
     lr_operation r = op \<and> lr_from r = s \<and> (lr_idempotent r \<longleftrightarrow> lr_accepted r \<and> lr_to r = s)
     \<and> (lr_rejection r = None \<longleftrightarrow> lr_accepted r)"
  by (auto simp: transition_eq rejected_transition_def split: option.splits)

lemma facade_transition_total: "\<exists>r. facade_transition s op = Inr (r, lr_to r)"
  using transition_total [of s op] by (auto simp: facade_transition_def)

subsection \<open>Runs of the facade\<close>

text \<open>The operations a run accepted, and the paths of the abstract relation.\<close>

definition accepted_operations :: "lifecycle_result list \<Rightarrow> lifecycle_operation list" where
  "accepted_operations rs = map lr_operation (filter lr_accepted rs)"

inductive lifecycle_path :: "change_state \<Rightarrow> lifecycle_operation list \<Rightarrow> change_state \<Rightarrow> bool" where
  path_nil: "lifecycle_path s [] s"
| path_step: "lifecycle_edge s op t \<Longrightarrow> lifecycle_path t ops u \<Longrightarrow>
    lifecycle_path s (Operation op # ops) u"

inductive_cases path_consE: "lifecycle_path s (op # ops) u"
inductive_cases path_nilE: "lifecycle_path s [] u"

lemma accepted_operations_simps [simp]:
  "accepted_operations [] = []"
  "accepted_operations (r # rs) =
     (if lr_accepted r then lr_operation r # accepted_operations rs else accepted_operations rs)"
  by (simp_all add: accepted_operations_def)

lemma facade_run_ConsE:
  assumes "facade_run s (op # ops) = Inr (rs, u)"
  obtains r rs' where "transition_change_lifecycle s op = Inr r" "rs = r # rs'"
    "facade_run (lr_to r) ops = Inr (rs', u)"
  using assms by (auto simp: facade_transition_def split: sum.splits prod.splits)

lemma accepted_is_edge:
  assumes "transition_change_lifecycle s op = Inr r" "lr_accepted r"
  obtains o' where "op = Operation o'" "lifecycle_edge s o' (lr_to r)"
proof (cases op)
  case (Operation o')
  with assms that show ?thesis by (metis transition_edge)
next
  case (Other_Operation x)
  with assms show ?thesis by (auto simp: transition_eq rejected_transition_def)
qed

lemma facade_run_path:
  "facade_run s ops = Inr (rs, u) \<Longrightarrow> lifecycle_path s (accepted_operations rs) u"
proof (induction ops arbitrary: s rs)
  case Nil
  then show ?case by (auto intro: path_nil)
next
  case (Cons op ops)
  from Cons.prems obtain r rs' where r: "transition_change_lifecycle s op = Inr r" "rs = r # rs'"
    and rest: "facade_run (lr_to r) ops = Inr (rs', u)" by (rule facade_run_ConsE)
  from rest have path: "lifecycle_path (lr_to r) (accepted_operations rs') u" by (rule Cons.IH)
  show ?case
  proof (cases "lr_accepted r")
    case True
    with r obtain o' where o': "op = Operation o'" "lifecycle_edge s o' (lr_to r)"
      by (metis accepted_is_edge)
    from r(1) have "lr_operation r = op" by (simp add: transition_fields)
    with True r o' path show ?thesis by (auto intro: path_step)
  next
    case False
    with r path show ?thesis by (simp add: transition_rejected_stays)
  qed
qed

lemma facade_run_total: "\<exists>rs u. facade_run s ops = Inr (rs, u) \<and> length rs = length ops"
proof (induction ops arbitrary: s)
  case Nil
  then show ?case by simp
next
  case (Cons op ops)
  from transition_total obtain r where "transition_change_lifecycle s op = Inr r" by blast
  moreover from Cons.IH obtain rs u where "facade_run (lr_to r) ops = Inr (rs, u)" "length rs = length ops"
    by blast
  ultimately show ?case by (simp add: facade_transition_def)
qed

text \<open>What must still be accepted to reach \<^const>\<open>MERGED\<close> from each state.\<close>

fun merge_obligation :: "change_state \<Rightarrow> lifecycle_operation list" where
  "merge_obligation DEFINED = [Operation OpIssue, Operation OpReady, Operation OpMerge]"
| "merge_obligation DRAFT = [Operation OpReady, Operation OpMerge]"
| "merge_obligation REVIEW = [Operation OpMerge]"
| "merge_obligation ACCEPTED = [Operation OpMerge]"
| "merge_obligation _ = []"

lemma edge_obligation:
  assumes "lifecycle_edge s op t" "subseq (merge_obligation t) ops" "t \<noteq> ABORTED"
  shows "subseq (merge_obligation s) (Operation op # ops)"
  using assms by (cases s) (auto simp: lifecycle_edge_iff)

lemma aborted_path: "lifecycle_path ABORTED ops t \<Longrightarrow> t = ABORTED"
  by (induction ABORTED ops t rule: lifecycle_path.induct) (auto simp: lifecycle_edge_iff)

lemma path_obligation:
  "lifecycle_path s ops t \<Longrightarrow> t = MERGED \<Longrightarrow> subseq (merge_obligation s) ops"
proof (induction rule: lifecycle_path.induct)
  case (path_nil s)
  then show ?case by simp
next
  case (path_step s op t ops u)
  from path_step.hyps(2) path_step.prems have "t \<noteq> ABORTED"
    by (auto dest: aborted_path)
  with path_step show ?case by (auto intro: edge_obligation)
qed

lemma merged_path: "lifecycle_path MERGED ops t \<Longrightarrow> ops = [] \<and> t = MERGED"
  by (cases ops) (auto simp: lifecycle_edge_iff elim: path_nilE path_consE)

text \<open>
  C1. The stateful facade refines the abstract lifecycle relation: every sequence of
  operations, forged ones included, is answered without an exception, one result per
  operation, and the accepted operations label a path of legal edges from the initial to the
  final state.
\<close>

theorem facade_refines_lifecycle:
  "\<exists>rs u. facade_run s ops = Inr (rs, u) \<and> length rs = length ops
     \<and> lifecycle_path s (accepted_operations rs) u"
  using facade_run_total [of s ops] facade_run_path by blast

text \<open>
  No Change is merged without having been issued and made ready for review first: when a
  run of the facade from \<^verbatim>\<open>DEFINED\<close> ends in \<^verbatim>\<open>MERGED\<close>, its accepted operations contain
  issue, ready and merge in this order.
\<close>

theorem merged_only_through_review:
  assumes "facade_run DEFINED ops = Inr (rs, MERGED)"
  shows "subseq [Operation OpIssue, Operation OpReady, Operation OpMerge] (accepted_operations rs)"
  using path_obligation [OF facade_run_path [OF assms]] by simp

theorem merged_only_through_review_witness:
  "\<exists>rs. facade_run DEFINED
     [Operation OpIssue, Operation OpMerge, Operation OpReady, Operation OpMerge] = Inr (rs, MERGED)
   \<and> subseq [Operation OpIssue, Operation OpReady, Operation OpMerge] (accepted_operations rs)"
proof -
  have "\<exists>rs. facade_run DEFINED
     [Operation OpIssue, Operation OpMerge, Operation OpReady, Operation OpMerge] = Inr (rs, MERGED)"
    by (simp add: facade_transition_def transition_eq rejected_transition_def)
  then show ?thesis using merged_only_through_review by blast
qed

text \<open>
  Terminal states absorb: from \<^verbatim>\<open>MERGED\<close> no operation is accepted any more, and from
  \<^verbatim>\<open>ABORTED\<close> every run stays in \<^verbatim>\<open>ABORTED\<close> (a repeated abort is
  the only accepted, idempotent, operation).
\<close>

theorem terminal_states_absorb:
  "(facade_run MERGED ops = Inr (rs, u) \<longrightarrow> u = MERGED \<and> accepted_operations rs = [])
   \<and> (facade_run ABORTED ops = Inr (rs, u) \<longrightarrow>
        u = ABORTED \<and> set (accepted_operations rs) \<subseteq> {Operation OpAbort})"
proof (intro conjI impI)
  assume "facade_run MERGED ops = Inr (rs, u)"
  then show "u = MERGED" "accepted_operations rs = []"
    using facade_run_path merged_path by blast+
next
  assume run: "facade_run ABORTED ops = Inr (rs, u)"
  then have path: "lifecycle_path ABORTED (accepted_operations rs) u" by (rule facade_run_path)
  then show "u = ABORTED" by (rule aborted_path)
  have "lifecycle_path s xs t \<Longrightarrow> s = ABORTED \<Longrightarrow> set xs \<subseteq> {Operation OpAbort}" for s xs t
    by (induction rule: lifecycle_path.induct) (auto simp: lifecycle_edge_iff)
  with path show "set (accepted_operations rs) \<subseteq> {Operation OpAbort}" by blast
qed

theorem terminal_states_absorb_witness:
  "\<exists>rs. facade_run ABORTED [Operation OpMerge, Operation OpAbort] = Inr (rs, ABORTED)
     \<and> set (accepted_operations rs) \<subseteq> {Operation OpAbort}"
proof -
  have "\<exists>rs. facade_run ABORTED [Operation OpMerge, Operation OpAbort] = Inr (rs, ABORTED)"
    by (simp add: facade_transition_def transition_eq rejected_transition_def)
  then show ?thesis using terminal_states_absorb by blast
qed

end
