(* ===== verification/Statechart.thy ===== *)
theory Statechart
  imports Lifecycle
begin

text \<open>
  The execution model shared by the three Change execution machines.  Each machine of
  \<^verbatim>\<open>src/change/machine/\<close> is an XState configuration: on entry a state runs its
  \<^verbatim>\<open>entry\<close> assignment; a final state then stops the actor; otherwise the first
  enabled \<^verbatim>\<open>always\<close> transition is taken, or the state's invoked promise is
  awaited and its \<^verbatim>\<open>onDone\<close> or \<^verbatim>\<open>onError\<close> transition is taken.  An
  exception thrown by an assignment or a guard stops the actor in error, and the
  \<^verbatim>\<open>execute...WithXState\<close> wrapper turns that into a failure.

  A chart packages these per-state functions; the services of a machine are part of it.  The
  environment (repository reads, provider effects) is a state of type \<open>'w\<close> threaded through
  the invoked promises; every invoked promise settles.  \<^const>\<open>None\<close> stands for a thrown
  exception.
\<close>

subsection \<open>Promises and their payloads\<close>

datatype 'a settled = Fulfilled 'a | Rejected

datatype 'i read_result = Read_Ok 'i | Read_Failed execution_failure

datatype effect_result = Effect_Ok "effect_success_evidence option" | Effect_Failed effect_failure

datatype 'p plan_result = Plan_Ok 'p | Plan_Failed execution_failure

record verification_result =
  ve_valid :: bool
  ve_diagnostics :: "change_diagnostic list"
  ve_message :: "jstr option"

definition default_read_failure :: execution_failure where
  "default_read_failure =
     exec_failure READ_FAILED ''Trusted Change evidence read failed closed.'' []"

definition identity_failure :: execution_failure where
  "identity_failure =
     exec_failure READ_FAILED
       ''Trusted Change evidence identity does not match the semantic request.'' []"

text \<open>\<^verbatim>\<open>value ?? fallback\<close>.\<close>

definition or_else :: "'a option \<Rightarrow> 'a \<Rightarrow> 'a" where
  "or_else x d = (case x of None \<Rightarrow> d | Some v \<Rightarrow> v)"

lemma or_else_simps [simp]: "or_else None d = d" "or_else (Some v) d = v"
  by (simp_all add: or_else_def)

subsection \<open>Charts\<close>

record ('s, 'c, 'w) chart =
  entry_action :: "'s \<Rightarrow> 'c \<Rightarrow> 'c option"
  transition :: "'s \<Rightarrow> 'c \<Rightarrow> 'w \<Rightarrow> ('s \<times> 'c) option \<times> 'w"
  is_final :: "'s \<Rightarrow> bool"

datatype ('s, 'c, 'w) status = Active 's 'c 'w | Stopped 's 'c 'w | Errored 'w

fun is_active :: "('s, 'c, 'w) status \<Rightarrow> bool" where
  "is_active (Active s c w) = True"
| "is_active _ = False"

text \<open>Enter the current state; stop there if it is final; else take its transition.\<close>

fun chart_step :: "('s, 'c, 'w) chart \<Rightarrow> ('s, 'c, 'w) status \<Rightarrow> ('s, 'c, 'w) status" where
  "chart_step ch (Active s c w) =
     (case entry_action ch s c of
        None \<Rightarrow> Errored w
      | Some c' \<Rightarrow>
          if is_final ch s then Stopped s c' w
          else (case transition ch s c' w of
                  (None, w') \<Rightarrow> Errored w'
                | (Some (t, c''), w') \<Rightarrow> Active t c'' w'))"
| "chart_step ch st = st"

text \<open>The actor runs until it stops; \<^const>\<open>None\<close> would be a run that never does.\<close>

partial_function (option) chart_run ::
  "('s, 'c, 'w) chart \<Rightarrow> ('s, 'c, 'w) status \<Rightarrow> ('s, 'c, 'w) status option" where
  "chart_run ch st = (if is_active st then chart_run ch (chart_step ch st) else Some st)"

lemma chart_run_halted [simp]:
  "chart_run ch (Stopped s c w) = Some (Stopped s c w)"
  "chart_run ch (Errored w) = Some (Errored w)"
  by (simp_all add: chart_run.simps)

lemma chart_run_active:
  "chart_run ch (Active s c w) = chart_run ch (chart_step ch (Active s c w))"
  by (subst chart_run.simps) simp

subsection \<open>Invariants\<close>

lemma chart_run_invariant:
  assumes run: "chart_run ch st = Some st'" and init: "I st"
    and step: "\<And>st. I st \<Longrightarrow> is_active st \<Longrightarrow> I (chart_step ch st)"
  shows "I st' \<and> \<not> is_active st'"
proof -
  have "I st \<longrightarrow> I st' \<and> \<not> is_active st'"
  proof (rule chart_run.raw_induct [where P = "\<lambda>ch' st st'. ch' = ch \<longrightarrow> I st \<longrightarrow> I st' \<and> \<not> is_active st'",
        OF _ run, THEN mp, OF _ refl])
    fix f ch' and st st' :: "('a, 'b, 'c) status"
    assume IH: "\<And>ch' st st'. f ch' st = Some st' \<Longrightarrow> ch' = ch \<longrightarrow> I st \<longrightarrow> I st' \<and> \<not> is_active st'"
      and eq: "(if is_active st then f ch' (chart_step ch' st) else Some st) = Some st'"
    show "ch' = ch \<longrightarrow> I st \<longrightarrow> I st' \<and> \<not> is_active st'"
      using IH eq step by (cases "is_active st") auto
  qed
  with init show ?thesis by blast
qed

subsection \<open>Termination\<close>

text \<open>
  The contract of a chart whose run always stops: every transition lowers a pair of
  measures on the state and context lexicographically.  The first ranks the states along the
  acyclic part of the graph, the second counts the effects a loop has still to apply.
\<close>

locale terminating_chart =
  fixes ch :: "('s, 'c, 'w) chart"
    and rank :: "'s \<Rightarrow> 'c \<Rightarrow> nat"
    and work :: "'s \<Rightarrow> 'c \<Rightarrow> nat"
  assumes decreases:
    "entry_action ch s c = Some c' \<Longrightarrow> \<not> is_final ch s \<Longrightarrow>
     transition ch s c' w = (Some (t, c''), w') \<Longrightarrow>
     rank t c'' < rank s c \<or> rank t c'' = rank s c \<and> work t c'' < work s c"
begin

lemma run_total: "\<exists>st'. chart_run ch (Active s c w) = Some st' \<and> \<not> is_active st'"
proof (induction "(s, c)" arbitrary: s c w
    rule: wf_induct_rule [OF wf_measures [of "[\<lambda>(s, c). rank s c, \<lambda>(s, c). work s c]"]])
  case (1 s c)
  show ?case
  proof (cases "chart_step ch (Active s c w)")
    case (Active t c'' w')
    then obtain c' where "entry_action ch s c = Some c'" "\<not> is_final ch s"
      "transition ch s c' w = (Some (t, c''), w')"
      by (auto split: option.splits if_splits prod.splits)
    then have "((t, c''), (s, c)) \<in> measures [\<lambda>(s, c). rank s c, \<lambda>(s, c). work s c]"
      using decreases by fastforce
    from 1 [OF this] show ?thesis by (subst chart_run_active) (simp only: Active)
  next
    case (Stopped t c' w')
    then show ?thesis by (subst chart_run_active) simp
  next
    case (Errored w')
    then show ?thesis by (subst chart_run_active) simp
  qed
qed

lemma run_invariant:
  assumes "I (Active s c w)" and "\<And>st. I st \<Longrightarrow> is_active st \<Longrightarrow> I (chart_step ch st)"
  shows "\<exists>st'. chart_run ch (Active s c w) = Some st' \<and> I st' \<and> \<not> is_active st'"
  using run_total [of s c w] chart_run_invariant [of ch, OF _ assms] by blast

end

subsection \<open>Outcomes\<close>

text \<open>
  The \<^verbatim>\<open>execute...WithXState\<close> wrappers: the machine's \<^verbatim>\<open>output\<close> of
  the final context, or the bounded failure when the actor stopped in error.
\<close>

definition actor_outcome ::
  "execution_failure \<Rightarrow> ('c \<Rightarrow> execution_outcome_value option) \<Rightarrow>
   ('s, 'c, 'w) status option \<Rightarrow> (execution_outcome_value \<times> 'w) option" where
  "actor_outcome failed_closed outcome st =
     (case st of
        Some (Stopped s c w) \<Rightarrow> Some (or_else (outcome c) (Failure failed_closed), w)
      | Some (Errored w) \<Rightarrow> Some (Failure failed_closed, w)
      | _ \<Rightarrow> None)"

lemma actor_outcome_simps [simp]:
  "actor_outcome f g (Some (Stopped s c w)) = Some (or_else (g c) (Failure f), w)"
  "actor_outcome f g (Some (Errored w)) = Some (Failure f, w)"
  by (simp_all add: actor_outcome_def)

lemma actor_outcome_total:
  "\<exists>st'. st = Some st' \<and> \<not> is_active st' \<Longrightarrow> \<exists>out w. actor_outcome f g st = Some (out, w)"
  by (auto elim!: is_active.elims(3))

text \<open>A service that may throw: the actor then stops in error and the run fails closed.\<close>

definition or_thrown ::
  "execution_failure \<Rightarrow> ('a \<Rightarrow> execution_outcome_value) \<Rightarrow> 'a option \<Rightarrow> execution_outcome_value" where
  "or_thrown failed_closed g x = (case x of None \<Rightarrow> Failure failed_closed | Some v \<Rightarrow> g v)"

lemma or_thrown_simps [simp]:
  "or_thrown f g None = Failure f" "or_thrown f g (Some v) = g v"
  by (simp_all add: or_thrown_def)

lemma or_thrown_Result: "or_thrown f g x = Result r \<longleftrightarrow> (\<exists>v. x = Some v \<and> g v = Result r)"
  by (cases x) auto

text \<open>
  The outcome of a run from a state, one state at a time: \<^verbatim>\<open>resume\<close> goes on with
  a transition that may have thrown, \<^verbatim>\<open>entered\<close> with an entry action that may.
\<close>

definition resume ::
  "('s, 'c, 'w) chart \<Rightarrow> execution_failure \<Rightarrow> ('c \<Rightarrow> execution_outcome_value option) \<Rightarrow>
     ('s \<times> 'c) option \<Rightarrow> 'w \<Rightarrow> (execution_outcome_value \<times> 'w) option" where
  "resume ch failed_closed outcome next w =
     (case next of
        None \<Rightarrow> Some (Failure failed_closed, w)
      | Some (t, ctx) \<Rightarrow> actor_outcome failed_closed outcome (chart_run ch (Active t ctx w)))"

lemma resume_simps [simp]:
  "resume ch f g None w = Some (Failure f, w)"
  "resume ch f g (Some (t, ctx)) w = actor_outcome f g (chart_run ch (Active t ctx w))"
  by (simp_all add: resume_def)

definition entered ::
  "('s, 'c, 'w) chart \<Rightarrow> execution_failure \<Rightarrow> ('c \<Rightarrow> execution_outcome_value option) \<Rightarrow>
     'c option \<Rightarrow> ('c \<Rightarrow> ('s \<times> 'c) option) \<Rightarrow> 'w \<Rightarrow> (execution_outcome_value \<times> 'w) option" where
  "entered ch failed_closed outcome ctx next w =
     (case ctx of
        None \<Rightarrow> Some (Failure failed_closed, w)
      | Some ctx' \<Rightarrow> resume ch failed_closed outcome (next ctx') w)"

lemma entered_simps [simp]:
  "entered ch f g None next w = Some (Failure f, w)"
  "entered ch f g (Some ctx) next w = resume ch f g (next ctx) w"
  by (simp_all add: entered_def)

lemma run_invoking:
  assumes "entry_action ch s ctx = Some ctx" "\<not> is_final ch s"
  shows "actor_outcome f g (chart_run ch (Active s ctx w)) =
    (case transition ch s ctx w of (next, w') \<Rightarrow> resume ch f g next w')"
  using assms by (subst chart_run_active) (simp add: resume_def split: prod.splits option.splits)

lemma run_eventless:
  assumes "\<not> is_final ch s" "\<And>ctx'. transition ch s ctx' w = (next ctx', w)"
  shows "actor_outcome f g (chart_run ch (Active s ctx w)) =
    entered ch f g (entry_action ch s ctx) next w"
  using assms
  by (subst chart_run_active) (simp add: entered_def resume_def split: prod.splits option.splits)

lemma run_final:
  assumes "is_final ch s"
  shows "actor_outcome f g (chart_run ch (Active s ctx w)) =
    Some (case entry_action ch s ctx of None \<Rightarrow> Failure f | Some ctx' \<Rightarrow> or_else (g ctx') (Failure f), w)"
  using assms by (subst chart_run_active) (simp split: option.splits)

subsection \<open>Recording the effects\<close>

text \<open>
  An environment that also records the effects it was asked to apply: the second component
  is the list of arguments of \<^verbatim>\<open>apply\<close>, in order.
\<close>

definition recording ::
  "('e \<Rightarrow> 'w \<Rightarrow> 'a \<times> 'w) \<Rightarrow> 'e \<Rightarrow> 'w \<times> 'e list \<Rightarrow> 'a \<times> 'w \<times> 'e list" where
  "recording f e wl = (case f e (fst wl) of (r, w') \<Rightarrow> (r, w', snd wl @ [e]))"

definition not_recording ::
  "('e \<Rightarrow> 'w \<Rightarrow> 'a \<times> 'w) \<Rightarrow> 'e \<Rightarrow> 'w \<times> 'l \<Rightarrow> 'a \<times> 'w \<times> 'l" where
  "not_recording f e wl = (case f e (fst wl) of (r, w') \<Rightarrow> (r, w', snd wl))"

subsection \<open>A concrete Change\<close>

text \<open>One Change and its projection, for the evaluations of the machines on closed inputs.\<close>

definition sample_change :: "change_state \<Rightarrow> change" where
  "sample_change s =
     \<lparr>ch_identity = \<lparr>repository_host = js ''github.com'', repository_id = js ''1'', root_issue = 42\<rparr>,
      ch_state = s,
      ch_provenance = \<lparr>requester = None, issuer = None, implementer = None, reviewer = None, merger = None\<rparr>,
      ch_projection = None\<rparr>"

definition sample_projection :: "change_state \<Rightarrow> projection_result" where
  "sample_projection s =
     \<lparr>pr_valid = True, pr_status = Healthy, pr_canonical_branch = None, pr_canonical_base = None,
      pr_branches = [], pr_pull_requests = [], pr_change = Some (sample_change s), pr_diagnostics = []\<rparr>"

definition sample_request :: "change_transition \<Rightarrow> mutation_request" where
  "sample_request t =
     \<lparr>mr_issue = 42, mr_operation = t, mr_semantic_plan = None, mr_merge_strategy = None,
      mr_signed_provenance = None, mr_implementation_conformance = None\<rparr>"

definition sample_valid :: verification_result where
  "sample_valid = \<lparr>ve_valid = True, ve_diagnostics = [], ve_message = None\<rparr>"

definition sample_result :: "change_state \<Rightarrow> execution_result" where
  "sample_result s = \<lparr>xr_projection = sample_projection s, xr_evidence = None\<rparr>"

lemma sample_change_sel [simp]:
  "ch_state (sample_change s) = s" "root_issue (ch_identity (sample_change s)) = 42"
  "pr_change (sample_projection s) = Some (sample_change s)"
  "projection_root_issue (sample_projection s) = Some 42"
  "mr_issue (sample_request t) = 42" "ve_valid sample_valid"
  by (simp_all add: sample_change_def sample_projection_def sample_request_def sample_valid_def
      projection_root_issue_def)

end
