(* ===== verification/Ready_Machine.thy ===== *)
theory Ready_Machine
  imports Statechart
begin

text \<open>
  The Ready execution machine, \<^verbatim>\<open>src/change/machine/ready-execution-machine.ts\<close>: read
  the evidence, project it, check the preconditions, plan, apply the one
  \<^verbatim>\<open>MARK_PULL_REQUEST_READY\<close> effect, read again and verify.  The chart is given state by
  state; \<^verbatim>\<open>ready_program\<close> is the same behaviour as straight-line code, and the
  properties are read off that program.
\<close>

subsection \<open>Services and context\<close>

record ('w, 'i, 'v) ready_services =
  rs_request :: mutation_request
  rs_requester :: "jstr option"
  rs_read :: "mutation_request \<Rightarrow> 'w \<Rightarrow> 'i read_result settled \<times> 'w"
  rs_apply :: "change_effect option \<Rightarrow> 'w \<Rightarrow> effect_result settled \<times> 'w"
  rs_failure_for_effect :: "change_effect \<Rightarrow> effect_failure option"
  rs_project :: "'i \<Rightarrow> projection_result option"
  rs_validation_input :: "'i \<Rightarrow> change option \<Rightarrow> jstr option \<Rightarrow> 'v option"
  rs_validate :: "'v \<Rightarrow> verification_result option"
  rs_plan :: "'v \<Rightarrow> transition_plan option"
  rs_verify :: "mutation_request \<Rightarrow> 'i \<Rightarrow> projection_result \<Rightarrow> transition_plan \<Rightarrow> verification_result option"
  rs_returned_existing :: "projection_result \<Rightarrow> execution_result option"
  rs_verified :: "projection_result \<Rightarrow> change_effect \<Rightarrow> execution_result option"
  rs_failed :: "projection_result \<Rightarrow> change_effect \<Rightarrow> effect_failure \<Rightarrow> execution_result option"

datatype read_stage = Initial_Read | Reread

datatype ready_reread_mode = Verify_Mode | Effect_Failed_Mode

record ('i, 'v) ready_context =
  rc_read_stage :: "read_stage option"
  rc_reread_mode :: "ready_reread_mode option"
  rc_input :: "'i option"
  rc_projection :: "projection_result option"
  rc_validation_input :: "'v option"
  rc_plan :: "transition_plan option"
  rc_effect :: "change_effect option"
  rc_effect_failure :: "effect_failure option"
  rc_failure :: "execution_failure option"
  rc_result :: "execution_result option"
  rc_outcome :: "execution_outcome_value option"

definition ready_initial_context :: "('i, 'v) ready_context" where
  "ready_initial_context =
     \<lparr>rc_read_stage = None, rc_reread_mode = None, rc_input = None, rc_projection = None,
      rc_validation_input = None, rc_plan = None, rc_effect = None, rc_effect_failure = None,
      rc_failure = None, rc_result = None, rc_outcome = None\<rparr>"

datatype ready_state =
    R_reading | R_projecting | R_validating | R_planning | R_markingReady | R_rereading
  | R_verifying | R_effectFailedResult | R_succeeded | R_readFailed | R_preconditionFailed
  | R_verificationFailed

subsection \<open>Bounded failures\<close>

definition ready_verification_failure :: "string \<Rightarrow> execution_failure" where
  "ready_verification_failure message = exec_failure PROJECTION_VERIFICATION_FAILED message []"

definition ready_default_verification_failure :: execution_failure where
  "ready_default_verification_failure =
     ready_verification_failure ''Post-effect Ready projection verification failed.''"

definition ready_failed_closed :: execution_failure where
  "ready_failed_closed = ready_verification_failure ''Ready execution machine failed closed.''"

definition ready_precondition_failure :: "change_diagnostic list \<Rightarrow> execution_failure" where
  "ready_precondition_failure ds =
     exec_failure PRECONDITION_FAILED ''Ready transition preconditions failed.'' ds"

definition ready_effect_read_failure :: execution_failure where
  "ready_effect_read_failure =
     exec_failure READ_FAILED ''Trusted Change evidence read failed after the Ready effect failed.'' []"

definition ready_reread_failure ::
  "('i, 'v) ready_context \<Rightarrow> execution_failure \<Rightarrow> execution_failure" where
  "ready_reread_failure ctx failure =
     (if rc_reread_mode ctx = Some Effect_Failed_Mode then ready_effect_read_failure else failure)"

definition lifecycle_precondition_failure :: "change_state \<Rightarrow> execution_failure" where
  "lifecycle_precondition_failure s =
     (let message = js ''Ready lifecycle transition is not allowed from state \"''
                      @ change_state_name s @ js ''\".''
      in \<lparr>xl_code = PRECONDITION_FAILED, xl_message = message,
          xl_diagnostics = [\<lparr>cd_code = js ''CHANGE_TRANSITION_NOT_ALLOWED'',
                            cd_path = js ''$.change.state'', cd_message = message\<rparr>],
          xl_evidence = None\<rparr>)"

subsection \<open>The states\<close>

definition ready_reading_done ::
  "'i read_result settled \<Rightarrow> ('i, 'v) ready_context \<Rightarrow> ready_state \<times> ('i, 'v) ready_context" where
  "ready_reading_done r ctx =
     (case r of
        Fulfilled (Read_Ok i) \<Rightarrow>
          (R_projecting, ctx\<lparr>rc_input := Some i, rc_read_stage := Some Initial_Read,
                             rc_failure := None, rc_projection := None\<rparr>)
      | Fulfilled (Read_Failed f) \<Rightarrow> (R_readFailed, ctx\<lparr>rc_failure := Some f\<rparr>)
      | Rejected \<Rightarrow> (R_readFailed, ctx\<lparr>rc_failure := Some default_read_failure\<rparr>))"

definition ready_projecting_entry ::
  "('w, 'i, 'v) ready_services \<Rightarrow> ('i, 'v) ready_context \<Rightarrow> ('i, 'v) ready_context" where
  "ready_projecting_entry sv ctx =
     (case rc_input ctx of
        None \<Rightarrow> ctx\<lparr>rc_failure := Some default_read_failure, rc_projection := None\<rparr>
      | Some i \<Rightarrow>
          (case rs_project sv i of
             None \<Rightarrow> ctx\<lparr>rc_projection := None, rc_failure := Some default_read_failure\<rparr>
           | Some p \<Rightarrow>
               if projection_root_issue p \<noteq> Some (mr_issue (rs_request sv))
               then ctx\<lparr>rc_projection := None, rc_failure := Some identity_failure\<rparr>
               else ctx\<lparr>rc_projection := Some p, rc_failure := None\<rparr>))"

definition ready_projecting_always :: "('i, 'v) ready_context \<Rightarrow> ready_state" where
  "ready_projecting_always ctx =
     (if rc_read_stage ctx = Some Initial_Read \<and> rc_projection ctx \<noteq> None \<and> rc_failure ctx = None
      then R_validating
      else if rc_read_stage ctx = Some Reread \<and> rc_reread_mode ctx = Some Effect_Failed_Mode
              \<and> rc_projection ctx \<noteq> None \<and> rc_failure ctx = None
      then R_effectFailedResult
      else if rc_read_stage ctx = Some Reread \<and> rc_reread_mode ctx = Some Verify_Mode
              \<and> rc_projection ctx \<noteq> None \<and> rc_failure ctx = None
      then R_verifying
      else R_readFailed)"

text \<open>The precondition check; the \<^verbatim>\<open>catch\<close> covers every call inside it.\<close>

definition ready_check ::
  "('w, 'i, 'v) ready_services \<Rightarrow> 'i \<Rightarrow> change \<Rightarrow> 'v option \<times> execution_failure option" where
  "ready_check sv i c =
     (case transition_change_lifecycle (ch_state c) (Operation OpReady) of
        Inl err \<Rightarrow> (None, Some (ready_precondition_failure []))
      | Inr lifecycle \<Rightarrow>
          if \<not> lr_accepted lifecycle then (None, Some (lifecycle_precondition_failure (ch_state c)))
          else (case rs_validation_input sv i (Some c) (rs_requester sv) of
                  None \<Rightarrow> (None, Some (ready_precondition_failure []))
                | Some v \<Rightarrow>
                    (case rs_validate sv v of
                       None \<Rightarrow> (None, Some (ready_precondition_failure []))
                     | Some validation \<Rightarrow>
                         if ve_valid validation then (Some v, None)
                         else (Some v, Some (ready_precondition_failure (ve_diagnostics validation))))))"

definition ready_validating_entry ::
  "('w, 'i, 'v) ready_services \<Rightarrow> ('i, 'v) ready_context \<Rightarrow> ('i, 'v) ready_context" where
  "ready_validating_entry sv ctx =
     (case (rc_input ctx, Option.bind (rc_projection ctx) pr_change) of
        (Some i, Some c) \<Rightarrow>
          (case ready_check sv i c of (v, f) \<Rightarrow> ctx\<lparr>rc_validation_input := v, rc_failure := f\<rparr>)
      | _ \<Rightarrow> ctx\<lparr>rc_validation_input := None, rc_failure := Some (ready_precondition_failure [])\<rparr>)"

definition ready_validating_always :: "('i, 'v) ready_context \<Rightarrow> ready_state" where
  "ready_validating_always ctx =
     (if rc_validation_input ctx \<noteq> None \<and> rc_failure ctx = None then R_planning
      else R_preconditionFailed)"

definition is_mark_ready :: "change_effect \<Rightarrow> bool" where
  "is_mark_ready e \<longleftrightarrow> effect_kind e = K_MARK_PULL_REQUEST_READY"

definition ready_invalid_plan :: execution_failure where
  "ready_invalid_plan = ready_verification_failure ''Ready transition produced an invalid effect plan.''"

text \<open>At most one effect, and only the Ready mark: \<^verbatim>\<open>plan.effects\<close> is inspected here.\<close>

fun ready_plan_effect :: "change_effect list \<Rightarrow> change_effect option option" where
  "ready_plan_effect [] = Some None"
| "ready_plan_effect [e] = (if is_mark_ready e then Some (Some e) else None)"
| "ready_plan_effect (_ # _ # _) = None"

definition ready_planning_entry ::
  "('w, 'i, 'v) ready_services \<Rightarrow> ('i, 'v) ready_context \<Rightarrow> ('i, 'v) ready_context" where
  "ready_planning_entry sv ctx =
     (case rc_validation_input ctx of
        None \<Rightarrow> ctx\<lparr>rc_plan := None, rc_effect := None\<rparr>
      | Some v \<Rightarrow>
          (case rs_plan sv v of
             None \<Rightarrow> ctx\<lparr>rc_plan := None, rc_effect := None, rc_failure := Some ready_invalid_plan\<rparr>
           | Some plan \<Rightarrow>
               (case ready_plan_effect (tp_effects plan) of
                  None \<Rightarrow> ctx\<lparr>rc_plan := None, rc_effect := None, rc_failure := Some ready_invalid_plan\<rparr>
                | Some e \<Rightarrow> ctx\<lparr>rc_plan := Some plan, rc_effect := e, rc_failure := None,
                               rc_reread_mode := Some Verify_Mode\<rparr>)))"

definition ready_planning_always :: "('i, 'v) ready_context \<Rightarrow> ready_state" where
  "ready_planning_always ctx =
     (if (case rc_plan ctx of None \<Rightarrow> False | Some plan \<Rightarrow> tp_effects plan = []) then R_rereading
      else if (case rc_effect ctx of None \<Rightarrow> False | Some e \<Rightarrow> is_mark_ready e) then R_markingReady
      else R_verificationFailed)"

definition ready_marking_done ::
  "('w, 'i, 'v) ready_services \<Rightarrow> effect_result settled \<Rightarrow> ('i, 'v) ready_context \<Rightarrow>
     (ready_state \<times> ('i, 'v) ready_context) option" where
  "ready_marking_done sv r ctx =
     (case r of
        Fulfilled (Effect_Ok ev) \<Rightarrow>
          Some (R_rereading, ctx\<lparr>rc_reread_mode := Some Verify_Mode, rc_effect_failure := None\<rparr>)
      | Fulfilled (Effect_Failed f) \<Rightarrow>
          Some (R_rereading, ctx\<lparr>rc_reread_mode := Some Effect_Failed_Mode, rc_effect_failure := Some f\<rparr>)
      | Rejected \<Rightarrow>
          (case rc_effect ctx of
             None \<Rightarrow> Some (R_rereading, ctx\<lparr>rc_reread_mode := Some Effect_Failed_Mode, rc_effect_failure := None\<rparr>)
           | Some e \<Rightarrow>
               (case rs_failure_for_effect sv e of
                  None \<Rightarrow> None
                | Some f \<Rightarrow> Some (R_rereading, ctx\<lparr>rc_reread_mode := Some Effect_Failed_Mode,
                                                  rc_effect_failure := Some f\<rparr>))))"

definition ready_rereading_done ::
  "'i read_result settled \<Rightarrow> ('i, 'v) ready_context \<Rightarrow> ready_state \<times> ('i, 'v) ready_context" where
  "ready_rereading_done r ctx =
     (case r of
        Fulfilled (Read_Ok i) \<Rightarrow>
          (R_projecting, ctx\<lparr>rc_input := Some i, rc_read_stage := Some Reread,
                             rc_failure := None, rc_projection := None\<rparr>)
      | Fulfilled (Read_Failed f) \<Rightarrow>
          (R_readFailed, ctx\<lparr>rc_failure := Some (ready_reread_failure ctx f)\<rparr>)
      | Rejected \<Rightarrow>
          (R_readFailed, ctx\<lparr>rc_failure := Some (ready_reread_failure ctx default_read_failure)\<rparr>))"

text \<open>The verification of the reread; \<^verbatim>\<open>catch\<close> covers its calls.\<close>

definition ready_verify_result ::
  "('w, 'i, 'v) ready_services \<Rightarrow> 'i \<Rightarrow> projection_result \<Rightarrow> transition_plan \<Rightarrow>
     execution_failure + execution_result" where
  "ready_verify_result sv i p plan =
     (case rs_verify sv (rs_request sv) i p plan of
        None \<Rightarrow> Inl ready_default_verification_failure
      | Some verification \<Rightarrow>
          if \<not> ve_valid verification
          then Inl \<lparr>xl_code = PROJECTION_VERIFICATION_FAILED,
                    xl_message = or_else (ve_message verification)
                      (js ''Post-effect Ready projection verification failed.''),
                    xl_diagnostics = ve_diagnostics verification, xl_evidence = None\<rparr>
          else (case (case tp_effects plan of
                        e # _ \<Rightarrow> if is_mark_ready e then rs_verified sv p e
                                else rs_returned_existing sv p
                      | [] \<Rightarrow> rs_returned_existing sv p) of
                  None \<Rightarrow> Inl ready_default_verification_failure
                | Some result \<Rightarrow> Inr result))"

definition ready_verifying_entry ::
  "('w, 'i, 'v) ready_services \<Rightarrow> ('i, 'v) ready_context \<Rightarrow> ('i, 'v) ready_context" where
  "ready_verifying_entry sv ctx =
     (case (rc_input ctx, rc_projection ctx, rc_plan ctx) of
        (Some i, Some p, Some plan) \<Rightarrow>
          (case ready_verify_result sv i p plan of
             Inl f \<Rightarrow> ctx\<lparr>rc_result := None, rc_failure := Some f\<rparr>
           | Inr result \<Rightarrow> ctx\<lparr>rc_result := Some result, rc_failure := None\<rparr>)
      | _ \<Rightarrow> ctx\<lparr>rc_failure := Some ready_default_verification_failure\<rparr>)"

definition ready_verifying_always :: "('i, 'v) ready_context \<Rightarrow> ready_state" where
  "ready_verifying_always ctx =
     (if rc_result ctx \<noteq> None \<and> rc_failure ctx = None then R_succeeded else R_verificationFailed)"

definition ready_effect_failed_entry ::
  "('w, 'i, 'v) ready_services \<Rightarrow> ('i, 'v) ready_context \<Rightarrow> ('i, 'v) ready_context option" where
  "ready_effect_failed_entry sv ctx =
     (case (rc_projection ctx, rc_effect ctx, rc_effect_failure ctx) of
        (Some p, Some e, Some f) \<Rightarrow>
          (case rs_failed sv p e f of
             None \<Rightarrow> None
           | Some result \<Rightarrow> Some (ctx\<lparr>rc_outcome := Some (Result result)\<rparr>))
      | _ \<Rightarrow> Some (ctx\<lparr>rc_outcome := Some (Failure ready_default_verification_failure)\<rparr>))"

definition ready_succeeded_entry :: "('i, 'v) ready_context \<Rightarrow> ('i, 'v) ready_context" where
  "ready_succeeded_entry ctx =
     ctx\<lparr>rc_outcome := Some (case rc_result ctx of
           None \<Rightarrow> Failure ready_default_verification_failure | Some result \<Rightarrow> Result result)\<rparr>"

definition ready_failed_entry ::
  "execution_failure \<Rightarrow> ('i, 'v) ready_context \<Rightarrow> ('i, 'v) ready_context" where
  "ready_failed_entry fallback ctx =
     ctx\<lparr>rc_outcome := Some (Failure (or_else (rc_failure ctx) fallback))\<rparr>"

subsection \<open>The chart\<close>

fun ready_entry ::
  "('w, 'i, 'v) ready_services \<Rightarrow> ready_state \<Rightarrow> ('i, 'v) ready_context \<Rightarrow> ('i, 'v) ready_context option" where
  "ready_entry sv R_projecting ctx = Some (ready_projecting_entry sv ctx)"
| "ready_entry sv R_validating ctx = Some (ready_validating_entry sv ctx)"
| "ready_entry sv R_planning ctx = Some (ready_planning_entry sv ctx)"
| "ready_entry sv R_verifying ctx = Some (ready_verifying_entry sv ctx)"
| "ready_entry sv R_effectFailedResult ctx = ready_effect_failed_entry sv ctx"
| "ready_entry sv R_succeeded ctx = Some (ready_succeeded_entry ctx)"
| "ready_entry sv R_readFailed ctx = Some (ready_failed_entry default_read_failure ctx)"
| "ready_entry sv R_preconditionFailed ctx = Some (ready_failed_entry (ready_precondition_failure []) ctx)"
| "ready_entry sv R_verificationFailed ctx = Some (ready_failed_entry ready_default_verification_failure ctx)"
| "ready_entry sv _ ctx = Some ctx"

fun ready_final :: "ready_state \<Rightarrow> bool" where
  "ready_final R_effectFailedResult = True"
| "ready_final R_succeeded = True"
| "ready_final R_readFailed = True"
| "ready_final R_preconditionFailed = True"
| "ready_final R_verificationFailed = True"
| "ready_final _ = False"

fun ready_transition ::
  "('w, 'i, 'v) ready_services \<Rightarrow> ready_state \<Rightarrow> ('i, 'v) ready_context \<Rightarrow> 'w \<Rightarrow>
     (ready_state \<times> ('i, 'v) ready_context) option \<times> 'w" where
  "ready_transition sv R_reading ctx w =
     (case rs_read sv (rs_request sv) w of (r, w') \<Rightarrow> (Some (ready_reading_done r ctx), w'))"
| "ready_transition sv R_projecting ctx w = (Some (ready_projecting_always ctx, ctx), w)"
| "ready_transition sv R_validating ctx w = (Some (ready_validating_always ctx, ctx), w)"
| "ready_transition sv R_planning ctx w = (Some (ready_planning_always ctx, ctx), w)"
| "ready_transition sv R_markingReady ctx w =
     (case rs_apply sv (rc_effect ctx) w of (r, w') \<Rightarrow> (ready_marking_done sv r ctx, w'))"
| "ready_transition sv R_rereading ctx w =
     (case rs_read sv (rs_request sv) w of (r, w') \<Rightarrow> (Some (ready_rereading_done r ctx), w'))"
| "ready_transition sv R_verifying ctx w = (Some (ready_verifying_always ctx, ctx), w)"
| "ready_transition sv s ctx w = (Some (s, ctx), w)"

definition ready_chart ::
  "('w, 'i, 'v) ready_services \<Rightarrow> (ready_state, ('i, 'v) ready_context, 'w) chart" where
  "ready_chart sv = \<lparr>entry_action = ready_entry sv, transition = ready_transition sv, is_final = ready_final\<rparr>"

definition execute_ready ::
  "('w, 'i, 'v) ready_services \<Rightarrow> 'w \<Rightarrow> (execution_outcome_value \<times> 'w) option" where
  "execute_ready sv w =
     actor_outcome ready_failed_closed rc_outcome
       (chart_run (ready_chart sv) (Active R_reading ready_initial_context w))"

subsection \<open>The machine as straight-line code\<close>

text \<open>Everything that is decided before the effect: read, projection, admission, plan.\<close>

definition ready_project_checked ::
  "('w, 'i, 'v) ready_services \<Rightarrow> 'i \<Rightarrow> execution_failure + projection_result" where
  "ready_project_checked sv i =
     (case rs_project sv i of
        None \<Rightarrow> Inl default_read_failure
      | Some p \<Rightarrow> if projection_root_issue p \<noteq> Some (mr_issue (rs_request sv)) then Inl identity_failure
                  else Inr p)"

definition ready_admit ::
  "('w, 'i, 'v) ready_services \<Rightarrow> 'i \<Rightarrow> execution_failure + (transition_plan \<times> change_effect option)" where
  "ready_admit sv i =
     (case ready_project_checked sv i of
        Inl f \<Rightarrow> Inl f
      | Inr p \<Rightarrow>
          (case pr_change p of
             None \<Rightarrow> Inl (ready_precondition_failure [])
           | Some c \<Rightarrow>
               (case ready_check sv i c of
                  (Some v, None) \<Rightarrow>
                    (case rs_plan sv v of
                       None \<Rightarrow> Inl ready_invalid_plan
                     | Some plan \<Rightarrow>
                         (case ready_plan_effect (tp_effects plan) of
                            None \<Rightarrow> Inl ready_invalid_plan
                          | Some e \<Rightarrow> Inr (plan, e)))
                | (_, Some f) \<Rightarrow> Inl f
                | (None, None) \<Rightarrow> Inl (ready_precondition_failure []))))"

definition ready_finish ::
  "('w, 'i, 'v) ready_services \<Rightarrow> transition_plan \<Rightarrow> 'w \<Rightarrow> execution_outcome_value \<times> 'w" where
  "ready_finish sv plan w =
     (case rs_read sv (rs_request sv) w of (r, w') \<Rightarrow>
        ((case r of
            Rejected \<Rightarrow> Failure default_read_failure
          | Fulfilled (Read_Failed f) \<Rightarrow> Failure f
          | Fulfilled (Read_Ok i) \<Rightarrow>
              (case ready_project_checked sv i of
                 Inl f \<Rightarrow> Failure f
               | Inr p \<Rightarrow> (case ready_verify_result sv i p plan of
                             Inl f \<Rightarrow> Failure f
                           | Inr result \<Rightarrow> Result result))), w'))"

definition ready_finish_failed ::
  "('w, 'i, 'v) ready_services \<Rightarrow> change_effect \<Rightarrow> effect_failure \<Rightarrow> 'w \<Rightarrow> execution_outcome_value \<times> 'w" where
  "ready_finish_failed sv e failure w =
     (case rs_read sv (rs_request sv) w of (r, w') \<Rightarrow>
        ((case r of
            Rejected \<Rightarrow> Failure ready_effect_read_failure
          | Fulfilled (Read_Failed f) \<Rightarrow> Failure ready_effect_read_failure
          | Fulfilled (Read_Ok i) \<Rightarrow>
              (case ready_project_checked sv i of
                 Inl f \<Rightarrow> Failure f
               | Inr p \<Rightarrow> (case rs_failed sv p e failure of
                             None \<Rightarrow> Failure ready_failed_closed
                           | Some result \<Rightarrow> Result result))), w'))"

definition ready_program ::
  "('w, 'i, 'v) ready_services \<Rightarrow> 'w \<Rightarrow> execution_outcome_value \<times> 'w" where
  "ready_program sv w =
     (case rs_read sv (rs_request sv) w of
        (Rejected, w1) \<Rightarrow> (Failure default_read_failure, w1)
      | (Fulfilled (Read_Failed f), w1) \<Rightarrow> (Failure f, w1)
      | (Fulfilled (Read_Ok i), w1) \<Rightarrow>
          (case ready_admit sv i of
             Inl f \<Rightarrow> (Failure f, w1)
           | Inr (plan, None) \<Rightarrow> ready_finish sv plan w1
           | Inr (plan, Some e) \<Rightarrow>
               (case rs_apply sv (Some e) w1 of
                  (Fulfilled (Effect_Ok ev), w2) \<Rightarrow> ready_finish sv plan w2
                | (Fulfilled (Effect_Failed f), w2) \<Rightarrow> ready_finish_failed sv e f w2
                | (Rejected, w2) \<Rightarrow>
                    (case rs_failure_for_effect sv e of
                       None \<Rightarrow> (Failure ready_failed_closed, w2)
                     | Some f \<Rightarrow> ready_finish_failed sv e f w2))))"

subsection \<open>The chart computes the program\<close>

lemma ready_chart_sel [simp]:
  "entry_action (ready_chart sv) = ready_entry sv"
  "transition (ready_chart sv) = ready_transition sv"
  "is_final (ready_chart sv) = ready_final"
  by (simp_all add: ready_chart_def)

abbreviation ready_run ::
  "('w, 'i, 'v) ready_services \<Rightarrow> ready_state \<Rightarrow> ('i, 'v) ready_context \<Rightarrow> 'w \<Rightarrow>
     (execution_outcome_value \<times> 'w) option" where
  "ready_run sv s ctx w \<equiv>
     actor_outcome ready_failed_closed rc_outcome (chart_run (ready_chart sv) (Active s ctx w))"

text \<open>One step from each state: the equations the evaluation of a run uses.\<close>

lemma ready_run_reading:
  "ready_run sv R_reading ctx w =
     (case rs_read sv (rs_request sv) w of (r, w') \<Rightarrow>
        (case ready_reading_done r ctx of (t, ctx') \<Rightarrow> ready_run sv t ctx' w'))"
  by (simp add: chart_run_active split: prod.splits)

lemma ready_run_rereading:
  "ready_run sv R_rereading ctx w =
     (case rs_read sv (rs_request sv) w of (r, w') \<Rightarrow>
        (case ready_rereading_done r ctx of (t, ctx') \<Rightarrow> ready_run sv t ctx' w'))"
  by (simp add: chart_run_active split: prod.splits)

lemma ready_run_marking:
  "ready_run sv R_markingReady ctx w =
     (case rs_apply sv (rc_effect ctx) w of (r, w') \<Rightarrow>
        (case ready_marking_done sv r ctx of
           None \<Rightarrow> Some (Failure ready_failed_closed, w')
         | Some (t, ctx') \<Rightarrow> ready_run sv t ctx' w'))"
  by (simp add: chart_run_active split: prod.splits option.splits)

lemma ready_run_eventless:
  "ready_run sv R_projecting ctx w =
     ready_run sv (ready_projecting_always (ready_projecting_entry sv ctx)) (ready_projecting_entry sv ctx) w"
  "ready_run sv R_validating ctx w =
     ready_run sv (ready_validating_always (ready_validating_entry sv ctx)) (ready_validating_entry sv ctx) w"
  "ready_run sv R_planning ctx w =
     ready_run sv (ready_planning_always (ready_planning_entry sv ctx)) (ready_planning_entry sv ctx) w"
  "ready_run sv R_verifying ctx w =
     ready_run sv (ready_verifying_always (ready_verifying_entry sv ctx)) (ready_verifying_entry sv ctx) w"
  by (subst chart_run_active, simp)+

lemma ready_run_final:
  "ready_run sv R_succeeded ctx w =
     Some (case rc_result ctx of None \<Rightarrow> Failure ready_default_verification_failure
           | Some result \<Rightarrow> Result result, w)"
  "ready_run sv R_readFailed ctx w =
     Some (Failure (or_else (rc_failure ctx) default_read_failure), w)"
  "ready_run sv R_preconditionFailed ctx w =
     Some (Failure (or_else (rc_failure ctx) (ready_precondition_failure [])), w)"
  "ready_run sv R_verificationFailed ctx w =
     Some (Failure (or_else (rc_failure ctx) ready_default_verification_failure), w)"
  "ready_run sv R_effectFailedResult ctx w =
     Some (case (rc_projection ctx, rc_effect ctx, rc_effect_failure ctx) of
             (Some p, Some e, Some f) \<Rightarrow>
               (case rs_failed sv p e f of None \<Rightarrow> Failure ready_failed_closed | Some result \<Rightarrow> Result result)
           | _ \<Rightarrow> Failure ready_default_verification_failure, w)"
  by (simp_all add: chart_run_active ready_succeeded_entry_def ready_failed_entry_def
      ready_effect_failed_entry_def split: option.splits)

text \<open>The evidence part shared by the first read and the reread.\<close>

lemma ready_projecting_cases:
  assumes "rc_input ctx = Some i"
  shows "ready_projecting_entry sv ctx =
    (case ready_project_checked sv i of
       Inl f \<Rightarrow> ctx\<lparr>rc_projection := None, rc_failure := Some f\<rparr>
     | Inr p \<Rightarrow> ctx\<lparr>rc_projection := Some p, rc_failure := None\<rparr>)"
  using assms by (auto simp: ready_projecting_entry_def ready_project_checked_def split: option.splits)

lemma ready_run_verify:
  assumes "rc_reread_mode ctx = Some Verify_Mode" "rc_plan ctx = Some plan"
  shows "ready_run sv R_rereading ctx w = Some (ready_finish sv plan w)"
  using assms
  by (auto simp: ready_run_rereading ready_finish_def ready_rereading_done_def ready_run_eventless
      ready_run_final ready_projecting_cases ready_projecting_always_def ready_verifying_entry_def
      ready_verifying_always_def ready_reread_failure_def
      split: prod.splits settled.splits read_result.splits sum.splits)

lemma ready_run_after_failure:
  assumes "rc_reread_mode ctx = Some Effect_Failed_Mode" "rc_effect ctx = Some e"
    "rc_effect_failure ctx = Some f"
  shows "ready_run sv R_rereading ctx w = Some (ready_finish_failed sv e f w)"
  using assms
  by (auto simp: ready_run_rereading ready_finish_failed_def ready_rereading_done_def ready_run_eventless
      ready_run_final ready_projecting_cases ready_projecting_always_def ready_reread_failure_def
      split: prod.splits settled.splits read_result.splits sum.splits option.splits)

lemma is_mark_ready_plan: "ready_plan_effect es = Some (Some e) \<Longrightarrow> is_mark_ready e \<and> es = [e]"
  by (cases es rule: ready_plan_effect.cases) (auto split: if_splits)

lemma ready_plan_no_effect: "ready_plan_effect es = Some None \<longleftrightarrow> es = []"
  by (cases es rule: ready_plan_effect.cases) auto

text \<open>The effect part: from a planned, admitted effect to the outcome.\<close>

definition ready_apply ::
  "('w, 'i, 'v) ready_services \<Rightarrow> transition_plan \<Rightarrow> change_effect option \<Rightarrow> 'w \<Rightarrow>
     execution_outcome_value \<times> 'w" where
  "ready_apply sv plan eo w =
     (case eo of
        None \<Rightarrow> ready_finish sv plan w
      | Some e \<Rightarrow>
          (case rs_apply sv (Some e) w of
             (Fulfilled (Effect_Ok ev), w2) \<Rightarrow> ready_finish sv plan w2
           | (Fulfilled (Effect_Failed f), w2) \<Rightarrow> ready_finish_failed sv e f w2
           | (Rejected, w2) \<Rightarrow>
               (case rs_failure_for_effect sv e of
                  None \<Rightarrow> (Failure ready_failed_closed, w2)
                | Some f \<Rightarrow> ready_finish_failed sv e f w2)))"

lemma ready_program_apply:
  "ready_program sv w =
     (case rs_read sv (rs_request sv) w of
        (Rejected, w1) \<Rightarrow> (Failure default_read_failure, w1)
      | (Fulfilled (Read_Failed f), w1) \<Rightarrow> (Failure f, w1)
      | (Fulfilled (Read_Ok i), w1) \<Rightarrow>
          (case ready_admit sv i of
             Inl f \<Rightarrow> (Failure f, w1)
           | Inr (plan, eo) \<Rightarrow> ready_apply sv plan eo w1))"
  by (simp add: ready_program_def ready_apply_def
      split: prod.splits settled.splits read_result.splits sum.splits option.splits)

lemma ready_run_planned:
  assumes "rc_plan ctx = Some plan" "rc_effect ctx = eo" "rc_reread_mode ctx = Some Verify_Mode"
    "ready_plan_effect (tp_effects plan) = Some eo"
  shows "ready_run sv (ready_planning_always ctx) ctx w = Some (ready_apply sv plan eo w)"
proof (cases eo)
  case None
  with assms have "tp_effects plan = []" by (simp add: ready_plan_no_effect)
  with assms None show ?thesis
    by (simp add: ready_planning_always_def ready_apply_def ready_run_verify)
next
  case (Some e)
  with assms have "is_mark_ready e" "tp_effects plan = [e]" by (auto dest: is_mark_ready_plan)
  with assms Some show ?thesis
    by (auto simp: ready_planning_always_def ready_run_marking ready_marking_done_def ready_apply_def
        ready_run_verify ready_run_after_failure
        split: prod.splits settled.splits effect_result.splits option.splits)
qed

lemma ready_run_planning:
  assumes "rc_validation_input ctx = Some v"
  shows "ready_run sv R_planning ctx w = Some
    (case rs_plan sv v of
       None \<Rightarrow> (Failure ready_invalid_plan, w)
     | Some plan \<Rightarrow>
         (case ready_plan_effect (tp_effects plan) of
            None \<Rightarrow> (Failure ready_invalid_plan, w)
          | Some eo \<Rightarrow> ready_apply sv plan eo w))"
proof (cases "Option.bind (rs_plan sv v) (\<lambda>plan. ready_plan_effect (tp_effects plan))")
  case None
  with assms show ?thesis
    by (auto simp: ready_run_eventless ready_planning_entry_def ready_planning_always_def ready_run_final
        bind_eq_None_conv split: option.splits)
next
  case (Some eo)
  then obtain plan where plan: "rs_plan sv v = Some plan" "ready_plan_effect (tp_effects plan) = Some eo"
    by (auto simp: bind_eq_Some_conv)
  with assms show ?thesis
    by (simp add: ready_run_eventless ready_planning_entry_def ready_run_planned)
qed

lemma ready_run_projecting:
  assumes "rc_input ctx = Some i" "rc_read_stage ctx = Some Initial_Read"
  shows "ready_run sv R_projecting ctx w = Some
    (case ready_admit sv i of
       Inl f \<Rightarrow> (Failure f, w)
     | Inr (plan, eo) \<Rightarrow> ready_apply sv plan eo w)"
proof (cases "ready_project_checked sv i")
  case (Inl f)
  with assms show ?thesis
    by (simp add: ready_run_eventless ready_projecting_cases ready_projecting_always_def ready_run_final
        ready_admit_def)
next
  case (Inr p)
  show ?thesis
  proof (cases "pr_change p")
    case None
    with assms Inr show ?thesis
      by (simp add: ready_run_eventless ready_projecting_cases ready_projecting_always_def
          ready_validating_entry_def ready_validating_always_def ready_run_final ready_admit_def)
  next
    case (Some c)
    with assms Inr show ?thesis
      by (cases "ready_check sv i c")
        (auto simp: ready_run_eventless(1,2) ready_projecting_cases ready_projecting_always_def
          ready_validating_entry_def ready_validating_always_def ready_run_final ready_admit_def
          ready_run_planning split: option.splits)
  qed
qed

lemma execute_ready_eq: "execute_ready sv w = Some (ready_program sv w)"
  unfolding execute_ready_def ready_program_apply
  by (auto simp: ready_run_reading ready_reading_done_def ready_run_projecting ready_run_final
      ready_initial_context_def split: prod.splits settled.splits read_result.splits)

text \<open>
  C2. The Ready machine is a total program: from every context of services and every
  environment the actor stops, and its outcome and its interaction with the environment are
  exactly those of the straight-line program (read, admit, apply at most one effect, reread,
  verify), thrown exceptions included.
\<close>

theorem ready_machine_refines_program:
  "execute_ready sv w = Some (ready_program sv w)"
  by (rule execute_ready_eq)

subsection \<open>Termination as an instance of the shared contract\<close>

fun ready_rank :: "ready_state \<Rightarrow> ('i, 'v) ready_context \<Rightarrow> nat" where
  "ready_rank R_reading ctx = 10"
| "ready_rank R_projecting ctx = (if rc_read_stage ctx = Some Initial_Read then 9 else 3)"
| "ready_rank R_validating ctx = 8"
| "ready_rank R_planning ctx = 7"
| "ready_rank R_markingReady ctx = 6"
| "ready_rank R_rereading ctx = 5"
| "ready_rank R_verifying ctx = 2"
| "ready_rank _ ctx = 0"

lemma ready_projecting_keeps_stage [simp]:
  "rc_read_stage (ready_projecting_entry sv ctx) = rc_read_stage ctx"
  by (simp add: ready_projecting_entry_def split: option.splits)

interpretation ready_chart: terminating_chart "ready_chart sv" ready_rank "\<lambda>s c. 0" for sv
proof unfold_locales
  fix s t :: ready_state and ctx ctx' ctx'' w w'
  assume entry: "entry_action (ready_chart sv) s ctx = Some ctx'" and "\<not> is_final (ready_chart sv) s"
    and trans: "transition (ready_chart sv) s ctx' w = (Some (t, ctx''), w')"
  then have "ready_rank t ctx'' < ready_rank s ctx"
    by (cases s) (auto simp: ready_reading_done_def ready_rereading_done_def ready_marking_done_def
        ready_projecting_always_def ready_validating_always_def ready_planning_always_def
        ready_verifying_always_def
        split: prod.splits settled.splits read_result.splits effect_result.splits option.splits if_splits)
  then show "ready_rank t ctx'' < ready_rank s ctx \<or> ready_rank t ctx'' = ready_rank s ctx \<and> (0::nat) < 0"
    by simp
qed

subsection \<open>Safety\<close>

text \<open>The same services in an environment that records the effects it is asked for.\<close>

definition record_ready ::
  "('w, 'i, 'v) ready_services \<Rightarrow> ('w \<times> change_effect option list, 'i, 'v) ready_services" where
  "record_ready sv =
     \<lparr>rs_request = rs_request sv, rs_requester = rs_requester sv,
      rs_read = (\<lambda>q. not_recording (rs_read sv) q), rs_apply = recording (rs_apply sv),
      rs_failure_for_effect = rs_failure_for_effect sv, rs_project = rs_project sv,
      rs_validation_input = rs_validation_input sv, rs_validate = rs_validate sv,
      rs_plan = rs_plan sv, rs_verify = rs_verify sv,
      rs_returned_existing = rs_returned_existing sv, rs_verified = rs_verified sv,
      rs_failed = rs_failed sv\<rparr>"

lemma record_ready_sel [simp]:
  "rs_request (record_ready sv) = rs_request sv" "rs_requester (record_ready sv) = rs_requester sv"
  "rs_project (record_ready sv) = rs_project sv"
  "rs_validation_input (record_ready sv) = rs_validation_input sv"
  "rs_validate (record_ready sv) = rs_validate sv" "rs_plan (record_ready sv) = rs_plan sv"
  by (simp_all add: record_ready_def)

lemma ready_admit_record [simp]: "ready_admit (record_ready sv) i = ready_admit sv i"
proof -
  have "ready_project_checked (record_ready sv) i = ready_project_checked sv i"
    by (simp add: ready_project_checked_def split: option.splits)
  moreover have "ready_check (record_ready sv) i c = ready_check sv i c" for c
    by (auto simp: ready_check_def split: option.splits sum.splits)
  ultimately show ?thesis
    by (auto simp: ready_admit_def split: option.splits sum.splits prod.splits)
qed

lemma ready_finish_log:
  "snd (snd (ready_finish (record_ready sv) plan wl)) = snd wl"
  "snd (snd (ready_finish_failed (record_ready sv) e f wl)) = snd wl"
  by (simp_all add: ready_finish_def ready_finish_failed_def record_ready_def not_recording_def
      split: prod.splits)

lemma ready_admit_sound:
  assumes "ready_admit sv i = Inr (plan, eo)"
  shows "\<exists>p c v validation.
     rs_project sv i = Some p \<and> pr_change p = Some c \<and>
     root_issue (ch_identity c) = mr_issue (rs_request sv) \<and> ch_state c \<in> {DRAFT, REVIEW} \<and>
     rs_validation_input sv i (Some c) (rs_requester sv) = Some v \<and>
     rs_validate sv v = Some validation \<and> ve_valid validation \<and> rs_plan sv v = Some plan \<and>
     tp_effects plan = (case eo of None \<Rightarrow> [] | Some e \<Rightarrow> [e]) \<and> (\<forall>e. eo = Some e \<longrightarrow> is_mark_ready e)"
proof -
  from assms obtain p c v where p: "ready_project_checked sv i = Inr p" "pr_change p = Some c"
    and check: "ready_check sv i c = (Some v, None)"
    and plan: "rs_plan sv v = Some plan" "ready_plan_effect (tp_effects plan) = Some eo"
    by (auto simp: ready_admit_def split: sum.splits option.splits prod.splits)
  from p have "rs_project sv i = Some p" "root_issue (ch_identity c) = mr_issue (rs_request sv)"
    by (auto simp: ready_project_checked_def projection_root_issue_def split: option.splits if_splits)
  moreover from check have "ch_state c \<in> {DRAFT, REVIEW}"
    by (cases "ch_state c") (auto simp: ready_check_def transition_eq rejected_transition_def)
  moreover from check obtain validation where
    "rs_validation_input sv i (Some c) (rs_requester sv) = Some v"
    "rs_validate sv v = Some validation" "ve_valid validation"
    by (auto simp: ready_check_def split: sum.splits if_splits option.splits)
  moreover from plan(2) have "tp_effects plan = (case eo of None \<Rightarrow> [] | Some e \<Rightarrow> [e])"
    "\<forall>e. eo = Some e \<longrightarrow> is_mark_ready e"
    by (auto simp: ready_plan_no_effect dest: is_mark_ready_plan split: option.splits)
  ultimately show ?thesis using p(2) plan(1) by blast
qed

text \<open>A repository whose state is the lifecycle state of one Change.\<close>

definition sample_ready :: "(change_state, change_state, change_state) ready_services" where
  "sample_ready =
     \<lparr>rs_request = sample_request OpReady, rs_requester = None,
      rs_read = (\<lambda>q w. (Fulfilled (Read_Ok w), w)),
      rs_apply = (\<lambda>e w. (Fulfilled (Effect_Ok None), REVIEW)),
      rs_failure_for_effect = (\<lambda>e. None), rs_project = (\<lambda>i. Some (sample_projection i)),
      rs_validation_input = (\<lambda>i c r. Some i), rs_validate = (\<lambda>v. Some sample_valid),
      rs_plan = (\<lambda>v. Some \<lparr>tp_request = \<lparr>tq_transition = OpReady, tq_change = sample_change v,
                                        tq_target = None\<rparr>,
                           tp_from = v, tp_to = REVIEW, tp_result = sample_change REVIEW,
                           tp_effects = [MARK_PULL_REQUEST_READY 7]\<rparr>),
      rs_verify = (\<lambda>q i p plan. Some (sample_valid\<lparr>ve_valid := i = REVIEW\<rparr>)),
      rs_returned_existing = (\<lambda>p. None), rs_verified = (\<lambda>p e. Some (sample_result REVIEW)),
      rs_failed = (\<lambda>p e f. None)\<rparr>"

lemma sample_ready_run:
  "ready_program (record_ready sample_ready) (DRAFT, []) =
     (Result (sample_result REVIEW), REVIEW, [Some (MARK_PULL_REQUEST_READY 7)])"
  "ready_program sample_ready DRAFT = (Result (sample_result REVIEW), REVIEW)"
  by (simp_all add: ready_program_def ready_admit_def ready_project_checked_def ready_check_def
      ready_finish_def ready_verify_result_def sample_ready_def record_ready_def recording_def
      not_recording_def is_mark_ready_def transition_eq)

text \<open>
  C3. The provider is asked for at most one effect, and only for the Ready mark of an
  admitted Change: if anything was applied, the first read returned evidence whose projection
  belongs to the requested Issue and is in \<^verbatim>\<open>DRAFT\<close> or \<^verbatim>\<open>REVIEW\<close>,
  the Ready validation accepted it, and the effect is the single effect of its plan.
\<close>

theorem ready_effect_guarded:
  assumes "execute_ready (record_ready sv) (w, []) = Some (out, w', log)" and "log \<noteq> []"
  shows "\<exists>i w1 p c v validation plan e.
     rs_read sv (rs_request sv) w = (Fulfilled (Read_Ok i), w1) \<and>
     rs_project sv i = Some p \<and> pr_change p = Some c \<and>
     root_issue (ch_identity c) = mr_issue (rs_request sv) \<and> ch_state c \<in> {DRAFT, REVIEW} \<and>
     rs_validation_input sv i (Some c) (rs_requester sv) = Some v \<and>
     rs_validate sv v = Some validation \<and> ve_valid validation \<and>
     rs_plan sv v = Some plan \<and> tp_effects plan = [e] \<and> is_mark_ready e \<and> log = [Some e]"
proof -
  from assms(1) have prog: "ready_program (record_ready sv) (w, []) = (out, w', log)"
    by (simp add: execute_ready_eq)
  obtain r w1 where read: "rs_read sv (rs_request sv) w = (r, w1)" by fastforce
  then have read': "rs_read (record_ready sv) (rs_request (record_ready sv)) (w, []) = (r, w1, [])"
    by (simp add: record_ready_def not_recording_def)
  with prog assms(2) obtain i where i: "r = Fulfilled (Read_Ok i)"
    by (auto simp: ready_program_apply split: settled.splits read_result.splits)
  with prog read' assms(2) obtain plan eo where admit: "ready_admit sv i = Inr (plan, eo)"
    and app: "ready_apply (record_ready sv) plan eo (w1, []) = (out, w', log)"
    by (auto simp: ready_program_apply split: sum.splits prod.splits)
  have finish: "ready_finish (record_ready sv) plan wl = (out, w', log) \<Longrightarrow> log = snd wl"
    "ready_finish_failed (record_ready sv) e f wl = (out, w', log) \<Longrightarrow> log = snd wl" for wl e f
    using ready_finish_log(1) [of sv plan wl] ready_finish_log(2) [of sv e f wl] by auto
  have apply_rec: "rs_apply (record_ready sv) = recording (rs_apply sv)"
    by (simp add: record_ready_def)
  from app assms(2) obtain e where e: "eo = Some e"
    by (cases eo) (auto simp: ready_apply_def dest: finish)
  with app have "log = [Some e]"
    by (auto simp: ready_apply_def apply_rec recording_def dest: finish
        split: prod.splits settled.splits effect_result.splits option.splits)
  with ready_admit_sound [OF admit] e read i show ?thesis by fastforce
qed

theorem ready_effect_guarded_witness:
  "\<exists>i w1 p c v validation plan e.
     rs_read sample_ready (rs_request sample_ready) DRAFT = (Fulfilled (Read_Ok i), w1) \<and>
     rs_project sample_ready i = Some p \<and> pr_change p = Some c \<and>
     root_issue (ch_identity c) = mr_issue (rs_request sample_ready) \<and> ch_state c \<in> {DRAFT, REVIEW} \<and>
     rs_validation_input sample_ready i (Some c) (rs_requester sample_ready) = Some v \<and>
     rs_validate sample_ready v = Some validation \<and> ve_valid validation \<and>
     rs_plan sample_ready v = Some plan \<and> tp_effects plan = [e] \<and> is_mark_ready e \<and>
     [Some (MARK_PULL_REQUEST_READY 7)] = [Some e]"
  by (rule ready_effect_guarded [of sample_ready DRAFT "Result (sample_result REVIEW)" REVIEW])
    (simp_all add: execute_ready_eq sample_ready_run)



end
