(* ===== verification/Abort_Machine.thy ===== *)
theory Abort_Machine
  imports Ready_Machine
begin

text \<open>
  The Abort execution machine, \<^verbatim>\<open>src/change/machine/abort-execution-machine.ts\<close>: read
  and project the evidence, classify it (normal, recovery or already clean), plan, apply the
  planned \<^verbatim>\<open>CLOSE_PULL_REQUEST\<close> and \<^verbatim>\<open>DELETE_BRANCH\<close> effects one
  after the other, read again, and either verify the result or, after a failed effect, compute
  the bounded recovery.  Only \<^verbatim>\<open>semantics.project\<close> is called under a
  \<^verbatim>\<open>catch\<close>; every other exception stops the actor in error.
\<close>

subsection \<open>Services and context\<close>

datatype abort_phase = Normal_Phase | Recovery_Phase | Clean_Phase

record ('w, 'i) abort_services =
  as_request :: mutation_request
  as_read :: "mutation_request \<Rightarrow> 'w \<Rightarrow> 'i read_result settled \<times> 'w"
  as_apply :: "change_effect option \<Rightarrow> 'w \<Rightarrow> effect_result settled \<times> 'w"
  as_failure_for_effect :: "change_effect \<Rightarrow> effect_failure option"
  as_recovery_read_failure ::
    "mutation_request \<Rightarrow> effect_attempt list \<Rightarrow> effect_failure_evidence \<Rightarrow> execution_failure option"
  as_project :: "'i \<Rightarrow> projection_result option"
  as_classify :: "projection_result \<Rightarrow> (execution_failure + abort_phase) option"
  as_plan :: "mutation_request \<Rightarrow> projection_result \<Rightarrow> transition_plan plan_result option"
  as_recover ::
    "mutation_request \<Rightarrow> transition_plan \<Rightarrow> effect_attempt list \<Rightarrow> effect_failure_evidence \<Rightarrow> 'i \<Rightarrow>
       (execution_failure + execution_result) option"
  as_verify ::
    "mutation_request \<Rightarrow> 'i \<Rightarrow> projection_result \<Rightarrow> transition_plan \<Rightarrow> verification_result option"
  as_returned_existing :: "projection_result \<Rightarrow> execution_result option"
  as_verified :: "projection_result \<Rightarrow> effect_attempt list \<Rightarrow> execution_result option"

datatype abort_reread_mode = Abort_Verify | Abort_Recover

record 'i abort_context =
  ac_phase :: "abort_phase option"
  ac_read_stage :: "read_stage option"
  ac_reread_mode :: "abort_reread_mode option"
  ac_input :: "'i option"
  ac_projection :: "projection_result option"
  ac_plan :: "transition_plan option"
  ac_effect_index :: nat
  ac_attempts :: "effect_attempt list"
  ac_effect_failure :: "effect_failure_evidence option"
  ac_failure :: "execution_failure option"
  ac_result :: "execution_result option"
  ac_outcome :: "execution_outcome_value option"

definition abort_initial_context :: "'i abort_context" where
  "abort_initial_context =
     \<lparr>ac_phase = None, ac_read_stage = None, ac_reread_mode = None, ac_input = None,
      ac_projection = None, ac_plan = None, ac_effect_index = 0, ac_attempts = [],
      ac_effect_failure = None, ac_failure = None, ac_result = None, ac_outcome = None\<rparr>"

datatype abort_state =
    A_reading | A_projecting | A_classifyingAbort | A_planning | A_applying | A_nextEffect
  | A_rereading | A_recoveryPlanning | A_verifying | A_completed | A_recoveryRequired
  | A_readFailed | A_preconditionFailed | A_verificationFailed | A_recoveryFailed

subsection \<open>Bounded failures\<close>

definition abort_precondition_failure :: execution_failure where
  "abort_precondition_failure =
     exec_failure PRECONDITION_FAILED ''Abort transition preconditions failed.'' []"

definition abort_verification_failure :: "string \<Rightarrow> execution_failure" where
  "abort_verification_failure message = exec_failure PROJECTION_VERIFICATION_FAILED message []"

definition abort_default_verification_failure :: execution_failure where
  "abort_default_verification_failure =
     abort_verification_failure ''Post-effect Abort projection verification failed.''"

definition abort_failed_closed :: execution_failure where
  "abort_failed_closed = abort_verification_failure ''Abort execution machine failed closed.''"

definition abort_invalid_effect :: execution_failure where
  "abort_invalid_effect = abort_verification_failure ''Abort execution produced an invalid effect.''"

definition abort_recovery_failure :: "string \<Rightarrow> execution_failure" where
  "abort_recovery_failure message = exec_failure EXECUTION_RECOVERY_REQUIRED message []"

definition abort_unbounded_failure :: execution_failure where
  "abort_unbounded_failure =
     abort_recovery_failure ''A failed Change transition could not be bounded for recovery.''"

subsection \<open>Effects of the plan\<close>

text \<open>\<^verbatim>\<open>effectAt\<close>: the effect at the index, if it is one the Abort machine may apply.\<close>

definition abort_effect :: "change_effect \<Rightarrow> change_effect option" where
  "abort_effect e =
     (if effect_kind e = K_CLOSE_PULL_REQUEST \<or> effect_kind e = K_DELETE_BRANCH then Some e else None)"

definition abort_effect_at :: "'i abort_context \<Rightarrow> change_effect option" where
  "abort_effect_at ctx =
     (case ac_plan ctx of
        None \<Rightarrow> None
      | Some plan \<Rightarrow>
          if ac_effect_index ctx < length (tp_effects plan)
          then abort_effect (tp_effects plan ! ac_effect_index ctx) else None)"

definition attempt_of :: "attempt_status \<Rightarrow> change_effect \<Rightarrow> effect_attempt" where
  "attempt_of status e = \<lparr>at_effect = e, at_status = status, at_evidence = None\<rparr>"

definition append_attempt ::
  "'i abort_context \<Rightarrow> change_effect \<Rightarrow> attempt_status \<Rightarrow> effect_attempt list" where
  "append_attempt ctx e status = ac_attempts ctx @ [attempt_of status e]"

definition failed_effect :: "change_effect \<Rightarrow> effect_failure \<Rightarrow> effect_failure_evidence" where
  "failed_effect e f = \<lparr>fe_effect = e, fe_failure = f\<rparr>"

definition abort_recovery_read_failure ::
  "('w, 'i) abort_services \<Rightarrow> 'i abort_context \<Rightarrow> execution_failure option" where
  "abort_recovery_read_failure sv ctx =
     (case ac_effect_failure ctx of
        None \<Rightarrow> Some abort_unbounded_failure
      | Some f \<Rightarrow> as_recovery_read_failure sv (as_request sv) (ac_attempts ctx) f)"

subsection \<open>The states\<close>

definition abort_reading_done ::
  "'i read_result settled \<Rightarrow> 'i abort_context \<Rightarrow> abort_state \<times> 'i abort_context" where
  "abort_reading_done r ctx =
     (case r of
        Fulfilled (Read_Ok i) \<Rightarrow>
          (A_projecting, ctx\<lparr>ac_input := Some i, ac_read_stage := Some Initial_Read,
                             ac_reread_mode := None, ac_projection := None, ac_failure := None\<rparr>)
      | Fulfilled (Read_Failed f) \<Rightarrow> (A_readFailed, ctx\<lparr>ac_failure := Some f\<rparr>)
      | Rejected \<Rightarrow> (A_readFailed, ctx\<lparr>ac_failure := Some default_read_failure\<rparr>))"

definition abort_recovery_reread :: "'i abort_context \<Rightarrow> bool" where
  "abort_recovery_reread ctx \<longleftrightarrow>
     ac_read_stage ctx = Some Reread \<and> ac_reread_mode ctx = Some Abort_Recover"

text \<open>A failed projection; computing the recovery failure may itself throw.\<close>

definition abort_projecting_failed ::
  "('w, 'i) abort_services \<Rightarrow> execution_failure \<Rightarrow> 'i abort_context \<Rightarrow> 'i abort_context option" where
  "abort_projecting_failed sv failure ctx =
     (if abort_recovery_reread ctx
      then map_option (\<lambda>f. ctx\<lparr>ac_projection := None, ac_failure := Some f\<rparr>)
             (abort_recovery_read_failure sv ctx)
      else Some (ctx\<lparr>ac_projection := None, ac_failure := Some failure\<rparr>))"

definition abort_projecting_entry ::
  "('w, 'i) abort_services \<Rightarrow> 'i abort_context \<Rightarrow> 'i abort_context option" where
  "abort_projecting_entry sv ctx =
     (case ac_input ctx of
        None \<Rightarrow> abort_projecting_failed sv default_read_failure ctx
      | Some i \<Rightarrow>
          (case as_project sv i of
             None \<Rightarrow> abort_projecting_failed sv default_read_failure ctx
           | Some p \<Rightarrow>
               if projection_root_issue p \<noteq> Some (mr_issue (as_request sv))
               then abort_projecting_failed sv identity_failure ctx
               else Some (ctx\<lparr>ac_projection := Some p, ac_failure := None\<rparr>)))"

definition abort_projecting_always :: "'i abort_context \<Rightarrow> abort_state" where
  "abort_projecting_always ctx =
     (if ac_read_stage ctx = Some Initial_Read \<and> ac_projection ctx \<noteq> None then A_classifyingAbort
      else if abort_recovery_reread ctx \<and> ac_projection ctx \<noteq> None then A_recoveryPlanning
      else if ac_read_stage ctx = Some Reread \<and> ac_reread_mode ctx = Some Abort_Verify
              \<and> ac_projection ctx \<noteq> None then A_verifying
      else if abort_recovery_reread ctx then A_recoveryFailed
      else A_readFailed)"

definition abort_classifying_entry ::
  "('w, 'i) abort_services \<Rightarrow> 'i abort_context \<Rightarrow> 'i abort_context option" where
  "abort_classifying_entry sv ctx =
     (case ac_projection ctx of
        None \<Rightarrow> Some (ctx\<lparr>ac_failure := Some default_read_failure\<rparr>)
      | Some p \<Rightarrow>
          (case as_classify sv p of
             None \<Rightarrow> None
           | Some (Inr phase) \<Rightarrow> Some (ctx\<lparr>ac_phase := Some phase, ac_failure := None\<rparr>)
           | Some (Inl f) \<Rightarrow> Some (ctx\<lparr>ac_failure := Some f\<rparr>)))"

definition abort_classifying_always ::
  "('w, 'i) abort_services \<Rightarrow> 'i abort_context \<Rightarrow> (abort_state \<times> 'i abort_context) option" where
  "abort_classifying_always sv ctx =
     (case (ac_phase ctx, ac_projection ctx) of
        (Some Clean_Phase, Some p) \<Rightarrow>
          map_option (\<lambda>r. (A_completed, ctx\<lparr>ac_result := Some r\<rparr>)) (as_returned_existing sv p)
      | (phase, _) \<Rightarrow>
          if phase \<noteq> None \<and> phase \<noteq> Some Clean_Phase \<and> ac_failure ctx = None
          then Some (A_planning, ctx) else Some (A_preconditionFailed, ctx))"

definition abort_planning_entry ::
  "('w, 'i) abort_services \<Rightarrow> 'i abort_context \<Rightarrow> 'i abort_context option" where
  "abort_planning_entry sv ctx =
     (case ac_projection ctx of
        None \<Rightarrow> Some (ctx\<lparr>ac_plan := None, ac_failure := Some abort_precondition_failure\<rparr>)
      | Some p \<Rightarrow>
          (case as_plan sv (as_request sv) p of
             None \<Rightarrow> None
           | Some (Plan_Ok plan) \<Rightarrow>
               Some (ctx\<lparr>ac_plan := Some plan, ac_failure := None, ac_effect_index := 0,
                         ac_reread_mode := Some Abort_Verify\<rparr>)
           | Some (Plan_Failed f) \<Rightarrow> Some (ctx\<lparr>ac_failure := Some f\<rparr>)))"

definition abort_planning_always :: "'i abort_context \<Rightarrow> abort_state" where
  "abort_planning_always ctx =
     (case ac_plan ctx of
        None \<Rightarrow> A_preconditionFailed
      | Some plan \<Rightarrow> if tp_effects plan = [] then A_rereading else A_applying)"

text \<open>The invoked effect: success, reported failure, rejection.\<close>

definition abort_record_failed ::
  "change_effect \<Rightarrow> effect_failure \<Rightarrow> 'i abort_context \<Rightarrow> 'i abort_context" where
  "abort_record_failed e f ctx =
     ctx\<lparr>ac_reread_mode := Some Abort_Recover, ac_effect_failure := Some (failed_effect e f),
         ac_attempts := append_attempt ctx e Failed\<rparr>"

definition abort_applying_done ::
  "('w, 'i) abort_services \<Rightarrow> effect_result settled \<Rightarrow> 'i abort_context \<Rightarrow>
     (abort_state \<times> 'i abort_context) option" where
  "abort_applying_done sv r ctx =
     (case (r, abort_effect_at ctx) of
        (Fulfilled (Effect_Ok ev), Some e) \<Rightarrow>
          Some (A_nextEffect, ctx\<lparr>ac_attempts := append_attempt ctx e Succeeded,
                                  ac_effect_failure := None\<rparr>)
      | (Fulfilled (Effect_Ok ev), None) \<Rightarrow>
          Some (A_nextEffect, ctx\<lparr>ac_failure := Some abort_invalid_effect\<rparr>)
      | (Fulfilled (Effect_Failed f), Some e) \<Rightarrow> Some (A_rereading, abort_record_failed e f ctx)
      | (Rejected, Some e) \<Rightarrow>
          map_option (\<lambda>f. (A_rereading, abort_record_failed e f ctx)) (as_failure_for_effect sv e)
      | (_, None) \<Rightarrow> Some (A_rereading, ctx\<lparr>ac_failure := Some abort_invalid_effect\<rparr>))"

definition abort_next_effect :: "'i abort_context \<Rightarrow> abort_state \<times> 'i abort_context" where
  "abort_next_effect ctx =
     (if (case ac_plan ctx of None \<Rightarrow> False
          | Some plan \<Rightarrow> ac_effect_index ctx + 1 < length (tp_effects plan))
      then (A_applying, ctx\<lparr>ac_effect_index := ac_effect_index ctx + 1\<rparr>)
      else (A_rereading, ctx\<lparr>ac_reread_mode := Some Abort_Verify\<rparr>))"

definition abort_rereading_done ::
  "('w, 'i) abort_services \<Rightarrow> 'i read_result settled \<Rightarrow> 'i abort_context \<Rightarrow>
     (abort_state \<times> 'i abort_context) option" where
  "abort_rereading_done sv r ctx =
     (case r of
        Fulfilled (Read_Ok i) \<Rightarrow>
          Some (A_projecting, ctx\<lparr>ac_input := Some i, ac_read_stage := Some Reread, ac_failure := None\<rparr>)
      | _ \<Rightarrow>
          if ac_reread_mode ctx = Some Abort_Recover
          then map_option (\<lambda>f. (A_recoveryFailed, ctx\<lparr>ac_failure := Some f\<rparr>))
                 (abort_recovery_read_failure sv ctx)
          else Some (A_readFailed, ctx\<lparr>ac_failure := Some (case r of
                       Fulfilled (Read_Failed f) \<Rightarrow> f | _ \<Rightarrow> default_read_failure)\<rparr>))"

definition abort_recovery_planning_entry ::
  "('w, 'i) abort_services \<Rightarrow> 'i abort_context \<Rightarrow> 'i abort_context option" where
  "abort_recovery_planning_entry sv ctx =
     (case (ac_input ctx, ac_plan ctx, ac_effect_failure ctx, ac_projection ctx) of
        (Some i, Some plan, Some f, Some p) \<Rightarrow>
          (case as_recover sv (as_request sv) plan (ac_attempts ctx) f i of
             None \<Rightarrow> None
           | Some (Inr result) \<Rightarrow> Some (ctx\<lparr>ac_result := Some result, ac_failure := None\<rparr>)
           | Some (Inl failure) \<Rightarrow> Some (ctx\<lparr>ac_failure := Some failure\<rparr>))
      | _ \<Rightarrow> Some (ctx\<lparr>ac_failure := Some (abort_recovery_failure
               ''A failed Change transition could not produce a bounded recovery plan.'')\<rparr>))"

definition abort_recovery_planning_always :: "'i abort_context \<Rightarrow> abort_state" where
  "abort_recovery_planning_always ctx =
     (if ac_result ctx \<noteq> None then A_recoveryRequired else A_recoveryFailed)"

definition abort_verifying_entry ::
  "('w, 'i) abort_services \<Rightarrow> 'i abort_context \<Rightarrow> 'i abort_context option" where
  "abort_verifying_entry sv ctx =
     (case (ac_input ctx, ac_projection ctx, ac_plan ctx) of
        (Some i, Some p, Some plan) \<Rightarrow>
          (case as_verify sv (as_request sv) i p plan of
             None \<Rightarrow> None
           | Some verification \<Rightarrow>
               if \<not> ve_valid verification
               then Some (ctx\<lparr>ac_failure := Some
                      \<lparr>xl_code = PROJECTION_VERIFICATION_FAILED,
                       xl_message = or_else (ve_message verification)
                         (js ''Post-effect Abort projection verification failed.''),
                       xl_diagnostics = ve_diagnostics verification, xl_evidence = None\<rparr>\<rparr>)
               else map_option (\<lambda>result. ctx\<lparr>ac_result := Some result, ac_failure := None\<rparr>)
                      (if tp_effects plan = [] then as_returned_existing sv p
                       else as_verified sv p (ac_attempts ctx)))
      | _ \<Rightarrow> Some (ctx\<lparr>ac_failure := Some abort_default_verification_failure\<rparr>))"

definition abort_verifying_always :: "'i abort_context \<Rightarrow> abort_state" where
  "abort_verifying_always ctx =
     (if ac_result ctx \<noteq> None \<and> ac_failure ctx = None then A_completed else A_verificationFailed)"

definition abort_result_entry ::
  "execution_failure \<Rightarrow> 'i abort_context \<Rightarrow> 'i abort_context" where
  "abort_result_entry fallback ctx =
     ctx\<lparr>ac_outcome := Some (case ac_result ctx of None \<Rightarrow> Failure fallback | Some r \<Rightarrow> Result r)\<rparr>"

definition abort_failed_entry ::
  "execution_failure \<Rightarrow> 'i abort_context \<Rightarrow> 'i abort_context" where
  "abort_failed_entry fallback ctx =
     ctx\<lparr>ac_outcome := Some (Failure (or_else (ac_failure ctx) fallback))\<rparr>"

subsection \<open>The chart\<close>

text \<open>
  \<^verbatim>\<open>recoveryRequired\<close> is a compound state whose only child
  \<^verbatim>\<open>cleanupPending\<close> is final: entering it runs the child's entry, and its
  \<^verbatim>\<open>onDone\<close> then leads to \<^verbatim>\<open>completed\<close>.
\<close>

fun abort_entry ::
  "('w, 'i) abort_services \<Rightarrow> abort_state \<Rightarrow> 'i abort_context \<Rightarrow> 'i abort_context option" where
  "abort_entry sv A_projecting ctx = abort_projecting_entry sv ctx"
| "abort_entry sv A_classifyingAbort ctx = abort_classifying_entry sv ctx"
| "abort_entry sv A_planning ctx = abort_planning_entry sv ctx"
| "abort_entry sv A_recoveryPlanning ctx = abort_recovery_planning_entry sv ctx"
| "abort_entry sv A_verifying ctx = abort_verifying_entry sv ctx"
| "abort_entry sv A_completed ctx = Some (abort_result_entry abort_default_verification_failure ctx)"
| "abort_entry sv A_recoveryRequired ctx = Some (abort_result_entry
     (abort_recovery_failure ''A failed Change transition requires governed recovery.'') ctx)"
| "abort_entry sv A_readFailed ctx = Some (abort_failed_entry default_read_failure ctx)"
| "abort_entry sv A_preconditionFailed ctx = Some (abort_failed_entry abort_precondition_failure ctx)"
| "abort_entry sv A_verificationFailed ctx =
     Some (abort_failed_entry abort_default_verification_failure ctx)"
| "abort_entry sv A_recoveryFailed ctx = Some (abort_failed_entry abort_unbounded_failure ctx)"
| "abort_entry sv _ ctx = Some ctx"

fun abort_final :: "abort_state \<Rightarrow> bool" where
  "abort_final A_completed = True"
| "abort_final A_readFailed = True"
| "abort_final A_preconditionFailed = True"
| "abort_final A_verificationFailed = True"
| "abort_final A_recoveryFailed = True"
| "abort_final _ = False"

fun abort_transition ::
  "('w, 'i) abort_services \<Rightarrow> abort_state \<Rightarrow> 'i abort_context \<Rightarrow> 'w \<Rightarrow>
     (abort_state \<times> 'i abort_context) option \<times> 'w" where
  "abort_transition sv A_reading ctx w =
     (case as_read sv (as_request sv) w of (r, w') \<Rightarrow> (Some (abort_reading_done r ctx), w'))"
| "abort_transition sv A_projecting ctx w = (Some (abort_projecting_always ctx, ctx), w)"
| "abort_transition sv A_classifyingAbort ctx w = (abort_classifying_always sv ctx, w)"
| "abort_transition sv A_planning ctx w = (Some (abort_planning_always ctx, ctx), w)"
| "abort_transition sv A_applying ctx w =
     (case as_apply sv (abort_effect_at ctx) w of (r, w') \<Rightarrow> (abort_applying_done sv r ctx, w'))"
| "abort_transition sv A_nextEffect ctx w = (Some (abort_next_effect ctx), w)"
| "abort_transition sv A_rereading ctx w =
     (case as_read sv (as_request sv) w of (r, w') \<Rightarrow> (abort_rereading_done sv r ctx, w'))"
| "abort_transition sv A_recoveryPlanning ctx w = (Some (abort_recovery_planning_always ctx, ctx), w)"
| "abort_transition sv A_verifying ctx w = (Some (abort_verifying_always ctx, ctx), w)"
| "abort_transition sv A_recoveryRequired ctx w = (Some (A_completed, ctx), w)"
| "abort_transition sv s ctx w = (Some (s, ctx), w)"

definition abort_chart ::
  "('w, 'i) abort_services \<Rightarrow> (abort_state, 'i abort_context, 'w) chart" where
  "abort_chart sv = \<lparr>entry_action = abort_entry sv, transition = abort_transition sv, is_final = abort_final\<rparr>"

definition execute_abort ::
  "('w, 'i) abort_services \<Rightarrow> 'w \<Rightarrow> (execution_outcome_value \<times> 'w) option" where
  "execute_abort sv w =
     actor_outcome abort_failed_closed ac_outcome
       (chart_run (abort_chart sv) (Active A_reading abort_initial_context w))"

subsection \<open>The machine as straight-line code\<close>

definition abort_project_checked ::
  "('w, 'i) abort_services \<Rightarrow> 'i \<Rightarrow> execution_failure + projection_result" where
  "abort_project_checked sv i =
     (case as_project sv i of
        None \<Rightarrow> Inl default_read_failure
      | Some p \<Rightarrow> if projection_root_issue p \<noteq> Some (mr_issue (as_request sv)) then Inl identity_failure
                  else Inr p)"

abbreviation or_failed_closed :: "('a \<Rightarrow> execution_outcome_value) \<Rightarrow> 'a option \<Rightarrow> execution_outcome_value" where
  "or_failed_closed \<equiv> or_thrown abort_failed_closed"

definition abort_finish ::
  "('w, 'i) abort_services \<Rightarrow> transition_plan \<Rightarrow> effect_attempt list \<Rightarrow> 'w \<Rightarrow>
     execution_outcome_value \<times> 'w" where
  "abort_finish sv plan atts w =
     (case as_read sv (as_request sv) w of (r, w') \<Rightarrow>
        ((case r of
            Rejected \<Rightarrow> Failure default_read_failure
          | Fulfilled (Read_Failed f) \<Rightarrow> Failure f
          | Fulfilled (Read_Ok i) \<Rightarrow>
              (case abort_project_checked sv i of
                 Inl f \<Rightarrow> Failure f
               | Inr p \<Rightarrow>
                   or_failed_closed (\<lambda>verification.
                     if ve_valid verification
                     then or_failed_closed Result (if tp_effects plan = [] then as_returned_existing sv p
                                                   else as_verified sv p atts)
                     else Failure \<lparr>xl_code = PROJECTION_VERIFICATION_FAILED,
                            xl_message = or_else (ve_message verification)
                              (js ''Post-effect Abort projection verification failed.''),
                            xl_diagnostics = ve_diagnostics verification, xl_evidence = None\<rparr>)
                   (as_verify sv (as_request sv) i p plan))), w'))"

definition abort_finish_recovery ::
  "('w, 'i) abort_services \<Rightarrow> transition_plan \<Rightarrow> effect_attempt list \<Rightarrow> effect_failure_evidence \<Rightarrow> 'w \<Rightarrow>
     execution_outcome_value \<times> 'w" where
  "abort_finish_recovery sv plan atts failure w =
     (let unread = or_failed_closed Failure (as_recovery_read_failure sv (as_request sv) atts failure)
      in case as_read sv (as_request sv) w of (r, w') \<Rightarrow>
        ((case r of
            Fulfilled (Read_Ok i) \<Rightarrow>
              (case abort_project_checked sv i of
                 Inl f \<Rightarrow> unread
               | Inr p \<Rightarrow>
                   or_failed_closed (\<lambda>recovered. case recovered of Inl f \<Rightarrow> Failure f | Inr result \<Rightarrow> Result result)
                     (as_recover sv (as_request sv) plan atts failure i))
          | _ \<Rightarrow> unread), w'))"

text \<open>
  The effect loop over the rest of the plan: \<^const>\<open>None\<close> is an actor stopped in
  error; otherwise the attempts so far and the failure that ended the loop, if any.
\<close>

fun abort_effects ::
  "('w, 'i) abort_services \<Rightarrow> change_effect list \<Rightarrow> effect_attempt list \<Rightarrow> 'w \<Rightarrow>
     (effect_attempt list \<times> effect_failure_evidence option) option \<times> 'w" where
  "abort_effects sv [] atts w = (Some (atts, None), w)"
| "abort_effects sv (e # es) atts w =
     (case as_apply sv (abort_effect e) w of
        (r, w') \<Rightarrow>
          (case (r, abort_effect e) of
             (Fulfilled (Effect_Ok ev), Some e') \<Rightarrow>
               abort_effects sv es (atts @ [attempt_of Succeeded e']) w'
           | (Fulfilled (Effect_Ok ev), None) \<Rightarrow> abort_effects sv es atts w'
           | (Fulfilled (Effect_Failed f), Some e') \<Rightarrow>
               (Some (atts @ [attempt_of Failed e'], Some (failed_effect e' f)), w')
           | (Rejected, Some e') \<Rightarrow>
               (map_option (\<lambda>f. (atts @ [attempt_of Failed e'], Some (failed_effect e' f)))
                  (as_failure_for_effect sv e'), w')
           | (_, None) \<Rightarrow> (Some (atts, None), w')))"

definition abort_execute_plan ::
  "('w, 'i) abort_services \<Rightarrow> transition_plan \<Rightarrow> 'w \<Rightarrow> execution_outcome_value \<times> 'w" where
  "abort_execute_plan sv plan w =
     (case abort_effects sv (tp_effects plan) [] w of
        (None, w') \<Rightarrow> (Failure abort_failed_closed, w')
      | (Some (atts, None), w') \<Rightarrow> abort_finish sv plan atts w'
      | (Some (atts, Some f), w') \<Rightarrow> abort_finish_recovery sv plan atts f w')"

text \<open>What is decided before any effect: an outcome, or a plan to execute.\<close>

definition abort_admit ::
  "('w, 'i) abort_services \<Rightarrow> 'i \<Rightarrow> execution_outcome_value + transition_plan" where
  "abort_admit sv i =
     (case abort_project_checked sv i of
        Inl f \<Rightarrow> Inl (Failure f)
      | Inr p \<Rightarrow>
          (case as_classify sv p of
             None \<Rightarrow> Inl (Failure abort_failed_closed)
           | Some (Inl f) \<Rightarrow> Inl (Failure f)
           | Some (Inr Clean_Phase) \<Rightarrow> Inl (or_failed_closed Result (as_returned_existing sv p))
           | Some (Inr _) \<Rightarrow>
               (case as_plan sv (as_request sv) p of
                  None \<Rightarrow> Inl (Failure abort_failed_closed)
                | Some (Plan_Failed f) \<Rightarrow> Inl (Failure f)
                | Some (Plan_Ok plan) \<Rightarrow> Inr plan)))"

definition abort_program ::
  "('w, 'i) abort_services \<Rightarrow> 'w \<Rightarrow> execution_outcome_value \<times> 'w" where
  "abort_program sv w =
     (case as_read sv (as_request sv) w of
        (Rejected, w1) \<Rightarrow> (Failure default_read_failure, w1)
      | (Fulfilled (Read_Failed f), w1) \<Rightarrow> (Failure f, w1)
      | (Fulfilled (Read_Ok i), w1) \<Rightarrow>
          (case abort_admit sv i of Inl out \<Rightarrow> (out, w1) | Inr plan \<Rightarrow> abort_execute_plan sv plan w1))"

subsection \<open>The chart computes the program\<close>

lemma abort_chart_sel [simp]:
  "entry_action (abort_chart sv) = abort_entry sv"
  "transition (abort_chart sv) = abort_transition sv"
  "is_final (abort_chart sv) = abort_final"
  by (simp_all add: abort_chart_def)

abbreviation abort_run ::
  "('w, 'i) abort_services \<Rightarrow> abort_state \<Rightarrow> 'i abort_context \<Rightarrow> 'w \<Rightarrow>
     (execution_outcome_value \<times> 'w) option" where
  "abort_run sv s ctx w \<equiv>
     actor_outcome abort_failed_closed ac_outcome (chart_run (abort_chart sv) (Active s ctx w))"

abbreviation abort_resume ::
  "('w, 'i) abort_services \<Rightarrow> (abort_state \<times> 'i abort_context) option \<Rightarrow> 'w \<Rightarrow>
     (execution_outcome_value \<times> 'w) option" where
  "abort_resume sv \<equiv> resume (abort_chart sv) abort_failed_closed ac_outcome"

abbreviation abort_entered ::
  "('w, 'i) abort_services \<Rightarrow> 'i abort_context option \<Rightarrow>
     ('i abort_context \<Rightarrow> (abort_state \<times> 'i abort_context) option) \<Rightarrow>
     'w \<Rightarrow> (execution_outcome_value \<times> 'w) option" where
  "abort_entered sv \<equiv> entered (abort_chart sv) abort_failed_closed ac_outcome"

lemma abort_run_invoke:
  "abort_run sv A_reading ctx w =
     (case as_read sv (as_request sv) w of (r, w') \<Rightarrow> abort_resume sv (Some (abort_reading_done r ctx)) w')"
  "abort_run sv A_rereading ctx w =
     (case as_read sv (as_request sv) w of (r, w') \<Rightarrow> abort_resume sv (abort_rereading_done sv r ctx) w')"
  "abort_run sv A_applying ctx w =
     (case as_apply sv (abort_effect_at ctx) w of (r, w') \<Rightarrow> abort_resume sv (abort_applying_done sv r ctx) w')"
  by (simp_all add: run_invoking split: prod.splits)

lemma abort_run_nextEffect:
  "abort_run sv A_nextEffect ctx w = abort_resume sv (Some (abort_next_effect ctx)) w"
  by (simp add: run_invoking)

lemma abort_run_eventless:
  "abort_run sv A_projecting ctx w =
     abort_entered sv (abort_projecting_entry sv ctx) (\<lambda>ctx. Some (abort_projecting_always ctx, ctx)) w"
  "abort_run sv A_classifyingAbort ctx w =
     abort_entered sv (abort_classifying_entry sv ctx) (abort_classifying_always sv) w"
  "abort_run sv A_planning ctx w =
     abort_entered sv (abort_planning_entry sv ctx) (\<lambda>ctx. Some (abort_planning_always ctx, ctx)) w"
  "abort_run sv A_recoveryPlanning ctx w =
     abort_entered sv (abort_recovery_planning_entry sv ctx)
       (\<lambda>ctx. Some (abort_recovery_planning_always ctx, ctx)) w"
  "abort_run sv A_verifying ctx w =
     abort_entered sv (abort_verifying_entry sv ctx) (\<lambda>ctx. Some (abort_verifying_always ctx, ctx)) w"
  by (rule run_eventless [THEN trans]; simp)+

lemma abort_run_final:
  "abort_run sv A_completed ctx w =
     Some (case ac_result ctx of None \<Rightarrow> Failure abort_default_verification_failure | Some r \<Rightarrow> Result r, w)"
  "abort_run sv A_readFailed ctx w = Some (Failure (or_else (ac_failure ctx) default_read_failure), w)"
  "abort_run sv A_preconditionFailed ctx w =
     Some (Failure (or_else (ac_failure ctx) abort_precondition_failure), w)"
  "abort_run sv A_verificationFailed ctx w =
     Some (Failure (or_else (ac_failure ctx) abort_default_verification_failure), w)"
  "abort_run sv A_recoveryFailed ctx w =
     Some (Failure (or_else (ac_failure ctx) abort_unbounded_failure), w)"
  by (simp_all add: chart_run_active abort_result_entry_def abort_failed_entry_def)

lemma abort_run_recoveryRequired:
  "abort_run sv A_recoveryRequired ctx w =
     Some (case ac_result ctx of None \<Rightarrow> Failure abort_default_verification_failure | Some r \<Rightarrow> Result r, w)"
  by (subst chart_run_active) (simp add: abort_run_final abort_result_entry_def split: option.splits)

lemmas abort_runs = abort_run_invoke abort_run_nextEffect abort_run_eventless abort_run_final
  abort_run_recoveryRequired

lemma abort_projecting_cases:
  assumes "ac_input ctx = Some i"
  shows "abort_projecting_entry sv ctx =
    (case abort_project_checked sv i of
       Inl f \<Rightarrow> abort_projecting_failed sv f ctx
     | Inr p \<Rightarrow> Some (ctx\<lparr>ac_projection := Some p, ac_failure := None\<rparr>))"
  using assms by (auto simp: abort_projecting_entry_def abort_project_checked_def split: option.splits)

lemma abort_run_verify:
  assumes "ac_reread_mode ctx = Some Abort_Verify" "ac_plan ctx = Some plan" "ac_attempts ctx = atts"
  shows "abort_run sv A_rereading ctx w = Some (abort_finish sv plan atts w)"
  using assms
  by (auto simp: abort_runs abort_finish_def abort_rereading_done_def abort_projecting_cases
      abort_projecting_failed_def abort_recovery_reread_def abort_projecting_always_def
      abort_verifying_entry_def abort_verifying_always_def or_thrown_def
      split: prod.splits settled.splits read_result.splits sum.splits option.splits)

lemma abort_run_recover:
  assumes "ac_reread_mode ctx = Some Abort_Recover" "ac_plan ctx = Some plan" "ac_attempts ctx = atts"
    "ac_effect_failure ctx = Some f" "ac_result ctx = None"
  shows "abort_run sv A_rereading ctx w = Some (abort_finish_recovery sv plan atts f w)"
  using assms
  by (auto simp: abort_runs abort_finish_recovery_def abort_rereading_done_def abort_projecting_cases
      abort_projecting_failed_def abort_recovery_reread_def abort_projecting_always_def
      abort_recovery_read_failure_def abort_recovery_planning_entry_def abort_recovery_planning_always_def
      or_thrown_def Let_def
      split: prod.splits settled.splits read_result.splits sum.splits option.splits)

text \<open>How the loop goes on: the rest of the machine from the loop's result.\<close>

definition abort_after_effects ::
  "('w, 'i) abort_services \<Rightarrow> transition_plan \<Rightarrow>
     (effect_attempt list \<times> effect_failure_evidence option) option \<times> 'w \<Rightarrow> execution_outcome_value \<times> 'w" where
  "abort_after_effects sv plan r =
     (case r of
        (None, w') \<Rightarrow> (Failure abort_failed_closed, w')
      | (Some (atts, None), w') \<Rightarrow> abort_finish sv plan atts w'
      | (Some (atts, Some f), w') \<Rightarrow> abort_finish_recovery sv plan atts f w')"

lemma abort_after_effects_simps [simp]:
  "abort_after_effects sv plan (None, w) = (Failure abort_failed_closed, w)"
  "abort_after_effects sv plan (Some (atts, None), w) = abort_finish sv plan atts w"
  "abort_after_effects sv plan (Some (atts, Some f), w) = abort_finish_recovery sv plan atts f w"
  by (simp_all add: abort_after_effects_def)

lemma abort_effect_at_drop:
  assumes "ac_plan ctx = Some plan" "drop (ac_effect_index ctx) (tp_effects plan) = e # es"
  shows "abort_effect_at ctx = abort_effect e"
proof -
  from assms(2) have "ac_effect_index ctx < length (tp_effects plan)"
    by (metis drop_all list.distinct(1) not_le)
  with assms show ?thesis by (simp add: abort_effect_at_def nth_via_drop)
qed

lemma abort_run_applying:
  assumes "ac_plan ctx = Some plan" "drop (ac_effect_index ctx) (tp_effects plan) = e # es"
    "ac_reread_mode ctx = Some Abort_Verify" "ac_result ctx = None"
  shows "abort_run sv A_applying ctx w =
           Some (abort_after_effects sv plan (abort_effects sv (e # es) (ac_attempts ctx) w))"
  using assms
proof (induction es arbitrary: e ctx w)
  case (Cons e2 es)
  note rest = Cons.prems(2)
  note at = abort_effect_at_drop [OF Cons.prems(1,2)]
  have more: "ac_effect_index ctx + 1 < length (tp_effects plan)"
    using arg_cong [OF rest, of length] by simp
  have tail: "drop (Suc (ac_effect_index ctx)) (tp_effects plan) = e2 # es"
    using rest by (metis drop_Suc tl_drop list.sel(3))
  obtain r w' where r: "as_apply sv (abort_effect e) w = (r, w')" by fastforce
  show ?case
    unfolding abort_run_invoke(3) using Cons.prems Cons.IH r more tail at
    by (cases r; cases "abort_effect e"; cases "as_failure_for_effect sv (the (abort_effect e))")
      (auto simp: abort_run_nextEffect abort_applying_done_def abort_next_effect_def append_attempt_def
        abort_record_failed_def abort_run_verify abort_run_recover
        abort_effects.simps(2) [of sv e "e2 # es"] simp del: abort_effects.simps(2)
        split: effect_result.splits option.splits)
next
  case Nil
  note at = abort_effect_at_drop [OF Nil.prems(1,2)]
  have last: "length (tp_effects plan) = Suc (ac_effect_index ctx)"
    using arg_cong [OF Nil.prems(2), of length] by simp
  obtain r w' where r: "as_apply sv (abort_effect e) w = (r, w')" by fastforce
  show ?case
    unfolding abort_run_invoke(3) using Nil.prems r last at
    by (cases r; cases "abort_effect e"; cases "as_failure_for_effect sv (the (abort_effect e))")
      (auto simp: abort_run_nextEffect abort_applying_done_def abort_next_effect_def append_attempt_def
        abort_record_failed_def abort_run_verify abort_run_recover
        split: effect_result.splits option.splits)
qed

lemma abort_planning_no_plan: "ac_plan ctx = None \<Longrightarrow> abort_planning_always ctx = A_preconditionFailed"
  by (simp add: abort_planning_always_def)

lemma abort_run_planned:
  assumes "ac_plan ctx = Some plan" "ac_effect_index ctx = 0" "ac_attempts ctx = []"
    "ac_reread_mode ctx = Some Abort_Verify" "ac_result ctx = None"
  shows "abort_run sv (abort_planning_always ctx) ctx w = Some (abort_execute_plan sv plan w)"
proof -
  have "abort_execute_plan sv plan w = abort_after_effects sv plan (abort_effects sv (tp_effects plan) [] w)"
    by (simp add: abort_execute_plan_def abort_after_effects_def)
  moreover have "abort_run sv (abort_planning_always ctx) ctx w =
      Some (abort_after_effects sv plan (abort_effects sv (tp_effects plan) [] w))"
    using assms
    by (cases "tp_effects plan") (simp_all add: abort_planning_always_def abort_run_verify abort_run_applying)
  ultimately show ?thesis by simp
qed

lemma abort_run_projecting:
  assumes "ac_input ctx = Some i" "ac_read_stage ctx = Some Initial_Read" "ac_plan ctx = None"
    "ac_phase ctx = None" "ac_attempts ctx = []" "ac_effect_index ctx = 0" "ac_result ctx = None"
  shows "abort_run sv A_projecting ctx w = Some
    (case abort_admit sv i of Inl out \<Rightarrow> (out, w) | Inr plan \<Rightarrow> abort_execute_plan sv plan w)"
proof (cases "abort_project_checked sv i")
  case (Inl f)
  with assms show ?thesis
    by (simp add: abort_runs abort_projecting_cases abort_projecting_failed_def abort_recovery_reread_def
        abort_projecting_always_def abort_admit_def)
next
  case (Inr p)
  show ?thesis
  proof (cases "as_classify sv p")
    case None
    with assms Inr show ?thesis
      by (simp add: abort_runs abort_projecting_cases abort_projecting_always_def
          abort_classifying_entry_def abort_admit_def)
  next
    case (Some a)
    show ?thesis
    proof (cases a)
      case (Inl f)
      with assms Inr Some show ?thesis
        by (simp add: abort_runs abort_projecting_cases abort_projecting_always_def
            abort_classifying_entry_def abort_classifying_always_def abort_admit_def)
    next
      case phase: (Inr phase)
      from assms Inr Some phase show ?thesis
        by (cases phase)
          (auto simp: abort_run_eventless abort_run_final abort_projecting_cases abort_projecting_always_def
            abort_classifying_entry_def abort_classifying_always_def abort_planning_entry_def
            abort_run_planned abort_planning_no_plan abort_admit_def or_thrown_def
            split: option.splits plan_result.splits)
    qed
  qed
qed

lemma execute_abort_eq: "execute_abort sv w = Some (abort_program sv w)"
  unfolding execute_abort_def abort_program_def
  by (auto simp: abort_run_invoke abort_reading_done_def abort_run_projecting abort_run_final
      abort_initial_context_def split: prod.splits settled.splits read_result.splits)

text \<open>
  C5. The Abort machine is a total program: from all services and environments the actor
  stops, and its outcome and its interaction with the environment are those of the
  straight-line program (read, admit, apply the plan's effects in order until one fails,
  reread, verify or recover), thrown exceptions included.
\<close>

theorem abort_machine_refines_program:
  "execute_abort sv w = Some (abort_program sv w)"
  by (rule execute_abort_eq)

subsection \<open>Termination as an instance of the shared contract\<close>

fun abort_rank :: "abort_state \<Rightarrow> 'i abort_context \<Rightarrow> nat" where
  "abort_rank A_reading ctx = 20"
| "abort_rank A_projecting ctx = (if ac_read_stage ctx = Some Initial_Read then 19 else 5)"
| "abort_rank A_classifyingAbort ctx = 18"
| "abort_rank A_planning ctx = 17"
| "abort_rank A_applying ctx = 16"
| "abort_rank A_nextEffect ctx = 16"
| "abort_rank A_rereading ctx = 6"
| "abort_rank A_recoveryPlanning ctx = 4"
| "abort_rank A_verifying ctx = 4"
| "abort_rank A_recoveryRequired ctx = 3"
| "abort_rank _ ctx = 0"

definition abort_remaining :: "'i abort_context \<Rightarrow> nat" where
  "abort_remaining ctx =
     (case ac_plan ctx of None \<Rightarrow> 0 | Some plan \<Rightarrow> length (tp_effects plan) - ac_effect_index ctx)"

fun abort_work :: "abort_state \<Rightarrow> 'i abort_context \<Rightarrow> nat" where
  "abort_work A_applying ctx = 2 * abort_remaining ctx + 1"
| "abort_work A_nextEffect ctx = 2 * abort_remaining ctx"
| "abort_work _ ctx = 0"

lemma abort_projecting_keeps_stage:
  "abort_projecting_entry sv ctx = Some ctx' \<Longrightarrow> ac_read_stage ctx' = ac_read_stage ctx"
  by (auto simp: abort_projecting_entry_def abort_projecting_failed_def split: option.splits if_splits)

interpretation abort_chart: terminating_chart "abort_chart sv" abort_rank abort_work for sv
proof unfold_locales
  fix s t :: abort_state and ctx ctx' ctx'' w w'
  assume entry: "entry_action (abort_chart sv) s ctx = Some ctx'" and "\<not> is_final (abort_chart sv) s"
    and trans: "transition (abort_chart sv) s ctx' w = (Some (t, ctx''), w')"
  then show "abort_rank t ctx'' < abort_rank s ctx \<or>
      abort_rank t ctx'' = abort_rank s ctx \<and> abort_work t ctx'' < abort_work s ctx"
    by (cases s) (auto simp: abort_reading_done_def abort_rereading_done_def abort_applying_done_def
        abort_projecting_always_def abort_classifying_always_def abort_planning_always_def
        abort_next_effect_def abort_recovery_planning_always_def abort_verifying_always_def
        abort_remaining_def abort_record_failed_def abort_recovery_reread_def
        dest: abort_projecting_keeps_stage
        split: prod.splits settled.splits read_result.splits effect_result.splits option.splits
          if_splits abort_phase.splits)
qed

subsection \<open>Safety\<close>

definition record_abort ::
  "('w, 'i) abort_services \<Rightarrow> ('w \<times> change_effect option list, 'i) abort_services" where
  "record_abort sv =
     \<lparr>as_request = as_request sv, as_read = (\<lambda>q. not_recording (as_read sv) q),
      as_apply = recording (as_apply sv), as_failure_for_effect = as_failure_for_effect sv,
      as_recovery_read_failure = as_recovery_read_failure sv, as_project = as_project sv,
      as_classify = as_classify sv, as_plan = as_plan sv, as_recover = as_recover sv,
      as_verify = as_verify sv, as_returned_existing = as_returned_existing sv,
      as_verified = as_verified sv\<rparr>"

lemma record_abort_sel [simp]:
  "as_request (record_abort sv) = as_request sv"
  "as_failure_for_effect (record_abort sv) = as_failure_for_effect sv"
  "as_recovery_read_failure (record_abort sv) = as_recovery_read_failure sv"
  "as_project (record_abort sv) = as_project sv" "as_classify (record_abort sv) = as_classify sv"
  "as_plan (record_abort sv) = as_plan sv" "as_recover (record_abort sv) = as_recover sv"
  "as_verify (record_abort sv) = as_verify sv"
  "as_returned_existing (record_abort sv) = as_returned_existing sv"
  "as_verified (record_abort sv) = as_verified sv"
  by (simp_all add: record_abort_def)

lemma record_abort_read:
  "as_read (record_abort sv) q (w, l) = (case as_read sv q w of (r, w') \<Rightarrow> (r, w', l))"
  "as_apply (record_abort sv) e (w, l) = (case as_apply sv e w of (r, w') \<Rightarrow> (r, w', l @ [e]))"
  by (simp_all add: record_abort_def recording_def not_recording_def)

lemma abort_admit_record [simp]: "abort_admit (record_abort sv) i = abort_admit sv i"
proof -
  have "abort_project_checked (record_abort sv) i = abort_project_checked sv i"
    by (simp add: abort_project_checked_def split: option.splits)
  then show ?thesis
    by (simp add: abort_admit_def cong: sum.case_cong option.case_cong abort_phase.case_cong)
qed

lemma abort_finish_log:
  "snd (snd (abort_finish (record_abort sv) plan atts wl)) = snd wl"
  "snd (snd (abort_finish_recovery (record_abort sv) plan atts f wl)) = snd wl"
  by (cases wl, cases "as_read sv (as_request sv) (fst wl)",
      simp add: abort_finish_def abort_finish_recovery_def record_abort_read Let_def)+

text \<open>The loop asks for a prefix of the plan, in order.\<close>

lemma abort_effects_prefix:
  assumes "abort_effects (record_abort sv) es atts (w, l) = (res, w', l')"
  shows "\<exists>k \<le> length es. l' = l @ map abort_effect (take k es)"
  using assms
proof (induction es arbitrary: atts w l)
  case Nil
  then show ?case by simp
next
  case (Cons e es)
  obtain r w1 where r: "as_apply sv (abort_effect e) w = (r, w1)" by fastforce
  consider (stop) "l' = l @ [abort_effect e]"
    | (go) atts1 where "abort_effects (record_abort sv) es atts1 (w1, l @ [abort_effect e]) = (res, w', l')"
    using Cons.prems r
    by (auto simp: record_abort_read split: settled.splits effect_result.splits option.splits)
  then show ?case
  proof cases
    case stop
    then show ?thesis by (intro exI [of _ 1]) simp
  next
    case go
    from Cons.IH [OF go] obtain k where "k \<le> length es" "l' = (l @ [abort_effect e]) @ map abort_effect (take k es)"
      by blast
    then show ?thesis by (intro exI [of _ "Suc k"]) simp
  qed
qed

text \<open>The attempts of a plan of Abort effects: all succeeded, or all before the failed one.\<close>

definition only_abort_effects :: "transition_plan \<Rightarrow> bool" where
  "only_abort_effects plan \<longleftrightarrow> list_all (\<lambda>e. abort_effect e = Some e) (tp_effects plan)"

fun abort_attempts_account ::
  "change_effect list \<Rightarrow> change_effect option list \<Rightarrow> effect_attempt list \<Rightarrow>
     effect_failure_evidence option \<Rightarrow> bool" where
  "abort_attempts_account es log atts None \<longleftrightarrow>
     log = map Some es \<and> atts = map (attempt_of Succeeded) es"
| "abort_attempts_account es log atts (Some f) \<longleftrightarrow>
     (\<exists>pre rest. es = pre @ fe_effect f # rest \<and> log = map Some (pre @ [fe_effect f]) \<and>
        atts = map (attempt_of Succeeded) pre @ [attempt_of Failed (fe_effect f)])"

lemma abort_effects_account:
  assumes "abort_effects (record_abort sv) es atts (w, l) = (Some (atts', fo), w', l')"
    and "list_all (\<lambda>e. abort_effect e = Some e) es"
  shows "\<exists>more log. atts' = atts @ more \<and> l' = l @ log \<and> abort_attempts_account es log more fo"
  using assms
proof (induction es arbitrary: atts w l)
  case Nil
  then show ?case by auto
next
  case (Cons e es)
  obtain r w1 where r: "as_apply sv (Some e) w = (r, w1)" by fastforce
  from Cons.prems have e: "abort_effect e = Some e" and es: "list_all (\<lambda>e. abort_effect e = Some e) es"
    by simp_all
  consider (stop) f where "fo = Some (failed_effect e f)" "atts' = atts @ [attempt_of Failed e]" "l' = l @ [Some e]"
    | (go) "abort_effects (record_abort sv) es (atts @ [attempt_of Succeeded e]) (w1, l @ [Some e]) =
         (Some (atts', fo), w', l')"
    using Cons.prems r e
    by (auto simp: record_abort_read split: settled.splits effect_result.splits option.splits)
  then show ?case
  proof cases
    case stop
    then show ?thesis by (auto simp: failed_effect_def intro!: exI [of _ "[]"])
  next
    case go
    from Cons.IH [OF go es] obtain more log where more: "atts' = atts @ [attempt_of Succeeded e] @ more"
      "l' = l @ [Some e] @ log" "abort_attempts_account es log more fo" by auto
    from more(3) have "abort_attempts_account (e # es) (Some e # log) (attempt_of Succeeded e # more) fo"
      by (cases fo) (auto, metis append_Cons list.simps(9))
    with more(1,2) show ?thesis by fastforce
  qed
qed

text \<open>Reading a recorded run backwards: the admitted plan and the run of its loop.\<close>

lemma abort_admit_sound:
  assumes "abort_admit sv i = Inr plan"
  shows "\<exists>p phase. as_project sv i = Some p \<and> projection_root_issue p = Some (mr_issue (as_request sv)) \<and>
     as_classify sv p = Some (Inr phase) \<and> phase \<noteq> Clean_Phase \<and>
     as_plan sv (as_request sv) p = Some (Plan_Ok plan)"
proof -
  from assms obtain p phase where "abort_project_checked sv i = Inr p" "as_classify sv p = Some (Inr phase)"
    "phase \<noteq> Clean_Phase" "as_plan sv (as_request sv) p = Some (Plan_Ok plan)"
    by (auto simp: abort_admit_def split: sum.splits option.splits abort_phase.splits plan_result.splits)
  then show ?thesis
    by (auto simp: abort_project_checked_def split: option.splits if_splits)
qed

lemma abort_admit_clean:
  assumes "abort_admit sv i = Inl (Result r)"
  shows "\<exists>p. as_project sv i = Some p \<and> as_classify sv p = Some (Inr Clean_Phase) \<and>
     as_returned_existing sv p = Some r"
proof -
  from assms obtain p where "abort_project_checked sv i = Inr p" "as_classify sv p = Some (Inr Clean_Phase)"
    "as_returned_existing sv p = Some r"
    by (auto simp: abort_admit_def or_thrown_def
        split: sum.splits option.splits abort_phase.splits plan_result.splits)
  then show ?thesis
    by (auto simp: abort_project_checked_def split: option.splits if_splits)
qed

lemma abort_program_record:
  assumes "abort_program (record_abort sv) (w, []) = (out, w', log)"
  shows "log = [] \<and> (out = Result r \<longrightarrow> (\<exists>i p. as_project sv i = Some p \<and>
            as_classify sv p = Some (Inr Clean_Phase) \<and> as_returned_existing sv p = Some r))
      \<or> (\<exists>i w1 plan. as_read sv (as_request sv) w = (Fulfilled (Read_Ok i), w1) \<and>
           abort_admit sv i = Inr plan \<and> abort_execute_plan (record_abort sv) plan (w1, []) = (out, w', log))"
proof -
  obtain s w1 where read: "as_read sv (as_request sv) w = (s, w1)" by fastforce
  show ?thesis
  proof (cases "\<exists>i plan. s = Fulfilled (Read_Ok i) \<and> abort_admit sv i = Inr plan")
    case True
    with assms read show ?thesis by (auto simp: abort_program_def record_abort_read)
  next
    case False
    with assms read show ?thesis
      by (auto simp: abort_program_def record_abort_read split: settled.splits read_result.splits sum.splits)
        (blast dest: abort_admit_clean)
  qed
qed

lemma abort_finish_result:
  assumes "abort_finish sv plan atts w = (Result r, w')"
  shows "\<exists>i p verification. as_read sv (as_request sv) w = (Fulfilled (Read_Ok i), w') \<and>
     as_project sv i = Some p \<and> projection_root_issue p = Some (mr_issue (as_request sv)) \<and>
     as_verify sv (as_request sv) i p plan = Some verification \<and> ve_valid verification \<and>
     (if tp_effects plan = [] then as_returned_existing sv p else as_verified sv p atts) = Some r"
proof -
  from assms obtain i p verification where "as_read sv (as_request sv) w = (Fulfilled (Read_Ok i), w')"
    "abort_project_checked sv i = Inr p" "as_verify sv (as_request sv) i p plan = Some verification"
    "ve_valid verification"
    "(if tp_effects plan = [] then as_returned_existing sv p else as_verified sv p atts) = Some r"
    by (auto simp: abort_finish_def or_thrown_def
        split: prod.splits settled.splits read_result.splits sum.splits option.splits if_splits)
  then show ?thesis
    by (auto simp: abort_project_checked_def split: option.splits if_splits)
qed

lemma abort_finish_recovery_result:
  assumes "abort_finish_recovery sv plan atts f w = (Result r, w')"
  shows "\<exists>i. as_recover sv (as_request sv) plan atts f i = Some (Inr r)"
  using assms
  by (auto simp: abort_finish_recovery_def or_thrown_def Let_def
      split: prod.splits settled.splits read_result.splits sum.splits option.splits)

lemma abort_log_after_loop:
  assumes "abort_execute_plan (record_abort sv) plan (w1, []) = (out, w', log)"
    and "abort_effects (record_abort sv) (tp_effects plan) [] (w1, []) = (res, w2, l)"
  shows "log = l"
  using assms abort_finish_log(1) [of sv plan _ "(w2, l)"] abort_finish_log(2) [of sv plan _ _ "(w2, l)"]
  by (auto simp: abort_execute_plan_def split: option.splits) (metis snd_conv)+

lemma abort_program_log:
  assumes "abort_program (record_abort sv) (w, []) = (out, w', log)" and "log \<noteq> []"
  shows "\<exists>i w1 p phase plan k.
     as_read sv (as_request sv) w = (Fulfilled (Read_Ok i), w1) \<and>
     as_project sv i = Some p \<and> projection_root_issue p = Some (mr_issue (as_request sv)) \<and>
     as_classify sv p = Some (Inr phase) \<and> phase \<noteq> Clean_Phase \<and>
     as_plan sv (as_request sv) p = Some (Plan_Ok plan) \<and>
     k \<le> length (tp_effects plan) \<and> log = map abort_effect (take k (tp_effects plan))"
proof -
  from abort_program_record [OF assms(1)] assms(2) obtain i w1 plan where
    read: "as_read sv (as_request sv) w = (Fulfilled (Read_Ok i), w1)" and admit: "abort_admit sv i = Inr plan"
    and run: "abort_execute_plan (record_abort sv) plan (w1, []) = (out, w', log)" by blast
  obtain res w2 l where loop: "abort_effects (record_abort sv) (tp_effects plan) [] (w1, []) = (res, w2, l)"
    by (cases "abort_effects (record_abort sv) (tp_effects plan) [] (w1, [])") auto
  from abort_effects_prefix [OF loop] abort_log_after_loop [OF run loop]
  obtain k where "k \<le> length (tp_effects plan)" "log = map abort_effect (take k (tp_effects plan))" by auto
  with read abort_admit_sound [OF admit] show ?thesis by blast
qed

text \<open>A repository with one pull request and one branch still to be removed.\<close>

definition sample_abort :: "(nat, nat) abort_services" where
  "sample_abort =
     \<lparr>as_request = sample_request OpAbort, as_read = (\<lambda>q w. (Fulfilled (Read_Ok w), w)),
      as_apply = (\<lambda>e w. (Fulfilled (Effect_Ok None), w - 1)),
      as_failure_for_effect = (\<lambda>e. None), as_recovery_read_failure = (\<lambda>q atts f. None),
      as_project = (\<lambda>i. Some (sample_projection (if i = 0 then ABORTED else REVIEW))),
      as_classify = (\<lambda>p. Some (Inr Normal_Phase)),
      as_plan = (\<lambda>q p. Some (Plan_Ok
         \<lparr>tp_request = \<lparr>tq_transition = OpAbort, tq_change = sample_change REVIEW, tq_target = None\<rparr>,
          tp_from = REVIEW, tp_to = ABORTED, tp_result = sample_change ABORTED,
          tp_effects = [CLOSE_PULL_REQUEST 7, DELETE_BRANCH (js ''issue-42'') None]\<rparr>)),
      as_recover = (\<lambda>q plan atts f i. None),
      as_verify = (\<lambda>q i p plan. Some (sample_valid\<lparr>ve_valid := i = 0\<rparr>)),
      as_returned_existing = (\<lambda>p. None), as_verified = (\<lambda>p atts. Some (sample_result ABORTED))\<rparr>"

lemma sample_abort_run:
  "abort_program (record_abort sample_abort) (2, []) =
     (Result (sample_result ABORTED), 0, [Some (CLOSE_PULL_REQUEST 7), Some (DELETE_BRANCH (js ''issue-42'') None)])"
  by (simp add: abort_program_def abort_admit_def abort_project_checked_def abort_execute_plan_def
      abort_finish_def sample_abort_def record_abort_def recording_def not_recording_def abort_effect_def)

text \<open>
  C6. The effects Abort asks the provider for are, in order, a prefix of the planned effects,
  and there are none unless the first read's projection belongs to the requested Issue, its
  classification was not clean, and the planner accepted it.
\<close>

theorem abort_effects_in_plan_order:
  assumes "execute_abort (record_abort sv) (w, []) = Some (out, w', log)" and "log \<noteq> []"
  shows "\<exists>i w1 p phase plan k.
     as_read sv (as_request sv) w = (Fulfilled (Read_Ok i), w1) \<and>
     as_project sv i = Some p \<and> projection_root_issue p = Some (mr_issue (as_request sv)) \<and>
     as_classify sv p = Some (Inr phase) \<and> phase \<noteq> Clean_Phase \<and>
     as_plan sv (as_request sv) p = Some (Plan_Ok plan) \<and>
     k \<le> length (tp_effects plan) \<and> log = map abort_effect (take k (tp_effects plan))"
  using assms by (intro abort_program_log) (simp_all add: execute_abort_eq)

theorem abort_effects_in_plan_order_witness:
  "\<exists>i w1 p phase plan k.
     as_read sample_abort (as_request sample_abort) 2 = (Fulfilled (Read_Ok i), w1) \<and>
     as_project sample_abort i = Some p \<and>
     projection_root_issue p = Some (mr_issue (as_request sample_abort)) \<and>
     as_classify sample_abort p = Some (Inr phase) \<and> phase \<noteq> Clean_Phase \<and>
     as_plan sample_abort (as_request sample_abort) p = Some (Plan_Ok plan) \<and>
     k \<le> length (tp_effects plan) \<and>
     [Some (CLOSE_PULL_REQUEST 7), Some (DELETE_BRANCH (js ''issue-42'') None)] =
       map abort_effect (take k (tp_effects plan))"
  by (rule abort_effects_in_plan_order) (simp_all add: execute_abort_eq sample_abort_run)

text \<open>
  C7. A result of Abort accounts for what was done.  When the planner only plans Abort
  effects, a result is either an existing one with nothing applied, or a verified one with
  every planned effect applied and reported as succeeded, or the recovery computed from
  exactly the effects that were applied before the failed one and that failure.
\<close>

theorem abort_result_accounts_for_effects:
  assumes "execute_abort (record_abort sv) (w, []) = Some (Result r, w', log)"
    and "\<And>q p plan. as_plan sv q p = Some (Plan_Ok plan) \<Longrightarrow> only_abort_effects plan"
  shows "log = [] \<and> (\<exists>i p. as_project sv i = Some p \<and> as_returned_existing sv p = Some r)
    \<or> (\<exists>i p plan verification. log = map Some (tp_effects plan) \<and> as_project sv i = Some p \<and>
         as_verify sv (as_request sv) i p plan = Some verification \<and> ve_valid verification \<and>
         as_verified sv p (map (attempt_of Succeeded) (tp_effects plan)) = Some r)
    \<or> (\<exists>i plan f pre rest. tp_effects plan = pre @ fe_effect f # rest \<and>
         log = map Some (pre @ [fe_effect f]) \<and>
         as_recover sv (as_request sv) plan
           (map (attempt_of Succeeded) pre @ [attempt_of Failed (fe_effect f)]) f i = Some (Inr r))"
proof -
  from assms(1) have "abort_program (record_abort sv) (w, []) = (Result r, w', log)"
    by (simp add: execute_abort_eq)
  from abort_program_record [OF this] consider (clean) "log = []"
      "\<exists>i p. as_project sv i = Some p \<and> as_returned_existing sv p = Some r"
    | (run) i w1 plan where "abort_admit sv i = Inr plan"
      "abort_execute_plan (record_abort sv) plan (w1, []) = (Result r, w', log)" by blast
  then show ?thesis
  proof cases
    case run
    from abort_admit_sound [OF run(1)] assms(2)
    have own: "list_all (\<lambda>e. abort_effect e = Some e) (tp_effects plan)"
      by (auto simp: only_abort_effects_def)
    obtain res w2 l where loop: "abort_effects (record_abort sv) (tp_effects plan) [] (w1, []) = (res, w2, l)"
      by (cases "abort_effects (record_abort sv) (tp_effects plan) [] (w1, [])") auto
    note l = abort_log_after_loop [OF run(2) loop]
    from run(2) loop obtain atts fo where res: "res = Some (atts, fo)"
      by (auto simp: abort_execute_plan_def split: option.splits)
    from abort_effects_account [OF loop [unfolded res] own] l
    have account: "abort_attempts_account (tp_effects plan) log atts fo" by auto
    show ?thesis
    proof (cases fo)
      case None
      with run(2) loop res have "abort_finish (record_abort sv) plan atts (w2, l) = (Result r, w', log)"
        by (simp add: abort_execute_plan_def)
      from abort_finish_result [OF this] account None show ?thesis
        by (cases "tp_effects plan = []") auto
    next
      case (Some f)
      with run(2) loop res have "abort_finish_recovery (record_abort sv) plan atts f (w2, l) = (Result r, w', log)"
        by (simp add: abort_execute_plan_def)
      then obtain i where i: "as_recover sv (as_request sv) plan atts f i = Some (Inr r)"
        by (auto dest: abort_finish_recovery_result)
      from account Some obtain pre rest where "tp_effects plan = pre @ fe_effect f # rest"
        "log = map Some (pre @ [fe_effect f])"
        "atts = map (attempt_of Succeeded) pre @ [attempt_of Failed (fe_effect f)]" by auto
      with i show ?thesis by blast
    qed
  qed blast
qed

theorem abort_result_accounts_for_effects_witness:
  "let log = [Some (CLOSE_PULL_REQUEST 7), Some (DELETE_BRANCH (js ''issue-42'') None)];
       r = sample_result ABORTED
   in log = [] \<and> (\<exists>i p. as_project sample_abort i = Some p \<and> as_returned_existing sample_abort p = Some r)
    \<or> (\<exists>i p plan verification. log = map Some (tp_effects plan) \<and> as_project sample_abort i = Some p \<and>
         as_verify sample_abort (as_request sample_abort) i p plan = Some verification \<and> ve_valid verification \<and>
         as_verified sample_abort p (map (attempt_of Succeeded) (tp_effects plan)) = Some r)
    \<or> (\<exists>i plan f pre rest. tp_effects plan = pre @ fe_effect f # rest \<and>
         log = map Some (pre @ [fe_effect f]) \<and>
         as_recover sample_abort (as_request sample_abort) plan
           (map (attempt_of Succeeded) pre @ [attempt_of Failed (fe_effect f)]) f i = Some (Inr r))"
  unfolding Let_def
proof (rule abort_result_accounts_for_effects)
  show "execute_abort (record_abort sample_abort) (2, []) =
      Some (Result (sample_result ABORTED), 0,
        [Some (CLOSE_PULL_REQUEST 7), Some (DELETE_BRANCH (js ''issue-42'') None)])"
    by (simp add: execute_abort_eq sample_abort_run)
qed (auto simp: sample_abort_def only_abort_effects_def abort_effect_def)

end
