(* ===== verification/Issuance_Machine.thy ===== *)
theory Issuance_Machine
  imports Abort_Machine
begin

text \<open>
  The issuance execution machine,
  \<^verbatim>\<open>src/change/machine/issuance-execution-machine.ts\<close>: two governed reads (initial
  and fresh) with a drift check between them, the issuance plan, the ordered create effects,
  the verification of the reread, and after a failed effect the classification of the
  evidence, the bounded compensation (one \<^verbatim>\<open>DELETE_BRANCH\<close>) and its verdict.  The
  machine has no \<^verbatim>\<open>catch\<close> of its own: an exception of any semantic service stops
  the actor in error.
\<close>

subsection \<open>Services and context\<close>

text \<open>
  Of the recovery plan the machine reads the effects of its compensation plan only, so
  \<^verbatim>\<open>planRecovery\<close> yields that list here.
\<close>

record 'i recovery_input =
  ri_issuance :: issuance_plan
  ri_attempts :: "effect_attempt list"
  ri_failure :: effect_failure_evidence
  ri_projection_input :: 'i
  ri_compensation :: "(attempt_status \<times> 'i \<times> effect_failure_evidence option) option"

datatype failure_class = Confirmed_Absent | Unresolved

record ('w, 'i) issuance_services =
  is_request :: mutation_request
  is_trusted_requester :: "jstr option"
  is_read :: "mutation_request \<Rightarrow> 'w \<Rightarrow> 'i read_result settled \<times> 'w"
  is_apply :: "change_effect option \<Rightarrow> 'w \<Rightarrow> effect_result settled \<times> 'w"
  is_failure_for_effect :: "change_effect \<Rightarrow> effect_failure option"
  is_project :: "'i \<Rightarrow> projection_result option"
  is_validate_governance :: "'i \<Rightarrow> change_diagnostic list option"
  is_validate_drift :: "'i \<Rightarrow> 'i \<Rightarrow> change_diagnostic list option"
  is_plan :: "'i \<Rightarrow> jstr option \<Rightarrow> issuance_plan plan_result option"
  is_verify ::
    "mutation_request \<Rightarrow> 'i \<Rightarrow> projection_result \<Rightarrow> issuance_plan \<Rightarrow> verification_result option"
  is_classify_failure :: "projection_result \<Rightarrow> failure_class option"
  is_plan_recovery :: "'i recovery_input \<Rightarrow> change_effect list plan_result option"
  is_returned_existing :: "projection_result \<Rightarrow> execution_result option"
  is_verified :: "projection_result \<Rightarrow> effect_attempt list \<Rightarrow> execution_result option"
  is_effect_failed :: "effect_attempt list \<Rightarrow> effect_failure_evidence \<Rightarrow> execution_failure option"
  is_compensated ::
    "projection_result \<Rightarrow> effect_attempt list \<Rightarrow> effect_failure_evidence \<Rightarrow> execution_result option"
  is_recovery_required ::
    "projection_result \<Rightarrow> effect_attempt list \<Rightarrow> effect_failure_evidence \<Rightarrow> attempt_status \<Rightarrow>
       effect_failure_evidence option \<Rightarrow> execution_result option"
  is_recovery_unsafe ::
    "issuance_plan \<Rightarrow> projection_result \<Rightarrow> effect_attempt list \<Rightarrow> effect_failure_evidence \<Rightarrow>
       attempt_status \<Rightarrow> effect_failure_evidence option \<Rightarrow> execution_result option"
  is_recovery_read_failure ::
    "effect_attempt list \<Rightarrow> effect_failure_evidence \<Rightarrow> attempt_status option \<Rightarrow>
       effect_failure_evidence option \<Rightarrow> execution_failure option"

record 'i issuance_context =
  ic_initial_input :: "'i option"
  ic_fresh_input :: "'i option"
  ic_plan :: "issuance_plan option"
  ic_effect_index :: nat
  ic_attempts :: "effect_attempt list"
  ic_effect_failure :: "effect_failure_evidence option"
  ic_failure_input :: "'i option"
  ic_failure_projection :: "projection_result option"
  ic_compensation_effect :: "change_effect option"
  ic_compensation_status :: "attempt_status option"
  ic_compensation_failure :: "effect_failure_evidence option"
  ic_compensation_input :: "'i option"
  ic_read_input :: "'i option"
  ic_recovery_plan_ok :: "bool option"
  ic_failure :: "execution_failure option"
  ic_result :: "execution_result option"
  ic_outcome :: "execution_outcome_value option"

definition issuance_initial_context :: "'i issuance_context" where
  "issuance_initial_context =
     \<lparr>ic_initial_input = None, ic_fresh_input = None, ic_plan = None, ic_effect_index = 0,
      ic_attempts = [], ic_effect_failure = None, ic_failure_input = None,
      ic_failure_projection = None, ic_compensation_effect = None, ic_compensation_status = None,
      ic_compensation_failure = None, ic_compensation_input = None, ic_read_input = None,
      ic_recovery_plan_ok = None, ic_failure = None, ic_result = None, ic_outcome = None\<rparr>"

datatype issuance_state =
    I_readingInitial | I_validatingInitialGovernance | I_readingFresh | I_validatingFreshGovernance
  | I_planning | I_applyingEffect | I_nextEffect | I_rereading | I_verifying
  | I_rereadingAfterFailure | I_classifyingFailure | I_planningCompensation
  | I_applyingCompensation | I_rereadingAfterCompensation | I_planningRecoveryOutcome
  | I_compensatedResult | I_recoveryRequiredAfterCompensationResult | I_compensationUnsafeResult
  | I_branchEffectFailed | I_branchRecoveryRequired | I_recoveryReadFailed | I_succeeded
  | I_readFailed | I_preconditionFailed | I_verificationFailed

subsection \<open>Bounded failures\<close>

definition default_recovery_required_failure :: execution_failure where
  "default_recovery_required_failure =
     exec_failure EXECUTION_RECOVERY_REQUIRED
       ''A failed Change issuance could not be bounded for recovery.'' []"

definition issuance_verification_failure :: "string \<Rightarrow> execution_failure" where
  "issuance_verification_failure message = exec_failure PROJECTION_VERIFICATION_FAILED message []"

definition issuance_default_verification_failure :: execution_failure where
  "issuance_default_verification_failure =
     issuance_verification_failure ''Post-effect Change issuance projection verification failed.''"

definition issuance_precondition_failure :: execution_failure where
  "issuance_precondition_failure =
     exec_failure PRECONDITION_FAILED ''Change issuance preconditions failed.'' []"

definition issuance_failed_closed :: execution_failure where
  "issuance_failed_closed =
     issuance_verification_failure ''Change issuance execution machine failed closed.''"

definition invalid_issuance_effect :: execution_failure where
  "invalid_issuance_effect = issuance_verification_failure ''Invalid issuance effect.''"

subsection \<open>Checks on the evidence and the effects\<close>

text \<open>\<^verbatim>\<open>identityMismatchFailure\<close>; the outer option is an exception of \<^verbatim>\<open>project\<close>.\<close>

definition identity_mismatch_failure ::
  "('w, 'i) issuance_services \<Rightarrow> 'i \<Rightarrow> execution_failure option option" where
  "identity_mismatch_failure sv i =
     (case is_project sv i of
        None \<Rightarrow> None
      | Some p \<Rightarrow> Some (if projection_root_issue p = Some (mr_issue (is_request sv)) then None
                       else Some identity_failure))"

definition create_effect :: "change_effect \<Rightarrow> change_effect option" where
  "create_effect e =
     (if effect_kind e \<in> {K_CREATE_BRANCH, K_CREATE_PROVENANCE_COMMIT, K_CREATE_PULL_REQUEST}
      then Some e else None)"

definition create_effect_at :: "'i issuance_context \<Rightarrow> change_effect option" where
  "create_effect_at ctx =
     (case ic_plan ctx of
        None \<Rightarrow> None
      | Some plan \<Rightarrow>
          if ic_effect_index ctx < length (ip_effects plan)
          then create_effect (ip_effects plan ! ic_effect_index ctx) else None)"

definition issuance_attempt ::
  "attempt_status \<Rightarrow> effect_success_evidence option \<Rightarrow> change_effect \<Rightarrow> effect_attempt" where
  "issuance_attempt status ev e = \<lparr>at_effect = e, at_status = status, at_evidence = ev\<rparr>"

definition append_issuance_attempt ::
  "'i issuance_context \<Rightarrow> change_effect \<Rightarrow> attempt_status \<Rightarrow> effect_success_evidence option \<Rightarrow>
     effect_attempt list" where
  "append_issuance_attempt ctx e status ev = ic_attempts ctx @ [issuance_attempt status ev e]"

subsection \<open>The states\<close>

definition issuance_reading_done ::
  "issuance_state \<Rightarrow> ('i \<Rightarrow> 'i issuance_context \<Rightarrow> 'i issuance_context) \<Rightarrow> 'i read_result settled \<Rightarrow>
     'i issuance_context \<Rightarrow> issuance_state \<times> 'i issuance_context" where
  "issuance_reading_done target keep r ctx =
     (case r of
        Fulfilled (Read_Ok i) \<Rightarrow> (target, (keep i ctx)\<lparr>ic_failure := None\<rparr>)
      | Fulfilled (Read_Failed f) \<Rightarrow> (I_readFailed, ctx\<lparr>ic_failure := Some f\<rparr>)
      | Rejected \<Rightarrow> (I_readFailed, ctx\<lparr>ic_failure := Some default_read_failure\<rparr>))"

definition governance_failure :: "string \<Rightarrow> change_diagnostic list \<Rightarrow> execution_failure option" where
  "governance_failure message ds =
     (if ds = [] then None else Some (exec_failure PRECONDITION_FAILED message ds))"

definition validating_initial_entry ::
  "('w, 'i) issuance_services \<Rightarrow> 'i issuance_context \<Rightarrow> 'i issuance_context option" where
  "validating_initial_entry sv ctx =
     (case ic_initial_input ctx of
        None \<Rightarrow> Some (ctx\<lparr>ic_failure := Some default_read_failure\<rparr>)
      | Some i \<Rightarrow>
          (case identity_mismatch_failure sv i of
             None \<Rightarrow> None
           | Some (Some f) \<Rightarrow> Some (ctx\<lparr>ic_failure := Some f\<rparr>)
           | Some None \<Rightarrow>
               map_option (\<lambda>ds. ctx\<lparr>ic_failure := governance_failure
                   ''Governed root Issue validation failed before Change issuance planning.'' ds\<rparr>)
                 (is_validate_governance sv i)))"

definition validating_fresh_entry ::
  "('w, 'i) issuance_services \<Rightarrow> 'i issuance_context \<Rightarrow> 'i issuance_context option" where
  "validating_fresh_entry sv ctx =
     (case (ic_fresh_input ctx, ic_initial_input ctx) of
        (Some fresh, Some initial) \<Rightarrow>
          (case identity_mismatch_failure sv fresh of
             None \<Rightarrow> None
           | Some (Some f) \<Rightarrow> Some (ctx\<lparr>ic_failure := Some f\<rparr>)
           | Some None \<Rightarrow>
               (case (is_validate_governance sv fresh, is_validate_drift sv initial fresh) of
                  (Some ds, Some drift) \<Rightarrow>
                    Some (ctx\<lparr>ic_failure := governance_failure
                      ''Repository governance changed before Change issuance planning.'' (ds @ drift)\<rparr>)
                | _ \<Rightarrow> None))
      | _ \<Rightarrow> Some (ctx\<lparr>ic_failure := Some default_read_failure\<rparr>))"

definition validating_always :: "issuance_state \<Rightarrow> 'i issuance_context \<Rightarrow> issuance_state" where
  "validating_always target ctx =
     (case ic_failure ctx of
        None \<Rightarrow> target
      | Some f \<Rightarrow> if xl_code f = READ_FAILED then I_readFailed else I_preconditionFailed)"

definition issuance_planning_entry ::
  "('w, 'i) issuance_services \<Rightarrow> 'i issuance_context \<Rightarrow> 'i issuance_context option" where
  "issuance_planning_entry sv ctx =
     (case ic_fresh_input ctx of
        None \<Rightarrow> Some (ctx\<lparr>ic_plan := None, ic_failure := Some default_read_failure\<rparr>)
      | Some fresh \<Rightarrow>
          (case is_plan sv fresh (is_trusted_requester sv) of
             None \<Rightarrow> None
           | Some (Plan_Ok plan) \<Rightarrow> Some (ctx\<lparr>ic_plan := Some plan, ic_failure := None\<rparr>)
           | Some (Plan_Failed f) \<Rightarrow> Some (ctx\<lparr>ic_plan := None, ic_failure := Some f\<rparr>)))"

definition issuance_planning_always :: "'i issuance_context \<Rightarrow> issuance_state" where
  "issuance_planning_always ctx =
     (case ic_plan ctx of
        None \<Rightarrow> I_preconditionFailed
      | Some plan \<Rightarrow> if ip_effects plan = [] then I_rereading else I_applyingEffect)"

definition record_issuance_failure ::
  "change_effect \<Rightarrow> effect_failure \<Rightarrow> 'i issuance_context \<Rightarrow> 'i issuance_context" where
  "record_issuance_failure e f ctx =
     ctx\<lparr>ic_attempts := append_issuance_attempt ctx e Failed None,
         ic_effect_failure := Some (failed_effect e f)\<rparr>"

definition applying_effect_done ::
  "('w, 'i) issuance_services \<Rightarrow> effect_result settled \<Rightarrow> 'i issuance_context \<Rightarrow>
     (issuance_state \<times> 'i issuance_context) option" where
  "applying_effect_done sv r ctx =
     (case (r, create_effect_at ctx) of
        (Fulfilled (Effect_Ok ev), Some e) \<Rightarrow>
          Some (I_nextEffect, ctx\<lparr>ic_attempts := append_issuance_attempt ctx e Succeeded ev,
                                  ic_effect_failure := None\<rparr>)
      | (Fulfilled (Effect_Ok ev), None) \<Rightarrow>
          Some (I_nextEffect, ctx\<lparr>ic_failure := Some invalid_issuance_effect\<rparr>)
      | (Fulfilled (Effect_Failed f), Some e) \<Rightarrow>
          Some (I_rereadingAfterFailure, record_issuance_failure e f ctx)
      | (Rejected, Some e) \<Rightarrow>
          map_option (\<lambda>f. (I_rereadingAfterFailure, record_issuance_failure e f ctx))
            (is_failure_for_effect sv e)
      | (_, None) \<Rightarrow> Some (I_rereadingAfterFailure, ctx\<lparr>ic_failure := Some invalid_issuance_effect\<rparr>))"

definition issuance_next_effect :: "'i issuance_context \<Rightarrow> issuance_state \<times> 'i issuance_context" where
  "issuance_next_effect ctx =
     (if (case ic_plan ctx of None \<Rightarrow> False
          | Some plan \<Rightarrow> ic_effect_index ctx + 1 < length (ip_effects plan))
      then (I_applyingEffect, ctx\<lparr>ic_effect_index := ic_effect_index ctx + 1\<rparr>)
      else (I_rereading, ctx))"

definition issuance_invalid_projection :: "verification_result \<Rightarrow> execution_failure" where
  "issuance_invalid_projection verification =
     \<lparr>xl_code = PROJECTION_VERIFICATION_FAILED,
      xl_message = or_else (ve_message verification)
        (js ''Post-effect Change issuance projection verification failed.''),
      xl_diagnostics = ve_diagnostics verification, xl_evidence = None\<rparr>"

definition issuance_verifying_entry ::
  "('w, 'i) issuance_services \<Rightarrow> 'i issuance_context \<Rightarrow> 'i issuance_context option" where
  "issuance_verifying_entry sv ctx =
     (case (ic_fresh_input ctx, ic_read_input ctx, ic_plan ctx) of
        (Some fresh, Some i, Some plan) \<Rightarrow>
          (case is_project sv i of
             None \<Rightarrow> None
           | Some p \<Rightarrow>
               (case is_verify sv (is_request sv) fresh p plan of
                  None \<Rightarrow> None
                | Some verification \<Rightarrow>
                    if \<not> ve_valid verification
                    then Some (ctx\<lparr>ic_result := None,
                                   ic_failure := Some (issuance_invalid_projection verification)\<rparr>)
                    else map_option (\<lambda>result. ctx\<lparr>ic_result := Some result, ic_failure := None\<rparr>)
                           (if ip_effects plan = [] then is_returned_existing sv p
                            else is_verified sv p (ic_attempts ctx))))
      | _ \<Rightarrow> Some (ctx\<lparr>ic_failure := Some issuance_default_verification_failure\<rparr>))"

definition issuance_verifying_always :: "'i issuance_context \<Rightarrow> issuance_state" where
  "issuance_verifying_always ctx =
     (if ic_result ctx \<noteq> None \<and> ic_failure ctx = None then I_succeeded else I_verificationFailed)"

text \<open>After a failed effect: classification, compensation and its verdict.\<close>

definition issuance_read_failed_recovery ::
  "('w, 'i) issuance_services \<Rightarrow> attempt_status option \<Rightarrow> effect_failure_evidence option \<Rightarrow>
     'i issuance_context \<Rightarrow> (issuance_state \<times> 'i issuance_context) option" where
  "issuance_read_failed_recovery sv status failure ctx =
     map_option (\<lambda>f. (I_recoveryReadFailed, ctx\<lparr>ic_failure := Some f\<rparr>))
       (case ic_effect_failure ctx of
          None \<Rightarrow> Some default_recovery_required_failure
        | Some e \<Rightarrow> is_recovery_read_failure sv (ic_attempts ctx) e status failure)"

definition rereading_after_failure_done ::
  "('w, 'i) issuance_services \<Rightarrow> 'i read_result settled \<Rightarrow> 'i issuance_context \<Rightarrow>
     (issuance_state \<times> 'i issuance_context) option" where
  "rereading_after_failure_done sv r ctx =
     (case r of
        Fulfilled (Read_Ok i) \<Rightarrow> Some (I_classifyingFailure, ctx\<lparr>ic_failure_input := Some i\<rparr>)
      | _ \<Rightarrow> issuance_read_failed_recovery sv None None ctx)"

definition classifying_failure_entry ::
  "('w, 'i) issuance_services \<Rightarrow> 'i issuance_context \<Rightarrow> 'i issuance_context option" where
  "classifying_failure_entry sv ctx =
     (case ic_failure_input ctx of
        None \<Rightarrow> Some (ctx\<lparr>ic_failure_projection := None\<rparr>)
      | Some i \<Rightarrow> map_option (\<lambda>p. ctx\<lparr>ic_failure_projection := Some p\<rparr>) (is_project sv i))"

definition classifying_failure_always ::
  "('w, 'i) issuance_services \<Rightarrow> 'i issuance_context \<Rightarrow> (issuance_state \<times> 'i issuance_context) option" where
  "classifying_failure_always sv ctx =
     (if (case ic_plan ctx of None \<Rightarrow> False
          | Some plan \<Rightarrow> length (ic_attempts ctx) = length (ip_effects plan))
      then Some (I_planningCompensation, ctx)
      else (case ic_failure_projection ctx of
              None \<Rightarrow> Some (I_branchRecoveryRequired, ctx)
            | Some p \<Rightarrow>
                map_option (\<lambda>c. (if c = Confirmed_Absent then I_branchEffectFailed
                                 else I_branchRecoveryRequired, ctx))
                  (is_classify_failure sv p)))"

text \<open>The first compensation effect, if it is a branch deletion.\<close>

definition compensation_effect :: "change_effect list plan_result \<Rightarrow> change_effect option" where
  "compensation_effect planned =
     (case planned of
        Plan_Ok (e # es) \<Rightarrow> if effect_kind e = K_DELETE_BRANCH then Some e else None
      | _ \<Rightarrow> None)"

definition planning_compensation_entry ::
  "('w, 'i) issuance_services \<Rightarrow> 'i issuance_context \<Rightarrow> 'i issuance_context option" where
  "planning_compensation_entry sv ctx =
     (case (ic_plan ctx, ic_failure_input ctx, ic_effect_failure ctx) of
        (Some plan, Some i, Some f) \<Rightarrow>
          map_option (\<lambda>planned. ctx\<lparr>ic_compensation_effect := compensation_effect planned\<rparr>)
            (is_plan_recovery sv \<lparr>ri_issuance = plan, ri_attempts = ic_attempts ctx, ri_failure = f,
                                  ri_projection_input = i, ri_compensation = None\<rparr>)
      | _ \<Rightarrow> Some (ctx\<lparr>ic_compensation_effect := None\<rparr>))"

definition planning_compensation_always :: "'i issuance_context \<Rightarrow> issuance_state" where
  "planning_compensation_always ctx =
     (if ic_compensation_effect ctx \<noteq> None then I_applyingCompensation else I_compensationUnsafeResult)"

text \<open>
  \<^verbatim>\<open>compensationEffect!\<close> is defined in \<^verbatim>\<open>applyingCompensation\<close>; without one
  \<^verbatim>\<open>failureForEffect\<close> and \<^verbatim>\<open>failedEffectEvidence\<close> have nothing to
  work on, which is an exception here.
\<close>

definition applying_compensation_done ::
  "('w, 'i) issuance_services \<Rightarrow> effect_result settled \<Rightarrow> 'i issuance_context \<Rightarrow>
     (issuance_state \<times> 'i issuance_context) option" where
  "applying_compensation_done sv r ctx =
     (case r of
        Fulfilled (Effect_Ok ev) \<Rightarrow>
          Some (I_rereadingAfterCompensation,
                ctx\<lparr>ic_compensation_status := Some Succeeded, ic_compensation_failure := None\<rparr>)
      | _ \<Rightarrow>
          (case ic_compensation_effect ctx of
             None \<Rightarrow> None
           | Some e \<Rightarrow>
               map_option (\<lambda>f. (I_rereadingAfterCompensation,
                      ctx\<lparr>ic_compensation_status := Some Failed,
                          ic_compensation_failure := Some (failed_effect e f)\<rparr>))
                 (case r of Fulfilled (Effect_Failed f) \<Rightarrow> Some f | _ \<Rightarrow> is_failure_for_effect sv e)))"

definition rereading_after_compensation_done ::
  "('w, 'i) issuance_services \<Rightarrow> 'i read_result settled \<Rightarrow> 'i issuance_context \<Rightarrow>
     (issuance_state \<times> 'i issuance_context) option" where
  "rereading_after_compensation_done sv r ctx =
     (case r of
        Fulfilled (Read_Ok i) \<Rightarrow>
          Some (I_planningRecoveryOutcome, ctx\<lparr>ic_compensation_input := Some i\<rparr>)
      | _ \<Rightarrow> issuance_read_failed_recovery sv (ic_compensation_status ctx)
              (ic_compensation_failure ctx) ctx)"

definition plan_is_ok :: "'a plan_result \<Rightarrow> bool" where
  "plan_is_ok planned = (case planned of Plan_Ok _ \<Rightarrow> True | Plan_Failed _ \<Rightarrow> False)"

definition planning_recovery_outcome_entry ::
  "('w, 'i) issuance_services \<Rightarrow> 'i issuance_context \<Rightarrow> 'i issuance_context option" where
  "planning_recovery_outcome_entry sv ctx =
     (case (ic_plan ctx, ic_failure_input ctx, ic_effect_failure ctx, ic_compensation_input ctx,
            ic_compensation_status ctx) of
        (Some plan, Some i, Some f, Some ci, Some status) \<Rightarrow>
          map_option (\<lambda>planned. ctx\<lparr>ic_recovery_plan_ok := Some (plan_is_ok planned)\<rparr>)
            (is_plan_recovery sv \<lparr>ri_issuance = plan, ri_attempts = ic_attempts ctx, ri_failure = f,
               ri_projection_input = i,
               ri_compensation = Some (status, ci, ic_compensation_failure ctx)\<rparr>)
      | _ \<Rightarrow> Some (ctx\<lparr>ic_recovery_plan_ok := Some False\<rparr>))"

definition planning_recovery_outcome_always :: "'i issuance_context \<Rightarrow> issuance_state" where
  "planning_recovery_outcome_always ctx =
     (if ic_recovery_plan_ok ctx = Some True \<and> ic_compensation_status ctx = Some Succeeded
      then I_compensatedResult else I_recoveryRequiredAfterCompensationResult)"

subsection \<open>Final states\<close>

definition issuance_outcome ::
  "execution_outcome_value \<Rightarrow> 'i issuance_context \<Rightarrow> 'i issuance_context" where
  "issuance_outcome out ctx = ctx\<lparr>ic_outcome := Some out\<rparr>"

definition compensated_result_entry ::
  "('w, 'i) issuance_services \<Rightarrow> 'i issuance_context \<Rightarrow> 'i issuance_context option" where
  "compensated_result_entry sv ctx =
     (case (ic_compensation_input ctx, ic_effect_failure ctx) of
        (Some i, Some f) \<Rightarrow>
          (case is_project sv i of
             None \<Rightarrow> None
           | Some p \<Rightarrow> map_option (\<lambda>r. issuance_outcome (Result r) ctx)
                        (is_compensated sv p (ic_attempts ctx) f))
      | _ \<Rightarrow> Some (issuance_outcome (Failure issuance_default_verification_failure) ctx))"

definition recovery_required_after_entry ::
  "('w, 'i) issuance_services \<Rightarrow> 'i issuance_context \<Rightarrow> 'i issuance_context option" where
  "recovery_required_after_entry sv ctx =
     (case (ic_compensation_input ctx, ic_effect_failure ctx, ic_plan ctx) of
        (Some i, Some f, Some plan) \<Rightarrow>
          (case is_project sv i of
             None \<Rightarrow> None
           | Some p \<Rightarrow>
               (let status = or_else (ic_compensation_status ctx) Failed
                in map_option (\<lambda>r. issuance_outcome (Result r) ctx)
                     (if ic_recovery_plan_ok ctx = Some True
                      then is_recovery_required sv p (ic_attempts ctx) f status (ic_compensation_failure ctx)
                      else is_recovery_unsafe sv plan p (ic_attempts ctx) f status
                             (ic_compensation_failure ctx))))
      | _ \<Rightarrow> Some (issuance_outcome (Failure default_recovery_required_failure) ctx))"

text \<open>Shared by \<^verbatim>\<open>compensationUnsafeResult\<close> and \<^verbatim>\<open>branchRecoveryRequired\<close>.\<close>

definition unsafe_result_entry ::
  "('w, 'i) issuance_services \<Rightarrow> 'i issuance_context \<Rightarrow> 'i issuance_context option" where
  "unsafe_result_entry sv ctx =
     (case (ic_failure_projection ctx, ic_effect_failure ctx, ic_plan ctx) of
        (Some p, Some f, Some plan) \<Rightarrow>
          map_option (\<lambda>r. issuance_outcome (Result r) ctx)
            (is_recovery_unsafe sv plan p (ic_attempts ctx) f Failed None)
      | _ \<Rightarrow> Some (issuance_outcome (Failure default_recovery_required_failure) ctx))"

definition branch_effect_failed_entry ::
  "('w, 'i) issuance_services \<Rightarrow> 'i issuance_context \<Rightarrow> 'i issuance_context option" where
  "branch_effect_failed_entry sv ctx =
     (case ic_effect_failure ctx of
        None \<Rightarrow> Some (issuance_outcome (Failure issuance_default_verification_failure) ctx)
      | Some f \<Rightarrow> map_option (\<lambda>failure. issuance_outcome (Failure failure) ctx)
                    (is_effect_failed sv (ic_attempts ctx) f))"

definition issuance_succeeded_entry :: "'i issuance_context \<Rightarrow> 'i issuance_context" where
  "issuance_succeeded_entry ctx =
     issuance_outcome (case ic_result ctx of
         None \<Rightarrow> Failure issuance_default_verification_failure | Some r \<Rightarrow> Result r) ctx"

definition issuance_failed_entry ::
  "execution_failure \<Rightarrow> 'i issuance_context \<Rightarrow> 'i issuance_context" where
  "issuance_failed_entry fallback ctx = issuance_outcome (Failure (or_else (ic_failure ctx) fallback)) ctx"

subsection \<open>The chart\<close>

fun issuance_entry ::
  "('w, 'i) issuance_services \<Rightarrow> issuance_state \<Rightarrow> 'i issuance_context \<Rightarrow> 'i issuance_context option" where
  "issuance_entry sv I_validatingInitialGovernance ctx = validating_initial_entry sv ctx"
| "issuance_entry sv I_validatingFreshGovernance ctx = validating_fresh_entry sv ctx"
| "issuance_entry sv I_planning ctx = issuance_planning_entry sv ctx"
| "issuance_entry sv I_verifying ctx = issuance_verifying_entry sv ctx"
| "issuance_entry sv I_classifyingFailure ctx = classifying_failure_entry sv ctx"
| "issuance_entry sv I_planningCompensation ctx = planning_compensation_entry sv ctx"
| "issuance_entry sv I_planningRecoveryOutcome ctx = planning_recovery_outcome_entry sv ctx"
| "issuance_entry sv I_compensatedResult ctx = compensated_result_entry sv ctx"
| "issuance_entry sv I_recoveryRequiredAfterCompensationResult ctx = recovery_required_after_entry sv ctx"
| "issuance_entry sv I_compensationUnsafeResult ctx = unsafe_result_entry sv ctx"
| "issuance_entry sv I_branchEffectFailed ctx = branch_effect_failed_entry sv ctx"
| "issuance_entry sv I_branchRecoveryRequired ctx = unsafe_result_entry sv ctx"
| "issuance_entry sv I_recoveryReadFailed ctx = Some (issuance_failed_entry default_recovery_required_failure ctx)"
| "issuance_entry sv I_succeeded ctx = Some (issuance_succeeded_entry ctx)"
| "issuance_entry sv I_readFailed ctx = Some (issuance_failed_entry default_read_failure ctx)"
| "issuance_entry sv I_preconditionFailed ctx = Some (issuance_failed_entry issuance_precondition_failure ctx)"
| "issuance_entry sv I_verificationFailed ctx =
     Some (issuance_failed_entry issuance_default_verification_failure ctx)"
| "issuance_entry sv _ ctx = Some ctx"

fun issuance_final :: "issuance_state \<Rightarrow> bool" where
  "issuance_final I_compensatedResult = True"
| "issuance_final I_recoveryRequiredAfterCompensationResult = True"
| "issuance_final I_compensationUnsafeResult = True"
| "issuance_final I_branchEffectFailed = True"
| "issuance_final I_branchRecoveryRequired = True"
| "issuance_final I_recoveryReadFailed = True"
| "issuance_final I_succeeded = True"
| "issuance_final I_readFailed = True"
| "issuance_final I_preconditionFailed = True"
| "issuance_final I_verificationFailed = True"
| "issuance_final _ = False"

definition issuance_read ::
  "('w, 'i) issuance_services \<Rightarrow>
     ('i read_result settled \<Rightarrow> (issuance_state \<times> 'i issuance_context) option) \<Rightarrow> 'w \<Rightarrow>
     (issuance_state \<times> 'i issuance_context) option \<times> 'w" where
  "issuance_read sv next w = (case is_read sv (is_request sv) w of (r, w') \<Rightarrow> (next r, w'))"

fun issuance_transition ::
  "('w, 'i) issuance_services \<Rightarrow> issuance_state \<Rightarrow> 'i issuance_context \<Rightarrow> 'w \<Rightarrow>
     (issuance_state \<times> 'i issuance_context) option \<times> 'w" where
  "issuance_transition sv I_readingInitial ctx w =
     issuance_read sv (\<lambda>r. Some (issuance_reading_done I_validatingInitialGovernance
       (\<lambda>i ctx. ctx\<lparr>ic_initial_input := Some i\<rparr>) r ctx)) w"
| "issuance_transition sv I_validatingInitialGovernance ctx w =
     (Some (validating_always I_readingFresh ctx, ctx), w)"
| "issuance_transition sv I_readingFresh ctx w =
     issuance_read sv (\<lambda>r. Some (issuance_reading_done I_validatingFreshGovernance
       (\<lambda>i ctx. ctx\<lparr>ic_fresh_input := Some i\<rparr>) r ctx)) w"
| "issuance_transition sv I_validatingFreshGovernance ctx w =
     (Some (validating_always I_planning ctx, ctx), w)"
| "issuance_transition sv I_planning ctx w = (Some (issuance_planning_always ctx, ctx), w)"
| "issuance_transition sv I_applyingEffect ctx w =
     (case is_apply sv (create_effect_at ctx) w of (r, w') \<Rightarrow> (applying_effect_done sv r ctx, w'))"
| "issuance_transition sv I_nextEffect ctx w = (Some (issuance_next_effect ctx), w)"
| "issuance_transition sv I_rereading ctx w =
     issuance_read sv (\<lambda>r. Some (issuance_reading_done I_verifying
       (\<lambda>i ctx. ctx\<lparr>ic_read_input := Some i\<rparr>) r ctx)) w"
| "issuance_transition sv I_verifying ctx w = (Some (issuance_verifying_always ctx, ctx), w)"
| "issuance_transition sv I_rereadingAfterFailure ctx w =
     issuance_read sv (\<lambda>r. rereading_after_failure_done sv r ctx) w"
| "issuance_transition sv I_classifyingFailure ctx w = (classifying_failure_always sv ctx, w)"
| "issuance_transition sv I_planningCompensation ctx w =
     (Some (planning_compensation_always ctx, ctx), w)"
| "issuance_transition sv I_applyingCompensation ctx w =
     (case is_apply sv (ic_compensation_effect ctx) w of (r, w') \<Rightarrow> (applying_compensation_done sv r ctx, w'))"
| "issuance_transition sv I_rereadingAfterCompensation ctx w =
     issuance_read sv (\<lambda>r. rereading_after_compensation_done sv r ctx) w"
| "issuance_transition sv I_planningRecoveryOutcome ctx w =
     (Some (planning_recovery_outcome_always ctx, ctx), w)"
| "issuance_transition sv s ctx w = (Some (s, ctx), w)"

definition issuance_chart ::
  "('w, 'i) issuance_services \<Rightarrow> (issuance_state, 'i issuance_context, 'w) chart" where
  "issuance_chart sv =
     \<lparr>entry_action = issuance_entry sv, transition = issuance_transition sv, is_final = issuance_final\<rparr>"

definition execute_issuance ::
  "('w, 'i) issuance_services \<Rightarrow> 'w \<Rightarrow> (execution_outcome_value \<times> 'w) option" where
  "execute_issuance sv w =
     actor_outcome issuance_failed_closed ic_outcome
       (chart_run (issuance_chart sv) (Active I_readingInitial issuance_initial_context w))"

subsection \<open>The machine as straight-line code\<close>

abbreviation issuance_or_closed :: "('a \<Rightarrow> execution_outcome_value) \<Rightarrow> 'a option \<Rightarrow> execution_outcome_value" where
  "issuance_or_closed \<equiv> or_thrown issuance_failed_closed"

text \<open>One governed read: identity, then the governance diagnostics.\<close>

definition governed_check ::
  "('w, 'i) issuance_services \<Rightarrow> string \<Rightarrow> change_diagnostic list option \<Rightarrow> 'i \<Rightarrow>
     execution_outcome_value option" where
  "governed_check sv message diagnostics i =
     (case identity_mismatch_failure sv i of
        None \<Rightarrow> Some (Failure issuance_failed_closed)
      | Some (Some f) \<Rightarrow> Some (Failure f)
      | Some None \<Rightarrow>
          (case diagnostics of
             None \<Rightarrow> Some (Failure issuance_failed_closed)
           | Some ds \<Rightarrow> map_option Failure (governance_failure message ds)))"

definition admit_initial ::
  "('w, 'i) issuance_services \<Rightarrow> 'i \<Rightarrow> execution_outcome_value option" where
  "admit_initial sv i =
     governed_check sv ''Governed root Issue validation failed before Change issuance planning.''
       (is_validate_governance sv i) i"

definition fresh_diagnostics ::
  "('w, 'i) issuance_services \<Rightarrow> 'i \<Rightarrow> 'i \<Rightarrow> change_diagnostic list option" where
  "fresh_diagnostics sv initial fresh =
     (case (is_validate_governance sv fresh, is_validate_drift sv initial fresh) of
        (Some ds, Some drift) \<Rightarrow> Some (ds @ drift)
      | _ \<Rightarrow> None)"

definition admit_fresh ::
  "('w, 'i) issuance_services \<Rightarrow> 'i \<Rightarrow> 'i \<Rightarrow> execution_outcome_value + issuance_plan" where
  "admit_fresh sv initial fresh =
     (case governed_check sv ''Repository governance changed before Change issuance planning.''
             (fresh_diagnostics sv initial fresh) fresh of
        Some out \<Rightarrow> Inl out
      | None \<Rightarrow>
          (case is_plan sv fresh (is_trusted_requester sv) of
             None \<Rightarrow> Inl (Failure issuance_failed_closed)
           | Some (Plan_Failed f) \<Rightarrow> Inl (Failure f)
           | Some (Plan_Ok plan) \<Rightarrow> Inr plan))"

text \<open>The verification of the reread after all effects.\<close>

definition issuance_finish ::
  "('w, 'i) issuance_services \<Rightarrow> 'i \<Rightarrow> issuance_plan \<Rightarrow> effect_attempt list \<Rightarrow> 'w \<Rightarrow>
     execution_outcome_value \<times> 'w" where
  "issuance_finish sv fresh plan atts w =
     (case is_read sv (is_request sv) w of (r, w') \<Rightarrow>
        ((case r of
            Rejected \<Rightarrow> Failure default_read_failure
          | Fulfilled (Read_Failed f) \<Rightarrow> Failure f
          | Fulfilled (Read_Ok i) \<Rightarrow>
              issuance_or_closed (\<lambda>p.
                issuance_or_closed (\<lambda>verification.
                  if ve_valid verification
                  then issuance_or_closed Result
                         (if ip_effects plan = [] then is_returned_existing sv p else is_verified sv p atts)
                  else Failure (issuance_invalid_projection verification))
                (is_verify sv (is_request sv) fresh p plan))
              (is_project sv i)), w'))"

text \<open>A read that could not be made after a failed effect.\<close>

definition unread_recovery ::
  "('w, 'i) issuance_services \<Rightarrow> effect_attempt list \<Rightarrow> effect_failure_evidence option \<Rightarrow>
     attempt_status option \<Rightarrow> effect_failure_evidence option \<Rightarrow> execution_outcome_value" where
  "unread_recovery sv atts fo status cf =
     (case fo of
        None \<Rightarrow> Failure default_recovery_required_failure
      | Some f \<Rightarrow> issuance_or_closed Failure (is_recovery_read_failure sv atts f status cf))"

definition unsafe_recovery ::
  "('w, 'i) issuance_services \<Rightarrow> issuance_plan \<Rightarrow> projection_result \<Rightarrow> effect_attempt list \<Rightarrow>
     effect_failure_evidence option \<Rightarrow> execution_outcome_value" where
  "unsafe_recovery sv plan p atts fo =
     (case fo of
        None \<Rightarrow> Failure default_recovery_required_failure
      | Some f \<Rightarrow> issuance_or_closed Result (is_recovery_unsafe sv plan p atts f Failed None))"

text \<open>The verdict on the compensation, from the evidence read after it.\<close>

definition compensation_verdict ::
  "('w, 'i) issuance_services \<Rightarrow> issuance_plan \<Rightarrow> effect_attempt list \<Rightarrow> effect_failure_evidence \<Rightarrow> 'i \<Rightarrow>
     attempt_status \<Rightarrow> effect_failure_evidence option \<Rightarrow> 'i \<Rightarrow> execution_outcome_value" where
  "compensation_verdict sv plan atts f i status cf ci =
     issuance_or_closed (\<lambda>planned.
       issuance_or_closed (\<lambda>p.
         issuance_or_closed Result
           (if plan_is_ok planned \<and> status = Succeeded then is_compensated sv p atts f
            else if plan_is_ok planned then is_recovery_required sv p atts f status cf
            else is_recovery_unsafe sv plan p atts f status cf))
       (is_project sv ci))
     (is_plan_recovery sv \<lparr>ri_issuance = plan, ri_attempts = atts, ri_failure = f,
        ri_projection_input = i, ri_compensation = Some (status, ci, cf)\<rparr>)"

definition after_compensation ::
  "('w, 'i) issuance_services \<Rightarrow> issuance_plan \<Rightarrow> effect_attempt list \<Rightarrow> effect_failure_evidence \<Rightarrow> 'i \<Rightarrow>
     attempt_status \<Rightarrow> effect_failure_evidence option \<Rightarrow> 'w \<Rightarrow> execution_outcome_value \<times> 'w" where
  "after_compensation sv plan atts f i status cf w =
     (case is_read sv (is_request sv) w of (r, w') \<Rightarrow>
        ((case r of
            Fulfilled (Read_Ok ci) \<Rightarrow> compensation_verdict sv plan atts f i status cf ci
          | _ \<Rightarrow> unread_recovery sv atts (Some f) (Some status) cf), w'))"

definition compensate ::
  "('w, 'i) issuance_services \<Rightarrow> issuance_plan \<Rightarrow> effect_attempt list \<Rightarrow> effect_failure_evidence \<Rightarrow> 'i \<Rightarrow>
     change_effect \<Rightarrow> 'w \<Rightarrow> execution_outcome_value \<times> 'w" where
  "compensate sv plan atts f i e w =
     (case is_apply sv (Some e) w of
        (Fulfilled (Effect_Ok ev), w') \<Rightarrow> after_compensation sv plan atts f i Succeeded None w'
      | (Fulfilled (Effect_Failed g), w') \<Rightarrow>
          after_compensation sv plan atts f i Failed (Some (failed_effect e g)) w'
      | (Rejected, w') \<Rightarrow>
          (case is_failure_for_effect sv e of
             None \<Rightarrow> (Failure issuance_failed_closed, w')
           | Some g \<Rightarrow> after_compensation sv plan atts f i Failed (Some (failed_effect e g)) w'))"

definition plan_compensation ::
  "('w, 'i) issuance_services \<Rightarrow> issuance_plan \<Rightarrow> effect_attempt list \<Rightarrow> effect_failure_evidence option \<Rightarrow>
     'i \<Rightarrow> projection_result \<Rightarrow> 'w \<Rightarrow> execution_outcome_value \<times> 'w" where
  "plan_compensation sv plan atts fo i p w =
     (case fo of
        None \<Rightarrow> (unsafe_recovery sv plan p atts None, w)
      | Some f \<Rightarrow>
          (case is_plan_recovery sv \<lparr>ri_issuance = plan, ri_attempts = atts, ri_failure = f,
                  ri_projection_input = i, ri_compensation = None\<rparr> of
             None \<Rightarrow> (Failure issuance_failed_closed, w)
           | Some planned \<Rightarrow>
               (case compensation_effect planned of
                  None \<Rightarrow> (unsafe_recovery sv plan p atts fo, w)
                | Some e \<Rightarrow> compensate sv plan atts f i e w)))"

text \<open>
  Everything after a failed effect.  Only a failure of the last effect is compensated; an
  earlier one is reported, as confirmed absent or as needing recovery.
\<close>

definition issuance_recover ::
  "('w, 'i) issuance_services \<Rightarrow> issuance_plan \<Rightarrow> effect_attempt list \<Rightarrow> effect_failure_evidence option \<Rightarrow>
     'w \<Rightarrow> execution_outcome_value \<times> 'w" where
  "issuance_recover sv plan atts fo w =
     (case is_read sv (is_request sv) w of
        (Fulfilled (Read_Ok i), w') \<Rightarrow>
          (case is_project sv i of
             None \<Rightarrow> (Failure issuance_failed_closed, w')
           | Some p \<Rightarrow>
               if length atts = length (ip_effects plan) then plan_compensation sv plan atts fo i p w'
               else (issuance_or_closed (\<lambda>c.
                       if c = Confirmed_Absent
                       then (case fo of
                               None \<Rightarrow> Failure issuance_default_verification_failure
                             | Some f \<Rightarrow> issuance_or_closed Failure (is_effect_failed sv atts f))
                       else unsafe_recovery sv plan p atts fo)
                     (is_classify_failure sv p), w'))
      | (_, w') \<Rightarrow> (unread_recovery sv atts fo None None, w'))"

text \<open>The effect loop: \<^const>\<open>None\<close> is an actor stopped in error.\<close>

datatype loop_end = All_Applied | Stopped_By "effect_failure_evidence option"

fun issuance_effects ::
  "('w, 'i) issuance_services \<Rightarrow> change_effect list \<Rightarrow> effect_attempt list \<Rightarrow>
     effect_failure_evidence option \<Rightarrow> 'w \<Rightarrow> (effect_attempt list \<times> loop_end) option \<times> 'w" where
  "issuance_effects sv [] atts fo w = (Some (atts, All_Applied), w)"
| "issuance_effects sv (e # es) atts fo w =
     (case is_apply sv (create_effect e) w of
        (r, w') \<Rightarrow>
          (case (r, create_effect e) of
             (Fulfilled (Effect_Ok ev), Some e') \<Rightarrow>
               issuance_effects sv es (atts @ [issuance_attempt Succeeded ev e']) None w'
           | (Fulfilled (Effect_Ok ev), None) \<Rightarrow> issuance_effects sv es atts fo w'
           | (Fulfilled (Effect_Failed f), Some e') \<Rightarrow>
               (Some (atts @ [issuance_attempt Failed None e'], Stopped_By (Some (failed_effect e' f))), w')
           | (Rejected, Some e') \<Rightarrow>
               (map_option (\<lambda>f. (atts @ [issuance_attempt Failed None e'],
                                 Stopped_By (Some (failed_effect e' f))))
                  (is_failure_for_effect sv e'), w')
           | (_, None) \<Rightarrow> (Some (atts, Stopped_By fo), w')))"

definition issuance_after_effects ::
  "('w, 'i) issuance_services \<Rightarrow> 'i \<Rightarrow> issuance_plan \<Rightarrow>
     (effect_attempt list \<times> loop_end) option \<times> 'w \<Rightarrow> execution_outcome_value \<times> 'w" where
  "issuance_after_effects sv fresh plan r =
     (case r of
        (None, w') \<Rightarrow> (Failure issuance_failed_closed, w')
      | (Some (atts, All_Applied), w') \<Rightarrow> issuance_finish sv fresh plan atts w'
      | (Some (atts, Stopped_By fo), w') \<Rightarrow> issuance_recover sv plan atts fo w')"

definition issuance_program ::
  "('w, 'i) issuance_services \<Rightarrow> 'w \<Rightarrow> execution_outcome_value \<times> 'w" where
  "issuance_program sv w =
     (case is_read sv (is_request sv) w of
        (Rejected, w1) \<Rightarrow> (Failure default_read_failure, w1)
      | (Fulfilled (Read_Failed f), w1) \<Rightarrow> (Failure f, w1)
      | (Fulfilled (Read_Ok initial), w1) \<Rightarrow>
          (case admit_initial sv initial of
             Some out \<Rightarrow> (out, w1)
           | None \<Rightarrow>
               (case is_read sv (is_request sv) w1 of
                  (Rejected, w2) \<Rightarrow> (Failure default_read_failure, w2)
                | (Fulfilled (Read_Failed f), w2) \<Rightarrow> (Failure f, w2)
                | (Fulfilled (Read_Ok fresh), w2) \<Rightarrow>
                    (case admit_fresh sv initial fresh of
                       Inl out \<Rightarrow> (out, w2)
                     | Inr plan \<Rightarrow>
                         issuance_after_effects sv fresh plan
                           (issuance_effects sv (ip_effects plan) [] None w2)))))"

subsection \<open>The chart computes the program\<close>

lemma issuance_chart_sel [simp]:
  "entry_action (issuance_chart sv) = issuance_entry sv"
  "transition (issuance_chart sv) = issuance_transition sv"
  "is_final (issuance_chart sv) = issuance_final"
  by (simp_all add: issuance_chart_def)

abbreviation issuance_run ::
  "('w, 'i) issuance_services \<Rightarrow> issuance_state \<Rightarrow> 'i issuance_context \<Rightarrow> 'w \<Rightarrow>
     (execution_outcome_value \<times> 'w) option" where
  "issuance_run sv s ctx w \<equiv>
     actor_outcome issuance_failed_closed ic_outcome (chart_run (issuance_chart sv) (Active s ctx w))"

abbreviation issuance_resume ::
  "('w, 'i) issuance_services \<Rightarrow> (issuance_state \<times> 'i issuance_context) option \<Rightarrow> 'w \<Rightarrow>
     (execution_outcome_value \<times> 'w) option" where
  "issuance_resume sv \<equiv> resume (issuance_chart sv) issuance_failed_closed ic_outcome"

abbreviation issuance_entered ::
  "('w, 'i) issuance_services \<Rightarrow> 'i issuance_context option \<Rightarrow>
     ('i issuance_context \<Rightarrow> (issuance_state \<times> 'i issuance_context) option) \<Rightarrow>
     'w \<Rightarrow> (execution_outcome_value \<times> 'w) option" where
  "issuance_entered sv \<equiv> entered (issuance_chart sv) issuance_failed_closed ic_outcome"

lemma issuance_run_reading:
  "issuance_run sv I_readingInitial ctx w =
     (case is_read sv (is_request sv) w of (r, w') \<Rightarrow>
        issuance_resume sv (Some (issuance_reading_done I_validatingInitialGovernance
          (\<lambda>i ctx. ctx\<lparr>ic_initial_input := Some i\<rparr>) r ctx)) w')"
  "issuance_run sv I_readingFresh ctx w =
     (case is_read sv (is_request sv) w of (r, w') \<Rightarrow>
        issuance_resume sv (Some (issuance_reading_done I_validatingFreshGovernance
          (\<lambda>i ctx. ctx\<lparr>ic_fresh_input := Some i\<rparr>) r ctx)) w')"
  "issuance_run sv I_rereading ctx w =
     (case is_read sv (is_request sv) w of (r, w') \<Rightarrow>
        issuance_resume sv (Some (issuance_reading_done I_verifying
          (\<lambda>i ctx. ctx\<lparr>ic_read_input := Some i\<rparr>) r ctx)) w')"
  "issuance_run sv I_rereadingAfterFailure ctx w =
     (case is_read sv (is_request sv) w of (r, w') \<Rightarrow>
        issuance_resume sv (rereading_after_failure_done sv r ctx) w')"
  "issuance_run sv I_rereadingAfterCompensation ctx w =
     (case is_read sv (is_request sv) w of (r, w') \<Rightarrow>
        issuance_resume sv (rereading_after_compensation_done sv r ctx) w')"
  by (simp_all add: run_invoking issuance_read_def split: prod.splits)

lemma issuance_run_applying_step:
  "issuance_run sv I_applyingEffect ctx w =
     (case is_apply sv (create_effect_at ctx) w of (r, w') \<Rightarrow>
        issuance_resume sv (applying_effect_done sv r ctx) w')"
  "issuance_run sv I_applyingCompensation ctx w =
     (case is_apply sv (ic_compensation_effect ctx) w of (r, w') \<Rightarrow>
        issuance_resume sv (applying_compensation_done sv r ctx) w')"
  by (simp_all add: run_invoking split: prod.splits)

lemma issuance_run_nextEffect:
  "issuance_run sv I_nextEffect ctx w = issuance_resume sv (Some (issuance_next_effect ctx)) w"
  by (simp add: run_invoking)

lemma issuance_run_eventless:
  "issuance_run sv I_validatingInitialGovernance ctx w =
     issuance_entered sv (validating_initial_entry sv ctx)
       (\<lambda>ctx. Some (validating_always I_readingFresh ctx, ctx)) w"
  "issuance_run sv I_validatingFreshGovernance ctx w =
     issuance_entered sv (validating_fresh_entry sv ctx) (\<lambda>ctx. Some (validating_always I_planning ctx, ctx)) w"
  "issuance_run sv I_planning ctx w =
     issuance_entered sv (issuance_planning_entry sv ctx)
       (\<lambda>ctx. Some (issuance_planning_always ctx, ctx)) w"
  "issuance_run sv I_verifying ctx w =
     issuance_entered sv (issuance_verifying_entry sv ctx)
       (\<lambda>ctx. Some (issuance_verifying_always ctx, ctx)) w"
  "issuance_run sv I_classifyingFailure ctx w =
     issuance_entered sv (classifying_failure_entry sv ctx) (classifying_failure_always sv) w"
  "issuance_run sv I_planningCompensation ctx w =
     issuance_entered sv (planning_compensation_entry sv ctx)
       (\<lambda>ctx. Some (planning_compensation_always ctx, ctx)) w"
  "issuance_run sv I_planningRecoveryOutcome ctx w =
     issuance_entered sv (planning_recovery_outcome_entry sv ctx)
       (\<lambda>ctx. Some (planning_recovery_outcome_always ctx, ctx)) w"
  by (rule run_eventless [THEN trans]; simp)+

text \<open>A final state, with an entry that may throw.\<close>

definition issuance_stop :: "'i issuance_context option \<Rightarrow> execution_outcome_value" where
  "issuance_stop ctx =
     (case ctx of None \<Rightarrow> Failure issuance_failed_closed
      | Some ctx' \<Rightarrow> or_else (ic_outcome ctx') (Failure issuance_failed_closed))"

lemma issuance_stop_simps [simp]:
  "issuance_stop None = Failure issuance_failed_closed"
  "issuance_stop (Some (issuance_outcome out ctx)) = out"
  "issuance_stop (map_option (\<lambda>r. issuance_outcome (g r) ctx) x) = issuance_or_closed g x"
  by (simp_all add: issuance_stop_def issuance_outcome_def split: option.splits)

lemma issuance_run_final:
  "issuance_final s \<Longrightarrow> issuance_run sv s ctx w = Some (issuance_stop (issuance_entry sv s ctx), w)"
  by (simp add: run_final issuance_stop_def split: option.splits)

lemma issuance_run_verify:
  assumes "ic_plan ctx = Some plan" "ic_fresh_input ctx = Some fresh" "ic_attempts ctx = atts"
  shows "issuance_run sv I_rereading ctx w = Some (issuance_finish sv fresh plan atts w)"
  using assms
  by (auto simp: issuance_run_reading issuance_reading_done_def issuance_run_eventless issuance_run_final
      issuance_finish_def issuance_verifying_entry_def issuance_verifying_always_def
      issuance_succeeded_entry_def issuance_failed_entry_def or_thrown_def
      split: prod.splits settled.splits read_result.splits option.splits)

lemma issuance_run_verdict:
  assumes "ic_plan ctx = Some plan" "ic_attempts ctx = atts" "ic_effect_failure ctx = Some f"
    "ic_failure_input ctx = Some i" "ic_compensation_status ctx = Some status"
    "ic_compensation_failure ctx = cf" "ic_compensation_input ctx = Some ci"
  shows "issuance_run sv I_planningRecoveryOutcome ctx w =
    Some (compensation_verdict sv plan atts f i status cf ci, w)"
  using assms
  by (auto simp: issuance_run_eventless issuance_run_final compensation_verdict_def
      planning_recovery_outcome_entry_def planning_recovery_outcome_always_def
      compensated_result_entry_def recovery_required_after_entry_def or_thrown_def Let_def
      split: option.splits)

lemma issuance_run_after_compensation:
  assumes "ic_plan ctx = Some plan" "ic_attempts ctx = atts" "ic_effect_failure ctx = Some f"
    "ic_failure_input ctx = Some i" "ic_compensation_status ctx = Some status"
    "ic_compensation_failure ctx = cf"
  shows "issuance_run sv I_rereadingAfterCompensation ctx w =
    Some (after_compensation sv plan atts f i status cf w)"
  using assms
  by (auto simp: issuance_run_reading rereading_after_compensation_done_def issuance_read_failed_recovery_def
      issuance_run_verdict issuance_run_final issuance_failed_entry_def after_compensation_def
      unread_recovery_def or_thrown_def
      split: prod.splits settled.splits read_result.splits option.splits)

lemma issuance_run_compensate:
  assumes "ic_plan ctx = Some plan" "ic_attempts ctx = atts" "ic_effect_failure ctx = Some f"
    "ic_failure_input ctx = Some i" "ic_compensation_effect ctx = Some e"
  shows "issuance_run sv I_applyingCompensation ctx w = Some (compensate sv plan atts f i e w)"
  using assms
  by (auto simp: issuance_run_applying_step applying_compensation_done_def compensate_def
      issuance_run_after_compensation
      split: prod.splits settled.splits effect_result.splits option.splits)

lemma unsafe_result_stop:
  assumes "ic_plan ctx = Some plan" "ic_attempts ctx = atts" "ic_effect_failure ctx = fo"
    "ic_failure_projection ctx = Some p"
  shows "issuance_stop (unsafe_result_entry sv ctx) = unsafe_recovery sv plan p atts fo"
  using assms by (cases fo) (simp_all add: unsafe_result_entry_def unsafe_recovery_def)

lemma issuance_run_plan_compensation:
  assumes "ic_plan ctx = Some plan" "ic_attempts ctx = atts" "ic_effect_failure ctx = fo"
    "ic_failure_input ctx = Some i" "ic_failure_projection ctx = Some p"
  shows "issuance_run sv I_planningCompensation ctx w = Some (plan_compensation sv plan atts fo i p w)"
  using assms
  by (auto simp: issuance_run_eventless planning_compensation_entry_def planning_compensation_always_def
      issuance_run_final issuance_run_compensate unsafe_result_stop plan_compensation_def
      split: option.splits)

lemma issuance_run_recover:
  assumes "ic_plan ctx = Some plan" "ic_attempts ctx = atts" "ic_effect_failure ctx = fo"
  shows "issuance_run sv I_rereadingAfterFailure ctx w = Some (issuance_recover sv plan atts fo w)"
proof -
  obtain r w' where read: "is_read sv (is_request sv) w = (r, w')" by fastforce
  show ?thesis
  proof (cases "\<exists>i. r = Fulfilled (Read_Ok i)")
    case True
    then obtain i where i: "r = Fulfilled (Read_Ok i)" ..
    from read assms i show ?thesis
      by (auto simp: issuance_run_reading rereading_after_failure_done_def issuance_run_eventless(5)
          classifying_failure_entry_def classifying_failure_always_def issuance_run_plan_compensation
          issuance_run_final unsafe_result_stop branch_effect_failed_entry_def issuance_recover_def
          or_thrown_def [of _ _ "is_classify_failure sv _"]
          split: option.splits)
  next
    case False
    with read assms show ?thesis
      by (auto simp: issuance_run_reading rereading_after_failure_done_def issuance_read_failed_recovery_def
          issuance_run_final issuance_failed_entry_def issuance_recover_def unread_recovery_def or_thrown_def
          split: settled.splits read_result.splits option.splits)
  qed
qed

lemma create_effect_at_drop:
  assumes "ic_plan ctx = Some plan" "drop (ic_effect_index ctx) (ip_effects plan) = e # es"
  shows "create_effect_at ctx = create_effect e"
proof -
  from assms(2) have "ic_effect_index ctx < length (ip_effects plan)"
    by (metis drop_all list.distinct(1) not_le)
  with assms show ?thesis by (simp add: create_effect_at_def nth_via_drop)
qed

lemma issuance_after_effects_simps [simp]:
  "issuance_after_effects sv fresh plan (None, w) = (Failure issuance_failed_closed, w)"
  "issuance_after_effects sv fresh plan (Some (atts, All_Applied), w) = issuance_finish sv fresh plan atts w"
  "issuance_after_effects sv fresh plan (Some (atts, Stopped_By fo), w) = issuance_recover sv plan atts fo w"
  by (simp_all add: issuance_after_effects_def)

lemma issuance_run_applying:
  assumes "ic_plan ctx = Some plan" "drop (ic_effect_index ctx) (ip_effects plan) = e # es"
    "ic_fresh_input ctx = Some fresh"
  shows "issuance_run sv I_applyingEffect ctx w =
    Some (issuance_after_effects sv fresh plan
      (issuance_effects sv (e # es) (ic_attempts ctx) (ic_effect_failure ctx) w))"
  using assms
proof (induction es arbitrary: e ctx w)
  case (Cons e2 es)
  note rest = Cons.prems(2)
  note at = create_effect_at_drop [OF Cons.prems(1,2)]
  have more: "ic_effect_index ctx + 1 < length (ip_effects plan)"
    using arg_cong [OF rest, of length] by simp
  have tail: "drop (Suc (ic_effect_index ctx)) (ip_effects plan) = e2 # es"
    using rest by (metis drop_Suc tl_drop list.sel(3))
  obtain r w' where r: "is_apply sv (create_effect e) w = (r, w')" by fastforce
  show ?case
    unfolding issuance_run_applying_step(1) using Cons.prems Cons.IH r more tail at
    by (cases r; cases "create_effect e"; cases "is_failure_for_effect sv (the (create_effect e))")
      (auto simp: issuance_run_nextEffect applying_effect_done_def issuance_next_effect_def
        append_issuance_attempt_def record_issuance_failure_def issuance_run_verify issuance_run_recover
        issuance_effects.simps(2) [of sv e "e2 # es"] simp del: issuance_effects.simps(2)
        split: effect_result.splits option.splits)
next
  case Nil
  note at = create_effect_at_drop [OF Nil.prems(1,2)]
  have last: "length (ip_effects plan) = Suc (ic_effect_index ctx)"
    using arg_cong [OF Nil.prems(2), of length] by simp
  obtain r w' where r: "is_apply sv (create_effect e) w = (r, w')" by fastforce
  show ?case
    unfolding issuance_run_applying_step(1) using Nil.prems r last at
    by (cases r; cases "create_effect e"; cases "is_failure_for_effect sv (the (create_effect e))")
      (auto simp: issuance_run_nextEffect applying_effect_done_def issuance_next_effect_def
        append_issuance_attempt_def record_issuance_failure_def issuance_run_verify issuance_run_recover
        split: effect_result.splits option.splits)
qed

lemma issuance_run_planned:
  assumes "ic_plan ctx = Some plan" "ic_effect_index ctx = 0" "ic_attempts ctx = []"
    "ic_fresh_input ctx = Some fresh" "ic_effect_failure ctx = None"
  shows "issuance_run sv (issuance_planning_always ctx) ctx w =
    Some (issuance_after_effects sv fresh plan (issuance_effects sv (ip_effects plan) [] None w))"
  using assms
  by (cases "ip_effects plan") (simp_all add: issuance_planning_always_def issuance_run_verify issuance_run_applying)

text \<open>What the governance validation leaves behind, as one decision.\<close>

lemma governed_check_code:
  "governance_failure message ds = Some f \<Longrightarrow> xl_code f = PRECONDITION_FAILED"
  by (auto simp: governance_failure_def split: if_splits)

lemma identity_mismatch_code: "identity_mismatch_failure sv i = Some (Some f) \<Longrightarrow> xl_code f = READ_FAILED"
  by (auto simp: identity_mismatch_failure_def identity_failure_def split: option.splits if_splits)

lemma issuance_run_readFailed:
  "issuance_run sv I_readFailed ctx w = Some (Failure (or_else (ic_failure ctx) default_read_failure), w)"
  "issuance_run sv I_preconditionFailed ctx w =
     Some (Failure (or_else (ic_failure ctx) issuance_precondition_failure), w)"
  by (simp_all add: issuance_run_final issuance_failed_entry_def)

lemma issuance_run_planning:
  assumes "ic_fresh_input ctx = Some fresh" "ic_effect_index ctx = 0" "ic_attempts ctx = []"
    "ic_effect_failure ctx = None"
  shows "issuance_run sv I_planning ctx w = Some
    (case is_plan sv fresh (is_trusted_requester sv) of
       None \<Rightarrow> (Failure issuance_failed_closed, w)
     | Some (Plan_Failed f) \<Rightarrow> (Failure f, w)
     | Some (Plan_Ok plan) \<Rightarrow>
         issuance_after_effects sv fresh plan (issuance_effects sv (ip_effects plan) [] None w))"
proof (cases "is_plan sv fresh (is_trusted_requester sv)")
  case None
  with assms show ?thesis by (simp add: issuance_run_eventless issuance_planning_entry_def)
next
  case (Some planned)
  with assms show ?thesis
    by (cases planned)
      (simp_all add: issuance_run_eventless issuance_planning_entry_def issuance_run_planned,
       simp add: issuance_planning_always_def issuance_run_readFailed)
qed

lemma issuance_run_fresh:
  assumes "ic_fresh_input ctx = Some fresh" "ic_initial_input ctx = Some initial" "ic_effect_index ctx = 0"
    "ic_attempts ctx = []" "ic_effect_failure ctx = None"
  shows "issuance_run sv I_validatingFreshGovernance ctx w = Some
    (case admit_fresh sv initial fresh of
       Inl out \<Rightarrow> (out, w)
     | Inr plan \<Rightarrow> issuance_after_effects sv fresh plan (issuance_effects sv (ip_effects plan) [] None w))"
  using assms
  by (auto simp: issuance_run_eventless(2) validating_fresh_entry_def validating_always_def
      issuance_run_planning issuance_run_readFailed admit_fresh_def governed_check_def fresh_diagnostics_def
      dest: identity_mismatch_code governed_check_code split: option.splits plan_result.splits)

lemma issuance_run_initial:
  assumes "ic_initial_input ctx = Some initial"
  shows "issuance_run sv I_validatingInitialGovernance ctx w =
    (case admit_initial sv initial of
       Some out \<Rightarrow> Some (out, w)
     | None \<Rightarrow> issuance_run sv I_readingFresh (ctx\<lparr>ic_failure := None\<rparr>) w)"
  using assms
  by (auto simp: issuance_run_eventless(1) validating_initial_entry_def validating_always_def
      issuance_run_readFailed admit_initial_def governed_check_def
      dest: identity_mismatch_code governed_check_code split: option.splits)

lemma execute_issuance_eq: "execute_issuance sv w = Some (issuance_program sv w)"
  unfolding execute_issuance_def issuance_program_def
  by (auto simp: issuance_run_reading issuance_reading_done_def issuance_run_initial issuance_run_fresh
      issuance_run_readFailed issuance_initial_context_def
      split: prod.splits settled.splits read_result.splits option.splits)

text \<open>
  C8. The issuance machine is a total program: from all services and environments the
  actor stops, and its outcome and its interaction with the environment are those of the
  straight-line program (two governed reads, plan, effects in order, reread and verify;
  after a failed effect classification or one compensation and its verdict), thrown
  exceptions included.
\<close>

theorem issuance_machine_refines_program:
  "execute_issuance sv w = Some (issuance_program sv w)"
  by (rule execute_issuance_eq)

subsection \<open>Termination as an instance of the shared contract\<close>

fun issuance_rank :: "issuance_state \<Rightarrow> 'i issuance_context \<Rightarrow> nat" where
  "issuance_rank I_readingInitial ctx = 20"
| "issuance_rank I_validatingInitialGovernance ctx = 19"
| "issuance_rank I_readingFresh ctx = 18"
| "issuance_rank I_validatingFreshGovernance ctx = 17"
| "issuance_rank I_planning ctx = 16"
| "issuance_rank I_applyingEffect ctx = 15"
| "issuance_rank I_nextEffect ctx = 15"
| "issuance_rank I_rereading ctx = 9"
| "issuance_rank I_verifying ctx = 8"
| "issuance_rank I_rereadingAfterFailure ctx = 7"
| "issuance_rank I_classifyingFailure ctx = 6"
| "issuance_rank I_planningCompensation ctx = 5"
| "issuance_rank I_applyingCompensation ctx = 4"
| "issuance_rank I_rereadingAfterCompensation ctx = 3"
| "issuance_rank I_planningRecoveryOutcome ctx = 2"
| "issuance_rank _ ctx = 0"

definition issuance_remaining :: "'i issuance_context \<Rightarrow> nat" where
  "issuance_remaining ctx =
     (case ic_plan ctx of None \<Rightarrow> 0 | Some plan \<Rightarrow> length (ip_effects plan) - ic_effect_index ctx)"

fun issuance_work :: "issuance_state \<Rightarrow> 'i issuance_context \<Rightarrow> nat" where
  "issuance_work I_applyingEffect ctx = 2 * issuance_remaining ctx + 1"
| "issuance_work I_nextEffect ctx = 2 * issuance_remaining ctx"
| "issuance_work _ ctx = 0"

lemma issuance_applying_decreases:
  assumes "applying_effect_done sv r ctx = Some (t, ctx')"
  shows "issuance_rank t ctx' < 15 \<or> issuance_rank t ctx' = 15 \<and> issuance_work t ctx' < issuance_work I_applyingEffect ctx"
  using assms
  by (auto simp: applying_effect_done_def record_issuance_failure_def issuance_remaining_def
      split: settled.splits effect_result.splits option.splits)

interpretation issuance_chart: terminating_chart "issuance_chart sv" issuance_rank issuance_work for sv
proof unfold_locales
  fix s t :: issuance_state and ctx ctx' ctx'' w w'
  assume entry: "entry_action (issuance_chart sv) s ctx = Some ctx'" and "\<not> is_final (issuance_chart sv) s"
    and trans: "transition (issuance_chart sv) s ctx' w = (Some (t, ctx''), w')"
  then show "issuance_rank t ctx'' < issuance_rank s ctx \<or>
      issuance_rank t ctx'' = issuance_rank s ctx \<and> issuance_work t ctx'' < issuance_work s ctx"
  proof (cases "s = I_applyingEffect")
    case True
    with entry trans have "applying_effect_done sv (fst (is_apply sv (create_effect_at ctx) w)) ctx = Some (t, ctx'')"
      by (auto split: prod.splits)
    from issuance_applying_decreases [OF this] True show ?thesis by simp
  next
    case False
    with entry trans \<open>\<not> is_final (issuance_chart sv) s\<close> show ?thesis
      by (cases s) (auto simp: issuance_read_def issuance_reading_done_def validating_always_def
          issuance_planning_always_def issuance_next_effect_def issuance_remaining_def
          issuance_verifying_always_def rereading_after_failure_done_def issuance_read_failed_recovery_def
          classifying_failure_always_def planning_compensation_always_def applying_compensation_done_def
          rereading_after_compensation_done_def planning_recovery_outcome_always_def
          split: prod.splits settled.splits read_result.splits effect_result.splits option.splits if_splits)
  qed
qed

subsection \<open>Safety\<close>

definition record_issuance ::
  "('w, 'i) issuance_services \<Rightarrow> ('w \<times> change_effect option list, 'i) issuance_services" where
  "record_issuance sv =
     \<lparr>is_request = is_request sv, is_trusted_requester = is_trusted_requester sv,
      is_read = (\<lambda>q. not_recording (is_read sv) q), is_apply = recording (is_apply sv),
      is_failure_for_effect = is_failure_for_effect sv, is_project = is_project sv,
      is_validate_governance = is_validate_governance sv, is_validate_drift = is_validate_drift sv,
      is_plan = is_plan sv, is_verify = is_verify sv, is_classify_failure = is_classify_failure sv,
      is_plan_recovery = is_plan_recovery sv, is_returned_existing = is_returned_existing sv,
      is_verified = is_verified sv, is_effect_failed = is_effect_failed sv,
      is_compensated = is_compensated sv, is_recovery_required = is_recovery_required sv,
      is_recovery_unsafe = is_recovery_unsafe sv, is_recovery_read_failure = is_recovery_read_failure sv\<rparr>"

lemma record_issuance_sel [simp]:
  "is_request (record_issuance sv) = is_request sv"
  "is_trusted_requester (record_issuance sv) = is_trusted_requester sv"
  "is_failure_for_effect (record_issuance sv) = is_failure_for_effect sv"
  "is_project (record_issuance sv) = is_project sv"
  "is_validate_governance (record_issuance sv) = is_validate_governance sv"
  "is_validate_drift (record_issuance sv) = is_validate_drift sv"
  "is_plan (record_issuance sv) = is_plan sv" "is_verify (record_issuance sv) = is_verify sv"
  "is_classify_failure (record_issuance sv) = is_classify_failure sv"
  "is_plan_recovery (record_issuance sv) = is_plan_recovery sv"
  "is_returned_existing (record_issuance sv) = is_returned_existing sv"
  "is_verified (record_issuance sv) = is_verified sv"
  "is_effect_failed (record_issuance sv) = is_effect_failed sv"
  "is_compensated (record_issuance sv) = is_compensated sv"
  "is_recovery_required (record_issuance sv) = is_recovery_required sv"
  "is_recovery_unsafe (record_issuance sv) = is_recovery_unsafe sv"
  "is_recovery_read_failure (record_issuance sv) = is_recovery_read_failure sv"
  by (simp_all add: record_issuance_def)

lemma record_issuance_io:
  "is_read (record_issuance sv) q (w, l) = (case is_read sv q w of (r, w') \<Rightarrow> (r, w', l))"
  "is_apply (record_issuance sv) e (w, l) = (case is_apply sv e w of (r, w') \<Rightarrow> (r, w', l @ [e]))"
  by (simp_all add: record_issuance_def recording_def not_recording_def)

lemma identity_mismatch_record [simp]:
  "identity_mismatch_failure (record_issuance sv) i = identity_mismatch_failure sv i"
  by (simp add: identity_mismatch_failure_def cong: option.case_cong)

lemma governed_check_record [simp]:
  "governed_check (record_issuance sv) m ds i = governed_check sv m ds i"
  by (simp add: governed_check_def)

lemma fresh_diagnostics_record [simp]:
  "fresh_diagnostics (record_issuance sv) initial fresh = fresh_diagnostics sv initial fresh"
  by (simp add: fresh_diagnostics_def)

lemma admit_record [simp]:
  "admit_initial (record_issuance sv) i = admit_initial sv i"
  "admit_fresh (record_issuance sv) i j = admit_fresh sv i j"
  by (simp_all add: admit_initial_def admit_fresh_def cong: option.case_cong)

lemma recovery_record [simp]:
  "unread_recovery (record_issuance sv) = unread_recovery sv"
  "unsafe_recovery (record_issuance sv) = unsafe_recovery sv"
  "compensation_verdict (record_issuance sv) = compensation_verdict sv"
  by (simp_all add: fun_eq_iff unread_recovery_def unsafe_recovery_def compensation_verdict_def
      cong: option.case_cong if_cong)

text \<open>Admission: both reads belong to the requested Issue and pass the governance rules.\<close>

definition governed :: "('w, 'i) issuance_services \<Rightarrow> 'i \<Rightarrow> bool" where
  "governed sv i \<longleftrightarrow>
     (case is_project sv i of None \<Rightarrow> False
      | Some p \<Rightarrow> projection_root_issue p = Some (mr_issue (is_request sv)))
     \<and> is_validate_governance sv i = Some []"

lemma governed_check_None:
  "governed_check sv m ds i = None \<longleftrightarrow>
     (case is_project sv i of None \<Rightarrow> False
      | Some p \<Rightarrow> projection_root_issue p = Some (mr_issue (is_request sv))) \<and> ds = Some []"
  by (auto simp: governed_check_def identity_mismatch_failure_def governance_failure_def split: option.splits)

lemma governed_check_not_Result: "governed_check sv m ds i \<noteq> Some (Result r)"
  by (auto simp: governed_check_def split: option.splits)

lemma admit_initial_sound: "admit_initial sv i = None \<Longrightarrow> governed sv i"
  by (simp add: admit_initial_def governed_check_None governed_def)

lemma admit_fresh_sound:
  assumes "admit_fresh sv initial fresh = Inr plan"
  shows "governed sv fresh \<and> is_validate_drift sv initial fresh = Some [] \<and>
     is_plan sv fresh (is_trusted_requester sv) = Some (Plan_Ok plan)"
  using assms
  by (auto simp: admit_fresh_def governed_check_None governed_def fresh_diagnostics_def
      split: option.splits plan_result.splits)

lemma admit_not_Result:
  "admit_initial sv i \<noteq> Some (Result r)" "admit_fresh sv i j \<noteq> Inl (Result r)"
  by (auto simp: admit_initial_def admit_fresh_def governed_check_not_Result
      split: option.splits plan_result.splits)

lemma issuance_program_record:
  assumes "issuance_program (record_issuance sv) (w, []) = (out, w', log)"
  shows "(log = [] \<and> (\<forall>r. out \<noteq> Result r)) \<or>
     (\<exists>initial fresh w1 w2 plan.
        is_read sv (is_request sv) w = (Fulfilled (Read_Ok initial), w1) \<and>
        is_read sv (is_request sv) w1 = (Fulfilled (Read_Ok fresh), w2) \<and>
        admit_initial sv initial = None \<and> admit_fresh sv initial fresh = Inr plan \<and>
        issuance_after_effects (record_issuance sv) fresh plan
          (issuance_effects (record_issuance sv) (ip_effects plan) [] None (w2, [])) = (out, w', log))"
proof -
  obtain r w1 where r: "is_read sv (is_request sv) w = (r, w1)" by fastforce
  obtain r2 w2 where r2: "is_read sv (is_request sv) w1 = (r2, w2)" by fastforce
  show ?thesis
  proof (cases "\<exists>initial fresh plan. r = Fulfilled (Read_Ok initial) \<and> r2 = Fulfilled (Read_Ok fresh) \<and>
      admit_initial sv initial = None \<and> admit_fresh sv initial fresh = Inr plan")
    case True
    with assms r r2 show ?thesis by (auto simp: issuance_program_def record_issuance_io)
  next
    case False
    with assms r r2 have "log = [] \<and> (\<forall>r. out \<noteq> Result r)"
      by (auto simp: issuance_program_def record_issuance_io admit_not_Result
          split: settled.splits read_result.splits option.splits sum.splits)
    then show ?thesis ..
  qed
qed

text \<open>The loop asks for a prefix of the plan; it reports at most as many attempts.\<close>

lemma issuance_effects_prefix:
  assumes "issuance_effects (record_issuance sv) es atts fo (w, l) = (res, w', l')"
  shows "\<exists>k \<le> length es. l' = l @ map create_effect (take k es) \<and>
     (\<forall>atts' en. res = Some (atts', en) \<longrightarrow> length atts' \<le> length atts + k)"
  using assms
proof (induction es arbitrary: atts fo w l)
  case Nil
  then show ?case by auto
next
  case (Cons e es)
  obtain r w1 where r: "is_apply sv (create_effect e) w = (r, w1)" by fastforce
  consider (stop) "l' = l @ [create_effect e]"
      "\<forall>atts' en. res = Some (atts', en) \<longrightarrow> length atts' \<le> length atts + 1"
    | (go) atts1 fo1 where "length atts1 \<le> length atts + 1"
      "issuance_effects (record_issuance sv) es atts1 fo1 (w1, l @ [create_effect e]) = (res, w', l')"
    using Cons.prems r
    by (auto simp: record_issuance_io split: settled.splits effect_result.splits option.splits)
      (metis le_SucI le_refl, metis length_append_singleton le_refl)
  then show ?case
  proof cases
    case stop
    then show ?thesis by (intro exI [of _ 1]) simp
  next
    case go
    from Cons.IH [OF go(2)] obtain k where "k \<le> length es"
      "l' = (l @ [create_effect e]) @ map create_effect (take k es)"
      "\<forall>atts' en. res = Some (atts', en) \<longrightarrow> length atts' \<le> length atts1 + k" by blast
    with go(1) show ?thesis by (intro exI [of _ "Suc k"]) force
  qed
qed

lemma issuance_finish_log:
  "snd (snd (issuance_finish (record_issuance sv) fresh plan atts wl)) = snd wl"
  "snd (snd (after_compensation (record_issuance sv) plan atts f i status cf wl)) = snd wl"
  by (cases wl, cases "is_read sv (is_request sv) (fst wl)",
      simp add: issuance_finish_def after_compensation_def record_issuance_io)+

lemma compensate_log:
  "snd (snd (compensate (record_issuance sv) plan atts f i e (w, l))) = l @ [Some e]"
  by (cases "is_apply sv (Some e) w")
    (auto simp: compensate_def record_issuance_io issuance_finish_log
      split: settled.splits effect_result.splits option.splits)

lemma compensation_effect_kind: "compensation_effect planned = Some e \<Longrightarrow> effect_kind e = K_DELETE_BRANCH"
  by (auto simp: compensation_effect_def split: plan_result.splits list.splits if_splits)

lemma issuance_recover_log:
  assumes "issuance_recover (record_issuance sv) plan atts fo (w, l) = (out, w', l')"
  shows "l' = l \<or> (\<exists>d. effect_kind d = K_DELETE_BRANCH \<and> l' = l @ [Some d] \<and>
     length atts = length (ip_effects plan))"
proof (cases "\<exists>p i planned d f w1. length atts = length (ip_effects plan) \<and> fo = Some f \<and>
    compensation_effect planned = Some d \<and>
    compensate (record_issuance sv) plan atts f i d (w1, l) = (out, w', l')")
  case True
  then show ?thesis by (metis compensate_log compensation_effect_kind snd_conv)
next
  case False
  obtain r w1 where "is_read sv (is_request sv) w = (r, w1)" by fastforce
  with assms False have "l' = l"
    by (auto simp: issuance_recover_def record_issuance_io plan_compensation_def
        split: settled.splits read_result.splits option.splits if_splits)
  then show ?thesis ..
qed

text \<open>What a result reports: the attempts of a plan of create effects.\<close>

definition succeeded_attempts :: "change_effect list \<Rightarrow> effect_attempt list \<Rightarrow> bool" where
  "succeeded_attempts es atts \<longleftrightarrow> list_all2 (\<lambda>e a. \<exists>ev. a = issuance_attempt Succeeded ev e) es atts"

lemma succeeded_attempts_simps [simp]:
  "succeeded_attempts [] atts \<longleftrightarrow> atts = []"
  "succeeded_attempts (e # es) (issuance_attempt Succeeded ev e # atts) \<longleftrightarrow> succeeded_attempts es atts"
  by (auto simp: succeeded_attempts_def)

fun issuance_account ::
  "change_effect list \<Rightarrow> change_effect option list \<Rightarrow> effect_attempt list \<Rightarrow> loop_end \<Rightarrow> bool" where
  "issuance_account es log atts All_Applied \<longleftrightarrow> log = map Some es \<and> succeeded_attempts es atts"
| "issuance_account es log atts (Stopped_By None) \<longleftrightarrow> False"
| "issuance_account es log atts (Stopped_By (Some f)) \<longleftrightarrow>
     (\<exists>pre rest ok. es = pre @ fe_effect f # rest \<and> log = map Some (pre @ [fe_effect f]) \<and>
        succeeded_attempts pre ok \<and> atts = ok @ [issuance_attempt Failed None (fe_effect f)])"

definition only_create_effects :: "issuance_plan \<Rightarrow> bool" where
  "only_create_effects plan \<longleftrightarrow> list_all (\<lambda>e. create_effect e = Some e) (ip_effects plan)"

lemma issuance_account_Cons:
  assumes "issuance_account es log extra en"
  shows "issuance_account (e # es) (Some e # log) (issuance_attempt Succeeded ev e # extra) en"
proof (cases en)
  case (Stopped_By fo)
  with assms obtain f pre rest ok where "fo = Some f" "es = pre @ fe_effect f # rest"
    "log = map Some (pre @ [fe_effect f])" "succeeded_attempts pre ok"
    "extra = ok @ [issuance_attempt Failed None (fe_effect f)]" by (cases fo) auto
  with Stopped_By show ?thesis
    by simp (intro exI [of _ "e # pre"] exI [of _ rest] exI [of _ "issuance_attempt Succeeded ev e # ok"], simp)
qed (use assms in auto)

lemma issuance_effects_account:
  assumes "issuance_effects (record_issuance sv) es atts fo (w, l) = (Some (atts', en), w', l')"
    and "list_all (\<lambda>e. create_effect e = Some e) es"
  shows "\<exists>extra log. atts' = atts @ extra \<and> l' = l @ log \<and> issuance_account es log extra en"
  using assms
proof (induction es arbitrary: atts fo w l)
  case Nil
  then show ?case by auto
next
  case (Cons e es)
  obtain r w1 where r: "is_apply sv (Some e) w = (r, w1)" by fastforce
  from Cons.prems have e: "create_effect e = Some e" and es: "list_all (\<lambda>e. create_effect e = Some e) es"
    by simp_all
  consider (stop) f where "en = Stopped_By (Some (failed_effect e f))"
      "atts' = atts @ [issuance_attempt Failed None e]" "l' = l @ [Some e]"
    | (go) ev where "issuance_effects (record_issuance sv) es (atts @ [issuance_attempt Succeeded ev e]) None
         (w1, l @ [Some e]) = (Some (atts', en), w', l')"
    using Cons.prems r e
    by (auto simp: record_issuance_io split: settled.splits effect_result.splits option.splits)
  then show ?case
  proof cases
    case stop
    then show ?thesis
      by (auto simp: failed_effect_def intro!: exI [of _ "[issuance_attempt Failed None e]"] exI [of _ "[]"])
  next
    case go
    from Cons.IH [OF go es] obtain extra log where "atts' = atts @ issuance_attempt Succeeded ev e # extra"
      "l' = l @ Some e # log" "issuance_account es log extra en" by auto
    then show ?thesis using issuance_account_Cons by blast
  qed
qed

lemma issuance_finish_result:
  assumes "issuance_finish sv fresh plan atts w = (Result r, w')"
  shows "\<exists>i p verification. is_project sv i = Some p \<and>
     is_verify sv (is_request sv) fresh p plan = Some verification \<and> ve_valid verification \<and>
     (if ip_effects plan = [] then is_returned_existing sv p else is_verified sv p atts) = Some r"
  using assms
  by (auto simp: issuance_finish_def or_thrown_Result
      split: prod.splits settled.splits read_result.splits if_splits)

text \<open>A compensated result: the branch deletion was applied and Core validated the evidence.\<close>

definition compensated_by ::
  "('w, 'i) issuance_services \<Rightarrow> issuance_plan \<Rightarrow> effect_attempt list \<Rightarrow> effect_failure_evidence \<Rightarrow>
     execution_result \<Rightarrow> bool" where
  "compensated_by sv plan atts f r \<longleftrightarrow>
     (\<exists>i ci planned p. is_plan_recovery sv \<lparr>ri_issuance = plan, ri_attempts = atts, ri_failure = f,
         ri_projection_input = i, ri_compensation = Some (Succeeded, ci, None)\<rparr> = Some (Plan_Ok planned) \<and>
        is_project sv ci = Some p \<and> is_compensated sv p atts f = Some r)"

definition recovery_reported ::
  "('w, 'i) issuance_services \<Rightarrow> issuance_plan \<Rightarrow> effect_attempt list \<Rightarrow> effect_failure_evidence \<Rightarrow>
     execution_result \<Rightarrow> bool" where
  "recovery_reported sv plan atts f r \<longleftrightarrow>
     (\<exists>p status cf. is_recovery_required sv p atts f status cf = Some r
                  \<or> is_recovery_unsafe sv plan p atts f status cf = Some r)"

lemma after_compensation_result:
  assumes "after_compensation sv plan atts f i status cf w = (Result r, w')"
    and "status = Succeeded \<longrightarrow> cf = None"
  shows "compensated_by sv plan atts f r \<or> recovery_reported sv plan atts f r"
  using assms
  by (auto simp: after_compensation_def compensation_verdict_def unread_recovery_def or_thrown_Result
      compensated_by_def recovery_reported_def plan_is_ok_def
      split: prod.splits settled.splits read_result.splits plan_result.splits if_splits)

lemma compensate_result:
  assumes "compensate sv plan atts f i e w = (Result r, w')"
  shows "compensated_by sv plan atts f r \<or> recovery_reported sv plan atts f r"
  using assms
  by (auto simp: compensate_def dest: after_compensation_result
      split: prod.splits settled.splits effect_result.splits option.splits)

lemma issuance_recover_result:
  assumes "issuance_recover (record_issuance sv) plan atts (Some f) (w, l) = (Result r, w', l')"
  shows "recovery_reported sv plan atts f r \<and> l' = l \<or>
     (\<exists>d. effect_kind d = K_DELETE_BRANCH \<and> l' = l @ [Some d] \<and> length atts = length (ip_effects plan) \<and>
          (compensated_by sv plan atts f r \<or> recovery_reported sv plan atts f r))"
proof -
  have lift: "compensated_by (record_issuance sv) plan atts f r = compensated_by sv plan atts f r"
    "recovery_reported (record_issuance sv) plan atts f r = recovery_reported sv plan atts f r"
    by (simp_all add: compensated_by_def recovery_reported_def)
  obtain s w1 where read: "is_read sv (is_request sv) w = (s, w1)" by fastforce
  have unsafe: "unsafe_recovery sv plan p atts (Some f) = Result r \<Longrightarrow> recovery_reported sv plan atts f r" for p
    by (auto simp: unsafe_recovery_def or_thrown_Result recovery_reported_def)
  consider (quiet) "l' = l" "recovery_reported sv plan atts f r"
    | (comp) i d planned where "length atts = length (ip_effects plan)" "compensation_effect planned = Some d"
      "compensate (record_issuance sv) plan atts f i d (w1, l) = (Result r, w', l')"
    using assms read
    by (auto simp: issuance_recover_def record_issuance_io plan_compensation_def or_thrown_Result
        unread_recovery_def dest: unsafe
        split: settled.splits read_result.splits option.splits if_splits)
  then show ?thesis
  proof cases
    case comp
    then have "l' = l @ [Some d]" by (metis compensate_log snd_conv)
    with comp compensate_result [OF comp(3)] show ?thesis
      by (auto simp: lift dest: compensation_effect_kind)
  qed simp
qed

text \<open>A repository whose state counts the effects applied to it; the third one fails.\<close>

definition sample_effects :: "change_effect list" where
  "sample_effects =
     [CREATE_BRANCH (js ''issue-42'') (js ''main''),
      CREATE_PROVENANCE_COMMIT (js ''issue-42'') 42 (js ''feat''),
      CREATE_PULL_REQUEST (js ''issue-42'') (js ''main'') 42 (js ''t'') (js ''b'') None]"

definition sample_issuance_plan :: issuance_plan where
  "sample_issuance_plan =
     \<lparr>ip_mode = Create_Mode, ip_source_status = Absent,
      ip_transaction = \<lparr>it_identity = ch_identity (sample_change DEFINED), it_idempotency_key = js ''k''\<rparr>,
      ip_branch_plan = None, ip_result = sample_change DRAFT, ip_effects = sample_effects,
      ip_verification = \<lparr>iv_branch = js ''issue-42'', iv_base = js ''main'', iv_state = DRAFT,
                         iv_pull_request = None\<rparr>\<rparr>"

definition sample_effect_failure :: effect_failure where
  "sample_effect_failure =
     \<lparr>ef_code = js ''E'', ef_message = js ''failed'', ef_reason = None, ef_status = None, ef_provider = None\<rparr>"

definition sample_issuance :: "(nat, nat) issuance_services" where
  "sample_issuance =
     \<lparr>is_request = sample_request OpIssue, is_trusted_requester = None,
      is_read = (\<lambda>q w. (Fulfilled (Read_Ok w), w)),
      is_apply = (\<lambda>e w. if w = 2 then (Fulfilled (Effect_Failed sample_effect_failure), 3)
                       else (Fulfilled (Effect_Ok None), w + 1)),
      is_failure_for_effect = (\<lambda>e. None),
      is_project = (\<lambda>i. Some (sample_projection (if i = 0 then DEFINED else DRAFT))),
      is_validate_governance = (\<lambda>i. Some []), is_validate_drift = (\<lambda>i j. Some []),
      is_plan = (\<lambda>i q. Some (Plan_Ok sample_issuance_plan)),
      is_verify = (\<lambda>q i p plan. Some sample_valid), is_classify_failure = (\<lambda>p. Some Unresolved),
      is_plan_recovery = (\<lambda>ri. Some (Plan_Ok [DELETE_BRANCH (js ''issue-42'') None])),
      is_returned_existing = (\<lambda>p. None), is_verified = (\<lambda>p atts. Some (sample_result DRAFT)),
      is_effect_failed = (\<lambda>atts f. None), is_compensated = (\<lambda>p atts f. Some (sample_result DEFINED)),
      is_recovery_required = (\<lambda>p atts f s cf. None), is_recovery_unsafe = (\<lambda>plan p atts f s cf. None),
      is_recovery_read_failure = (\<lambda>atts f s cf. None)\<rparr>"

lemma sample_issuance_run:
  "issuance_program (record_issuance sample_issuance) (0, []) =
     (Result (sample_result DEFINED), 4,
      map Some (sample_effects @ [DELETE_BRANCH (js ''issue-42'') None]))"
  by (simp add: issuance_program_def issuance_after_effects_def admit_initial_def admit_fresh_def governed_check_def
      identity_mismatch_failure_def governance_failure_def fresh_diagnostics_def issuance_recover_def
      plan_compensation_def compensation_effect_def compensate_def after_compensation_def
      compensation_verdict_def plan_is_ok_def sample_issuance_def sample_issuance_plan_def sample_effects_def
      record_issuance_def recording_def not_recording_def create_effect_def)

text \<open>
  C9. Nothing is applied outside a governed plan.  If issuance asks for any effect, two
  reads succeeded, both belong to the requested Issue and pass the governance rules without a
  diagnostic, no drift was found between them, and Core planned on the second; and the
  effects asked for are, in order, a prefix of the planned ones, followed by at most one
  compensating branch deletion, which is asked for only after the whole plan was tried.
\<close>

theorem issuance_effects_governed:
  assumes "execute_issuance (record_issuance sv) (w, []) = Some (out, w', log)" and "log \<noteq> []"
  shows "\<exists>initial fresh w1 w2 plan k comp.
     is_read sv (is_request sv) w = (Fulfilled (Read_Ok initial), w1) \<and>
     is_read sv (is_request sv) w1 = (Fulfilled (Read_Ok fresh), w2) \<and>
     governed sv initial \<and> governed sv fresh \<and> is_validate_drift sv initial fresh = Some [] \<and>
     is_plan sv fresh (is_trusted_requester sv) = Some (Plan_Ok plan) \<and>
     k \<le> length (ip_effects plan) \<and> log = map create_effect (take k (ip_effects plan)) @ comp \<and>
     (comp = [] \<or> k = length (ip_effects plan) \<and>
        (\<exists>d. comp = [Some d] \<and> effect_kind d = K_DELETE_BRANCH))"
proof -
  from assms(1) have "issuance_program (record_issuance sv) (w, []) = (out, w', log)"
    by (simp add: execute_issuance_eq)
  from issuance_program_record [OF this] assms(2) obtain initial fresh w1 w2 plan where
    read: "is_read sv (is_request sv) w = (Fulfilled (Read_Ok initial), w1)"
      "is_read sv (is_request sv) w1 = (Fulfilled (Read_Ok fresh), w2)"
    and admit: "admit_initial sv initial = None" "admit_fresh sv initial fresh = Inr plan"
    and run: "issuance_after_effects (record_issuance sv) fresh plan
        (issuance_effects (record_issuance sv) (ip_effects plan) [] None (w2, [])) = (out, w', log)" by blast
  obtain res w3 l where loop: "issuance_effects (record_issuance sv) (ip_effects plan) [] None (w2, []) = (res, w3, l)"
    by (cases "issuance_effects (record_issuance sv) (ip_effects plan) [] None (w2, [])") auto
  from issuance_effects_prefix [OF loop] obtain k where k: "k \<le> length (ip_effects plan)"
    "l = map create_effect (take k (ip_effects plan))"
    "\<And>atts en. res = Some (atts, en) \<Longrightarrow> length atts \<le> k" by auto
  have "\<exists>comp. log = l @ comp \<and> (comp = [] \<or> k = length (ip_effects plan) \<and>
      (\<exists>d. comp = [Some d] \<and> effect_kind d = K_DELETE_BRANCH))"
  proof (cases "\<exists>atts fo. res = Some (atts, Stopped_By fo)")
    case True
    then obtain atts fo where res: "res = Some (atts, Stopped_By fo)" by blast
    with run loop have "issuance_recover (record_issuance sv) plan atts fo (w3, l) = (out, w', log)" by simp
    from issuance_recover_log [OF this] k(1) k(3) [OF res] show ?thesis by auto
  next
    case False
    then consider "res = None" | atts where "res = Some (atts, All_Applied)"
      by (metis loop_end.exhaust option.exhaust surj_pair)
    then have "log = l"
    proof cases
      case (2 atts)
      with run loop issuance_finish_log(1) [of sv fresh plan atts "(w3, l)"] show ?thesis by simp
    qed (use run loop in simp)
    then show ?thesis by simp
  qed
  with read admit_initial_sound [OF admit(1)] admit_fresh_sound [OF admit(2)] k(1,2) show ?thesis by blast
qed

theorem issuance_effects_governed_witness:
  "\<exists>initial fresh w1 w2 plan k comp.
     is_read sample_issuance (is_request sample_issuance) 0 = (Fulfilled (Read_Ok initial), w1) \<and>
     is_read sample_issuance (is_request sample_issuance) w1 = (Fulfilled (Read_Ok fresh), w2) \<and>
     governed sample_issuance initial \<and> governed sample_issuance fresh \<and>
     is_validate_drift sample_issuance initial fresh = Some [] \<and>
     is_plan sample_issuance fresh (is_trusted_requester sample_issuance) = Some (Plan_Ok plan) \<and>
     k \<le> length (ip_effects plan) \<and>
     map Some (sample_effects @ [DELETE_BRANCH (js ''issue-42'') None]) =
       map create_effect (take k (ip_effects plan)) @ comp \<and>
     (comp = [] \<or> k = length (ip_effects plan) \<and>
        (\<exists>d. comp = [Some d] \<and> effect_kind d = K_DELETE_BRANCH))"
  by (rule issuance_effects_governed) (simp_all add: execute_issuance_eq sample_issuance_run)

text \<open>
  C10. A result of issuance accounts for what was done.  When Core plans create effects only,
  a result either is the verified (or already existing) one, with every planned effect
  applied and reported as succeeded and the reread verified against the fresh evidence; or
  some planned effect failed, everything before it was applied and is reported as succeeded,
  and the result is the report of that failure.  A compensated result requires in addition
  that the failed effect was the last one, that a branch deletion was asked for after it, and
  that Core accepted the evidence of the compensation.
\<close>

theorem issuance_result_accounts_for_effects:
  assumes "execute_issuance (record_issuance sv) (w, []) = Some (Result r, w', log)"
    and "\<And>i q plan. is_plan sv i q = Some (Plan_Ok plan) \<Longrightarrow> only_create_effects plan"
  shows "\<exists>plan fresh atts.
     (\<exists>i p verification. log = map Some (ip_effects plan) \<and> succeeded_attempts (ip_effects plan) atts \<and>
        is_project sv i = Some p \<and> is_verify sv (is_request sv) fresh p plan = Some verification \<and>
        ve_valid verification \<and>
        (if ip_effects plan = [] then is_returned_existing sv p else is_verified sv p atts) = Some r)
     \<or> (\<exists>f pre rest ok comp. ip_effects plan = pre @ fe_effect f # rest \<and> succeeded_attempts pre ok \<and>
        atts = ok @ [issuance_attempt Failed None (fe_effect f)] \<and>
        log = map Some (pre @ fe_effect f # comp) \<and>
        (comp = [] \<and> recovery_reported sv plan atts f r
         \<or> rest = [] \<and> (\<exists>d. comp = [d] \<and> effect_kind d = K_DELETE_BRANCH) \<and>
           (compensated_by sv plan atts f r \<or> recovery_reported sv plan atts f r)))"
proof -
  from assms(1) have "issuance_program (record_issuance sv) (w, []) = (Result r, w', log)"
    by (simp add: execute_issuance_eq)
  from issuance_program_record [OF this] obtain initial fresh w2 plan where
    admit: "admit_fresh sv initial fresh = Inr plan"
    and run: "issuance_after_effects (record_issuance sv) fresh plan
        (issuance_effects (record_issuance sv) (ip_effects plan) [] None (w2, [])) = (Result r, w', log)" by blast
  obtain res w3 l where loop: "issuance_effects (record_issuance sv) (ip_effects plan) [] None (w2, []) = (res, w3, l)"
    by (cases "issuance_effects (record_issuance sv) (ip_effects plan) [] None (w2, [])") auto
  from run loop obtain atts en where res: "res = Some (atts, en)" by (cases res) auto
  from admit_fresh_sound [OF admit] assms(2) have "list_all (\<lambda>e. create_effect e = Some e) (ip_effects plan)"
    by (auto simp: only_create_effects_def)
  from issuance_effects_account [OF loop [unfolded res] this]
  have account: "issuance_account (ip_effects plan) l atts en" by auto
  show ?thesis
  proof (cases en)
    case All_Applied
    with run loop res have fin: "issuance_finish (record_issuance sv) fresh plan atts (w3, l) = (Result r, w', log)"
      by simp
    have "log = l" using issuance_finish_log(1) [of sv fresh plan atts "(w3, l)"] fin by simp
    moreover from account All_Applied have "l = map Some (ip_effects plan)"
      "succeeded_attempts (ip_effects plan) atts" by simp_all
    moreover from issuance_finish_result [OF fin] have "\<exists>i p verification. is_project sv i = Some p \<and>
        is_verify sv (is_request sv) fresh p plan = Some verification \<and> ve_valid verification \<and>
        (if ip_effects plan = [] then is_returned_existing sv p else is_verified sv p atts) = Some r"
      by (simp cong: if_cong)
    ultimately show ?thesis by blast
  next
    case (Stopped_By fo)
    with account obtain f pre rest ok where f: "fo = Some f" "ip_effects plan = pre @ fe_effect f # rest"
      "l = map Some (pre @ [fe_effect f])" "succeeded_attempts pre ok"
      "atts = ok @ [issuance_attempt Failed None (fe_effect f)]" by (cases fo) auto
    from f(4) have len: "length ok = length pre"
      by (auto simp: succeeded_attempts_def dest: list_all2_lengthD)
    from run loop res Stopped_By f(1)
    have rec: "issuance_recover (record_issuance sv) plan atts (Some f) (w3, l) = (Result r, w', log)" by simp
    from issuance_recover_result [OF rec] show ?thesis
    proof
      assume "recovery_reported sv plan atts f r \<and> log = l"
      then have "log = map Some (pre @ fe_effect f # []) \<and> recovery_reported sv plan atts f r" using f(3) by simp
      with f(2,4,5) show ?thesis by blast
    next
      assume "\<exists>d. effect_kind d = K_DELETE_BRANCH \<and> log = l @ [Some d] \<and> length atts = length (ip_effects plan) \<and>
        (compensated_by sv plan atts f r \<or> recovery_reported sv plan atts f r)"
      then obtain d where "effect_kind d = K_DELETE_BRANCH" "log = map Some (pre @ fe_effect f # [d])" "rest = []"
        "compensated_by sv plan atts f r \<or> recovery_reported sv plan atts f r"
        using f len by auto
      with f(2,4,5) show ?thesis by blast
    qed
  qed
qed

theorem issuance_result_accounts_for_effects_witness:
  "\<exists>plan fresh atts.
     (\<exists>i p verification. map Some (sample_effects @ [DELETE_BRANCH (js ''issue-42'') None]) = map Some (ip_effects plan) \<and>
        succeeded_attempts (ip_effects plan) atts \<and>
        is_project sample_issuance i = Some p \<and>
        is_verify sample_issuance (is_request sample_issuance) fresh p plan = Some verification \<and>
        ve_valid verification \<and>
        (if ip_effects plan = [] then is_returned_existing sample_issuance p
         else is_verified sample_issuance p atts) = Some (sample_result DEFINED))
     \<or> (\<exists>f pre rest ok comp. ip_effects plan = pre @ fe_effect f # rest \<and> succeeded_attempts pre ok \<and>
        atts = ok @ [issuance_attempt Failed None (fe_effect f)] \<and>
        map Some (sample_effects @ [DELETE_BRANCH (js ''issue-42'') None]) = map Some (pre @ fe_effect f # comp) \<and>
        (comp = [] \<and> recovery_reported sample_issuance plan atts f (sample_result DEFINED)
         \<or> rest = [] \<and> (\<exists>d. comp = [d] \<and> effect_kind d = K_DELETE_BRANCH) \<and>
           (compensated_by sample_issuance plan atts f (sample_result DEFINED)
            \<or> recovery_reported sample_issuance plan atts f (sample_result DEFINED))))"
proof (rule issuance_result_accounts_for_effects)
  show "execute_issuance (record_issuance sample_issuance) (0, []) =
      Some (Result (sample_result DEFINED), 4, map Some (sample_effects @ [DELETE_BRANCH (js ''issue-42'') None]))"
    by (simp add: execute_issuance_eq sample_issuance_run)
qed (auto simp: sample_issuance_def sample_issuance_plan_def sample_effects_def only_create_effects_def
    create_effect_def)

end
