(* ===== verification/Relay_Delivery.thy ===== *)
theory Relay_Delivery
  imports Prelude
begin

text \<open>
  The relay delivery lifecycle, \<^verbatim>\<open>src/relay/delivery-state.ts\<close>: the phases of a
  job and the metadata derived from them, the validation of states and events that arrive as
  untrusted values, the phase transition of one transport fact and its reduction.
\<close>

subsection \<open>States and events\<close>

datatype relay_phase =
    Queued | Delivered | Acknowledged | Terminal_Result | Possibly_Delivered | Expired | Cancelled
  | Unavailable_Phase

definition relay_phases :: "relay_phase list" where
  "relay_phases =
     [Queued, Delivered, Acknowledged, Terminal_Result, Possibly_Delivered, Expired, Cancelled,
      Unavailable_Phase]"

fun phase_name :: "relay_phase \<Rightarrow> jstr" where
  "phase_name Queued = js ''queued''"
| "phase_name Delivered = js ''delivered''"
| "phase_name Acknowledged = js ''acknowledged''"
| "phase_name Terminal_Result = js ''terminal-result''"
| "phase_name Possibly_Delivered = js ''possibly-delivered''"
| "phase_name Expired = js ''expired''"
| "phase_name Cancelled = js ''cancelled''"
| "phase_name Unavailable_Phase = js ''unavailable''"

datatype delivery_evidence = Not_Delivered | Evidence_Delivered | Delivered_Ambiguous

datatype automatic_retry = Retry_Allowed | Retry_Forbidden

datatype recovery_class = Recovery_None | Recovery_Required

fun evidence_name :: "delivery_evidence \<Rightarrow> jstr" where
  "evidence_name Not_Delivered = js ''not-delivered''"
| "evidence_name Evidence_Delivered = js ''delivered''"
| "evidence_name Delivered_Ambiguous = js ''delivered-ambiguous''"

fun retry_name :: "automatic_retry \<Rightarrow> jstr" where
  "retry_name Retry_Allowed = js ''allowed''"
| "retry_name Retry_Forbidden = js ''forbidden''"

fun recovery_name :: "recovery_class \<Rightarrow> jstr" where
  "recovery_name Recovery_None = js ''none''"
| "recovery_name Recovery_Required = js ''recovery-required''"

record delivery_state =
  ds_connection :: jstr
  ds_job :: jstr
  ds_phase :: relay_phase
  ds_evidence :: delivery_evidence
  ds_retry :: automatic_retry
  ds_recovery :: recovery_class
  ds_digest :: "jstr option"

datatype delivery_event_kind =
    Deliver | Acknowledge | Result_Event jstr | Disconnect | Timeout | Reconnect | Expire | Cancel

fun event_name :: "delivery_event_kind \<Rightarrow> jstr" where
  "event_name Deliver = js ''deliver''"
| "event_name Acknowledge = js ''acknowledge''"
| "event_name (Result_Event d) = js ''result''"
| "event_name Disconnect = js ''disconnect''"
| "event_name Timeout = js ''timeout''"
| "event_name Reconnect = js ''reconnect''"
| "event_name Expire = js ''expire''"
| "event_name Cancel = js ''cancel''"

record delivery_event =
  de_connection :: jstr
  de_job :: jstr
  de_kind :: delivery_event_kind

datatype delivery_transition =
  Applied | Duplicate_Result_Ignored | Conflicting_Result_Ignored | Late_Event_Ignored

record delivery_reduction =
  rd_state :: delivery_state
  rd_transition :: delivery_transition

datatype relay_error_code =
    RELAY_INVALID_STATE | RELAY_INVALID_EVENT | RELAY_UNSUPPORTED_VERSION | RELAY_MISMATCHED_JOB
  | RELAY_INVALID_IDENTIFIER | RELAY_INVALID_DIGEST

record relay_error =
  re_code :: relay_error_code
  re_message :: jstr

definition relay_error :: "relay_error_code \<Rightarrow> string \<Rightarrow> relay_error" where
  "relay_error code message = \<lparr>re_code = code, re_message = js message\<rparr>"

subsection \<open>Field validation\<close>

definition max_relay_identifier_bytes :: nat where
  "max_relay_identifier_bytes = 128"

definition relay_char :: "nat \<Rightarrow> bool" where
  [char_class]: "relay_char c \<longleftrightarrow> is_alnum c \<or> c \<in> {46, 95, 58, 45}"

text \<open>\<^verbatim>\<open>IDENTIFIER_PATTERN\<close> and \<^verbatim>\<open>DIGEST_PATTERN\<close>, which are the same language.\<close>

fun relay_pattern :: "jstr \<Rightarrow> bool" where
  "relay_pattern [] = False"
| "relay_pattern (c # s) \<longleftrightarrow> is_alnum c \<and> length s \<le> 127 \<and> list_all relay_char s"

definition relay_identifier :: "jsval \<Rightarrow> string \<Rightarrow> relay_error + jstr" where
  "relay_identifier v field =
     (case v of
        JStr s \<Rightarrow>
          if relay_pattern s \<and> utf8_length s \<le> max_relay_identifier_bytes then Inr s
          else Inl (relay_error RELAY_INVALID_IDENTIFIER (field @ '' must be a bounded relay identifier.''))
      | _ \<Rightarrow> Inl (relay_error RELAY_INVALID_IDENTIFIER (field @ '' must be a bounded relay identifier.'')))"

definition relay_digest :: "jsval \<Rightarrow> relay_error + jstr" where
  "relay_digest v =
     (let invalid = relay_error RELAY_INVALID_DIGEST
                      ''resultDigest must be a bounded digest identifier, not a result payload.''
      in case v of JStr s \<Rightarrow> if relay_pattern s then Inr s else Inl invalid | _ \<Rightarrow> Inl invalid)"

text \<open>The smallest unknown key is reported; the code is the state code for events too.\<close>

definition assert_closed_object :: "jsval \<Rightarrow> jstr list \<Rightarrow> relay_error + unit" where
  "assert_closed_object v allowed =
     (case sort_strings (filter (\<lambda>k. k \<notin> set allowed) (object_keys v)) of
        [] \<Rightarrow> Inr ()
      | k # ks \<Rightarrow> Inl \<lparr>re_code = RELAY_INVALID_STATE,
                      re_message = js ''Unknown relay delivery field \"'' @ k @ js ''\".''\<rparr>)"

definition phase_metadata :: "relay_phase \<Rightarrow> delivery_evidence \<times> automatic_retry \<times> recovery_class" where
  "phase_metadata ph =
     (case ph of
        Queued \<Rightarrow> (Not_Delivered, Retry_Allowed, Recovery_None)
      | Unavailable_Phase \<Rightarrow> (Not_Delivered, Retry_Allowed, Recovery_None)
      | Delivered \<Rightarrow> (Evidence_Delivered, Retry_Forbidden, Recovery_None)
      | Acknowledged \<Rightarrow> (Evidence_Delivered, Retry_Forbidden, Recovery_None)
      | Terminal_Result \<Rightarrow> (Evidence_Delivered, Retry_Forbidden, Recovery_None)
      | Possibly_Delivered \<Rightarrow> (Delivered_Ambiguous, Retry_Forbidden, Recovery_Required)
      | Expired \<Rightarrow> (Not_Delivered, Retry_Forbidden, Recovery_None)
      | Cancelled \<Rightarrow> (Not_Delivered, Retry_Forbidden, Recovery_None))"

definition create_state :: "jstr \<Rightarrow> jstr \<Rightarrow> relay_phase \<Rightarrow> jstr option \<Rightarrow> delivery_state" where
  "create_state c j ph dg =
     (case phase_metadata ph of (ev, rt, rc) \<Rightarrow>
        \<lparr>ds_connection = c, ds_job = j, ds_phase = ph, ds_evidence = ev, ds_retry = rt,
         ds_recovery = rc, ds_digest = dg\<rparr>)"

definition create_relay_delivery_state :: "jsval \<Rightarrow> relay_error + delivery_state" where
  "create_relay_delivery_state job =
     (if \<not> is_record job
      then Inl (relay_error RELAY_INVALID_STATE ''A relay delivery job must be an object.'')
      else on_ok (assert_closed_object job [js ''connectionId'', js ''jobId''])
        (\<lambda>_. on_ok (relay_identifier (get_prop job (js ''connectionId'')) ''connectionId'')
        (\<lambda>c. on_ok (relay_identifier (get_prop job (js ''jobId'')) ''jobId'')
        (\<lambda>j. Inr (create_state c j Queued None)))))"

definition normalize_phase :: "jsval \<Rightarrow> relay_error + relay_phase" where
  "normalize_phase v =
     (case v of
        JStr s \<Rightarrow>
          (case find (\<lambda>ph. phase_name ph = s) relay_phases of
             None \<Rightarrow> Inl (relay_error RELAY_INVALID_STATE ''Relay delivery phase is not supported.'')
           | Some ph \<Rightarrow> Inr ph)
      | _ \<Rightarrow> Inl (relay_error RELAY_INVALID_STATE ''Relay delivery phase is not supported.''))"

definition state_keys :: "jstr list" where
  "state_keys =
     [js ''automaticRetry'', js ''connectionId'', js ''deliveryEvidence'', js ''jobId'', js ''phase'',
      js ''recovery'', js ''resultDigest'', js ''version'']"

definition normalize_relay_delivery_state :: "jsval \<Rightarrow> relay_error + delivery_state" where
  "normalize_relay_delivery_state v =
     (if \<not> is_record v
      then Inl (relay_error RELAY_INVALID_STATE ''Relay delivery state must be a plain object.'')
      else on_ok (assert_closed_object v state_keys) (\<lambda>_.
        if get_prop v (js ''version'') \<noteq> JNum (Integral 1)
        then Inl (relay_error RELAY_UNSUPPORTED_VERSION ''Relay delivery state version is unsupported.'')
        else on_ok (relay_identifier (get_prop v (js ''connectionId'')) ''connectionId'') (\<lambda>c.
        on_ok (relay_identifier (get_prop v (js ''jobId'')) ''jobId'') (\<lambda>j.
        on_ok (normalize_phase (get_prop v (js ''phase''))) (\<lambda>ph.
        case phase_metadata ph of (ev, rt, rc) \<Rightarrow>
        if get_prop v (js ''deliveryEvidence'') \<noteq> JStr (evidence_name ev)
           \<or> get_prop v (js ''automaticRetry'') \<noteq> JStr (retry_name rt)
           \<or> get_prop v (js ''recovery'') \<noteq> JStr (recovery_name rc)
        then Inl (relay_error RELAY_INVALID_STATE ''Relay delivery metadata does not match its transport phase.'')
        else on_ok (if get_prop v (js ''resultDigest'') = JUndef then Inr None
                    else map_sum id Some (relay_digest (get_prop v (js ''resultDigest'')))) (\<lambda>dg.
        if ph = Terminal_Result \<and> dg = None
        then Inl (relay_error RELAY_INVALID_STATE ''A terminal result requires resultDigest.'')
        else if ph \<noteq> Terminal_Result \<and> dg \<noteq> None
        then Inl (relay_error RELAY_INVALID_STATE ''Only terminal-result may retain a resultDigest.'')
        else Inr (create_state c j ph dg)))))))"

definition event_keys :: "jstr list" where
  "event_keys = [js ''connectionId'', js ''jobId'', js ''resultDigest'', js ''type'', js ''version'']"

text \<open>The event types other than \<^verbatim>\<open>result\<close>.\<close>

definition plain_event_kinds :: "delivery_event_kind list" where
  "plain_event_kinds = [Deliver, Acknowledge, Disconnect, Timeout, Reconnect, Expire, Cancel]"

definition normalize_relay_delivery_event :: "jsval \<Rightarrow> relay_error + delivery_event" where
  "normalize_relay_delivery_event v =
     (if \<not> is_record v
      then Inl (relay_error RELAY_INVALID_EVENT ''Relay delivery event must be a plain object.'')
      else on_ok (assert_closed_object v event_keys) (\<lambda>_.
        if get_prop v (js ''version'') \<noteq> JNum (Integral 1)
        then Inl (relay_error RELAY_UNSUPPORTED_VERSION ''Relay delivery event version is unsupported.'')
        else on_ok (relay_identifier (get_prop v (js ''connectionId'')) ''connectionId'') (\<lambda>c.
        on_ok (relay_identifier (get_prop v (js ''jobId'')) ''jobId'') (\<lambda>j.
        if get_prop v (js ''type'') = JStr (js ''result'')
        then on_ok (relay_digest (get_prop v (js ''resultDigest'')))
               (\<lambda>d. Inr \<lparr>de_connection = c, de_job = j, de_kind = Result_Event d\<rparr>)
        else (case find (\<lambda>k. get_prop v (js ''type'') = JStr (event_name k)) plain_event_kinds of
                None \<Rightarrow> Inl (relay_error RELAY_INVALID_EVENT ''Relay delivery event type is not supported.'')
              | Some k \<Rightarrow>
                  if get_prop v (js ''resultDigest'') \<noteq> JUndef
                  then Inl (relay_error RELAY_INVALID_EVENT ''Only result events may carry resultDigest.'')
                  else Inr \<lparr>de_connection = c, de_job = j, de_kind = k\<rparr>)))))"

subsection \<open>The reduction\<close>

definition is_terminal :: "delivery_state \<Rightarrow> bool" where
  "is_terminal s \<longleftrightarrow> ds_phase s = Terminal_Result"

definition transition_for_terminal :: "delivery_state \<Rightarrow> delivery_event \<Rightarrow> delivery_reduction" where
  "transition_for_terminal s e =
     \<lparr>rd_state = s,
      rd_transition =
        (case de_kind e of
           Result_Event d \<Rightarrow> if Some d = ds_digest s then Duplicate_Result_Ignored else Conflicting_Result_Ignored
         | _ \<Rightarrow> Late_Event_Ignored)\<rparr>"

definition lost_connection :: "relay_phase \<Rightarrow> relay_phase \<Rightarrow> relay_phase" where
  "lost_connection undelivered ph =
     (if ph = Queued \<or> ph = Unavailable_Phase then undelivered
      else if ph = Delivered \<or> ph = Acknowledged then Possibly_Delivered else ph)"

fun next_phase :: "relay_phase \<Rightarrow> delivery_event_kind \<Rightarrow> relay_phase" where
  "next_phase ph Deliver = (if ph = Queued \<or> ph = Unavailable_Phase then Delivered else ph)"
| "next_phase ph Acknowledge = (if ph = Queued \<or> ph = Delivered then Acknowledged else ph)"
| "next_phase ph (Result_Event d) = Terminal_Result"
| "next_phase ph Disconnect = lost_connection Unavailable_Phase ph"
| "next_phase ph Timeout = lost_connection Unavailable_Phase ph"
| "next_phase ph Reconnect = (if ph = Unavailable_Phase then Queued else ph)"
| "next_phase ph Expire = lost_connection Expired ph"
| "next_phase ph Cancel = (if ph = Queued \<or> ph = Unavailable_Phase then Cancelled else ph)"

text \<open>The reduction of an already normalized state and event.\<close>

definition reduce_delivery :: "delivery_state \<Rightarrow> delivery_event \<Rightarrow> relay_error + delivery_reduction" where
  "reduce_delivery s e =
     (if de_connection e \<noteq> ds_connection s \<or> de_job e \<noteq> ds_job s
      then Inl (relay_error RELAY_MISMATCHED_JOB ''Relay delivery event belongs to another job.'')
      else if ds_phase s = Expired then Inr \<lparr>rd_state = s, rd_transition = Late_Event_Ignored\<rparr>
      else if is_terminal s then Inr (transition_for_terminal s e)
      else (let ph = next_phase (ds_phase s) (de_kind e)
            in if ph = ds_phase s then Inr \<lparr>rd_state = s, rd_transition = Late_Event_Ignored\<rparr>
               else Inr \<lparr>rd_state = create_state (ds_connection s) (ds_job s) ph
                           (case de_kind e of Result_Event d \<Rightarrow> Some d | _ \<Rightarrow> None),
                         rd_transition = Applied\<rparr>))"

definition apply_relay_delivery_event :: "jsval \<Rightarrow> jsval \<Rightarrow> relay_error + delivery_reduction" where
  "apply_relay_delivery_event current input =
     on_ok (normalize_relay_delivery_state current) (\<lambda>s.
     on_ok (normalize_relay_delivery_event input) (\<lambda>e. reduce_delivery s e))"

definition reduce_relay_delivery_state :: "jsval \<Rightarrow> jsval \<Rightarrow> relay_error + delivery_state" where
  "reduce_relay_delivery_state current input = map_sum id rd_state (apply_relay_delivery_event current input)"

definition is_relay_delivery_retryable :: "jsval \<Rightarrow> relay_error + bool" where
  "is_relay_delivery_retryable v =
     map_sum id (\<lambda>s. ds_retry s = Retry_Allowed) (normalize_relay_delivery_state v)"

subsection \<open>Values of states and events\<close>

text \<open>The plain objects the reducer returns and the callers pass back.\<close>

definition state_value :: "delivery_state \<Rightarrow> jsval" where
  "state_value s =
     JObj ([(js ''version'', JNum (Integral 1)), (js ''connectionId'', JStr (ds_connection s)),
            (js ''jobId'', JStr (ds_job s)), (js ''phase'', JStr (phase_name (ds_phase s))),
            (js ''deliveryEvidence'', JStr (evidence_name (ds_evidence s))),
            (js ''automaticRetry'', JStr (retry_name (ds_retry s))),
            (js ''recovery'', JStr (recovery_name (ds_recovery s)))]
           @ (case ds_digest s of None \<Rightarrow> [] | Some d \<Rightarrow> [(js ''resultDigest'', JStr d)]))"

definition event_value :: "delivery_event \<Rightarrow> jsval" where
  "event_value e =
     JObj ([(js ''version'', JNum (Integral 1)), (js ''type'', JStr (event_name (de_kind e))),
            (js ''connectionId'', JStr (de_connection e)), (js ''jobId'', JStr (de_job e))]
           @ (case de_kind e of Result_Event d \<Rightarrow> [(js ''resultDigest'', JStr d)] | _ \<Rightarrow> []))"

definition wf_delivery :: "delivery_state \<Rightarrow> bool" where
  "wf_delivery s \<longleftrightarrow>
     relay_pattern (ds_connection s) \<and> relay_pattern (ds_job s) \<and>
     phase_metadata (ds_phase s) = (ds_evidence s, ds_retry s, ds_recovery s) \<and>
     (ds_phase s = Terminal_Result \<longleftrightarrow> ds_digest s \<noteq> None) \<and>
     (case ds_digest s of None \<Rightarrow> True | Some d \<Rightarrow> relay_pattern d)"

definition wf_event :: "delivery_event \<Rightarrow> bool" where
  "wf_event e \<longleftrightarrow>
     relay_pattern (de_connection e) \<and> relay_pattern (de_job e) \<and>
     (case de_kind e of Result_Event d \<Rightarrow> relay_pattern d | _ \<Rightarrow> True)"

subsection \<open>Normalization\<close>

lemma relay_pattern_ascii: "relay_pattern s \<Longrightarrow> is_ascii s \<and> length s \<le> 128"
  by (cases s rule: relay_pattern.cases)
    (auto simp: is_ascii_def list_all_iff relay_char_def is_alnum_def is_lower_def is_upper_def is_digit_def)

lemma relay_pattern_bytes: "relay_pattern s \<Longrightarrow> utf8_length s \<le> max_relay_identifier_bytes"
  by (auto dest: relay_pattern_ascii simp: utf8_length_ascii max_relay_identifier_bytes_def)

lemma relay_identifier_Inr [simp]: "relay_identifier v f = Inr s \<longleftrightarrow> v = JStr s \<and> relay_pattern s"
  by (cases v) (auto simp: relay_identifier_def relay_pattern_bytes)

lemma relay_digest_Inr [simp]: "relay_digest v = Inr s \<longleftrightarrow> v = JStr s \<and> relay_pattern s"
  by (cases v) (auto simp: relay_digest_def Let_def)

lemma relay_field_ok [simp]:
  "relay_pattern s \<Longrightarrow> relay_identifier (JStr s) f = Inr s"
  "relay_pattern s \<Longrightarrow> relay_digest (JStr s) = Inr s"
  by simp_all

lemma assert_closed_object_Inr [simp]:
  "assert_closed_object v allowed = Inr u \<longleftrightarrow> set (object_keys v) \<subseteq> set allowed"
proof -
  have "assert_closed_object v allowed = Inr u \<longleftrightarrow> filter (\<lambda>k. k \<notin> set allowed) (object_keys v) = []"
    by (auto simp: assert_closed_object_def sort_strings_def split: list.splits) (metis list.distinct(1) sort_strings_def sort_strings_eq_Nil)
  then show ?thesis by (auto simp: filter_empty_conv)
qed

lemma phase_name_inject [simp]: "phase_name p = phase_name q \<longleftrightarrow> p = q"
  by (cases p; cases q) simp_all

lemma normalize_phase_Inr [simp]: "normalize_phase v = Inr ph \<longleftrightarrow> v = JStr (phase_name ph)"
proof -
  have "find (\<lambda>q. phase_name q = phase_name ph) relay_phases = Some ph"
    by (cases ph) (simp_all add: relay_phases_def)
  moreover have "find (\<lambda>q. phase_name q = s) relay_phases = Some ph \<Longrightarrow> s = phase_name ph" for s
    by (auto simp: find_Some_iff)
  ultimately show ?thesis
    by (cases v) (auto simp: normalize_phase_def split: option.splits)
qed

lemma normalize_phase_ok: "normalize_phase (JStr (phase_name ph)) = Inr ph"
  by simp

lemma map_sum_Inr [simp]: "map_sum f g x = Inr v \<longleftrightarrow> (\<exists>u. x = Inr u \<and> v = g u)"
  by (cases x) auto

lemma create_state_sel [simp]:
  "ds_connection (create_state c j ph dg) = c" "ds_job (create_state c j ph dg) = j"
  "ds_phase (create_state c j ph dg) = ph" "ds_digest (create_state c j ph dg) = dg"
  "ds_evidence (create_state c j ph dg) = fst (phase_metadata ph)"
  "ds_retry (create_state c j ph dg) = fst (snd (phase_metadata ph))"
  "ds_recovery (create_state c j ph dg) = snd (snd (phase_metadata ph))"
  by (simp_all add: create_state_def split: prod.splits)

lemma wf_create_state:
  "relay_pattern c \<Longrightarrow> relay_pattern j \<Longrightarrow> (ph = Terminal_Result \<longleftrightarrow> dg \<noteq> None) \<Longrightarrow>
     (\<And>d. dg = Some d \<Longrightarrow> relay_pattern d) \<Longrightarrow> wf_delivery (create_state c j ph dg)"
  by (simp add: wf_delivery_def split: option.splits)

lemma wf_delivery_create:
  assumes "wf_delivery s"
  shows "create_state (ds_connection s) (ds_job s) (ds_phase s) (ds_digest s) = s"
  using assms by (simp add: wf_delivery_def create_state_def)

lemma get_state_value [simp]:
  "get_prop (state_value s) (js ''version'') = JNum (Integral 1)"
  "get_prop (state_value s) (js ''connectionId'') = JStr (ds_connection s)"
  "get_prop (state_value s) (js ''jobId'') = JStr (ds_job s)"
  "get_prop (state_value s) (js ''phase'') = JStr (phase_name (ds_phase s))"
  "get_prop (state_value s) (js ''deliveryEvidence'') = JStr (evidence_name (ds_evidence s))"
  "get_prop (state_value s) (js ''automaticRetry'') = JStr (retry_name (ds_retry s))"
  "get_prop (state_value s) (js ''recovery'') = JStr (recovery_name (ds_recovery s))"
  "get_prop (state_value s) (js ''resultDigest'') =
     (case ds_digest s of None \<Rightarrow> JUndef | Some d \<Rightarrow> JStr d)"
  "is_record (state_value s)" "set (object_keys (state_value s)) \<subseteq> set state_keys"
  by (cases "ds_digest s"; simp add: state_value_def state_keys_def)+

lemma normalize_state_value:
  assumes "wf_delivery s"
  shows "normalize_relay_delivery_state (state_value s) = Inr s"
proof -
  from assms have ids: "relay_pattern (ds_connection s)" "relay_pattern (ds_job s)"
    and meta: "phase_metadata (ds_phase s) = (ds_evidence s, ds_retry s, ds_recovery s)"
    and terminal: "ds_phase s = Terminal_Result \<longleftrightarrow> ds_digest s \<noteq> None"
    by (simp_all add: wf_delivery_def)
  have closed: "assert_closed_object (state_value s) state_keys = Inr ()" by simp
  from assms have dg: "(if get_prop (state_value s) (js ''resultDigest'') = JUndef then Inr None
      else map_sum id Some (relay_digest (get_prop (state_value s) (js ''resultDigest'')))) = Inr (ds_digest s)"
    by (cases "ds_digest s") (simp_all add: wf_delivery_def)
  show ?thesis
    using ids terminal wf_delivery_create [OF assms]
    by (simp add: normalize_relay_delivery_state_def meta closed dg normalize_phase_ok
        del: on_ok_Inr phase_name.simps get_state_value(8))
qed

lemma normalize_state_wf:
  assumes "normalize_relay_delivery_state v = Inr s"
  shows "wf_delivery s"
  using assms
  by (auto simp: normalize_relay_delivery_state_def case_prod_unfold split: if_splits intro!: wf_create_state)

lemma event_name_plain:
  "k \<in> set plain_event_kinds \<Longrightarrow> find (\<lambda>q. event_name k = event_name q) plain_event_kinds = Some k"
  by (auto simp: plain_event_kinds_def)

lemma plain_event_kinds_iff: "k \<in> set plain_event_kinds \<longleftrightarrow> (\<forall>d. k \<noteq> Result_Event d)"
  by (cases k) (auto simp: plain_event_kinds_def)

lemma get_event_value [simp]:
  "get_prop (event_value e) (js ''version'') = JNum (Integral 1)"
  "get_prop (event_value e) (js ''type'') = JStr (event_name (de_kind e))"
  "get_prop (event_value e) (js ''connectionId'') = JStr (de_connection e)"
  "get_prop (event_value e) (js ''jobId'') = JStr (de_job e)"
  "get_prop (event_value e) (js ''resultDigest'') =
     (case de_kind e of Result_Event d \<Rightarrow> JStr d | _ \<Rightarrow> JUndef)"
  "is_record (event_value e)" "set (object_keys (event_value e)) \<subseteq> set event_keys"
  by (cases "de_kind e"; simp add: event_value_def event_keys_def)+

lemma event_name_result: "event_name k = js ''result'' \<longleftrightarrow> (\<exists>d. k = Result_Event d)"
  by (cases k) simp_all

lemma normalize_event_value:
  assumes "wf_event e"
  shows "normalize_relay_delivery_event (event_value e) = Inr e"
proof (cases "\<exists>d. de_kind e = Result_Event d")
  case True
  with assms show ?thesis
    by (auto simp: normalize_relay_delivery_event_def wf_event_def)
next
  case False
  then have plain: "de_kind e \<in> set plain_event_kinds" by (simp add: plain_event_kinds_iff)
  have "get_prop (event_value e) (js ''resultDigest'') = JUndef"
    using False by (cases "de_kind e") simp_all
  with assms False event_name_plain [OF plain] show ?thesis
    by (auto simp: normalize_relay_delivery_event_def wf_event_def event_name_result)
qed

lemma normalize_event_wf:
  assumes "normalize_relay_delivery_event v = Inr e"
  shows "wf_event e"
  using assms
  by (auto simp: normalize_relay_delivery_event_def wf_event_def find_Some_iff plain_event_kinds_def
      split: if_splits option.splits delivery_event_kind.splits)

lemma apply_on_values:
  "wf_delivery s \<Longrightarrow> wf_event e \<Longrightarrow>
     apply_relay_delivery_event (state_value s) (event_value e) = reduce_delivery s e"
  by (simp add: apply_relay_delivery_event_def normalize_state_value normalize_event_value)

subsection \<open>The reduction, phase by phase\<close>

lemma reduce_delivery_wf:
  assumes "wf_delivery s" "wf_event e" "reduce_delivery s e = Inr red"
  shows "wf_delivery (rd_state red) \<and> ds_connection (rd_state red) = ds_connection s \<and>
    ds_job (rd_state red) = ds_job s"
proof -
  have digest: "ph = Terminal_Result \<longleftrightarrow> (case de_kind e of Result_Event d \<Rightarrow> Some d | _ \<Rightarrow> None) \<noteq> None"
    if "ph = next_phase (ds_phase s) (de_kind e)" "ds_phase s \<noteq> Terminal_Result" for ph
    using that by (cases "de_kind e") (auto simp: lost_connection_def)
  have pat: "relay_pattern d" if "(case de_kind e of Result_Event d \<Rightarrow> Some d | _ \<Rightarrow> None) = Some d" for d
    using that assms(2) by (cases "de_kind e") (auto simp: wf_event_def)
  from assms(1) have ids: "relay_pattern (ds_connection s)" "relay_pattern (ds_job s)"
    by (simp_all add: wf_delivery_def)
  show ?thesis
    using assms(1,3) digest pat ids
    by (auto simp: reduce_delivery_def transition_for_terminal_def is_terminal_def Let_def
        split: if_splits intro!: wf_create_state)
qed

text \<open>Phases that imply the Runtime may have the job, and the phases of a retryable job.\<close>

definition reached_runtime :: "relay_phase \<Rightarrow> bool" where
  "reached_runtime ph \<longleftrightarrow> ph \<in> {Delivered, Acknowledged, Terminal_Result, Possibly_Delivered}"

definition retryable_phase :: "relay_phase \<Rightarrow> bool" where
  "retryable_phase ph \<longleftrightarrow> ph = Queued \<or> ph = Unavailable_Phase"

lemma wf_delivery_metadata:
  assumes "wf_delivery s"
  shows "ds_evidence s \<noteq> Not_Delivered \<longleftrightarrow> reached_runtime (ds_phase s)"
    "ds_retry s = Retry_Allowed \<longleftrightarrow> retryable_phase (ds_phase s)"
    "ds_recovery s = Recovery_Required \<longleftrightarrow> ds_phase s = Possibly_Delivered"
  using assms
  by (cases "ds_phase s"; auto simp: wf_delivery_def phase_metadata_def reached_runtime_def retryable_phase_def)+

lemma reduce_delivery_phase:
  assumes "reduce_delivery s e = Inr red"
  shows "ds_phase (rd_state red) =
    (if ds_phase s = Expired \<or> ds_phase s = Terminal_Result then ds_phase s
     else next_phase (ds_phase s) (de_kind e))"
  using assms
  by (auto simp: reduce_delivery_def transition_for_terminal_def is_terminal_def Let_def split: if_splits)

lemma next_phase_reached: "reached_runtime ph \<Longrightarrow> reached_runtime (next_phase ph k)"
  by (cases k) (auto simp: reached_runtime_def lost_connection_def)

lemma next_phase_retryable:
  "ph \<noteq> Expired \<Longrightarrow> ph \<noteq> Terminal_Result \<Longrightarrow> retryable_phase (next_phase ph k) \<Longrightarrow>
     retryable_phase ph \<and> k \<noteq> Deliver \<and> (\<forall>d. k \<noteq> Result_Event d)"
  by (cases k) (auto simp: retryable_phase_def lost_connection_def split: if_splits)

lemma reached_not_retryable: "reached_runtime ph \<Longrightarrow> \<not> retryable_phase ph"
  by (auto simp: reached_runtime_def retryable_phase_def)

lemma reduce_delivery_ignored:
  assumes "reduce_delivery s e = Inr red" "ds_phase s = Terminal_Result \<or> ds_phase s = Expired"
  shows "rd_state red = s"
  using assms by (auto simp: reduce_delivery_def transition_for_terminal_def is_terminal_def split: if_splits)

lemma apply_normalized:
  assumes "apply_relay_delivery_event v input = Inr red"
  obtains s e where "normalize_relay_delivery_state v = Inr s" "normalize_relay_delivery_event input = Inr e"
    "wf_delivery s" "wf_event e" "reduce_delivery s e = Inr red"
    "wf_delivery (rd_state red)"
proof -
  from assms obtain s e where se: "normalize_relay_delivery_state v = Inr s"
    "normalize_relay_delivery_event input = Inr e" "reduce_delivery s e = Inr red"
    by (auto simp: apply_relay_delivery_event_def)
  with normalize_state_wf [OF se(1)] normalize_event_wf [OF se(2)] reduce_delivery_wf [OF _ _ se(3)] that
  show thesis by blast
qed

text \<open>A relay that applies a sequence of reported facts to a persisted state.\<close>

fun apply_all :: "jsval \<Rightarrow> jsval list \<Rightarrow> relay_error + jsval" where
  "apply_all v [] = Inr v"
| "apply_all v (input # inputs) =
     on_ok (apply_relay_delivery_event v input) (\<lambda>red. apply_all (state_value (rd_state red)) inputs)"

lemma apply_all_retryable:
  assumes "apply_all (state_value s) inputs = Inr v" "wf_delivery s" "is_relay_delivery_retryable v = Inr True"
  shows "retryable_phase (ds_phase s) \<and>
     (\<forall>input \<in> set inputs. \<forall>e. normalize_relay_delivery_event input = Inr e \<longrightarrow>
        de_kind e \<noteq> Deliver \<and> (\<forall>d. de_kind e \<noteq> Result_Event d))"
  using assms
proof (induction inputs arbitrary: s)
  case Nil
  then show ?case
    by (auto simp: is_relay_delivery_retryable_def normalize_state_value wf_delivery_metadata)
next
  case (Cons input inputs)
  from Cons.prems(1) obtain red where red: "apply_relay_delivery_event (state_value s) input = Inr red"
    and rest: "apply_all (state_value (rd_state red)) inputs = Inr v" by auto
  from red obtain e where e: "normalize_relay_delivery_event input = Inr e" "reduce_delivery s e = Inr red"
    and wf: "wf_delivery (rd_state red)"
    by (auto elim!: apply_normalized simp: normalize_state_value Cons.prems(2))
  from Cons.IH [OF rest wf Cons.prems(3)] have IH: "retryable_phase (ds_phase (rd_state red))"
    "\<forall>input \<in> set inputs. \<forall>e. normalize_relay_delivery_event input = Inr e \<longrightarrow>
       de_kind e \<noteq> Deliver \<and> (\<forall>d. de_kind e \<noteq> Result_Event d)" by blast+
  from IH(1) reduce_delivery_phase [OF e(2)] have alive: "ds_phase s \<noteq> Expired" "ds_phase s \<noteq> Terminal_Result"
    "retryable_phase (next_phase (ds_phase s) (de_kind e))"
    by (auto simp: retryable_phase_def split: if_splits)
  from next_phase_retryable [OF alive] IH(2) e(1) show ?case by auto
qed

lemma apply_all_absorbed:
  assumes "apply_all (state_value s) inputs = Inr v" "wf_delivery s"
    "ds_phase s = Terminal_Result \<or> ds_phase s = Expired"
  shows "v = state_value s"
  using assms
proof (induction inputs)
  case (Cons input inputs)
  from Cons.prems(1) obtain red where red: "apply_relay_delivery_event (state_value s) input = Inr red"
    and rest: "apply_all (state_value (rd_state red)) inputs = Inr v" by auto
  from red have "rd_state red = s"
    by (auto elim!: apply_normalized simp: normalize_state_value Cons.prems(2)
        dest: reduce_delivery_ignored [OF _ Cons.prems(3)])
  with Cons rest show ?case by simp
qed simp

subsection \<open>Properties\<close>

definition sample_job :: jsval where
  "sample_job = JObj [(js ''connectionId'', JStr (js ''c'')), (js ''jobId'', JStr (js ''j''))]"

definition sample_delivery :: "relay_phase \<Rightarrow> delivery_state" where
  "sample_delivery ph = create_state (js ''c'') (js ''j'') ph (if ph = Terminal_Result then Some (js ''d'') else None)"

definition sample_event :: "delivery_event_kind \<Rightarrow> delivery_event" where
  "sample_event k = \<lparr>de_connection = js ''c'', de_job = js ''j'', de_kind = k\<rparr>"

lemma sample_relay_patterns [simp]:
  "relay_pattern (js ''c'')" "relay_pattern (js ''j'')" "relay_pattern (js ''d'')"
  by (simp_all add: js_eval is_alnum_def is_lower_def)

lemma sample_wf [simp]:
  "wf_delivery (sample_delivery ph)" "wf_event (sample_event Deliver)"
  "wf_event (sample_event Disconnect)" "wf_event (sample_event Reconnect)" "wf_event (sample_event Acknowledge)"
  "wf_event (sample_event (Result_Event (js ''d'')))"
  by (auto simp: sample_delivery_def sample_event_def wf_event_def intro!: wf_create_state split: if_splits)

lemma sample_apply:
  "wf_event (sample_event k) \<Longrightarrow>
     apply_relay_delivery_event (state_value (sample_delivery ph)) (event_value (sample_event k)) =
       reduce_delivery (sample_delivery ph) (sample_event k)"
  by (simp add: apply_on_values)

lemma sample_reduce:
  "reduce_delivery (sample_delivery Queued) (sample_event Deliver) =
     Inr \<lparr>rd_state = sample_delivery Delivered, rd_transition = Applied\<rparr>"
  "reduce_delivery (sample_delivery Delivered) (sample_event Disconnect) =
     Inr \<lparr>rd_state = sample_delivery Possibly_Delivered, rd_transition = Applied\<rparr>"
  "reduce_delivery (sample_delivery Queued) (sample_event Disconnect) =
     Inr \<lparr>rd_state = sample_delivery Unavailable_Phase, rd_transition = Applied\<rparr>"
  "reduce_delivery (sample_delivery Terminal_Result) (sample_event Disconnect) =
     Inr \<lparr>rd_state = sample_delivery Terminal_Result, rd_transition = Late_Event_Ignored\<rparr>"
  by (simp_all add: reduce_delivery_def sample_delivery_def sample_event_def is_terminal_def
      transition_for_terminal_def lost_connection_def)

text \<open>
  C11. Whatever untrusted values the reducer accepts, the state it returns is well formed (its
  metadata are those of its phase, and a result digest is retained by a terminal result
  only), belongs to the same connection and job, and is accepted again by the normalization,
  unchanged: a persisted state survives the round through its plain object.
\<close>

theorem delivery_state_canonical:
  assumes "apply_relay_delivery_event current input = Inr red"
  shows "wf_delivery (rd_state red) \<and>
    normalize_relay_delivery_state (state_value (rd_state red)) = Inr (rd_state red) \<and>
    get_prop current (js ''connectionId'') = JStr (ds_connection (rd_state red)) \<and>
    get_prop current (js ''jobId'') = JStr (ds_job (rd_state red))"
proof -
  from assms obtain s e where se: "normalize_relay_delivery_state current = Inr s" "wf_delivery s" "wf_event e"
    "reduce_delivery s e = Inr red" "wf_delivery (rd_state red)" by (rule apply_normalized)
  from se(1) have "get_prop current (js ''connectionId'') = JStr (ds_connection s)"
    "get_prop current (js ''jobId'') = JStr (ds_job s)"
    by (auto simp: normalize_relay_delivery_state_def case_prod_unfold split: if_splits)
  with reduce_delivery_wf [OF se(2,3,4)] show ?thesis by (simp add: normalize_state_value)
qed

theorem delivery_state_canonical_witness:
  "wf_delivery (sample_delivery Delivered) \<and>
    normalize_relay_delivery_state (state_value (sample_delivery Delivered)) = Inr (sample_delivery Delivered) \<and>
    get_prop (state_value (sample_delivery Queued)) (js ''connectionId'') =
      JStr (ds_connection (sample_delivery Delivered)) \<and>
    get_prop (state_value (sample_delivery Queued)) (js ''jobId'') = JStr (ds_job (sample_delivery Delivered))"
  using delivery_state_canonical [of "state_value (sample_delivery Queued)" "event_value (sample_event Deliver)"]
  by (simp add: sample_apply sample_reduce)

text \<open>
  C12. Evidence of delivery is permanent.  Once the Runtime may have received the job, no
  transport fact makes it undelivered or automatically retryable again, and an ambiguous
  delivery is left by a terminal result only and requires recovery until then.
\<close>

theorem delivery_evidence_permanent:
  assumes "apply_relay_delivery_event current input = Inr red"
    and "normalize_relay_delivery_state current = Inr s" and "ds_evidence s \<noteq> Not_Delivered"
  shows "ds_evidence (rd_state red) \<noteq> Not_Delivered \<and> ds_retry (rd_state red) = Retry_Forbidden \<and>
    (ds_phase s = Possibly_Delivered \<longrightarrow>
       rd_state red = s \<and> ds_recovery s = Recovery_Required \<or> ds_phase (rd_state red) = Terminal_Result)"
proof -
  from assms(1,2) obtain e where e: "wf_delivery s" "reduce_delivery s e = Inr red" "wf_delivery (rd_state red)"
    by (auto elim!: apply_normalized)
  from assms(3) wf_delivery_metadata(1) [OF e(1)] have "reached_runtime (ds_phase s)" by simp
  then have reached: "reached_runtime (ds_phase (rd_state red))"
    using reduce_delivery_phase [OF e(2)] next_phase_reached by (simp split: if_splits)
  have "rd_state red = s \<or> ds_phase (rd_state red) = Terminal_Result" if "ds_phase s = Possibly_Delivered"
    using e(2) that
    by (cases "de_kind e") (auto simp: reduce_delivery_def is_terminal_def lost_connection_def split: if_splits)
  moreover have "ds_retry (rd_state red) \<noteq> Retry_Allowed"
    using wf_delivery_metadata(2) [OF e(3)] reached_not_retryable [OF reached] by simp
  ultimately show ?thesis
    using wf_delivery_metadata(1) [OF e(3)] wf_delivery_metadata(3) [OF e(1)] reached
    by (cases "ds_retry (rd_state red)") auto
qed

theorem delivery_evidence_permanent_witness:
  "ds_evidence (sample_delivery Possibly_Delivered) \<noteq> Not_Delivered \<and>
   ds_retry (sample_delivery Possibly_Delivered) = Retry_Forbidden"
proof -
  let ?red = "\<lparr>rd_state = sample_delivery Possibly_Delivered, rd_transition = Applied\<rparr>"
  have "apply_relay_delivery_event (state_value (sample_delivery Delivered)) (event_value (sample_event Disconnect)) =
      Inr ?red"
    by (simp add: sample_apply sample_reduce)
  moreover have "normalize_relay_delivery_state (state_value (sample_delivery Delivered)) = Inr (sample_delivery Delivered)"
    by (simp add: normalize_state_value)
  moreover have "ds_evidence (sample_delivery Delivered) \<noteq> Not_Delivered"
    by (simp add: sample_delivery_def phase_metadata_def)
  ultimately show ?thesis
    using delivery_evidence_permanent [of _ _ ?red] by simp
qed

text \<open>
  Automatic retry is safe.  If a job is retryable after its creation and any sequence of
  reported facts, then none of them was a delivery or a result.
\<close>

theorem retryable_never_delivered:
  assumes "create_relay_delivery_state job = Inr s" and "apply_all (state_value s) inputs = Inr v"
    and "is_relay_delivery_retryable v = Inr True" and "input \<in> set inputs"
    and "normalize_relay_delivery_event input = Inr e"
  shows "de_kind e \<noteq> Deliver \<and> (\<forall>d. de_kind e \<noteq> Result_Event d)"
proof -
  from assms(1) have "wf_delivery s"
    by (auto simp: create_relay_delivery_state_def split: if_splits intro!: wf_create_state)
  from apply_all_retryable [OF assms(2) this assms(3)] assms(4,5) show ?thesis by blast
qed

theorem retryable_never_delivered_witness:
  "de_kind (sample_event Disconnect) \<noteq> Deliver \<and> (\<forall>d. de_kind (sample_event Disconnect) \<noteq> Result_Event d)"
proof (rule retryable_never_delivered)
  show "create_relay_delivery_state sample_job = Inr (sample_delivery Queued)"
    by (simp add: create_relay_delivery_state_def sample_job_def sample_delivery_def)
  show "apply_all (state_value (sample_delivery Queued)) [event_value (sample_event Disconnect)] =
      Inr (state_value (sample_delivery Unavailable_Phase))"
    by (simp add: sample_apply sample_reduce)
  show "is_relay_delivery_retryable (state_value (sample_delivery Unavailable_Phase)) = Inr True"
    by (simp add: is_relay_delivery_retryable_def normalize_state_value)
      (simp add: sample_delivery_def phase_metadata_def)
qed (auto simp: normalize_event_value)

text \<open>
  Terminal results and expiry absorb: no sequence of reported facts changes a state that
  holds a result (the first result digest wins) or has expired.
\<close>

theorem terminal_and_expired_absorb:
  assumes "normalize_relay_delivery_state current = Inr s"
    and "ds_phase s = Terminal_Result \<or> ds_phase s = Expired"
    and "apply_all (state_value s) inputs = Inr v"
  shows "v = state_value s"
  using apply_all_absorbed [OF assms(3) normalize_state_wf [OF assms(1)] assms(2)] .

theorem terminal_and_expired_absorb_witness:
  "state_value (sample_delivery Terminal_Result) = state_value (sample_delivery Terminal_Result) \<and>
   apply_all (state_value (sample_delivery Terminal_Result)) [event_value (sample_event Disconnect)] =
     Inr (state_value (sample_delivery Terminal_Result))"
proof
  show run: "apply_all (state_value (sample_delivery Terminal_Result)) [event_value (sample_event Disconnect)] =
      Inr (state_value (sample_delivery Terminal_Result))"
    by (simp add: sample_apply sample_reduce)
  show "state_value (sample_delivery Terminal_Result) = state_value (sample_delivery Terminal_Result)"
    by (rule terminal_and_expired_absorb [OF _ _ run, of "state_value (sample_delivery Terminal_Result)"])
      (simp_all add: normalize_state_value, simp add: sample_delivery_def)
qed

text \<open>
  An acknowledgement of a job that is \<^verbatim>\<open>unavailable\<close> is ignored: the job
  stays automatically retryable although the Runtime has acknowledged it, whereas the same
  acknowledgement of a \<^verbatim>\<open>queued\<close> job forbids the retry.
\<close>

theorem acknowledgement_lost_when_unavailable:
  "apply_relay_delivery_event (state_value (sample_delivery Unavailable_Phase))
       (event_value (sample_event Acknowledge)) =
     Inr \<lparr>rd_state = sample_delivery Unavailable_Phase, rd_transition = Late_Event_Ignored\<rparr> \<and>
   is_relay_delivery_retryable (state_value (sample_delivery Unavailable_Phase)) = Inr True \<and>
   apply_relay_delivery_event (state_value (sample_delivery Queued)) (event_value (sample_event Acknowledge)) =
     Inr \<lparr>rd_state = sample_delivery Acknowledged, rd_transition = Applied\<rparr> \<and>
   is_relay_delivery_retryable (state_value (sample_delivery Acknowledged)) = Inr False"
  by (simp add: sample_apply is_relay_delivery_retryable_def normalize_state_value)
    (simp add: reduce_delivery_def sample_delivery_def sample_event_def is_terminal_def phase_metadata_def)

end
