(* ===== verification/Branch_Naming.thy ===== *)
theory Branch_Naming
  imports Prelude
begin

text \<open>
  Canonical branch identity, \<^verbatim>\<open>src/branch-naming.ts\<close>: recognition and derivation
  of the historical \<^verbatim>\<open>type/issue-slug\<close> grammar, the normalisation of Issue titles,
  and the bounded declarative formatter (validation, rendering, matching).  Regular expressions
  are written out as the recognisers they denote; the Unicode tables of the JavaScript runtime
  (\<^verbatim>\<open>normalize('NFKD')\<close> and \<^verbatim>\<open>toLowerCase\<close>) are parameters.
\<close>

subsection \<open>Vocabulary and errors\<close>

definition canonical_branch_types :: "jstr list" where
  "canonical_branch_types =
     [js ''feat'', js ''fix'', js ''docs'', js ''refactor'', js ''test'', js ''chore'']"

definition integration_branch_types :: "jstr list" where
  "integration_branch_types = [js ''epic'', js ''issue'']"

record branch_naming =
  bn_type :: jstr
  bn_slug :: jstr

record branch_parts =
  bp_type :: jstr
  bp_issue :: js_number
  bp_slug :: jstr

definition max_branch_title_length :: nat where "max_branch_title_length = 255"

definition default_branch_name :: jstr where "default_branch_name = js ''main''"

text \<open>A thrown \<^verbatim>\<open>TypeError\<close> is its message.\<close>

type_synonym type_error = jstr

definition quoted :: "jstr \<Rightarrow> jstr" where
  "quoted s = js ''\"'' @ s @ js ''\"''"

definition invalid_branch_message :: "jstr \<Rightarrow> jstr" where
  "invalid_branch_message branch =
     js ''branch name '' @ quoted branch @ js '' does not match <type>/<issue-number>-<slug>''
     @ js '' (e.g. \"feat/42-add-init-command\"); type must be one of feat, fix, docs, refactor, test, chore''"

subsection \<open>The canonical grammar\<close>

definition slug_char :: "nat \<Rightarrow> bool" where
  [char_class]: "slug_char c \<longleftrightarrow> is_lower c \<or> is_digit c"

definition slug_or_hyphen :: "nat \<Rightarrow> bool" where
  [char_class]: "slug_or_hyphen c \<longleftrightarrow> slug_char c \<or> c = 45"

text \<open>
  \<^verbatim>\<open>^(t1|...)/(digits)-([a-z0-9-]+)$\<close>: the type, the digits and the slug.  The
  digits end at the first hyphen, so the match is unique.
\<close>

definition match_numbered :: "jstr \<Rightarrow> (jstr \<times> jstr) option" where
  "match_numbered s =
     (case dropWhile is_digit s of
        c # slug \<Rightarrow>
          if takeWhile is_digit s \<noteq> [] \<and> c = 45 \<and> slug \<noteq> [] \<and> list_all slug_or_hyphen slug
          then Some (takeWhile is_digit s, slug) else None
      | [] \<Rightarrow> None)"

definition match_branch :: "jstr list \<Rightarrow> jstr \<Rightarrow> (jstr \<times> jstr \<times> jstr) option" where
  "match_branch types branch =
     (case find (\<lambda>t. starts_with branch (t @ [47])) types of
        None \<Rightarrow> None
      | Some t \<Rightarrow> map_option (\<lambda>(ds, slug). (t, ds, slug)) (match_numbered (drop (length t + 1) branch)))"

text \<open>
  \<^verbatim>\<open>Number(digits)\<close> is exact up to the safe bound; every larger integer rounds to a
  number that is not safe, so \<^verbatim>\<open>Number.isSafeInteger(Number(digits))\<close> compares the
  exact value.
\<close>

definition safe_number :: "jstr \<Rightarrow> bool" where
  "safe_number ds \<longleftrightarrow> int (number_of_digits ds) \<le> max_safe_integer"

definition validate_branch_name :: "jstr \<Rightarrow> jstr list" where
  "validate_branch_name branch =
     (if branch = default_branch_name \<or> match_branch canonical_branch_types branch \<noteq> None then []
      else if (case match_branch integration_branch_types branch of
                 None \<Rightarrow> False
               | Some (t, ds, slug) \<Rightarrow> safe_number ds \<and> 1 \<le> number_of_digits ds) then []
      else if list_ex (\<lambda>t. starts_with branch (t @ [47])) integration_branch_types
      then [js ''branch name '' @ quoted branch
            @ js '' does not match <epic|issue>/<positive-issue-number>-<slug>'']
      else [invalid_branch_message branch])"

definition recognize_branch_name :: "jstr \<Rightarrow> branch_parts option" where
  "recognize_branch_name branch =
     (case match_branch canonical_branch_types branch of
        Some (t, ds, slug) \<Rightarrow>
          if safe_number ds
          then Some \<lparr>bp_type = t, bp_issue = Integral (int (number_of_digits ds)), bp_slug = slug\<rparr>
          else None
      | None \<Rightarrow>
          (case match_branch integration_branch_types branch of
             None \<Rightarrow> None
           | Some (t, ds, slug) \<Rightarrow>
               if safe_number ds \<and> 1 \<le> number_of_digits ds
               then Some \<lparr>bp_type = t, bp_issue = Integral (int (number_of_digits ds)), bp_slug = slug\<rparr>
               else None))"

definition recognize_integration_branch_name :: "jstr \<Rightarrow> branch_parts option" where
  "recognize_integration_branch_name branch =
     (case recognize_branch_name branch of
        None \<Rightarrow> None
      | Some parts \<Rightarrow> if bp_type parts \<in> set integration_branch_types then Some parts else None)"

text \<open>\<^verbatim>\<open>Number.isSafeInteger(n) && n >= 1\<close>, and \<^verbatim>\<open>String(n)\<close> of such a number.\<close>

fun positive_safe :: "js_number \<Rightarrow> nat option" where
  "positive_safe (Integral n) = (if 1 \<le> n \<and> n \<le> max_safe_integer then Some (nat n) else None)"
| "positive_safe _ = None"

definition branch_spelling_of :: "jstr \<Rightarrow> nat \<Rightarrow> jstr \<Rightarrow> jstr" where
  "branch_spelling_of t n slug = t @ [47] @ digits_of n @ [45] @ slug"

definition derive_integration_branch_name :: "jstr \<Rightarrow> js_number \<Rightarrow> jstr \<Rightarrow> type_error + jstr" where
  "derive_integration_branch_name t n slug =
     (case positive_safe n of
        None \<Rightarrow> Inl (js ''Integration branch issue number must be a positive safe integer.'')
      | Some k \<Rightarrow>
          if slug = [] then Inl (js ''Integration branch slug must be a non-empty string.'')
          else (let branch = branch_spelling_of t k slug
                in if validate_branch_name branch \<noteq> [] then Inl (invalid_branch_message branch)
                   else Inr branch))"

definition derive_issue_integration_branch_name :: "js_number \<Rightarrow> jstr \<Rightarrow> type_error + jstr" where
  "derive_issue_integration_branch_name = derive_integration_branch_name (js ''issue'')"

definition derive_epic_integration_branch_name :: "js_number \<Rightarrow> jstr \<Rightarrow> type_error + jstr" where
  "derive_epic_integration_branch_name = derive_integration_branch_name (js ''epic'')"

definition recognize_branch_naming_for_issue :: "jstr \<Rightarrow> js_number \<Rightarrow> branch_naming option" where
  "recognize_branch_naming_for_issue branch root =
     (case recognize_branch_name branch of
        None \<Rightarrow> None
      | Some parts \<Rightarrow>
          if bp_issue parts \<noteq> root \<or> bp_type parts \<in> set integration_branch_types then None
          else Some \<lparr>bn_type = bp_type parts, bn_slug = bp_slug parts\<rparr>)"

text \<open>
  The governed pattern is a regular expression of the repository: \<open>matches\<close> is
  \<^verbatim>\<open>new RegExp(pattern, 'u').test\<close>, \<^const>\<open>None\<close> when the pattern does not compile.
\<close>

definition branch_belongs_to_root_issue ::
  "(jstr \<Rightarrow> jstr \<Rightarrow> bool option) \<Rightarrow> jstr \<Rightarrow> js_number \<Rightarrow> jstr option \<Rightarrow> bool" where
  "branch_belongs_to_root_issue matches branch root pattern =
     (if positive_safe root = None then False
      else if recognize_branch_naming_for_issue branch root = None then False
      else (case pattern of
              None \<Rightarrow> True
            | Some p \<Rightarrow> (case matches p branch of None \<Rightarrow> False | Some b \<Rightarrow> b)))"

definition derive_branch_name :: "branch_parts \<Rightarrow> type_error + jstr" where
  "derive_branch_name parts =
     (if bp_type parts = [] then Inl (js ''Branch type must be a non-empty string.'')
      else if bp_type parts \<notin> set canonical_branch_types
      then Inl (js ''Branch type must be an ordinary Change branch type.'')
      else (case positive_safe (bp_issue parts) of
              None \<Rightarrow> Inl (js ''Branch issue number must be a positive safe integer.'')
            | Some n \<Rightarrow>
                if bp_slug parts = [] then Inl (js ''Branch slug must be a non-empty string.'')
                else (let branch = branch_spelling_of (bp_type parts) n (bp_slug parts)
                      in case validate_branch_name branch of
                           [] \<Rightarrow> Inr branch
                         | error # errors \<Rightarrow> Inl error)))"

subsection \<open>Slugs and Issue titles\<close>

record unicode_tables =
  ut_nfkd :: "jstr \<Rightarrow> jstr"
  ut_lower :: "jstr \<Rightarrow> jstr"

text \<open>\<^verbatim>\<open>replace(/[^a-z0-9]+/gu, "-")\<close>: every maximal run becomes one hyphen.\<close>

fun hyphenate :: "bool \<Rightarrow> jstr \<Rightarrow> jstr" where
  "hyphenate in_run [] = []"
| "hyphenate in_run (c # s) =
     (if slug_char c then c # hyphenate False s
      else if in_run then hyphenate True s else 45 # hyphenate True s)"

definition trim_hyphens :: "jstr \<Rightarrow> jstr" where
  "trim_hyphens s = rev (dropWhile (\<lambda>c. c = 45) (rev (dropWhile (\<lambda>c. c = 45) s)))"

definition combining_mark :: "nat \<Rightarrow> bool" where
  "combining_mark c \<longleftrightarrow> 768 \<le> c \<and> c \<le> 879"

definition slug_of_text :: "unicode_tables \<Rightarrow> jstr \<Rightarrow> jstr" where
  "slug_of_text ut text =
     trim_hyphens (hyphenate False (ut_lower ut (filter (\<lambda>c. \<not> combining_mark c) (ut_nfkd ut text))))"

definition normalize_branch_slug :: "unicode_tables \<Rightarrow> jstr \<Rightarrow> type_error + jstr" where
  "normalize_branch_slug ut text =
     (if length text > max_branch_title_length then Inl (js ''Branch slug source text is invalid.'')
      else Inr (slug_of_text ut text))"

text \<open>
  \<^verbatim>\<open>ISSUE_TITLE_PATTERN\<close> carries the flags \<^verbatim>\<open>i\<close> and
  \<^verbatim>\<open>u\<close>: a letter matches every code point with the same simple case folding,
  which for the letters of the vocabulary adds the capitals and U+017F (long s).
\<close>

definition folds_to :: "nat \<Rightarrow> nat \<Rightarrow> bool" where
  "folds_to c letter \<longleftrightarrow> c = letter \<or> is_lower letter \<and> c + 32 = letter \<or> letter = 115 \<and> c = 383"

definition is_white_space :: "nat \<Rightarrow> bool" where
  "is_white_space c \<longleftrightarrow>
     (9 \<le> c \<and> c \<le> 13) \<or> c = 32 \<or> c = 160 \<or> c = 5760 \<or> (8192 \<le> c \<and> c \<le> 8202) \<or> c = 8232 \<or> c = 8233
     \<or> c = 8239 \<or> c = 8287 \<or> c = 12288 \<or> c = 65279"

definition line_terminator :: "nat \<Rightarrow> bool" where
  "line_terminator c \<longleftrightarrow> c = 10 \<or> c = 13 \<or> c = 8232 \<or> c = 8233"

text \<open>\<^verbatim>\<open>\s*(.+)$\<close>: the white space is taken greedily, one unit is given back when nothing else is left.\<close>

definition title_rest :: "jstr \<Rightarrow> jstr option" where
  "title_rest s =
     (case dropWhile is_white_space s of
        c # r \<Rightarrow> if list_ex line_terminator (c # r) then None else Some (c # r)
      | [] \<Rightarrow> if s = [] \<or> line_terminator (last s) then None else Some [last s])"

definition match_issue_title :: "jstr \<Rightarrow> (jstr \<times> jstr) option" where
  "match_issue_title title =
     (case find (\<lambda>t. length t < length title \<and> list_all2 folds_to (take (length t) title) t
                    \<and> title ! length t = 58) canonical_branch_types of
        None \<Rightarrow> None
      | Some t \<Rightarrow> map_option (\<lambda>rest. (take (length t) title, rest)) (title_rest (drop (length t + 1) title)))"

definition derive_branch_naming_from_issue_title ::
  "unicode_tables \<Rightarrow> jstr \<Rightarrow> type_error + branch_naming" where
  "derive_branch_naming_from_issue_title ut title =
     (if length title > max_branch_title_length then Inl (js ''Issue title is invalid.'')
      else (case match_issue_title title of
              None \<Rightarrow> Inl (js ''Issue title does not contain a supported branch type.'')
            | Some (t, rest) \<Rightarrow>
                on_ok (normalize_branch_slug ut rest) (\<lambda>slug.
                  if slug = [] then Inl (js ''Issue title does not contain a usable branch slug.'')
                  else Inr \<lparr>bn_type = ut_lower ut t, bn_slug = slug\<rparr>)))"

subsection \<open>The declarative formatter\<close>

definition max_branch_format_length :: nat where "max_branch_format_length = 200"
definition max_branch_format_types :: nat where "max_branch_format_types = 32"
definition max_branch_format_type_length :: nat where "max_branch_format_type_length = 32"
definition max_branch_slug_length :: nat where "max_branch_slug_length = 100"
definition max_branch_name_length :: nat where "max_branch_name_length = 255"

datatype violation_path = Format_Path | Types_Path

record format_violation =
  fv_path :: violation_path
  fv_message :: jstr

text \<open>
  The format as \<^verbatim>\<open>FORMAT_TOKEN_PATTERN\<close> cuts it: a brace pair without braces
  inside is a token, every other unit is literal text.
\<close>

datatype format_piece = Lit nat | Token jstr

definition brace :: "nat \<Rightarrow> bool" where "brace c \<longleftrightarrow> c = 123 \<or> c = 125"

lemma dropWhile_shorter: "dropWhile P s = d # r \<Longrightarrow> length r < length s"
  by (metis Suc_le_eq length_Cons length_dropWhile_le)

function format_pieces :: "jstr \<Rightarrow> format_piece list" where
  "format_pieces [] = []"
| "format_pieces (c # s) =
     (case dropWhile (\<lambda>d. \<not> brace d) s of
        d # rest \<Rightarrow>
          if c = 123 \<and> d = 125 then Token (takeWhile (\<lambda>d. \<not> brace d) s) # format_pieces rest
          else Lit c # format_pieces s
      | [] \<Rightarrow> Lit c # format_pieces s)"
  by pat_completeness auto

termination
  by (relation "measure length") (auto dest: dropWhile_shorter)

fun piece_literal :: "format_piece \<Rightarrow> jstr" where
  "piece_literal (Lit c) = [c]"
| "piece_literal (Token t) = []"

fun piece_token :: "format_piece \<Rightarrow> jstr list" where
  "piece_token (Lit c) = []"
| "piece_token (Token t) = [t]"

definition format_literal :: "jstr \<Rightarrow> jstr" where
  "format_literal f = concat (map piece_literal (format_pieces f))"

definition format_placeholders :: "jstr \<Rightarrow> jstr list" where
  "format_placeholders f = concat (map piece_token (format_pieces f))"

definition branch_format_placeholders :: "jstr list" where
  "branch_format_placeholders = [js ''issueNumber'', js ''slug'', js ''type'']"

definition spelling_char :: "nat \<Rightarrow> bool" where
  [char_class]: "spelling_char c \<longleftrightarrow> is_alnum c \<or> c \<in> {46, 95, 47, 45}"

text \<open>\<^verbatim>\<open>FORMAT_TYPE_PATTERN\<close> and \<^verbatim>\<open>FORMAT_SLUG_PATTERN\<close>.\<close>

fun type_word :: "jstr \<Rightarrow> bool" where
  "type_word [] = False"
| "type_word (c # s) \<longleftrightarrow> slug_char c \<and> list_all slug_or_hyphen s"

fun slug_tail :: "bool \<Rightarrow> jstr \<Rightarrow> bool" where
  "slug_tail after_char [] \<longleftrightarrow> after_char"
| "slug_tail after_char (c # s) \<longleftrightarrow>
     (if slug_char c then slug_tail True s else c = 45 \<and> after_char \<and> slug_tail False s)"

definition slug_word :: "jstr \<Rightarrow> bool" where
  "slug_word s \<longleftrightarrow> slug_tail False s"

definition types_violation :: "string \<Rightarrow> format_violation" where
  "types_violation m = \<lparr>fv_path = Types_Path, fv_message = js m\<rparr>"

definition format_violation :: "jstr \<Rightarrow> format_violation" where
  "format_violation m = \<lparr>fv_path = Format_Path, fv_message = m\<rparr>"

text \<open>The entries are checked in order; the first bad one is reported and ends the loop.\<close>

fun entries_ok :: "jstr list \<Rightarrow> jsval list \<Rightarrow> bool" where
  "entries_ok seen [] = True"
| "entries_ok seen (JStr e # es) \<longleftrightarrow>
     length e \<le> max_branch_format_type_length \<and> type_word e \<and> e \<notin> set seen \<and> entries_ok (e # seen) es"
| "entries_ok seen (_ # es) = False"

definition type_list_violations :: "jsval \<Rightarrow> format_violation list" where
  "type_list_violations types =
     (case types of
        JArr es \<Rightarrow>
          if es = [] \<or> length es > max_branch_format_types
          then [types_violation ''types must be a non-empty array of at most 32 entries.'']
          else if entries_ok [] es then []
          else [types_violation
                  ''types entries must be unique lowercase [a-z0-9-] words starting with a letter or digit.'']
      | _ \<Rightarrow> [types_violation ''types must be a non-empty array of at most 32 entries.''])"

definition placeholder_violations :: "jstr list \<Rightarrow> format_violation list" where
  "placeholder_violations ps =
     map (\<lambda>p. format_violation (js ''format placeholder {'' @ p @ js ''} is not supported.''))
       (filter (\<lambda>p. p \<notin> set branch_format_placeholders) ps)
     @ map (\<lambda>p. format_violation (js ''format placeholder {'' @ p @ js ''} must appear at most once.''))
         (filter (\<lambda>p. length (filter (\<lambda>q. q = p) ps) > 1) branch_format_placeholders)
     @ (if js ''issueNumber'' \<notin> set ps then [format_violation (js ''format must include {issueNumber}.'')] else [])"

text \<open>The message quotes four characters, each between apostrophes (unit 39).\<close>

definition format_literal_message :: jstr where
  "format_literal_message =
     js ''format literals must use only A-Z, a-z, 0-9, ''
     @ [39, 46, 39, 44, 32, 39, 95, 39, 44, 32, 39, 47, 39, 44, 32, 39, 45, 39]
     @ js '' and supported {placeholders}.''"

definition validate_branch_format_rule :: "jsval \<Rightarrow> jsval \<Rightarrow> format_violation list" where
  "validate_branch_format_rule format types =
     (case format of
        JUndef \<Rightarrow> if types \<noteq> JUndef then [types_violation ''types requires a format with {type}.''] else []
      | JStr f \<Rightarrow>
          if f = [] \<or> length f > max_branch_format_length
          then [format_violation (js ''format must be a non-empty string of at most 200 characters.'')]
          else (let ps = format_placeholders f; uses_type = js ''type'' \<in> set ps
                in (if list_all spelling_char (format_literal f) then []
                    else [format_violation format_literal_message])
                   @ placeholder_violations ps
                   @ (if types = JUndef
                      then (if uses_type
                            then [types_violation ''format {type} requires a declared types list.''] else [])
                      else (if uses_type then [] else [types_violation ''types requires a format with {type}.''])
                           @ type_list_violations types))
      | _ \<Rightarrow> [format_violation (js ''format must be a non-empty string of at most 200 characters.'')])"

text \<open>\<^verbatim>\<open>validateBranchSpelling\<close> on a string: generic Git-safe spelling.\<close>

definition validate_branch_spelling :: "jsval \<Rightarrow> jstr list" where
  "validate_branch_spelling v =
     (case v of
        JStr branch \<Rightarrow>
          if branch = [] \<or> length branch > max_branch_name_length
          then [js ''branch name must be a non-empty string of at most 255 characters'']
          else if \<not> list_all spelling_char branch
          then [js ''branch name '' @ quoted branch @ js '' must use only A-Z, a-z, 0-9, ''
                @ [39, 46, 39, 44, 32, 39, 95, 39, 44, 32, 39, 47, 39, 44, 32, 39, 45, 39]]
          else if str_includes branch (js ''..'') \<or> ends_with branch (js ''.lock'') \<or> ends_with branch (js ''.'')
                  \<or> list_ex (\<lambda>seg. seg = [] \<or> starts_with seg (js ''.'') \<or> starts_with seg (js ''-''))
                      (split_on 47 branch)
          then [js ''branch name '' @ quoted branch @ js '' is not a safe Git branch name'']
          else []
      | _ \<Rightarrow> [js ''branch name must be a non-empty string of at most 255 characters''])"

record branch_format_values =
  bv_issue :: js_number
  bv_slug :: "jstr option"
  bv_type :: "jstr option"

fun declared_types :: "jsval \<Rightarrow> jstr list" where
  "declared_types (JArr es) = concat (map (\<lambda>e. case e of JStr t \<Rightarrow> [t] | _ \<Rightarrow> []) es)"
| "declared_types _ = []"

text \<open>The replacement of one piece; values that are needed have been checked before.\<close>

fun render_piece :: "nat \<Rightarrow> branch_format_values \<Rightarrow> format_piece \<Rightarrow> jstr" where
  "render_piece n values (Lit c) = [c]"
| "render_piece n values (Token name) =
     (if name = js ''issueNumber'' then digits_of n
      else if name = js ''slug'' then or_empty (bv_slug values)
      else or_empty (bv_type values))"

definition render_branch_format :: "jsval \<Rightarrow> jsval \<Rightarrow> branch_format_values \<Rightarrow> type_error + jstr" where
  "render_branch_format format types values =
     (case validate_branch_format_rule format types of
        violation # violations \<Rightarrow> Inl (fv_message violation)
      | [] \<Rightarrow>
          (case (format, positive_safe (bv_issue values)) of
             (JStr f, Some n) \<Rightarrow>
               (let ps = format_placeholders f
                in if js ''slug'' \<in> set ps \<and>
                      (case bv_slug values of None \<Rightarrow> True
                       | Some s \<Rightarrow> length s > max_branch_slug_length \<or> \<not> slug_word s)
                   then Inl (js ''Branch slug must be lowercase [a-z0-9] words joined by single hyphens, at most 100 characters.'')
                   else if js ''type'' \<in> set ps \<and>
                      (case bv_type values of None \<Rightarrow> True | Some t \<Rightarrow> t \<notin> set (declared_types types))
                   then Inl (js ''Branch type must be one of the repository-declared types.'')
                   else (let branch = concat (map (render_piece n values) (format_pieces f))
                         in case validate_branch_spelling (JStr branch) of
                              [] \<Rightarrow> Inr branch
                            | error # errors \<Rightarrow> Inl error))
           | _ \<Rightarrow> Inl (js ''Branch issue number must be a positive safe integer.'')))"

text \<open>
  The generated matcher.  A backtracking regular expression tries the alternatives of each
  group in a fixed order: slugs from the longest to the shortest prefix, types in the declared
  order; the first complete match wins.
\<close>

fun first_some :: "('a \<Rightarrow> 'b option) \<Rightarrow> 'a list \<Rightarrow> 'b option" where
  "first_some f [] = None"
| "first_some f (x # xs) = (case f x of None \<Rightarrow> first_some f xs | Some y \<Rightarrow> Some y)"

definition slug_prefixes :: "jstr \<Rightarrow> jstr list" where
  "slug_prefixes s = filter slug_word (map (\<lambda>k. take k s) (rev [1..<length s + 1]))"

fun match_pieces ::
  "nat \<Rightarrow> jstr list \<Rightarrow> format_piece list \<Rightarrow> jstr \<Rightarrow> (jstr option \<times> jstr option) option" where
  "match_pieces n types [] s = (if s = [] then Some (None, None) else None)"
| "match_pieces n types (Lit c # ps) s =
     (case s of [] \<Rightarrow> None | d # r \<Rightarrow> if c = d then match_pieces n types ps r else None)"
| "match_pieces n types (Token name # ps) s =
     (if name = js ''issueNumber''
      then if starts_with s (digits_of n) then match_pieces n types ps (drop (length (digits_of n)) s) else None
      else if name = js ''slug''
      then first_some (\<lambda>g. map_option (\<lambda>m. (Some g, snd m)) (match_pieces n types ps (drop (length g) s)))
             (slug_prefixes s)
      else first_some (\<lambda>t. map_option (\<lambda>m. (fst m, Some t)) (match_pieces n types ps (drop (length t) s)))
             (filter (starts_with s) types))"

definition match_branch_format ::
  "jsval \<Rightarrow> jsval \<Rightarrow> jstr \<Rightarrow> js_number \<Rightarrow> (jstr option \<times> jstr option) option" where
  "match_branch_format format types branch issue =
     (if validate_branch_format_rule format types \<noteq> [] then None
      else (case (format, positive_safe issue) of
              (JStr f, Some n) \<Rightarrow>
                if validate_branch_spelling (JStr branch) \<noteq> [] then None
                else (case match_pieces n (declared_types types) (format_pieces f) branch of
                        None \<Rightarrow> None
                      | Some (slug, t) \<Rightarrow>
                          if (case slug of None \<Rightarrow> False | Some g \<Rightarrow> length g > max_branch_slug_length)
                          then None else Some (slug, t))
            | _ \<Rightarrow> None))"

subsection \<open>The canonical grammar, both ways\<close>

lemma takeWhile_digits_of [simp]:
  "takeWhile is_digit (digits_of n @ 45 # r) = digits_of n"
  "dropWhile is_digit (digits_of n @ 45 # r) = 45 # r"
  using digits_of_is_digit [of _ n] by (simp_all add: takeWhile_append dropWhile_append is_digit_def)

lemma match_numbered_digits [simp]:
  "match_numbered (digits_of n @ 45 # slug) =
     (if slug \<noteq> [] \<and> list_all slug_or_hyphen slug then Some (digits_of n, slug) else None)"
  by (simp add: match_numbered_def)

lemma branch_type_units:
  "canonical_branch_types =
     [[102, 101, 97, 116], [102, 105, 120], [100, 111, 99, 115],
      [114, 101, 102, 97, 99, 116, 111, 114], [116, 101, 115, 116], [99, 104, 111, 114, 101]]"
  "integration_branch_types = [[101, 112, 105, 99], [105, 115, 115, 117, 101]]"
  by (simp_all add: canonical_branch_types_def integration_branch_types_def js_eval)

lemma find_type:
  assumes "t \<in> set canonical_branch_types"
  shows "find (\<lambda>u. starts_with (t @ 47 # r) (u @ [47])) canonical_branch_types = Some t"
    "find (\<lambda>u. starts_with (t @ 47 # r) (u @ [47])) integration_branch_types = None"
proof -
  from assms consider "t = [102, 101, 97, 116]" | "t = [102, 105, 120]" | "t = [100, 111, 99, 115]"
    | "t = [114, 101, 102, 97, 99, 116, 111, 114]" | "t = [116, 101, 115, 116]" | "t = [99, 104, 111, 114, 101]"
    by (auto simp: branch_type_units)
  then show "find (\<lambda>u. starts_with (t @ 47 # r) (u @ [47])) canonical_branch_types = Some t"
    "find (\<lambda>u. starts_with (t @ 47 # r) (u @ [47])) integration_branch_types = None"
    by (cases; simp add: branch_type_units)+
qed

lemma match_branch_spelled:
  assumes "t \<in> set canonical_branch_types"
  shows "match_branch canonical_branch_types (branch_spelling_of t n slug) =
      (if slug \<noteq> [] \<and> list_all slug_or_hyphen slug then Some (t, digits_of n, slug) else None)"
    "match_branch integration_branch_types (branch_spelling_of t n slug) = None"
  using find_type [OF assms, of "digits_of n @ 45 # slug"]
  by (simp_all add: match_branch_def branch_spelling_of_def)

lemma positive_safe_Some:
  "positive_safe i = Some n \<longleftrightarrow> i = Integral (int n) \<and> 1 \<le> n \<and> int n \<le> max_safe_integer"
  by (cases i rule: positive_safe.cases) (auto simp: nat_eq_iff split: if_splits)

lemma spelled_not_default: "branch_spelling_of t n slug \<noteq> default_branch_name"
proof -
  have "47 \<in> set (branch_spelling_of t n slug)" by (simp add: branch_spelling_of_def)
  moreover have "47 \<notin> set default_branch_name" by (simp add: default_branch_name_def js_eval)
  ultimately show ?thesis by metis
qed

lemma derive_branch_name_Inr:
  "derive_branch_name parts = Inr b \<longleftrightarrow>
     bp_type parts \<in> set canonical_branch_types \<and> bp_slug parts \<noteq> [] \<and> list_all slug_or_hyphen (bp_slug parts) \<and>
     (\<exists>n. positive_safe (bp_issue parts) = Some n \<and> b = branch_spelling_of (bp_type parts) n (bp_slug parts))"
proof -
  have "[] \<notin> set canonical_branch_types" by (simp add: canonical_branch_types_def js_eval)
  then show ?thesis
    by (auto simp: derive_branch_name_def validate_branch_name_def match_branch_spelled spelled_not_default Let_def
        split: option.splits list.splits if_splits)
qed

lemma derive_recognize:
  assumes "derive_branch_name parts = Inr b"
  shows "recognize_branch_name b = Some parts"
proof -
  from assms obtain n where n: "positive_safe (bp_issue parts) = Some n"
    "b = branch_spelling_of (bp_type parts) n (bp_slug parts)" "bp_type parts \<in> set canonical_branch_types"
    "bp_slug parts \<noteq> []" "list_all slug_or_hyphen (bp_slug parts)"
    by (auto simp: derive_branch_name_Inr)
  from n(1) have "safe_number (digits_of n)" by (simp add: safe_number_def positive_safe_Some)
  with n show ?thesis
    by (simp add: recognize_branch_name_def match_branch_spelled positive_safe_Some)
qed

subsection \<open>Slugs\<close>

definition no_double_hyphen :: "jstr \<Rightarrow> bool" where
  "no_double_hyphen s \<longleftrightarrow> (\<nexists>u v. s = u @ 45 # 45 # v)"

lemma no_double_hyphen_Nil [simp]: "no_double_hyphen []"
  by (simp add: no_double_hyphen_def)

lemma no_double_hyphen_Cons [simp]:
  "no_double_hyphen (c # s) \<longleftrightarrow> no_double_hyphen s \<and> \<not> (c = 45 \<and> s \<noteq> [] \<and> hd s = 45)"
proof -
  have "(\<exists>u v. c # s = u @ 45 # 45 # v) \<longleftrightarrow> (\<exists>v. c # s = 45 # 45 # v) \<or> (\<exists>u v. s = u @ 45 # 45 # v)"
    by (metis append_Cons append_Nil list.sel(3) neq_Nil_conv)
  moreover have "(\<exists>v. c # s = 45 # 45 # v) \<longleftrightarrow> c = 45 \<and> s \<noteq> [] \<and> hd s = 45"
    by (cases s) auto
  ultimately show ?thesis unfolding no_double_hyphen_def by blast
qed

lemma no_double_hyphen_part: "no_double_hyphen (u @ s @ v) \<Longrightarrow> no_double_hyphen s"
  unfolding no_double_hyphen_def by (metis append.assoc append_Cons)

lemma slug_char_not_hyphen [simp]: "\<not> slug_char 45"
  by (simp add: slug_char_def is_lower_def is_digit_def)

lemma slug_tail_iff:
  "slug_tail after_char s \<longleftrightarrow>
     list_all slug_or_hyphen s \<and> no_double_hyphen s \<and> (s = [] \<longrightarrow> after_char) \<and>
     (s \<noteq> [] \<longrightarrow> last s \<noteq> 45 \<and> (hd s = 45 \<longrightarrow> after_char))"
proof (induction s arbitrary: after_char)
  case Nil
  then show ?case by simp
next
  case (Cons c s)
  show ?case
    by (cases "s = []"; cases "slug_char c") (auto simp: Cons.IH slug_or_hyphen_def)
qed

lemma slug_word_iff:
  "slug_word s \<longleftrightarrow>
     s \<noteq> [] \<and> list_all slug_or_hyphen s \<and> no_double_hyphen s \<and> hd s \<noteq> 45 \<and> last s \<noteq> 45"
  by (auto simp: slug_word_def slug_tail_iff)

lemma hyphenate_shape:
  "list_all slug_or_hyphen (hyphenate b s) \<and> no_double_hyphen (hyphenate b s) \<and>
     (b \<longrightarrow> hyphenate b s \<noteq> [] \<longrightarrow> hd (hyphenate b s) \<noteq> 45)"
  by (induction b s rule: hyphenate.induct) (auto simp: slug_or_hyphen_def)

lemma trim_hyphens_part: "\<exists>u v. s = u @ trim_hyphens s @ v"
proof -
  let ?d = "dropWhile (\<lambda>c. c = 45) s"
  have "s = takeWhile (\<lambda>c. c = 45) s @ ?d" by simp
  moreover have "?d = trim_hyphens s @ rev (takeWhile (\<lambda>c. c = 45) (rev ?d))"
    unfolding trim_hyphens_def by (metis rev_append rev_rev_ident takeWhile_dropWhile_id)
  ultimately show ?thesis by metis
qed

lemma trim_hyphens_ends:
  assumes "trim_hyphens s \<noteq> []"
  shows "hd (trim_hyphens s) \<noteq> 45 \<and> last (trim_hyphens s) \<noteq> 45"
proof -
  let ?d = "dropWhile (\<lambda>c. c = 45) s"
  have d: "?d = trim_hyphens s @ rev (takeWhile (\<lambda>c. c = 45) (rev ?d))"
    unfolding trim_hyphens_def by (metis rev_append rev_rev_ident takeWhile_dropWhile_id)
  from assms have "?d \<noteq> []" unfolding trim_hyphens_def by (metis dropWhile.simps(1) rev.simps(1))
  then have "hd ?d \<noteq> 45" by (metis (full_types) hd_dropWhile)
  with d assms have "hd (trim_hyphens s) \<noteq> 45" by (metis hd_append2)
  moreover have "last (trim_hyphens s) \<noteq> 45"
  proof -
    from assms have "dropWhile (\<lambda>c. c = 45) (rev ?d) \<noteq> []" by (simp add: trim_hyphens_def)
    then have "hd (dropWhile (\<lambda>c. c = 45) (rev ?d)) \<noteq> 45" by (metis (full_types) hd_dropWhile)
    then show ?thesis
      using assms by (simp add: trim_hyphens_def last_rev)
  qed
  ultimately show ?thesis ..
qed

lemma slug_of_text_word: "slug_of_text ut text = [] \<or> slug_word (slug_of_text ut text)"
proof -
  let ?h = "hyphenate False (ut_lower ut (filter (\<lambda>c. \<not> combining_mark c) (ut_nfkd ut text)))"
  obtain u v where part: "?h = u @ trim_hyphens ?h @ v" using trim_hyphens_part by blast
  have "list_all slug_or_hyphen ?h" "no_double_hyphen ?h" using hyphenate_shape by blast+
  then have "list_all slug_or_hyphen (trim_hyphens ?h)" "no_double_hyphen (trim_hyphens ?h)"
    using part no_double_hyphen_part by (metis list_all_append)+
  then show ?thesis
    using trim_hyphens_ends [of ?h] by (auto simp: slug_of_text_def slug_word_iff)
qed

subsection \<open>The formatter: matching inverts rendering\<close>

definition tokens_of :: "format_piece list \<Rightarrow> jstr list" where
  "tokens_of ps = concat (map piece_token ps)"

lemma tokens_of_simps [simp]:
  "tokens_of [] = []" "tokens_of (Lit c # ps) = tokens_of ps" "tokens_of (Token t # ps) = t # tokens_of ps"
  by (simp_all add: tokens_of_def)

lemma format_placeholders_tokens: "format_placeholders f = tokens_of (format_pieces f)"
  by (simp add: format_placeholders_def tokens_of_def)

definition render_pieces :: "nat \<Rightarrow> jstr option \<Rightarrow> jstr option \<Rightarrow> format_piece list \<Rightarrow> jstr" where
  "render_pieces n slug t ps =
     concat (map (render_piece n \<lparr>bv_issue = Integral (int n), bv_slug = slug, bv_type = t\<rparr>) ps)"

lemma render_pieces_simps [simp]:
  "render_pieces n slug t [] = []"
  "render_pieces n slug t (Lit c # ps) = c # render_pieces n slug t ps"
  "render_pieces n slug t (Token name # ps) =
     (if name = js ''issueNumber'' then digits_of n else if name = js ''slug'' then or_empty slug
      else or_empty t) @ render_pieces n slug t ps"
  by (simp_all add: render_pieces_def)

lemma render_pieces_slug: "js ''slug'' \<notin> set (tokens_of ps) \<Longrightarrow> render_pieces n s t ps = render_pieces n s' t ps"
proof (induction ps)
  case (Cons p ps)
  then show ?case by (cases p) auto
qed simp

lemma render_pieces_type:
  "set (tokens_of ps) \<subseteq> set branch_format_placeholders \<Longrightarrow> js ''type'' \<notin> set (tokens_of ps) \<Longrightarrow>
     render_pieces n s t ps = render_pieces n s t' ps"
proof (induction ps)
  case (Cons p ps)
  then show ?case by (cases p) (auto simp: branch_format_placeholders_def)
qed simp

lemma first_some_Some: "first_some f xs = Some y \<Longrightarrow> \<exists>x \<in> set xs. f x = Some y"
  by (induction xs) (auto split: option.splits)

lemma slug_prefixes_prefix: "g \<in> set (slug_prefixes s) \<Longrightarrow> slug_word g \<and> g @ drop (length g) s = s"
  by (auto simp: slug_prefixes_def min_def)

lemma starts_with_drop: "starts_with s p \<Longrightarrow> p @ drop (length p) s = s"
  by (auto simp: starts_with_iff)

lemma match_pieces_sound:
  assumes "match_pieces n types ps s = Some (slug, t)"
    and "distinct (tokens_of ps)" "set (tokens_of ps) \<subseteq> set branch_format_placeholders"
  shows "render_pieces n slug t ps = s \<and>
     (slug \<noteq> None \<longleftrightarrow> js ''slug'' \<in> set (tokens_of ps)) \<and> (t \<noteq> None \<longleftrightarrow> js ''type'' \<in> set (tokens_of ps)) \<and>
     (\<forall>g. slug = Some g \<longrightarrow> slug_word g) \<and> (\<forall>u. t = Some u \<longrightarrow> u \<in> set types)"
  using assms
proof (induction ps arbitrary: s slug t)
  case Nil
  then show ?case by (auto split: if_splits)
next
  case (Cons p ps)
  show ?case
  proof (cases p)
    case (Lit c)
    with Cons show ?thesis by (cases s) (auto split: if_splits)
  next
    case (Token name)
    from Cons.prems(2,3) Token have tokens: "distinct (tokens_of ps)" "name \<notin> set (tokens_of ps)"
      "set (tokens_of ps) \<subseteq> set branch_format_placeholders"
      "name = js ''issueNumber'' \<or> name = js ''slug'' \<or> name = js ''type''"
      by (auto simp: branch_format_placeholders_def)
    note IH = Cons.IH [OF _ tokens(1,3)]
    from tokens(4) consider "name = js ''issueNumber''" | "name = js ''slug''" | "name = js ''type''" by blast
    then show ?thesis
    proof cases
      case 1
      with Cons.prems(1) Token have "starts_with s (digits_of n)"
        "match_pieces n types ps (drop (length (digits_of n)) s) = Some (slug, t)"
        by (auto split: if_splits)
      with IH [OF this(2)] 1 Token starts_with_drop [OF this(1)] show ?thesis by auto
    next
      case 2
      with Cons.prems(1) Token obtain g m where g: "g \<in> set (slug_prefixes s)" "slug = Some g"
        "match_pieces n types ps (drop (length g) s) = Some (m, t)"
        by (auto dest!: first_some_Some)
      from IH [OF g(3)] have rest: "render_pieces n m t ps = drop (length g) s"
        "t \<noteq> None \<longleftrightarrow> js ''type'' \<in> set (tokens_of ps)" "\<forall>u. t = Some u \<longrightarrow> u \<in> set types" by blast+
      from rest(1) render_pieces_slug [of ps n m t slug] tokens(2) 2
      have "render_pieces n slug t ps = drop (length g) s" by simp
      with g 2 Token rest(2,3) slug_prefixes_prefix [OF g(1)] show ?thesis by auto
    next
      case 3
      with Cons.prems(1) Token obtain u m where u: "u \<in> set types" "starts_with s u" "t = Some u"
        "match_pieces n types ps (drop (length u) s) = Some (slug, m)"
        by (auto dest!: first_some_Some)
      from IH [OF u(4)] have rest: "render_pieces n slug m ps = drop (length u) s"
        "slug \<noteq> None \<longleftrightarrow> js ''slug'' \<in> set (tokens_of ps)" "\<forall>g. slug = Some g \<longrightarrow> slug_word g" by blast+
      from rest(1) render_pieces_type [OF tokens(3), of n slug m t] tokens(2) 3
      have "render_pieces n slug t ps = drop (length u) s" by simp
      with u 3 Token rest(2,3) starts_with_drop [OF u(2)] show ?thesis by auto
    qed
  qed
qed

lemma count_distinct: "(\<And>x. x \<in> set xs \<Longrightarrow> length (filter (\<lambda>y. y = x) xs) \<le> 1) \<Longrightarrow> distinct xs"
proof (induction xs)
  case (Cons a xs)
  have "a \<notin> set xs"
  proof
    assume "a \<in> set xs"
    then have "filter (\<lambda>y. y = a) xs \<noteq> []" by (auto simp: filter_empty_conv)
    with Cons.prems [of a] show False by (cases "filter (\<lambda>y. y = a) xs") auto
  qed
  moreover have "distinct xs"
  proof (rule Cons.IH)
    fix x assume "x \<in> set xs"
    then show "length (filter (\<lambda>y. y = x) xs) \<le> 1" using Cons.prems [of x] by (auto split: if_splits)
  qed
  ultimately show ?case by simp
qed simp

lemma placeholder_violations_Nil:
  assumes "placeholder_violations ps = []"
  shows "distinct ps" "set ps \<subseteq> set branch_format_placeholders" "js ''issueNumber'' \<in> set ps"
proof -
  from assms show sub: "set ps \<subseteq> set branch_format_placeholders" and "js ''issueNumber'' \<in> set ps"
    by (auto simp: placeholder_violations_def filter_empty_conv split: if_splits)
  from assms have "p \<in> set branch_format_placeholders \<Longrightarrow> length (filter (\<lambda>q. q = p) ps) \<le> 1" for p
    by (auto simp: placeholder_violations_def filter_empty_conv not_less)
  with sub show "distinct ps" by (intro count_distinct) blast
qed

lemma valid_format:
  assumes "validate_branch_format_rule (JStr f) types = []"
  shows "distinct (tokens_of (format_pieces f))"
    "set (tokens_of (format_pieces f)) \<subseteq> set branch_format_placeholders"
  using assms placeholder_violations_Nil
  by (auto simp: validate_branch_format_rule_def format_placeholders_tokens Let_def split: if_splits)

lemma match_branch_format_sound:
  assumes "match_branch_format format types branch issue = Some (slug, t)"
  shows "render_branch_format format types \<lparr>bv_issue = issue, bv_slug = slug, bv_type = t\<rparr> = Inr branch"
proof -
  from assms obtain f n where f: "format = JStr f" "positive_safe issue = Some n"
    "validate_branch_format_rule (JStr f) types = []" "validate_branch_spelling (JStr branch) = []"
    "match_pieces n (declared_types types) (format_pieces f) branch = Some (slug, t)"
    "\<forall>g. slug = Some g \<longrightarrow> length g \<le> max_branch_slug_length"
    by (auto simp: match_branch_format_def split: if_splits jsval.splits option.splits)
  from match_pieces_sound [OF f(5) valid_format [OF f(3)]] have m:
    "render_pieces n slug t (format_pieces f) = branch"
    "slug \<noteq> None \<longleftrightarrow> js ''slug'' \<in> set (format_placeholders f)"
    "t \<noteq> None \<longleftrightarrow> js ''type'' \<in> set (format_placeholders f)"
    "\<forall>g. slug = Some g \<longrightarrow> slug_word g" "\<forall>u. t = Some u \<longrightarrow> u \<in> set (declared_types types)"
    by (simp_all add: format_placeholders_tokens)
  from f(2) have "issue = Integral (int n)" by (simp add: positive_safe_Some)
  with m(1) have "concat (map (render_piece n \<lparr>bv_issue = issue, bv_slug = slug, bv_type = t\<rparr>) (format_pieces f)) = branch"
    by (simp add: render_pieces_def)
  with f m(2-5) show ?thesis
    by (auto simp: render_branch_format_def Let_def not_less split: option.splits)
qed

subsection \<open>Properties\<close>

text \<open>
  C13. Derivation and recognition are inverse on derived names: a branch derived from naming
  parts is recognised as exactly those parts (type, Issue number and slug).
\<close>

theorem derived_branch_recognized:
  assumes "derive_branch_name parts = Inr branch"
  shows "recognize_branch_name branch = Some parts \<and> validate_branch_name branch = [] \<and>
    recognize_branch_naming_for_issue branch (bp_issue parts) =
      Some \<lparr>bn_type = bp_type parts, bn_slug = bp_slug parts\<rparr>"
proof -
  from assms have parts: "bp_type parts \<in> set canonical_branch_types"
    by (simp add: derive_branch_name_Inr)
  then have "bp_type parts \<notin> set integration_branch_types" by (auto simp: branch_type_units)
  moreover from assms have "validate_branch_name branch = []"
    by (auto simp: derive_branch_name_def Let_def split: if_splits option.splits list.splits)
  ultimately show ?thesis
    using derive_recognize [OF assms] by (simp add: recognize_branch_naming_for_issue_def)
qed

definition sample_parts :: branch_parts where
  "sample_parts = \<lparr>bp_type = js ''feat'', bp_issue = Integral 42, bp_slug = js ''add-x''\<rparr>"

lemma sample_parts_derived:
  "derive_branch_name sample_parts = Inr (js ''feat/42-add-x'')"
proof -
  have "digits_of 42 = [52, 50]" by (simp add: digits_of.simps)
  then show ?thesis
    by (simp add: derive_branch_name_Inr sample_parts_def positive_safe_Some max_safe_integer_def
        branch_spelling_of_def canonical_branch_types_def slug_or_hyphen_def slug_char_def is_lower_def
        is_digit_def js_eval)
qed

theorem derived_branch_recognized_witness:
  "recognize_branch_name (js ''feat/42-add-x'') = Some sample_parts \<and>
    validate_branch_name (js ''feat/42-add-x'') = [] \<and>
    recognize_branch_naming_for_issue (js ''feat/42-add-x'') (bp_issue sample_parts) =
      Some \<lparr>bn_type = bp_type sample_parts, bn_slug = bp_slug sample_parts\<rparr>"
  by (rule derived_branch_recognized [OF sample_parts_derived])

text \<open>
  The slug of a normalised Issue title is a well-formed slug (lowercase ASCII words joined
  by single hyphens) whatever the Unicode tables do, and for a title of a canonical type the
  whole way from the title to the branch and back loses nothing.
\<close>

theorem title_branch_roundtrip:
  assumes "derive_branch_naming_from_issue_title ut title = Inr naming"
    and "bn_type naming \<in> set canonical_branch_types" and "positive_safe issue = Some n"
  shows "slug_word (bn_slug naming) \<and>
    (\<exists>branch. derive_branch_name \<lparr>bp_type = bn_type naming, bp_issue = issue, bp_slug = bn_slug naming\<rparr> = Inr branch \<and>
       recognize_branch_naming_for_issue branch issue = Some naming)"
proof -
  from assms(1) have slug: "slug_word (bn_slug naming)"
    by (auto simp: derive_branch_naming_from_issue_title_def normalize_branch_slug_def split: if_splits option.splits)
      (use slug_of_text_word in blast)
  let ?parts = "\<lparr>bp_type = bn_type naming, bp_issue = issue, bp_slug = bn_slug naming\<rparr>"
  from slug assms(2,3) obtain branch where branch: "derive_branch_name ?parts = Inr branch"
    by (auto simp: derive_branch_name_Inr slug_word_iff)
  from assms(2) have "bn_type naming \<notin> set integration_branch_types" by (auto simp: branch_type_units)
  with derive_recognize [OF branch] have "recognize_branch_naming_for_issue branch issue = Some naming"
    by (simp add: recognize_branch_naming_for_issue_def)
  with slug branch show ?thesis by blast
qed

text \<open>Tables that agree with Unicode on ASCII text.\<close>

definition ascii_tables :: unicode_tables where
  "ascii_tables = \<lparr>ut_nfkd = (\<lambda>s. s), ut_lower = map (\<lambda>c. if is_upper c then c + 32 else c)\<rparr>"

theorem title_branch_roundtrip_witness:
  "slug_word (bn_slug \<lparr>bn_type = js ''fix'', bn_slug = js ''a-b''\<rparr>) \<and>
    (\<exists>branch. derive_branch_name \<lparr>bp_type = bn_type \<lparr>bn_type = js ''fix'', bn_slug = js ''a-b''\<rparr>,
         bp_issue = Integral 7, bp_slug = bn_slug \<lparr>bn_type = js ''fix'', bn_slug = js ''a-b''\<rparr>\<rparr> = Inr branch \<and>
       recognize_branch_naming_for_issue branch (Integral 7) =
         Some \<lparr>bn_type = js ''fix'', bn_slug = js ''a-b''\<rparr>)"
proof (rule title_branch_roundtrip)
  show "derive_branch_naming_from_issue_title ascii_tables (js ''Fix: A (b)'') =
      Inr \<lparr>bn_type = js ''fix'', bn_slug = js ''a-b''\<rparr>"
    by (simp add: derive_branch_naming_from_issue_title_def max_branch_title_length_def match_issue_title_def
        branch_type_units js_eval folds_to_def is_lower_def is_upper_def title_rest_def is_white_space_def
        line_terminator_def normalize_branch_slug_def slug_of_text_def ascii_tables_def trim_hyphens_def
        slug_char_def is_digit_def combining_mark_def)
qed (simp_all add: canonical_branch_types_def max_safe_integer_def)

text \<open>
  C14. Matching is sound for rendering: what \<^verbatim>\<open>matchBranchFormat\<close> recovers from a
  branch renders to exactly that branch, so a match is never a false recognition.
\<close>

theorem match_renders_back:
  assumes "match_branch_format format types branch issue = Some (slug, t)"
  shows "render_branch_format format types \<lparr>bv_issue = issue, bv_slug = slug, bv_type = t\<rparr> = Inr branch"
  by (rule match_branch_format_sound [OF assms])

definition sample_types :: jsval where
  "sample_types = JArr [JStr (js ''a''), JStr (js ''aa'')]"

definition sample_format :: jsval where
  "sample_format = JStr (js ''{slug}{type}{issueNumber}'')"

lemma sample_format_valid: "validate_branch_format_rule sample_format sample_types = []"
  by (simp add: sample_format_def sample_types_def js_eval validate_branch_format_rule_def
      max_branch_format_length_def format_placeholders_def brace_def format_literal_def
      placeholder_violations_def branch_format_placeholders_def type_list_violations_def
      max_branch_format_types_def max_branch_format_type_length_def slug_char_def is_lower_def Let_def
      slug_or_hyphen_def)

lemma sample_match:
  "match_branch_format sample_format sample_types (js ''baa1'') (Integral 1) = Some (Some (js ''ba''), Some (js ''a''))"
proof -
  have "digits_of 1 = [49]" by (simp add: digits_of.simps)
  moreover have "validate_branch_spelling (JStr (js ''baa1'')) = []"
    by (simp add: validate_branch_spelling_def js_eval max_branch_name_length_def spelling_char_def is_alnum_def
        is_lower_def is_digit_def ends_with_def)
  moreover have "format_pieces (js ''{slug}{type}{issueNumber}'') =
      [Token (js ''slug''), Token (js ''type''), Token (js ''issueNumber'')]"
    by (simp add: js_eval brace_def)
  moreover have "slug_prefixes (js ''baa1'') = [js ''baa1'', js ''baa'', js ''ba'', js ''b'']"
    by (simp add: slug_prefixes_def js_eval slug_word_def slug_char_def is_lower_def is_digit_def upt_rec)
  moreover have "js ''baa1'' = [98, 97, 97, 49]" "js ''a'' = [97]" "js ''aa'' = [97, 97]" "js ''ba'' = [98, 97]"
    "js ''b'' = [98]" "js ''baa'' = [98, 97, 97]"
    by (simp_all add: js_eval)
  ultimately show ?thesis
    using sample_format_valid
    by (simp add: match_branch_format_def sample_format_def sample_types_def max_safe_integer_def
        max_branch_slug_length_def)
qed

theorem match_renders_back_witness:
  "render_branch_format sample_format sample_types
     \<lparr>bv_issue = Integral 1, bv_slug = Some (js ''ba''), bv_type = Some (js ''a'')\<rparr> = Inr (js ''baa1'')"
  by (rule match_renders_back [OF sample_match])

text \<open>The same format with the longest slug: the matcher commits to a slug that is too long.\<close>

lemma sample_long_slug:
  "slug_word (replicate k 97 @ r) \<longleftrightarrow> slug_tail (k > 0) r"
proof -
  have "slug_tail b (replicate k 97 @ r) = slug_tail (b \<or> k > 0) r" for b
    by (induction k arbitrary: b) (auto simp: slug_char_def is_lower_def)
  then show ?thesis by (simp add: slug_word_def)
qed

definition long_branch :: jstr where
  "long_branch = replicate 102 97 @ [49]"

lemma absent_unit:
  assumes "x \<in> set p" "x \<notin> set s"
  shows "\<not> str_includes s p" "\<not> ends_with s p" "\<not> starts_with s p"
  using assms by (auto simp: str_includes_iff ends_with_iff starts_with_iff)

lemma long_branch_spelling: "validate_branch_spelling (JStr long_branch) = []"
proof -
  have units: "set long_branch \<subseteq> {97, 49}" by (auto simp: long_branch_def)
  then have dot: "46 \<notin> set long_branch" and "47 \<notin> set long_branch" and hyphen: "45 \<notin> set long_branch" by auto
  then have "split_on 47 long_branch = [long_branch]" by (simp add: split_on_single)
  moreover have "\<not> str_includes long_branch (js ''..'')" "\<not> ends_with long_branch (js ''.lock'')"
    "\<not> ends_with long_branch (js ''.'')" "\<not> starts_with long_branch (js ''.'')"
    using dot by (simp_all add: absent_unit [of 46] js_eval)
  moreover have "\<not> starts_with long_branch (js ''-'')"
    using hyphen by (simp add: absent_unit [of 45] js_eval)
  moreover have "long_branch \<noteq> []" "length long_branch \<le> 255" by (simp_all add: long_branch_def)
  moreover have "list_all spelling_char long_branch"
    using units by (auto simp: list_all_iff spelling_char_def is_alnum_def is_lower_def is_digit_def)
  ultimately show ?thesis
    by (simp add: validate_branch_spelling_def max_branch_name_length_def)
qed

lemma long_branch_pieces:
  "format_pieces (js ''{slug}{type}{issueNumber}'') =
     [Token (js ''slug''), Token (js ''type''), Token (js ''issueNumber'')]"
  "digits_of (Suc 0) = [49]" "js ''a'' = [97]" "js ''aa'' = [97, 97]"
  by (simp_all add: js_eval brace_def digits_of.simps)

lemma long_branch_prefixes:
  "\<exists>rest. slug_prefixes long_branch = long_branch # replicate 102 97 # replicate 101 97 # rest"
proof -
  have upt: "rev [1..<length long_branch + 1] = 103 # 102 # 101 # rev [1..<101]"
    by (simp add: long_branch_def upt_rec [of 101] upt_conv_Cons numeral_eq_Suc)
  have "take 103 long_branch = long_branch" "take 102 long_branch = replicate 102 97"
    "take 101 long_branch = replicate 101 97"
    by (simp_all add: long_branch_def min_def)
  moreover have "slug_word long_branch" "slug_word (replicate 102 97)" "slug_word (replicate 101 97)"
    using sample_long_slug [of 102 "[49]"] sample_long_slug [of 102 "[]"] sample_long_slug [of 101 "[]"]
    by (simp_all add: long_branch_def slug_char_def is_digit_def)
  moreover have "slug_prefixes long_branch =
      filter slug_word (map (\<lambda>k. take k long_branch) (103 # 102 # 101 # rev [1..<101]))"
    unfolding slug_prefixes_def upt ..
  ultimately show ?thesis by simp
qed

lemma long_branch_match:
  "match_pieces (Suc 0) [js ''a'', js ''aa''] (format_pieces (js ''{slug}{type}{issueNumber}'')) long_branch =
     Some (Some (replicate 101 97), Some (js ''a''))"
proof -
  have "drop 103 long_branch = []" "drop 102 long_branch = [49]" "drop 101 long_branch = [97, 49]"
    "length long_branch = 103"
    by (simp_all add: long_branch_def)
  moreover obtain rest where
    "slug_prefixes long_branch = long_branch # replicate 102 97 # replicate 101 97 # rest"
    using long_branch_prefixes by blast
  ultimately show ?thesis by (simp add: long_branch_pieces)
qed

text \<open>
  Matching is not complete for rendering: a branch that the formatter renders can be
  refused by the matcher of the same rule.  With a slug placeholder directly before a type
  placeholder the generated expression takes the longest slug it can, and a slug of the
  maximal length followed by the type \<^verbatim>\<open>aa\<close> is read as a slug that is one unit too long.
\<close>

theorem rendered_branch_not_matched:
  "render_branch_format sample_format sample_types
       \<lparr>bv_issue = Integral 1, bv_slug = Some (replicate 100 97), bv_type = Some (js ''aa'')\<rparr> = Inr long_branch \<and>
   match_branch_format sample_format sample_types long_branch (Integral 1) = None"
proof
  have "slug_word (replicate 100 97)"
    using sample_long_slug [of 100 "[]"] by simp
  moreover have "replicate 100 97 @ [97, 97, 49] = long_branch"
    by (simp add: long_branch_def numeral_eq_Suc)
  ultimately show "render_branch_format sample_format sample_types
       \<lparr>bv_issue = Integral 1, bv_slug = Some (replicate 100 97), bv_type = Some (js ''aa'')\<rparr> = Inr long_branch"
    using sample_format_valid long_branch_spelling
    by (simp add: render_branch_format_def sample_format_def sample_types_def max_safe_integer_def
        max_branch_slug_length_def long_branch_pieces Let_def)
  show "match_branch_format sample_format sample_types long_branch (Integral 1) = None"
    using sample_format_valid long_branch_spelling long_branch_match
    by (simp add: match_branch_format_def sample_format_def sample_types_def max_safe_integer_def
        max_branch_slug_length_def)
qed

text \<open>
  The title pattern is case-insensitive under Unicode folding, so its type group also
  matches the long s (U+017F), which \<^verbatim>\<open>toLowerCase\<close> leaves as it is: the title
  yields a naming whose type is outside the vocabulary, and every derivation from it fails.
\<close>

theorem title_type_outside_vocabulary:
  assumes "ut_lower ut [100, 111, 99, 383] = [100, 111, 99, 383]"
    and "slug_of_text ut (js ''a'') = js ''a''"
  shows "derive_branch_naming_from_issue_title ut ([100, 111, 99, 383] @ js '': a'') =
      Inr \<lparr>bn_type = [100, 111, 99, 383], bn_slug = js ''a''\<rparr> \<and>
    [100, 111, 99, 383] \<notin> set canonical_branch_types \<and>
    (\<forall>issue. \<exists>e. derive_branch_name \<lparr>bp_type = [100, 111, 99, 383], bp_issue = issue, bp_slug = js ''a''\<rparr> = Inl e)"
proof -
  have "[100, 111, 99, 383] \<notin> set canonical_branch_types" by (simp add: branch_type_units)
  with assms show ?thesis
    by (simp add: derive_branch_naming_from_issue_title_def max_branch_title_length_def match_issue_title_def
        branch_type_units js_eval folds_to_def is_lower_def title_rest_def is_white_space_def
        line_terminator_def normalize_branch_slug_def derive_branch_name_def)
qed

theorem title_type_outside_vocabulary_witness:
  "derive_branch_naming_from_issue_title ascii_tables ([100, 111, 99, 383] @ js '': a'') =
      Inr \<lparr>bn_type = [100, 111, 99, 383], bn_slug = js ''a''\<rparr> \<and>
    [100, 111, 99, 383] \<notin> set canonical_branch_types \<and>
    (\<forall>issue. \<exists>e. derive_branch_name \<lparr>bp_type = [100, 111, 99, 383], bp_issue = issue, bp_slug = js ''a''\<rparr> = Inl e)"
  by (rule title_type_outside_vocabulary)
    (simp_all add: ascii_tables_def is_upper_def slug_of_text_def js_eval combining_mark_def slug_char_def
      is_lower_def trim_hyphens_def)

end
