(* ===== verification/Capability.thy ===== *)
theory Capability
  imports Branch_Naming
begin

text \<open>
  The capability vocabulary of delegated authority,
  \<^verbatim>\<open>src/agent-authority/capability.ts\<close>: the closed list of kinds and the validation
  of one untrusted claim, with every diagnostic in the order the code pushes it.
\<close>

subsection \<open>Kinds and claims\<close>

datatype capability_kind =
    Change_Implement | Change_Ready | Change_Abort | Change_Merge
  | Branch_Create_Kind | Branch_Advance_Kind | Pull_Request_Create_Kind

definition capability_kinds :: "capability_kind list" where
  "capability_kinds =
     [Change_Implement, Change_Ready, Change_Abort, Change_Merge, Branch_Create_Kind,
      Branch_Advance_Kind, Pull_Request_Create_Kind]"

fun capability_kind_name :: "capability_kind \<Rightarrow> jstr" where
  "capability_kind_name Change_Implement = js ''change.implement''"
| "capability_kind_name Change_Ready = js ''change.ready''"
| "capability_kind_name Change_Abort = js ''change.abort''"
| "capability_kind_name Change_Merge = js ''change.merge''"
| "capability_kind_name Branch_Create_Kind = js ''branch.create''"
| "capability_kind_name Branch_Advance_Kind = js ''branch.advance''"
| "capability_kind_name Pull_Request_Create_Kind = js ''pullRequest.create''"

definition change_capability_kinds :: "capability_kind list" where
  "change_capability_kinds = [Change_Implement, Change_Ready, Change_Abort, Change_Merge]"

definition max_issue_number :: int where "max_issue_number = 999999999"
definition max_path_policy_length :: nat where "max_path_policy_length = 160"
definition capability_create_max :: int where "capability_create_max = 1"

datatype capability_claim =
    Change_Claim capability_kind int
  | Branch_Create_Claim jstr
  | Branch_Advance_Claim jstr "jstr option"
  | Pull_Request_Create_Claim jstr jstr

fun claim_kind :: "capability_claim \<Rightarrow> capability_kind" where
  "claim_kind (Change_Claim k n) = k"
| "claim_kind (Branch_Create_Claim b) = Branch_Create_Kind"
| "claim_kind (Branch_Advance_Claim b p) = Branch_Advance_Kind"
| "claim_kind (Pull_Request_Create_Claim h b) = Pull_Request_Create_Kind"

datatype capability_code =
    CAPABILITY_INVALID_ROOT | CAPABILITY_MISSING_PROPERTY | CAPABILITY_UNKNOWN_PROPERTY
  | CAPABILITY_UNSUPPORTED_KIND | CAPABILITY_INVALID_CLAIM

record capability_diagnostic =
  cg_code :: capability_code
  cg_path :: jstr
  cg_message :: jstr

definition capability_diag :: "capability_code \<Rightarrow> jstr \<Rightarrow> string \<Rightarrow> capability_diagnostic" where
  "capability_diag code path message = \<lparr>cg_code = code, cg_path = path, cg_message = js message\<rparr>"

definition prop_path :: "jstr \<Rightarrow> jstr \<Rightarrow> jstr" where
  "prop_path path key = path @ js ''.'' @ key"

subsection \<open>Field checks\<close>

definition capability_kind_of :: "jsval \<Rightarrow> capability_kind option" where
  "capability_kind_of v =
     (case v of JStr s \<Rightarrow> find (\<lambda>k. capability_kind_name k = s) capability_kinds | _ \<Rightarrow> None)"

fun safe_issue_number :: "jsval \<Rightarrow> int option" where
  "safe_issue_number (JNum (Integral n)) = (if 1 \<le> n \<and> n \<le> max_issue_number then Some n else None)"
| "safe_issue_number _ = None"

fun valid_branch_value :: "jsval \<Rightarrow> jstr option" where
  "valid_branch_value (JStr s) = (if validate_branch_spelling (JStr s) = [] then Some s else None)"
| "valid_branch_value _ = None"

fun valid_create_max :: "jsval \<Rightarrow> unit option" where
  "valid_create_max (JNum (Integral n)) = (if n = capability_create_max then Some () else None)"
| "valid_create_max _ = None"

fun valid_path_policy :: "jsval \<Rightarrow> jstr option" where
  "valid_path_policy (JStr s) = (if s = [] \<or> length s > max_path_policy_length then None else Some s)"
| "valid_path_policy _ = None"

definition unknown_properties :: "jsval \<Rightarrow> jstr list \<Rightarrow> jstr \<Rightarrow> capability_diagnostic list" where
  "unknown_properties v allowed path =
     map (\<lambda>k. capability_diag CAPABILITY_UNKNOWN_PROPERTY (prop_path path k) ''Property is not accepted.'')
       (filter (\<lambda>k. k \<notin> set allowed) (sort_strings (object_keys v)))"

text \<open>
  \<^verbatim>\<open>requireProperty\<close> followed by the check of the property: the diagnostics pushed,
  empty exactly when the property is present and valid.
\<close>

definition checked_property ::
  "(jsval \<Rightarrow> 'a option) \<Rightarrow> jsval \<Rightarrow> jstr \<Rightarrow> jstr \<Rightarrow> string \<Rightarrow> capability_diagnostic list" where
  "checked_property valid v key path message =
     (if \<not> has_prop v key
      then [capability_diag CAPABILITY_MISSING_PROPERTY (prop_path path key) ''Property is required.'']
      else if valid (get_prop v key) = None
      then [capability_diag CAPABILITY_INVALID_CLAIM (prop_path path key) message] else [])"

definition the_branch :: "jsval \<Rightarrow> jstr \<Rightarrow> jstr" where
  "the_branch v key = (case get_prop v key of JStr s \<Rightarrow> s | _ \<Rightarrow> [])"

subsection \<open>One claim\<close>

text \<open>Invalid with diagnostics, or valid with a value.\<close>

definition validate_change_claim ::
  "jsval \<Rightarrow> jstr \<Rightarrow> capability_kind \<Rightarrow> capability_diagnostic list + capability_claim" where
  "validate_change_claim v path k =
     (let ds = unknown_properties v [js ''kind'', js ''issue''] path
               @ checked_property safe_issue_number v (js ''issue'') path
                   ''issue must be a positive integer Issue number.''
      in case safe_issue_number (get_prop v (js ''issue'')) of
           Some n \<Rightarrow> if ds = [] then Inr (Change_Claim k n) else Inl ds
         | None \<Rightarrow> Inl ds)"

definition validate_branch_create ::
  "jsval \<Rightarrow> jstr \<Rightarrow> capability_diagnostic list + capability_claim" where
  "validate_branch_create v path =
     (let ds = unknown_properties v [js ''kind'', js ''branch'', js ''max''] path
               @ checked_property valid_branch_value v (js ''branch'') path
                   ''branch must be a safe repository branch name.''
               @ checked_property valid_create_max v (js ''max'') path ''max must be exactly 1.''
      in if ds \<noteq> [] then Inl ds else Inr (Branch_Create_Claim (the_branch v (js ''branch''))))"

definition validate_branch_advance ::
  "jsval \<Rightarrow> jstr \<Rightarrow> capability_diagnostic list + capability_claim" where
  "validate_branch_advance v path =
     (let policy = get_prop v (js ''pathPolicy'');
          ds = unknown_properties v [js ''kind'', js ''branch'', js ''pathPolicy''] path
               @ checked_property valid_branch_value v (js ''branch'') path
                   ''branch must be a safe repository branch name.''
               @ (if has_prop v (js ''pathPolicy'') \<and> valid_path_policy policy = None
                  then [capability_diag CAPABILITY_INVALID_CLAIM (prop_path path (js ''pathPolicy''))
                          ''pathPolicy must be 1-160 characters.''] else [])
      in if ds \<noteq> [] then Inl ds
         else Inr (Branch_Advance_Claim (the_branch v (js ''branch''))
                (if has_prop v (js ''pathPolicy'') then valid_path_policy policy else None)))"

definition validate_pull_request_create ::
  "jsval \<Rightarrow> jstr \<Rightarrow> capability_diagnostic list + capability_claim" where
  "validate_pull_request_create v path =
     (let ds = unknown_properties v [js ''kind'', js ''head'', js ''base'', js ''max''] path
               @ checked_property valid_branch_value v (js ''head'') path
                   ''head must be a safe repository branch name.''
               @ checked_property valid_branch_value v (js ''base'') path
                   ''base must be a safe repository branch name.''
               @ checked_property valid_create_max v (js ''max'') path ''max must be exactly 1.''
      in if ds \<noteq> [] then Inl ds
         else Inr (Pull_Request_Create_Claim (the_branch v (js ''head'')) (the_branch v (js ''base''))))"

definition validate_capability_claim ::
  "jsval \<Rightarrow> jstr \<Rightarrow> capability_diagnostic list + capability_claim" where
  "validate_capability_claim v path =
     (if \<not> is_record v
      then Inl [capability_diag CAPABILITY_INVALID_ROOT path ''Capability claim must be an object.'']
      else if \<not> has_prop v (js ''kind'')
      then Inl [capability_diag CAPABILITY_MISSING_PROPERTY (prop_path path (js ''kind'')) ''Property is required.'']
      else (case capability_kind_of (get_prop v (js ''kind'')) of
              None \<Rightarrow> Inl [capability_diag CAPABILITY_UNSUPPORTED_KIND (prop_path path (js ''kind''))
                            ''Capability kind is not a recognized semantic capability.'']
            | Some k \<Rightarrow>
                if k \<in> set change_capability_kinds then validate_change_claim v path k
                else if k = Branch_Create_Kind then validate_branch_create v path
                else if k = Branch_Advance_Kind then validate_branch_advance v path
                else validate_pull_request_create v path))"

definition capability_claim_within_ceiling :: "capability_claim \<Rightarrow> capability_kind list \<Rightarrow> bool" where
  "capability_claim_within_ceiling c ceiling \<longleftrightarrow> claim_kind c \<in> set ceiling"

definition capability_claim_issue_number :: "capability_claim \<Rightarrow> int option" where
  "capability_claim_issue_number c =
     (case c of Change_Claim k n \<Rightarrow> if k \<in> set change_capability_kinds then Some n else None | _ \<Rightarrow> None)"

subsection \<open>Properties\<close>

text \<open>The plain object of a claim and what a valid claim guarantees.\<close>

fun claim_value :: "capability_claim \<Rightarrow> jsval" where
  "claim_value (Change_Claim k n) =
     JObj [(js ''kind'', JStr (capability_kind_name k)), (js ''issue'', JNum (Integral n))]"
| "claim_value (Branch_Create_Claim b) =
     JObj [(js ''kind'', JStr (capability_kind_name Branch_Create_Kind)), (js ''branch'', JStr b),
           (js ''max'', JNum (Integral 1))]"
| "claim_value (Branch_Advance_Claim b p) =
     JObj ([(js ''kind'', JStr (capability_kind_name Branch_Advance_Kind)), (js ''branch'', JStr b)]
           @ (case p of None \<Rightarrow> [] | Some s \<Rightarrow> [(js ''pathPolicy'', JStr s)]))"
| "claim_value (Pull_Request_Create_Claim h b) =
     JObj [(js ''kind'', JStr (capability_kind_name Pull_Request_Create_Kind)), (js ''head'', JStr h),
           (js ''base'', JStr b), (js ''max'', JNum (Integral 1))]"

fun wf_claim :: "capability_claim \<Rightarrow> bool" where
  "wf_claim (Change_Claim k n) \<longleftrightarrow> k \<in> set change_capability_kinds \<and> 1 \<le> n \<and> n \<le> max_issue_number"
| "wf_claim (Branch_Create_Claim b) \<longleftrightarrow> validate_branch_spelling (JStr b) = []"
| "wf_claim (Branch_Advance_Claim b p) \<longleftrightarrow>
     validate_branch_spelling (JStr b) = [] \<and> (case p of None \<Rightarrow> True | Some s \<Rightarrow> s \<noteq> [] \<and> length s \<le> 160)"
| "wf_claim (Pull_Request_Create_Claim h b) \<longleftrightarrow>
     validate_branch_spelling (JStr h) = [] \<and> validate_branch_spelling (JStr b) = []"

lemma capability_kind_name_inject [simp]: "capability_kind_name k = capability_kind_name l \<longleftrightarrow> k = l"
  by (cases k; cases l) simp_all

lemma capability_kind_of_name [simp]: "capability_kind_of (JStr (capability_kind_name k)) = Some k"
  by (cases k) (simp_all add: capability_kind_of_def capability_kinds_def)

lemma checked_property_Nil:
  "checked_property valid v key path m = [] \<longleftrightarrow> has_prop v key \<and> valid (get_prop v key) \<noteq> None"
  by (simp add: checked_property_def)

lemma unknown_properties_Nil: "unknown_properties v allowed path = [] \<longleftrightarrow> set (object_keys v) \<subseteq> set allowed"
  by (auto simp: unknown_properties_def filter_empty_conv)

lemma safe_issue_number_Some:
  "safe_issue_number v = Some n \<longleftrightarrow> v = JNum (Integral n) \<and> 1 \<le> n \<and> n \<le> max_issue_number"
  by (cases v rule: safe_issue_number.cases) auto

lemma valid_branch_value_Some:
  "valid_branch_value v = Some s \<longleftrightarrow> v = JStr s \<and> validate_branch_spelling (JStr s) = []"
  by (cases v) auto

lemma valid_path_policy_Some:
  "valid_path_policy v = Some s \<longleftrightarrow> v = JStr s \<and> s \<noteq> [] \<and> length s \<le> 160"
  by (cases v) (auto simp: max_path_policy_length_def)

lemma the_branch_value: "get_prop v key = JStr s \<Longrightarrow> the_branch v key = s"
  by (simp add: the_branch_def)

lemma validated_wf:
  assumes "validate_capability_claim v path = Inr c"
  shows "wf_claim c"
proof -
  from assms obtain k where k: "capability_kind_of (get_prop v (js ''kind'')) = Some k"
    "(if k \<in> set change_capability_kinds then validate_change_claim v path k
      else if k = Branch_Create_Kind then validate_branch_create v path
      else if k = Branch_Advance_Kind then validate_branch_advance v path
      else validate_pull_request_create v path) = Inr c"
    by (auto simp: validate_capability_claim_def split: if_splits option.splits)
  then consider "k \<in> set change_capability_kinds" "validate_change_claim v path k = Inr c"
    | "validate_branch_create v path = Inr c" | "validate_branch_advance v path = Inr c"
    | "validate_pull_request_create v path = Inr c"
    by (auto split: if_splits)
  then show ?thesis
  proof cases
    case 1
    then show ?thesis
      by (auto simp: validate_change_claim_def safe_issue_number_Some Let_def split: option.splits if_splits)
  next
    case 2
    then show ?thesis
      by (auto simp: validate_branch_create_def checked_property_Nil valid_branch_value_Some the_branch_value
          Let_def split: if_splits)
  next
    case 3
    then show ?thesis
      by (auto simp: validate_branch_advance_def checked_property_Nil valid_branch_value_Some the_branch_value
          valid_path_policy_Some Let_def split: if_splits option.splits)
  next
    case 4
    then show ?thesis
      by (auto simp: validate_pull_request_create_def checked_property_Nil valid_branch_value_Some
          the_branch_value Let_def split: if_splits)
  qed
qed

lemma wf_claim_validates:
  assumes "wf_claim c"
  shows "validate_capability_claim (claim_value c) path = Inr c"
proof (cases c)
  case (Change_Claim k n)
  with assms show ?thesis
    by (auto simp: validate_capability_claim_def validate_change_claim_def unknown_properties_Nil
        checked_property_Nil Let_def)
next
  case (Branch_Create_Claim b)
  with assms show ?thesis
    by (simp add: validate_capability_claim_def validate_branch_create_def unknown_properties_Nil
        checked_property_Nil Let_def change_capability_kinds_def the_branch_def capability_create_max_def
        del: capability_kind_name.simps)
next
  case (Branch_Advance_Claim b p)
  with assms show ?thesis
    by (cases p) (simp_all add: validate_capability_claim_def validate_branch_advance_def unknown_properties_Nil
        checked_property_Nil Let_def change_capability_kinds_def the_branch_def max_path_policy_length_def
        del: capability_kind_name.simps)
next
  case (Pull_Request_Create_Claim h b)
  with assms show ?thesis
    by (simp add: validate_capability_claim_def validate_pull_request_create_def unknown_properties_Nil
        checked_property_Nil Let_def change_capability_kinds_def the_branch_def capability_create_max_def
        del: capability_kind_name.simps)
qed

text \<open>
  C15. A capability claim accepted from an untrusted value is within the vocabulary and its
  bounds (an Issue number between 1 and 999999999 for a change capability, Git-safe branch
  spellings and a bounded path policy for the others), and is a fixed point of the validation:
  its plain object is accepted again and denotes the same claim, whatever the reported path.
\<close>

theorem capability_claim_canonical:
  assumes "validate_capability_claim v path = Inr c"
  shows "wf_claim c \<and> validate_capability_claim (claim_value c) other_path = Inr c"
  using validated_wf [OF assms] wf_claim_validates by blast

theorem capability_claim_canonical_witness:
  "wf_claim (Change_Claim Change_Ready 7) \<and>
   validate_capability_claim (claim_value (Change_Claim Change_Ready 7)) (js ''$.x'') =
     Inr (Change_Claim Change_Ready 7)"
  by (rule capability_claim_canonical [of "JObj [(js ''issue'', JNum (Integral 7)), (js ''kind'', JStr (js ''change.ready''))]"
        "js ''$''"])
    (simp add: validate_capability_claim_def capability_kind_of_def capability_kinds_def
      change_capability_kinds_def validate_change_claim_def unknown_properties_Nil checked_property_Nil
      max_issue_number_def Let_def)

end
