(* ===== verification/Protected_Paths.thy ===== *)
theory Protected_Paths
  imports Capability
begin

text \<open>
  The trust-root path classifier and the admission of delegated writes,
  \<^verbatim>\<open>src/agent-authority/protected-paths.ts\<close>.  The Unicode properties the code asks
  the JavaScript runtime for (the category Cf, the normalisation forms NFC and NFKC) are the
  fields of a parameter; everything else is written out on code units.
\<close>

subsection \<open>Repository paths\<close>

record path_unicode =
  pu_has_format :: "jstr \<Rightarrow> bool"
  pu_nfc :: "jstr \<Rightarrow> jstr"
  pu_nfkc :: "jstr \<Rightarrow> jstr"

text \<open>The constants of \<^verbatim>\<open>delegator.ts\<close>.\<close>

definition delegator_artifact_directory :: jstr where
  "delegator_artifact_directory = js ''.github/inari/authorities''"

definition delegator_artifact_path_prefix :: jstr where
  "delegator_artifact_path_prefix = delegator_artifact_directory @ [47]"

datatype path_invalid_reason =
    NOT_STRING | EMPTY | ABSOLUTE | WINDOWS_DRIVE | BACKSLASH | CONTROL_OR_FORMAT_CHARACTER
  | UNPAIRED_SURROGATE | NON_CANONICAL_UNICODE | ENCODED_BYTE | EMPTY_SEGMENT | DOT_SEGMENT

datatype path_classification =
    Protected jstr
  | Unprotected jstr
  | Invalid_Path path_invalid_reason jstr

definition invalid_path :: "path_invalid_reason \<Rightarrow> string \<Rightarrow> path_classification" where
  "invalid_path reason message = Invalid_Path reason (js message)"

text \<open>
  \<^verbatim>\<open>hasUnpairedSurrogate\<close>: after a high surrogate at the very end of the string
  \<^verbatim>\<open>charCodeAt\<close> is NaN, both comparisons are false, and the loop ends.
\<close>

definition high_surrogate :: "nat \<Rightarrow> bool" where
  "high_surrogate c \<longleftrightarrow> 55296 \<le> c \<and> c \<le> 56319"

definition low_surrogate :: "nat \<Rightarrow> bool" where
  "low_surrogate c \<longleftrightarrow> 56320 \<le> c \<and> c \<le> 57343"

fun has_unpaired_surrogate :: "jstr \<Rightarrow> bool" where
  "has_unpaired_surrogate [] = False"
| "has_unpaired_surrogate [c] = (if high_surrogate c then False else low_surrogate c)"
| "has_unpaired_surrogate (c # d # s) =
     (if high_surrogate c then (if d < 56320 \<or> 57343 < d then True else has_unpaired_surrogate s)
      else if low_surrogate c then True else has_unpaired_surrogate (d # s))"

definition control_character :: "nat \<Rightarrow> bool" where
  "control_character c \<longleftrightarrow> c \<le> 31 \<or> 127 \<le> c \<and> c \<le> 159"

text \<open>
  \<^verbatim>\<open>/^[a-z]:/iu\<close>: Unicode case folding adds the capitals, the long s (U+017F)
  and the Kelvin sign (U+212A).
\<close>

fun windows_drive_path :: "jstr \<Rightarrow> bool" where
  "windows_drive_path (c # d # s) \<longleftrightarrow> (is_lower c \<or> is_upper c \<or> c = 383 \<or> c = 8490) \<and> d = 58"
| "windows_drive_path _ = False"

definition is_hex :: "nat \<Rightarrow> bool" where
  "is_hex c \<longleftrightarrow> is_digit c \<or> 97 \<le> c \<and> c \<le> 102 \<or> 65 \<le> c \<and> c \<le> 70"

fun encoded_byte :: "jstr \<Rightarrow> bool" where
  "encoded_byte (a # b # c # s) \<longleftrightarrow> a = 37 \<and> is_hex b \<and> is_hex c \<or> encoded_byte (b # c # s)"
| "encoded_byte _ = False"

definition under_trust_root :: "jstr \<Rightarrow> bool" where
  "under_trust_root s \<longleftrightarrow>
     s = delegator_artifact_directory \<or> starts_with s delegator_artifact_path_prefix"

definition classify_repository_path :: "path_unicode \<Rightarrow> jsval \<Rightarrow> path_classification" where
  "classify_repository_path pu v =
     (case v of
        JStr s \<Rightarrow>
          if s = [] then invalid_path EMPTY ''Repository paths must not be empty.''
          else if starts_with s [47] then invalid_path ABSOLUTE ''Repository paths must be relative.''
          else if windows_drive_path s
          then invalid_path WINDOWS_DRIVE ''Repository paths must not use a Windows drive prefix.''
          else if 92 \<in> set s
          then invalid_path BACKSLASH ''Repository paths must use canonical Git separators.''
          else if list_ex control_character s \<or> pu_has_format pu s
          then invalid_path CONTROL_OR_FORMAT_CHARACTER
                 ''Repository paths must not contain control or format characters.''
          else if has_unpaired_surrogate s
          then invalid_path UNPAIRED_SURROGATE
                 ''Repository paths must contain valid Unicode scalar sequences.''
          else if pu_nfc pu s \<noteq> s \<or> pu_nfkc pu s \<noteq> s
          then invalid_path NON_CANONICAL_UNICODE
                 ''Repository paths must use canonical Unicode normalization.''
          else if encoded_byte s
          then invalid_path ENCODED_BYTE ''Repository paths must not contain URI-encoded bytes.''
          else if list_ex (\<lambda>seg. seg = []) (split_on 47 s)
          then invalid_path EMPTY_SEGMENT ''Repository paths must not contain empty path segments.''
          else if list_ex (\<lambda>seg. seg = [46] \<or> seg = [46, 46]) (split_on 47 s)
          then invalid_path DOT_SEGMENT ''Repository paths must not contain dot or traversal segments.''
          else if under_trust_root s then Protected s
          else Unprotected s
      | _ \<Rightarrow> invalid_path NOT_STRING ''Repository paths must be strings.'')"

subsection \<open>Tree deltas\<close>

datatype delta_kind = Delta_Allowed | Delta_Protected | Delta_Invalid

text \<open>The three sets under construction; the returned lists are sorted.\<close>

record delta_sets =
  td_touched :: "jstr list"
  td_protected :: "jstr list"
  td_invalid :: "jstr list"

record delta_classification =
  tc_kind :: delta_kind
  tc_touched :: "jstr list"
  tc_protected :: "jstr list"
  tc_invalid :: "jstr list"
  tc_message :: jstr

definition tree_delta_result :: "delta_kind \<Rightarrow> delta_sets \<Rightarrow> string \<Rightarrow> delta_classification" where
  "tree_delta_result kind sets message =
     \<lparr>tc_kind = kind, tc_touched = sort_strings (td_touched sets),
      tc_protected = sort_strings (td_protected sets), tc_invalid = sort_strings (td_invalid sets),
      tc_message = js message\<rparr>"

definition delegated_tree_change_operations :: "jstr list" where
  "delegated_tree_change_operations =
     [js ''create'', js ''modify'', js ''delete'', js ''rename'', js ''delete-add'', js ''replace'']"

definition is_tree_change_operation :: "jsval \<Rightarrow> bool" where
  "is_tree_change_operation v =
     (case v of JStr s \<Rightarrow> s \<in> set delegated_tree_change_operations | _ \<Rightarrow> False)"

definition add_invalid :: "jstr \<Rightarrow> delta_sets \<Rightarrow> delta_sets" where
  "add_invalid p sets = sets\<lparr>td_invalid := set_add p (td_invalid sets)\<rparr>"

definition path_or_label :: "jsval \<Rightarrow> jstr \<Rightarrow> jstr" where
  "path_or_label v label = (case v of JStr s \<Rightarrow> s | _ \<Rightarrow> label)"

definition add_path_classification ::
  "path_unicode \<Rightarrow> jsval \<Rightarrow> jstr \<Rightarrow> delta_sets \<Rightarrow> delta_sets \<times> bool" where
  "add_path_classification pu v label sets =
     (case classify_repository_path pu v of
        Invalid_Path r m \<Rightarrow> (add_invalid (path_or_label v label) sets, False)
      | Unprotected p \<Rightarrow> (sets\<lparr>td_touched := set_add p (td_touched sets)\<rparr>, True)
      | Protected p \<Rightarrow> (sets\<lparr>td_touched := set_add p (td_touched sets),
                           td_protected := set_add p (td_protected sets)\<rparr>, True))"

definition index_label :: "string \<Rightarrow> nat \<Rightarrow> jstr" where
  "index_label name i = js name @ js ''['' @ digits_of i @ js '']''"

definition classify_change :: "path_unicode \<Rightarrow> nat \<Rightarrow> jsval \<Rightarrow> delta_sets \<Rightarrow> delta_sets" where
  "classify_change pu i raw sets =
     (if \<not> is_record raw \<or> \<not> is_tree_change_operation (get_prop raw (js ''operation''))
      then add_invalid (index_label ''changes'' i) sets
      else
        (let operation = get_prop raw (js ''operation'');
             path = get_prop raw (js ''path'');
             previous = get_prop raw (js ''previousPath'');
             has_previous = has_prop raw (js ''previousPath'');
             requires_previous = (operation = JStr (js ''rename'') \<or> operation = JStr (js ''delete-add''))
         in case add_path_classification pu path (index_label ''changes'' i @ js ''.path'') sets of
              (sets1, path_valid) \<Rightarrow>
                if requires_previous \<and> (\<not> has_previous \<or> (case previous of JStr s \<Rightarrow> False | _ \<Rightarrow> True))
                then add_invalid (index_label ''changes'' i @ js ''.previousPath'') sets1
                else if has_previous
                then (case add_path_classification pu previous
                             (index_label ''changes'' i @ js ''.previousPath'') sets1 of
                        (sets2, previous_valid) \<Rightarrow>
                          if path_valid \<and> previous_valid \<and> path = previous
                          then add_invalid (path_or_label path []) sets2 else sets2)
                else sets1))"

fun classify_changes :: "path_unicode \<Rightarrow> nat \<Rightarrow> jsval list \<Rightarrow> delta_sets \<Rightarrow> delta_sets" where
  "classify_changes pu i [] sets = sets"
| "classify_changes pu i (raw # raws) sets = classify_changes pu (i + 1) raws (classify_change pu i raw sets)"

subsection \<open>Snapshots\<close>

text \<open>
  \<^verbatim>\<open>JSON.stringify([sha, mode, type])\<close> is compared with itself only; it is injective
  on these values (negative zero prints as zero), so the triple stands for the text.
\<close>

fun finite_mode :: "jsval \<Rightarrow> jsval option" where
  "finite_mode (JStr s) = (if s = [] then None else Some (JStr s))"
| "finite_mode (JNum (Integral n)) = Some (JNum (Integral n))"
| "finite_mode (JNum (Fractional m k)) = Some (JNum (Fractional m k))"
| "finite_mode (JNum NegZero) = Some (JNum (Integral 0))"
| "finite_mode _ = None"

definition snapshot_fingerprint :: "jsval \<Rightarrow> (jstr \<times> jsval \<times> jstr) option" where
  "snapshot_fingerprint entry =
     (case (get_prop entry (js ''sha''), finite_mode (get_prop entry (js ''mode'')),
            get_prop entry (js ''type'')) of
        (JStr sha, Some mode, JStr t) \<Rightarrow>
          if sha \<noteq> [] \<and> t \<in> {js ''blob'', js ''tree'', js ''commit''} then Some (sha, mode, t) else None
      | _ \<Rightarrow> None)"

record snapshot_map =
  sm_entries :: "(jstr \<times> (jstr \<times> jsval \<times> jstr)) list"
  sm_invalid :: "jstr list"

definition read_entry ::
  "path_unicode \<Rightarrow> string \<Rightarrow> nat \<Rightarrow> jsval \<Rightarrow> snapshot_map \<Rightarrow> snapshot_map" where
  "read_entry pu label i raw sm =
     (if \<not> is_record raw then sm\<lparr>sm_invalid := set_add (index_label label i) (sm_invalid sm)\<rparr>
      else
        (let path = get_prop raw (js ''path'');
             keep = (\<lambda>p. case snapshot_fingerprint raw of
                 None \<Rightarrow> sm\<lparr>sm_invalid := set_add p (sm_invalid sm)\<rparr>
               | Some fp \<Rightarrow>
                   if p \<in> fst ` set (sm_entries sm)
                   then sm\<lparr>sm_invalid := set_add p (sm_invalid sm)\<rparr>
                   else sm\<lparr>sm_entries := sm_entries sm @ [(p, fp)]\<rparr>)
         in case classify_repository_path pu path of
              Invalid_Path r m \<Rightarrow>
                sm\<lparr>sm_invalid := set_add (path_or_label path (index_label label i @ js ''.path'')) (sm_invalid sm)\<rparr>
            | Protected p \<Rightarrow> keep p
            | Unprotected p \<Rightarrow> keep p))"

fun read_entries ::
  "path_unicode \<Rightarrow> string \<Rightarrow> nat \<Rightarrow> jsval list \<Rightarrow> snapshot_map \<Rightarrow> snapshot_map" where
  "read_entries pu label i [] sm = sm"
| "read_entries pu label i (raw # raws) sm = read_entries pu label (i + 1) raws (read_entry pu label i raw sm)"

definition read_snapshot :: "path_unicode \<Rightarrow> jsval \<Rightarrow> string \<Rightarrow> snapshot_map option" where
  "read_snapshot pu v label =
     (case v of
        JArr raws \<Rightarrow> Some (read_entries pu label 0 raws \<lparr>sm_entries = [], sm_invalid = []\<rparr>)
      | _ \<Rightarrow> None)"

definition snapshot_changed_paths ::
  "(jstr \<times> (jstr \<times> jsval \<times> jstr)) list \<Rightarrow> (jstr \<times> (jstr \<times> jsval \<times> jstr)) list \<Rightarrow> jstr list" where
  "snapshot_changed_paths before after =
     filter (\<lambda>p. map_of before p \<noteq> map_of after p)
       (set_add_all (map fst after) (set_add_all (map fst before) []))"

definition check_changed_path :: "path_unicode \<Rightarrow> jstr \<Rightarrow> delta_sets \<Rightarrow> delta_sets" where
  "check_changed_path pu p sets =
     (case classify_repository_path pu (JStr p) of
        Protected q \<Rightarrow> sets\<lparr>td_protected := set_add p (td_protected sets)\<rparr>
      | _ \<Rightarrow> if p \<notin> set (td_touched sets) then add_invalid p sets else sets)"

fun check_changed_paths :: "path_unicode \<Rightarrow> jstr list \<Rightarrow> delta_sets \<Rightarrow> delta_sets" where
  "check_changed_paths pu [] sets = sets"
| "check_changed_paths pu (p # ps) sets = check_changed_paths pu ps (check_changed_path pu p sets)"

definition add_invalids :: "jstr list \<Rightarrow> delta_sets \<Rightarrow> delta_sets" where
  "add_invalids ps sets = sets\<lparr>td_invalid := set_add_all ps (td_invalid sets)\<rparr>"

definition classify_snapshots :: "path_unicode \<Rightarrow> jsval \<Rightarrow> jsval \<Rightarrow> delta_sets \<Rightarrow> delta_sets" where
  "classify_snapshots pu before_value after_value sets =
     (let before = read_snapshot pu before_value ''before'';
          after = read_snapshot pu after_value ''after'';
          sets1 = (if before = None then add_invalid (js ''before'') sets else sets);
          sets2 = (if after = None then add_invalid (js ''after'') sets1 else sets1);
          sets3 = (case before of None \<Rightarrow> sets2 | Some sm \<Rightarrow> add_invalids (sm_invalid sm) sets2);
          sets4 = (case after of None \<Rightarrow> sets3 | Some sm \<Rightarrow> add_invalids (sm_invalid sm) sets3)
      in case (before, after) of
           (Some b, Some a) \<Rightarrow>
             check_changed_paths pu (snapshot_changed_paths (sm_entries b) (sm_entries a)) sets4
         | _ \<Rightarrow> sets4)"

definition no_paths :: delta_sets where
  "no_paths = \<lparr>td_touched = [], td_protected = [], td_invalid = []\<rparr>"

text \<open>The sets after the changes and the snapshots.\<close>

definition delta_sets_of :: "path_unicode \<Rightarrow> jsval \<Rightarrow> jsval list \<Rightarrow> delta_sets" where
  "delta_sets_of pu v changes =
     (let sets = classify_changes pu 0 changes no_paths;
          has_before = has_prop v (js ''before''); has_after = has_prop v (js ''after'');
          sets' = (if has_before \<noteq> has_after then add_invalid (js ''before/after'') sets else sets)
      in if has_before \<and> has_after
         then classify_snapshots pu (get_prop v (js ''before'')) (get_prop v (js ''after'')) sets'
         else sets')"

definition classify_delegated_tree_delta :: "path_unicode \<Rightarrow> jsval \<Rightarrow> delta_classification" where
  "classify_delegated_tree_delta pu v =
     (case (is_record v, get_prop v (js ''changes'')) of
        (True, JArr changes) \<Rightarrow>
          (let sets = delta_sets_of pu v changes
           in if td_invalid sets \<noteq> []
              then tree_delta_result Delta_Invalid sets
                     ''Delegated tree delta contains an invalid or incomplete repository path representation.''
              else if td_protected sets \<noteq> []
              then tree_delta_result Delta_Protected sets
                     ''Delegated writes cannot modify the Delegator trust root.''
              else tree_delta_result Delta_Allowed sets
                     ''Delegated tree delta does not affect the Delegator trust root.'')
      | _ \<Rightarrow> tree_delta_result Delta_Invalid no_paths
               ''A complete delegated tree delta must contain a changes array.'')"

subsection \<open>Admission\<close>

datatype write_admission_code =
    DELEGATED_WRITE_ALLOWED | DELEGATED_WRITE_CAPABILITY_INVALID
  | DELEGATED_WRITE_CAPABILITY_NOT_WRITABLE | DELEGATED_WRITE_TREE_DELTA_INVALID
  | DELEGATED_WRITE_TRUST_ROOT_DENIED

record write_admission =
  wa_allowed :: bool
  wa_code :: write_admission_code
  wa_capability :: "capability_claim option"
  wa_tree_delta :: "delta_classification option"
  wa_message :: jstr

definition delegated_write_kinds :: "capability_kind list" where
  "delegated_write_kinds = [Change_Implement, Branch_Advance_Kind]"

definition denied_capability :: "string \<Rightarrow> write_admission" where
  "denied_capability message =
     \<lparr>wa_allowed = False, wa_code = DELEGATED_WRITE_CAPABILITY_INVALID, wa_capability = None,
      wa_tree_delta = None, wa_message = js message\<rparr>"

definition admit_delegated_write :: "path_unicode \<Rightarrow> jsval \<Rightarrow> write_admission" where
  "admit_delegated_write pu v =
     (if \<not> is_record v
      then denied_capability ''Delegated write admission requires a capability and complete tree delta.''
      else (case validate_capability_claim (get_prop v (js ''capability'')) (js ''$'') of
              Inl ds \<Rightarrow> denied_capability ''Delegated write capability is invalid.''
            | Inr claim \<Rightarrow>
                (let delta = classify_delegated_tree_delta pu (get_prop v (js ''treeDelta''));
                     result = (\<lambda>allowed code message.
                       \<lparr>wa_allowed = allowed, wa_code = code, wa_capability = Some claim,
                        wa_tree_delta = Some delta, wa_message = message\<rparr>)
                 in if claim_kind claim \<notin> set delegated_write_kinds
                    then result False DELEGATED_WRITE_CAPABILITY_NOT_WRITABLE
                           (js ''Capability kind cannot authorize an ordinary delegated tree write.'')
                    else (case tc_kind delta of
                            Delta_Invalid \<Rightarrow> result False DELEGATED_WRITE_TREE_DELTA_INVALID (tc_message delta)
                          | Delta_Protected \<Rightarrow> result False DELEGATED_WRITE_TRUST_ROOT_DENIED (tc_message delta)
                          | Delta_Allowed \<Rightarrow> result True DELEGATED_WRITE_ALLOWED (tc_message delta)))))"

subsection \<open>What an unprotected path is\<close>

definition ordinary_path :: "jsval \<Rightarrow> bool" where
  "ordinary_path v \<longleftrightarrow>
     (case v of
        JStr p \<Rightarrow> p \<noteq> [] \<and> 92 \<notin> set p \<and> \<not> under_trust_root p \<and>
          list_all (\<lambda>seg. seg \<noteq> [] \<and> seg \<noteq> [46] \<and> seg \<noteq> [46, 46]) (split_on 47 p)
      | _ \<Rightarrow> False)"

lemma invalid_path_distinct [simp]:
  "invalid_path r m \<noteq> Unprotected p" "invalid_path r m \<noteq> Protected p"
  "Unprotected p \<noteq> invalid_path r m" "Protected p \<noteq> invalid_path r m"
  by (simp_all add: invalid_path_def)

lemma classify_unprotected:
  assumes "classify_repository_path pu v = Unprotected p"
  shows "v = JStr p \<and> ordinary_path v"
  using assms
  by (auto simp: classify_repository_path_def ordinary_path_def list_ex_iff list_all_iff
      split: jsval.splits if_splits)

lemma classify_protected:
  assumes "classify_repository_path pu v = Protected p"
  shows "v = JStr p \<and> under_trust_root p"
  using assms by (auto simp: classify_repository_path_def split: jsval.splits if_splits)

subsection \<open>Clean runs of the classifier\<close>

text \<open>The sets only grow; a run that ends clean was clean at every step.\<close>

definition clean :: "delta_sets \<Rightarrow> bool" where
  "clean sets \<longleftrightarrow> td_invalid sets = [] \<and> td_protected sets = []"

lemma add_invalid_not_clean [simp]: "\<not> clean (add_invalid p sets)"
  by (simp add: clean_def add_invalid_def)

lemma clean_no_paths [simp]: "clean no_paths"
  by (simp add: clean_def no_paths_def)

lemma add_path_classification_clean:
  assumes "add_path_classification pu v label sets = (sets', ok)" "clean sets'"
  shows "clean sets \<and> ok \<and> ordinary_path v \<and>
    (\<exists>p. v = JStr p \<and> set (td_touched sets') = insert p (set (td_touched sets)))"
  using assms classify_unprotected [of pu v]
  by (auto simp: add_path_classification_def clean_def add_invalid_def split: path_classification.splits)

definition named_paths :: "jsval \<Rightarrow> jstr set" where
  "named_paths raw = {p. get_prop raw (js ''path'') = JStr p \<or> get_prop raw (js ''previousPath'') = JStr p}"

definition ordinary_change :: "jsval \<Rightarrow> bool" where
  "ordinary_change raw \<longleftrightarrow>
     is_tree_change_operation (get_prop raw (js ''operation'')) \<and>
     ordinary_path (get_prop raw (js ''path'')) \<and>
     (has_prop raw (js ''previousPath'') \<longrightarrow>
        ordinary_path (get_prop raw (js ''previousPath'')) \<and>
        get_prop raw (js ''previousPath'') \<noteq> get_prop raw (js ''path'')) \<and>
     (get_prop raw (js ''operation'') \<in> {JStr (js ''rename''), JStr (js ''delete-add'')} \<longrightarrow>
        has_prop raw (js ''previousPath''))"

lemma classify_change_clean:
  assumes "clean (classify_change pu i raw sets)"
  shows "clean sets \<and> ordinary_change raw \<and>
    set (td_touched (classify_change pu i raw sets)) \<subseteq> set (td_touched sets) \<union> named_paths raw"
proof -
  let ?path = "get_prop raw (js ''path'')" and ?prev = "get_prop raw (js ''previousPath'')"
  obtain sets1 ok1 where c1: "add_path_classification pu ?path (index_label ''changes'' i @ js ''.path'') sets = (sets1, ok1)"
    by fastforce
  obtain sets2 ok2 where c2: "add_path_classification pu ?prev
      (index_label ''changes'' i @ js ''.previousPath'') sets1 = (sets2, ok2)"
    by fastforce
  from assms c1 c2 have op: "is_tree_change_operation (get_prop raw (js ''operation''))"
    and req: "get_prop raw (js ''operation'') \<in> {JStr (js ''rename''), JStr (js ''delete-add'')} \<longrightarrow>
        has_prop raw (js ''previousPath'')"
    by (auto simp: classify_change_def Let_def split: if_splits)
  show ?thesis
  proof (cases "has_prop raw (js ''previousPath'')")
    case True
    with assms c1 c2 have res: "classify_change pu i raw sets = sets2" "clean sets2"
      and differ: "\<not> (ok1 \<and> ok2 \<and> ?path = ?prev)"
      by (auto simp: classify_change_def Let_def split: if_splits)
    from add_path_classification_clean [OF c2 res(2)] obtain q where q: "clean sets1" "ok2" "ordinary_path ?prev"
      "?prev = JStr q" "set (td_touched sets2) = insert q (set (td_touched sets1))" by blast
    from add_path_classification_clean [OF c1 q(1)] obtain p where p: "clean sets" "ok1" "ordinary_path ?path"
      "?path = JStr p" "set (td_touched sets1) = insert p (set (td_touched sets))" by blast
    from p q differ op req res(1) True show ?thesis
      by (auto simp: ordinary_change_def named_paths_def)
  next
    case False
    with assms c1 have res: "classify_change pu i raw sets = sets1" "clean sets1"
      by (auto simp: classify_change_def Let_def split: if_splits)
    from add_path_classification_clean [OF c1 res(2)] op req res(1) False show ?thesis
      by (auto simp: ordinary_change_def named_paths_def)
  qed
qed

lemma classify_changes_clean:
  assumes "clean (classify_changes pu i raws sets)"
  shows "clean sets \<and> list_all ordinary_change raws \<and>
    set (td_touched (classify_changes pu i raws sets)) \<subseteq>
      set (td_touched sets) \<union> (\<Union>raw \<in> set raws. named_paths raw)"
  using assms
proof (induction raws arbitrary: i sets)
  case (Cons raw raws)
  from Cons.prems have "clean (classify_changes pu (i + 1) raws (classify_change pu i raw sets))" by simp
  from Cons.IH [OF this] classify_change_clean [of pu i raw sets] show ?case by auto
qed simp

lemma check_changed_path_clean:
  assumes "clean (check_changed_path pu p sets)"
  shows "clean sets \<and> p \<in> set (td_touched sets) \<and> td_touched (check_changed_path pu p sets) = td_touched sets"
  using assms
  by (auto simp: check_changed_path_def clean_def add_invalid_def split: path_classification.splits if_splits)

lemma check_changed_paths_clean:
  assumes "clean (check_changed_paths pu ps sets)"
  shows "clean sets \<and> set ps \<subseteq> set (td_touched sets) \<and>
    td_touched (check_changed_paths pu ps sets) = td_touched sets"
  using assms
proof (induction ps arbitrary: sets)
  case (Cons p ps)
  from Cons.IH [of "check_changed_path pu p sets"] Cons.prems check_changed_path_clean [of pu p sets]
  show ?case by auto
qed simp

lemma add_invalids_clean:
  "clean (add_invalids ps sets) \<longleftrightarrow> clean sets \<and> ps = []"
proof -
  have "set_add_all ps xs = [] \<longleftrightarrow> ps = [] \<and> xs = []" for xs :: "jstr list"
    by (metis Un_empty set_empty set_set_add_all)
  then show ?thesis by (auto simp: clean_def add_invalids_def)
qed

lemma td_touched_add [simp]:
  "td_touched (add_invalid p sets) = td_touched sets" "td_touched (add_invalids ps sets) = td_touched sets"
  by (simp_all add: add_invalid_def add_invalids_def)

lemma classify_snapshots_clean:
  assumes "clean (classify_snapshots pu bv av sets)"
  shows "clean sets \<and> (\<exists>b a. read_snapshot pu bv ''before'' = Some b \<and> read_snapshot pu av ''after'' = Some a \<and>
     sm_invalid b = [] \<and> sm_invalid a = [] \<and>
     set (snapshot_changed_paths (sm_entries b) (sm_entries a)) \<subseteq> set (td_touched sets))"
proof -
  from assms have "read_snapshot pu bv ''before'' \<noteq> None" "read_snapshot pu av ''after'' \<noteq> None"
    by (auto simp: classify_snapshots_def Let_def add_invalids_clean split: option.splits)
  then obtain b a where ba: "read_snapshot pu bv ''before'' = Some b" "read_snapshot pu av ''after'' = Some a"
    by blast
  with assms have "clean (check_changed_paths pu (snapshot_changed_paths (sm_entries b) (sm_entries a))
      (add_invalids (sm_invalid a) (add_invalids (sm_invalid b) sets)))"
    by (simp add: classify_snapshots_def)
  from check_changed_paths_clean [OF this] ba show ?thesis by (simp add: add_invalids_clean)
qed

lemma delta_allowed_iff:
  "tc_kind (classify_delegated_tree_delta pu v) = Delta_Allowed \<longleftrightarrow>
     is_record v \<and> (\<exists>changes. get_prop v (js ''changes'') = JArr changes \<and> clean (delta_sets_of pu v changes))"
  by (auto simp: classify_delegated_tree_delta_def tree_delta_result_def clean_def Let_def
      split: jsval.splits bool.splits)

lemma set_snapshot_changed_paths:
  "set (snapshot_changed_paths before after) = {p. map_of before p \<noteq> map_of after p}"
  by (auto simp: snapshot_changed_paths_def) (metis map_of_eq_None_iff)+

lemma delta_sets_clean:
  assumes "clean (delta_sets_of pu v changes)"
  shows "list_all ordinary_change changes \<and>
    (has_prop v (js ''before'') \<longleftrightarrow> has_prop v (js ''after'')) \<and>
    (has_prop v (js ''before'') \<longrightarrow>
       (\<exists>b a. read_snapshot pu (get_prop v (js ''before'')) ''before'' = Some b \<and>
          read_snapshot pu (get_prop v (js ''after'')) ''after'' = Some a \<and>
          sm_invalid b = [] \<and> sm_invalid a = [] \<and>
          (\<forall>p. map_of (sm_entries b) p \<noteq> map_of (sm_entries a) p \<longrightarrow>
             (\<exists>raw \<in> set changes. p \<in> named_paths raw))))"
proof -
  let ?sets = "classify_changes pu 0 changes no_paths"
  have touched: "set (td_touched ?sets) \<subseteq> (\<Union>raw \<in> set changes. named_paths raw)" if "clean ?sets"
    using classify_changes_clean [OF that] by (simp add: no_paths_def)
  show ?thesis
  proof (cases "has_prop v (js ''before'') \<and> has_prop v (js ''after'')")
    case True
    with assms have snap: "clean (classify_snapshots pu (get_prop v (js ''before'')) (get_prop v (js ''after'')) ?sets)"
      by (simp add: delta_sets_of_def)
    from classify_snapshots_clean [OF snap] obtain b a where ba: "clean ?sets"
      "read_snapshot pu (get_prop v (js ''before'')) ''before'' = Some b"
      "read_snapshot pu (get_prop v (js ''after'')) ''after'' = Some a" "sm_invalid b = []" "sm_invalid a = []"
      "{p. map_of (sm_entries b) p \<noteq> map_of (sm_entries a) p} \<subseteq> set (td_touched ?sets)"
      by (auto simp: set_snapshot_changed_paths)
    from ba(6) touched [OF ba(1)]
    have "\<forall>p. map_of (sm_entries b) p \<noteq> map_of (sm_entries a) p \<longrightarrow> (\<exists>raw \<in> set changes. p \<in> named_paths raw)"
      by blast
    with True ba classify_changes_clean [OF ba(1)] show ?thesis by blast
  next
    case False
    with assms have "has_prop v (js ''before'') = has_prop v (js ''after'')" "clean ?sets"
      by (auto simp: delta_sets_of_def Let_def split: if_splits)
    with False classify_changes_clean [of pu 0 changes no_paths] show ?thesis by blast
  qed
qed

subsection \<open>Properties\<close>

text \<open>
  C16. An admitted delegated write cannot reach the trust root.  If the admission allows a
  write, its capability is valid and of a writable kind, every change names well-formed
  relative paths that are neither the Delegator directory nor below it (both sides of a
  rename included), and every path whose entry differs between the submitted snapshots is
  named by one of those changes.
\<close>

theorem admitted_write_avoids_trust_root:
  assumes "wa_allowed (admit_delegated_write pu v)"
  shows "\<exists>claim changes. validate_capability_claim (get_prop v (js ''capability'')) (js ''$'') = Inr claim \<and>
    claim_kind claim \<in> {Change_Implement, Branch_Advance_Kind} \<and>
    get_prop (get_prop v (js ''treeDelta'')) (js ''changes'') = JArr changes \<and>
    list_all ordinary_change changes \<and>
    (has_prop (get_prop v (js ''treeDelta'')) (js ''before'') \<longrightarrow>
       (\<exists>b a. read_snapshot pu (get_prop (get_prop v (js ''treeDelta'')) (js ''before'')) ''before'' = Some b \<and>
          read_snapshot pu (get_prop (get_prop v (js ''treeDelta'')) (js ''after'')) ''after'' = Some a \<and>
          (\<forall>p. map_of (sm_entries b) p \<noteq> map_of (sm_entries a) p \<longrightarrow>
             (\<exists>raw \<in> set changes. p \<in> named_paths raw))))"
proof -
  from assms obtain claim where claim: "validate_capability_claim (get_prop v (js ''capability'')) (js ''$'') = Inr claim"
    "claim_kind claim \<in> set delegated_write_kinds"
    "tc_kind (classify_delegated_tree_delta pu (get_prop v (js ''treeDelta''))) = Delta_Allowed"
    by (auto simp: admit_delegated_write_def denied_capability_def Let_def
        split: if_splits sum.splits delta_kind.splits)
  from claim(3) obtain changes where changes: "get_prop (get_prop v (js ''treeDelta'')) (js ''changes'') = JArr changes"
    "clean (delta_sets_of pu (get_prop v (js ''treeDelta'')) changes)"
    by (auto simp: delta_allowed_iff)
  from claim(2) have "claim_kind claim \<in> {Change_Implement, Branch_Advance_Kind}"
    by (simp add: delegated_write_kinds_def)
  with claim(1) changes(1) delta_sets_clean [OF changes(2)] show ?thesis by blast
qed

definition plain_unicode :: path_unicode where
  "plain_unicode = \<lparr>pu_has_format = (\<lambda>s. False), pu_nfc = (\<lambda>s. s), pu_nfkc = (\<lambda>s. s)\<rparr>"

definition sample_write :: jsval where
  "sample_write =
     JObj [(js ''capability'', JObj [(js ''kind'', JStr (js ''change.implement'')), (js ''issue'', JNum (Integral 7))]),
           (js ''treeDelta'', JObj [(js ''changes'', JArr
              [JObj [(js ''operation'', JStr (js ''modify'')), (js ''path'', JStr (js ''a.ts''))]])])]"

lemma sample_write_path:
  "classify_repository_path plain_unicode (JStr (js ''a.ts'')) = Unprotected (js ''a.ts'')"
  by (simp add: classify_repository_path_def plain_unicode_def js_eval under_trust_root_def control_character_def
      delegator_artifact_directory_def delegator_artifact_path_prefix_def high_surrogate_def low_surrogate_def)

lemma sample_write_admitted: "wa_allowed (admit_delegated_write plain_unicode sample_write)"
proof -
  have "tc_kind (classify_delegated_tree_delta plain_unicode (get_prop sample_write (js ''treeDelta''))) = Delta_Allowed"
    by (simp add: delta_allowed_iff sample_write_def delta_sets_of_def classify_change_def no_paths_def
        is_tree_change_operation_def delegated_tree_change_operations_def add_path_classification_def
        sample_write_path clean_def)
  then show ?thesis
    by (simp add: admit_delegated_write_def sample_write_def validate_capability_claim_def capability_kind_of_def
        capability_kinds_def change_capability_kinds_def validate_change_claim_def unknown_properties_Nil
        checked_property_Nil max_issue_number_def delegated_write_kinds_def Let_def)
qed

theorem admitted_write_avoids_trust_root_witness:
  "\<exists>claim changes. validate_capability_claim (get_prop sample_write (js ''capability'')) (js ''$'') = Inr claim \<and>
    claim_kind claim \<in> {Change_Implement, Branch_Advance_Kind} \<and>
    get_prop (get_prop sample_write (js ''treeDelta'')) (js ''changes'') = JArr changes \<and>
    list_all ordinary_change changes \<and>
    (has_prop (get_prop sample_write (js ''treeDelta'')) (js ''before'') \<longrightarrow>
       (\<exists>b a. read_snapshot plain_unicode
            (get_prop (get_prop sample_write (js ''treeDelta'')) (js ''before'')) ''before'' = Some b \<and>
          read_snapshot plain_unicode
            (get_prop (get_prop sample_write (js ''treeDelta'')) (js ''after'')) ''after'' = Some a \<and>
          (\<forall>p. map_of (sm_entries b) p \<noteq> map_of (sm_entries a) p \<longrightarrow>
             (\<exists>raw \<in> set changes. p \<in> named_paths raw))))"
  by (rule admitted_write_avoids_trust_root [OF sample_write_admitted])

text \<open>
  The surrogate check misses one case: a path that ends in a lone high surrogate is
  not reported as unpaired, and is classified as an ordinary path when the normalisation
  forms leave it alone (as they do with lone surrogates), although the same unit anywhere
  else, or a lone low surrogate, is invalid.
\<close>

theorem trailing_high_surrogate_accepted:
  assumes "pu_nfc pu [97, 55296] = [97, 55296]" and "pu_nfkc pu [97, 55296] = [97, 55296]"
    and "\<not> pu_has_format pu [97, 55296]"
  shows "classify_repository_path pu (JStr [97, 55296]) = Unprotected [97, 55296] \<and>
    has_unpaired_surrogate [55296, 97] \<and> has_unpaired_surrogate [97, 56320]"
  using assms
  by (simp add: classify_repository_path_def under_trust_root_def control_character_def js_eval
      delegator_artifact_directory_def delegator_artifact_path_prefix_def high_surrogate_def low_surrogate_def)

theorem trailing_high_surrogate_accepted_witness:
  "classify_repository_path plain_unicode (JStr [97, 55296]) = Unprotected [97, 55296] \<and>
    has_unpaired_surrogate [55296, 97] \<and> has_unpaired_surrogate [97, 56320]"
  by (rule trailing_high_surrogate_accepted) (simp_all add: plain_unicode_def)

end
