(* ===== verification/Change_Diagnostics.thy ===== *)
theory Change_Diagnostics
  imports Change_Types "HOL-Library.State_Monad" "HOL-Library.Product_Lexorder"
begin

text \<open>
  The diagnostics of \<^verbatim>\<open>src/src/change.ts\<close>.  Its validators share one mutable
  array of bounded diagnostics: a validator is a computation of the state monad over that array.
  The second half is a small calculus for such computations: \<^verbatim>\<open>grows\<close> (nothing is ever
  removed from the array) and \<^verbatim>\<open>clean\<close> (started on the empty array, the computation
  returns a value and adds nothing), which turns "accepted without a diagnostic" into the
  conjunction of the checks that were made.
\<close>

subsection \<open>Bounded diagnostics\<close>

definition max_change_diagnostics :: nat where "max_change_diagnostics = 32"
definition max_diagnostic_message_length :: nat where "max_diagnostic_message_length = 240"
definition max_diagnostic_path_length :: nat where "max_diagnostic_path_length = 160"

type_synonym 'a checked = "(change_diagnostic list, 'a) state"

text \<open>The cut is marked with U+2026.\<close>

definition safe_text :: "jstr \<Rightarrow> nat \<Rightarrow> jstr" where
  "safe_text s m = (if length s \<le> m then s else take (m - 1) s @ [8230])"

text \<open>
  The codes and messages the program passes are in its vocabulary and not empty, so
  \<^verbatim>\<open>createChangeDiagnostic\<close> does not throw here: both texts have been cut before.
\<close>

definition add_diagnostic :: "string \<Rightarrow> jstr \<Rightarrow> jstr \<Rightarrow> unit checked" where
  "add_diagnostic code path message =
     State (\<lambda>ds. ((), if max_change_diagnostics \<le> length ds then ds
                     else ds @ [\<lparr>cd_code = js code, cd_path = safe_text path max_diagnostic_path_length,
                                 cd_message = safe_text message max_diagnostic_message_length\<rparr>]))"

text \<open>\<^verbatim>\<open>diagnostics.push(...result.diagnostics.slice(0, Math.max(0, MAX - length)))\<close>.\<close>

definition push_diagnostics :: "change_diagnostic list \<Rightarrow> unit checked" where
  "push_diagnostics new = State (\<lambda>ds. ((), ds @ take (max_change_diagnostics - length ds) new))"

definition diagnostic_key :: "change_diagnostic \<Rightarrow> jstr \<times> jstr \<times> jstr" where
  "diagnostic_key d = (cd_path d, cd_code d, cd_message d)"

definition diagnostic_report :: "change_diagnostic list \<Rightarrow> change_diagnostic list" where
  "diagnostic_report ds = sort_key diagnostic_key ds"

text \<open>Property paths: \<^verbatim>\<open>${path}.${key}\<close> and \<^verbatim>\<open>${path}[${index}]\<close>.\<close>

definition sub_path :: "jstr \<Rightarrow> jstr \<Rightarrow> jstr" where
  "sub_path path key = path @ [46] @ key"

definition item_path :: "jstr \<Rightarrow> nat \<Rightarrow> jstr" where
  "item_path path i = path @ [91] @ digits_of i @ [93]"

fun add_unknown :: "jstr list \<Rightarrow> jstr list \<Rightarrow> jstr \<Rightarrow> unit checked" where
  "add_unknown [] allowed path = State_Monad.return ()"
| "add_unknown (k # ks) allowed path = do {
     (if k \<in> set allowed then State_Monad.return ()
      else add_diagnostic ''CHANGE_UNKNOWN_PROPERTY'' (sub_path path k) (js ''Property is not supported.''));
     add_unknown ks allowed path
   }"

definition add_unknown_properties :: "jsval \<Rightarrow> jstr list \<Rightarrow> jstr \<Rightarrow> unit checked" where
  "add_unknown_properties v allowed path = add_unknown (sort_strings (object_keys v)) allowed path"

text \<open>A diagnostic as the last act of a failing check.\<close>

definition reject_with :: "string \<Rightarrow> jstr \<Rightarrow> jstr \<Rightarrow> 'a option checked" where
  "reject_with code path message = do { add_diagnostic code path message; State_Monad.return None }"

definition run_checks :: "'a checked \<Rightarrow> 'a \<times> change_diagnostic list" where
  "run_checks m = run_state m []"

subsection \<open>Computations that only add diagnostics\<close>

named_theorems checked \<open>growth and cleanliness of the diagnostic computations\<close>

definition grows :: "('d list, 'a) state \<Rightarrow> bool" where
  "grows m \<longleftrightarrow> (\<forall>ds. \<exists>new. snd (run_state m ds) = ds @ new)"

definition clean_run :: "('d list, 'a) state \<Rightarrow> 'a \<Rightarrow> bool" where
  "clean_run m x \<longleftrightarrow> run_state m [] = (x, [])"

lemma grows_return [checked]: "grows (State_Monad.return x)"
  by (simp add: grows_def)

lemma grows_bind [checked]: "grows m \<Longrightarrow> (\<And>x. grows (f x)) \<Longrightarrow> grows (State_Monad.bind m f)"
  unfolding grows_def by (auto split: prod.split) (metis append_assoc snd_conv)

lemma grows_get [checked]: "(\<And>x. grows (f x)) \<Longrightarrow> grows (State_Monad.bind State_Monad.get f)"
  by (simp add: grows_def)

lemma grows_if [checked]: "(b \<Longrightarrow> grows m) \<Longrightarrow> (\<not> b \<Longrightarrow> grows m') \<Longrightarrow> grows (if b then m else m')"
  by simp

lemma grows_add [checked]: "grows (add_diagnostic c p s)"
  by (simp add: grows_def add_diagnostic_def)

lemma grows_push [checked]: "grows (push_diagnostics ds)"
  by (simp add: grows_def push_diagnostics_def)

lemma grows_unknown [checked]: "grows (add_unknown ks allowed path)"
  by (induction ks) (auto intro!: checked)

lemma grows_unknown_properties [checked]: "grows (add_unknown_properties v allowed path)"
  by (simp add: add_unknown_properties_def checked)

lemma grows_reject [checked]: "grows (reject_with c p s)"
  by (auto simp: reject_with_def intro!: checked)

lemma clean_run_return [simp]: "clean_run (State_Monad.return x) y \<longleftrightarrow> x = y"
  by (simp add: clean_run_def)

lemma clean_run_add [simp]: "\<not> clean_run (add_diagnostic c p s) y"
  by (simp add: clean_run_def add_diagnostic_def max_change_diagnostics_def)

lemma clean_run_push [simp]: "clean_run (push_diagnostics ds) y \<longleftrightarrow> ds = []"
  by (simp add: clean_run_def push_diagnostics_def max_change_diagnostics_def)

lemma clean_run_bind:
  assumes "\<And>x. grows (f x)"
  shows "clean_run (State_Monad.bind m f) y \<longleftrightarrow> (\<exists>x. clean_run m x \<and> clean_run (f x) y)"
proof -
  obtain x ds where run: "run_state m [] = (x, ds)" by fastforce
  obtain new where "snd (run_state (f x) ds) = ds @ new"
    using assms [of x] by (auto simp: grows_def)
  then have "ds = []" if "run_state (f x) ds = (y, [])" using that by simp
  then show ?thesis
    using run by (auto simp: clean_run_def)
qed

lemma clean_run_reject [simp]: "\<not> clean_run (reject_with c p s) y"
  by (auto simp: reject_with_def clean_run_bind checked)

lemma clean_run_unknown [simp]: "clean_run (add_unknown ks allowed path) y \<longleftrightarrow> set ks \<subseteq> set allowed"
  by (induction ks) (auto simp: clean_run_bind checked)

lemma clean_run_unknown_properties [simp]:
  "clean_run (add_unknown_properties v allowed path) y \<longleftrightarrow> set (object_keys v) \<subseteq> set allowed"
  by (simp add: add_unknown_properties_def)

lemma clean_run_get: "clean_run (State_Monad.bind State_Monad.get f) y \<longleftrightarrow> clean_run (f []) y"
  by (simp add: clean_run_def)

lemma diagnostic_report_eq_Nil [simp]: "diagnostic_report ds = [] \<longleftrightarrow> ds = []"
  by (metis diagnostic_report_def length_0_conv length_sort)

lemma clean_run_checks: "run_checks m = (x, []) \<longleftrightarrow> clean_run m x"
  by (simp add: run_checks_def clean_run_def)

lemma run_checks_clean: "snd (run_checks m) = [] \<longleftrightarrow> clean_run m (fst (run_checks m))"
  by (metis clean_run_checks prod.collapse snd_conv)

subsection \<open>Values returned\<close>

text \<open>A property of the value a computation returns, whatever was noted before.\<close>

definition returns :: "('s, 'a) state \<Rightarrow> ('a \<Rightarrow> bool) \<Rightarrow> bool" where
  "returns m P \<longleftrightarrow> (\<forall>s. P (fst (run_state m s)))"

lemma returnsD: "returns m P \<Longrightarrow> run_state m s = (x, s') \<Longrightarrow> P x"
  by (metis fst_conv returns_def)

lemma returns_return [simp]: "returns (State_Monad.return x) P \<longleftrightarrow> P x"
  by (simp add: returns_def)

lemma returns_bind: "returns m Q \<Longrightarrow> (\<And>x. Q x \<Longrightarrow> returns (f x) P) \<Longrightarrow> returns (State_Monad.bind m f) P"
  by (auto simp: returns_def split: prod.split) (metis fst_conv)

lemma returns_any: "returns m (\<lambda>x. True)"
  by (simp add: returns_def)

lemma returns_then: "(\<And>x. returns (f x) P) \<Longrightarrow> returns (State_Monad.bind m f) P"
  by (rule returns_bind [OF returns_any])

end
