(* ===== verification/Change_Contract.thy ===== *)
theory Change_Contract
  imports Change_Diagnostics Lifecycle Branch_Naming
begin

text \<open>
  The identity and the snapshot of a Change as untrusted input:
  \<^verbatim>\<open>normalizeIssueReference\<close> and \<^verbatim>\<open>issueReferenceKey\<close> of
  \<^verbatim>\<open>src/src/contract/issue-reference.ts\<close> and the validators
  \<^verbatim>\<open>validateChangeIdentity\<close>, \<^verbatim>\<open>validateChangeProvenance\<close>,
  \<^verbatim>\<open>validateChangeProjection\<close> and \<^verbatim>\<open>validateChange\<close> of
  \<^verbatim>\<open>src/src/change.ts\<close>.  Lower-casing is computed on ASCII text; on other text it is the
  parameter \<^verbatim>\<open>lc\<close>.
\<close>

subsection \<open>Text\<close>

definition ascii_lower :: "nat \<Rightarrow> nat" where
  "ascii_lower c = (if is_upper c then c + 32 else c)"

definition to_lower :: "(jstr \<Rightarrow> jstr) \<Rightarrow> jstr \<Rightarrow> jstr" where
  "to_lower lc s = (if is_ascii s then map ascii_lower s else lc s)"

definition control_unit :: "nat \<Rightarrow> bool" where
  "control_unit c \<longleftrightarrow> c \<le> 31 \<or> c = 127"

subsection \<open>Issue references\<close>

record issue_reference =
  ir_host :: jstr
  ir_repository_id :: jstr
  ir_repository :: "jstr option"
  ir_number :: int

datatype reference_code =
    REFERENCE_NOT_OBJECT
  | REFERENCE_UNKNOWN_PROPERTY
  | REFERENCE_AMBIGUOUS
  | REFERENCE_REPOSITORY_HOST_INVALID
  | REFERENCE_REPOSITORY_ID_INVALID
  | REFERENCE_REPOSITORY_INVALID
  | REFERENCE_NUMBER_INVALID

record reference_violation =
  rv_code :: reference_code
  rv_path :: jstr
  rv_message :: jstr

definition reference_violation :: "reference_code \<Rightarrow> jstr \<Rightarrow> jstr \<Rightarrow> reference_violation" where
  "reference_violation code path message = \<lparr>rv_code = code, rv_path = path, rv_message = message\<rparr>"

definition reference_keys :: "jstr list" where
  "reference_keys = [js ''repositoryHost'', js ''repositoryId'', js ''repository'', js ''number'']"

definition unknown_reference_keys :: "jsval \<Rightarrow> jstr \<Rightarrow> reference_violation list" where
  "unknown_reference_keys v path =
     map (\<lambda>k. reference_violation REFERENCE_UNKNOWN_PROPERTY (sub_path path k)
                (js ''Reference property \"'' @ k @ js ''\" is not supported.''))
       (filter (\<lambda>k. k \<notin> set reference_keys) (object_keys v))"

fun host_value :: "jsval \<Rightarrow> jstr option" where
  "host_value (JStr s) = (if s = [] \<or> list_ex (\<lambda>c. is_white_space c \<or> c = 47) s then None else Some s)"
| "host_value _ = None"

fun repository_id_value :: "jsval \<Rightarrow> jstr option" where
  "repository_id_value (JStr (c # s)) =
     (if is_digit c \<and> c \<noteq> 48 \<and> list_all is_digit s \<and> length s \<le> 19 then Some (c # s) else None)"
| "repository_id_value _ = None"

text \<open>\<^verbatim>\<open>REPOSITORY_PATTERN\<close>: two locator words with one slash between them.\<close>

definition locator_char :: "nat \<Rightarrow> bool" where
  "locator_char c \<longleftrightarrow> is_alnum c \<or> c = 95 \<or> c = 46 \<or> c = 45"

fun locator_word :: "jstr \<Rightarrow> bool" where
  "locator_word [] = False"
| "locator_word (c # s) = (is_alnum c \<and> list_all locator_char s)"

fun repository_pattern :: "jstr list \<Rightarrow> bool" where
  "repository_pattern [owner, name] = (locator_word owner \<and> locator_word name)"
| "repository_pattern _ = False"

text \<open>An absent locator is accepted; the result carries the locator when there is one.\<close>

fun repository_value :: "jsval \<Rightarrow> (reference_code + jstr option)" where
  "repository_value JUndef = Inr None"
| "repository_value (JStr s) =
     (if repository_pattern (split_on 47 s) then Inr (Some s)
      else Inl (if s = [] then REFERENCE_REPOSITORY_INVALID else REFERENCE_AMBIGUOUS))"
| "repository_value _ = Inl REFERENCE_REPOSITORY_INVALID"

definition positive_integer :: "jsval \<Rightarrow> int option" where
  "positive_integer v = (case safe_integer v of Some n \<Rightarrow> if 1 \<le> n then Some n else None | None \<Rightarrow> None)"

definition normalize_issue_reference ::
  "(jstr \<Rightarrow> jstr) \<Rightarrow> jsval \<Rightarrow> jstr \<Rightarrow> reference_violation list + issue_reference" where
  "normalize_issue_reference lc v path =
     (if \<not> is_record v
      then Inl [reference_violation
                  (case v of JStr s \<Rightarrow> REFERENCE_AMBIGUOUS | JArr xs \<Rightarrow> REFERENCE_AMBIGUOUS
                   | _ \<Rightarrow> REFERENCE_NOT_OBJECT) path
                  (js ''Issue references must be objects containing repositoryHost, repositoryId, and number.'')]
      else
        let host = host_value (get_prop v (js ''repositoryHost''));
            rid = repository_id_value (get_prop v (js ''repositoryId''));
            repository = repository_value (get_prop v (js ''repository''));
            number = positive_integer (get_prop v (js ''number''));
            violations =
              unknown_reference_keys v path
              @ (if host = None
                 then [reference_violation REFERENCE_REPOSITORY_HOST_INVALID (sub_path path (js ''repositoryHost''))
                         (js ''repositoryHost must be a non-empty GitHub host without whitespace or path separators.'')]
                 else [])
              @ (if rid = None
                 then [reference_violation REFERENCE_REPOSITORY_ID_INVALID (sub_path path (js ''repositoryId''))
                         (js ''repositoryId must be a positive decimal REST repository database ID for this host, not an owner/name locator or URL.'')]
                 else [])
              @ (case repository of
                   Inl code \<Rightarrow>
                     [reference_violation code (sub_path path (js ''repository''))
                        (js ''repository is a display/transport locator and must be an owner/name value without a host, URL, or issue suffix.'')]
                 | Inr r \<Rightarrow> [])
              @ (if number = None
                 then [reference_violation REFERENCE_NUMBER_INVALID (sub_path path (js ''number''))
                         (js ''Issue number must be a positive safe integer.'')]
                 else [])
        in case (violations, host, rid, repository, number) of
             ([], Some h, Some i, Inr r, Some n) \<Rightarrow>
               Inr \<lparr>ir_host = to_lower lc h, ir_repository_id = i,
                    ir_repository = map_option (to_lower lc) r, ir_number = n\<rparr>
           | _ \<Rightarrow> Inl violations)"

definition issue_reference_key :: "(jstr \<Rightarrow> jstr) \<Rightarrow> issue_reference \<Rightarrow> jstr" where
  "issue_reference_key lc r =
     to_lower lc (ir_host r) @ [35] @ ir_repository_id r @ [35] @ digits_of (nat (ir_number r))"

subsection \<open>Change identity\<close>

definition max_change_host_length :: nat where "max_change_host_length = 255"
definition max_change_principal_length :: nat where "max_change_principal_length = 160"
definition max_change_branch_length :: nat where "max_change_branch_length = 255"

definition identity_keys :: "jstr list" where
  "identity_keys = [js ''repositoryHost'', js ''repositoryId'', js ''rootIssue'']"

definition identity_diagnostic_path :: "jstr \<Rightarrow> jstr \<Rightarrow> jstr" where
  "identity_diagnostic_path path source =
     (if source = sub_path path (js ''number'') then sub_path path (js ''rootIssue'') else source)"

fun identity_message :: "reference_code \<Rightarrow> jstr" where
  "identity_message REFERENCE_REPOSITORY_HOST_INVALID =
     js ''repositoryHost must be a valid non-empty host without whitespace or path separators.''"
| "identity_message REFERENCE_REPOSITORY_ID_INVALID =
     js ''repositoryId must be a positive decimal repository identity.''"
| "identity_message REFERENCE_NUMBER_INVALID = js ''rootIssue must be a positive safe integer.''"
| "identity_message _ = js ''Change identity is invalid.''"

fun add_identity_violations :: "jstr \<Rightarrow> reference_violation list \<Rightarrow> unit checked" where
  "add_identity_violations path [] = State_Monad.return ()"
| "add_identity_violations path (x # xs) = do {
     add_diagnostic ''CHANGE_INVALID_IDENTITY'' (identity_diagnostic_path path (rv_path x))
       (identity_message (rv_code x));
     add_identity_violations path xs
   }"

fun host_too_long :: "jsval \<Rightarrow> bool" where
  "host_too_long (JStr h) = (max_change_host_length < length h)"
| "host_too_long _ = False"

text \<open>The object the reference validator is called with.\<close>

definition identity_reference :: "jsval \<Rightarrow> jsval" where
  "identity_reference v =
     JObj [(js ''repositoryHost'', get_prop v (js ''repositoryHost'')),
           (js ''repositoryId'', get_prop v (js ''repositoryId'')),
           (js ''number'', get_prop v (js ''rootIssue''))]"

definition identity_checks :: "(jstr \<Rightarrow> jstr) \<Rightarrow> jsval \<Rightarrow> jstr \<Rightarrow> change_identity option checked" where
  "identity_checks lc v path =
     (if \<not> is_record v then reject_with ''CHANGE_INVALID_IDENTITY'' path (js ''Change identity must be an object.'')
      else do {
        add_unknown_properties v identity_keys path;
        (if host_too_long (get_prop v (js ''repositoryHost''))
         then add_diagnostic ''CHANGE_INVALID_IDENTITY'' (sub_path path (js ''repositoryHost''))
                (js ''repositoryHost exceeds its bound.'')
         else State_Monad.return ());
        (case normalize_issue_reference lc (identity_reference v) path of
           Inl violations \<Rightarrow> do { add_identity_violations path violations; State_Monad.return None }
         | Inr r \<Rightarrow> State_Monad.return
             (Some \<lparr>repository_host = ir_host r, repository_id = ir_repository_id r, root_issue = ir_number r\<rparr>))
      })"

text \<open>
  The result of a validator: the value when nothing was reported, the sorted report otherwise.
  \<^verbatim>\<open>result_diagnostics\<close> and \<^verbatim>\<open>result_value\<close> are the properties its callers read.
\<close>

definition validation_result :: "'a option checked \<Rightarrow> change_diagnostic list + 'a" where
  "validation_result m =
     (case run_checks m of
        (Some x, []) \<Rightarrow> Inr x
      | (_, ds) \<Rightarrow> Inl (diagnostic_report ds))"

fun result_diagnostics :: "change_diagnostic list + 'a \<Rightarrow> change_diagnostic list" where
  "result_diagnostics (Inl ds) = ds"
| "result_diagnostics (Inr x) = []"

fun result_value :: "change_diagnostic list + 'a \<Rightarrow> 'a option" where
  "result_value (Inl ds) = None"
| "result_value (Inr x) = Some x"

definition validate_change_identity ::
  "(jstr \<Rightarrow> jstr) \<Rightarrow> jsval \<Rightarrow> jstr \<Rightarrow> change_diagnostic list + change_identity" where
  "validate_change_identity lc v path = validation_result (identity_checks lc v path)"

text \<open>The validated result of another validator, its diagnostics taken over.\<close>

definition adopt :: "change_diagnostic list + 'a \<Rightarrow> 'a option checked" where
  "adopt r = do { push_diagnostics (result_diagnostics r); State_Monad.return (result_value r) }"

subsection \<open>Provenance, projection and the whole Change\<close>

definition provenance_keys :: "jstr list" where
  "provenance_keys = [js ''requester'', js ''issuer'', js ''implementer'', js ''reviewer'', js ''merger'']"

fun principal_value :: "jsval \<Rightarrow> jstr option" where
  "principal_value (JStr s) =
     (if s = [] \<or> list_all is_white_space s \<or> max_change_principal_length < length s \<or> list_ex control_unit s
      then None else Some s)"
| "principal_value _ = None"

definition role_check :: "jsval \<Rightarrow> jstr \<Rightarrow> jstr \<Rightarrow> jstr option checked" where
  "role_check v path role =
     (if \<not> has_prop v role then State_Monad.return None
      else case principal_value (get_prop v role) of
             None \<Rightarrow> reject_with ''CHANGE_INVALID_PROVENANCE'' (sub_path path role)
                       (js ''Provenance role identity is invalid.'')
           | Some s \<Rightarrow> State_Monad.return (Some s))"

definition provenance_checks :: "jsval \<Rightarrow> jstr \<Rightarrow> change_provenance option checked" where
  "provenance_checks v path =
     (if \<not> is_record v
      then reject_with ''CHANGE_INVALID_PROVENANCE'' path (js ''Change provenance must be an object.'')
      else do {
        add_unknown_properties v provenance_keys path;
        a \<leftarrow> role_check v path (js ''requester'');
        b \<leftarrow> role_check v path (js ''issuer'');
        c \<leftarrow> role_check v path (js ''implementer'');
        d \<leftarrow> role_check v path (js ''reviewer'');
        e \<leftarrow> role_check v path (js ''merger'');
        State_Monad.return (Some \<lparr>requester = a, issuer = b, implementer = c, reviewer = d, merger = e\<rparr>)
      })"

definition validate_change_provenance :: "jsval \<Rightarrow> jstr \<Rightarrow> change_diagnostic list + change_provenance" where
  "validate_change_provenance v path = validation_result (provenance_checks v path)"

fun bounded_text :: "nat \<Rightarrow> jsval \<Rightarrow> jstr option" where
  "bounded_text m (JStr s) = (if s = [] \<or> m < length s \<or> list_ex control_unit s then None else Some s)"
| "bounded_text m _ = None"

definition projection_keys :: "jstr list" where
  "projection_keys = [js ''branch'', js ''pullRequest'']"

text \<open>An own property that is checked when it is there; its value is kept when it is good.\<close>

definition optional_check :: "jsval \<Rightarrow> jstr \<Rightarrow> (jsval \<Rightarrow> 'a option) \<Rightarrow> string \<Rightarrow> jstr \<Rightarrow> jstr \<Rightarrow> 'a option checked" where
  "optional_check v key good code path message =
     (if \<not> has_prop v key then State_Monad.return None
      else case good (get_prop v key) of
             None \<Rightarrow> reject_with code (sub_path path key) message
           | Some x \<Rightarrow> State_Monad.return (Some x))"

definition projection_checks :: "jsval \<Rightarrow> jstr \<Rightarrow> change_projection option checked" where
  "projection_checks v path =
     (if \<not> is_record v
      then reject_with ''CHANGE_INVALID_PROJECTION'' path (js ''Change projection must be an object.'')
      else do {
        add_unknown_properties v projection_keys path;
        b \<leftarrow> optional_check v (js ''branch'') (bounded_text max_change_branch_length)
               ''CHANGE_INVALID_PROJECTION'' path (js ''Change branch identity is invalid.'');
        n \<leftarrow> optional_check v (js ''pullRequest'') positive_integer
               ''CHANGE_INVALID_PROJECTION'' path (js ''pullRequest must be a positive safe integer.'');
        State_Monad.return (Some \<lparr>cp_branch = b, cp_pull_request = n\<rparr>)
      })"

definition validate_change_projection :: "jsval \<Rightarrow> jstr \<Rightarrow> change_diagnostic list + change_projection" where
  "validate_change_projection v path = validation_result (projection_checks v path)"

definition change_states :: "change_state list" where
  "change_states = [DEFINED, DRAFT, REVIEW, ACCEPTED, MERGED, ABORTED, RECOVERY_REQUIRED]"

fun change_state_value :: "jsval \<Rightarrow> change_state option" where
  "change_state_value (JStr s) = find (\<lambda>st. change_state_name st = s) change_states"
| "change_state_value _ = None"

definition change_keys :: "jstr list" where
  "change_keys = [js ''version'', js ''identity'', js ''state'', js ''provenance'', js ''projection'']"

definition change_root :: jstr where "change_root = js ''$''"

definition missing_property :: "jstr \<Rightarrow> unit checked" where
  "missing_property key =
     add_diagnostic ''CHANGE_MISSING_PROPERTY'' (sub_path change_root key) (js ''Property is required.'')"

definition version_check :: "jsval \<Rightarrow> jstr \<Rightarrow> unit checked" where
  "version_check v message =
     (if \<not> has_prop v (js ''version'') then missing_property (js ''version'')
      else if get_prop v (js ''version'') \<noteq> JNum (Integral 1)
      then add_diagnostic ''CHANGE_UNSUPPORTED_VERSION'' (sub_path change_root (js ''version'')) message
      else State_Monad.return ())"

text \<open>A required own property, given to another validator.\<close>

definition required_check :: "jsval \<Rightarrow> jstr \<Rightarrow> (jsval \<Rightarrow> 'a option checked) \<Rightarrow> 'a option checked" where
  "required_check v key check =
     (if \<not> has_prop v key then do { missing_property key; State_Monad.return None }
      else check (get_prop v key))"

definition state_check :: "jsval \<Rightarrow> change_state option checked" where
  "state_check v =
     (case change_state_value v of
        None \<Rightarrow> reject_with ''CHANGE_INVALID_STATE'' (sub_path change_root (js ''state''))
                  (js ''Change lifecycle state is unsupported.'')
      | Some s \<Rightarrow> State_Monad.return (Some s))"

definition change_checks :: "(jstr \<Rightarrow> jstr) \<Rightarrow> jsval \<Rightarrow> change option checked" where
  "change_checks lc v =
     (if \<not> is_record v
      then reject_with ''CHANGE_INVALID_ROOT'' change_root (js ''Change contract must be a JSON object.'')
      else do {
        add_unknown_properties v change_keys change_root;
        version_check v (js ''Change contract version is unsupported.'');
        i \<leftarrow> required_check v (js ''identity'')
               (\<lambda>x. adopt (validate_change_identity lc x (sub_path change_root (js ''identity''))));
        s \<leftarrow> required_check v (js ''state'') state_check;
        p \<leftarrow> required_check v (js ''provenance'')
               (\<lambda>x. adopt (validate_change_provenance x (sub_path change_root (js ''provenance''))));
        r \<leftarrow> (if \<not> has_prop v (js ''projection'') then State_Monad.return None
             else adopt (validate_change_projection (get_prop v (js ''projection''))
                           (sub_path change_root (js ''projection''))));
        State_Monad.return
          (case (i, s, p) of
             (Some i, Some s, Some p) \<Rightarrow>
               Some \<lparr>ch_identity = i, ch_state = s, ch_provenance = p, ch_projection = r\<rparr>
           | _ \<Rightarrow> None)
      })"

definition validate_change :: "(jstr \<Rightarrow> jstr) \<Rightarrow> jsval \<Rightarrow> change_diagnostic list + change" where
  "validate_change lc v = validation_result (change_checks lc v)"

text \<open>The stable key of a Change: \<^verbatim>\<open>changeIdentityKey\<close>, \<open>Inl\<close> when it throws.\<close>

definition change_identity_value :: "change_identity \<Rightarrow> jsval" where
  "change_identity_value i =
     JObj [(js ''repositoryHost'', JStr (repository_host i)), (js ''repositoryId'', JStr (repository_id i)),
           (js ''rootIssue'', JNum (Integral (root_issue i)))]"

definition change_identity_key :: "(jstr \<Rightarrow> jstr) \<Rightarrow> change_identity \<Rightarrow> change_diagnostic list + jstr" where
  "change_identity_key lc i =
     on_ok (validate_change_identity lc (change_identity_value i) change_root)
       (\<lambda>c. Inr (issue_reference_key lc
                   \<lparr>ir_host = repository_host c, ir_repository_id = repository_id c, ir_repository = None,
                    ir_number = root_issue c\<rparr>))"

subsection \<open>Accepted input\<close>

lemma grows_optional [checked]: "grows (optional_check v key good code path message)"
  by (auto simp: optional_check_def intro!: checked split: option.split)

lemma grows_role [checked]: "grows (role_check v path role)"
  by (auto simp: role_check_def intro!: checked split: option.split)

lemma grows_adopt [checked]: "grows (adopt r)"
  by (auto simp: adopt_def intro!: checked)

lemma grows_missing [checked]: "grows (missing_property key)"
  by (auto simp: missing_property_def intro!: checked)

lemma grows_version [checked]: "grows (version_check v message)"
  by (auto simp: version_check_def intro!: checked)

lemma grows_required [checked]: "(\<And>x. grows (check x)) \<Longrightarrow> grows (required_check v key check)"
  by (auto simp: required_check_def intro!: checked)

lemma grows_state_check [checked]: "grows (state_check v)"
  by (auto simp: state_check_def intro!: checked split: option.split)

lemma grows_identity_violations [checked]: "grows (add_identity_violations path xs)"
  by (induction xs) (auto intro!: checked)

lemma clean_optional [simp]:
  "clean_run (optional_check v key good code path message) y \<longleftrightarrow>
     (if has_prop v key then y \<noteq> None \<and> good (get_prop v key) = y else y = None)"
  by (auto simp: optional_check_def split: option.split)

lemma clean_role [simp]:
  "clean_run (role_check v path role) y \<longleftrightarrow>
     (if has_prop v role then y \<noteq> None \<and> principal_value (get_prop v role) = y else y = None)"
  by (auto simp: role_check_def split: option.split)

lemma clean_adopt [simp]: "clean_run (adopt r) y \<longleftrightarrow> result_diagnostics r = [] \<and> result_value r = y"
  by (auto simp: adopt_def clean_run_bind checked)

lemma clean_missing [simp]: "\<not> clean_run (missing_property key) y"
  by (simp add: missing_property_def)

lemma clean_version [simp]:
  "clean_run (version_check v message) y \<longleftrightarrow>
     has_prop v (js ''version'') \<and> get_prop v (js ''version'') = JNum (Integral 1)"
  by (auto simp: version_check_def)

lemma clean_required [simp]:
  "clean_run (required_check v key check) y \<longleftrightarrow> has_prop v key \<and> clean_run (check (get_prop v key)) y"
  by (auto simp: required_check_def clean_run_bind checked)

lemma clean_state_check [simp]: "clean_run (state_check v) y \<longleftrightarrow> y \<noteq> None \<and> change_state_value v = y"
  by (auto simp: state_check_def split: option.split)

lemma clean_identity_violations [simp]: "clean_run (add_identity_violations path xs) y \<longleftrightarrow> xs = []"
  by (cases xs) (auto simp: clean_run_bind checked)

lemma validation_result_Inr: "validation_result m = Inr x \<longleftrightarrow> clean_run m (Some x)"
  by (auto simp: validation_result_def clean_run_checks [symmetric] split: prod.splits option.splits list.splits)

lemma validation_result_Inl_Nil: "validation_result m = Inl [] \<longleftrightarrow> clean_run m None"
  by (auto simp: validation_result_def clean_run_checks [symmetric] split: prod.splits option.splits list.splits)

lemma result_diagnostics_Nil: "result_diagnostics r = [] \<Longrightarrow> r \<noteq> Inl [] \<Longrightarrow> \<exists>x. r = Inr x"
  by (cases r) auto

lemma result_value_Some [simp]: "result_value r = Some x \<longleftrightarrow> r = Inr x"
  by (cases r) auto

lemma add_diagnostic_run: "length ds < 32 \<Longrightarrow> snd (run_state (add_diagnostic c p m) ds) \<noteq> []"
  by (simp add: add_diagnostic_def max_change_diagnostics_def)

text \<open>What the validators accept.\<close>

lemma unknown_reference_keys_Nil:
  "unknown_reference_keys v path = [] \<longleftrightarrow> set (object_keys v) \<subseteq> set reference_keys"
  by (auto simp: unknown_reference_keys_def filter_empty_conv)

lemma normalize_issue_reference_Inr:
  "normalize_issue_reference lc v path = Inr r \<longleftrightarrow>
     is_record v \<and> set (object_keys v) \<subseteq> set reference_keys \<and>
     (\<exists>h i rp n. host_value (get_prop v (js ''repositoryHost'')) = Some h \<and>
        repository_id_value (get_prop v (js ''repositoryId'')) = Some i \<and>
        repository_value (get_prop v (js ''repository'')) = Inr rp \<and>
        positive_integer (get_prop v (js ''number'')) = Some n \<and>
        r = \<lparr>ir_host = to_lower lc h, ir_repository_id = i, ir_repository = map_option (to_lower lc) rp,
             ir_number = n\<rparr>)"
  unfolding unknown_reference_keys_Nil [of v path, symmetric]
  by (auto simp: normalize_issue_reference_def Let_def split: option.splits sum.splits list.splits if_splits)

lemma normalize_issue_reference_violations: "normalize_issue_reference lc v path \<noteq> Inl []"
  by (auto simp: normalize_issue_reference_def Let_def split: option.splits sum.splits list.splits if_splits)

lemma identity_reference_sel [simp]:
  "is_record (identity_reference v)"
  "set (object_keys (identity_reference v)) \<subseteq> set reference_keys"
  "get_prop (identity_reference v) (js ''repositoryHost'') = get_prop v (js ''repositoryHost'')"
  "get_prop (identity_reference v) (js ''repositoryId'') = get_prop v (js ''repositoryId'')"
  "get_prop (identity_reference v) (js ''repository'') = JUndef"
  "get_prop (identity_reference v) (js ''number'') = get_prop v (js ''rootIssue'')"
  by (simp_all add: identity_reference_def reference_keys_def)

lemma validate_change_identity_Inr:
  "validate_change_identity lc v path = Inr i \<longleftrightarrow>
     is_record v \<and> set (object_keys v) \<subseteq> set identity_keys \<and>
     \<not> host_too_long (get_prop v (js ''repositoryHost'')) \<and>
     (\<exists>h. host_value (get_prop v (js ''repositoryHost'')) = Some h \<and> repository_host i = to_lower lc h) \<and>
     repository_id_value (get_prop v (js ''repositoryId'')) = Some (repository_id i) \<and>
     positive_integer (get_prop v (js ''rootIssue'')) = Some (root_issue i)"
proof (cases "normalize_issue_reference lc (identity_reference v) path")
  case (Inl vs)
  then have "\<not> (\<exists>r. normalize_issue_reference lc (identity_reference v) path = Inr r)" by simp
  moreover from Inl have "vs \<noteq> []" using normalize_issue_reference_violations by metis
  ultimately show ?thesis
    using Inl unfolding normalize_issue_reference_Inr
    by (auto simp: validate_change_identity_def identity_checks_def validation_result_Inr clean_run_bind checked)
next
  case (Inr r)
  then show ?thesis
    using Inr [unfolded normalize_issue_reference_Inr]
    by (cases i)
      (auto simp: validate_change_identity_def identity_checks_def validation_result_Inr clean_run_bind checked)
qed

subsection \<open>Canonical Changes\<close>

definition opt_prop :: "string \<Rightarrow> ('a \<Rightarrow> jsval) \<Rightarrow> 'a option \<Rightarrow> (jstr \<times> jsval) list" where
  "opt_prop k f x = (case x of None \<Rightarrow> [] | Some y \<Rightarrow> [(js k, f y)])"

lemma opt_prop_simps [simp]: "opt_prop k f None = []" "opt_prop k f (Some y) = [(js k, f y)]"
  by (simp_all add: opt_prop_def)

text \<open>The plain objects of validated values, in the property order of the code.\<close>

definition provenance_value :: "change_provenance \<Rightarrow> jsval" where
  "provenance_value p = JObj (opt_prop ''requester'' JStr (requester p) @ opt_prop ''issuer'' JStr (issuer p)
     @ opt_prop ''implementer'' JStr (implementer p) @ opt_prop ''reviewer'' JStr (reviewer p)
     @ opt_prop ''merger'' JStr (merger p))"

definition projection_value :: "change_projection \<Rightarrow> jsval" where
  "projection_value p = JObj (opt_prop ''branch'' JStr (cp_branch p)
     @ opt_prop ''pullRequest'' (\<lambda>n. JNum (Integral n)) (cp_pull_request p))"

definition change_value :: "change \<Rightarrow> jsval" where
  "change_value c = JObj ([(js ''version'', JNum (Integral 1)), (js ''identity'', change_identity_value (ch_identity c)),
     (js ''state'', JStr (change_state_name (ch_state c))), (js ''provenance'', provenance_value (ch_provenance c))]
     @ opt_prop ''projection'' projection_value (ch_projection c))"

text \<open>The identities the validator returns for ASCII hosts.\<close>

definition wf_identity :: "change_identity \<Rightarrow> bool" where
  "wf_identity i \<longleftrightarrow>
     repository_host i \<noteq> [] \<and> is_ascii (repository_host i) \<and> length (repository_host i) \<le> max_change_host_length \<and>
     list_all (\<lambda>c. \<not> is_upper c \<and> \<not> is_white_space c \<and> c \<noteq> 47) (repository_host i) \<and>
     repository_id_value (JStr (repository_id i)) = Some (repository_id i) \<and>
     1 \<le> root_issue i \<and> root_issue i \<le> max_safe_integer"

definition wf_principal :: "jstr option \<Rightarrow> bool" where
  "wf_principal x \<longleftrightarrow> (case x of None \<Rightarrow> True | Some s \<Rightarrow> principal_value (JStr s) = Some s)"

definition wf_change :: "change \<Rightarrow> bool" where
  "wf_change c \<longleftrightarrow> wf_identity (ch_identity c) \<and>
     list_all wf_principal [requester (ch_provenance c), issuer (ch_provenance c), implementer (ch_provenance c),
                            reviewer (ch_provenance c), merger (ch_provenance c)] \<and>
     (case ch_projection c of None \<Rightarrow> True
      | Some p \<Rightarrow> (case cp_branch p of None \<Rightarrow> True
                   | Some b \<Rightarrow> b \<noteq> [] \<and> length b \<le> max_change_branch_length \<and> list_all (\<lambda>u. \<not> control_unit u) b) \<and>
                  (case cp_pull_request p of None \<Rightarrow> True
                   | Some n \<Rightarrow> 1 \<le> n \<and> n \<le> max_safe_integer))"

lemma positive_integer_Some:
  "positive_integer v = Some n \<Longrightarrow> 1 \<le> n \<and> n \<le> max_safe_integer"
  using safe_integer_bound [of v n] by (auto simp: positive_integer_def split: option.splits if_splits)

lemma positive_integer_value [simp]:
  "positive_integer (JNum (Integral n)) = (if 1 \<le> n \<and> n \<le> max_safe_integer then Some n else None)"
  by (auto simp: positive_integer_def)

lemma principal_value_Some: "principal_value v = Some s \<Longrightarrow> principal_value (JStr s) = Some s"
  by (cases v) (auto split: if_splits)

lemma repository_id_value_Some: "repository_id_value v = Some s \<Longrightarrow> repository_id_value (JStr s) = Some s"
  by (cases v rule: repository_id_value.cases) (auto split: if_splits)

lemma ascii_lower_unit:
  assumes "c < 128"
  shows "ascii_lower c < 128 \<and> \<not> is_upper (ascii_lower c) \<and>
    (is_white_space (ascii_lower c) \<longleftrightarrow> is_white_space c) \<and> (ascii_lower c = 47 \<longleftrightarrow> c = 47)"
  using assms by (auto simp: ascii_lower_def is_upper_def is_white_space_def)

lemma to_lower_host:
  assumes "is_ascii h" and "host_value (JStr h) = Some h"
  shows "is_ascii (to_lower lc h)" "to_lower lc h \<noteq> []" "length (to_lower lc h) = length h"
    "list_all (\<lambda>c. \<not> is_upper c \<and> \<not> is_white_space c \<and> c \<noteq> 47) (to_lower lc h)"
  using assms ascii_lower_unit
  by (auto simp: to_lower_def is_ascii_def list_all_iff list_ex_iff split: if_splits)

lemma to_lower_idem: "is_ascii h \<Longrightarrow> list_all (\<lambda>c. \<not> is_upper c) h \<Longrightarrow> to_lower lc h = h"
  by (simp add: to_lower_def map_idI ascii_lower_def list_all_iff)

lemma host_value_Some: "host_value v = Some h \<Longrightarrow> v = JStr h"
  by (cases v) (auto split: if_splits)

lemma validated_identity_wf:
  assumes "validate_change_identity lc v path = Inr i"
    and "get_prop v (js ''repositoryHost'') = JStr h" and "is_ascii h"
  shows "wf_identity i"
proof -
  from assms(1,2) have i: "host_value (JStr h) = Some h" "length h \<le> max_change_host_length"
      "repository_host i = to_lower lc h"
    by (auto simp: validate_change_identity_Inr split: if_splits)
  moreover from assms(1) have "repository_id_value (JStr (repository_id i)) = Some (repository_id i)"
    by (auto simp: validate_change_identity_Inr dest: repository_id_value_Some)
  moreover from assms(1) have "1 \<le> root_issue i \<and> root_issue i \<le> max_safe_integer"
    using positive_integer_Some by (auto simp: validate_change_identity_Inr)
  ultimately show ?thesis
    using to_lower_host [OF assms(3) i(1), of lc] by (simp add: wf_identity_def)
qed

lemma change_identity_value_sel [simp]:
  "is_record (change_identity_value i)"
  "set (object_keys (change_identity_value i)) \<subseteq> set identity_keys"
  "get_prop (change_identity_value i) (js ''repositoryHost'') = JStr (repository_host i)"
  "get_prop (change_identity_value i) (js ''repositoryId'') = JStr (repository_id i)"
  "get_prop (change_identity_value i) (js ''rootIssue'') = JNum (Integral (root_issue i))"
  by (simp_all add: change_identity_value_def identity_keys_def)

lemma wf_identity_validates:
  assumes "wf_identity i"
  shows "validate_change_identity lc (change_identity_value i) path = Inr i"
proof -
  have "list_all (\<lambda>c. \<not> is_upper c) (repository_host i)"
    using assms by (simp add: wf_identity_def list_all_iff)
  then have "to_lower lc (repository_host i) = repository_host i"
    using assms by (simp add: wf_identity_def to_lower_idem)
  then show ?thesis
    using assms by (auto simp: validate_change_identity_Inr wf_identity_def list_all_iff list_ex_iff)
qed

lemma validate_change_provenance_Inr:
  "validate_change_provenance v path = Inr p \<longleftrightarrow>
     is_record v \<and> set (object_keys v) \<subseteq> set provenance_keys \<and>
     list_all (\<lambda>(k, x). if has_prop v k then x \<noteq> None \<and> principal_value (get_prop v k) = x else x = None)
       (zip provenance_keys [requester p, issuer p, implementer p, reviewer p, merger p])"
  by (cases p)
    (auto simp: validate_change_provenance_def provenance_checks_def validation_result_Inr clean_run_bind checked
       provenance_keys_def)

lemma validate_change_projection_Inr:
  "validate_change_projection v path = Inr p \<longleftrightarrow>
     is_record v \<and> set (object_keys v) \<subseteq> set projection_keys \<and>
     (if has_prop v (js ''branch'')
      then cp_branch p \<noteq> None \<and> bounded_text max_change_branch_length (get_prop v (js ''branch'')) = cp_branch p
      else cp_branch p = None) \<and>
     (if has_prop v (js ''pullRequest'')
      then cp_pull_request p \<noteq> None \<and> positive_integer (get_prop v (js ''pullRequest'')) = cp_pull_request p
      else cp_pull_request p = None)"
  by (cases p)
    (auto simp: validate_change_projection_def projection_checks_def validation_result_Inr clean_run_bind checked)

lemma projection_result_value:
  "result_diagnostics (validate_change_projection v path) = [] \<longleftrightarrow>
     (\<exists>p. validate_change_projection v path = Inr p)"
proof -
  have "validate_change_projection v path \<noteq> Inl []"
    by (auto simp: validate_change_projection_def projection_checks_def validation_result_Inl_Nil clean_run_bind checked)
  then show ?thesis using result_diagnostics_Nil by auto
qed

lemma validate_change_Inr:
  "validate_change lc v = Inr c \<longleftrightarrow>
     is_record v \<and> set (object_keys v) \<subseteq> set change_keys \<and> has_prop v (js ''version'') \<and>
     get_prop v (js ''version'') = JNum (Integral 1) \<and>
     has_prop v (js ''identity'') \<and>
     validate_change_identity lc (get_prop v (js ''identity'')) (sub_path change_root (js ''identity'')) = Inr (ch_identity c) \<and>
     has_prop v (js ''state'') \<and> change_state_value (get_prop v (js ''state'')) = Some (ch_state c) \<and>
     has_prop v (js ''provenance'') \<and>
     validate_change_provenance (get_prop v (js ''provenance'')) (sub_path change_root (js ''provenance''))
       = Inr (ch_provenance c) \<and>
     (if has_prop v (js ''projection'')
      then \<exists>p. ch_projection c = Some p \<and>
             validate_change_projection (get_prop v (js ''projection'')) (sub_path change_root (js ''projection'')) = Inr p
      else ch_projection c = None)"
  by (cases c; cases "has_prop v (js ''projection'')")
    (auto simp: validate_change_def change_checks_def validation_result_Inr clean_run_bind checked
       projection_result_value split: option.splits)

lemma has_prop_value [simp]:
  "has_prop (JObj (kvs @ kvs')) k \<longleftrightarrow> has_prop (JObj kvs) k \<or> has_prop (JObj kvs') k"
  by auto

lemma wf_provenance_validates:
  assumes "list_all wf_principal [requester p, issuer p, implementer p, reviewer p, merger p]"
  shows "validate_change_provenance (provenance_value p) path = Inr p"
  using assms unfolding validate_change_provenance_Inr
  by (cases "requester p"; cases "issuer p"; cases "implementer p"; cases "reviewer p"; cases "merger p")
    (simp_all add: provenance_value_def provenance_keys_def wf_principal_def)

lemma wf_projection_validates:
  assumes "case cp_branch p of None \<Rightarrow> True
     | Some b \<Rightarrow> b \<noteq> [] \<and> length b \<le> max_change_branch_length \<and> list_all (\<lambda>u. \<not> control_unit u) b"
    and "case cp_pull_request p of None \<Rightarrow> True | Some n \<Rightarrow> 1 \<le> n \<and> n \<le> max_safe_integer"
  shows "validate_change_projection (projection_value p) path = Inr p"
  using assms unfolding validate_change_projection_Inr
  by (cases "cp_branch p"; cases "cp_pull_request p")
    (auto simp: projection_value_def projection_keys_def list_all_iff list_ex_iff)

lemma find_change_state [simp]: "find (\<lambda>st. change_state_name st = change_state_name s) change_states = Some s"
  by (cases s) (simp_all add: change_states_def)

lemma wf_change_validates:
  assumes "wf_change c"
  shows "validate_change lc (change_value c) = Inr c"
  using assms wf_identity_validates [of "ch_identity c"] wf_provenance_validates [of "ch_provenance c"]
    wf_projection_validates
  by (cases "ch_projection c")
    (auto simp: validate_change_Inr wf_change_def change_value_def change_keys_def)

lemma wf_principal_role:
  "if b then x \<noteq> None \<and> principal_value u = x else x = None \<Longrightarrow> wf_principal x"
  by (auto simp: wf_principal_def dest: principal_value_Some split: if_splits option.splits)

lemma validated_change_wf:
  assumes "validate_change lc v = Inr c"
    and "get_prop (get_prop v (js ''identity'')) (js ''repositoryHost'') = JStr h" and "is_ascii h"
  shows "wf_change c"
proof -
  note v = assms(1) [unfolded validate_change_Inr]
  have "wf_identity (ch_identity c)"
    using v validated_identity_wf [OF _ assms(2,3)] by blast
  moreover have "list_all wf_principal [requester (ch_provenance c), issuer (ch_provenance c),
      implementer (ch_provenance c), reviewer (ch_provenance c), merger (ch_provenance c)]"
    using v by (simp add: validate_change_provenance_Inr provenance_keys_def) (blast intro: wf_principal_role)
  moreover have "cp_branch p = Some b \<Longrightarrow> b \<noteq> [] \<and> length b \<le> max_change_branch_length \<and> list_all (\<lambda>u. \<not> control_unit u) b"
    if "ch_projection c = Some p" for p b
    using v that by (auto simp: validate_change_projection_Inr list_all_iff list_ex_iff split: if_splits
        elim!: bounded_text.elims)
  moreover have "cp_pull_request p = Some n \<Longrightarrow> 1 \<le> n \<and> n \<le> max_safe_integer"
    if "ch_projection c = Some p" for p n
    using v that positive_integer_Some by (auto simp: validate_change_projection_Inr split: if_splits)
  ultimately show ?thesis
    by (simp add: wf_change_def split: option.split)
qed

text \<open>The identity key separates its three fields.\<close>

lemma take_until: "d \<notin> set n \<Longrightarrow> takeWhile (\<lambda>x. x \<noteq> d) (n @ d # s) = n"
  by (induction n) auto

lemma drop_until: "d \<notin> set n \<Longrightarrow> dropWhile (\<lambda>x. x \<noteq> d) (n @ d # s) = d # s"
  by (induction n) auto

lemma last_separator:
  assumes "d \<notin> set n" and "d \<notin> set m"
  shows "s @ d # n = t @ d # m \<longleftrightarrow> s = t \<and> n = m"
proof
  assume "s @ d # n = t @ d # m"
  then have eq: "rev n @ d # rev s = rev m @ d # rev t"
    by (metis append.assoc append_Cons append_Nil rev.simps(2) rev_append)
  with assms have "rev n = rev m" "d # rev s = d # rev t"
    by (metis set_rev take_until, metis set_rev drop_until)
  then show "s = t \<and> n = m" by simp
qed simp

lemma repository_id_no_hash: "repository_id_value v = Some s \<Longrightarrow> 35 \<notin> set s"
proof -
  assume "repository_id_value v = Some s"
  then have "list_all is_digit s"
    by (cases v rule: repository_id_value.cases) (auto split: if_splits)
  then show ?thesis by (auto simp: list_all_iff is_digit_def)
qed

lemma digits_no_hash: "35 \<notin> set (digits_of n)"
  using digits_of_is_digit [of 35 n] by (auto simp: is_digit_def)

lemma digits_of_inject: "digits_of m = digits_of n \<longleftrightarrow> m = n"
  by (metis number_of_digits_of)

lemma change_identity_key_Inr:
  assumes "change_identity_key lc i = Inr k"
  shows "k = to_lower lc (to_lower lc (repository_host i)) @ 35 # repository_id i @ 35 # digits_of (nat (root_issue i))"
    and "35 \<notin> set (repository_id i)" and "1 \<le> root_issue i"
proof -
  from assms obtain c where c: "validate_change_identity lc (change_identity_value i) change_root = Inr c"
      and k: "k = issue_reference_key lc \<lparr>ir_host = repository_host c, ir_repository_id = repository_id c,
        ir_repository = None, ir_number = root_issue c\<rparr>"
    by (auto simp: change_identity_key_def)
  from c have i: "repository_host c = to_lower lc (repository_host i)" "root_issue c = root_issue i"
      "repository_id c = repository_id i" "1 \<le> root_issue i"
      "repository_id_value (JStr (repository_id i)) = Some (repository_id i)"
    by (auto simp: validate_change_identity_Inr dest: host_value_Some repository_id_value_Some split: if_splits
        elim!: repository_id_value.elims)
  show "35 \<notin> set (repository_id i)" using repository_id_no_hash [OF i(5)] .
  show "k = to_lower lc (to_lower lc (repository_host i)) @ 35 # repository_id i @ 35 # digits_of (nat (root_issue i))"
    and "1 \<le> root_issue i"
    using i k by (simp_all add: issue_reference_key_def)
qed

subsection \<open>Properties\<close>

text \<open>
  C17. A Change accepted from an untrusted value is canonical: its identity, provenance and
  projection are within the bounds of the contract, and its plain object is accepted again as the
  same Change, so storing and reading a Change loses nothing.  (The host is ASCII text; on other text
  lower-casing can leave the contract, for instance by exceeding the length bound.)
\<close>

theorem validated_change_canonical:
  assumes "validate_change lc v = Inr c"
    and "get_prop (get_prop v (js ''identity'')) (js ''repositoryHost'') = JStr h" and "is_ascii h"
  shows "wf_change c \<and> validate_change lc (change_value c) = Inr c"
  using validated_change_wf [OF assms] wf_change_validates by blast

definition sample_identity :: change_identity where
  "sample_identity = \<lparr>repository_host = js ''github.com'', repository_id = js ''42'', root_issue = 7\<rparr>"

definition sample_governed_change :: change where
  "sample_governed_change =
     \<lparr>ch_identity = sample_identity, ch_state = DRAFT,
      ch_provenance = \<lparr>requester = Some (js ''alice''), issuer = Some (js ''inari''), implementer = None,
                       reviewer = None, merger = None\<rparr>,
      ch_projection = Some \<lparr>cp_branch = Some (js ''feat/7-x''), cp_pull_request = Some 8\<rparr>\<rparr>"

lemma wf_sample_identity: "wf_identity sample_identity"
  by (simp add: wf_identity_def sample_identity_def max_change_host_length_def max_safe_integer_def js_eval
      char_class is_white_space_def)

lemma wf_sample_change: "wf_change sample_governed_change"
  by (simp add: wf_change_def wf_sample_identity sample_governed_change_def wf_principal_def
      max_change_branch_length_def max_change_principal_length_def max_safe_integer_def js_eval
      is_white_space_def control_unit_def)

theorem validated_change_canonical_witness:
  "wf_change sample_governed_change \<and>
   validate_change (\<lambda>s. s) (change_value sample_governed_change) = Inr sample_governed_change"
proof (rule validated_change_canonical)
  show "validate_change (\<lambda>s. s) (change_value sample_governed_change) = Inr sample_governed_change"
    by (rule wf_change_validates [OF wf_sample_change])
  show "get_prop (get_prop (change_value sample_governed_change) (js ''identity'')) (js ''repositoryHost'') =
      JStr (js ''github.com'')"
    by (simp add: change_value_def sample_governed_change_def sample_identity_def)
  show "is_ascii (js ''github.com'')" by (simp add: js_eval)
qed

text \<open>
  The key under which a Change is stored identifies it: two identities that have a key have the
  same key exactly when they agree on the repository id, on the root Issue and on the normalised host;
  no choice of host text makes the keys of different Issues collide.
\<close>

theorem change_identity_key_injective:
  assumes "change_identity_key lc i = Inr k" and "change_identity_key lc j = Inr l"
  shows "k = l \<longleftrightarrow> repository_id i = repository_id j \<and> root_issue i = root_issue j \<and>
    to_lower lc (to_lower lc (repository_host i)) = to_lower lc (to_lower lc (repository_host j))"
proof -
  note i = change_identity_key_Inr [OF assms(1)] and j = change_identity_key_Inr [OF assms(2)]
  have "k = l \<longleftrightarrow>
      to_lower lc (to_lower lc (repository_host i)) @ 35 # repository_id i
        = to_lower lc (to_lower lc (repository_host j)) @ 35 # repository_id j \<and>
      digits_of (nat (root_issue i)) = digits_of (nat (root_issue j))"
    using last_separator [OF digits_no_hash digits_no_hash,
        of "to_lower lc (to_lower lc (repository_host i)) @ 35 # repository_id i" "nat (root_issue i)"
          "to_lower lc (to_lower lc (repository_host j)) @ 35 # repository_id j" "nat (root_issue j)"]
    by (simp add: i(1) j(1))
  then show ?thesis
    using i(3) j(3) by (auto simp: digits_of_inject last_separator [OF i(2) j(2)])
qed

theorem change_identity_key_injective_witness:
  "js ''github.com#42#7'' = js ''github.com#42#8'' \<longleftrightarrow>
     repository_id sample_identity = repository_id (sample_identity\<lparr>root_issue := 8\<rparr>) \<and>
     root_issue sample_identity = root_issue (sample_identity\<lparr>root_issue := 8\<rparr>) \<and>
     to_lower id (to_lower id (repository_host sample_identity)) =
       to_lower id (to_lower id (repository_host (sample_identity\<lparr>root_issue := 8\<rparr>)))"
proof -
  have wf: "wf_identity (sample_identity\<lparr>root_issue := 8\<rparr>)"
    using wf_sample_identity by (simp add: wf_identity_def max_safe_integer_def)
  have "change_identity_key id sample_identity = Inr (js ''github.com#42#7'')"
    by (simp add: change_identity_key_def wf_identity_validates [OF wf_sample_identity] issue_reference_key_def)
      (simp add: sample_identity_def to_lower_def js_eval ascii_lower_def char_class digits_of.simps)
  moreover have "change_identity_key id (sample_identity\<lparr>root_issue := 8\<rparr>) = Inr (js ''github.com#42#8'')"
    by (simp add: change_identity_key_def wf_identity_validates [OF wf] issue_reference_key_def)
      (simp add: sample_identity_def to_lower_def js_eval ascii_lower_def char_class digits_of.simps)
  ultimately show ?thesis by (rule change_identity_key_injective)
qed

end
