(* ===== verification/Change_Projection.thy ===== *)
theory Change_Projection
  imports Change_Contract "HOL-Library.Option_ord" "HOL-Library.Multiset"
begin

text \<open>
  \<^verbatim>\<open>projectChangeFromGitHubEvidence\<close> of \<^verbatim>\<open>src/src/change.ts\<close>: the canonical
  branch of a Change, the bounded reading of Issue, branch and pull-request evidence, the
  classification of the candidates and the projected state, with the two classifications abort uses
  (\<^verbatim>\<open>classifyChangeAbortRecovery\<close>, \<^verbatim>\<open>isChangeAbortCleanupComplete\<close>).  The
  validators of semantic branch plans, of repository branch evidence and of branch governance, and the
  regular expression of a governance pattern, are parameters (\<^verbatim>\<open>branch_authority\<close>).
\<close>

subsection \<open>The canonical branch\<close>

record branch_authority =
  ba_plan :: "jsval \<Rightarrow> (jstr \<times> jstr) list + (jstr \<times> jstr)"
  ba_evidence :: "jsval \<Rightarrow> change_identity \<Rightarrow> (string \<times> jstr) + (jstr \<times> jstr)"
  ba_governance :: "jsval \<Rightarrow> (jstr \<times> jstr) + jstr option"
  ba_pattern :: "jstr \<Rightarrow> jstr \<Rightarrow> jstr + bool"

text \<open>A valid semantic branch plan gives its desired name and source, an invalid one its violations.\<close>

fun add_plan_violations :: "jstr \<Rightarrow> (jstr \<times> jstr) list \<Rightarrow> unit checked" where
  "add_plan_violations path [] = State_Monad.return ()"
| "add_plan_violations path ((vpath, message) # vs) = do {
     add_diagnostic ''CHANGE_INVALID_BRANCH_INPUT''
       (path @ (if vpath = js ''$'' then [] else drop 1 vpath)) (js ''Semantic Branch plan is invalid: '' @ message);
     add_plan_violations path vs
   }"

definition consumed_branch_plan :: "branch_authority \<Rightarrow> jsval \<Rightarrow> jstr \<Rightarrow> (jstr \<times> jstr) option checked" where
  "consumed_branch_plan ba v path =
     (case ba_plan ba v of
        Inr plan \<Rightarrow> State_Monad.return (Some plan)
      | Inl [] \<Rightarrow> reject_with ''CHANGE_INVALID_BRANCH_INPUT'' path (js ''Semantic Branch plan is invalid.'')
      | Inl vs \<Rightarrow> do { add_plan_violations path vs; State_Monad.return None })"

definition consumed_branch_evidence ::
  "branch_authority \<Rightarrow> jsval \<Rightarrow> change_identity \<Rightarrow> (jstr \<times> jstr) option checked" where
  "consumed_branch_evidence ba v i =
     (case ba_evidence ba v i of
        Inr e \<Rightarrow> State_Monad.return (Some e)
      | Inl (code, message) \<Rightarrow> reject_with code (js ''$.branchEvidence'') message)"

text \<open>The compatibility derivation: identity, governance, naming, and the branch name rule.\<close>

definition naming_property :: "jsval \<Rightarrow> jstr \<Rightarrow> jstr \<Rightarrow> unit checked" where
  "naming_property v key message =
     (let path = sub_path (js ''$.naming'') key in
      if \<not> has_prop v key
      then add_diagnostic ''CHANGE_MISSING_PROPERTY'' path (js ''Property is required.'')
      else case get_prop v key of
             JStr s \<Rightarrow>
               if s = [] \<or> list_ex control_unit s then add_diagnostic ''CHANGE_INVALID_BRANCH_INPUT'' path message
               else State_Monad.return ()
           | _ \<Rightarrow> add_diagnostic ''CHANGE_INVALID_BRANCH_INPUT'' path message)"

definition naming_paths :: "jstr list" where
  "naming_paths = [js ''$.naming.type'', js ''$.naming.slug'']"

definition canonical_branch_naming :: "jsval \<Rightarrow> branch_naming option checked" where
  "canonical_branch_naming v =
     (if \<not> is_record v
      then reject_with ''CHANGE_INVALID_BRANCH_INPUT'' (js ''$.naming'') (js ''Branch naming input must be an object.'')
      else do {
        add_unknown_properties v [js ''type'', js ''slug''] (js ''$.naming'');
        naming_property v (js ''type'') (js ''Branch type is invalid.'');
        naming_property v (js ''slug'') (js ''Branch slug is invalid.'');
        ds \<leftarrow> State_Monad.get;
        State_Monad.return
          (case (get_prop v (js ''type''), get_prop v (js ''slug'')) of
             (JStr t, JStr s) \<Rightarrow>
               if list_ex (\<lambda>d. cd_path d \<in> set naming_paths) ds then None
               else Some \<lparr>bn_type = t, bn_slug = s\<rparr>
           | _ \<Rightarrow> None)
      })"

definition canonical_governance :: "branch_authority \<Rightarrow> jsval \<Rightarrow> jstr option checked" where
  "canonical_governance ba v =
     (if \<not> is_record v
      then reject_with ''CHANGE_INVALID_BRANCH_GOVERNANCE'' (js ''$.branchGovernance'')
             (js ''Branch governance must be an object.'')
      else case ba_governance ba v of
             Inl (path, message) \<Rightarrow>
               reject_with ''CHANGE_INVALID_BRANCH_GOVERNANCE'' path (js ''Branch governance is invalid: '' @ message)
           | Inr None \<Rightarrow>
               reject_with ''CHANGE_INVALID_BRANCH_GOVERNANCE'' (js ''$.branchGovernance'')
                 (js ''Branch governance must declare a pattern.'')
           | Inr (Some pattern) \<Rightarrow> State_Monad.return (Some pattern))"

definition governed_branch :: "branch_authority \<Rightarrow> jstr option \<Rightarrow> jstr \<Rightarrow> jstr option checked" where
  "governed_branch ba governance branch =
     (case governance of
        None \<Rightarrow> State_Monad.return (Some branch)
      | Some pattern \<Rightarrow>
          (case ba_pattern ba pattern branch of
             Inl message \<Rightarrow>
               reject_with ''CHANGE_INVALID_BRANCH_GOVERNANCE'' (js ''$.branchGovernance.pattern'')
                 (js ''Branch governance is invalid: '' @ message)
           | Inr True \<Rightarrow> State_Monad.return (Some branch)
           | Inr False \<Rightarrow>
               reject_with ''CHANGE_BRANCH_GOVERNANCE_MISMATCH'' (js ''$.branchGovernance.pattern'')
                 (js ''Derived branch \"'' @ branch @ js ''\" does not satisfy the repository's branch governance.'')))"

definition derived_branch :: "branch_authority \<Rightarrow> change_identity \<Rightarrow> jstr option \<Rightarrow> branch_naming \<Rightarrow> jstr option checked" where
  "derived_branch ba i governance naming =
     (case derive_branch_name
             \<lparr>bp_type = bn_type naming, bp_issue = Integral (root_issue i), bp_slug = bn_slug naming\<rparr> of
        Inl message \<Rightarrow> reject_with ''CHANGE_INVALID_BRANCH_INPUT'' (js ''$.naming'') message
      | Inr branch \<Rightarrow>
          if max_change_branch_length < length branch
          then reject_with ''CHANGE_INVALID_BRANCH_INPUT'' (js ''$.naming'')
                 (js ''Derived branch exceeds its 255-character bound.'')
          else governed_branch ba governance branch)"

definition branch_identity_input :: "(jstr \<Rightarrow> jstr) \<Rightarrow> jsval \<Rightarrow> change_identity option checked" where
  "branch_identity_input lc v =
     (if is_record v \<and> has_prop v (js ''identity'')
      then do {
        c \<leftarrow> adopt (validate_change lc v);
        State_Monad.return (map_option ch_identity c)
      }
      else adopt (validate_change_identity lc v (js ''$.change'')))"

definition derivation_checks :: "(jstr \<Rightarrow> jstr) \<Rightarrow> branch_authority \<Rightarrow> jsval \<Rightarrow> jstr option checked" where
  "derivation_checks lc ba v =
     (if \<not> is_record v
      then reject_with ''CHANGE_INVALID_BRANCH_INPUT'' (js ''$'') (js ''Canonical branch derivation input must be an object.'')
      else do {
        add_unknown_properties v [js ''change'', js ''branchGovernance'', js ''naming''] (js ''$'');
        i \<leftarrow> required_check v (js ''change'') (branch_identity_input lc);
        g \<leftarrow> (if has_prop v (js ''branchGovernance'') \<and> get_prop v (js ''branchGovernance'') \<noteq> JUndef
             then canonical_governance ba (get_prop v (js ''branchGovernance''))
             else State_Monad.return None);
        n \<leftarrow> required_check v (js ''naming'') canonical_branch_naming;
        ds \<leftarrow> State_Monad.get;
        (case (ds, i, n) of
           ([], Some i, Some n) \<Rightarrow> derived_branch ba i g n
         | _ \<Rightarrow> State_Monad.return None)
      })"

definition derive_canonical_branch_identity ::
  "(jstr \<Rightarrow> jstr) \<Rightarrow> branch_authority \<Rightarrow> jsval \<Rightarrow> change_diagnostic list + jstr" where
  "derive_canonical_branch_identity lc ba v = validation_result (derivation_checks lc ba v)"

subsection \<open>Reading evidence\<close>

definition max_projection_candidates :: nat where "max_projection_candidates = 64"

definition invalid_evidence :: "jstr \<Rightarrow> jstr \<Rightarrow> 'a option checked" where
  "invalid_evidence path message = reject_with ''CHANGE_PROJECTION_INVALID_EVIDENCE'' path message"

definition projection_text :: "jsval \<Rightarrow> jstr \<Rightarrow> jstr \<Rightarrow> nat \<Rightarrow> jstr option checked" where
  "projection_text v path label m =
     (case bounded_text m v of
        None \<Rightarrow> invalid_evidence path (label @ js '' is invalid.'')
      | Some s \<Rightarrow> State_Monad.return (Some s))"

definition projection_number :: "jsval \<Rightarrow> jstr \<Rightarrow> jstr \<Rightarrow> int option checked" where
  "projection_number v path label =
     (case positive_integer v of
        None \<Rightarrow> invalid_evidence path (label @ js '' must be a positive safe integer.'')
      | Some n \<Rightarrow> State_Monad.return (Some n))"

definition hex_unit :: "nat \<Rightarrow> bool" where
  "hex_unit c \<longleftrightarrow> is_digit c \<or> (97 \<le> c \<and> c \<le> 102) \<or> (65 \<le> c \<and> c \<le> 70)"

fun commit_sha :: "jsval \<Rightarrow> jstr option" where
  "commit_sha (JStr s) = (if length s = 40 \<and> list_all hex_unit s then Some (map ascii_lower s) else None)"
| "commit_sha _ = None"

definition projection_commit_sha :: "jsval \<Rightarrow> jstr \<Rightarrow> jstr option checked" where
  "projection_commit_sha v path =
     (case commit_sha v of
        None \<Rightarrow> invalid_evidence path (js ''Commit SHA is invalid.'')
      | Some s \<Rightarrow> State_Monad.return (Some s))"

datatype 'a evidence_read = Read_Available 'a | Read_Absent | Read_Unavailable

definition unavailable_source :: "string \<Rightarrow> jstr \<Rightarrow> jstr \<Rightarrow> 'a evidence_read checked" where
  "unavailable_source code path message = do { add_diagnostic code path message; State_Monad.return Read_Unavailable }"

definition read_evidence_source ::
  "jsval \<Rightarrow> jstr \<Rightarrow> (jsval \<Rightarrow> jstr \<Rightarrow> 'a option checked) \<Rightarrow> 'a evidence_read checked" where
  "read_evidence_source v path parse =
     (if v = JUndef then unavailable_source ''CHANGE_PROJECTION_EVIDENCE_MISSING'' path (js ''Evidence is required.'')
      else if \<not> is_record v
      then unavailable_source ''CHANGE_PROJECTION_INVALID_EVIDENCE'' path (js ''Evidence source must be an object.'')
      else if get_prop v (js ''status'') = JStr (js ''absent'') then do {
        add_unknown_properties v [js ''status''] path;
        State_Monad.return Read_Absent
      }
      else if get_prop v (js ''status'') = JStr (js ''available'') then do {
        add_unknown_properties v [js ''status'', js ''value''] path;
        (if \<not> has_prop v (js ''value'')
         then unavailable_source ''CHANGE_PROJECTION_EVIDENCE_MISSING'' (sub_path path (js ''value''))
                (js ''Available evidence must contain a value.'')
         else do {
           x \<leftarrow> parse (get_prop v (js ''value'')) (sub_path path (js ''value''));
           State_Monad.return (case x of None \<Rightarrow> Read_Unavailable | Some y \<Rightarrow> Read_Available y)
         })
      }
      else if get_prop v (js ''status'') = JStr (js ''unavailable'') then do {
        add_unknown_properties v [js ''status'', js ''reason''] path;
        (if \<not> has_prop v (js ''reason'')
         then unavailable_source ''CHANGE_PROJECTION_EVIDENCE_MISSING'' (sub_path path (js ''reason''))
                (js ''Unavailable evidence must declare a reason.'')
         else case bounded_text max_diagnostic_message_length (get_prop v (js ''reason'')) of
                None \<Rightarrow> unavailable_source ''CHANGE_PROJECTION_INVALID_EVIDENCE'' (sub_path path (js ''reason''))
                          (js ''Unavailable evidence reason is invalid.'')
              | Some reason \<Rightarrow> unavailable_source ''CHANGE_PROJECTION_EVIDENCE_UNAVAILABLE'' path
                                (js ''Evidence is unavailable: '' @ reason))
      }
      else unavailable_source ''CHANGE_PROJECTION_INVALID_EVIDENCE'' (sub_path path (js ''status''))
             (js ''Evidence source status is unsupported.''))"

fun open_state_value :: "jsval \<Rightarrow> issue_state option" where
  "open_state_value (JStr s) =
     (if s = js ''open'' then Some Open_State else if s = js ''closed'' then Some Closed_State else None)"
| "open_state_value _ = None"

text \<open>Some validators compare the number of diagnostics before and after.\<close>

definition unless_grown :: "nat \<Rightarrow> 'a option \<Rightarrow> 'a option checked" where
  "unless_grown n x = do {
     ds \<leftarrow> State_Monad.get;
     State_Monad.return (if length ds \<noteq> n then None else x)
   }"

definition state_property :: "jsval \<Rightarrow> jstr \<Rightarrow> jstr \<Rightarrow> issue_state option checked" where
  "state_property v path message =
     (case open_state_value (get_prop v (js ''state'')) of
        None \<Rightarrow> invalid_evidence (sub_path path (js ''state'')) message
      | Some s \<Rightarrow> State_Monad.return (Some s))"

definition parse_issue_evidence :: "jsval \<Rightarrow> jstr \<Rightarrow> (int \<times> issue_state) option checked" where
  "parse_issue_evidence v path =
     (if \<not> is_record v then invalid_evidence path (js ''Issue evidence must be an object.'')
      else do {
        add_unknown_properties v [js ''number'', js ''state''] path;
        n \<leftarrow> projection_number (get_prop v (js ''number'')) (sub_path path (js ''number'')) (js ''Issue number'');
        s \<leftarrow> state_property v path (js ''Issue state is invalid.'');
        State_Monad.return (case (n, s) of (Some n, Some s) \<Rightarrow> Some (n, s) | _ \<Rightarrow> None)
      })"

text \<open>An own property handed to a parser with its path.\<close>

definition own_property :: "jsval \<Rightarrow> jstr \<Rightarrow> jstr \<Rightarrow> (jsval \<Rightarrow> jstr \<Rightarrow> 'a option checked) \<Rightarrow> 'a option checked" where
  "own_property v path key parse =
     (if has_prop v key then parse (get_prop v key) (sub_path path key) else State_Monad.return None)"

definition root_issue_property :: "jsval \<Rightarrow> jstr \<Rightarrow> int option checked" where
  "root_issue_property v path =
     own_property v path (js ''rootIssue'') (\<lambda>x p. projection_number x p (js ''Root Issue number''))"

definition parse_branch_evidence :: "jsval \<Rightarrow> jstr \<Rightarrow> branch_evidence option checked" where
  "parse_branch_evidence v path = do {
     before \<leftarrow> State_Monad.get;
     (if \<not> is_record v then invalid_evidence path (js ''Branch evidence must be an object.'')
      else do {
        add_unknown_properties v [js ''name'', js ''sha'', js ''rootIssue''] path;
        name \<leftarrow> projection_text (get_prop v (js ''name'')) (sub_path path (js ''name'')) (js ''Branch name'')
                  max_change_branch_length;
        sha \<leftarrow> own_property v path (js ''sha'') projection_commit_sha;
        issue \<leftarrow> root_issue_property v path;
        unless_grown (length before)
          (map_option (\<lambda>n. \<lparr>be_name = n, be_sha = sha, be_root_issue = issue\<rparr>) name)
      })
   }"

fun parse_items :: "(jsval \<Rightarrow> jstr \<Rightarrow> 'a option checked) \<Rightarrow> jstr \<Rightarrow> nat \<Rightarrow> jsval list \<Rightarrow> 'a option list checked" where
  "parse_items parse path i [] = State_Monad.return []"
| "parse_items parse path i (v # vs) = do {
     x \<leftarrow> parse v (item_path path i);
     xs \<leftarrow> parse_items parse path (Suc i) vs;
     State_Monad.return (x # xs)
   }"

definition parse_evidence_list ::
  "(jsval \<Rightarrow> jstr \<Rightarrow> 'a option checked) \<Rightarrow> ('a \<Rightarrow> 'k :: linorder) \<Rightarrow> jstr \<Rightarrow> jstr \<Rightarrow> jsval \<Rightarrow> jstr \<Rightarrow> 'a list option checked" where
  "parse_evidence_list parse key not_array too_many v path =
     (case v of
        JArr vs \<Rightarrow>
          if max_projection_candidates < length vs then invalid_evidence path too_many
          else do {
            xs \<leftarrow> parse_items parse path 0 vs;
            State_Monad.return
              (if None \<in> set xs then None else Some (sort_key key (List.map_filter id xs)))
          }
      | _ \<Rightarrow> invalid_evidence path not_array)"

definition branch_key :: "branch_evidence \<Rightarrow> jstr \<times> jstr \<times> int option" where
  "branch_key b = (be_name b, or_empty (be_sha b), be_root_issue b)"

definition parse_branch_list :: "jsval \<Rightarrow> jstr \<Rightarrow> branch_evidence list option checked" where
  "parse_branch_list =
     parse_evidence_list parse_branch_evidence branch_key (js ''Branch evidence value must be an array.'')
       (js ''At most 64 branch candidates are supported.'')"

definition boolean_property :: "jsval \<Rightarrow> jstr \<Rightarrow> jstr \<Rightarrow> jstr \<Rightarrow> bool option checked" where
  "boolean_property v path key message =
     (case get_prop v key of
        JBool b \<Rightarrow> State_Monad.return (Some b)
      | _ \<Rightarrow> invalid_evidence (sub_path path key) message)"

definition merged_property :: "jsval \<Rightarrow> jstr \<Rightarrow> issue_state option \<Rightarrow> bool option checked" where
  "merged_property v path state =
     (if has_prop v (js ''merged'')
      then boolean_property v path (js ''merged'') (js ''Pull-request merged state is invalid.'')
      else case state of
             Some Closed_State \<Rightarrow>
               reject_with ''CHANGE_PROJECTION_EVIDENCE_MISSING'' (sub_path path (js ''merged''))
                 (js ''Closed pull-request evidence must distinguish merged from aborted.'')
           | Some Open_State \<Rightarrow> State_Monad.return (Some False)
           | None \<Rightarrow> State_Monad.return None)"

definition conflict_if :: "bool \<Rightarrow> jstr \<Rightarrow> jstr \<Rightarrow> unit checked" where
  "conflict_if b path message =
     (if b then add_diagnostic ''CHANGE_PROJECTION_CONFLICT'' path message else State_Monad.return ())"

definition pull_request_keys :: "jstr list" where
  "pull_request_keys = [js ''number'', js ''head'', js ''headSha'', js ''base'', js ''state'', js ''draft'', js ''merged'',
     js ''accepted'', js ''rootIssue'', js ''provenance'']"

definition parse_pull_request_evidence :: "jsval \<Rightarrow> jstr \<Rightarrow> pull_request_evidence option checked" where
  "parse_pull_request_evidence v path = do {
     before \<leftarrow> State_Monad.get;
     (if \<not> is_record v then invalid_evidence path (js ''Pull-request evidence must be an object.'')
      else do {
        add_unknown_properties v pull_request_keys path;
        number \<leftarrow> projection_number (get_prop v (js ''number'')) (sub_path path (js ''number'')) (js ''Pull-request number'');
        head \<leftarrow> projection_text (get_prop v (js ''head'')) (sub_path path (js ''head'')) (js ''Pull-request head'')
                  max_change_branch_length;
        head_sha \<leftarrow> own_property v path (js ''headSha'') projection_commit_sha;
        base \<leftarrow> projection_text (get_prop v (js ''base'')) (sub_path path (js ''base'')) (js ''Pull-request base'')
                  max_change_branch_length;
        state \<leftarrow> state_property v path (js ''Pull-request state is invalid.'');
        draft \<leftarrow> boolean_property v path (js ''draft'') (js ''Pull-request draft state is invalid.'');
        merged \<leftarrow> merged_property v path state;
        accepted \<leftarrow> (if has_prop v (js ''accepted'')
                     then boolean_property v path (js ''accepted'') (js ''Pull-request acceptance evidence is invalid.'')
                     else State_Monad.return None);
        issue \<leftarrow> root_issue_property v path;
        provenance \<leftarrow> own_property v path (js ''provenance'') (\<lambda>x p. adopt (validate_change_provenance x p));
        conflict_if (state = Some Open_State \<and> merged = Some True) (sub_path path (js ''merged''))
          (js ''An open pull request cannot be projected as merged.'');
        conflict_if (draft = Some True \<and> accepted = Some True) (sub_path path (js ''accepted''))
          (js ''A draft pull request cannot be projected as accepted.'');
        unless_grown (length before)
          (case (number, head, base, state, draft, merged) of
             (Some n, Some h, Some b, Some s, Some d, Some m) \<Rightarrow>
               Some \<lparr>pe_number = n, pe_head = h, pe_head_sha = head_sha, pe_base = b, pe_state = s, pe_draft = d,
                     pe_merged = Some m, pe_accepted = accepted, pe_root_issue = issue, pe_provenance = provenance\<rparr>
           | _ \<Rightarrow> None)
      })
   }"

definition provenance_text :: "(change_provenance \<Rightarrow> jstr option) \<Rightarrow> pull_request_evidence \<Rightarrow> jstr" where
  "provenance_text role p = or_empty (Option.bind (pe_provenance p) role)"

text \<open>The order of \<^verbatim>\<open>compareChangePullRequestEvidence\<close> (closed sorts before open).\<close>

definition pull_request_key ::
  "pull_request_evidence \<Rightarrow> int \<times> jstr \<times> jstr \<times> jstr \<times> bool \<times> bool \<times> bool option \<times> bool option \<times> int option \<times>
     jstr \<times> jstr \<times> jstr \<times> jstr \<times> jstr" where
  "pull_request_key p =
     (pe_number p, pe_head p, or_empty (pe_head_sha p), pe_base p, pe_state p = Open_State, pe_draft p, pe_merged p,
      pe_accepted p, pe_root_issue p, provenance_text issuer p, provenance_text implementer p,
      provenance_text reviewer p, provenance_text merger p, provenance_text requester p)"

definition parse_pull_request_list :: "jsval \<Rightarrow> jstr \<Rightarrow> pull_request_evidence list option checked" where
  "parse_pull_request_list =
     parse_evidence_list parse_pull_request_evidence pull_request_key
       (js ''Pull-request evidence value must be an array.'') (js ''At most 64 pull-request candidates are supported.'')"

subsection \<open>Candidates\<close>

definition branch_occurrences :: "branch_evidence list \<Rightarrow> jstr \<Rightarrow> nat" where
  "branch_occurrences bs name = length (filter (\<lambda>b. be_name b = name) bs)"

definition classify_branch ::
  "branch_evidence list \<Rightarrow> jstr \<Rightarrow> int \<Rightarrow> branch_evidence \<Rightarrow> branch_evidence candidate" where
  "classify_branch bs canonical issue b =
     (if 1 < branch_occurrences bs (be_name b)
      then \<lparr>cand_value = b, cand_class = Conflicting,
            cand_reason = js ''The same branch candidate was reported more than once.''\<rparr>
      else if be_root_issue b \<noteq> None \<and> be_root_issue b \<noteq> Some issue
      then \<lparr>cand_value = b, cand_class = Conflicting,
            cand_reason = js ''Branch root Issue claim conflicts with the projected Change identity.''\<rparr>
      else if be_name b = canonical
      then \<lparr>cand_value = b, cand_class = Canonical, cand_reason = js ''Branch matches the derived canonical identity.''\<rparr>
      else \<lparr>cand_value = b, cand_class = Noncanonical,
            cand_reason = js ''Branch does not match the derived canonical identity.''\<rparr>)"

definition identity_matches :: "jstr \<Rightarrow> jstr \<Rightarrow> int \<Rightarrow> pull_request_evidence \<Rightarrow> bool" where
  "identity_matches canonical base issue p \<longleftrightarrow>
     pe_number p \<noteq> issue \<and> pe_head p = canonical \<and> pe_base p = base \<and>
     (pe_root_issue p = None \<or> pe_root_issue p = Some issue)"

definition number_occurrences :: "pull_request_evidence list \<Rightarrow> int \<Rightarrow> nat" where
  "number_occurrences ps n = length (filter (\<lambda>p. pe_number p = n) ps)"

definition classify_pull_request ::
  "pull_request_evidence list \<Rightarrow> jstr \<Rightarrow> jstr \<Rightarrow> int \<Rightarrow> pull_request_evidence \<Rightarrow> pull_request_evidence candidate" where
  "classify_pull_request ps canonical base issue p =
     (if 1 < number_occurrences ps (pe_number p)
      then \<lparr>cand_value = p, cand_class = Conflicting,
            cand_reason = js ''The same pull-request number was reported more than once.''\<rparr>
      else if pe_number p = issue
      then \<lparr>cand_value = p, cand_class = Conflicting,
            cand_reason = js ''The canonical pull request number must be distinct from the root Issue number.''\<rparr>
      else if pe_head p = canonical \<and> pe_base p \<noteq> base
      then \<lparr>cand_value = p, cand_class = Conflicting,
            cand_reason = js ''Pull-request base does not match the canonical base branch.''\<rparr>
      else if pe_head p = canonical \<and> pe_root_issue p \<noteq> None \<and> pe_root_issue p \<noteq> Some issue
      then \<lparr>cand_value = p, cand_class = Conflicting,
            cand_reason = js ''Pull-request root Issue claim conflicts with the projected Change identity.''\<rparr>
      else if identity_matches canonical base issue p
      then \<lparr>cand_value = p, cand_class = Canonical,
            cand_reason = js ''Pull request matches the canonical branch, base, and Change identity.''\<rparr>
      else \<lparr>cand_value = p, cand_class = Noncanonical,
            cand_reason = js ''Pull request does not match the canonical branch projection.''\<rparr>)"

definition merge_provenance :: "change_provenance \<Rightarrow> change_provenance option \<Rightarrow> change_provenance" where
  "merge_provenance base candidate =
     (case candidate of
        None \<Rightarrow> base
      | Some c \<Rightarrow>
          (let over = (\<lambda>role. case role c of None \<Rightarrow> role base | Some x \<Rightarrow> Some x) in
           \<lparr>requester = over requester, issuer = over issuer, implementer = over implementer,
            reviewer = over reviewer, merger = over merger\<rparr>))"

definition projected_change ::
  "change_identity \<Rightarrow> change_provenance \<Rightarrow> change_state \<Rightarrow> jstr option \<Rightarrow> int option \<Rightarrow> change" where
  "projected_change i p s branch n =
     \<lparr>ch_identity = i, ch_state = s, ch_provenance = p,
      ch_projection = (if branch = None \<and> n = None then None else Some \<lparr>cp_branch = branch, cp_pull_request = n\<rparr>)\<rparr>"

definition state_from_pull_request :: "pull_request_evidence \<Rightarrow> change_state" where
  "state_from_pull_request p =
     (if pe_state p = Closed_State then (if pe_merged p = Some True then MERGED else ABORTED)
      else if pe_draft p then DRAFT
      else if pe_accepted p = Some True then ACCEPTED
      else REVIEW)"

fun status_diagnostic :: "projection_status \<Rightarrow> unit checked" where
  "status_diagnostic Partial =
     add_diagnostic ''CHANGE_PROJECTION_PARTIAL'' (js ''$.evidence'')
       (js ''Canonical branch and pull request evidence do not form a complete Change projection.'')"
| "status_diagnostic Duplicate =
     add_diagnostic ''CHANGE_PROJECTION_DUPLICATE'' (js ''$.evidence'')
       (js ''More than one candidate claims the canonical Change projection.'')"
| "status_diagnostic Wrong_Base =
     add_diagnostic ''CHANGE_PROJECTION_WRONG_BASE'' (js ''$.evidence.pullRequests'')
       (js ''A canonical-branch pull request targets the wrong base branch.'')"
| "status_diagnostic Ambiguous =
     add_diagnostic ''CHANGE_PROJECTION_AMBIGUOUS'' (js ''$.evidence'')
       (js ''Multiple plausible Change candidates exist; no heuristic candidate selection is allowed.'')"
| "status_diagnostic _ = State_Monad.return ()"

subsection \<open>The projection of read evidence\<close>

text \<open>What the evidence says, once the canonical branch is fixed.\<close>

record projection_facts =
  pf_issue_known :: bool
  pf_issue_absent :: bool
  pf_ambiguous_anchor :: bool
  pf_branches :: "branch_evidence candidate list"
  pf_candidates :: "pull_request_evidence candidate list"
  pf_canonical_branches :: "branch_evidence candidate list"
  pf_canonical_pulls :: "pull_request_evidence list"
  pf_duplicate_number :: bool
  pf_wrong_base :: bool
  pf_conflicting :: bool
  pf_plausible :: nat

definition aborted_pull :: "pull_request_evidence list \<Rightarrow> bool" where
  "aborted_pull ps \<longleftrightarrow> (case ps of [p] \<Rightarrow> pe_state p = Closed_State \<and> pe_merged p = Some False | _ \<Rightarrow> False)"

definition decide_status :: "projection_facts \<Rightarrow> projection_status" where
  "decide_status f =
     (let nb = length (pf_canonical_branches f); np = length (pf_canonical_pulls f);
          aborted = aborted_pull (pf_canonical_pulls f) \<and> pf_issue_known f in
      if 1 < nb \<or> 1 < np \<or> pf_duplicate_number f then Duplicate
      else if pf_wrong_base f then Wrong_Base
      else if pf_ambiguous_anchor f then Ambiguous
      else if pf_conflicting f then Ambiguous
      else if nb = 1 \<and> np = 1 \<and> aborted then Partial
      else if nb = 0 \<and> np = 1 \<and> aborted then Healthy
      else if nb = 1 \<and> np = 1 \<and> pf_issue_known f then Healthy
      else if nb = 1 \<or> np = 1 then Partial
      else if 1 < pf_plausible f then Ambiguous
      else if pf_issue_absent f \<and> (0 < nb \<or> 0 < np) then Partial
      else Absent)"

definition anchored_names :: "int \<Rightarrow> branch_evidence list \<Rightarrow> pull_request_evidence list \<Rightarrow> jstr list" where
  "anchored_names issue bs ps =
     set_add_all (map be_name (filter (\<lambda>b. be_root_issue b = Some issue) bs)
                  @ map pe_head (filter (\<lambda>p. pe_root_issue p = Some issue) ps)) []"

definition canonical_branch_of :: "jstr option \<Rightarrow> jstr \<Rightarrow> jstr list \<Rightarrow> jstr" where
  "canonical_branch_of authority derived anchors =
     (case authority of
        Some b \<Rightarrow> b
      | None \<Rightarrow> (case anchors of [a] \<Rightarrow> a | _ \<Rightarrow> derived))"

definition ambiguous_anchors :: "jstr option \<Rightarrow> jstr \<Rightarrow> jstr list \<Rightarrow> bool" where
  "ambiguous_anchors authority canonical anchors \<longleftrightarrow>
     1 < length anchors \<or> authority \<noteq> None \<and> list_ex (\<lambda>a. a \<noteq> canonical) anchors"

definition evidence_facts ::
  "int \<Rightarrow> jstr option \<Rightarrow> jstr \<Rightarrow> jstr \<Rightarrow> (int \<times> issue_state) evidence_read \<Rightarrow> branch_evidence list \<Rightarrow>
     pull_request_evidence list \<Rightarrow> projection_facts" where
  "evidence_facts issue authority canonical base issue_read bs ps =
     (let branches = map (classify_branch bs canonical issue) bs;
          pulls = map (classify_pull_request ps canonical base issue) ps in
      \<lparr>pf_issue_known = (case issue_read of Read_Available x \<Rightarrow> True | _ \<Rightarrow> False),
       pf_issue_absent = (issue_read = Read_Absent),
       pf_ambiguous_anchor = ambiguous_anchors authority canonical (anchored_names issue bs ps),
       pf_branches = branches, pf_candidates = pulls,
       pf_canonical_branches = filter (\<lambda>c. be_name (cand_value c) = canonical) branches,
       pf_canonical_pulls = filter (identity_matches canonical base issue) ps,
       pf_duplicate_number = list_ex (\<lambda>p. pe_head p = canonical \<and> 1 < number_occurrences ps (pe_number p)) ps,
       pf_wrong_base = list_ex (\<lambda>p. pe_head p = canonical \<and> pe_base p \<noteq> base) ps,
       pf_conflicting = (list_ex (\<lambda>c. cand_class c = Conflicting) branches \<or>
                         list_ex (\<lambda>c. cand_class c = Conflicting) pulls),
       pf_plausible = length (filter (\<lambda>p. pe_root_issue p = Some issue \<and> pe_head p \<noteq> canonical) ps)\<rparr>)"

definition unavailable_result ::
  "change_diagnostic list \<Rightarrow> jstr option \<Rightarrow> jstr option \<Rightarrow> projection_result" where
  "unavailable_result ds branch base =
     \<lparr>pr_valid = False, pr_status = Unavailable, pr_canonical_branch = branch, pr_canonical_base = base,
      pr_branches = [], pr_pull_requests = [], pr_change = None, pr_diagnostics = diagnostic_report ds\<rparr>"

definition issue_mismatch :: "(int \<times> issue_state) evidence_read \<Rightarrow> int \<Rightarrow> bool" where
  "issue_mismatch r issue = (case r of Read_Available (n, s) \<Rightarrow> n \<noteq> issue | _ \<Rightarrow> False)"

definition source_list :: "'a list evidence_read \<Rightarrow> 'a list" where
  "source_list r = (case r of Read_Available xs \<Rightarrow> xs | _ \<Rightarrow> [])"

definition project_facts ::
  "change_identity \<Rightarrow> change_provenance \<Rightarrow> jstr \<Rightarrow> jstr \<Rightarrow> pull_request_evidence list \<Rightarrow> projection_facts \<Rightarrow>
     projection_result" where
  "project_facts i provenance canonical base ps f =
     (let status = decide_status f;
          result = \<lparr>pr_valid = True, pr_status = status, pr_canonical_branch = Some canonical,
                    pr_canonical_base = Some base, pr_branches = pf_branches f,
                    pr_pull_requests = pf_candidates f, pr_change = None, pr_diagnostics = []\<rparr> in
      if status = Absent
      then result\<lparr>pr_change :=
             (if pf_issue_known f then Some (projected_change i provenance DEFINED None None) else None)\<rparr>
      else
        let pull = (case pf_canonical_pulls f of [p] \<Rightarrow> Some p | _ \<Rightarrow> None);
            known = length (pf_canonical_branches f) = 1 \<or> list_ex (\<lambda>p. pe_head p = canonical) ps;
            merged = merge_provenance provenance (Option.bind pull pe_provenance);
            state = (case (status, pull) of
                       (Healthy, Some p) \<Rightarrow> state_from_pull_request p
                     | _ \<Rightarrow> RECOVERY_REQUIRED);
            ds = snd (run_checks (do {
                   conflict_if (pf_conflicting f \<and> status \<noteq> Duplicate \<and> status \<noteq> Wrong_Base) (js ''$.evidence'')
                     (js ''Conflicting candidates claim part of the canonical Change projection.'');
                   status_diagnostic status
                 }))
        in result\<lparr>pr_valid := status = Healthy,
                  pr_change := Some (projected_change i merged state (if known then Some canonical else None)
                                       (map_option pe_number pull)),
                  pr_diagnostics := diagnostic_report ds\<rparr>)"

definition project_evidence ::
  "change_identity \<Rightarrow> change_provenance \<Rightarrow> jstr option \<Rightarrow> jstr \<Rightarrow> jstr \<Rightarrow> (int \<times> issue_state) evidence_read \<Rightarrow>
     branch_evidence list \<Rightarrow> pull_request_evidence list \<Rightarrow> projection_result" where
  "project_evidence i provenance authority derived base issue_read bs ps =
     (let canonical = canonical_branch_of authority derived (anchored_names (root_issue i) bs ps);
          f = evidence_facts (root_issue i) authority canonical base issue_read bs ps in
      if issue_mismatch issue_read (root_issue i)
      then (unavailable_result
              (snd (run_checks (add_diagnostic ''CHANGE_PROJECTION_ISSUE_MISMATCH'' (js ''$.evidence.issue.number'')
                 (js ''Issue evidence does not match the projected Change root Issue.''))))
              (Some canonical) (Some base))\<lparr>pr_branches := pf_branches f, pr_pull_requests := pf_candidates f\<rparr>
      else project_facts i provenance canonical base ps f)"

subsection \<open>The projection of untrusted input\<close>

definition projection_input_keys :: "jstr list" where
  "projection_input_keys =
     [js ''change'', js ''branchPlan'', js ''branchEvidence'', js ''branchGovernance'', js ''naming'', js ''baseBranch'',
      js ''semanticPullRequestPlan'', js ''evidence'', js ''provenance'', js ''readyEvidence'', js ''governedIssue'']"

definition no_provenance :: change_provenance where
  "no_provenance = \<lparr>requester = None, issuer = None, implementer = None, reviewer = None, merger = None\<rparr>"

definition projected_identity ::
  "(jstr \<Rightarrow> jstr) \<Rightarrow> jsval \<Rightarrow> (change_identity option \<times> change_provenance) checked" where
  "projected_identity lc v =
     (let c = get_prop v (js ''change'') in
      if \<not> has_prop v (js ''change'') then do {
        missing_property (js ''change'');
        State_Monad.return (None, no_provenance)
      }
      else if is_record c \<and> has_prop c (js ''identity'') then do {
        r \<leftarrow> adopt (validate_change lc c);
        State_Monad.return (map_option ch_identity r, case r of None \<Rightarrow> no_provenance | Some x \<Rightarrow> ch_provenance x)
      }
      else do {
        i \<leftarrow> adopt (validate_change_identity lc c (js ''$.change''));
        State_Monad.return (i, no_provenance)
      })"

definition projected_provenance :: "jsval \<Rightarrow> change_provenance \<Rightarrow> change_provenance checked" where
  "projected_provenance v p =
     (if has_prop v (js ''provenance'') then do {
        r \<leftarrow> adopt (validate_change_provenance (get_prop v (js ''provenance'')) (js ''$.provenance''));
        State_Monad.return (case r of None \<Rightarrow> p | Some q \<Rightarrow> q)
      }
      else State_Monad.return p)"

definition base_branch_text :: "jsval \<Rightarrow> jstr option checked" where
  "base_branch_text v =
     projection_text (get_prop v (js ''baseBranch'')) (js ''$.baseBranch'') (js ''Canonical base branch'')
       max_change_branch_length"

definition base_mismatch_if :: "bool \<Rightarrow> jstr \<Rightarrow> unit checked" where
  "base_mismatch_if b message =
     (if b then add_diagnostic ''CHANGE_BRANCH_GOVERNANCE_MISMATCH'' (js ''$.baseBranch'') message
      else State_Monad.return ())"

text \<open>
  The three sources of the canonical branch: repository branch evidence, a semantic branch plan, and
  the compatibility derivation.  The result is the authoritative branch (none on the last path), the
  derived branch and the base.
\<close>

definition branch_from_evidence ::
  "branch_authority \<Rightarrow> jsval \<Rightarrow> change_identity option \<Rightarrow> (jstr option \<times> jstr option \<times> jstr option) checked" where
  "branch_from_evidence ba v i = do {
     e \<leftarrow> (if has_prop v (js ''branchPlan'') \<or> has_prop v (js ''naming'') \<or> has_prop v (js ''branchGovernance'')
          then reject_with ''CHANGE_INVALID_BRANCH_INPUT'' (js ''$.branchEvidence'')
                 (js ''Repository branch evidence cannot be combined with a Branch plan or legacy naming inputs.'')
          else case i of
                 None \<Rightarrow> State_Monad.return None
               | Some i \<Rightarrow> consumed_branch_evidence ba (get_prop v (js ''branchEvidence'')) i);
     base \<leftarrow> (if \<not> has_prop v (js ''baseBranch'')
             then do { missing_property (js ''baseBranch''); State_Monad.return None }
             else case e of
                    None \<Rightarrow> State_Monad.return None
                  | Some (branch, default_branch) \<Rightarrow> do {
                      base \<leftarrow> base_branch_text v;
                      base_mismatch_if (base \<noteq> None \<and> base \<noteq> Some default_branch)
                        (js ''The supplied base branch is not the default branch of the repository branch policy generation.'');
                      State_Monad.return base
                    });
     State_Monad.return (map_option fst e, map_option fst e, base)
   }"

definition branch_from_derivation ::
  "(jstr \<Rightarrow> jstr) \<Rightarrow> branch_authority \<Rightarrow> jsval \<Rightarrow> change_identity option \<Rightarrow>
     (jstr option \<times> jstr option \<times> jstr option) checked" where
  "branch_from_derivation lc ba v i = do {
     d \<leftarrow> (case i of
            None \<Rightarrow> State_Monad.return None
          | Some i \<Rightarrow>
              adopt (derive_canonical_branch_identity lc ba
                (JObj ([(js ''change'', change_identity_value i)]
                   @ (if has_prop v (js ''branchGovernance'')
                      then [(js ''branchGovernance'', get_prop v (js ''branchGovernance''))] else [])
                   @ (if has_prop v (js ''naming'') then [(js ''naming'', get_prop v (js ''naming''))] else [])))));
     base \<leftarrow> (if \<not> has_prop v (js ''baseBranch'')
             then do { missing_property (js ''baseBranch''); State_Monad.return None }
             else base_branch_text v);
     State_Monad.return (None, d, base)
   }"

definition canonical_branches ::
  "(jstr \<Rightarrow> jstr) \<Rightarrow> branch_authority \<Rightarrow> jsval \<Rightarrow> change_identity option \<Rightarrow>
     (jstr option \<times> jstr option \<times> jstr option) checked" where
  "canonical_branches lc ba v i = do {
     plan \<leftarrow> (if has_prop v (js ''branchPlan'')
             then consumed_branch_plan ba (get_prop v (js ''branchPlan'')) (js ''$.branchPlan'')
             else State_Monad.return None);
     (if has_prop v (js ''branchEvidence'') then branch_from_evidence ba v i
      else case plan of
             Some (name, source) \<Rightarrow> do {
               base_mismatch_if (has_prop v (js ''baseBranch'') \<and> get_prop v (js ''baseBranch'') \<noteq> JStr source)
                 (js ''The supplied base branch does not match the Semantic Branch plan source.'');
               State_Monad.return (Some name, Some name, Some source)
             }
           | None \<Rightarrow>
               if has_prop v (js ''branchPlan'') then State_Monad.return (None, None, None)
               else branch_from_derivation lc ba v i)
   }"

definition evidence_object :: "jsval \<Rightarrow> jsval option checked" where
  "evidence_object v =
     (let e = get_prop v (js ''evidence'') in
      if \<not> has_prop v (js ''evidence'')
      then reject_with ''CHANGE_PROJECTION_EVIDENCE_MISSING'' (js ''$.evidence'') (js ''Evidence is required.'')
      else if \<not> is_record e then invalid_evidence (js ''$.evidence'') (js ''Evidence must be an object.'')
      else do {
        add_unknown_properties e [js ''issue'', js ''branches'', js ''pullRequests''] (js ''$.evidence'');
        State_Monad.return (Some e)
      })"

definition projection_front ::
  "(jstr \<Rightarrow> jstr) \<Rightarrow> branch_authority \<Rightarrow> jsval \<Rightarrow>
     (change_identity option \<times> change_provenance \<times> (jstr option \<times> jstr option \<times> jstr option) \<times> jsval option) checked" where
  "projection_front lc ba v = do {
     add_unknown_properties v projection_input_keys (js ''$'');
     ip \<leftarrow> projected_identity lc v;
     p \<leftarrow> projected_provenance v (snd ip);
     b \<leftarrow> canonical_branches lc ba v (fst ip);
     e \<leftarrow> evidence_object v;
     State_Monad.return (fst ip, p, b, e)
   }"

definition evidence_reads ::
  "jsval \<Rightarrow> ((int \<times> issue_state) evidence_read \<times> branch_evidence list evidence_read \<times>
     pull_request_evidence list evidence_read) checked" where
  "evidence_reads e = do {
     i \<leftarrow> read_evidence_source (get_prop e (js ''issue'')) (js ''$.evidence.issue'') parse_issue_evidence;
     b \<leftarrow> read_evidence_source (get_prop e (js ''branches'')) (js ''$.evidence.branches'') parse_branch_list;
     p \<leftarrow> read_evidence_source (get_prop e (js ''pullRequests'')) (js ''$.evidence.pullRequests'') parse_pull_request_list;
     State_Monad.return (i, b, p)
   }"

definition project_change :: "(jstr \<Rightarrow> jstr) \<Rightarrow> branch_authority \<Rightarrow> jsval \<Rightarrow> projection_result" where
  "project_change lc ba v =
     (if \<not> is_record v
      then unavailable_result
             (snd (run_checks (add_diagnostic ''CHANGE_INVALID_ROOT'' (js ''$'')
                (js ''Change projection input must be a JSON object.'')))) None None
      else case run_checks (projection_front lc ba v) of
             ((Some i, provenance, (authority, Some derived, Some base), Some e), []) \<Rightarrow>
               (case run_checks (evidence_reads e) of
                  ((issue_read, branches, pulls), []) \<Rightarrow>
                    project_evidence i provenance authority derived base issue_read (source_list branches)
                      (source_list pulls)
                | (_, ds) \<Rightarrow> unavailable_result ds (Some derived) (Some base))
           | ((_, _, (_, derived, base), _), ds) \<Rightarrow> unavailable_result ds derived base)"

subsection \<open>The classifications of abort\<close>

datatype abort_recovery = Branch_Only | Closed_Pull_Request

definition classify_abort_recovery :: "projection_result \<Rightarrow> abort_recovery option" where
  "classify_abort_recovery r =
     (case (pr_change r, pr_canonical_branch r) of
        (Some c, Some canonical) \<Rightarrow>
          if pr_valid r \<or> pr_status r \<noteq> Partial \<or> ch_state c \<noteq> RECOVERY_REQUIRED then None
          else
            let branches = filter (\<lambda>x. cand_class x = Canonical \<and> be_name (cand_value x) = canonical) (pr_branches r);
                pulls = filter (\<lambda>x. cand_class x = Canonical \<and> pe_head (cand_value x) = canonical
                                  \<and> Some (pe_base (cand_value x)) = pr_canonical_base r
                                  \<and> pe_state (cand_value x) = Closed_State
                                  \<and> pe_merged (cand_value x) = Some False) (pr_pull_requests r);
                number = Option.bind (ch_projection c) cp_pull_request in
            if length branches \<noteq> 1 \<or> Option.bind (ch_projection c) cp_branch \<noteq> Some canonical then None
            else if length pulls = 1 \<and> number = Some (pe_number (cand_value (hd pulls))) then Some Closed_Pull_Request
            else if number = None \<and> length (pr_branches r) = 1 \<and> pr_pull_requests r = [] then Some Branch_Only
            else None
      | _ \<Rightarrow> None)"

definition abort_cleanup_complete :: "projection_result \<Rightarrow> bool" where
  "abort_cleanup_complete r \<longleftrightarrow>
     pr_valid r \<and> pr_status r = Absent \<and> pr_diagnostics r = [] \<and>
     (case pr_change r of Some c \<Rightarrow> ch_state c = DEFINED \<and> ch_projection c = None | None \<Rightarrow> False) \<and>
     pr_branches r = [] \<and> pr_pull_requests r = []"

subsection \<open>Classified candidates\<close>

lemma classify_branch_value [simp]: "cand_value (classify_branch bs canonical issue b) = b"
  by (simp add: classify_branch_def)

lemma classify_pull_value [simp]: "cand_value (classify_pull_request ps canonical base issue p) = p"
  by (simp add: classify_pull_request_def)

lemma classify_pull_canonical:
  "cand_class (classify_pull_request ps canonical base issue p) \<noteq> Conflicting \<Longrightarrow>
     cand_class (classify_pull_request ps canonical base issue p) = Canonical \<longleftrightarrow> identity_matches canonical base issue p"
  by (auto simp: classify_pull_request_def identity_matches_def split: if_splits)

lemma canonical_candidates:
  assumes "list_all (\<lambda>c. cand_class c \<noteq> Conflicting) (map (classify_pull_request ps canonical base issue) qs)"
  shows "filter (\<lambda>c. cand_class c = Canonical) (map (classify_pull_request ps canonical base issue) qs) =
    map (classify_pull_request ps canonical base issue) (filter (identity_matches canonical base issue) qs)"
  using assms by (induction qs) (auto simp: classify_pull_canonical)

lemma evidence_facts_sel [simp]:
  "pf_issue_known (evidence_facts n a b base r bs ps) = (\<exists>x. r = Read_Available x)"
  "pf_issue_absent (evidence_facts n a b base r bs ps) = (r = Read_Absent)"
  "pf_ambiguous_anchor (evidence_facts n a b base r bs ps) = ambiguous_anchors a b (anchored_names n bs ps)"
  "pf_branches (evidence_facts n a b base r bs ps) = map (classify_branch bs b n) bs"
  "pf_candidates (evidence_facts n a b base r bs ps) = map (classify_pull_request ps b base n) ps"
  "pf_canonical_branches (evidence_facts n a b base r bs ps) =
     filter (\<lambda>c. be_name (cand_value c) = b) (map (classify_branch bs b n) bs)"
  "pf_canonical_pulls (evidence_facts n a b base r bs ps) = filter (identity_matches b base n) ps"
  "pf_duplicate_number (evidence_facts n a b base r bs ps) \<longleftrightarrow>
     list_ex (\<lambda>p. pe_head p = b \<and> 1 < number_occurrences ps (pe_number p)) ps"
  "pf_wrong_base (evidence_facts n a b base r bs ps) \<longleftrightarrow> list_ex (\<lambda>p. pe_head p = b \<and> pe_base p \<noteq> base) ps"
  "pf_conflicting (evidence_facts n a b base r bs ps) \<longleftrightarrow>
     list_ex (\<lambda>c. cand_class c = Conflicting) (map (classify_branch bs b n) bs) \<or>
     list_ex (\<lambda>c. cand_class c = Conflicting) (map (classify_pull_request ps b base n) ps)"
  "pf_plausible (evidence_facts n a b base r bs ps) =
     length (filter (\<lambda>p. pe_root_issue p = Some n \<and> pe_head p \<noteq> b) ps)"
  by (simp_all add: evidence_facts_def Let_def split: evidence_read.split)

lemma decide_status_Healthy:
  assumes "decide_status f = Healthy"
  obtains p where "pf_canonical_pulls f = [p]" "\<not> pf_conflicting f" "\<not> pf_wrong_base f" "pf_issue_known f"
    "length (pf_canonical_branches f) = 1 \<or> pe_state p = Closed_State \<and> pe_merged p = Some False"
  using assms
  by (cases "pf_canonical_pulls f" rule: list.exhaust; cases "tl (pf_canonical_pulls f)")
    (auto simp: decide_status_def aborted_pull_def Let_def split: if_splits)

lemma project_facts_sel:
  "pr_status (project_facts i pv canonical base ps f) = decide_status f"
  "pr_valid (project_facts i pv canonical base ps f) \<longleftrightarrow> decide_status f \<in> {Healthy, Absent}"
  "pr_canonical_branch (project_facts i pv canonical base ps f) = Some canonical"
  "pr_canonical_base (project_facts i pv canonical base ps f) = Some base"
  "pr_branches (project_facts i pv canonical base ps f) = pf_branches f"
  "pr_pull_requests (project_facts i pv canonical base ps f) = pf_candidates f"
  by (auto simp: project_facts_def Let_def)

lemma project_facts_change:
  assumes "pr_change (project_facts i pv canonical base ps f) = Some c"
  shows "ch_identity c = i"
    and "ch_state c \<in> {DEFINED, RECOVERY_REQUIRED} \<or>
      (\<exists>p. decide_status f = Healthy \<and> pf_canonical_pulls f = [p] \<and> ch_state c = state_from_pull_request p)"
    and "ch_state c = DEFINED \<longleftrightarrow> decide_status f = Absent"
    and "ch_state c = RECOVERY_REQUIRED \<longleftrightarrow> decide_status f \<notin> {Healthy, Absent}"
proof -
  have state: "state_from_pull_request p \<notin> {DEFINED, RECOVERY_REQUIRED}" for p
    by (simp add: state_from_pull_request_def)
  have healthy: "\<exists>p. pf_canonical_pulls f = [p]" if "decide_status f = Healthy"
    using decide_status_Healthy [OF that] by metis
  show "ch_identity c = i"
    using assms by (auto simp: project_facts_def Let_def projected_change_def split: if_splits)
  show "ch_state c \<in> {DEFINED, RECOVERY_REQUIRED} \<or>
      (\<exists>p. decide_status f = Healthy \<and> pf_canonical_pulls f = [p] \<and> ch_state c = state_from_pull_request p)"
    using assms healthy
    by (cases "decide_status f") (auto simp: project_facts_def Let_def projected_change_def split: if_splits)
  show "ch_state c = DEFINED \<longleftrightarrow> decide_status f = Absent"
    and "ch_state c = RECOVERY_REQUIRED \<longleftrightarrow> decide_status f \<notin> {Healthy, Absent}"
    using assms healthy state
    by (cases "decide_status f"; force simp: project_facts_def Let_def projected_change_def split: if_splits)+
qed

text \<open>Input that is projected at all comes down to the projection of read evidence.\<close>

lemma unavailable_result_change [simp]: "pr_change (unavailable_result ds b base) = None"
  by (simp add: unavailable_result_def)

lemma project_change_projected:
  assumes "pr_change (project_change lc ba v) = Some c"
  obtains i pv authority derived base r bs ps where
    "project_change lc ba v =
       project_facts i pv (canonical_branch_of authority derived (anchored_names (root_issue i) bs ps)) base ps
         (evidence_facts (root_issue i) authority
            (canonical_branch_of authority derived (anchored_names (root_issue i) bs ps)) base r bs ps)"
    "\<not> issue_mismatch r (root_issue i)"
proof -
  from assms have rec: "is_record v" by (auto simp: project_change_def split: if_splits)
  obtain i pv authority derived base e ds
    where front: "run_checks (projection_front lc ba v) = ((i, pv, (authority, derived, base), e), ds)"
    by (metis prod.exhaust)
  from assms rec front obtain i' derived' base' e'
    where ok: "i = Some i'" "derived = Some derived'" "base = Some base'" "e = Some e'" "ds = []"
    by (cases i; cases derived; cases base; cases e; cases ds) (auto simp: project_change_def)
  obtain r bs ps ds' where reads: "run_checks (evidence_reads e') = ((r, bs, ps), ds')"
    by (metis prod.exhaust)
  with assms rec front ok have "ds' = []"
    by (cases ds') (auto simp: project_change_def)
  with rec front ok reads
  have eq: "project_change lc ba v = project_evidence i' pv authority derived' base' r (source_list bs) (source_list ps)"
    by (simp add: project_change_def)
  with assms have "\<not> issue_mismatch r (root_issue i')"
    by (auto simp: project_evidence_def Let_def)
  with eq that show ?thesis
    by (simp add: project_evidence_def Let_def)
qed

subsection \<open>Evidence read without a diagnostic\<close>

lemma grows_invalid [checked]: "grows (invalid_evidence path message)"
  by (simp add: invalid_evidence_def checked)

lemma grows_projection_text [checked]: "grows (projection_text v path label m)"
  by (auto simp: projection_text_def intro!: checked split: option.split)

lemma grows_projection_number [checked]: "grows (projection_number v path label)"
  by (auto simp: projection_number_def intro!: checked split: option.split)

lemma grows_projection_sha [checked]: "grows (projection_commit_sha v path)"
  by (auto simp: projection_commit_sha_def intro!: checked split: option.split)

lemma grows_unavailable [checked]: "grows (unavailable_source code path message)"
  by (auto simp: unavailable_source_def intro!: checked)

lemma grows_unless [checked]: "grows (unless_grown n x)"
  by (auto simp: unless_grown_def intro!: checked)

lemma grows_state_property [checked]: "grows (state_property v path message)"
  by (auto simp: state_property_def intro!: checked split: option.split)

lemma grows_own [checked]: "(\<And>x p. grows (parse x p)) \<Longrightarrow> grows (own_property v path key parse)"
  by (auto simp: own_property_def intro!: checked)

lemma grows_root_issue [checked]: "grows (root_issue_property v path)"
  by (auto simp: root_issue_property_def intro!: checked)

lemma grows_boolean [checked]: "grows (boolean_property v path key message)"
  by (auto simp: boolean_property_def intro!: checked split: jsval.split)

lemma grows_merged [checked]: "grows (merged_property v path st)"
  by (auto simp: merged_property_def intro!: checked split: option.split issue_state.split)

lemma grows_conflict [checked]: "grows (conflict_if b path message)"
  by (auto simp: conflict_if_def intro!: checked)

lemma grows_parse_items [checked]: "(\<And>x p. grows (parse x p)) \<Longrightarrow> grows (parse_items parse path i vs)"
  by (induction vs arbitrary: i) (auto intro!: checked)

lemma grows_list [checked]: "(\<And>x p. grows (parse x p)) \<Longrightarrow> grows (parse_evidence_list parse key a b v path)"
  by (cases v) (auto simp: parse_evidence_list_def intro!: checked)

lemma grows_parse_issue [checked]: "grows (parse_issue_evidence v path)"
  by (auto simp: parse_issue_evidence_def intro!: checked)

lemma grows_parse_branch [checked]: "grows (parse_branch_evidence v path)"
  by (auto simp: parse_branch_evidence_def intro!: checked)

lemma grows_parse_pull [checked]: "grows (parse_pull_request_evidence v path)"
  by (auto simp: parse_pull_request_evidence_def intro!: checked)

lemma grows_parse_branches [checked]: "grows (parse_branch_list v path)"
  by (simp add: parse_branch_list_def checked)

lemma grows_parse_pulls [checked]: "grows (parse_pull_request_list v path)"
  by (simp add: parse_pull_request_list_def checked)

lemma grows_read [checked]: "(\<And>x p. grows (parse x p)) \<Longrightarrow> grows (read_evidence_source v path parse)"
  by (auto simp: read_evidence_source_def intro!: checked split: option.split)

lemma clean_invalid [simp]: "\<not> clean_run (invalid_evidence path message) y"
  by (simp add: invalid_evidence_def)

lemma clean_projection_text [simp]:
  "clean_run (projection_text v path label m) y \<longleftrightarrow> y \<noteq> None \<and> bounded_text m v = y"
  by (auto simp: projection_text_def split: option.split)

lemma clean_projection_number [simp]:
  "clean_run (projection_number v path label) y \<longleftrightarrow> y \<noteq> None \<and> positive_integer v = y"
  by (auto simp: projection_number_def split: option.split)

lemma clean_projection_sha [simp]:
  "clean_run (projection_commit_sha v path) y \<longleftrightarrow> y \<noteq> None \<and> commit_sha v = y"
  by (auto simp: projection_commit_sha_def split: option.split)

lemma clean_unavailable [simp]: "\<not> clean_run (unavailable_source code path message) y"
  by (simp add: unavailable_source_def clean_run_bind checked)

lemma clean_unless [simp]: "clean_run (unless_grown n x) y \<longleftrightarrow> y = (if n = 0 then x else None)"
  by (auto simp: unless_grown_def clean_run_get)

lemma clean_state_property [simp]:
  "clean_run (state_property v path message) y \<longleftrightarrow> y \<noteq> None \<and> open_state_value (get_prop v (js ''state'')) = y"
  by (auto simp: state_property_def split: option.split)

lemma clean_own [simp]:
  "clean_run (own_property v path key parse) y \<longleftrightarrow>
     (if has_prop v key then clean_run (parse (get_prop v key) (sub_path path key)) y else y = None)"
  by (auto simp: own_property_def)

lemma clean_root_issue [simp]:
  "clean_run (root_issue_property v path) y \<longleftrightarrow>
     (if has_prop v (js ''rootIssue'') then y \<noteq> None \<and> positive_integer (get_prop v (js ''rootIssue'')) = y
      else y = None)"
  by (auto simp: root_issue_property_def)

lemma clean_boolean [simp]:
  "clean_run (boolean_property v path key message) y \<longleftrightarrow> (\<exists>b. y = Some b \<and> get_prop v key = JBool b)"
  by (auto simp: boolean_property_def split: jsval.split)

lemma clean_merged [simp]:
  "clean_run (merged_property v path st) y \<longleftrightarrow>
     (if has_prop v (js ''merged'') then \<exists>b. y = Some b \<and> get_prop v (js ''merged'') = JBool b
      else st = Some Open_State \<and> y = Some False \<or> st = None \<and> y = None)"
  by (auto simp: merged_property_def split: option.split issue_state.split)

lemma clean_conflict [simp]: "clean_run (conflict_if b path message) y \<longleftrightarrow> \<not> b"
  by (auto simp: conflict_if_def)

lemma clean_parse_items [simp]:
  assumes "\<And>x p. grows (parse x p)"
  shows "clean_run (parse_items parse path i []) ys \<longleftrightarrow> ys = []"
    and "clean_run (parse_items parse path i (v # vs)) ys \<longleftrightarrow>
      (\<exists>x xs. ys = x # xs \<and> clean_run (parse v (item_path path i)) x \<and> clean_run (parse_items parse path (Suc i) vs) xs)"
  using assms by (auto simp: clean_run_bind checked)

lemma clean_list [simp]:
  assumes "\<And>x p. grows (parse x p)"
  shows "clean_run (parse_evidence_list parse key a b v path) y \<longleftrightarrow>
    (\<exists>vs xs. v = JArr vs \<and> length vs \<le> max_projection_candidates \<and> clean_run (parse_items parse path 0 vs) xs \<and>
       y = (if None \<in> set xs then None else Some (sort_key key (List.map_filter id xs))))"
  using assms by (cases v) (auto simp: parse_evidence_list_def clean_run_bind checked)

lemma clean_read [simp]:
  assumes "\<And>x p. grows (parse x p)"
  shows "clean_run (read_evidence_source v path parse) y \<longleftrightarrow> is_record v \<and>
    (get_prop v (js ''status'') = JStr (js ''absent'') \<and> set (object_keys v) \<subseteq> {js ''status''} \<and> y = Read_Absent \<or>
     get_prop v (js ''status'') = JStr (js ''available'') \<and> set (object_keys v) \<subseteq> {js ''status'', js ''value''} \<and>
       has_prop v (js ''value'') \<and>
       (\<exists>x. clean_run (parse (get_prop v (js ''value'')) (sub_path path (js ''value''))) x \<and>
          y = (case x of None \<Rightarrow> Read_Unavailable | Some z \<Rightarrow> Read_Available z)))"
  using assms
  by (cases "v = JUndef") (auto simp: read_evidence_source_def clean_run_bind checked split: option.split)

subsection \<open>Properties of the projection\<close>

definition sample_authority :: branch_authority where
  "sample_authority =
     \<lparr>ba_plan = (\<lambda>v. Inr (js ''feat/7-x'', js ''main'')), ba_evidence = (\<lambda>v i. Inl (''CHANGE_INVALID_BRANCH_INPUT'', [])),
      ba_governance = (\<lambda>v. Inr None), ba_pattern = (\<lambda>p b. Inr True)\<rparr>"

definition available :: "jsval \<Rightarrow> jsval" where
  "available v = JObj [(js ''status'', JStr (js ''available'')), (js ''value'', v)]"

definition sample_pull :: "bool \<Rightarrow> jsval" where
  "sample_pull merged =
     JObj [(js ''number'', JNum (Integral 8)), (js ''head'', JStr (js ''feat/7-x'')), (js ''base'', JStr (js ''main'')),
           (js ''state'', JStr (js ''closed'')), (js ''draft'', JBool False), (js ''merged'', JBool merged)]"

definition sample_projection_input :: "jsval list \<Rightarrow> jsval list \<Rightarrow> jsval" where
  "sample_projection_input bs ps =
     JObj [(js ''change'', change_identity_value sample_identity), (js ''branchPlan'', JNull),
           (js ''evidence'',
            JObj [(js ''issue'', available (JObj [(js ''number'', JNum (Integral 7)), (js ''state'', JStr (js ''open''))])),
                  (js ''branches'', available (JArr bs)), (js ''pullRequests'', available (JArr ps))])]"

lemma grows_plan [checked]: "grows (consumed_branch_plan ba v path)"
proof -
  have "grows (add_plan_violations path vs)" for vs
    by (induction vs) (auto intro!: checked)
  then show ?thesis
    by (auto simp: consumed_branch_plan_def intro!: checked split: sum.split list.split)
qed

lemma clean_get [simp]: "clean_run State_Monad.get y \<longleftrightarrow> y = []"
  by (auto simp: clean_run_def)

definition sample_read_pull :: "bool \<Rightarrow> pull_request_evidence" where
  "sample_read_pull merged =
     \<lparr>pe_number = 8, pe_head = js ''feat/7-x'', pe_head_sha = None, pe_base = js ''main'', pe_state = Closed_State,
      pe_draft = False, pe_merged = Some merged, pe_accepted = None, pe_root_issue = None, pe_provenance = None\<rparr>"

lemma sample_texts [simp]:
  "bounded_text max_change_branch_length (JStr (js ''feat/7-x'')) = Some (js ''feat/7-x'')"
  "bounded_text max_change_branch_length (JStr (js ''main'')) = Some (js ''main'')"
  by (simp_all add: max_change_branch_length_def) (simp_all add: js_eval control_unit_def)

lemma sample_pull_read: "clean_run (parse_pull_request_evidence (sample_pull m) path) (Some (sample_read_pull m))"
  by (simp del: bounded_text.simps add: parse_pull_request_evidence_def clean_run_bind checked sample_pull_def
      sample_read_pull_def pull_request_keys_def max_safe_integer_def)
    (simp add: exI [of Not False] exI [of _ "Some False"])

lemma sample_reads:
  assumes "clean_run (parse_items parse_pull_request_evidence (sub_path (js ''$.evidence.pullRequests'') (js ''value'')) 0 ps) qs"
    and "None \<notin> set qs" and "length ps \<le> 64"
  shows "run_checks (evidence_reads (get_prop (sample_projection_input [] ps) (js ''evidence''))) =
    ((Read_Available (7, Open_State), Read_Available [],
      Read_Available (sort_key pull_request_key (List.map_filter id qs))), [])"
proof -
  have "clean_run (parse_pull_request_list (JArr ps) (sub_path (js ''$.evidence.pullRequests'') (js ''value'')))
      (Some (sort_key pull_request_key (List.map_filter id qs)))"
    using assms by (auto simp: parse_pull_request_list_def max_projection_candidates_def checked intro: exI [of _ qs])
  then have "clean_run (read_evidence_source (available (JArr ps)) (js ''$.evidence.pullRequests'') parse_pull_request_list)
      (Read_Available (sort_key pull_request_key (List.map_filter id qs)))"
    by (auto simp: available_def checked intro: exI [of _ "Some (sort_key pull_request_key (List.map_filter id qs))"])
  then show ?thesis
    by (simp add: clean_run_checks evidence_reads_def clean_run_bind checked sample_projection_input_def)
      (simp add: available_def parse_issue_evidence_def parse_branch_list_def max_projection_candidates_def
        max_safe_integer_def clean_run_bind checked)
qed

lemma identity_value_no_identity [simp]: "\<not> has_prop (change_identity_value i) (js ''identity'')"
  by (simp add: change_identity_value_def)

lemma sample_front:
  "run_checks (projection_front (\<lambda>s. s) sample_authority (sample_projection_input bs ps)) =
    ((Some sample_identity, no_provenance,
      (Some (js ''feat/7-x''), Some (js ''feat/7-x''), Some (js ''main'')),
      Some (get_prop (sample_projection_input bs ps) (js ''evidence''))), [])"
  using wf_identity_validates [OF wf_sample_identity, of "\<lambda>s. s" "js ''$.change''"]
  by (simp add: clean_run_checks projection_front_def clean_run_bind checked sample_projection_input_def
      projection_input_keys_def projected_identity_def projected_provenance_def canonical_branches_def
      consumed_branch_plan_def sample_authority_def base_mismatch_if_def evidence_object_def Let_def)

lemma sample_projection:
  assumes "clean_run (parse_items parse_pull_request_evidence (sub_path (js ''$.evidence.pullRequests'') (js ''value'')) 0 ps) qs"
    and "None \<notin> set qs" and "length ps \<le> 64"
  shows "project_change (\<lambda>s. s) sample_authority (sample_projection_input [] ps) =
    project_evidence sample_identity no_provenance (Some (js ''feat/7-x'')) (js ''feat/7-x'') (js ''main'')
      (Read_Available (7, Open_State)) [] (sort_key pull_request_key (List.map_filter id qs))"
  using sample_front [of "[]" ps] sample_reads [OF assms]
  by (simp add: project_change_def source_list_def sample_projection_input_def)

lemma sample_project_pull:
  "project_change (\<lambda>s. s) sample_authority (sample_projection_input [] [sample_pull m]) =
    project_evidence sample_identity no_provenance (Some (js ''feat/7-x'')) (js ''feat/7-x'') (js ''main'')
      (Read_Available (7, Open_State)) [] [sample_read_pull m]"
  by (subst sample_projection [where qs = "[Some (sample_read_pull m)]"])
    (simp_all add: sample_pull_read clean_run_bind checked List.map_filter_def)

lemma sample_pull_matches:
  "identity_matches (js ''feat/7-x'') (js ''main'') 7 (sample_read_pull m)"
  by (simp add: identity_matches_def sample_read_pull_def)

lemma sample_pull_facts:
  "evidence_facts 7 (Some (js ''feat/7-x'')) (js ''feat/7-x'') (js ''main'') (Read_Available (7, Open_State)) []
     [sample_read_pull m] =
   \<lparr>pf_issue_known = True, pf_issue_absent = False, pf_ambiguous_anchor = False, pf_branches = [],
    pf_candidates = [\<lparr>cand_value = sample_read_pull m, cand_class = Canonical,
      cand_reason = js ''Pull request matches the canonical branch, base, and Change identity.''\<rparr>],
    pf_canonical_branches = [], pf_canonical_pulls = [sample_read_pull m], pf_duplicate_number = False,
    pf_wrong_base = False, pf_conflicting = False, pf_plausible = 0\<rparr>"
  using sample_pull_matches [of m]
  by (simp add: evidence_facts_def ambiguous_anchors_def anchored_names_def set_add_all_def classify_pull_request_def
      number_occurrences_def sample_read_pull_def)

lemma sample_pull_projection:
  "project_change (\<lambda>s. s) sample_authority (sample_projection_input [] [sample_pull m]) =
    project_facts sample_identity no_provenance (js ''feat/7-x'') (js ''main'') [sample_read_pull m]
      \<lparr>pf_issue_known = True, pf_issue_absent = False, pf_ambiguous_anchor = False, pf_branches = [],
       pf_candidates = [\<lparr>cand_value = sample_read_pull m, cand_class = Canonical,
         cand_reason = js ''Pull request matches the canonical branch, base, and Change identity.''\<rparr>],
       pf_canonical_branches = [], pf_canonical_pulls = [sample_read_pull m], pf_duplicate_number = False,
       pf_wrong_base = False, pf_conflicting = False, pf_plausible = 0\<rparr>"
proof -
  have "root_issue sample_identity = 7" by (simp add: sample_identity_def)
  then show ?thesis
    by (simp add: sample_project_pull project_evidence_def canonical_branch_of_def sample_pull_facts issue_mismatch_def)
qed

lemma sample_pull_result:
  "pr_status (project_change (\<lambda>s. s) sample_authority (sample_projection_input [] [sample_pull m])) =
     (if m then Partial else Healthy)"
  "pr_change (project_change (\<lambda>s. s) sample_authority (sample_projection_input [] [sample_pull m])) =
     Some (projected_change sample_identity no_provenance (if m then RECOVERY_REQUIRED else ABORTED)
             (Some (js ''feat/7-x'')) (Some 8))"
  by (simp_all add: sample_pull_projection project_facts_def decide_status_def aborted_pull_def sample_read_pull_def
      merge_provenance_def state_from_pull_request_def)

text \<open>
  C18. A lifecycle state is never guessed.  Whatever the untrusted input, a projected state other
  than defined and recovery-required comes from exactly one canonical pull request: the projection is
  valid and healthy, no candidate conflicts, that pull request is the only one classified canonical, it has
  the canonical head and base and does not claim another Issue, the state and the projected number are its
  own, and either the canonical branch is there exactly once or the pull request was closed without a merge.
\<close>

theorem projected_state_justified:
  assumes "pr_change (project_change lc ba v) = Some c" and "ch_state c \<notin> {DEFINED, RECOVERY_REQUIRED}"
  shows "pr_valid (project_change lc ba v) \<and> pr_status (project_change lc ba v) = Healthy \<and>
    (\<exists>x canonical base.
       pr_canonical_branch (project_change lc ba v) = Some canonical \<and>
       pr_canonical_base (project_change lc ba v) = Some base \<and>
       filter (\<lambda>y. cand_class y = Canonical) (pr_pull_requests (project_change lc ba v)) = [x] \<and>
       pe_head (cand_value x) = canonical \<and> pe_base (cand_value x) = base \<and>
       pe_number (cand_value x) \<noteq> root_issue (ch_identity c) \<and>
       pe_root_issue (cand_value x) \<in> {None, Some (root_issue (ch_identity c))} \<and>
       ch_state c = state_from_pull_request (cand_value x) \<and>
       ch_projection c = Some \<lparr>cp_branch = Some canonical, cp_pull_request = Some (pe_number (cand_value x))\<rparr> \<and>
       list_all (\<lambda>y. cand_class y \<noteq> Conflicting) (pr_branches (project_change lc ba v)) \<and>
       list_all (\<lambda>y. cand_class y \<noteq> Conflicting) (pr_pull_requests (project_change lc ba v)) \<and>
       (length (filter (\<lambda>y. be_name (cand_value y) = canonical) (pr_branches (project_change lc ba v))) = 1 \<or>
        pe_state (cand_value x) = Closed_State \<and> pe_merged (cand_value x) = Some False))"
proof -
  from assms(1) obtain i pv a d base r bs ps where
    proj: "project_change lc ba v =
       project_facts i pv (canonical_branch_of a d (anchored_names (root_issue i) bs ps)) base ps
         (evidence_facts (root_issue i) a (canonical_branch_of a d (anchored_names (root_issue i) bs ps)) base r bs ps)"
    by (rule project_change_projected)
  define canonical where "canonical = canonical_branch_of a d (anchored_names (root_issue i) bs ps)"
  define f where "f = evidence_facts (root_issue i) a canonical base r bs ps"
  have pc: "project_change lc ba v = project_facts i pv canonical base ps f"
    by (simp add: proj canonical_def f_def)
  note ch = project_facts_change [OF assms(1) [unfolded pc]]
  from ch(2) assms(2) obtain p where
    healthy: "decide_status f = Healthy" and p: "pf_canonical_pulls f = [p]" "ch_state c = state_from_pull_request p"
    by auto
  from healthy p(1) have ok: "\<not> pf_conflicting f"
      "length (pf_canonical_branches f) = 1 \<or> pe_state p = Closed_State \<and> pe_merged p = Some False"
    by (auto elim: decide_status_Healthy)
  have "p \<in> set (filter (identity_matches canonical base (root_issue i)) ps)"
    using p(1) by (simp add: f_def)
  then have match: "p \<in> set ps" "pe_head p = canonical" "pe_base p = base" "pe_number p \<noteq> root_issue i"
      "pe_root_issue p \<in> {None, Some (root_issue i)}"
    by (auto simp: identity_matches_def)
  let ?x = "classify_pull_request ps canonical base (root_issue i) p"
  have "filter (\<lambda>y. cand_class y = Canonical) (pf_candidates f) = [?x]"
    using ok(1) p(1) by (simp add: f_def canonical_candidates list_all_iff list_ex_iff)
  moreover have "ch_projection c = Some \<lparr>cp_branch = Some canonical, cp_pull_request = Some (pe_number p)\<rparr>"
    using assms(1) healthy p(1) match
    by (auto simp: pc project_facts_def projected_change_def list_ex_iff)
  ultimately show ?thesis
    using ok p(2) match(2-5) ch(1) healthy
    by (auto simp: pc project_facts_sel f_def list_all_iff list_ex_iff intro!: exI [of _ ?x])
qed

theorem projected_state_justified_witness:
  "pr_valid (project_change (\<lambda>s. s) sample_authority (sample_projection_input [] [sample_pull False])) \<and>
   pr_status (project_change (\<lambda>s. s) sample_authority (sample_projection_input [] [sample_pull False])) = Healthy"
  using projected_state_justified [OF sample_pull_result(2) [of False]]
  by (simp add: projected_change_def)

subsection \<open>Permuted evidence\<close>

lemma length_filter_perm: "mset xs = mset ys \<Longrightarrow> length (filter P xs) = length (filter P ys)"
  by (metis mset_filter size_mset)

lemma list_ex_perm: "mset xs = mset ys \<Longrightarrow> list_ex P xs = list_ex P ys"
  by (metis list_ex_iff set_mset_mset)

lemma occurrences_perm:
  "mset bs = mset bs' \<Longrightarrow> branch_occurrences bs = branch_occurrences bs'"
  "mset ps = mset ps' \<Longrightarrow> number_occurrences ps = number_occurrences ps'"
  by (simp_all add: branch_occurrences_def number_occurrences_def fun_eq_iff length_filter_perm [of bs bs']
      length_filter_perm [of ps ps'])

lemma classify_perm:
  "mset bs = mset bs' \<Longrightarrow> classify_branch bs = classify_branch bs'"
  "mset ps = mset ps' \<Longrightarrow> classify_pull_request ps = classify_pull_request ps'"
  by (simp_all add: classify_branch_def classify_pull_request_def fun_eq_iff occurrences_perm(1) [of bs bs']
      occurrences_perm(2) [of ps ps'])

lemma anchored_names_set:
  "set (anchored_names n bs ps) = be_name ` {b \<in> set bs. be_root_issue b = Some n} \<union>
     pe_head ` {p \<in> set ps. pe_root_issue p = Some n}"
  "distinct (anchored_names n bs ps)"
  by (auto simp: anchored_names_def)

lemma same_set_choice:
  assumes "set xs = set ys" and "distinct xs" and "distinct ys"
  shows "length xs = length ys" and "xs = [a] \<longleftrightarrow> ys = [a]"
proof -
  show len: "length xs = length ys" using assms by (metis distinct_card)
  show "xs = [a] \<longleftrightarrow> ys = [a]"
    using assms(1) len by (cases xs; cases ys) auto
qed

lemma anchored_perm:
  assumes "mset bs = mset bs'" and "mset ps = mset ps'"
  shows "canonical_branch_of a d (anchored_names n bs ps) = canonical_branch_of a d (anchored_names n bs' ps')"
    and "ambiguous_anchors a c (anchored_names n bs ps) = ambiguous_anchors a c (anchored_names n bs' ps')"
proof -
  let ?xs = "anchored_names n bs ps" and ?ys = "anchored_names n bs' ps'"
  have eq: "set ?xs = set ?ys"
    using assms by (auto simp: anchored_names_set dest: mset_eq_setD)
  note same = same_set_choice [OF eq anchored_names_set(2) anchored_names_set(2)]
  show "canonical_branch_of a d ?xs = canonical_branch_of a d ?ys"
    using same(1) same(2) [of "hd ?xs"]
    by (cases ?xs; cases ?ys) (auto simp: canonical_branch_of_def split: option.split list.split)
  show "ambiguous_anchors a c ?xs = ambiguous_anchors a c ?ys"
    using same(1) eq by (simp add: ambiguous_anchors_def list_ex_iff)
qed

text \<open>Facts that differ in the order of the candidates only.\<close>

definition same_facts :: "projection_facts \<Rightarrow> projection_facts \<Rightarrow> bool" where
  "same_facts f g \<longleftrightarrow>
     pf_issue_known f = pf_issue_known g \<and> pf_issue_absent f = pf_issue_absent g \<and>
     pf_ambiguous_anchor f = pf_ambiguous_anchor g \<and>
     mset (pf_branches f) = mset (pf_branches g) \<and> mset (pf_candidates f) = mset (pf_candidates g) \<and>
     length (pf_canonical_branches f) = length (pf_canonical_branches g) \<and>
     mset (pf_canonical_pulls f) = mset (pf_canonical_pulls g) \<and>
     pf_duplicate_number f = pf_duplicate_number g \<and> pf_wrong_base f = pf_wrong_base g \<and>
     pf_conflicting f = pf_conflicting g \<and> pf_plausible f = pf_plausible g"

lemma same_facts_pull:
  assumes "same_facts f g"
  shows "pf_canonical_pulls f = [p] \<longleftrightarrow> pf_canonical_pulls g = [p]"
  using assms unfolding same_facts_def by (metis mset_single_iff_right)

lemma same_facts_single:
  assumes "same_facts f g"
  shows "(case pf_canonical_pulls f of [p] \<Rightarrow> h p | _ \<Rightarrow> z) = (case pf_canonical_pulls g of [p] \<Rightarrow> h p | _ \<Rightarrow> z)"
  using same_facts_pull [OF assms, of "hd (pf_canonical_pulls f)"]
    same_facts_pull [OF assms, of "hd (pf_canonical_pulls g)"]
  by (cases "pf_canonical_pulls f"; cases "pf_canonical_pulls g") (auto split: list.split)

lemma same_facts_status:
  assumes "same_facts f g"
  shows "decide_status f = decide_status g"
proof -
  have "aborted_pull (pf_canonical_pulls f) = aborted_pull (pf_canonical_pulls g)"
    using same_facts_single [OF assms] by (simp add: aborted_pull_def)
  moreover have "length (pf_canonical_pulls f) = length (pf_canonical_pulls g)"
    using assms by (simp add: same_facts_def) (metis size_mset)
  ultimately show ?thesis
    using assms by (simp add: decide_status_def same_facts_def Let_def)
qed

lemma same_facts_project:
  assumes "same_facts f g" and "mset ps = mset ps'"
  shows "project_facts i pv canonical base ps' g =
    (project_facts i pv canonical base ps f)\<lparr>pr_branches := pf_branches g, pr_pull_requests := pf_candidates g\<rparr>"
proof -
  have "pf_issue_known f = pf_issue_known g" "pf_conflicting f = pf_conflicting g"
    "length (pf_canonical_branches f) = length (pf_canonical_branches g)"
    using assms(1) by (simp_all add: same_facts_def)
  moreover have "list_ex P ps = list_ex P ps'" for P
    using assms(2) by (rule list_ex_perm)
  ultimately show ?thesis
    by (simp add: project_facts_def Let_def same_facts_status [OF assms(1)] same_facts_single [OF assms(1)])
qed

lemma evidence_facts_perm:
  assumes "mset bs = mset bs'" and "mset ps = mset ps'"
  shows "same_facts (evidence_facts n a c base r bs ps) (evidence_facts n a c base r bs' ps')"
proof -
  note sets = assms [THEN mset_eq_setD]
  note lens = assms [THEN length_filter_perm]
  show ?thesis
    using assms
    by (simp add: same_facts_def anchored_perm [OF assms] classify_perm(1) [OF assms(1)]
        classify_perm(2) [OF assms(2)] occurrences_perm(2) [OF assms(2)] list_ex_iff sets lens filter_map comp_def)
qed

text \<open>
  C19. The projection does not depend on the order in which GitHub reports candidates: for permuted branch
  and pull-request evidence, the status, the validity, the canonical branch, the projected Change and the
  diagnostics are the same, and the classified candidates are the same up to order.
\<close>

theorem projection_order_independent:
  assumes "mset bs = mset bs'" and "mset ps = mset ps'"
  shows "\<exists>branches pulls.
    project_evidence i pv a d base r bs' ps' =
      (project_evidence i pv a d base r bs ps)\<lparr>pr_branches := branches, pr_pull_requests := pulls\<rparr> \<and>
    mset branches = mset (pr_branches (project_evidence i pv a d base r bs ps)) \<and>
    mset pulls = mset (pr_pull_requests (project_evidence i pv a d base r bs ps))"
proof -
  define canonical where "canonical = canonical_branch_of a d (anchored_names (root_issue i) bs ps)"
  define f where "f = (\<lambda>bs ps. evidence_facts (root_issue i) a canonical base r bs ps)"
  have same: "same_facts (f bs ps) (f bs' ps')"
    unfolding f_def by (rule evidence_facts_perm [OF assms])
  have "project_evidence i pv a d base r bs' ps' =
      (project_evidence i pv a d base r bs ps)\<lparr>pr_branches := pf_branches (f bs' ps'),
        pr_pull_requests := pf_candidates (f bs' ps')\<rparr>"
    using same_facts_project [OF same assms(2)]
    by (simp add: project_evidence_def Let_def f_def canonical_def anchored_perm [OF assms, symmetric])
  moreover have "pr_branches (project_evidence i pv a d base r bs ps) = pf_branches (f bs ps)"
      "pr_pull_requests (project_evidence i pv a d base r bs ps) = pf_candidates (f bs ps)"
    by (simp_all add: project_evidence_def Let_def f_def canonical_def project_facts_sel)
  ultimately show ?thesis
    using same by (auto simp: same_facts_def)
qed

theorem projection_order_independent_witness:
  "\<exists>branches pulls.
    project_evidence sample_identity no_provenance None (js ''feat/7-x'') (js ''main'') (Read_Available (7, Open_State)) []
        [sample_read_pull True, sample_read_pull False] =
      (project_evidence sample_identity no_provenance None (js ''feat/7-x'') (js ''main'') (Read_Available (7, Open_State)) []
        [sample_read_pull False, sample_read_pull True])\<lparr>pr_branches := branches, pr_pull_requests := pulls\<rparr>"
  using projection_order_independent [where bs = "[]" and bs' = "[]" and
      ps = "[sample_read_pull False, sample_read_pull True]" and ps' = "[sample_read_pull True, sample_read_pull False]",
      of sample_identity no_provenance None "js ''feat/7-x''" "js ''main''" "Read_Available (7, Open_State)"]
  by (simp add: add_mset_commute) blast

text \<open>
  A merged pull request outlives its branch differently from an aborted one.  When the one canonical
  pull request was merged and no branch candidate has the canonical name, the projection is invalid, its
  Change is in recovery-required and never merged, and abort recovery does not recognise it; the same
  evidence of a pull request closed without a merge is healthy and aborted.
\<close>

theorem merged_without_branch_needs_recovery:
  assumes "canonical = canonical_branch_of a d (anchored_names (root_issue i) bs ps)"
    and "filter (identity_matches canonical base (root_issue i)) ps = [p]"
    and "pe_state p = Closed_State" and "pe_merged p = Some True"
    and "canonical \<notin> be_name ` set bs" and "\<not> issue_mismatch r (root_issue i)"
  shows "\<not> pr_valid (project_evidence i pv a d base r bs ps) \<and>
    map_option ch_state (pr_change (project_evidence i pv a d base r bs ps)) = Some RECOVERY_REQUIRED \<and>
    classify_abort_recovery (project_evidence i pv a d base r bs ps) = None"
proof -
  define f where "f = evidence_facts (root_issue i) a canonical base r bs ps"
  have none: "pf_canonical_branches f = []" and one: "pf_canonical_pulls f = [p]"
    using assms(2,5) by (auto simp: f_def filter_empty_conv)
  have eq: "project_evidence i pv a d base r bs ps = project_facts i pv canonical base ps f"
    using assms(1,6) by (simp add: project_evidence_def f_def Let_def)
  have status: "decide_status f \<notin> {Healthy, Absent}"
    using none one assms(3,4) by (simp add: decide_status_def aborted_pull_def Let_def)
  have "filter (\<lambda>x. cand_class x = Canonical \<and> be_name (cand_value x) = canonical) (pf_branches f) = []"
    using assms(5) by (auto simp: f_def filter_empty_conv)
  with status show ?thesis
    by (auto simp: eq project_facts_sel classify_abort_recovery_def Let_def split: option.split)
      (auto simp: project_facts_def projected_change_def Let_def split: projection_status.splits)
qed

theorem merged_without_branch_needs_recovery_witness:
  "map_option ch_state (pr_change (project_evidence sample_identity no_provenance (Some (js ''feat/7-x'')) (js ''feat/7-x'')
     (js ''main'') (Read_Available (7, Open_State)) [] [sample_read_pull True])) = Some RECOVERY_REQUIRED"
proof -
  have issue: "root_issue sample_identity = 7" by (simp add: sample_identity_def)
  show ?thesis
    using merged_without_branch_needs_recovery [where bs = "[]" and p = "sample_read_pull True" and i = sample_identity
        and a = "Some (js ''feat/7-x'')" and base = "js ''main''" and r = "Read_Available (7, Open_State)"
        and pv = no_provenance and d = "js ''feat/7-x''", OF refl]
      sample_pull_matches [of True]
    by (simp add: issue canonical_branch_of_def issue_mismatch_def sample_read_pull_def)
qed

end
