(* ===== verification/Change_Planning.thy ===== *)
theory Change_Planning
  imports Change_Projection
begin

text \<open>
  The transition planner of \<^verbatim>\<open>src/src/change.ts\<close>:
  \<^verbatim>\<open>validateChangeTransitionRequest\<close> on untrusted input, with its target and its
  semantic rules, and \<^verbatim>\<open>planChangeTransition\<close>, which turns a valid request into the
  effects of one lifecycle edge.  The validators of Semantic Branch and Semantic Pull Request plans
  are parameters (\<^verbatim>\<open>plan_authority\<close>): they return the violations and, when there is
  one, the plan, a value whose fields are read here.
\<close>

subsection \<open>Plans of other authorities\<close>

record plan_authority =
  pa_branch :: branch_authority
  pa_branch_plan :: "jsval \<Rightarrow> jsval"
  pa_pull_plan :: "jsval \<Rightarrow> (jstr \<times> jstr) list \<times> jsval option"
  pa_merge_plan :: "jsval \<Rightarrow> (jstr \<times> jstr) list \<times> jsval option"

definition plan_at :: "jsval \<Rightarrow> string list \<Rightarrow> jsval" where
  "plan_at v ks = foldl (\<lambda>x k. get_prop x (js k)) v ks"

text \<open>Validated plans have strings where the code reads strings.\<close>

definition plan_text :: "jsval \<Rightarrow> string list \<Rightarrow> jstr" where
  "plan_text v ks = (case plan_at v ks of JStr s \<Rightarrow> s | _ \<Rightarrow> [])"

definition optional_text :: "jstr option \<Rightarrow> jsval" where
  "optional_text x = (case x of None \<Rightarrow> JUndef | Some s \<Rightarrow> JStr s)"

definition semantic_plan_path :: "jstr \<Rightarrow> jstr \<Rightarrow> jstr" where
  "semantic_plan_path path vpath =
     (if vpath = [] \<or> vpath = js ''$'' then path
      else path @ (if starts_with vpath (js ''$'') then drop 1 vpath else 46 # vpath))"

text \<open>
  \<^verbatim>\<open>createChangeDiagnostic\<close> on a violation of another contract: it throws on an empty or
  overlong text instead of cutting it.
\<close>

definition violation_diagnostic :: "jstr \<Rightarrow> jstr \<times> jstr \<Rightarrow> change_diagnostic option" where
  "violation_diagnostic path v =
     (let p = semantic_plan_path path (fst v) in
      if snd v = [] \<or> p = [] \<or> max_diagnostic_path_length < length p \<or> max_diagnostic_message_length < length (snd v)
      then None
      else Some \<lparr>cd_code = js ''CHANGE_INVALID_PLAN'', cd_path = p, cd_message = snd v\<rparr>)"

text \<open>An optional plan of the target: its diagnostics (none when building them throws) and the plan.\<close>

definition plan_property ::
  "(jsval \<Rightarrow> (jstr \<times> jstr) list \<times> jsval option) \<Rightarrow> jsval \<Rightarrow> jstr \<Rightarrow> jstr \<Rightarrow>
     change_diagnostic list option \<times> jsval option" where
  "plan_property validate v path key =
     (if \<not> has_prop v key then (Some [], None)
      else (let (violations, plan) = validate (get_prop v key) in
            (those (map (violation_diagnostic (sub_path path key)) violations), plan)))"

text \<open>\<^verbatim>\<open>diagnostics.push(...new)\<close>, without a bound.\<close>

definition push_unbounded :: "change_diagnostic list \<Rightarrow> unit checked" where
  "push_unbounded new = State (\<lambda>ds. ((), ds @ new))"

definition report_if :: "bool \<Rightarrow> string \<Rightarrow> jstr \<Rightarrow> jstr \<Rightarrow> unit checked" where
  "report_if b code path message =
     (if b then add_diagnostic code path message else State_Monad.return ())"

subsection \<open>The target\<close>

definition target_keys :: "jstr list" where
  "target_keys =
     [js ''branchPlan'', js ''branch'', js ''baseBranch'', js ''pullRequest'', js ''branchCommitSha'',
      js ''semanticPullRequestPlan'', js ''semanticPullRequestMergePlan'']"

definition target_checks ::
  "plan_authority \<Rightarrow> jsval \<Rightarrow> jstr \<Rightarrow> change_diagnostic list \<times> jsval option \<Rightarrow>
     change_diagnostic list \<times> jsval option \<Rightarrow> transition_target option checked" where
  "target_checks pa v path pull merge = do {
     add_unknown_properties v target_keys path;
     plan \<leftarrow> (if has_prop v (js ''branchPlan'')
             then consumed_branch_plan (pa_branch pa) (get_prop v (js ''branchPlan'')) (sub_path path (js ''branchPlan''))
             else State_Monad.return None);
     branch \<leftarrow> optional_check v (js ''branch'') (bounded_text max_change_branch_length)
                ''CHANGE_INVALID_TRANSITION_TARGET'' path (js ''Branch identity is invalid.'');
     base \<leftarrow> optional_check v (js ''baseBranch'') (bounded_text max_change_branch_length)
              ''CHANGE_INVALID_TRANSITION_TARGET'' path (js ''Branch identity is invalid.'');
     report_if (plan \<noteq> None \<and> branch \<noteq> None \<and> branch \<noteq> map_option fst plan) ''CHANGE_INVALID_TRANSITION_TARGET''
       (sub_path path (js ''branch'')) (js ''Branch target does not match the Semantic Branch plan desired name.'');
     report_if (plan \<noteq> None \<and> base \<noteq> None \<and> base \<noteq> map_option snd plan) ''CHANGE_INVALID_TRANSITION_TARGET''
       (sub_path path (js ''baseBranch'')) (js ''Base branch target does not match the Semantic Branch plan desired source.'');
     number \<leftarrow> optional_check v (js ''pullRequest'') positive_integer ''CHANGE_INVALID_TRANSITION_TARGET'' path
                (js ''pullRequest must be a positive safe integer.'');
     sha \<leftarrow> optional_check v (js ''branchCommitSha'') commit_sha ''CHANGE_INVALID_TRANSITION_TARGET'' path
             (js ''branchCommitSha must be a canonical commit SHA.'');
     push_unbounded (fst pull);
     push_unbounded (fst merge);
     State_Monad.return (Some
       \<lparr>tt_branch_plan = map_option (\<lambda>p. pa_branch_plan pa (get_prop v (js ''branchPlan''))) plan,
        tt_branch = (if has_prop v (js ''branchPlan'') then map_option fst plan else branch),
        tt_base_branch = (if has_prop v (js ''branchPlan'') then map_option snd plan else base),
        tt_pull_request = number, tt_branch_commit_sha = sha,
        tt_semantic_plan = snd pull, tt_semantic_merge_plan = snd merge\<rparr>)
   }"

text \<open>None: building the diagnostics or their report throws (a RangeError or a TypeError).\<close>

definition validate_transition_target ::
  "plan_authority \<Rightarrow> jsval \<Rightarrow> jstr \<Rightarrow> (change_diagnostic list + transition_target) option" where
  "validate_transition_target pa v path =
     (if \<not> is_record v
      then Some (Inl (snd (run_checks (add_diagnostic ''CHANGE_INVALID_TRANSITION_TARGET'' path
                                         (js ''Transition target must be an object.'')))))
      else
        case (plan_property (pa_pull_plan pa) v path (js ''semanticPullRequestPlan''),
              plan_property (pa_merge_plan pa) v path (js ''semanticPullRequestMergePlan'')) of
          ((Some pull_ds, pull), (Some merge_ds, merge)) \<Rightarrow>
            (let checks = target_checks pa v path (pull_ds, pull) (merge_ds, merge) in
             if max_change_diagnostics < length (snd (run_checks checks)) then None
             else Some (validation_result checks))
        | _ \<Rightarrow> None)"

subsection \<open>The rules of a transition\<close>

fun transition_name :: "change_transition \<Rightarrow> jstr" where
  "transition_name OpIssue = js ''issue''"
| "transition_name OpReady = js ''ready''"
| "transition_name OpAbort = js ''abort''"
| "transition_name OpMerge = js ''merge''"

fun normalize_change_transition :: "(jstr \<Rightarrow> jstr) \<Rightarrow> jsval \<Rightarrow> change_transition option" where
  "normalize_change_transition lc (JStr s) =
     find (\<lambda>op. transition_name op = to_lower lc s) [OpIssue, OpReady, OpAbort, OpMerge]"
| "normalize_change_transition lc _ = None"

record resolved_target =
  rt_branch :: "jstr option"
  rt_base_branch :: "jstr option"
  rt_pull_request :: "int option"
  rt_branch_commit_sha :: "jstr option"
  rt_semantic_plan :: "jsval option"
  rt_semantic_merge_plan :: "jsval option"

definition no_target :: transition_target where
  "no_target =
     \<lparr>tt_branch_plan = None, tt_branch = None, tt_base_branch = None, tt_pull_request = None,
      tt_branch_commit_sha = None, tt_semantic_plan = None, tt_semantic_merge_plan = None\<rparr>"

text \<open>\<^verbatim>\<open>target?.key\<close> and \<^verbatim>\<open>change.projection?.key\<close>.\<close>

definition target_or_none :: "transition_target option \<Rightarrow> transition_target" where
  "target_or_none t = (case t of None \<Rightarrow> no_target | Some t \<Rightarrow> t)"

definition projected_branch :: "change \<Rightarrow> jstr option" where
  "projected_branch c = Option.bind (ch_projection c) cp_branch"

definition projected_pull_request :: "change \<Rightarrow> int option" where
  "projected_pull_request c = Option.bind (ch_projection c) cp_pull_request"

text \<open>\<^verbatim>\<open>left ?? right\<close> and \<^verbatim>\<open>sameDefinedValue\<close>.\<close>

definition first_defined :: "'a option \<Rightarrow> 'a option \<Rightarrow> 'a option" where
  "first_defined x y = (case x of None \<Rightarrow> y | Some a \<Rightarrow> Some a)"

definition same_defined_value :: "'a option \<Rightarrow> 'a option \<Rightarrow> bool" where
  "same_defined_value x y \<longleftrightarrow> x = None \<or> y = None \<or> x = y"

definition report_target :: "bool \<Rightarrow> jstr \<Rightarrow> jstr \<Rightarrow> unit checked" where
  "report_target b path message = report_if b ''CHANGE_INVALID_TRANSITION_TARGET'' path message"

definition plan_repository_differs ::
  "(jstr \<Rightarrow> jstr) \<Rightarrow> jsval \<Rightarrow> string list \<Rightarrow> string \<Rightarrow> change_identity \<Rightarrow> bool" where
  "plan_repository_differs lc plan at host i \<longleftrightarrow>
     to_lower lc (plan_text plan (at @ [host])) \<noteq> repository_host i \<or>
     plan_at plan (at @ [''repositoryId'']) \<noteq> JStr (repository_id i)"

definition issuance_capabilities :: "jsval \<Rightarrow> jstr \<Rightarrow> unit checked" where
  "issuance_capabilities plan path = do {
     report_if (plan_at plan [''desired'', ''metadata'', ''draft''] = JBool False) ''CHANGE_INVALID_PLAN''
       (path @ js ''.desired.metadata.draft'') (js ''A Change issuance Semantic PR plan must remain Draft.'');
     report_if (has_prop (plan_at plan [''desired'', ''metadata'']) (js ''milestone'')) ''CHANGE_INVALID_PLAN''
       (path @ js ''.desired.metadata.milestone'')
       (js ''The Change issuer cannot apply Semantic PR metadata \"milestone\" during issuance.'');
     report_if (has_prop (plan_at plan [''desired'', ''metadata'']) (js ''reviewers'')) ''CHANGE_INVALID_PLAN''
       (path @ js ''.desired.metadata.reviewers'')
       (js ''The Change issuer cannot apply Semantic PR metadata \"reviewers\" during issuance.'');
     report_if (plan_at plan [''desired'', ''relations'', ''implements'', ''representation''] = JStr (js ''native''))
       ''CHANGE_INVALID_PLAN'' (path @ js ''.desired.relations.implements'')
       (js ''The Change issuer cannot apply a native Semantic PR implements relation during issuance.'')
   }"

definition issuance_plan_checks ::
  "(jstr \<Rightarrow> jstr) \<Rightarrow> change_identity \<Rightarrow> transition_target \<Rightarrow> jsval \<Rightarrow> unit checked" where
  "issuance_plan_checks lc i t plan = do {
     report_if (plan_at plan [''desired'', ''head''] \<noteq> optional_text (tt_branch t)) ''CHANGE_PROVENANCE_BRANCH_MISMATCH''
       (js ''$.target.semanticPullRequestPlan.desired.head'')
       (js ''Semantic PR plan head must match the canonical Change branch.'');
     report_if (plan_at plan [''desired'', ''base''] \<noteq> optional_text (tt_base_branch t)) ''CHANGE_PROVENANCE_BASE_MISMATCH''
       (js ''$.target.semanticPullRequestPlan.desired.base'')
       (js ''Semantic PR plan base must match the canonical Change base branch.'');
     issuance_capabilities plan (js ''$.target.semanticPullRequestPlan'');
     report_if (plan_repository_differs lc plan [''provenance'', ''repository''] ''host'' i)
       ''CHANGE_PROVENANCE_IDENTITY_MISMATCH'' (js ''$.target.semanticPullRequestPlan.provenance.repository'')
       (js ''Semantic PR plan repository identity must match the Change identity.'')
   }"

definition issue_checks ::
  "(jstr \<Rightarrow> jstr) \<Rightarrow> change \<Rightarrow> transition_target option \<Rightarrow> resolved_target option checked" where
  "issue_checks lc c target = do {
     report_if (projected_branch c \<noteq> None \<or> projected_pull_request c \<noteq> None) ''CHANGE_TRANSITION_NOT_ALLOWED''
       (js ''$.change.projection'')
       (js ''An issue transition requires a Change without an existing canonical projection.'');
     (case target of
        None \<Rightarrow> report_target True (js ''$.target'') (js ''An issue transition requires a target.'')
      | Some t \<Rightarrow> do {
          report_target (tt_branch t = None) (js ''$.target.branch'')
            (js ''An issue transition requires a canonical branch.'');
          report_target (tt_base_branch t = None) (js ''$.target.baseBranch'')
            (js ''An issue transition requires a base branch.'');
          report_target (tt_pull_request t \<noteq> None) (js ''$.target.pullRequest'')
            (js ''An issue transition cannot contain an already-created pull request.'');
          (case tt_semantic_plan t of
             None \<Rightarrow> State_Monad.return ()
           | Some plan \<Rightarrow> issuance_plan_checks lc (ch_identity c) t plan)
        });
     let t = target_or_none target in
     State_Monad.return (Some
       \<lparr>rt_branch = tt_branch t, rt_base_branch = tt_base_branch t, rt_pull_request = None,
        rt_branch_commit_sha = None, rt_semantic_plan = tt_semantic_plan t, rt_semantic_merge_plan = None\<rparr>)
   }"

definition merge_plan_checks ::
  "(jstr \<Rightarrow> jstr) \<Rightarrow> change \<Rightarrow> transition_target \<Rightarrow> jsval \<Rightarrow> unit checked" where
  "merge_plan_checks lc c t plan = do {
     (case tt_pull_request t of
        None \<Rightarrow> report_target True (js ''$.target.pullRequest'') (js ''A merge transition requires a canonical pull request.'')
      | Some n \<Rightarrow>
          report_if (plan_at plan [''request'', ''pullRequest''] \<noteq> JNum (Integral n))
            ''CHANGE_PROVENANCE_PULL_REQUEST_MISMATCH'' (js ''$.target.semanticPullRequestMergePlan.request.pullRequest'')
            (js ''Semantic PR merge plan pull request must match the canonical Change pull request.''));
     (case tt_base_branch t of
        None \<Rightarrow> report_target True (js ''$.target.baseBranch'') (js ''A merge transition requires a canonical base branch.'')
      | Some b \<Rightarrow>
          report_if (plan_at plan [''request'', ''expectedBase''] \<noteq> JStr b) ''CHANGE_PROVENANCE_BASE_MISMATCH''
            (js ''$.target.semanticPullRequestMergePlan.request.expectedBase'')
            (js ''Semantic PR merge plan base must match the canonical Change base branch.''));
     report_if (plan_repository_differs lc plan [''request'', ''repository''] ''hostname'' (ch_identity c))
       ''CHANGE_PROVENANCE_IDENTITY_MISMATCH'' (js ''$.target.semanticPullRequestMergePlan.request.repository'')
       (js ''Semantic PR merge plan repository identity must match the Change identity.'');
     report_target (tt_branch t \<noteq> None \<and> tt_branch t \<noteq> projected_branch c) (js ''$.target.branch'')
       (js ''Target branch does not match the current Change projection.'');
     report_target (tt_pull_request t \<noteq> None \<and> tt_pull_request t \<noteq> projected_pull_request c)
       (js ''$.target.pullRequest'') (js ''Target pull request does not match the current Change projection.'')
   }"

definition merge_checks ::
  "(jstr \<Rightarrow> jstr) \<Rightarrow> change \<Rightarrow> transition_target option \<Rightarrow> resolved_target option checked" where
  "merge_checks lc c target =
     (let t = target_or_none target in do {
        (case tt_semantic_merge_plan t of
           None \<Rightarrow> report_target True (js ''$.target.semanticPullRequestMergePlan'')
                     (js ''A merge transition requires the existing Semantic PR merge plan.'')
         | Some plan \<Rightarrow>
             if plan_at plan [''operation''] \<noteq> JStr (js ''merge'')
             then report_target True (js ''$.target.semanticPullRequestMergePlan.operation'')
                    (js ''A Change merge transition must delegate to a Semantic PR merge plan.'')
             else merge_plan_checks lc c t plan);
        report_target (tt_branch t = None \<and> projected_branch c = None) (js ''$.change.projection.branch'')
          (js ''The merge transition requires a canonical branch.'');
        report_target (tt_pull_request t = None \<and> projected_pull_request c = None) (js ''$.change.projection.pullRequest'')
          (js ''The merge transition requires a canonical pull request.'');
        State_Monad.return (Some
          \<lparr>rt_branch = first_defined (tt_branch t) (projected_branch c), rt_base_branch = tt_base_branch t,
           rt_pull_request = first_defined (tt_pull_request t) (projected_pull_request c), rt_branch_commit_sha = None,
           rt_semantic_plan = None, rt_semantic_merge_plan = tt_semantic_merge_plan t\<rparr>)
      })"

definition progress_checks ::
  "change \<Rightarrow> change_transition \<Rightarrow> transition_target option \<Rightarrow> resolved_target option checked" where
  "progress_checks c op target =
     (let t = target_or_none target;
          branch = first_defined (tt_branch t) (projected_branch c);
          number = first_defined (tt_pull_request t) (projected_pull_request c) in do {
        report_target (tt_semantic_plan t \<noteq> None) (js ''$.target.semanticPullRequestPlan'')
          (js ''The '' @ transition_name op @ js '' transition accepts a Semantic PR plan only for issue issuance.'');
        report_target (tt_semantic_merge_plan t \<noteq> None) (js ''$.target.semanticPullRequestMergePlan'')
          (js ''The '' @ transition_name op @ js '' transition accepts a Semantic PR merge plan only for merge coordination.'');
        report_target (tt_base_branch t \<noteq> None) (js ''$.target.baseBranch'')
          (js ''The '' @ transition_name op @ js '' transition does not accept a base branch target.'');
        report_target (\<not> same_defined_value (projected_branch c) (tt_branch t)) (js ''$.target.branch'')
          (js ''Target branch does not match the current Change projection.'');
        report_target (\<not> same_defined_value (projected_pull_request c) (tt_pull_request t)) (js ''$.target.pullRequest'')
          (js ''Target pull request does not match the current Change projection.'');
        report_target (branch = None) (js ''$.change.projection.branch'')
          (js ''The transition requires a canonical branch.'');
        report_target (number = None \<and> \<not> (op = OpAbort \<and> ch_state c = RECOVERY_REQUIRED))
          (js ''$.change.projection.pullRequest'') (js ''The transition requires a canonical pull request.'');
        State_Monad.return (Some
          \<lparr>rt_branch = branch, rt_base_branch = None, rt_pull_request = number, rt_branch_commit_sha = None,
           rt_semantic_plan = None, rt_semantic_merge_plan = None\<rparr>)
      })"

definition semantic_checks ::
  "(jstr \<Rightarrow> jstr) \<Rightarrow> change \<Rightarrow> change_transition \<Rightarrow> transition_target option \<Rightarrow> resolved_target option checked" where
  "semantic_checks lc c op target =
     (if resolve_change_lifecycle_transition (Operation op) (ch_state c) = None
      then reject_with ''CHANGE_TRANSITION_NOT_ALLOWED'' (js ''$.change.state'')
             (js ''Transition \"'' @ transition_name op @ js ''\" is not allowed from state \"'' @
              change_state_name (ch_state c) @ js ''\".'')
      else case op of
             OpIssue \<Rightarrow> issue_checks lc c target
           | OpMerge \<Rightarrow> merge_checks lc c target
           | _ \<Rightarrow> progress_checks c op target)"

definition validate_transition_semantics ::
  "(jstr \<Rightarrow> jstr) \<Rightarrow> change \<Rightarrow> change_transition \<Rightarrow> transition_target option \<Rightarrow>
     change_diagnostic list + resolved_target" where
  "validate_transition_semantics lc c op target = validation_result (semantic_checks lc c op target)"

subsection \<open>The request\<close>

definition request_keys :: "jstr list" where
  "request_keys = [js ''version'', js ''transition'', js ''change'', js ''target'']"

definition transition_check :: "(jstr \<Rightarrow> jstr) \<Rightarrow> jsval \<Rightarrow> change_transition option checked" where
  "transition_check lc v =
     (case normalize_change_transition lc v of
        None \<Rightarrow> reject_with ''CHANGE_INVALID_TRANSITION'' (js ''$.transition'')
                  (js ''Transition operation is unsupported.'')
      | Some op \<Rightarrow> State_Monad.return (Some op))"

definition admitted_request ::
  "(jstr \<Rightarrow> jstr) \<Rightarrow> change_transition option \<Rightarrow> change option \<Rightarrow> transition_target option \<Rightarrow>
     change_diagnostic list \<Rightarrow> transition_request option checked" where
  "admitted_request lc op c t ds =
     (case (ds, op, c) of
        ([], Some op, Some c) \<Rightarrow> do {
          r \<leftarrow> adopt (validate_transition_semantics lc c op t);
          State_Monad.return (map_option (\<lambda>_. \<lparr>tq_transition = op, tq_change = c, tq_target = t\<rparr>) r)
        }
      | _ \<Rightarrow> State_Monad.return None)"

definition request_checks ::
  "(jstr \<Rightarrow> jstr) \<Rightarrow> jsval \<Rightarrow> (change_diagnostic list + transition_target) option \<Rightarrow>
     transition_request option checked" where
  "request_checks lc v target = do {
     add_unknown_properties v request_keys (js ''$'');
     version_check v (js ''Change transition contract version is unsupported.'');
     op \<leftarrow> required_check v (js ''transition'') (transition_check lc);
     c \<leftarrow> required_check v (js ''change'') (\<lambda>x. adopt (validate_change lc x));
     t \<leftarrow> (case target of None \<Rightarrow> State_Monad.return None | Some r \<Rightarrow> adopt r);
     ds \<leftarrow> State_Monad.get;
     admitted_request lc op c t ds
   }"

definition validate_transition_request ::
  "(jstr \<Rightarrow> jstr) \<Rightarrow> plan_authority \<Rightarrow> jsval \<Rightarrow> (change_diagnostic list + transition_request) option" where
  "validate_transition_request lc pa v =
     (if \<not> is_record v
      then Some (Inl (snd (run_checks (add_diagnostic ''CHANGE_INVALID_ROOT'' (js ''$'')
                                         (js ''Change transition request must be a JSON object.'')))))
      else if \<not> has_prop v (js ''target'') then Some (validation_result (request_checks lc v None))
      else map_option (\<lambda>t. validation_result (request_checks lc v (Some t)))
             (validate_transition_target pa (get_prop v (js ''target'')) (js ''$.target'')))"

subsection \<open>The plan\<close>

definition resolved_transition_target :: "transition_request \<Rightarrow> resolved_target" where
  "resolved_transition_target q =
     (let t = target_or_none (tq_target q); c = tq_change q;
          r = \<lparr>rt_branch = first_defined (tt_branch t) (projected_branch c), rt_base_branch = None,
               rt_pull_request = first_defined (tt_pull_request t) (projected_pull_request c),
               rt_branch_commit_sha = None, rt_semantic_plan = None, rt_semantic_merge_plan = None\<rparr> in
      case tq_transition q of
        OpIssue \<Rightarrow> r\<lparr>rt_branch := tt_branch t, rt_base_branch := tt_base_branch t, rt_pull_request := None,
                     rt_semantic_plan := tt_semantic_plan t\<rparr>
      | OpMerge \<Rightarrow> r\<lparr>rt_base_branch := tt_base_branch t, rt_semantic_merge_plan := tt_semantic_merge_plan t\<rparr>
      | _ \<Rightarrow> r\<lparr>rt_branch_commit_sha := tt_branch_commit_sha t\<rparr>)"

definition transition_result :: "transition_request \<Rightarrow> change_state \<Rightarrow> change" where
  "transition_result q to =
     (let r = resolved_transition_target q in
      projected_change (ch_identity (tq_change q)) (ch_provenance (tq_change q)) to (rt_branch r) (rt_pull_request r))"

definition provenance_record_path :: "int \<Rightarrow> jstr" where
  "provenance_record_path n = js ''.inari/provenance/'' @ digits_of (nat n) @ js ''.json''"

definition compatibility_title :: "int \<Rightarrow> jstr" where
  "compatibility_title n = js ''Change #'' @ digits_of (nat n)"

definition compatibility_body :: "int \<Rightarrow> jstr" where
  "compatibility_body n = js ''Closes #'' @ digits_of (nat n)"

definition issue_effects :: "int \<Rightarrow> resolved_target \<Rightarrow> jstr + change_effect list" where
  "issue_effects n r =
     (case (rt_branch r, rt_base_branch r) of
        (Some branch, Some base) \<Rightarrow>
          Inr [CREATE_BRANCH branch base,
               CREATE_PROVENANCE_COMMIT branch n (provenance_record_path n),
               (case rt_semantic_plan r of
                  None \<Rightarrow> CREATE_PULL_REQUEST branch base n (compatibility_title n) (compatibility_body n) None
                | Some plan \<Rightarrow>
                    CREATE_PULL_REQUEST branch base n (plan_text plan [''desired'', ''title''])
                      (plan_text plan [''desired'', ''body'']) (Some plan))]
      | _ \<Rightarrow> Inl (js ''A valid issue request must resolve branch and base branch targets.''))"

definition ready_effects :: "change_state \<Rightarrow> resolved_target \<Rightarrow> jstr + change_effect list" where
  "ready_effects from r =
     (case rt_pull_request r of
        None \<Rightarrow> Inl (js ''A valid ready request must resolve a pull request.'')
      | Some n \<Rightarrow> Inr (if from = DRAFT then [MARK_PULL_REQUEST_READY n] else []))"

text \<open>A valid abort request has resolved a branch (\<^verbatim>\<open>resolved.branch!\<close>).\<close>

definition abort_plan_effects :: "change_state \<Rightarrow> resolved_target \<Rightarrow> jstr + change_effect list" where
  "abort_plan_effects state r =
     (if state = ABORTED then Inr []
      else if state = RECOVERY_REQUIRED then
        (case (rt_branch r, rt_branch_commit_sha r) of
           (None, _) \<Rightarrow> Inl (js ''A recovery retry must resolve a canonical branch.'')
         | (_, None) \<Rightarrow> Inl (js ''A recovery retry must resolve a proven canonical branch generation.'')
         | (Some branch, Some sha) \<Rightarrow> Inr [DELETE_BRANCH branch (Some sha)])
      else
        (case (rt_pull_request r, rt_branch_commit_sha r) of
           (None, _) \<Rightarrow> Inl (js ''A valid abort request must resolve a pull request.'')
         | (_, None) \<Rightarrow> Inl (js ''A valid abort request must resolve a proven canonical branch generation.'')
         | (Some n, Some sha) \<Rightarrow>
             Inr [CLOSE_PULL_REQUEST n, DELETE_BRANCH (or_empty (rt_branch r)) (Some sha)]))"

definition build_transition_plan :: "transition_request \<Rightarrow> jstr + transition_plan" where
  "build_transition_plan q =
     (let c = tq_change q; r = resolved_transition_target q in
      case resolve_change_lifecycle_transition (Operation (tq_transition q)) (ch_state c) of
        None \<Rightarrow> Inl (js ''Cannot build a plan for an invalid Change transition request.'')
      | Some (_, from, to) \<Rightarrow>
          on_ok (case tq_transition q of
                   OpIssue \<Rightarrow> issue_effects (root_issue (ch_identity c)) r
                 | OpReady \<Rightarrow> ready_effects from r
                 | OpAbort \<Rightarrow> abort_plan_effects (ch_state c) r
                 | OpMerge \<Rightarrow> Inr [])
            (\<lambda>effects. Inr \<lparr>tp_request = q, tp_from = from, tp_to = to, tp_result = transition_result q to,
                            tp_effects = effects\<rparr>))"

text \<open>
  What \<^verbatim>\<open>planChangeTransition\<close> throws: the validation error with its diagnostics, a plain
  error, or the error of diagnostics that cannot be built.
\<close>

datatype plan_error =
    Plan_Invalid "change_diagnostic list"
  | Plan_Error jstr
  | Diagnostics_Error

definition plan_change_transition ::
  "(jstr \<Rightarrow> jstr) \<Rightarrow> plan_authority \<Rightarrow> jsval \<Rightarrow> plan_error + transition_plan" where
  "plan_change_transition lc pa v =
     (case validate_transition_request lc pa v of
        None \<Rightarrow> Inl Diagnostics_Error
      | Some (Inl ds) \<Rightarrow> Inl (Plan_Invalid ds)
      | Some (Inr q) \<Rightarrow>
          (case build_transition_plan q of Inl message \<Rightarrow> Inl (Plan_Error message) | Inr plan \<Rightarrow> Inr plan))"

subsection \<open>What a valid request is\<close>

lemma grows_report [checked]: "grows (report_if b code path message)"
  by (auto simp: report_if_def intro!: checked)

lemma grows_report_target [checked]: "grows (report_target b path message)"
  by (simp add: report_target_def checked)

lemma grows_push_unbounded [checked]: "grows (push_unbounded ds)"
  by (simp add: grows_def push_unbounded_def)

lemma grows_issuance_capabilities [checked]: "grows (issuance_capabilities plan path)"
  by (auto simp: issuance_capabilities_def intro!: checked)

lemma grows_issuance_plan [checked]: "grows (issuance_plan_checks lc i t plan)"
  by (auto simp: issuance_plan_checks_def intro!: checked)

lemma grows_merge_plan [checked]: "grows (merge_plan_checks lc c t plan)"
  by (auto simp: merge_plan_checks_def intro!: checked split: option.split)

lemma clean_report [simp]: "clean_run (report_if b code path message) y \<longleftrightarrow> \<not> b"
  by (auto simp: report_if_def)

lemma clean_report_target [simp]: "clean_run (report_target b path message) y \<longleftrightarrow> \<not> b"
  by (simp add: report_target_def)

lemma clean_push_unbounded [simp]: "clean_run (push_unbounded ds) y \<longleftrightarrow> ds = []"
  by (simp add: clean_run_def push_unbounded_def)

lemma clean_issue_checks:
  "clean_run (issue_checks lc c target) (Some r) \<longleftrightarrow>
     projected_branch c = None \<and> projected_pull_request c = None \<and>
     (\<exists>t. target = Some t \<and> tt_branch t \<noteq> None \<and> tt_base_branch t \<noteq> None \<and> tt_pull_request t = None \<and>
        (\<forall>plan. tt_semantic_plan t = Some plan \<longrightarrow> clean_run (issuance_plan_checks lc (ch_identity c) t plan) ()) \<and>
        r = \<lparr>rt_branch = tt_branch t, rt_base_branch = tt_base_branch t, rt_pull_request = None,
             rt_branch_commit_sha = None, rt_semantic_plan = tt_semantic_plan t, rt_semantic_merge_plan = None\<rparr>)"
  by (cases target)
    (auto simp: issue_checks_def clean_run_bind checked target_or_none_def Let_def split: option.splits intro!: checked)

lemma clean_merge_checks:
  "clean_run (merge_checks lc c target) (Some r) \<longleftrightarrow>
     (\<exists>t plan n b. target = Some t \<and> tt_semantic_merge_plan t = Some plan \<and> tt_pull_request t = Some n \<and>
        tt_base_branch t = Some b \<and> plan_at plan [''operation''] = JStr (js ''merge'') \<and>
        plan_at plan [''request'', ''pullRequest''] = JNum (Integral n) \<and>
        plan_at plan [''request'', ''expectedBase''] = JStr b \<and>
        \<not> plan_repository_differs lc plan [''request'', ''repository''] ''hostname'' (ch_identity c) \<and>
        (tt_branch t = None \<or> tt_branch t = projected_branch c) \<and> projected_pull_request c = Some n \<and>
        projected_branch c \<noteq> None \<and>
        r = \<lparr>rt_branch = projected_branch c, rt_base_branch = Some b, rt_pull_request = Some n,
             rt_branch_commit_sha = None, rt_semantic_plan = None, rt_semantic_merge_plan = Some plan\<rparr>)"
  by (cases target; cases "tt_semantic_merge_plan (the target)"; cases "tt_pull_request (the target)";
      cases "tt_base_branch (the target)"; cases "tt_branch (the target)"; cases "projected_branch c")
    (auto simp: merge_checks_def merge_plan_checks_def clean_run_bind checked target_or_none_def no_target_def
      first_defined_def Let_def split: option.splits intro!: checked)

lemma clean_progress_checks:
  "clean_run (progress_checks c op target) (Some r) \<longleftrightarrow>
     (let t = target_or_none target in
      tt_semantic_plan t = None \<and> tt_semantic_merge_plan t = None \<and> tt_base_branch t = None \<and>
      same_defined_value (projected_branch c) (tt_branch t) \<and>
      same_defined_value (projected_pull_request c) (tt_pull_request t) \<and>
      first_defined (tt_branch t) (projected_branch c) \<noteq> None \<and>
      (first_defined (tt_pull_request t) (projected_pull_request c) \<noteq> None \<or> op = OpAbort \<and> ch_state c = RECOVERY_REQUIRED) \<and>
      r = \<lparr>rt_branch = first_defined (tt_branch t) (projected_branch c), rt_base_branch = None,
           rt_pull_request = first_defined (tt_pull_request t) (projected_pull_request c),
           rt_branch_commit_sha = None, rt_semantic_plan = None, rt_semantic_merge_plan = None\<rparr>)"
  by (auto simp: progress_checks_def clean_run_bind checked Let_def)

lemma resolve_edge:
  "resolve_change_lifecycle_transition (Operation op) s = Some (op', from, to) \<longleftrightarrow>
     op' = Operation op \<and> from = s \<and> lifecycle_edge s op to"
proof -
  obtain r where r: "transition_change_lifecycle s (Operation op) = Inr r" using transition_total by blast
  have "lr_operation r = Operation op" "lr_from r = s" using transition_fields [OF r] by auto
  moreover have "lifecycle_edge s op to \<longleftrightarrow> lr_accepted r \<and> lr_to r = to" using transition_edge [of s op to] r by auto
  ultimately show ?thesis by (auto simp: resolve_change_lifecycle_transition_def r)
qed

lemma valid_semantics:
  "validate_transition_semantics lc c op target = Inr r \<longleftrightarrow>
     (\<exists>to. lifecycle_edge (ch_state c) op to) \<and>
     (case op of
        OpIssue \<Rightarrow> clean_run (issue_checks lc c target) (Some r)
      | OpMerge \<Rightarrow> clean_run (merge_checks lc c target) (Some r)
      | _ \<Rightarrow> clean_run (progress_checks c op target) (Some r))"
  using resolve_edge [of op "ch_state c"]
  by (cases "resolve_change_lifecycle_transition (Operation op) (ch_state c)"; cases op)
    (auto simp: validate_transition_semantics_def validation_result_Inr semantic_checks_def)

lemma grows_transition_check [checked]: "grows (transition_check lc v)"
  by (auto simp: transition_check_def intro!: checked split: option.split)

lemma clean_transition_check [simp]:
  "clean_run (transition_check lc v) y \<longleftrightarrow> y \<noteq> None \<and> normalize_change_transition lc v = y"
  by (auto simp: transition_check_def split: option.split)

lemma grows_admitted [checked]: "grows (admitted_request lc op c t ds)"
  by (auto simp: admitted_request_def intro!: checked split: option.split list.split)

lemma clean_admitted [simp]:
  "clean_run (admitted_request lc op c t []) (Some q) \<longleftrightarrow>
     op = Some (tq_transition q) \<and> c = Some (tq_change q) \<and> t = tq_target q \<and>
     (\<exists>r. validate_transition_semantics lc (tq_change q) (tq_transition q) (tq_target q) = Inr r)"
  by (cases q; cases "validate_transition_semantics lc (tq_change q) (tq_transition q) (tq_target q)")
    (auto simp: admitted_request_def clean_run_bind checked split: option.split)

lemma clean_request_checks:
  "clean_run (request_checks lc v t) (Some q) \<longleftrightarrow>
     set (object_keys v) \<subseteq> set request_keys \<and> has_prop v (js ''version'') \<and>
     get_prop v (js ''version'') = JNum (Integral 1) \<and> has_prop v (js ''transition'') \<and>
     normalize_change_transition lc (get_prop v (js ''transition'')) = Some (tq_transition q) \<and>
     has_prop v (js ''change'') \<and> validate_change lc (get_prop v (js ''change'')) = Inr (tq_change q) \<and>
     tq_target q = Option.bind t result_value \<and> (t = None \<or> result_diagnostics (the t) = []) \<and>
     (\<exists>r. validate_transition_semantics lc (tq_change q) (tq_transition q) (tq_target q) = Inr r)"
  by (cases t) (auto simp: request_checks_def clean_run_bind checked clean_run_get)

text \<open>The target a valid request carries.\<close>

definition wf_target :: "transition_target \<Rightarrow> bool" where
  "wf_target t \<longleftrightarrow>
     (case tt_pull_request t of None \<Rightarrow> True | Some n \<Rightarrow> 1 \<le> n \<and> n \<le> max_safe_integer) \<and>
     (case tt_branch_commit_sha t of None \<Rightarrow> True
      | Some s \<Rightarrow> length s = 40 \<and> list_all (\<lambda>c. is_digit c \<or> 97 \<le> c \<and> c \<le> 102) s)"

lemma hex_lower: "hex_unit c \<Longrightarrow> is_digit (ascii_lower c) \<or> 97 \<le> ascii_lower c \<and> ascii_lower c \<le> 102"
  by (auto simp: hex_unit_def ascii_lower_def is_upper_def is_digit_def)

lemma commit_sha_Some: "commit_sha v = Some s \<Longrightarrow> length s = 40 \<and> list_all (\<lambda>c. is_digit c \<or> 97 \<le> c \<and> c \<le> 102) s"
proof -
  assume "commit_sha v = Some s"
  then obtain x where x: "v = JStr x" "length x = 40" "list_all hex_unit x" "s = map ascii_lower x"
    by (cases v) (auto split: if_splits)
  from x(3) have "list_all (\<lambda>c. is_digit (ascii_lower c) \<or> 97 \<le> ascii_lower c \<and> ascii_lower c \<le> 102) x"
    by (rule list.pred_mono_strong) (erule hex_lower)
  then show ?thesis using x by (simp add: list.pred_map comp_def)
qed

lemma optional_read: "(if b then y \<noteq> None \<and> g = y else y = None) \<Longrightarrow> y = None \<or> g = y"
  by (simp split: if_splits)

lemma valid_target_wf:
  assumes "validate_transition_target pa v path = Some (Inr t)"
  shows "wf_target t"
proof -
  from assms obtain p m where "clean_run (target_checks pa v path p m) (Some t)"
    by (auto simp: validate_transition_target_def validation_result_Inr Let_def split: if_splits option.splits prod.splits)
  then have read: "(tt_pull_request t = None \<or> positive_integer (get_prop v (js ''pullRequest'')) = tt_pull_request t) \<and>
      (tt_branch_commit_sha t = None \<or> commit_sha (get_prop v (js ''branchCommitSha'')) = tt_branch_commit_sha t)"
    by (simp add: target_checks_def clean_run_bind checked) (clarify, auto dest!: optional_read)
  have "1 \<le> n \<and> n \<le> max_safe_integer" if "tt_pull_request t = Some n" for n
    using read that positive_integer_Some [of "get_prop v (js ''pullRequest'')" n] by simp
  moreover have "length s = 40 \<and> list_all (\<lambda>c. is_digit c \<or> 97 \<le> c \<and> c \<le> 102) s"
    if "tt_branch_commit_sha t = Some s" for s
    using read that commit_sha_Some [of "get_prop v (js ''branchCommitSha'')" s] by simp
  ultimately show ?thesis
    by (simp add: wf_target_def split: option.split)
qed

lemma valid_request:
  assumes "validate_transition_request lc pa v = Some (Inr q)"
  shows "\<exists>x. validate_change lc x = Inr (tq_change q)" and "wf_target (target_or_none (tq_target q))"
    and "\<exists>r. validate_transition_semantics lc (tq_change q) (tq_transition q) (tq_target q) = Inr r"
proof -
  obtain t where t: "clean_run (request_checks lc v t) (Some q)"
      "t = None \<or> validate_transition_target pa (get_prop v (js ''target'')) (js ''$.target'') = t"
    using assms by (auto simp: validate_transition_request_def validation_result_Inr split: if_splits)
  note req = t(1) [unfolded clean_request_checks]
  show "\<exists>x. validate_change lc x = Inr (tq_change q)" using req by blast
  show "\<exists>r. validate_transition_semantics lc (tq_change q) (tq_transition q) (tq_target q) = Inr r" using req by blast
  show "wf_target (target_or_none (tq_target q))"
  proof (cases t)
    case None
    then show ?thesis using req by (simp add: wf_target_def target_or_none_def no_target_def)
  next
    case (Some r)
    then show ?thesis
      using req t(2) valid_target_wf
      by (cases r) (auto simp: wf_target_def target_or_none_def no_target_def)
  qed
qed

subsection \<open>What a plan is\<close>

lemma projected_change_sel [simp]:
  "ch_identity (projected_change i p s b n) = i"
  "ch_provenance (projected_change i p s b n) = p"
  "ch_state (projected_change i p s b n) = s"
  "projected_branch (projected_change i p s b n) = b"
  "projected_pull_request (projected_change i p s b n) = n"
  by (auto simp: projected_change_def projected_branch_def projected_pull_request_def)

text \<open>The target the planner resolves is the one the validator resolved, with the branch generation.\<close>

lemma resolutions_agree:
  assumes "validate_transition_semantics lc (tq_change q) (tq_transition q) (tq_target q) = Inr r"
  shows "resolved_transition_target q =
    r\<lparr>rt_branch_commit_sha :=
        if tq_transition q \<in> {OpReady, OpAbort} then tt_branch_commit_sha (target_or_none (tq_target q)) else None\<rparr>"
proof (cases "tq_transition q")
  case OpIssue
  then show ?thesis
    using assms by (auto simp: valid_semantics clean_issue_checks resolved_transition_target_def Let_def target_or_none_def)
next
  case OpMerge
  then show ?thesis
    using assms
    by (auto simp: valid_semantics clean_merge_checks resolved_transition_target_def Let_def target_or_none_def first_defined_def
        split: option.splits)
qed (use assms in \<open>auto simp: valid_semantics clean_progress_checks resolved_transition_target_def Let_def\<close>)

text \<open>What the resolved target knows.\<close>

lemma resolved_known:
  assumes "validate_transition_semantics lc c op target = Inr r"
  shows "\<exists>b. rt_branch r = Some b"
    and "op \<noteq> OpIssue \<Longrightarrow> \<not> (op = OpAbort \<and> ch_state c = RECOVERY_REQUIRED) \<Longrightarrow> \<exists>n. rt_pull_request r = Some n"
    and "op = OpIssue \<Longrightarrow> (\<exists>b. rt_base_branch r = Some b) \<and> rt_pull_request r = None"
    and "projected_branch c = None \<or> rt_branch r = projected_branch c"
    and "projected_pull_request c = None \<or> rt_pull_request r = projected_pull_request c"
  using assms
  by (cases op;
      auto simp: valid_semantics clean_issue_checks clean_merge_checks clean_progress_checks Let_def same_defined_value_def
        first_defined_def split: option.splits)+

definition operation_effects :: "transition_request \<Rightarrow> jstr + change_effect list" where
  "operation_effects q =
     (case tq_transition q of
        OpIssue \<Rightarrow> issue_effects (root_issue (ch_identity (tq_change q))) (resolved_transition_target q)
      | OpReady \<Rightarrow> ready_effects (ch_state (tq_change q)) (resolved_transition_target q)
      | OpAbort \<Rightarrow> abort_plan_effects (ch_state (tq_change q)) (resolved_transition_target q)
      | OpMerge \<Rightarrow> Inr [])"

lemma build_plan_eq:
  assumes "lifecycle_edge (ch_state (tq_change q)) (tq_transition q) to"
  shows "build_transition_plan q =
    on_ok (operation_effects q) (\<lambda>es. Inr \<lparr>tp_request = q, tp_from = ch_state (tq_change q), tp_to = to,
      tp_result = transition_result q to, tp_effects = es\<rparr>)"
proof -
  have "resolve_change_lifecycle_transition (Operation (tq_transition q)) (ch_state (tq_change q)) =
      Some (Operation (tq_transition q), ch_state (tq_change q), to)"
    using assms by (simp add: resolve_edge)
  then show ?thesis by (simp add: build_transition_plan_def operation_effects_def Let_def)
qed

lemma build_plan_Inr:
  assumes "build_transition_plan q = Inr p"
  shows "lifecycle_edge (ch_state (tq_change q)) (tq_transition q) (tp_to p)"
    and "tp_request p = q" and "tp_from p = ch_state (tq_change q)" and "tp_result p = transition_result q (tp_to p)"
    and "operation_effects q = Inr (tp_effects p)"
proof -
  have "resolve_change_lifecycle_transition (Operation (tq_transition q)) (ch_state (tq_change q)) \<noteq> None"
    using assms by (auto simp: build_transition_plan_def Let_def split: option.splits)
  then obtain to where edge: "lifecycle_edge (ch_state (tq_change q)) (tq_transition q) to"
    using resolve_edge by force
  with assms show "lifecycle_edge (ch_state (tq_change q)) (tq_transition q) (tp_to p)"
    and "tp_request p = q" and "tp_from p = ch_state (tq_change q)" and "tp_result p = transition_result q (tp_to p)"
    and "operation_effects q = Inr (tp_effects p)"
    by (auto simp: build_plan_eq [OF edge])
qed

lemma build_plan_request: "build_transition_plan q = Inr p \<Longrightarrow> tp_request p = q"
  by (rule build_plan_Inr)

lemma planned:
  "plan_change_transition lc pa v = Inr p \<longleftrightarrow>
     validate_transition_request lc pa v = Some (Inr (tp_request p)) \<and> build_transition_plan (tp_request p) = Inr p"
  by (auto simp: plan_change_transition_def dest: build_plan_request split: option.splits sum.splits)

text \<open>A request of a draft Change, and a target with a commit of its branch.\<close>

definition sample_transition_value :: "change_transition \<Rightarrow> jsval option \<Rightarrow> jsval" where
  "sample_transition_value op target =
     JObj ([(js ''version'', JNum (Integral 1)), (js ''transition'', JStr (transition_name op)),
            (js ''change'', change_value sample_governed_change)] @ opt_prop ''target'' (\<lambda>t. t) target)"

definition sample_target :: transition_target where
  "sample_target = no_target\<lparr>tt_branch_commit_sha := Some (replicate 40 48)\<rparr>"

definition sample_target_value :: jsval where
  "sample_target_value = JObj [(js ''branchCommitSha'', JStr (replicate 40 48))]"

definition sample_plans :: plan_authority where
  "sample_plans = \<lparr>pa_branch = sample_authority, pa_branch_plan = (\<lambda>v. v), pa_pull_plan = (\<lambda>v. ([], None)),
     pa_merge_plan = (\<lambda>v. ([], None))\<rparr>"

lemma sample_transition_read [simp]:
  "normalize_change_transition (\<lambda>s. s) (JStr (transition_name op)) = Some op"
  by (cases op) (simp_all add: to_lower_def js_eval ascii_lower_def is_upper_def)

lemma no_target_sha [simp]: "no_target\<lparr>tt_branch_commit_sha := None\<rparr> = no_target"
  by (simp add: no_target_def)

lemma sample_semantics:
  assumes "op \<in> {OpReady, OpAbort}" and "target_or_none t = no_target\<lparr>tt_branch_commit_sha := sha\<rparr>"
  shows "\<exists>r. validate_transition_semantics lc sample_governed_change op t = Inr r"
proof -
  have "\<exists>to. lifecycle_edge (ch_state sample_governed_change) op to"
    using assms(1) by (auto simp: sample_governed_change_def intro: lifecycle_edge.intros)
  with assms show ?thesis
    by (auto simp: valid_semantics clean_progress_checks Let_def no_target_def same_defined_value_def first_defined_def
        projected_branch_def projected_pull_request_def sample_governed_change_def)
qed

lemma sample_ready_abort_valid:
  assumes "op \<in> {OpReady, OpAbort}"
  shows "validate_transition_request (\<lambda>s. s) pa (sample_transition_value op None) =
    Some (Inr \<lparr>tq_transition = op, tq_change = sample_governed_change, tq_target = None\<rparr>)"
  using sample_semantics [OF assms, of None None] wf_change_validates [OF wf_sample_change, of "\<lambda>s. s"]
  by (simp del: normalize_change_transition.simps add: validate_transition_request_def sample_transition_value_def
      validation_result_Inr clean_request_checks request_keys_def target_or_none_def)

lemma sample_target_valid:
  "validate_transition_target sample_plans sample_target_value path = Some (Inr sample_target)"
proof -
  have "clean_run (target_checks sample_plans sample_target_value path ([], None) ([], None)) (Some sample_target)"
    by (simp add: target_checks_def clean_run_bind checked sample_target_value_def target_keys_def sample_target_def
        no_target_def list_all_iff hex_unit_def is_digit_def ascii_lower_def is_upper_def)
  then show ?thesis
    by (simp add: validate_transition_target_def sample_target_value_def plan_property_def Let_def
        validation_result_Inr clean_run_checks [symmetric])
qed

lemma sample_abort_valid:
  "validate_transition_request (\<lambda>s. s) sample_plans (sample_transition_value OpAbort (Some sample_target_value)) =
    Some (Inr \<lparr>tq_transition = OpAbort, tq_change = sample_governed_change, tq_target = Some sample_target\<rparr>)"
  using sample_semantics [of OpAbort "Some sample_target"] wf_change_validates [OF wf_sample_change, of "\<lambda>s. s"]
  by (simp del: normalize_change_transition.simps transition_name.simps add: validate_transition_request_def
      sample_transition_value_def validation_result_Inr clean_request_checks request_keys_def target_or_none_def
      sample_target_valid sample_target_def)

lemma sample_ready_plans:
  "\<exists>p. plan_change_transition (\<lambda>s. s) sample_plans (sample_transition_value OpReady None) = Inr p"
proof -
  have "lifecycle_edge (ch_state sample_governed_change) OpReady REVIEW"
    by (simp add: sample_governed_change_def lifecycle_edge.intros)
  then show ?thesis
    by (simp add: plan_change_transition_def sample_ready_abort_valid build_plan_eq operation_effects_def
        resolved_transition_target_def target_or_none_def no_target_def first_defined_def projected_pull_request_def
        sample_governed_change_def ready_effects_def Let_def)
qed

lemma sample_abort_plans:
  "\<exists>p. plan_change_transition (\<lambda>s. s) sample_plans (sample_transition_value OpAbort (Some sample_target_value)) = Inr p \<and>
     tp_from p = DRAFT \<and> tq_transition (tp_request p) = OpAbort \<and>
     projected_branch (tp_result p) = Some (js ''feat/7-x'') \<and> projected_pull_request (tp_result p) = Some 8"
proof -
  have "lifecycle_edge (ch_state sample_governed_change) OpAbort ABORTED"
    by (simp add: sample_governed_change_def lifecycle_edge.intros)
  then show ?thesis
    by (simp add: plan_change_transition_def sample_abort_valid build_plan_eq operation_effects_def sample_target_def
        resolved_transition_target_def target_or_none_def no_target_def first_defined_def projected_pull_request_def
        projected_branch_def sample_governed_change_def abort_plan_effects_def transition_result_def
        projected_change_def Let_def)
qed

text \<open>
  C20. A plan is one edge of the lifecycle.  Whatever untrusted input the planner accepts, the plan goes
  from the state of a valid Change along an edge of the requested operation to the state of its result; the
  result keeps identity and provenance, has a branch, and contradicts neither the branch nor the pull
  request the Change was projected with.
\<close>

theorem plan_follows_lifecycle:
  assumes "plan_change_transition lc pa v = Inr p"
  shows "(\<exists>x. validate_change lc x = Inr (tq_change (tp_request p))) \<and>
    lifecycle_edge (tp_from p) (tq_transition (tp_request p)) (tp_to p) \<and>
    tp_from p = ch_state (tq_change (tp_request p)) \<and> ch_state (tp_result p) = tp_to p \<and>
    ch_identity (tp_result p) = ch_identity (tq_change (tp_request p)) \<and>
    ch_provenance (tp_result p) = ch_provenance (tq_change (tp_request p)) \<and>
    (\<exists>b. projected_branch (tp_result p) = Some b \<and> projected_branch (tq_change (tp_request p)) \<in> {None, Some b}) \<and>
    projected_pull_request (tq_change (tp_request p)) \<in> {None, projected_pull_request (tp_result p)}"
proof -
  let ?q = "tp_request p"
  have valid: "validate_transition_request lc pa v = Some (Inr ?q)" and build: "build_transition_plan ?q = Inr p"
    using assms by (simp_all add: planned)
  note plan = build_plan_Inr [OF build]
  obtain r where r: "validate_transition_semantics lc (tq_change ?q) (tq_transition ?q) (tq_target ?q) = Inr r"
    using valid_request(3) [OF valid] by blast
  have result: "projected_branch (tp_result p) = rt_branch r" "projected_pull_request (tp_result p) = rt_pull_request r"
    using plan by (simp_all add: transition_result_def resolutions_agree [OF r] Let_def)
  show ?thesis
    using plan result resolved_known(1,4,5) [OF r] valid_request(1) [OF valid]
    by (auto simp: transition_result_def Let_def)
qed

theorem plan_follows_lifecycle_witness:
  "\<exists>p. plan_change_transition (\<lambda>s. s) sample_plans (sample_transition_value OpReady None) = Inr p \<and>
     lifecycle_edge (tp_from p) (tq_transition (tp_request p)) (tp_to p)"
proof -
  obtain p where "plan_change_transition (\<lambda>s. s) sample_plans (sample_transition_value OpReady None) = Inr p"
    using sample_ready_plans by blast
  then show ?thesis using plan_follows_lifecycle by blast
qed

lemma issue_effects_shape:
  assumes "issue_effects n r = Inr es"
  shows "\<exists>b base title body plan. rt_branch r = Some b \<and>
    es = [CREATE_BRANCH b base, CREATE_PROVENANCE_COMMIT b n (provenance_record_path n),
          CREATE_PULL_REQUEST b base n title body plan]"
  using assms by (auto simp: issue_effects_def split: option.splits)

text \<open>
  C21. A plan contains the effects of its operation and no others, all on one branch and one pull
  request: Issue creates the branch, its provenance record and a pull request between the same two
  branches for the root Issue; Ready marks the projected pull request of a draft; Merge leaves the mutation
  to another authority; Abort closes the projected pull request and deletes the projected branch, at a
  canonical commit the caller has observed, and after a failure only the branch is left to delete.
\<close>

theorem plan_effects_of_operation:
  assumes "plan_change_transition lc pa v = Inr p"
  shows "case tq_transition (tp_request p) of
      OpIssue \<Rightarrow> \<exists>b base title body plan. projected_branch (tp_result p) = Some b \<and>
        tp_effects p =
          [CREATE_BRANCH b base,
           CREATE_PROVENANCE_COMMIT b (root_issue (ch_identity (tp_result p)))
             (provenance_record_path (root_issue (ch_identity (tp_result p)))),
           CREATE_PULL_REQUEST b base (root_issue (ch_identity (tp_result p))) title body plan]
    | OpReady \<Rightarrow> \<exists>n. projected_pull_request (tp_result p) = Some n \<and>
        tp_effects p = (if tp_from p = DRAFT then [MARK_PULL_REQUEST_READY n] else [])
    | OpMerge \<Rightarrow> tp_effects p = []
    | OpAbort \<Rightarrow> tp_from p = ABORTED \<and> tp_effects p = [] \<or>
        tp_from p \<noteq> ABORTED \<and>
        (\<exists>b sha close. projected_branch (tp_result p) = Some b \<and>
           length sha = 40 \<and> list_all (\<lambda>c. is_digit c \<or> 97 \<le> c \<and> c \<le> 102) sha \<and>
           tp_effects p = close @ [DELETE_BRANCH b (Some sha)] \<and>
           (if tp_from p = RECOVERY_REQUIRED then close = []
            else \<exists>n. projected_pull_request (tp_result p) = Some n \<and> close = [CLOSE_PULL_REQUEST n]))"
proof -
  let ?q = "tp_request p"
  have valid: "validate_transition_request lc pa v = Some (Inr ?q)" and build: "build_transition_plan ?q = Inr p"
    using assms by (simp_all add: planned)
  note plan = build_plan_Inr [OF build]
  obtain r where r: "validate_transition_semantics lc (tq_change ?q) (tq_transition ?q) (tq_target ?q) = Inr r"
    using valid_request(3) [OF valid] by blast
  let ?rt = "resolved_transition_target ?q"
  have result: "projected_branch (tp_result p) = rt_branch ?rt" "projected_pull_request (tp_result p) = rt_pull_request ?rt"
      "ch_identity (tp_result p) = ch_identity (tq_change ?q)"
    using plan by (simp_all add: transition_result_def Let_def)
  show ?thesis
  proof (cases "tq_transition ?q")
    case OpIssue
    then show ?thesis
      using plan result issue_effects_shape [of "root_issue (ch_identity (tq_change ?q))" ?rt "tp_effects p"]
      by (auto simp: operation_effects_def)
  next
    case OpReady
    then show ?thesis
      using plan result by (auto simp: operation_effects_def ready_effects_def split: option.splits if_splits)
  next
    case OpMerge
    then show ?thesis using plan by (simp add: operation_effects_def)
  next
    case OpAbort
    then have "rt_branch_commit_sha ?rt = tt_branch_commit_sha (target_or_none (tq_target ?q))"
      by (simp add: resolutions_agree [OF r])
    then have sha: "length s = 40 \<and> list_all (\<lambda>c. is_digit c \<or> 97 \<le> c \<and> c \<le> 102) s"
      if "rt_branch_commit_sha ?rt = Some s" for s
      using valid_request(2) [OF valid] that by (auto simp: wf_target_def split: option.splits)
    obtain b where "rt_branch ?rt = Some b"
      using resolved_known(1) [OF r] by (auto simp: resolutions_agree [OF r])
    with OpAbort show ?thesis
      using plan result sha by (auto simp: operation_effects_def abort_plan_effects_def split: option.splits if_splits)
  qed
qed

theorem plan_effects_of_operation_witness:
  "\<exists>p sha. plan_change_transition (\<lambda>s. s) sample_plans (sample_transition_value OpAbort (Some sample_target_value)) = Inr p \<and>
     tp_effects p = [CLOSE_PULL_REQUEST 8, DELETE_BRANCH (js ''feat/7-x'') (Some sha)]"
proof -
  obtain p where p: "plan_change_transition (\<lambda>s. s) sample_plans (sample_transition_value OpAbort (Some sample_target_value)) = Inr p"
      "tp_from p = DRAFT" "tq_transition (tp_request p) = OpAbort"
      "projected_branch (tp_result p) = Some (js ''feat/7-x'')" "projected_pull_request (tp_result p) = Some 8"
    using sample_abort_plans by blast
  show ?thesis using plan_effects_of_operation [OF p(1)] p by auto
qed

text \<open>
  C22. A valid request has a plan, with one exception: a request to abort that names no commit of the
  branch passes validation, and the planner then throws a plain error instead of the validation error its
  callers handle, unless the Change is aborted already.
\<close>

theorem valid_request_plans:
  assumes "validate_transition_request lc pa v = Some (Inr q)"
  shows "if tq_transition q = OpAbort \<and> ch_state (tq_change q) \<noteq> ABORTED \<and>
        tt_branch_commit_sha (target_or_none (tq_target q)) = None
      then \<exists>message. plan_change_transition lc pa v = Inl (Plan_Error message)
      else \<exists>p. plan_change_transition lc pa v = Inr p \<and> tp_request p = q"
proof -
  let ?c = "tq_change q" and ?rt = "resolved_transition_target q"
  obtain r where r: "validate_transition_semantics lc ?c (tq_transition q) (tq_target q) = Inr r"
    using valid_request(3) [OF assms] by blast
  then obtain to where edge: "lifecycle_edge (ch_state ?c) (tq_transition q) to" by (auto simp: valid_semantics)
  obtain b where b: "rt_branch ?rt = Some b"
    using resolved_known(1) [OF r] by (auto simp: resolutions_agree [OF r])
  show ?thesis
    using resolved_known(2,3) [OF r] b
    by (cases "tq_transition q"; cases "ch_state ?c = RECOVERY_REQUIRED")
      (auto simp: plan_change_transition_def assms build_plan_eq [OF edge] operation_effects_def
        resolutions_agree [OF r] issue_effects_def ready_effects_def abort_plan_effects_def split: option.splits)
qed

theorem valid_request_plans_witness:
  "\<exists>message. plan_change_transition (\<lambda>s. s) sample_plans (sample_transition_value OpAbort None) = Inl (Plan_Error message)"
  using valid_request_plans [OF sample_ready_abort_valid [of OpAbort sample_plans]]
  by (simp add: target_or_none_def no_target_def sample_governed_change_def)

end
