(* ===== verification/Plan_Validation.thy ===== *)
theory Plan_Validation
  imports Change_Planning
begin

text \<open>
  The validators of transported effects, of the evidence of their success and of transition plans,
  \<^verbatim>\<open>validateChangeEffect\<close>, \<^verbatim>\<open>validateChangeEffectSuccessEvidence\<close> and
  \<^verbatim>\<open>validateChangeTransitionPlan\<close> of \<^verbatim>\<open>src/src/change.ts\<close>, with the plain
  objects of valid effects, requests and plans.  The values of two optional plans of another authority are
  compared as values where the code compares their JSON texts.
\<close>

subsection \<open>Properties of an effect\<close>

definition required_effect ::
  "jsval \<Rightarrow> jstr \<Rightarrow> (jsval \<Rightarrow> 'a option) \<Rightarrow> jstr \<Rightarrow> jstr \<Rightarrow> 'a option checked" where
  "required_effect v path good key message =
     (if \<not> has_prop v key
      then reject_with ''CHANGE_INVALID_EFFECT'' (sub_path path key) (js ''Effect property is required.'')
      else case good (get_prop v key) of
             None \<Rightarrow> reject_with ''CHANGE_INVALID_EFFECT'' (sub_path path key) message
           | Some x \<Rightarrow> State_Monad.return (Some x))"

definition effect_branch :: "jsval \<Rightarrow> jstr \<Rightarrow> jstr \<Rightarrow> jstr option checked" where
  "effect_branch v path key =
     required_effect v path (bounded_text max_change_branch_length) key (js ''Effect branch identity is invalid.'')"

definition effect_number :: "jsval \<Rightarrow> jstr \<Rightarrow> jstr \<Rightarrow> int option checked" where
  "effect_number v path key =
     required_effect v path positive_integer key (js ''Effect number must be a positive safe integer.'')"

text \<open>Text with line breaks and tabs, for bodies.\<close>

definition non_break_control :: "nat \<Rightarrow> bool" where
  "non_break_control c \<longleftrightarrow> c \<le> 8 \<or> c = 11 \<or> c = 12 \<or> 14 \<le> c \<and> c \<le> 31 \<or> c = 127"

fun lines_text :: "nat \<Rightarrow> jsval \<Rightarrow> jstr option" where
  "lines_text m (JStr s) = (if s = [] \<or> m < length s \<or> list_ex non_break_control s then None else Some s)"
| "lines_text m _ = None"

definition effect_text :: "jsval \<Rightarrow> jstr \<Rightarrow> (jsval \<Rightarrow> jstr option) \<Rightarrow> jstr \<Rightarrow> jstr option checked" where
  "effect_text v path good key = required_effect v path good key (js ''Effect text is invalid.'')"

definition effect_sha :: "jsval \<Rightarrow> jstr \<Rightarrow> jstr \<Rightarrow> jstr option checked" where
  "effect_sha v path key =
     optional_check v key commit_sha ''CHANGE_INVALID_EFFECT'' path (js ''Effect commit SHA is invalid.'')"

fun reject_keys :: "jstr list \<Rightarrow> jstr list \<Rightarrow> jstr \<Rightarrow> unit checked" where
  "reject_keys [] allowed path = State_Monad.return ()"
| "reject_keys (k # ks) allowed path = do {
     (if k \<in> set allowed then State_Monad.return ()
      else add_diagnostic ''CHANGE_INVALID_EFFECT'' (sub_path path k) (js ''Effect property is not valid for its kind.''));
     reject_keys ks allowed path
   }"

definition reject_effect_properties :: "jsval \<Rightarrow> jstr list \<Rightarrow> jstr \<Rightarrow> unit checked" where
  "reject_effect_properties v allowed path = reject_keys (sort_strings (object_keys v)) allowed path"

subsection \<open>Effects\<close>

definition max_pull_request_title_length :: nat where "max_pull_request_title_length = 255"
definition max_pull_request_body_length :: nat where "max_pull_request_body_length = 65536"

definition effect_keys :: "jstr list" where
  "effect_keys =
     [js ''kind'', js ''branch'', js ''baseBranch'', js ''rootIssue'', js ''path'', js ''title'', js ''body'',
      js ''draft'', js ''pullRequest'', js ''semanticPullRequestPlan'', js ''expectedCommitSha'']"

fun effect_kind_name :: "change_effect_kind \<Rightarrow> jstr" where
  "effect_kind_name K_CREATE_BRANCH = js ''CREATE_BRANCH''"
| "effect_kind_name K_CREATE_PROVENANCE_COMMIT = js ''CREATE_PROVENANCE_COMMIT''"
| "effect_kind_name K_CREATE_PULL_REQUEST = js ''CREATE_PULL_REQUEST''"
| "effect_kind_name K_MARK_PULL_REQUEST_READY = js ''MARK_PULL_REQUEST_READY''"
| "effect_kind_name K_CLOSE_PULL_REQUEST = js ''CLOSE_PULL_REQUEST''"
| "effect_kind_name K_DELETE_BRANCH = js ''DELETE_BRANCH''"

definition effect_kinds :: "change_effect_kind list" where
  "effect_kinds = [K_CREATE_BRANCH, K_CREATE_PROVENANCE_COMMIT, K_CREATE_PULL_REQUEST, K_MARK_PULL_REQUEST_READY,
     K_CLOSE_PULL_REQUEST, K_DELETE_BRANCH]"

fun effect_kind_value :: "jsval \<Rightarrow> change_effect_kind option" where
  "effect_kind_value (JStr s) = find (\<lambda>k. effect_kind_name k = s) effect_kinds"
| "effect_kind_value _ = None"

text \<open>
  What a branch of the validator ends with: nothing was reported so far and every property was read.
\<close>

definition when_clean :: "'a option \<Rightarrow> 'a option checked" where
  "when_clean x = do { ds \<leftarrow> State_Monad.get; State_Monad.return (if ds = [] then x else None) }"

definition create_branch_checks :: "jsval \<Rightarrow> jstr \<Rightarrow> change_effect option checked" where
  "create_branch_checks v path = do {
     reject_effect_properties v [js ''kind'', js ''branch'', js ''baseBranch''] path;
     b \<leftarrow> effect_branch v path (js ''branch'');
     base \<leftarrow> effect_branch v path (js ''baseBranch'');
     when_clean (case (b, base) of (Some b, Some base) \<Rightarrow> Some (CREATE_BRANCH b base) | _ \<Rightarrow> None)
   }"

definition record_path_check :: "int option \<Rightarrow> jstr option \<Rightarrow> string \<Rightarrow> jstr \<Rightarrow> jstr \<Rightarrow> unit checked" where
  "record_path_check n p code path message =
     report_if (case (n, p) of (Some n, Some p) \<Rightarrow> p \<noteq> provenance_record_path n | _ \<Rightarrow> False) code
       (sub_path path (js ''path'')) message"

definition provenance_commit_checks :: "jsval \<Rightarrow> jstr \<Rightarrow> change_effect option checked" where
  "provenance_commit_checks v path = do {
     reject_effect_properties v [js ''kind'', js ''branch'', js ''rootIssue'', js ''path''] path;
     b \<leftarrow> effect_branch v path (js ''branch'');
     n \<leftarrow> effect_number v path (js ''rootIssue'');
     p \<leftarrow> effect_text v path (bounded_text max_change_branch_length) (js ''path'');
     record_path_check n p ''CHANGE_INVALID_EFFECT'' path
       (js ''Provenance commit path must be the canonical root-Issue record path.'');
     when_clean (case (b, n, p) of
        (Some b, Some n, Some p) \<Rightarrow> Some (CREATE_PROVENANCE_COMMIT b n p)
      | _ \<Rightarrow> None)
   }"

text \<open>The Semantic Pull Request plan of an effect is compared with the effect it came with.\<close>

definition effect_plan_checks :: "jstr \<Rightarrow> jstr \<Rightarrow> jstr \<Rightarrow> jstr \<Rightarrow> jstr \<Rightarrow> jsval \<Rightarrow> unit checked" where
  "effect_plan_checks path b base title body plan = do {
     report_if (plan_at plan [''desired'', ''head''] \<noteq> JStr b) ''CHANGE_INVALID_PLAN''
       (path @ js ''.semanticPullRequestPlan.desired.head'') (js ''Semantic PR plan head must match the effect branch.'');
     report_if (plan_at plan [''desired'', ''base''] \<noteq> JStr base) ''CHANGE_INVALID_PLAN''
       (path @ js ''.semanticPullRequestPlan.desired.base'')
       (js ''Semantic PR plan base must match the effect base branch.'');
     report_if (plan_at plan [''desired'', ''title''] \<noteq> JStr title \<or> plan_at plan [''desired'', ''body''] \<noteq> JStr body)
       ''CHANGE_INVALID_PLAN'' (path @ js ''.semanticPullRequestPlan.desired'')
       (js ''Effect title and body must be the Semantic PR plan desired projection.'');
     issuance_capabilities plan (path @ js ''.semanticPullRequestPlan'')
   }"

definition pull_request_effect ::
  "jstr \<Rightarrow> jsval option \<Rightarrow> jstr option \<Rightarrow> jstr option \<Rightarrow> int option \<Rightarrow> jstr option \<Rightarrow> jstr option \<Rightarrow>
     change_diagnostic list \<Rightarrow> change_effect option checked" where
  "pull_request_effect path plan b base n title body ds =
     (case (ds, b, base, n, title, body) of
        ([], Some b, Some base, Some n, Some title, Some body) \<Rightarrow> do {
          (case plan of None \<Rightarrow> State_Monad.return () | Some p \<Rightarrow> effect_plan_checks path b base title body p);
          when_clean (Some (CREATE_PULL_REQUEST b base n title body plan))
        }
      | _ \<Rightarrow> State_Monad.return None)"

definition pull_request_keys_of_effect :: "jstr list" where
  "pull_request_keys_of_effect =
     [js ''kind'', js ''branch'', js ''baseBranch'', js ''rootIssue'', js ''title'', js ''body'', js ''draft'',
      js ''semanticPullRequestPlan'']"

definition create_pull_request_checks ::
  "jsval \<Rightarrow> jstr \<Rightarrow> change_diagnostic list \<times> jsval option \<Rightarrow> change_effect option checked" where
  "create_pull_request_checks v path plan = do {
     reject_effect_properties v pull_request_keys_of_effect path;
     b \<leftarrow> effect_branch v path (js ''branch'');
     base \<leftarrow> effect_branch v path (js ''baseBranch'');
     n \<leftarrow> effect_number v path (js ''rootIssue'');
     title \<leftarrow> effect_text v path (bounded_text max_pull_request_title_length) (js ''title'');
     body \<leftarrow> effect_text v path (lines_text max_pull_request_body_length) (js ''body'');
     push_unbounded (fst plan);
     report_if (get_prop v (js ''draft'') \<noteq> JBool True) ''CHANGE_INVALID_EFFECT'' (sub_path path (js ''draft''))
       (js ''Create pull request effects must be draft.'');
     ds \<leftarrow> State_Monad.get;
     pull_request_effect path (snd plan) b base n title body ds
   }"

definition delete_branch_checks :: "jsval \<Rightarrow> jstr \<Rightarrow> change_effect option checked" where
  "delete_branch_checks v path = do {
     reject_effect_properties v [js ''kind'', js ''branch'', js ''expectedCommitSha''] path;
     b \<leftarrow> effect_branch v path (js ''branch'');
     sha \<leftarrow> effect_sha v path (js ''expectedCommitSha'');
     when_clean (map_option (\<lambda>b. DELETE_BRANCH b sha) b)
   }"

definition pull_request_number_checks :: "(int \<Rightarrow> change_effect) \<Rightarrow> jsval \<Rightarrow> jstr \<Rightarrow> change_effect option checked" where
  "pull_request_number_checks f v path = do {
     reject_effect_properties v [js ''kind'', js ''pullRequest''] path;
     n \<leftarrow> effect_number v path (js ''pullRequest'');
     when_clean (map_option f n)
   }"

definition kind_checks ::
  "change_effect_kind \<Rightarrow> jsval \<Rightarrow> jstr \<Rightarrow> change_diagnostic list \<times> jsval option \<Rightarrow> change_effect option checked" where
  "kind_checks k v path plan =
     (case k of
        K_CREATE_BRANCH \<Rightarrow> create_branch_checks v path
      | K_CREATE_PROVENANCE_COMMIT \<Rightarrow> provenance_commit_checks v path
      | K_CREATE_PULL_REQUEST \<Rightarrow> create_pull_request_checks v path plan
      | K_MARK_PULL_REQUEST_READY \<Rightarrow> pull_request_number_checks MARK_PULL_REQUEST_READY v path
      | K_CLOSE_PULL_REQUEST \<Rightarrow> pull_request_number_checks CLOSE_PULL_REQUEST v path
      | K_DELETE_BRANCH \<Rightarrow> delete_branch_checks v path)"

definition effect_checks :: "jsval \<Rightarrow> jstr \<Rightarrow> change_diagnostic list \<times> jsval option \<Rightarrow> change_effect option checked" where
  "effect_checks v path plan = do {
     add_unknown_properties v effect_keys path;
     (case effect_kind_value (get_prop v (js ''kind'')) of
        None \<Rightarrow> reject_with ''CHANGE_INVALID_EFFECT'' (sub_path path (js ''kind'')) (js ''Effect kind is unsupported.'')
      | Some k \<Rightarrow> kind_checks k v path plan)
   }"

text \<open>
  None: the diagnostics of the Semantic Pull Request plan, or their report, cannot be built, which throws.
  The plan of a pull request effect is the only one that is looked at.
\<close>

definition effect_plan :: "plan_authority \<Rightarrow> jsval \<Rightarrow> jstr \<Rightarrow> change_diagnostic list option \<times> jsval option" where
  "effect_plan pa v path =
     (if effect_kind_value (get_prop v (js ''kind'')) = Some K_CREATE_PULL_REQUEST
      then plan_property (pa_pull_plan pa) v path (js ''semanticPullRequestPlan'') else (Some [], None))"

definition validate_change_effect ::
  "plan_authority \<Rightarrow> jsval \<Rightarrow> jstr \<Rightarrow> (change_diagnostic list + change_effect) option" where
  "validate_change_effect pa v path =
     (if \<not> is_record v
      then Some (Inl (snd (run_checks (add_diagnostic ''CHANGE_INVALID_EFFECT'' path
                                         (js ''Change effect must be an object.'')))))
      else case effect_plan pa v path of
             (None, plan) \<Rightarrow> None
           | (Some ds, plan) \<Rightarrow>
               (let checks = effect_checks v path (ds, plan) in
                if max_change_diagnostics < length (snd (run_checks checks)) then None
                else Some (validation_result checks)))"

subsection \<open>Success evidence\<close>

definition evidence_keys :: "jstr list" where
  "evidence_keys =
     [js ''kind'', js ''branch'', js ''baseBranch'', js ''rootIssue'', js ''path'', js ''pullRequest'',
      js ''createdCommitSha'', js ''expectedCommitSha'', js ''outcome'']"

definition created_sha :: "jsval \<Rightarrow> jstr \<Rightarrow> jstr option checked" where
  "created_sha v path = do {
     sha \<leftarrow> effect_sha v path (js ''createdCommitSha'');
     report_if (\<not> has_prop v (js ''createdCommitSha'')) ''CHANGE_INVALID_PLAN'' (sub_path path (js ''createdCommitSha''))
       (js ''Created commit SHA is required.'');
     State_Monad.return sha
   }"

definition branch_evidence_checks :: "jsval \<Rightarrow> jstr \<Rightarrow> effect_success_evidence option checked" where
  "branch_evidence_checks v path = do {
     reject_effect_properties v [js ''kind'', js ''branch'', js ''baseBranch'', js ''createdCommitSha''] path;
     b \<leftarrow> effect_branch v path (js ''branch'');
     base \<leftarrow> effect_branch v path (js ''baseBranch'');
     sha \<leftarrow> created_sha v path;
     State_Monad.return (case (b, base, sha) of
        (Some b, Some base, Some sha) \<Rightarrow> Some (EV_CREATE_BRANCH b base sha)
      | _ \<Rightarrow> None)
   }"

definition commit_evidence_checks :: "jsval \<Rightarrow> jstr \<Rightarrow> effect_success_evidence option checked" where
  "commit_evidence_checks v path = do {
     reject_effect_properties v [js ''kind'', js ''branch'', js ''rootIssue'', js ''path'', js ''createdCommitSha''] path;
     b \<leftarrow> effect_branch v path (js ''branch'');
     n \<leftarrow> effect_number v path (js ''rootIssue'');
     p \<leftarrow> effect_text v path (bounded_text max_change_branch_length) (js ''path'');
     sha \<leftarrow> created_sha v path;
     record_path_check n p ''CHANGE_INVALID_PLAN'' path
       (js ''Provenance evidence path must be the canonical root-Issue record path.'');
     State_Monad.return (case (b, n, p, sha) of
        (Some b, Some n, Some p, Some sha) \<Rightarrow> Some (EV_CREATE_PROVENANCE_COMMIT b n p sha)
      | _ \<Rightarrow> None)
   }"

definition pull_request_evidence_checks :: "jsval \<Rightarrow> jstr \<Rightarrow> effect_success_evidence option checked" where
  "pull_request_evidence_checks v path = do {
     reject_effect_properties v [js ''kind'', js ''branch'', js ''baseBranch'', js ''rootIssue'', js ''pullRequest''] path;
     b \<leftarrow> effect_branch v path (js ''branch'');
     base \<leftarrow> effect_branch v path (js ''baseBranch'');
     n \<leftarrow> effect_number v path (js ''rootIssue'');
     pull \<leftarrow> effect_number v path (js ''pullRequest'');
     State_Monad.return (case (b, base, n, pull) of
        (Some b, Some base, Some n, Some pull) \<Rightarrow> Some (EV_CREATE_PULL_REQUEST b base n pull)
      | _ \<Rightarrow> None)
   }"

definition number_evidence_checks ::
  "(int \<Rightarrow> effect_success_evidence) \<Rightarrow> jsval \<Rightarrow> jstr \<Rightarrow> effect_success_evidence option checked" where
  "number_evidence_checks f v path = do {
     reject_effect_properties v [js ''kind'', js ''pullRequest''] path;
     n \<leftarrow> effect_number v path (js ''pullRequest'');
     State_Monad.return (map_option f n)
   }"

text \<open>A conditional deletion says whether the branch was deleted or already absent.\<close>

definition delete_outcome :: "jsval \<Rightarrow> bool option" where
  "delete_outcome v =
     (if v = JStr (js ''deleted'') then Some True else if v = JStr (js ''absent'') then Some False else None)"

definition delete_evidence_checks :: "jsval \<Rightarrow> jstr \<Rightarrow> effect_success_evidence option checked" where
  "delete_evidence_checks v path = do {
     b \<leftarrow> effect_branch v path (js ''branch'');
     (if has_prop v (js ''expectedCommitSha'') then do {
        reject_effect_properties v [js ''kind'', js ''branch'', js ''expectedCommitSha'', js ''outcome''] path;
        sha \<leftarrow> effect_sha v path (js ''expectedCommitSha'');
        report_if (delete_outcome (get_prop v (js ''outcome'')) = None) ''CHANGE_INVALID_PLAN'' (sub_path path (js ''outcome''))
          (js ''Conditional delete outcome is invalid.'');
        State_Monad.return (case (b, sha, delete_outcome (get_prop v (js ''outcome''))) of
           (Some b, Some sha, Some deleted) \<Rightarrow> Some (EV_DELETE_BRANCH_COMPARED b sha deleted)
         | _ \<Rightarrow> None)
      }
      else do {
        reject_effect_properties v [js ''kind'', js ''branch''] path;
        State_Monad.return (map_option EV_DELETE_BRANCH b)
      })
   }"

fun evidence_matches :: "change_effect \<Rightarrow> effect_success_evidence \<Rightarrow> bool" where
  "evidence_matches (CREATE_BRANCH b base) (EV_CREATE_BRANCH b' base' sha) = (b' = b \<and> base' = base)"
| "evidence_matches (CREATE_PROVENANCE_COMMIT b n p) (EV_CREATE_PROVENANCE_COMMIT b' n' p' sha) = (b' = b \<and> n' = n \<and> p' = p)"
| "evidence_matches (CREATE_PULL_REQUEST b base n t bd plan) (EV_CREATE_PULL_REQUEST b' base' n' pull) =
     (b' = b \<and> base' = base \<and> n' = n)"
| "evidence_matches (MARK_PULL_REQUEST_READY n) (EV_MARK_PULL_REQUEST_READY n') = (n' = n)"
| "evidence_matches (CLOSE_PULL_REQUEST n) (EV_CLOSE_PULL_REQUEST n') = (n' = n)"
| "evidence_matches (DELETE_BRANCH b sha) (EV_DELETE_BRANCH b') = (b' = b \<and> sha = None)"
| "evidence_matches (DELETE_BRANCH b sha) (EV_DELETE_BRANCH_COMPARED b' sha' deleted) = (b' = b \<and> sha = Some sha')"
| "evidence_matches _ _ = False"

definition kind_evidence_checks :: "change_effect_kind \<Rightarrow> jsval \<Rightarrow> jstr \<Rightarrow> effect_success_evidence option checked" where
  "kind_evidence_checks k v path =
     (case k of
        K_CREATE_BRANCH \<Rightarrow> branch_evidence_checks v path
      | K_CREATE_PROVENANCE_COMMIT \<Rightarrow> commit_evidence_checks v path
      | K_CREATE_PULL_REQUEST \<Rightarrow> pull_request_evidence_checks v path
      | K_MARK_PULL_REQUEST_READY \<Rightarrow> number_evidence_checks EV_MARK_PULL_REQUEST_READY v path
      | K_CLOSE_PULL_REQUEST \<Rightarrow> number_evidence_checks EV_CLOSE_PULL_REQUEST v path
      | K_DELETE_BRANCH \<Rightarrow> delete_evidence_checks v path)"

definition mismatched :: "change_effect option \<Rightarrow> effect_success_evidence option \<Rightarrow> bool" where
  "mismatched e ev = (case (e, ev) of (Some e, Some ev) \<Rightarrow> \<not> evidence_matches e ev | _ \<Rightarrow> False)"

definition success_evidence_checks ::
  "jsval \<Rightarrow> change_effect option \<Rightarrow> jstr \<Rightarrow> effect_success_evidence option checked" where
  "success_evidence_checks v e path =
     (if \<not> is_record v
      then reject_with ''CHANGE_INVALID_PLAN'' path (js ''Effect success evidence must be an object.'')
      else do {
        add_unknown_properties v evidence_keys path;
        (case effect_kind_value (get_prop v (js ''kind'')) of
           None \<Rightarrow> reject_with ''CHANGE_INVALID_PLAN'' (sub_path path (js ''kind''))
                     (js ''Effect success evidence kind is unsupported.'')
         | Some k \<Rightarrow> do {
             ev \<leftarrow> kind_evidence_checks k v path;
             report_if (mismatched e ev) ''CHANGE_INVALID_PLAN'' path
               (js ''Effect success evidence does not match its effect.'');
             State_Monad.return ev
           })
      })"

definition validate_effect_success_evidence ::
  "jsval \<Rightarrow> change_effect option \<Rightarrow> jstr \<Rightarrow> change_diagnostic list + effect_success_evidence" where
  "validate_effect_success_evidence v e path = validation_result (success_evidence_checks v e path)"

subsection \<open>Lists of effects\<close>

definition max_transition_effects :: nat where "max_transition_effects = 8"

text \<open>
  The loop stops when the diagnostics are full.  The diagnostics are passed explicitly here, because an
  item's validator may throw (None).
\<close>

definition append_diagnostics :: "change_diagnostic list \<Rightarrow> change_diagnostic list \<Rightarrow> change_diagnostic list" where
  "append_diagnostics ds new = ds @ take (max_change_diagnostics - length ds) new"

fun effect_items ::
  "plan_authority \<Rightarrow> jstr \<Rightarrow> nat \<Rightarrow> jsval list \<Rightarrow> change_diagnostic list \<Rightarrow>
     (change_effect list \<times> change_diagnostic list) option" where
  "effect_items pa path i [] ds = Some ([], ds)"
| "effect_items pa path i (v # vs) ds =
     (if max_change_diagnostics \<le> length ds then Some ([], ds)
      else case validate_change_effect pa v (item_path path i) of
             None \<Rightarrow> None
           | Some r \<Rightarrow>
               map_option (\<lambda>(es, ds'). (case result_value r of None \<Rightarrow> es | Some e \<Rightarrow> e # es, ds'))
                 (effect_items pa path (Suc i) vs (append_diagnostics ds (result_diagnostics r))))"

definition validate_effect_list ::
  "plan_authority \<Rightarrow> jsval \<Rightarrow> jstr \<Rightarrow> change_diagnostic list \<Rightarrow> (change_effect list \<times> change_diagnostic list) option" where
  "validate_effect_list pa v path ds =
     (case v of
        JArr vs \<Rightarrow>
          effect_items pa path 0 vs
            (snd (run_state (report_if (max_transition_effects < length vs) ''CHANGE_INVALID_PLAN'' path
                               (js ''At most 8 transition effects are supported.'')) ds))
      | _ \<Rightarrow> Some ([], snd (run_state (add_diagnostic ''CHANGE_INVALID_PLAN'' path
                               (js ''Plan effects must be an array.'')) ds)))"

subsection \<open>Transition plans\<close>

definition transition_plan_keys :: "jstr list" where
  "transition_plan_keys = [js ''version'', js ''request'', js ''from'', js ''to'', js ''result'', js ''effects'']"

definition plan_state :: "jsval \<Rightarrow> string \<Rightarrow> change_state option checked" where
  "plan_state v key =
     required_check v (js key) (\<lambda>x.
       case change_state_value x of
         None \<Rightarrow> reject_with ''CHANGE_INVALID_PLAN'' (sub_path change_root (js key))
                   (js ''Plan lifecycle state is unsupported.'')
       | Some s \<Rightarrow> State_Monad.return (Some s))"

record transition_plan_front =
  pl_request :: "transition_request option"
  pl_from :: "change_state option"
  pl_to :: "change_state option"
  pl_result :: "change option"

definition plan_front ::
  "(jstr \<Rightarrow> jstr) \<Rightarrow> jsval \<Rightarrow> change_diagnostic list + transition_request \<Rightarrow> transition_plan_front checked" where
  "plan_front lc v request = do {
     add_unknown_properties v transition_plan_keys change_root;
     version_check v (js ''Change transition plan version is unsupported.'');
     q \<leftarrow> required_check v (js ''request'') (\<lambda>x. adopt request);
     a \<leftarrow> plan_state v ''from'';
     b \<leftarrow> plan_state v ''to'';
     c \<leftarrow> required_check v (js ''result'') (\<lambda>x. adopt (validate_change lc x));
     State_Monad.return \<lparr>pl_request = q, pl_from = a, pl_to = b, pl_result = c\<rparr>
   }"

text \<open>The effects of a plan that may be missing, after the diagnostics so far.\<close>

definition plan_effects ::
  "plan_authority \<Rightarrow> jsval \<Rightarrow> change_diagnostic list \<Rightarrow> (change_effect list \<times> change_diagnostic list) option" where
  "plan_effects pa v ds =
     (if \<not> has_prop v (js ''effects'') then Some ([], snd (run_state (missing_property (js ''effects'')) ds))
      else validate_effect_list pa (get_prop v (js ''effects'')) (js ''$.effects'') ds)"

definition plan_comparison ::
  "change_state \<Rightarrow> change_state \<Rightarrow> change \<Rightarrow> change_effect list \<Rightarrow> transition_plan \<Rightarrow> transition_plan option checked" where
  "plan_comparison from to result effects expected = do {
     report_if (from \<noteq> tp_from expected) ''CHANGE_INVALID_PLAN'' (js ''$.from'')
       (js ''Plan source state does not match its request.'');
     report_if (to \<noteq> tp_to expected) ''CHANGE_INVALID_PLAN'' (js ''$.to'')
       (js ''Plan target state does not match its request.'');
     report_if (result \<noteq> tp_result expected) ''CHANGE_INVALID_PLAN'' (js ''$.result'')
       (js ''Plan result does not match its transition.'');
     report_if (effects \<noteq> tp_effects expected) ''CHANGE_INVALID_PLAN'' (js ''$.effects'')
       (js ''Plan effects do not match its transition.'');
     State_Monad.return (Some expected)
   }"

text \<open>The request is validated when it is there; None: it throws, or a nested validator does.\<close>

definition plan_request ::
  "(jstr \<Rightarrow> jstr) \<Rightarrow> plan_authority \<Rightarrow> jsval \<Rightarrow> (change_diagnostic list + transition_request) option" where
  "plan_request lc pa v =
     (if has_prop v (js ''request'') then validate_transition_request lc pa (get_prop v (js ''request'')) else Some (Inl []))"

definition validate_transition_plan ::
  "(jstr \<Rightarrow> jstr) \<Rightarrow> plan_authority \<Rightarrow> jsval \<Rightarrow> (change_diagnostic list + transition_plan) option" where
  "validate_transition_plan lc pa v =
     (if \<not> is_record v
      then Some (Inl (snd (run_checks (add_diagnostic ''CHANGE_INVALID_ROOT'' change_root
                                         (js ''Change transition plan must be a JSON object.'')))))
      else case plan_request lc pa v of
        None \<Rightarrow> None
      | Some request \<Rightarrow>
          (case run_checks (plan_front lc v request) of
             (front, ds) \<Rightarrow>
               (case plan_effects pa v ds of
                  None \<Rightarrow> None
                | Some (effects, ds') \<Rightarrow>
                    (case (ds', pl_request front, pl_from front, pl_to front, pl_result front) of
                       ([], Some q, Some from, Some to, Some result) \<Rightarrow>
                         (case build_transition_plan q of
                            Inl message \<Rightarrow> None
                          | Inr expected \<Rightarrow>
                              Some (validation_result (plan_comparison from to result effects expected)))
                     | _ \<Rightarrow> Some (Inl (diagnostic_report ds'))))))"

subsection \<open>Accepted effects\<close>

lemma grows_required_effect [checked]: "grows (required_effect v path good key message)"
  by (auto simp: required_effect_def intro!: checked split: option.split)

lemma grows_reject_keys [checked]: "grows (reject_keys ks allowed path)"
  by (induction ks) (auto intro!: checked)

lemma grows_effect_parts [checked]:
  "grows (effect_branch v path key)" "grows (effect_number v path key)" "grows (effect_text v path good key)"
  "grows (effect_sha v path key)" "grows (reject_effect_properties v allowed path)" "grows (when_clean x)"
  "grows (record_path_check n p code path message)" "grows (created_sha v path)"
  by (simp_all add: effect_branch_def effect_number_def effect_text_def effect_sha_def reject_effect_properties_def
      when_clean_def record_path_check_def created_sha_def checked)

lemma grows_effect_plan_checks [checked]: "grows (effect_plan_checks path b base title body plan)"
  by (simp add: effect_plan_checks_def checked)

lemma grows_pull_request_effect [checked]: "grows (pull_request_effect path plan b base n title body ds)"
  by (auto simp: pull_request_effect_def intro!: checked split: list.split option.split)

lemma grows_kind_checks [checked]: "grows (kind_checks k v path plan)"
  by (auto simp: kind_checks_def create_branch_checks_def provenance_commit_checks_def create_pull_request_checks_def
      delete_branch_checks_def pull_request_number_checks_def intro!: checked split: change_effect_kind.split)

lemma clean_required_effect [simp]:
  "clean_run (required_effect v path good key message) y \<longleftrightarrow>
     has_prop v key \<and> y \<noteq> None \<and> good (get_prop v key) = y"
  by (auto simp: required_effect_def split: option.split)

lemma clean_effect_parts [simp]:
  "clean_run (effect_branch v path key) y \<longleftrightarrow>
     has_prop v key \<and> y \<noteq> None \<and> bounded_text max_change_branch_length (get_prop v key) = y"
  "clean_run (effect_number v path key) z \<longleftrightarrow> has_prop v key \<and> z \<noteq> None \<and> positive_integer (get_prop v key) = z"
  "clean_run (effect_text v path good key) y \<longleftrightarrow> has_prop v key \<and> y \<noteq> None \<and> good (get_prop v key) = y"
  "clean_run (effect_sha v path key) y \<longleftrightarrow>
     (if has_prop v key then y \<noteq> None \<and> commit_sha (get_prop v key) = y else y = None)"
  by (simp_all add: effect_branch_def effect_number_def effect_text_def effect_sha_def)

lemma clean_reject_keys [simp]: "clean_run (reject_keys ks allowed path) y \<longleftrightarrow> set ks \<subseteq> set allowed"
  by (induction ks) (auto simp: clean_run_bind checked)

lemma clean_reject_effect_properties [simp]:
  "clean_run (reject_effect_properties v allowed path) y \<longleftrightarrow> set (object_keys v) \<subseteq> set allowed"
  by (simp add: reject_effect_properties_def)

lemma clean_when_clean [simp]: "clean_run (when_clean x) y \<longleftrightarrow> x = y"
  by (simp add: when_clean_def clean_run_get)

lemma clean_record_path [simp]:
  "clean_run (record_path_check (Some n) (Some p) code path message) u \<longleftrightarrow> p = provenance_record_path n"
  by (simp add: record_path_check_def)

text \<open>A Semantic Pull Request plan that belongs to a pull request effect.\<close>

definition plan_of_effect :: "jstr \<Rightarrow> jstr \<Rightarrow> jstr \<Rightarrow> jstr \<Rightarrow> jsval \<Rightarrow> bool" where
  "plan_of_effect b base title body plan \<longleftrightarrow>
     plan_at plan [''desired'', ''head''] = JStr b \<and> plan_at plan [''desired'', ''base''] = JStr base \<and>
     plan_at plan [''desired'', ''title''] = JStr title \<and> plan_at plan [''desired'', ''body''] = JStr body \<and>
     plan_at plan [''desired'', ''metadata'', ''draft''] \<noteq> JBool False \<and>
     \<not> has_prop (plan_at plan [''desired'', ''metadata'']) (js ''milestone'') \<and>
     \<not> has_prop (plan_at plan [''desired'', ''metadata'']) (js ''reviewers'') \<and>
     plan_at plan [''desired'', ''relations'', ''implements'', ''representation''] \<noteq> JStr (js ''native'')"

lemma clean_effect_plan [simp]:
  "clean_run (effect_plan_checks path b base title body plan) u \<longleftrightarrow> plan_of_effect b base title body plan"
  by (auto simp: effect_plan_checks_def issuance_capabilities_def clean_run_bind checked plan_of_effect_def)

lemma clean_pull_request_effect [simp]:
  "clean_run (pull_request_effect path plan (Some b) (Some base) (Some n) (Some title) (Some body) []) y \<longleftrightarrow>
     y = Some (CREATE_PULL_REQUEST b base n title body plan) \<and>
     (case plan of None \<Rightarrow> True | Some p \<Rightarrow> plan_of_effect b base title body p)"
  by (cases plan) (auto simp: pull_request_effect_def clean_run_bind checked)

subsection \<open>Well-formed effects and their objects\<close>

definition branch_text :: "jstr \<Rightarrow> bool" where
  "branch_text b \<longleftrightarrow> bounded_text max_change_branch_length (JStr b) = Some b"

definition issue_number :: "int \<Rightarrow> bool" where
  "issue_number n \<longleftrightarrow> 1 \<le> n \<and> n \<le> max_safe_integer"

definition canonical_commit :: "jstr option \<Rightarrow> bool" where
  "canonical_commit sha \<longleftrightarrow> (case sha of None \<Rightarrow> True | Some s \<Rightarrow> commit_sha (JStr s) = Some s)"

definition settled_plan :: "plan_authority \<Rightarrow> jsval option \<Rightarrow> bool" where
  "settled_plan pa plan \<longleftrightarrow> (case plan of None \<Rightarrow> True | Some v \<Rightarrow> pa_pull_plan pa v = ([], Some v))"

fun wf_effect :: "plan_authority \<Rightarrow> change_effect \<Rightarrow> bool" where
  "wf_effect pa (CREATE_BRANCH b base) \<longleftrightarrow> branch_text b \<and> branch_text base"
| "wf_effect pa (CREATE_PROVENANCE_COMMIT b n p) \<longleftrightarrow> branch_text b \<and> issue_number n \<and> p = provenance_record_path n"
| "wf_effect pa (CREATE_PULL_REQUEST b base n title body plan) \<longleftrightarrow>
     branch_text b \<and> branch_text base \<and> issue_number n \<and>
     bounded_text max_pull_request_title_length (JStr title) = Some title \<and>
     lines_text max_pull_request_body_length (JStr body) = Some body \<and> settled_plan pa plan \<and>
     (case plan of None \<Rightarrow> True | Some p \<Rightarrow> plan_of_effect b base title body p)"
| "wf_effect pa (MARK_PULL_REQUEST_READY n) \<longleftrightarrow> issue_number n"
| "wf_effect pa (CLOSE_PULL_REQUEST n) \<longleftrightarrow> issue_number n"
| "wf_effect pa (DELETE_BRANCH b sha) \<longleftrightarrow> branch_text b \<and> canonical_commit sha"

definition number_value :: "int \<Rightarrow> jsval" where
  "number_value n = JNum (Integral n)"

fun effect_fields :: "change_effect \<Rightarrow> (jstr \<times> jsval) list" where
  "effect_fields (CREATE_BRANCH b base) = [(js ''branch'', JStr b), (js ''baseBranch'', JStr base)]"
| "effect_fields (CREATE_PROVENANCE_COMMIT b n p) =
     [(js ''branch'', JStr b), (js ''rootIssue'', number_value n), (js ''path'', JStr p)]"
| "effect_fields (CREATE_PULL_REQUEST b base n title body plan) =
     [(js ''branch'', JStr b), (js ''baseBranch'', JStr base), (js ''rootIssue'', number_value n),
      (js ''title'', JStr title), (js ''body'', JStr body), (js ''draft'', JBool True)]
     @ opt_prop ''semanticPullRequestPlan'' (\<lambda>p. p) plan"
| "effect_fields (MARK_PULL_REQUEST_READY n) = [(js ''pullRequest'', number_value n)]"
| "effect_fields (CLOSE_PULL_REQUEST n) = [(js ''pullRequest'', number_value n)]"
| "effect_fields (DELETE_BRANCH b sha) = (js ''branch'', JStr b) # opt_prop ''expectedCommitSha'' JStr sha"

definition effect_value :: "change_effect \<Rightarrow> jsval" where
  "effect_value e = JObj ((js ''kind'', JStr (effect_kind_name (effect_kind e))) # effect_fields e)"

lemma effect_kind_value_name [simp]: "effect_kind_value (JStr (effect_kind_name k)) = Some k"
  by (cases k) (simp_all add: effect_kinds_def)

text \<open>The texts that are made of an Issue number are short and have no control characters.\<close>

lemma length_digits_of: "n < 10 ^ Suc k \<Longrightarrow> length (digits_of n) \<le> Suc k"
proof (induction k arbitrary: n)
  case 0
  then show ?case by (simp add: digits_of.simps)
next
  case (Suc k)
  then have "n div 10 < 10 ^ Suc k" by (simp add: less_mult_imp_div_less)
  from Suc.IH [OF this] show ?case by (subst digits_of.simps) simp
qed

lemma issue_number_digits:
  assumes "issue_number n"
  shows "length (digits_of (nat n)) \<le> 16" and "\<not> list_ex control_unit (digits_of (nat n))"
    and "\<not> list_ex non_break_control (digits_of (nat n))"
proof -
  have "n \<le> 9007199254740991" using assms by (simp add: issue_number_def max_safe_integer_def)
  then have "nat n \<le> 9007199254740991" by linarith
  then have "nat n < 10 ^ Suc 15" by simp
  from length_digits_of [OF this] show "length (digits_of (nat n)) \<le> 16" by simp
  show "\<not> list_ex control_unit (digits_of (nat n))" and "\<not> list_ex non_break_control (digits_of (nat n))"
    by (auto simp: list_ex_iff control_unit_def non_break_control_def dest!: digits_of_is_digit) (auto simp: is_digit_def)
qed

lemma issue_number_texts:
  assumes "issue_number n"
  shows "branch_text (provenance_record_path n)"
    and "bounded_text max_pull_request_title_length (JStr (compatibility_title n)) = Some (compatibility_title n)"
    and "lines_text max_pull_request_body_length (JStr (compatibility_body n)) = Some (compatibility_body n)"
  using issue_number_digits [OF assms]
  by (simp_all add: branch_text_def provenance_record_path_def compatibility_title_def compatibility_body_def
      max_change_branch_length_def max_pull_request_title_length_def max_pull_request_body_length_def)
    (simp_all add: js_eval control_unit_def non_break_control_def)

lemma number_value_read [simp]: "issue_number n \<Longrightarrow> positive_integer (number_value n) = Some n"
  by (simp add: number_value_def issue_number_def)

definition plan_of :: "change_effect \<Rightarrow> jsval option" where
  "plan_of e = (case e of CREATE_PULL_REQUEST b base n title body plan \<Rightarrow> plan | _ \<Rightarrow> None)"

lemma clean_effect_checks:
  "clean_run (effect_checks v path plan) y \<longleftrightarrow>
     set (object_keys v) \<subseteq> set effect_keys \<and>
     (\<exists>k. effect_kind_value (get_prop v (js ''kind'')) = Some k \<and> clean_run (kind_checks k v path plan) y)"
proof -
  have "grows (case effect_kind_value (get_prop v (js ''kind'')) of
        None \<Rightarrow> reject_with ''CHANGE_INVALID_EFFECT'' (sub_path path (js ''kind'')) (js ''Effect kind is unsupported.'')
      | Some k \<Rightarrow> kind_checks k v path plan)"
    by (auto intro!: checked split: option.split)
  then show ?thesis by (auto simp: effect_checks_def clean_run_bind split: option.split)
qed

lemma effect_value_sel [simp]:
  "is_record (effect_value e)"
  "get_prop (effect_value e) (js ''kind'') = JStr (effect_kind_name (effect_kind e))"
  "set (object_keys (effect_value e)) \<subseteq> set effect_keys"
proof -
  show "set (object_keys (effect_value e)) \<subseteq> set effect_keys"
  proof (cases e)
    case (CREATE_PULL_REQUEST b base n title body plan)
    then show ?thesis by (cases plan) (simp_all add: effect_value_def effect_keys_def)
  next
    case (DELETE_BRANCH b sha)
    then show ?thesis by (cases sha) (simp_all add: effect_value_def effect_keys_def)
  qed (simp_all add: effect_value_def effect_keys_def)
qed (simp_all add: effect_value_def)

lemma ex_unit: "Ex P \<longleftrightarrow> P ()"
  by (metis (full_types) old.unit.exhaust)

lemma effect_value_kind_checks:
  assumes "wf_effect pa e"
  shows "clean_run (kind_checks (effect_kind e) (effect_value e) path ([], plan_of e)) (Some e)"
proof (cases e)
  case (CREATE_PULL_REQUEST b base n title body plan)
  then show ?thesis
    using assms
    by (cases plan) (simp_all del: bounded_text.simps lines_text.simps
        add: effect_value_def clean_run_bind checked kind_checks_def
        create_pull_request_checks_def pull_request_keys_of_effect_def clean_run_get branch_text_def plan_of_def)
next
  case (DELETE_BRANCH b sha)
  then show ?thesis
    using assms
    by (cases sha) (simp_all del: bounded_text.simps commit_sha.simps
        add: effect_value_def clean_run_bind checked kind_checks_def
        delete_branch_checks_def branch_text_def canonical_commit_def)
qed (use assms issue_number_texts(1) in \<open>simp_all del: bounded_text.simps
      add: effect_value_def clean_run_bind checked kind_checks_def ex_unit
        create_branch_checks_def provenance_commit_checks_def pull_request_number_checks_def branch_text_def\<close>)

lemma effect_value_checks:
  assumes "wf_effect pa e"
  shows "clean_run (effect_checks (effect_value e) path ([], plan_of e)) (Some e)"
  using effect_value_kind_checks [OF assms] by (simp add: clean_effect_checks del: effect_kind_value.simps)

lemma effect_plan_value:
  assumes "wf_effect pa e"
  shows "effect_plan pa (effect_value e) path = (Some [], plan_of e)"
proof (cases e)
  case (CREATE_PULL_REQUEST b base n title body plan)
  then show ?thesis
    using assms by (cases plan) (simp_all add: effect_plan_def effect_value_def plan_property_def plan_of_def settled_plan_def
        effect_kinds_def)
next
  case (DELETE_BRANCH b sha)
  then show ?thesis by (cases sha) (simp_all add: effect_plan_def effect_value_def plan_of_def effect_kinds_def)
qed (simp_all add: effect_plan_def effect_value_def plan_of_def effect_kinds_def)

lemma effect_round_trip:
  assumes "wf_effect pa e"
  shows "validate_change_effect pa (effect_value e) path = Some (Inr e)"
  using effect_value_checks [OF assms, of path]
  by (simp add: validate_change_effect_def effect_plan_value [OF assms] Let_def validation_result_Inr
      clean_run_checks [symmetric])

lemma effect_items_round_trip:
  assumes "list_all (wf_effect pa) es"
  shows "effect_items pa path i (map effect_value es) [] = Some (es, [])"
  using assms by (induction es arbitrary: i)
    (simp_all add: effect_round_trip max_change_diagnostics_def append_diagnostics_def)

lemma effect_list_round_trip:
  assumes "list_all (wf_effect pa) es" and "length es \<le> 8"
  shows "validate_effect_list pa (JArr (map effect_value es)) path [] = Some (es, [])"
  using assms by (simp add: validate_effect_list_def report_if_def max_transition_effects_def effect_items_round_trip)

text \<open>A valid effect is well formed and, up to the plan of another authority, nothing else is accepted.\<close>

lemma commit_sha_canonical:
  assumes "commit_sha v = Some s"
  shows "commit_sha (JStr s) = Some s"
proof -
  have s: "length s = 40" "list_all (\<lambda>c. is_digit c \<or> 97 \<le> c \<and> c \<le> 102) s"
    using commit_sha_Some [OF assms] by simp_all
  then have "map ascii_lower s = s"
    by (intro map_idI) (auto simp: list_all_iff ascii_lower_def is_upper_def is_digit_def)
  moreover have "list_all hex_unit s" using s(2) by (auto simp: list_all_iff hex_unit_def)
  ultimately show ?thesis using s(1) by simp
qed

lemma bounded_text_value: "bounded_text m v = Some s \<Longrightarrow> bounded_text m (JStr s) = Some s"
  by (cases v) (auto split: if_splits)

subsection \<open>Requests and plans as objects\<close>

lemma opt_prop_read:
  "has_prop (JObj (opt_prop k f x)) i \<longleftrightarrow> i = js k \<and> x \<noteq> None"
  "get_prop (JObj (opt_prop k f x @ kvs)) i =
     (if i = js k \<and> x \<noteq> None then f (the x) else get_prop (JObj kvs) i)"
  "get_prop (JObj (opt_prop k f x)) i = (if i = js k \<and> x \<noteq> None then f (the x) else JUndef)"
  "get_prop (JObj []) i = JUndef"
  by (cases x; simp)+

text \<open>The object of a validated target, and the targets whose plans their authorities accept unchanged.\<close>

definition target_value :: "transition_target \<Rightarrow> jsval" where
  "target_value t = JObj (opt_prop ''branchPlan'' (\<lambda>p. p) (tt_branch_plan t) @ opt_prop ''branch'' JStr (tt_branch t)
     @ opt_prop ''baseBranch'' JStr (tt_base_branch t) @ opt_prop ''pullRequest'' number_value (tt_pull_request t)
     @ opt_prop ''branchCommitSha'' JStr (tt_branch_commit_sha t)
     @ opt_prop ''semanticPullRequestPlan'' (\<lambda>p. p) (tt_semantic_plan t)
     @ opt_prop ''semanticPullRequestMergePlan'' (\<lambda>p. p) (tt_semantic_merge_plan t))"

definition canonical_target :: "transition_target \<Rightarrow> bool" where
  "canonical_target t \<longleftrightarrow>
     (case tt_branch t of None \<Rightarrow> True | Some b \<Rightarrow> branch_text b) \<and>
     (case tt_base_branch t of None \<Rightarrow> True | Some b \<Rightarrow> branch_text b) \<and>
     (case tt_pull_request t of None \<Rightarrow> True | Some n \<Rightarrow> issue_number n) \<and>
     canonical_commit (tt_branch_commit_sha t)"

definition settled_target :: "plan_authority \<Rightarrow> transition_target \<Rightarrow> bool" where
  "settled_target pa t \<longleftrightarrow>
     (case tt_branch_plan t of None \<Rightarrow> True
      | Some v \<Rightarrow> (\<exists>b base. tt_branch t = Some b \<and> tt_base_branch t = Some base \<and>
                     branch_text b \<and> branch_text base \<and> ba_plan (pa_branch pa) v = Inr (b, base)) \<and>
                 pa_branch_plan pa v = v) \<and>
     settled_plan pa (tt_semantic_plan t) \<and>
     (case tt_semantic_plan t of None \<Rightarrow> True
      | Some v \<Rightarrow> (\<exists>title body. plan_at v [''desired'', ''title''] = JStr title \<and> plan_at v [''desired'', ''body''] = JStr body \<and>
                     bounded_text max_pull_request_title_length (JStr title) = Some title \<and>
                     lines_text max_pull_request_body_length (JStr body) = Some body)) \<and>
     (case tt_semantic_merge_plan t of None \<Rightarrow> True | Some v \<Rightarrow> pa_merge_plan pa v = ([], Some v))"

lemma target_value_sel [simp]:
  "is_record (target_value t)"
  "has_prop (target_value t) (js ''branchPlan'') \<longleftrightarrow> tt_branch_plan t \<noteq> None"
  "has_prop (target_value t) (js ''branch'') \<longleftrightarrow> tt_branch t \<noteq> None"
  "has_prop (target_value t) (js ''baseBranch'') \<longleftrightarrow> tt_base_branch t \<noteq> None"
  "has_prop (target_value t) (js ''pullRequest'') \<longleftrightarrow> tt_pull_request t \<noteq> None"
  "has_prop (target_value t) (js ''branchCommitSha'') \<longleftrightarrow> tt_branch_commit_sha t \<noteq> None"
  "has_prop (target_value t) (js ''semanticPullRequestPlan'') \<longleftrightarrow> tt_semantic_plan t \<noteq> None"
  "has_prop (target_value t) (js ''semanticPullRequestMergePlan'') \<longleftrightarrow> tt_semantic_merge_plan t \<noteq> None"
  "tt_branch_plan t = Some p \<Longrightarrow> get_prop (target_value t) (js ''branchPlan'') = p"
  "tt_branch t = Some b \<Longrightarrow> get_prop (target_value t) (js ''branch'') = JStr b"
  "tt_base_branch t = Some b \<Longrightarrow> get_prop (target_value t) (js ''baseBranch'') = JStr b"
  "tt_pull_request t = Some n \<Longrightarrow> get_prop (target_value t) (js ''pullRequest'') = number_value n"
  "tt_branch_commit_sha t = Some s \<Longrightarrow> get_prop (target_value t) (js ''branchCommitSha'') = JStr s"
  "tt_semantic_plan t = Some p \<Longrightarrow> get_prop (target_value t) (js ''semanticPullRequestPlan'') = p"
  "tt_semantic_merge_plan t = Some p \<Longrightarrow> get_prop (target_value t) (js ''semanticPullRequestMergePlan'') = p"
  by (simp_all del: has_prop.simps get_prop.simps opt_prop_simps add: target_value_def opt_prop_read)

lemma opt_prop_keys:
  "set (object_keys (JObj (opt_prop k f x @ kvs))) \<subseteq> K \<longleftrightarrow>
     (x = None \<or> js k \<in> K) \<and> set (object_keys (JObj kvs)) \<subseteq> K"
  "set (object_keys (JObj (opt_prop k f x))) \<subseteq> K \<longleftrightarrow> x = None \<or> js k \<in> K"
  by (cases x; simp)+

lemma target_value_keys [simp]: "set (object_keys (target_value t)) \<subseteq> set target_keys"
  by (simp del: object_keys.simps add: target_value_def opt_prop_keys) (simp add: target_keys_def)

lemma clean_run_if: "clean_run (if b then m else m') y \<longleftrightarrow> (if b then clean_run m y else clean_run m' y)"
  by simp

lemma target_checks_intro:
  assumes "set (object_keys v) \<subseteq> set target_keys"
    and "clean_run (if has_prop v (js ''branchPlan'')
             then consumed_branch_plan (pa_branch pa) (get_prop v (js ''branchPlan'')) (sub_path path (js ''branchPlan''))
             else State_Monad.return None) plan"
    and "clean_run (optional_check v (js ''branch'') (bounded_text max_change_branch_length)
                ''CHANGE_INVALID_TRANSITION_TARGET'' path (js ''Branch identity is invalid.'')) branch"
    and "clean_run (optional_check v (js ''baseBranch'') (bounded_text max_change_branch_length)
              ''CHANGE_INVALID_TRANSITION_TARGET'' path (js ''Branch identity is invalid.'')) base"
    and "plan = None \<or> branch = map_option fst plan \<and> base = map_option snd plan"
    and "clean_run (optional_check v (js ''pullRequest'') positive_integer ''CHANGE_INVALID_TRANSITION_TARGET'' path
                (js ''pullRequest must be a positive safe integer.'')) number"
    and "clean_run (optional_check v (js ''branchCommitSha'') commit_sha ''CHANGE_INVALID_TRANSITION_TARGET'' path
             (js ''branchCommitSha must be a canonical commit SHA.'')) sha"
  shows "clean_run (target_checks pa v path ([], pull) ([], merge)) (Some
       \<lparr>tt_branch_plan = map_option (\<lambda>p. pa_branch_plan pa (get_prop v (js ''branchPlan''))) plan,
        tt_branch = (if has_prop v (js ''branchPlan'') then map_option fst plan else branch),
        tt_base_branch = (if has_prop v (js ''branchPlan'') then map_option snd plan else base),
        tt_pull_request = number, tt_branch_commit_sha = sha,
        tt_semantic_plan = pull, tt_semantic_merge_plan = merge\<rparr>)"
proof -
  have "clean_run (add_unknown_properties v target_keys path) ()" using assms(1) by simp
  with assms(2-4,6,7) show ?thesis
    using assms(5) by (auto simp: target_checks_def clean_run_def report_if_def push_unbounded_def)
qed

lemma target_round_trip:
  assumes "settled_target pa t" and "canonical_target t"
  shows "validate_transition_target pa (target_value t) path = Some (Inr t)"
proof -
  let ?v = "target_value t"
  let ?plan = "if tt_branch_plan t = None then None else Some (the (tt_branch t), the (tt_base_branch t))"
  have plan: "clean_run (if has_prop ?v (js ''branchPlan'')
             then consumed_branch_plan (pa_branch pa) (get_prop ?v (js ''branchPlan'')) (sub_path path (js ''branchPlan''))
             else State_Monad.return None) ?plan"
    using assms(1) by (cases "tt_branch_plan t") (auto simp: settled_target_def consumed_branch_plan_def)
  have texts: "clean_run (optional_check ?v (js ''branch'') (bounded_text max_change_branch_length) c p m) (tt_branch t)"
      "clean_run (optional_check ?v (js ''baseBranch'') (bounded_text max_change_branch_length) c p m) (tt_base_branch t)"
      "clean_run (optional_check ?v (js ''pullRequest'') positive_integer c p m) (tt_pull_request t)"
      "clean_run (optional_check ?v (js ''branchCommitSha'') commit_sha c p m) (tt_branch_commit_sha t)" for c p m
    using assms(2)
    by (cases "tt_branch t"; cases "tt_base_branch t"; cases "tt_pull_request t"; cases "tt_branch_commit_sha t";
        simp del: bounded_text.simps commit_sha.simps add: canonical_target_def branch_text_def canonical_commit_def)+
  have agree: "?plan = None \<or> tt_branch t = map_option fst ?plan \<and> tt_base_branch t = map_option snd ?plan"
    using assms(1) by (auto simp: settled_target_def)
  have t: "\<lparr>tt_branch_plan = map_option (\<lambda>p. pa_branch_plan pa (get_prop ?v (js ''branchPlan''))) ?plan,
        tt_branch = (if has_prop ?v (js ''branchPlan'') then map_option fst ?plan else tt_branch t),
        tt_base_branch = (if has_prop ?v (js ''branchPlan'') then map_option snd ?plan else tt_base_branch t),
        tt_pull_request = tt_pull_request t, tt_branch_commit_sha = tt_branch_commit_sha t,
        tt_semantic_plan = tt_semantic_plan t, tt_semantic_merge_plan = tt_semantic_merge_plan t\<rparr> = t"
    using assms(1) by (cases t; cases "tt_branch_plan t") (auto simp: settled_target_def)
  have plans: "plan_property (pa_pull_plan pa) ?v path (js ''semanticPullRequestPlan'') = (Some [], tt_semantic_plan t)"
      "plan_property (pa_merge_plan pa) ?v path (js ''semanticPullRequestMergePlan'') = (Some [], tt_semantic_merge_plan t)"
    using assms(1) by (cases "tt_semantic_plan t"; cases "tt_semantic_merge_plan t";
      simp add: settled_target_def settled_plan_def plan_property_def)+
  have "clean_run (target_checks pa ?v path ([], tt_semantic_plan t) ([], tt_semantic_merge_plan t)) (Some t)"
    using target_checks_intro [where pull = "tt_semantic_plan t" and merge = "tt_semantic_merge_plan t",
        OF target_value_keys plan texts(1,2) agree texts(3,4)] unfolding t by blast
  then show ?thesis
    by (simp add: validate_transition_target_def plans Let_def validation_result_Inr clean_run_checks [symmetric])
qed

definition request_value :: "transition_request \<Rightarrow> jsval" where
  "request_value q =
     JObj ([(js ''version'', JNum (Integral 1)), (js ''transition'', JStr (transition_name (tq_transition q))),
            (js ''change'', change_value (tq_change q))] @ opt_prop ''target'' target_value (tq_target q))"

definition settled_request :: "plan_authority \<Rightarrow> transition_request \<Rightarrow> bool" where
  "settled_request pa q \<longleftrightarrow> wf_change (tq_change q) \<and>
     (case tq_target q of None \<Rightarrow> True | Some t \<Rightarrow> settled_target pa t)"

lemma request_round_trip:
  assumes "validate_transition_request lc pa v = Some (Inr q)" and "settled_request pa q"
    and "canonical_target (target_or_none (tq_target q))"
  shows "validate_transition_request lc pa (request_value q) = Some (Inr q)"
proof -
  obtain r where r: "validate_transition_semantics lc (tq_change q) (tq_transition q) (tq_target q) = Inr r"
    using valid_request(3) [OF assms(1)] by blast
  have change: "validate_change lc (change_value (tq_change q)) = Inr (tq_change q)"
    using assms(2) wf_change_validates by (simp add: settled_request_def)
  have read: "normalize_change_transition lc (JStr (transition_name (tq_transition q))) = Some (tq_transition q)"
    by (cases "tq_transition q") (simp_all add: to_lower_def js_eval ascii_lower_def is_upper_def)
  show ?thesis
  proof (cases "tq_target q")
    case None
    then show ?thesis
      using r change read
      by (simp del: normalize_change_transition.simps transition_name.simps add: validate_transition_request_def
          request_value_def validation_result_Inr clean_request_checks request_keys_def)
  next
    case (Some t)
    then have "validate_transition_target pa (target_value t) (js ''$.target'') = Some (Inr t)"
      using assms(2,3) target_round_trip by (simp add: settled_request_def target_or_none_def)
    then show ?thesis
      using r change read Some
      by (simp del: normalize_change_transition.simps transition_name.simps add: validate_transition_request_def
          request_value_def validation_result_Inr clean_request_checks request_keys_def)
  qed
qed

definition transition_plan_value :: "transition_plan \<Rightarrow> jsval" where
  "transition_plan_value p =
     JObj [(js ''version'', JNum (Integral 1)), (js ''request'', request_value (tp_request p)),
           (js ''from'', JStr (change_state_name (tp_from p))), (js ''to'', JStr (change_state_name (tp_to p))),
           (js ''result'', change_value (tp_result p)), (js ''effects'', JArr (map effect_value (tp_effects p)))]"

lemma branch_text_iff:
  "branch_text b \<longleftrightarrow> b \<noteq> [] \<and> length b \<le> max_change_branch_length \<and> list_all (\<lambda>u. \<not> control_unit u) b"
  by (auto simp: branch_text_def list_all_iff list_ex_iff split: if_splits)

lemma grows_plan_violations [checked]: "grows (add_plan_violations path vs)"
  by (induction vs) (auto intro!: checked)

lemma clean_consumed_plan: "clean_run (consumed_branch_plan ba v path) y \<longleftrightarrow> (\<exists>p. ba_plan ba v = Inr p \<and> y = Some p)"
proof (cases "ba_plan ba v")
  case (Inl vs)
  then show ?thesis
    by (cases vs) (auto simp: consumed_branch_plan_def clean_run_bind checked)
qed (auto simp: consumed_branch_plan_def)

lemma valid_target_canonical:
  assumes "validate_transition_target pa v path = Some (Inr t)" and "settled_target pa t"
  shows "canonical_target t"
proof -
  obtain p m where run: "clean_run (target_checks pa v path p m) (Some t)"
    using assms(1)
    by (auto simp: validate_transition_target_def validation_result_Inr Let_def split: if_splits option.splits prod.splits)
  then have read:
    "tt_branch_plan t = None \<longrightarrow>
       (tt_branch t = None \<or> bounded_text max_change_branch_length (get_prop v (js ''branch'')) = tt_branch t) \<and>
       (tt_base_branch t = None \<or> bounded_text max_change_branch_length (get_prop v (js ''baseBranch'')) = tt_base_branch t)"
    "tt_branch_commit_sha t = None \<or> commit_sha (get_prop v (js ''branchCommitSha'')) = tt_branch_commit_sha t"
    by (cases "has_prop v (js ''branchPlan'')";
        simp add: target_checks_def clean_run_bind checked clean_consumed_plan; clarify; auto dest!: optional_read)+
  have "issue_number n" if "tt_pull_request t = Some n" for n
    using valid_target_wf [OF assms(1)] that by (simp add: wf_target_def issue_number_def)
  moreover have "branch_text b" if "tt_branch t = Some b" for b
    using read(1) that assms(2) bounded_text_value [of max_change_branch_length _ b]
    by (cases "tt_branch_plan t") (auto simp: settled_target_def branch_text_def)
  moreover have "branch_text b" if "tt_base_branch t = Some b" for b
    using read(1) that assms(2) bounded_text_value [of max_change_branch_length _ b]
    by (cases "tt_branch_plan t") (auto simp: settled_target_def branch_text_def)
  moreover have "commit_sha (JStr s) = Some s" if "tt_branch_commit_sha t = Some s" for s
    using read(2) that commit_sha_canonical by simp
  ultimately show ?thesis
    by (simp add: canonical_target_def canonical_commit_def split: option.split)
qed

text \<open>The plan of a settled request is made of well-formed parts.\<close>

lemma resolved_canonical:
  assumes "wf_change (tq_change q)" and "canonical_target (target_or_none (tq_target q))"
  shows "rt_branch (resolved_transition_target q) = Some b \<Longrightarrow> branch_text b"
    and "rt_base_branch (resolved_transition_target q) = Some b \<Longrightarrow> branch_text b"
    and "rt_pull_request (resolved_transition_target q) = Some n \<Longrightarrow> issue_number n"
    and "canonical_commit (rt_branch_commit_sha (resolved_transition_target q))"
proof -
  have "projected_branch (tq_change q) = Some b \<Longrightarrow> branch_text b" for b
    using assms(1) by (auto simp: wf_change_def projected_branch_def branch_text_iff bind_eq_Some_conv)
  moreover have "projected_pull_request (tq_change q) = Some n \<Longrightarrow> issue_number n" for n
    using assms(1) by (auto simp: wf_change_def projected_pull_request_def issue_number_def bind_eq_Some_conv)
  ultimately show "rt_branch (resolved_transition_target q) = Some b \<Longrightarrow> branch_text b"
    and "rt_base_branch (resolved_transition_target q) = Some b \<Longrightarrow> branch_text b"
    and "rt_pull_request (resolved_transition_target q) = Some n \<Longrightarrow> issue_number n"
    and "canonical_commit (rt_branch_commit_sha (resolved_transition_target q))"
    using assms(2) by (cases "tq_transition q";
      auto simp: resolved_transition_target_def Let_def first_defined_def canonical_target_def canonical_commit_def
        split: option.splits)+
qed

lemma wf_transition_result:
  assumes "wf_change (tq_change q)" and "canonical_target (target_or_none (tq_target q))"
  shows "wf_change (transition_result q to)"
proof -
  have "branch_text b" if "rt_branch (resolved_transition_target q) = Some b" for b
    by (rule resolved_canonical(1) [OF assms that])
  moreover have "issue_number n" if "rt_pull_request (resolved_transition_target q) = Some n" for n
    by (rule resolved_canonical(3) [OF assms that])
  ultimately show ?thesis
    using assms(1) by (auto simp: wf_change_def transition_result_def Let_def projected_change_def branch_text_iff
        issue_number_def split: option.split)
qed

lemma clean_issuance_plan:
  assumes "clean_run (issuance_plan_checks lc i t plan) ()" and "tt_branch t = Some b" and "tt_base_branch t = Some base"
    and "plan_at plan [''desired'', ''title''] = JStr title" and "plan_at plan [''desired'', ''body''] = JStr body"
  shows "plan_of_effect b base title body plan"
  using assms by (simp add: issuance_plan_checks_def issuance_capabilities_def clean_run_bind checked plan_of_effect_def
      optional_text_def)

lemma wf_issue_effects:
  assumes valid: "validate_transition_semantics lc (tq_change q) OpIssue (tq_target q) = Inr r"
    and op: "tq_transition q = OpIssue" and n: "issue_number (root_issue (ch_identity (tq_change q)))"
    and settled: "settled_request pa q" and target: "canonical_target (target_or_none (tq_target q))"
    and effects: "issue_effects (root_issue (ch_identity (tq_change q))) (resolved_transition_target q) = Inr es"
  shows "list_all (wf_effect pa) es"
proof -
  obtain t where t: "tq_target q = Some t" "tt_branch t \<noteq> None" "tt_base_branch t \<noteq> None"
      "\<forall>plan. tt_semantic_plan t = Some plan \<longrightarrow> clean_run (issuance_plan_checks lc (ch_identity (tq_change q)) t plan) ()"
    using valid by (auto simp: valid_semantics clean_issue_checks)
  then obtain b base where b: "tt_branch t = Some b" "tt_base_branch t = Some base" by blast
  with target t(1) have texts: "branch_text b" "branch_text base" by (simp_all add: canonical_target_def target_or_none_def)
  have settled: "settled_target pa t" using settled t(1) by (simp add: settled_request_def)
  show ?thesis
  proof (cases "tt_semantic_plan t")
    case None
    then show ?thesis
      using effects op t(1) b texts n issue_number_texts [OF n]
      by (auto simp: issue_effects_def resolved_transition_target_def Let_def target_or_none_def settled_plan_def)
  next
    case (Some plan)
    then obtain title body where desired: "plan_at plan [''desired'', ''title''] = JStr title"
        "plan_at plan [''desired'', ''body''] = JStr body"
        "bounded_text max_pull_request_title_length (JStr title) = Some title"
        "lines_text max_pull_request_body_length (JStr body) = Some body"
      using settled by (auto simp: settled_target_def)
    have "plan_of_effect b base title body plan"
      using clean_issuance_plan [OF _ b desired(1,2)] t(4) Some by blast
    then show ?thesis
      using effects op t(1) b texts n Some desired settled
      by (auto simp del: bounded_text.simps lines_text.simps simp: issue_effects_def resolved_transition_target_def Let_def
          target_or_none_def plan_text_def settled_target_def)
  qed
qed

lemma wf_planned_effects:
  assumes valid: "validate_transition_request lc pa v = Some (Inr q)" and build: "build_transition_plan q = Inr p"
    and settled: "settled_request pa q" and target: "canonical_target (target_or_none (tq_target q))"
  shows "list_all (wf_effect pa) (tp_effects p)" and "length (tp_effects p) \<le> 8"
proof -
  obtain r where r: "validate_transition_semantics lc (tq_change q) (tq_transition q) (tq_target q) = Inr r"
    using valid_request(3) [OF valid] by blast
  note wf = resolved_canonical [OF _ target]
  have change: "wf_change (tq_change q)" using settled by (simp add: settled_request_def)
  have n: "issue_number (root_issue (ch_identity (tq_change q)))"
    using change by (simp add: wf_change_def wf_identity_def issue_number_def)
  note effects = build_plan_Inr(5) [OF build, unfolded operation_effects_def]
  show "list_all (wf_effect pa) (tp_effects p)"
  proof (cases "tq_transition q")
    case OpIssue
    then show ?thesis using wf_issue_effects [OF _ _ n settled target] r effects by simp
  next
    case OpMerge
    then show ?thesis using effects by simp
  next
    case OpReady
    then show ?thesis using effects wf(3) [OF change] by (auto simp: ready_effects_def dest!: sym [of _ "tp_effects p"] split: option.splits if_splits)
  next
    case OpAbort
    obtain b where "rt_branch (resolved_transition_target q) = Some b"
      using resolved_known(1) [OF r] by (auto simp: resolutions_agree [OF r])
    then show ?thesis
      using OpAbort effects wf(1,3,4) [OF change]
      by (auto simp: abort_plan_effects_def dest!: sym [of _ "tp_effects p"] split: option.splits if_splits)
  qed
  show "length (tp_effects p) \<le> 8"
    using effects by (auto simp: issue_effects_def ready_effects_def abort_plan_effects_def
        dest!: sym [of _ "tp_effects p"] split: change_transition.splits option.splits if_splits)
qed

lemma request_canonical_target:
  assumes "validate_transition_request lc pa v = Some (Inr q)" and "settled_request pa q"
  shows "canonical_target (target_or_none (tq_target q))"
proof -
  obtain t where t: "clean_run (request_checks lc v t) (Some q)"
      "t = None \<or> validate_transition_target pa (get_prop v (js ''target'')) (js ''$.target'') = t"
    using assms(1) by (auto simp: validate_transition_request_def validation_result_Inr split: if_splits)
  then have "tq_target q = Option.bind t result_value" by (simp add: clean_request_checks)
  with t(2) have "tq_target q = None \<or>
      (\<exists>x. tq_target q = Some x \<and> validate_transition_target pa (get_prop v (js ''target'')) (js ''$.target'') = Some (Inr x))"
    by (cases t; cases "the t") auto
  then show ?thesis
    using assms(2) valid_target_canonical
    by (auto simp: target_or_none_def settled_request_def canonical_target_def no_target_def canonical_commit_def)
qed

lemma transition_plan_value_sel [simp]:
  "is_record (transition_plan_value p)"
  "set (object_keys (transition_plan_value p)) \<subseteq> set transition_plan_keys"
  "has_prop (transition_plan_value p) (js ''request'')" "has_prop (transition_plan_value p) (js ''effects'')"
  "get_prop (transition_plan_value p) (js ''request'') = request_value (tp_request p)"
  "get_prop (transition_plan_value p) (js ''effects'') = JArr (map effect_value (tp_effects p))"
  by (simp_all add: transition_plan_value_def transition_plan_keys_def)

lemma grows_plan_state [checked]: "grows (plan_state v key)"
  by (auto simp: plan_state_def intro!: checked split: option.split)

lemma clean_plan_state [simp]:
  "clean_run (plan_state v key) y \<longleftrightarrow> has_prop v (js key) \<and> y \<noteq> None \<and> change_state_value (get_prop v (js key)) = y"
  by (auto simp: plan_state_def split: option.split)

lemma clean_plan_front:
  "clean_run (plan_front lc v request) f \<longleftrightarrow>
     set (object_keys v) \<subseteq> set transition_plan_keys \<and> has_prop v (js ''version'') \<and>
     get_prop v (js ''version'') = JNum (Integral 1) \<and> has_prop v (js ''request'') \<and>
     result_diagnostics request = [] \<and> pl_request f = result_value request \<and>
     has_prop v (js ''from'') \<and> pl_from f \<noteq> None \<and> change_state_value (get_prop v (js ''from'')) = pl_from f \<and>
     has_prop v (js ''to'') \<and> pl_to f \<noteq> None \<and> change_state_value (get_prop v (js ''to'')) = pl_to f \<and>
     has_prop v (js ''result'') \<and> result_diagnostics (validate_change lc (get_prop v (js ''result''))) = [] \<and>
     pl_result f = result_value (validate_change lc (get_prop v (js ''result'')))"
  by (cases f) (auto simp: plan_front_def clean_run_bind checked)

lemma clean_plan_comparison:
  "clean_run (plan_comparison from to result effects expected) y \<longleftrightarrow>
     from = tp_from expected \<and> to = tp_to expected \<and> result = tp_result expected \<and> effects = tp_effects expected \<and>
     y = Some expected"
  by (auto simp: plan_comparison_def clean_run_bind checked)



subsection \<open>Accepted plans\<close>

lemma kind_checks_not_None: "\<not> clean_run (kind_checks k v path plan) None"
proof (cases k)
  case K_CREATE_PULL_REQUEST
  then show ?thesis
    by (auto simp: kind_checks_def create_pull_request_checks_def clean_run_bind checked clean_run_get)
qed (auto simp: kind_checks_def create_branch_checks_def provenance_commit_checks_def delete_branch_checks_def
    pull_request_number_checks_def clean_run_bind checked simp del: bounded_text.simps split: option.splits)

lemma validate_effect_Inl_Nil: "validate_change_effect pa v path \<noteq> Some (Inl [])"
proof
  assume "validate_change_effect pa v path = Some (Inl [])"
  moreover have "snd (run_checks (add_diagnostic c path m)) \<noteq> []" for c m
    by (simp add: run_checks_def add_diagnostic_run)
  ultimately obtain plan where "clean_run (effect_checks v path plan) None"
    by (auto simp: validate_change_effect_def validation_result_Inl_Nil Let_def split: if_splits option.splits prod.splits)
  then show False by (simp add: clean_effect_checks kind_checks_not_None)
qed

lemma append_diagnostics_Nil [simp]: "append_diagnostics ds [] = ds"
  by (simp add: append_diagnostics_def)

lemma append_diagnostics_grow: "\<exists>new. append_diagnostics ds x = ds @ new"
  by (simp add: append_diagnostics_def)

lemma effect_items_grow: "effect_items pa path i vs ds = Some (es, ds') \<Longrightarrow> \<exists>new. ds' = ds @ new"
proof (induction vs arbitrary: i ds es)
  case (Cons v vs)
  show ?case
  proof (cases "max_change_diagnostics \<le> length ds")
    case False
    then obtain r where valid: "validate_change_effect pa v (item_path path i) = Some r"
      using Cons.prems by (cases "validate_change_effect pa v (item_path path i)") simp_all
    with False Cons.prems obtain xs where
      "effect_items pa path (Suc i) vs (append_diagnostics ds (result_diagnostics r)) = Some (xs, ds')"
      by auto
    from Cons.IH [OF this] append_diagnostics_grow [of ds "result_diagnostics r"] show ?thesis by auto
  qed (use Cons.prems in simp)
qed simp

lemma effect_items_clean:
  "effect_items pa path i vs [] = Some (es, []) \<longleftrightarrow>
     list_all2 (\<lambda>(j, v) e. validate_change_effect pa v (item_path path j) = Some (Inr e)) (enumerate i vs) es"
proof (induction vs arbitrary: i es)
  case (Cons v vs)
  show ?case
  proof (cases "validate_change_effect pa v (item_path path i)")
    case (Some r)
    show ?thesis
    proof (cases r)
      case (Inl ds)
      then have "append_diagnostics [] ds \<noteq> []"
        using Some validate_effect_Inl_Nil [of pa v "item_path path i"]
        by (auto simp: append_diagnostics_def max_change_diagnostics_def)
      then have "effect_items pa path (Suc i) vs (append_diagnostics [] ds) \<noteq> Some (xs, [])" for xs
        using effect_items_grow [of pa path "Suc i" vs "append_diagnostics [] ds" xs "[]"] by auto
      then show ?thesis
        using Some Inl by (auto simp: max_change_diagnostics_def list_all2_Cons1)
    next
      case (Inr e)
      then show ?thesis
        using Some Cons.IH
        by (auto simp: max_change_diagnostics_def list_all2_Cons1)
    qed
  qed (simp add: list_all2_Cons1 max_change_diagnostics_def)
qed auto

lemma plan_effects_clean:
  "plan_effects pa v [] = Some (es, []) \<longleftrightarrow>
     (\<exists>vs. get_prop v (js ''effects'') = JArr vs \<and> length vs \<le> max_transition_effects \<and>
        list_all2 (\<lambda>(i, x) e. validate_change_effect pa x (item_path (js ''$.effects'') i) = Some (Inr e))
          (enumerate 0 vs) es)"
proof -
  have reported: "snd (run_state (add_diagnostic c p m) []) \<noteq> []" for c p m by (simp add: add_diagnostic_run)
  have "effect_items pa path 0 vs (snd (run_state (add_diagnostic c p m) [])) \<noteq> Some (es, [])" for path vs c p m
    using effect_items_grow [of pa path 0 vs "snd (run_state (add_diagnostic c p m) [])" es "[]"] reported by auto
  then show ?thesis
    using reported
    by (cases "has_prop v (js ''effects'')"; cases "get_prop v (js ''effects'')")
      (auto simp: plan_effects_def validate_effect_list_def report_if_def missing_property_def effect_items_clean
        get_prop_absent not_le)
qed

lemma run_state_grows: "grows m \<Longrightarrow> \<exists>new. snd (run_state m ds) = ds @ new"
  by (auto simp: grows_def)

lemma plan_effects_grow: "plan_effects pa v ds = Some (es, ds') \<Longrightarrow> \<exists>new. ds' = ds @ new"
proof -
  assume read: "plan_effects pa v ds = Some (es, ds')"
  show ?thesis
  proof (cases "has_prop v (js ''effects'') \<and> (\<exists>vs. get_prop v (js ''effects'') = JArr vs)")
    case True
    then obtain vs where vs: "has_prop v (js ''effects'')" "get_prop v (js ''effects'') = JArr vs" by blast
    obtain m :: "unit checked" where m: "grows m"
        "effect_items pa (js ''$.effects'') 0 vs (snd (run_state m ds)) = Some (es, ds')"
      using read vs grows_report by (fastforce simp: plan_effects_def validate_effect_list_def)
    with run_state_grows [OF m(1), of ds] effect_items_grow [OF m(2)] show ?thesis by auto
  next
    case False
    then obtain m :: "unit checked" where "grows m" "ds' = snd (run_state m ds)"
      using read grows_add
      by (auto simp: plan_effects_def validate_effect_list_def missing_property_def split: if_splits jsval.splits)
    with run_state_grows [of m ds] show ?thesis by simp
  qed
qed

lemma undefined_rejected:
  "validate_transition_request lc pa JUndef = Some (Inr q) \<Longrightarrow> False" "validate_change lc JUndef = Inr c \<Longrightarrow> False"
  by (simp_all add: validate_transition_request_def validate_change_def validation_result_Inr change_checks_def)

lemma result_Inr: "result_diagnostics r = [] \<Longrightarrow> result_value r = Some x \<Longrightarrow> r = Inr x"
  by (cases r) simp_all

lemma get_prop_has: "get_prop v k = x \<Longrightarrow> x \<noteq> JUndef \<Longrightarrow> has_prop v k"
  using get_prop_absent by blast

text \<open>
  C25. The validator of plans is equivalent to the planner.  A plain object is accepted exactly when it has
  the version and no unknown property, its request is one the planner accepts, and its states, its result
  and its effects (at most eight, each a valid effect) read as those of the plan the planner makes for that
  request; the value is that plan.  So nobody can transport a plan the planner would not have made.
\<close>

theorem accepted_plan_is_planned:
  "validate_transition_plan lc pa v = Some (Inr p) \<longleftrightarrow>
     is_record v \<and> set (object_keys v) \<subseteq> set transition_plan_keys \<and>
     get_prop v (js ''version'') = JNum (Integral 1) \<and>
     plan_change_transition lc pa (get_prop v (js ''request'')) = Inr p \<and>
     change_state_value (get_prop v (js ''from'')) = Some (tp_from p) \<and>
     change_state_value (get_prop v (js ''to'')) = Some (tp_to p) \<and>
     validate_change lc (get_prop v (js ''result'')) = Inr (tp_result p) \<and>
     (\<exists>vs. get_prop v (js ''effects'') = JArr vs \<and> length vs \<le> max_transition_effects \<and>
        list_all2 (\<lambda>(i, x) e. validate_change_effect pa x (item_path (js ''$.effects'') i) = Some (Inr e))
          (enumerate 0 vs) (tp_effects p))"
  (is "?accepted \<longleftrightarrow> ?as_planned")
proof
  assume ?accepted
  then obtain request front ds effects where parts: "is_record v" "plan_request lc pa v = Some request"
      "run_checks (plan_front lc v request) = (front, ds)" "plan_effects pa v ds = Some (effects, [])"
    and plan: "\<exists>q from to result. pl_request front = Some q \<and> pl_from front = Some from \<and> pl_to front = Some to \<and>
      pl_result front = Some result \<and> build_transition_plan q = Inr p \<and> from = tp_from p \<and> to = tp_to p \<and>
      result = tp_result p \<and> effects = tp_effects p"
    by (auto simp: validate_transition_plan_def validation_result_Inr clean_plan_comparison
        split: if_splits option.splits prod.splits list.splits sum.splits)
  have "ds = []" using plan_effects_grow [OF parts(4)] by simp
  then have "clean_run (plan_front lc v request) front" using parts(3) by (simp add: clean_run_checks)
  note front = this [unfolded clean_plan_front]
  obtain q where q: "pl_request front = Some q" "build_transition_plan q = Inr p" and same: "pl_from front = Some (tp_from p)"
      "pl_to front = Some (tp_to p)" "pl_result front = Some (tp_result p)" "effects = tp_effects p"
    using plan by auto
  have "request = Inr q" using front q(1) by (intro result_Inr) simp_all
  then have "plan_change_transition lc pa (get_prop v (js ''request'')) = Inr p"
    using parts(2) front q(2) build_plan_request [OF q(2)] by (simp add: planned plan_request_def)
  moreover have "validate_change lc (get_prop v (js ''result'')) = Inr (tp_result p)"
    using front same by (intro result_Inr) simp_all
  ultimately show ?as_planned
    using parts(1,4) front same plan_effects_clean [of pa v effects] \<open>ds = []\<close> by simp
next
  assume planned: ?as_planned
  have has: "has_prop v (js ''request'')" "has_prop v (js ''result'')"
    using planned by (auto simp: Change_Planning.planned intro!: get_prop_has [OF refl] dest: undefined_rejected)
  have known: "has_prop v (js ''from'')" "has_prop v (js ''to'')" "has_prop v (js ''version'')"
    using planned by (auto intro!: get_prop_has [OF refl])
  let ?q = "tp_request p"
  have request: "plan_request lc pa v = Some (Inr ?q)" and build: "build_transition_plan ?q = Inr p"
    using planned has by (simp_all add: Change_Planning.planned plan_request_def)
  have "clean_run (plan_front lc v (Inr ?q))
      \<lparr>pl_request = Some ?q, pl_from = Some (tp_from p), pl_to = Some (tp_to p), pl_result = Some (tp_result p)\<rparr>"
    unfolding clean_plan_front using planned has known by (simp del: change_state_value.simps)
  moreover have "plan_effects pa v [] = Some (tp_effects p, [])" using planned by (simp add: plan_effects_clean)
  moreover have "validation_result (plan_comparison (tp_from p) (tp_to p) (tp_result p) (tp_effects p) p) = Inr p"
    by (simp add: validation_result_Inr clean_plan_comparison)
  ultimately show ?accepted
    using planned build by (simp add: validate_transition_plan_def request clean_run_checks [symmetric])
qed

subsection \<open>Revalidation\<close>

text \<open>A validated Change is kept by another validation, up to the spelling of its host.\<close>

lemma revalidated_projection:
  "validate_change_projection (projection_value p) path = Inr p' \<Longrightarrow> p' = p"
  unfolding validate_change_projection_Inr
  by (cases p; cases p'; cases "cp_branch p"; cases "cp_pull_request p")
    (auto simp: projection_value_def split: if_splits)

lemma provenance_value_sel:
  "list_all (\<lambda>(k, x). has_prop (provenance_value p) k = (x \<noteq> None) \<and>
      get_prop (provenance_value p) k = (case x of None \<Rightarrow> JUndef | Some s \<Rightarrow> JStr s))
    (zip provenance_keys [requester p, issuer p, implementer p, reviewer p, merger p])"
  by (simp del: has_prop.simps get_prop.simps add: provenance_value_def provenance_keys_def opt_prop_read split: option.split)

lemma kept_principals:
  assumes "length ks = length xs" and "length xs = length ys"
    and "list_all (\<lambda>(k, x). has_prop v k = (x \<noteq> None) \<and>
           get_prop v k = (case x of None \<Rightarrow> JUndef | Some s \<Rightarrow> JStr s)) (zip ks xs)"
    and "list_all (\<lambda>(k, y). if has_prop v k then y \<noteq> None \<and> principal_value (get_prop v k) = y else y = None) (zip ks ys)"
  shows "ys = xs"
  using assms
proof (induction ks xs ys rule: list_induct3)
  case (Cons k ks x xs y ys)
  have "principal_value (JStr s) = Some t \<Longrightarrow> t = s" for s t by (simp split: if_splits)
  then have "y = x" using Cons.prems by (cases x) (auto simp del: principal_value.simps)
  with Cons.IH Cons.prems show ?case by (simp del: principal_value.simps)
qed simp

lemma revalidated_provenance:
  assumes "validate_change_provenance (provenance_value p) path = Inr p'"
  shows "p' = p"
proof -
  note read = assms [unfolded validate_change_provenance_Inr, THEN conjunct2, THEN conjunct2]
  have "[requester p', issuer p', implementer p', reviewer p', merger p'] =
      [requester p, issuer p, implementer p, reviewer p, merger p]"
    by (rule kept_principals [OF _ _ provenance_value_sel read]) (simp_all add: provenance_keys_def)
  then show ?thesis by (cases p; cases p') simp
qed

lemma revalidated:
  assumes "validate_change lc (change_value c) = Inr c'"
  shows "ch_state c' = ch_state c" and "ch_projection c' = ch_projection c" and "ch_provenance c' = ch_provenance c"
    and "root_issue (ch_identity c') = root_issue (ch_identity c)"
  using assms unfolding validate_change_Inr
  by (cases "ch_projection c"; auto simp: change_value_def validate_change_identity_Inr
      dest: revalidated_projection revalidated_provenance split: if_splits)+

lemma bounded_text_JStr [simp]: "bounded_text m (JStr s) = Some x \<Longrightarrow> x = s"
  by (simp split: if_splits)

lemma transition_name_read: "normalize_change_transition lc (JStr (transition_name op)) = Some op"
  by (cases op) (simp_all add: to_lower_def js_eval ascii_lower_def is_upper_def)

end
