(* ===== verification/Trusted_Adapter.thy ===== *)
theory Trusted_Adapter
  imports Issuance_Machine Plan_Validation "HOL-Library.AList"
begin

text \<open>
  The trusted execution adapter,
  \<^verbatim>\<open>src/src/change/machine/trusted-execution-adapter.ts\<close>: it reads GitHub evidence,
  binds the provenance of the authenticated execution to it, and gives the execution machines the
  projection and the planner of Core as their services.  The reader and the Effect Authorizer are
  ports that thread the environment; the parts of Core that are not modelled (the Ready validation and
  plan, issuance planning and recovery, merge admission) are further fields of \<^verbatim>\<open>trusted_adapter\<close>.
\<close>

subsection \<open>Ports\<close>

text \<open>
  The reader returns a plain object; it may throw a bounded failure of its own, or anything else
  (\<^const>\<open>None\<close>).  The Effect Authorizer throws with the classification it could read from
  the provider, which is empty for an unclassified failure.
\<close>

type_synonym projection_input = "(jstr \<times> jsval) list"

record failure_classification =
  fc_reason :: "effect_failure_reason option"
  fc_status :: "int option"
  fc_provider :: "provider_diagnostic option"

record 'w trusted_adapter =
  ta_lower :: "jstr \<Rightarrow> jstr"
  ta_plans :: plan_authority
  ta_requester :: "jstr option"
  ta_read :: "mutation_request \<Rightarrow> 'w \<Rightarrow> (execution_failure option + projection_input) \<times> 'w"
  ta_apply :: "change_effect option \<Rightarrow> 'w \<Rightarrow> (failure_classification + effect_success_evidence option) \<times> 'w"
  ta_transition_recovery ::
    "transition_plan \<Rightarrow> effect_attempt list \<Rightarrow> effect_failure_evidence \<Rightarrow> projection_input \<Rightarrow> change option"

subsection \<open>Evidence\<close>

text \<open>
  \<^verbatim>\<open>{ ...input, provenance }\<close> with the roles of the execution; a provenance of the reader
  that is there is an object.
\<close>

definition provenance_entries :: "jsval \<Rightarrow> (jstr \<times> jsval) list" where
  "provenance_entries v = (case v of JObj kvs \<Rightarrow> kvs | _ \<Rightarrow> [])"

definition set_role :: "string \<Rightarrow> jstr option \<Rightarrow> (jstr \<times> jsval) list \<Rightarrow> (jstr \<times> jsval) list" where
  "set_role role who kvs =
     (case who of None \<Rightarrow> kvs | Some p \<Rightarrow> AList.update (js role) (JStr p) kvs)"

definition request_with_provenance ::
  "projection_input \<Rightarrow> jstr option \<Rightarrow> jstr option \<Rightarrow> projection_input" where
  "request_with_provenance input request_by issued_by =
     AList.update (js ''provenance'')
       (JObj (set_role ''issuer'' issued_by (set_role ''requester'' request_by
          (provenance_entries (get_prop (JObj input) (js ''provenance''))))))
       input"

definition projection_for :: "'w trusted_adapter \<Rightarrow> projection_input \<Rightarrow> projection_result" where
  "projection_for ad input = project_change (ta_lower ad) (pa_branch (ta_plans ad)) (JObj input)"

text \<open>Reading without projecting, and the default failure of everything the reader throws.\<close>

definition read_raw_input ::
  "'w trusted_adapter \<Rightarrow> mutation_request \<Rightarrow> 'w \<Rightarrow> (execution_failure + projection_input) \<times> 'w" where
  "read_raw_input ad request w =
     (case ta_read ad request w of
        (Inr input, w') \<Rightarrow> (Inr (request_with_provenance input (ta_requester ad) None), w')
      | (Inl (Some f), w') \<Rightarrow> (Inl f, w')
      | (Inl None, w') \<Rightarrow> (Inl default_read_failure, w'))"

subsection \<open>Execution evidence\<close>

definition effect_evidence_of :: "effect_attempt list \<Rightarrow> effect_evidence list" where
  "effect_evidence_of =
     map (\<lambda>a. \<lparr>ee_kind = Change_Effect (effect_kind (at_effect a)), ee_status = at_status a,
               ee_created_commit = (case at_evidence a of
                  Some (EV_CREATE_BRANCH branch base sha) \<Rightarrow> Some sha
                | Some (EV_CREATE_PROVENANCE_COMMIT branch n path sha) \<Rightarrow> Some sha
                | _ \<Rightarrow> None)\<rparr>)"

definition execution_failure_of :: "effect_failure_evidence \<Rightarrow> execution_failure_evidence" where
  "execution_failure_of f =
     \<lparr>xf_kind = Change_Effect (effect_kind (fe_effect f)), xf_failure = fe_failure f\<rparr>"

definition evidence_of_execution ::
  "change_transition \<Rightarrow> execution_outcome \<Rightarrow> jstr option \<Rightarrow> effect_evidence list \<Rightarrow> compensation_status \<Rightarrow>
     execution_failure_evidence option \<Rightarrow> execution_failure_evidence option \<Rightarrow> execution_evidence" where
  "evidence_of_execution op outcome who effects compensation failure compensation_failure =
     \<lparr>xe_operation = op, xe_outcome = outcome, xe_requester = who, xe_issuer = Some inari_issuer_principal,
      xe_effects = effects, xe_compensation = Some compensation, xe_compensation_failure = compensation_failure,
      xe_failure = failure\<rparr>"

definition failed_closed_evidence ::
  "'w trusted_adapter \<Rightarrow> change_transition \<Rightarrow> effect_attempt list \<Rightarrow> effect_failure_evidence \<Rightarrow> execution_evidence" where
  "failed_closed_evidence ad op attempts failure =
     evidence_of_execution op Recovery_Needed (ta_requester ad) (effect_evidence_of attempts) Comp_Failed
       (Some (execution_failure_of failure)) None"

definition completed_evidence ::
  "'w trusted_adapter \<Rightarrow> change_transition \<Rightarrow> execution_outcome \<Rightarrow> effect_evidence list \<Rightarrow> execution_evidence" where
  "completed_evidence ad op outcome effects =
     evidence_of_execution op outcome (ta_requester ad) effects Not_Required None None"

subsection \<open>Failures of effects\<close>

fun effect_failure_code :: "change_effect_kind \<Rightarrow> jstr" where
  "effect_failure_code K_CREATE_BRANCH = js ''BRANCH_CREATE_FAILED''"
| "effect_failure_code K_CREATE_PROVENANCE_COMMIT = js ''PROVENANCE_COMMIT_CREATE_FAILED''"
| "effect_failure_code K_CREATE_PULL_REQUEST = js ''PULL_REQUEST_CREATE_FAILED''"
| "effect_failure_code K_MARK_PULL_REQUEST_READY = js ''PULL_REQUEST_READY_FAILED''"
| "effect_failure_code K_CLOSE_PULL_REQUEST = js ''PULL_REQUEST_CLOSE_FAILED''"
| "effect_failure_code K_DELETE_BRANCH = js ''BRANCH_DELETE_FAILED''"

fun effect_failure_message :: "change_effect_kind \<Rightarrow> jstr" where
  "effect_failure_message K_CREATE_BRANCH = js ''The branch creation effect failed.''"
| "effect_failure_message K_CREATE_PROVENANCE_COMMIT = js ''The signed provenance commit effect failed.''"
| "effect_failure_message K_CREATE_PULL_REQUEST = js ''The pull request creation effect failed.''"
| "effect_failure_message K_MARK_PULL_REQUEST_READY = js ''The pull request ready effect failed.''"
| "effect_failure_message K_CLOSE_PULL_REQUEST = js ''The pull request close effect failed.''"
| "effect_failure_message K_DELETE_BRANCH = js ''The branch deletion effect failed.''"

definition failure_for :: "change_effect \<Rightarrow> failure_classification option \<Rightarrow> effect_failure" where
  "failure_for e c =
     \<lparr>ef_code = effect_failure_code (effect_kind e), ef_message = effect_failure_message (effect_kind e),
      ef_reason = Option.bind c fc_reason, ef_status = Option.bind c fc_status, ef_provider = Option.bind c fc_provider\<rparr>"

text \<open>
  \<^verbatim>\<open>applyReadyEffect\<close>, \<^verbatim>\<open>applyAbortEffect\<close> and
  \<^verbatim>\<open>applyIssuanceEffect\<close>: building the failure of an undefined effect throws, so the
  promise is rejected then.  Only issuance keeps the evidence of a success.
\<close>

definition apply_effect ::
  "'w trusted_adapter \<Rightarrow> bool \<Rightarrow> change_effect option \<Rightarrow> 'w \<Rightarrow> effect_result settled \<times> 'w" where
  "apply_effect ad keep e w =
     (case ta_apply ad e w of
        (Inr evidence, w') \<Rightarrow> (Fulfilled (Effect_Ok (if keep then evidence else None)), w')
      | (Inl c, w') \<Rightarrow>
          (case e of
             None \<Rightarrow> (Rejected, w')
           | Some e \<Rightarrow> (Fulfilled (Effect_Failed (failure_for e (Some c))), w')))"

subsection \<open>The verification of a projection\<close>

datatype planned_change = Planned_Issuance issuance_plan | Planned_Transition transition_plan

fun planned_result :: "planned_change \<Rightarrow> change" where
  "planned_result (Planned_Issuance plan) = ip_result plan"
| "planned_result (Planned_Transition plan) = tp_result plan"

fun is_branch_only_abort :: "planned_change \<Rightarrow> bool" where
  "is_branch_only_abort (Planned_Issuance plan) = False"
| "is_branch_only_abort (Planned_Transition plan) =
     (tq_transition (tp_request plan) = OpAbort \<and> tp_from plan = RECOVERY_REQUIRED \<and>
      projected_branch (tq_change (tp_request plan)) \<noteq> None \<and>
      projected_pull_request (tq_change (tp_request plan)) = None)"

fun is_issuance :: "planned_change \<Rightarrow> bool" where
  "is_issuance (Planned_Issuance plan) = True"
| "is_issuance (Planned_Transition plan) = False"

definition diagnostic_of :: "string \<Rightarrow> jstr \<Rightarrow> string \<Rightarrow> change_diagnostic" where
  "diagnostic_of code path message = \<lparr>cd_code = js code, cd_path = path, cd_message = js message\<rparr>"

definition diagnostic_when :: "bool \<Rightarrow> string \<Rightarrow> string \<Rightarrow> string \<Rightarrow> change_diagnostic list" where
  "diagnostic_when b code path message = (if b then [diagnostic_of code (js path) message] else [])"

definition role_of :: "string \<Rightarrow> change \<Rightarrow> jstr option" where
  "role_of role c =
     (if role = ''requester'' then requester (ch_provenance c)
      else if role = ''issuer'' then issuer (ch_provenance c)
      else if role = ''implementer'' then implementer (ch_provenance c)
      else if role = ''reviewer'' then reviewer (ch_provenance c)
      else merger (ch_provenance c))"

definition provenance_roles :: "string list" where
  "provenance_roles = [''requester'', ''issuer'', ''implementer'', ''reviewer'', ''merger'']"

definition verify_projection :: "planned_change \<Rightarrow> projection_result \<Rightarrow> change_diagnostic list" where
  "verify_projection plan p =
     (let expected = planned_result plan;
          actual = pr_change p;
          branch_only = is_branch_only_abort plan;
          clean = branch_only \<and> abort_cleanup_complete p in
      diagnostic_when (branch_only \<and> \<not> clean) ''CHANGE_INVALID_PLAN'' ''$.projection''
        ''Branch-only abort recovery requires complete cleanup with no pull-request candidate.''
      @ diagnostic_when ((\<not> pr_valid p \<or> pr_status p \<noteq> Healthy) \<and> \<not> clean) ''CHANGE_INVALID_PLAN'' ''$.projection''
          ''Post-effect projection is not a healthy canonical Change.''
      @ diagnostic_when (map_option ch_identity actual \<noteq> Some (ch_identity expected)) ''CHANGE_INVALID_PLAN''
          ''$.projection.change.identity'' ''Projection identity differs from the plan.''
      @ diagnostic_when (map_option ch_state actual \<noteq> Some (ch_state expected) \<and> \<not> clean) ''CHANGE_INVALID_PLAN''
          ''$.projection.change.state'' ''Projection state differs from the plan.''
      @ diagnostic_when (Option.bind actual projected_branch \<noteq> projected_branch expected \<and> \<not> clean)
          ''CHANGE_INVALID_PLAN'' ''$.projection.change.projection.branch'' ''Projection branch differs from the plan.''
      @ concat (map (\<lambda>role.
          diagnostic_when (role_of role expected \<noteq> None \<and> Option.bind actual (role_of role) \<noteq> role_of role expected)
            ''CHANGE_INVALID_PROVENANCE'' (''$.projection.change.provenance.'' @ role)
            (''Projection '' @ role @ '' provenance differs from the transition plan.'')) provenance_roles)
      @ diagnostic_when (is_issuance plan \<and> Option.bind actual (role_of ''issuer'') \<noteq> Some inari_issuer_principal)
          ''CHANGE_INVALID_PROVENANCE'' ''$.projection.change.provenance.issuer''
          ''The canonical issuance projection is not attributed to the Inari issuer.''
      @ diagnostic_when (projected_pull_request expected \<noteq> None \<and>
            Option.bind actual projected_pull_request \<noteq> projected_pull_request expected) ''CHANGE_INVALID_PLAN''
          ''$.projection.change.projection.pullRequest'' ''Projection pull request differs from the plan.'')"

text \<open>The verdict the machines get: the adapter catches what \<^verbatim>\<open>verifyProjection\<close> throws.\<close>

definition verification_of :: "planned_change \<Rightarrow> projection_result \<Rightarrow> verification_result" where
  "verification_of plan p =
     (let ds = verify_projection plan p in
      \<lparr>ve_valid = (ds = []), ve_diagnostics = ds,
       ve_message = (if ds = [] then None else Some (js ''Post-effect Change projection verification failed.''))\<rparr>)"

subsection \<open>Abort\<close>

text \<open>
  \<^verbatim>\<open>readAbortInput\<close>: the Inari issuer is bound to evidence that claims no issuer; a
  claim of another issuer stays for the admission to reject.
\<close>

definition bind_issuer :: "'w trusted_adapter \<Rightarrow> projection_input \<Rightarrow> projection_input" where
  "bind_issuer ad input =
     (if get_prop (get_prop (JObj input) (js ''provenance'')) (js ''issuer'') = JUndef
      then request_with_provenance input (ta_requester ad) (Some inari_issuer_principal) else input)"

definition read_abort_input ::
  "'w trusted_adapter \<Rightarrow> mutation_request \<Rightarrow> 'w \<Rightarrow> projection_input read_result settled \<times> 'w" where
  "read_abort_input ad request w =
     (case read_raw_input ad request w of
        (Inl f, w') \<Rightarrow> (Fulfilled (Read_Failed f), w')
      | (Inr input, w') \<Rightarrow> (Fulfilled (Read_Ok (bind_issuer ad input)), w'))"

definition classify_abort_projection :: "projection_result \<Rightarrow> execution_failure + abort_phase" where
  "classify_abort_projection p =
     (let retry = classify_abort_recovery p \<noteq> None in
      if (\<not> pr_valid p \<or> pr_change p = None) \<and> \<not> retry then
        Inl (exec_failure PROJECTION_VERIFICATION_FAILED
               ''A valid canonical Change projection is required before a lifecycle transition.'' (pr_diagnostics p))
      else case pr_change p of
        None \<Rightarrow>
          Inl (exec_failure PROJECTION_VERIFICATION_FAILED
                 ''A canonical Change snapshot is required before a lifecycle transition.'' (pr_diagnostics p))
      | Some c \<Rightarrow>
          if issuer (ch_provenance c) \<noteq> Some inari_issuer_principal then
            Inl (exec_failure PROJECTION_VERIFICATION_FAILED ''The canonical Change issuer provenance is not trusted.''
                   [diagnostic_of ''CHANGE_PROVENANCE_ISSUER_MISMATCH''
                      (js ''$.projection.change.provenance.issuer'')
                      ''The canonical Change issuer provenance is not trusted.''])
          else Inr (if abort_cleanup_complete p then Clean_Phase else if retry then Recovery_Phase else Normal_Phase))"

definition requester_of_execution :: "'w trusted_adapter \<Rightarrow> change \<Rightarrow> change" where
  "requester_of_execution ad c =
     (case ta_requester ad of
        None \<Rightarrow> c
      | Some r \<Rightarrow> c\<lparr>ch_provenance := (ch_provenance c)\<lparr>requester := Some r\<rparr>\<rparr>)"

definition canonical_branch_candidate :: "projection_result \<Rightarrow> jstr \<Rightarrow> branch_evidence option" where
  "canonical_branch_candidate p name =
     map_option cand_value
       (find (\<lambda>c. cand_class c = Canonical \<and> be_name (cand_value c) = name) (pr_branches p))"

text \<open>The generation of the branch that was observed: \<^verbatim>\<open>branchCandidate?.candidate.sha\<close>.\<close>

definition observed_commit :: "projection_result \<Rightarrow> jstr option \<Rightarrow> jstr option" where
  "observed_commit p branch = Option.bind (Option.bind branch (canonical_branch_candidate p)) be_sha"

definition abort_request_value :: "change_transition \<Rightarrow> change \<Rightarrow> change \<Rightarrow> jstr option \<Rightarrow> jsval" where
  "abort_request_value op c projected sha =
     JObj [(js ''version'', JNum (Integral 1)), (js ''transition'', JStr (transition_name op)),
           (js ''change'', change_value c),
           (js ''target'', JObj (opt_prop ''branch'' JStr (projected_branch projected)
              @ opt_prop ''pullRequest'' (\<lambda>n. JNum (Integral n)) (projected_pull_request projected)
              @ opt_prop ''branchCommitSha'' JStr sha))]"

text \<open>
  The planning service.  The \<^verbatim>\<open>catch\<close> of the code keeps the diagnostics of a
  \<^verbatim>\<open>ChangeTrustedExecutorError\<close> only, and the planner throws others.
\<close>

definition plan_abort ::
  "'w trusted_adapter \<Rightarrow> mutation_request \<Rightarrow> projection_result \<Rightarrow> transition_plan plan_result" where
  "plan_abort ad request p =
     (case pr_change p of
        None \<Rightarrow> Plan_Failed (exec_failure PRECONDITION_FAILED
                  ''A canonical Change snapshot is required before an abort transition.'' (pr_diagnostics p))
      | Some c \<Rightarrow>
          (case plan_change_transition (ta_lower ad) (ta_plans ad)
                  (abort_request_value (mr_operation request) (requester_of_execution ad c) c
                     (observed_commit p (projected_branch c))) of
             Inr plan \<Rightarrow> Plan_Ok plan
           | Inl e \<Rightarrow> Plan_Failed (exec_failure PRECONDITION_FAILED ''Abort transition planning failed closed.'' [])))"

definition recovery_projection :: "projection_result \<Rightarrow> change \<Rightarrow> projection_result" where
  "recovery_projection p c =
     p\<lparr>pr_valid := False, pr_status := Partial, pr_change := Some c,
       pr_diagnostics := (if pr_diagnostics p \<noteq> [] then pr_diagnostics p
         else [diagnostic_of ''CHANGE_PROJECTION_PARTIAL'' (js ''$.evidence'')
                 ''A Change effect failed and cleanup requires governed recovery.''])\<rparr>"

definition bounded_recovery_failure :: "string \<Rightarrow> execution_evidence \<Rightarrow> execution_failure" where
  "bounded_recovery_failure message evidence =
     \<lparr>xl_code = EXECUTION_RECOVERY_REQUIRED, xl_message = js message, xl_diagnostics = [],
      xl_evidence = Some evidence\<rparr>"

text \<open>
  \<^verbatim>\<open>planChangeRecovery\<close> is called with a transition and returns a plan of that kind, or
  throws (\<^const>\<open>None\<close>).
\<close>

definition recover_abort ::
  "'w trusted_adapter \<Rightarrow> mutation_request \<Rightarrow> transition_plan \<Rightarrow> effect_attempt list \<Rightarrow> effect_failure_evidence \<Rightarrow>
     projection_input \<Rightarrow> execution_failure + execution_result" where
  "recover_abort ad request plan attempts failed input =
     (let evidence = failed_closed_evidence ad (mr_operation request) attempts failed in
      case ta_transition_recovery ad plan attempts failed input of
        None \<Rightarrow>
          Inl (bounded_recovery_failure ''A failed Change transition could not produce a bounded recovery plan.'' evidence)
      | Some c \<Rightarrow>
          Inr \<lparr>xr_projection = recovery_projection (projection_for ad input) c, xr_evidence = Some evidence\<rparr>)"

definition abort_services_of :: "'w trusted_adapter \<Rightarrow> mutation_request \<Rightarrow> ('w, projection_input) abort_services" where
  "abort_services_of ad request =
     \<lparr>as_request = request,
      as_read = read_abort_input ad,
      as_apply = apply_effect ad False,
      as_failure_for_effect = (\<lambda>e. Some (failure_for e None)),
      as_recovery_read_failure = (\<lambda>q attempts failure.
        Some (bounded_recovery_failure ''A failed Change transition could not be bounded for recovery.''
                (failed_closed_evidence ad (mr_operation q) attempts failure))),
      as_project = (\<lambda>i. Some (projection_for ad i)),
      as_classify = (\<lambda>p. Some (classify_abort_projection p)),
      as_plan = (\<lambda>q p. Some (plan_abort ad q p)),
      as_recover = (\<lambda>q plan attempts failed i. Some (recover_abort ad q plan attempts failed i)),
      as_verify = (\<lambda>q i p plan. Some (verification_of (Planned_Transition plan) p)),
      as_returned_existing = (\<lambda>p.
        Some \<lparr>xr_projection = p, xr_evidence = Some (completed_evidence ad (mr_operation request) Returned_Existing [])\<rparr>),
      as_verified = (\<lambda>p attempts.
        Some \<lparr>xr_projection = p,
              xr_evidence = Some (completed_evidence ad (mr_operation request) Verified (effect_evidence_of attempts))\<rparr>)\<rparr>"

definition execute_trusted_abort ::
  "'w trusted_adapter \<Rightarrow> mutation_request \<Rightarrow> 'w \<Rightarrow> (execution_outcome_value \<times> 'w) option" where
  "execute_trusted_abort ad request w = execute_abort (abort_services_of ad request) w"

subsection \<open>What abort plans\<close>

lemma requester_of_execution_sel [simp]:
  "ch_state (requester_of_execution ad c) = ch_state c"
  "ch_projection (requester_of_execution ad c) = ch_projection c"
  "ch_identity (requester_of_execution ad c) = ch_identity c"
  by (simp_all add: requester_of_execution_def split: option.split)

text \<open>The target of an abort is the projected branch and pull request with the observed commit.\<close>

definition abort_target :: "change \<Rightarrow> jstr option \<Rightarrow> jsval" where
  "abort_target c sha = JObj (opt_prop ''branch'' JStr (projected_branch c)
     @ opt_prop ''pullRequest'' (\<lambda>n. JNum (Integral n)) (projected_pull_request c)
     @ opt_prop ''branchCommitSha'' JStr sha)"

lemma abort_target_sel [simp]:
  "is_record (abort_target c sha)"
  "has_prop (abort_target c sha) (js ''branch'') \<longleftrightarrow> projected_branch c \<noteq> None"
  "has_prop (abort_target c sha) (js ''pullRequest'') \<longleftrightarrow> projected_pull_request c \<noteq> None"
  "has_prop (abort_target c sha) (js ''branchCommitSha'') \<longleftrightarrow> sha \<noteq> None"
  "\<not> has_prop (abort_target c sha) (js ''branchPlan'')"
  "\<not> has_prop (abort_target c sha) (js ''baseBranch'')"
  "\<not> has_prop (abort_target c sha) (js ''semanticPullRequestPlan'')"
  "\<not> has_prop (abort_target c sha) (js ''semanticPullRequestMergePlan'')"
  "projected_branch c = Some b \<Longrightarrow> get_prop (abort_target c sha) (js ''branch'') = JStr b"
  "projected_pull_request c = Some n \<Longrightarrow> get_prop (abort_target c sha) (js ''pullRequest'') = JNum (Integral n)"
  "sha = Some s \<Longrightarrow> get_prop (abort_target c sha) (js ''branchCommitSha'') = JStr s"
  by (cases "projected_branch c"; cases "projected_pull_request c"; cases sha; simp add: abort_target_def)+

lemma abort_target_checks:
  "clean_run (target_checks pa (abort_target c sha) path p m) y \<longleftrightarrow>
     set (object_keys (abort_target c sha)) \<subseteq> set target_keys \<and> fst p = [] \<and> fst m = [] \<and>
     (\<exists>b n s. (if projected_branch c \<noteq> None
               then b \<noteq> None \<and> bounded_text max_change_branch_length (get_prop (abort_target c sha) (js ''branch'')) = b
               else b = None) \<and>
        (if projected_pull_request c \<noteq> None
         then n \<noteq> None \<and> positive_integer (get_prop (abort_target c sha) (js ''pullRequest'')) = n else n = None) \<and>
        (if sha \<noteq> None
         then s \<noteq> None \<and> commit_sha (get_prop (abort_target c sha) (js ''branchCommitSha'')) = s else s = None) \<and>
        y = Some \<lparr>tt_branch_plan = None, tt_branch = b, tt_base_branch = None, tt_pull_request = n,
                   tt_branch_commit_sha = s, tt_semantic_plan = snd p, tt_semantic_merge_plan = snd m\<rparr>)"
  by (cases "projected_branch c"; cases "projected_pull_request c"; cases sha;
      simp del: abort_target_sel(9-11) add: target_checks_def clean_run_bind checked; blast)

lemma abort_target_valid:
  assumes "validate_transition_target pa (abort_target c sha) path = Some (Inr t)"
  shows "tt_branch t = projected_branch c" and "tt_pull_request t = projected_pull_request c"
    and "tt_branch_commit_sha t = map_option (map ascii_lower) sha"
proof -
  from assms obtain p m where "clean_run (target_checks pa (abort_target c sha) path p m) (Some t)"
    by (auto simp: validate_transition_target_def validation_result_Inr Let_def split: if_splits option.splits prod.splits)
  note read = this [unfolded abort_target_checks]
  show "tt_branch t = projected_branch c"
    using read by (cases "projected_branch c") (auto split: if_splits)
  show "tt_pull_request t = projected_pull_request c"
    using read by (cases "projected_pull_request c") (auto split: if_splits)
  show "tt_branch_commit_sha t = map_option (map ascii_lower) sha"
    using read by (cases sha) (auto split: if_splits)
qed

lemma abort_target_not_empty: "validate_transition_target pa (abort_target c sha) path \<noteq> Some (Inl [])"
proof
  assume "validate_transition_target pa (abort_target c sha) path = Some (Inl [])"
  then obtain p m where "validation_result (target_checks pa (abort_target c sha) path p m) = Inl []"
    by (auto simp: validate_transition_target_def abort_target_def Let_def split: if_splits option.splits prod.splits)
  then show False by (simp add: validation_result_Inl_Nil abort_target_checks)
qed

lemma abort_request_value_eq:
  "abort_request_value op c projected sha =
     JObj [(js ''version'', JNum (Integral 1)), (js ''transition'', JStr (transition_name op)),
           (js ''change'', change_value c), (js ''target'', abort_target projected sha)]"
  by (simp add: abort_request_value_def abort_target_def)

lemma abort_request_read:
  assumes "validate_transition_request lc pa (abort_request_value op c projected sha) = Some (Inr q)"
  shows "tq_transition q = op" and "validate_change lc (change_value c) = Inr (tq_change q)"
    and "\<exists>t. tq_target q = Some t \<and> validate_transition_target pa (abort_target projected sha) (js ''$.target'') = Some (Inr t)"
proof -
  obtain t where t: "validate_transition_target pa (abort_target projected sha) (js ''$.target'') = Some t"
      and run: "clean_run (request_checks lc (abort_request_value op c projected sha) (Some t)) (Some q)"
    using assms
    by (auto simp: validate_transition_request_def validation_result_Inr abort_request_value_eq split: if_splits)
  note req = run [unfolded clean_request_checks]
  show "tq_transition q = op" and "validate_change lc (change_value c) = Inr (tq_change q)"
    using req by (simp_all del: normalize_change_transition.simps add: abort_request_value_eq transition_name_read)
  have "t \<noteq> Inl []" using t abort_target_not_empty by blast
  then show "\<exists>t. tq_target q = Some t \<and> validate_transition_target pa (abort_target projected sha) (js ''$.target'') = Some (Inr t)"
    using req t by (cases t) auto
qed

lemma first_defined_same [simp]: "first_defined x x = x"
  by (simp add: first_defined_def split: option.split)

lemma abort_plan_shape:
  assumes "plan_change_transition lc pa (abort_request_value OpAbort c0 c sha) = Inr p"
    and same: "ch_projection c0 = ch_projection c"
  shows "ch_state c0 = ABORTED \<and> tp_effects p = [] \<or>
    (\<exists>b s. projected_branch c = Some b \<and> sha = Some s \<and>
       (if ch_state c0 = RECOVERY_REQUIRED then tp_effects p = [DELETE_BRANCH b (Some (map ascii_lower s))]
        else \<exists>n. projected_pull_request c = Some n \<and>
               tp_effects p = [CLOSE_PULL_REQUEST n, DELETE_BRANCH b (Some (map ascii_lower s))]))"
proof -
  let ?q = "tp_request p"
  have valid: "validate_transition_request lc pa (abort_request_value OpAbort c0 c sha) = Some (Inr ?q)"
    and build: "build_transition_plan ?q = Inr p"
    using assms(1) by (simp_all add: planned)
  note read = abort_request_read [OF valid]
  obtain t where t: "tq_target ?q = Some t" and target: "validate_transition_target pa (abort_target c sha) (js ''$.target'') = Some (Inr t)"
    using read(3) by blast
  note target = abort_target_valid [OF target]
  have change: "ch_state (tq_change ?q) = ch_state c0" "projected_branch (tq_change ?q) = projected_branch c"
      "projected_pull_request (tq_change ?q) = projected_pull_request c"
    using revalidated [OF read(2)] same by (simp_all add: projected_branch_def projected_pull_request_def)
  obtain r where "validate_transition_semantics lc (tq_change ?q) (tq_transition ?q) (tq_target ?q) = Inr r"
    using valid_request(3) [OF valid] by blast
  from resolutions_agree [OF this] resolved_known(1) [OF this]
  obtain b where "rt_branch (resolved_transition_target ?q) = Some b" by auto
  then have b: "projected_branch c = Some b"
    using read(1) t target change by (simp add: resolved_transition_target_def Let_def target_or_none_def)
  have "abort_plan_effects (ch_state c0) (resolved_transition_target ?q) = Inr (tp_effects p)"
    using build_plan_Inr(5) [OF build] read(1) change by (simp add: operation_effects_def)
  moreover have "rt_branch (resolved_transition_target ?q) = Some b"
      "rt_pull_request (resolved_transition_target ?q) = projected_pull_request c"
      "rt_branch_commit_sha (resolved_transition_target ?q) = map_option (map ascii_lower) sha"
    using read(1) t target change b by (simp_all add: resolved_transition_target_def Let_def target_or_none_def)
  ultimately show ?thesis
    using b by (auto simp: abort_plan_effects_def split: if_splits option.splits)
qed

lemma observed_commit_Some:
  assumes "observed_commit p (Some b) = Some s"
  shows "\<exists>cand \<in> set (pr_branches p). cand_class cand = Canonical \<and> be_name (cand_value cand) = b \<and>
    be_sha (cand_value cand) = Some s"
  using assms by (auto simp: observed_commit_def canonical_branch_candidate_def bind_eq_Some_conv find_Some_iff)

lemma abort_classified:
  assumes "classify_abort_projection p = Inr phase"
  shows "\<exists>c. pr_change p = Some c \<and> issuer (ch_provenance c) = Some inari_issuer_principal"
    and "phase = Clean_Phase \<longleftrightarrow> abort_cleanup_complete p"
    and "phase = Recovery_Phase \<or> phase = Clean_Phase \<or> pr_valid p"
  using assms by (auto simp: classify_abort_projection_def Let_def split: option.splits if_splits)

lemma read_abort_input_Ok:
  "read_abort_input ad q w = (Fulfilled (Read_Ok i), w') \<longleftrightarrow>
     (\<exists>input. ta_read ad q w = (Inr input, w') \<and>
        i = bind_issuer ad (request_with_provenance input (ta_requester ad) None))"
  by (auto simp: read_abort_input_def read_raw_input_def split: prod.splits sum.splits option.splits)

lemma abort_services_sel [simp]:
  "as_request (abort_services_of ad q) = q"
  "as_read (abort_services_of ad q) = read_abort_input ad"
  "as_project (abort_services_of ad q) = (\<lambda>i. Some (projection_for ad i))"
  "as_classify (abort_services_of ad q) = (\<lambda>p. Some (classify_abort_projection p))"
  "as_plan (abort_services_of ad q) = (\<lambda>q p. Some (plan_abort ad q p))"
  by (simp_all add: abort_services_of_def)

text \<open>
  C23. The composition of Abort: reader, projection, admission, planner and machine.  If the trusted
  executor asks GitHub for anything at all while it aborts, then the evidence it read first projects to a
  Change of the requested Issue that Inari issued and that is not cleaned up, and what it asks for is: to
  close the pull request of that Change, and then, or only, when the Change is in recovery, to delete the
  branch of that Change at the commit that was observed on a canonical candidate of the same name.
\<close>

theorem trusted_abort_effects:
  assumes "execute_abort (record_abort (abort_services_of ad q)) (w, []) = Some (out, w', log)" and "log \<noteq> []"
    and "mr_operation q = OpAbort"
  shows "\<exists>input w1 p c b s cand. ta_read ad q w = (Inr input, w1) \<and>
    p = projection_for ad (bind_issuer ad (request_with_provenance input (ta_requester ad) None)) \<and>
    pr_change p = Some c \<and> root_issue (ch_identity c) = mr_issue q \<and>
    issuer (ch_provenance c) = Some inari_issuer_principal \<and> \<not> abort_cleanup_complete p \<and>
    (pr_valid p \<or> classify_abort_recovery p \<noteq> None) \<and>
    projected_branch c = Some b \<and> cand \<in> set (pr_branches p) \<and> cand_class cand = Canonical \<and>
    be_name (cand_value cand) = b \<and> be_sha (cand_value cand) = Some s \<and>
    (if ch_state c = RECOVERY_REQUIRED then log = [Some (DELETE_BRANCH b (Some (map ascii_lower s)))]
     else \<exists>n rest. projected_pull_request c = Some n \<and> log = Some (CLOSE_PULL_REQUEST n) # rest \<and>
            rest \<in> {[], [Some (DELETE_BRANCH b (Some (map ascii_lower s)))]})"
proof -
  have "abort_program (record_abort (abort_services_of ad q)) (w, []) = (out, w', log)"
    using assms(1) by (simp add: execute_abort_eq)
  from abort_program_log [OF this assms(2)] obtain input w1 p phase plan k where
    read: "ta_read ad q w = (Inr input, w1)"
    and p: "p = projection_for ad (bind_issuer ad (request_with_provenance input (ta_requester ad) None))"
    and issue: "projection_root_issue p = Some (mr_issue q)"
    and phase: "classify_abort_projection p = Inr phase" "phase \<noteq> Clean_Phase"
    and plan: "plan_abort ad q p = Plan_Ok plan" and log: "log = map abort_effect (take k (tp_effects plan))"
    by (auto simp: read_abort_input_Ok)
  obtain c where c: "pr_change p = Some c" "issuer (ch_provenance c) = Some inari_issuer_principal"
    using abort_classified(1) [OF phase(1)] by blast
  have retry: "pr_valid p \<or> classify_abort_recovery p \<noteq> None"
    using phase(1) by (auto simp: classify_abort_projection_def Let_def split: if_splits)
  have "plan_change_transition (ta_lower ad) (ta_plans ad)
      (abort_request_value OpAbort (requester_of_execution ad c) c (observed_commit p (projected_branch c))) = Inr plan"
    using plan c assms(3) by (auto simp: plan_abort_def split: sum.splits)
  from abort_plan_shape [OF this] log assms(2) obtain b s where
    b: "projected_branch c = Some b" "observed_commit p (Some b) = Some s"
    and effects: "if ch_state c = RECOVERY_REQUIRED then tp_effects plan = [DELETE_BRANCH b (Some (map ascii_lower s))]
        else \<exists>n. projected_pull_request c = Some n \<and>
               tp_effects plan = [CLOSE_PULL_REQUEST n, DELETE_BRANCH b (Some (map ascii_lower s))]"
    by auto
  obtain k' where "k = Suc k'" using log assms(2) by (cases k) auto
  with log effects have shape: "if ch_state c = RECOVERY_REQUIRED then log = [Some (DELETE_BRANCH b (Some (map ascii_lower s)))]
      else \<exists>n rest. projected_pull_request c = Some n \<and> log = Some (CLOSE_PULL_REQUEST n) # rest \<and>
            rest \<in> {[], [Some (DELETE_BRANCH b (Some (map ascii_lower s)))]}"
    by (cases k') (auto simp: abort_effect_def split: if_splits)
  obtain cand where cand: "cand \<in> set (pr_branches p)" "cand_class cand = Canonical" "be_name (cand_value cand) = b"
      "be_sha (cand_value cand) = Some s"
    using observed_commit_Some [OF b(2)] by blast
  have root: "root_issue (ch_identity c) = mr_issue q" using issue c(1) by (simp add: projection_root_issue_def)
  have unclean: "\<not> abort_cleanup_complete p" using abort_classified(2) [OF phase(1)] phase(2) by simp
  show ?thesis
    by (intro exI conjI)
      (rule read, rule p, rule c, rule root, rule c, rule unclean, rule retry, rule b, rule cand, rule cand, rule cand,
       rule cand, rule shape)
qed

text \<open>A repository with the branch of Issue 7, left over without a pull request.\<close>

definition sample_commit :: jstr where "sample_commit = replicate 40 48"

definition sample_branch :: jsval where
  "sample_branch = JObj [(js ''name'', JStr (js ''feat/7-x'')), (js ''sha'', JStr sample_commit),
     (js ''rootIssue'', JNum (Integral 7))]"

definition sample_read_branch :: branch_evidence where
  "sample_read_branch = \<lparr>be_name = js ''feat/7-x'', be_sha = Some sample_commit, be_root_issue = Some 7\<rparr>"

definition sample_evidence :: projection_input where
  "sample_evidence =
     (case sample_projection_input [sample_branch] [] of JObj kvs \<Rightarrow> kvs | _ \<Rightarrow> [])"

definition sample_adapter :: "nat trusted_adapter" where
  "sample_adapter =
     \<lparr>ta_lower = (\<lambda>s. s), ta_plans = sample_plans, ta_requester = Some (js ''user:ann''),
      ta_read = (\<lambda>q w. (Inr sample_evidence, w)), ta_apply = (\<lambda>e w. (Inr None, Suc w)),
      ta_transition_recovery = (\<lambda>plan attempts f i. None)\<rparr>"

definition sample_abort_request :: mutation_request where
  "sample_abort_request = (sample_request OpAbort)\<lparr>mr_issue := 7\<rparr>"

lemma sample_adapter_sel [simp]:
  "ta_lower sample_adapter = (\<lambda>s. s)" "ta_plans sample_adapter = sample_plans"
  "ta_requester sample_adapter = Some (js ''user:ann'')"
  "ta_read sample_adapter q w = (Inr sample_evidence, w)"
  "ta_apply sample_adapter e w = (Inr None, Suc w)"
  "mr_operation sample_abort_request = OpAbort" "mr_issue sample_abort_request = 7"
  by (simp_all add: sample_adapter_def sample_abort_request_def sample_request_def)

definition sample_bound :: projection_input where
  "sample_bound = bind_issuer sample_adapter (request_with_provenance sample_evidence (Some (js ''user:ann'')) None)"

definition sample_provenance :: change_provenance where
  "sample_provenance = no_provenance\<lparr>requester := Some (js ''user:ann''), issuer := Some inari_issuer_principal\<rparr>"

lemma sample_bound_eq:
  "JObj sample_bound =
     JObj (sample_evidence @ [(js ''provenance'', provenance_value sample_provenance)])"
  by (simp add: sample_bound_def bind_issuer_def sample_evidence_def sample_projection_input_def 
      request_with_provenance_def set_role_def provenance_entries_def provenance_value_def sample_provenance_def
      no_provenance_def inari_issuer_principal_def)

lemma sample_commit_read [simp]: "commit_sha (JStr sample_commit) = Some sample_commit" "map ascii_lower sample_commit = sample_commit"
  by (simp_all add: sample_commit_def list_all_iff hex_unit_def is_digit_def ascii_lower_def is_upper_def)

lemma sample_branch_read: "clean_run (parse_branch_evidence sample_branch path) (Some sample_read_branch)"
  by (simp del: bounded_text.simps commit_sha.simps add: parse_branch_evidence_def clean_run_bind checked sample_branch_def
      sample_read_branch_def max_safe_integer_def)

lemma sample_provenance_valid:
  "validate_change_provenance (provenance_value sample_provenance) path = Inr sample_provenance"
  by (rule wf_provenance_validates)
    (simp add: wf_principal_def sample_provenance_def no_provenance_def inari_issuer_principal_def js_eval
      max_change_principal_length_def control_unit_def is_white_space_def)

lemma sample_bound_front:
  "run_checks (projection_front (\<lambda>s. s) sample_authority (JObj sample_bound)) =
    ((Some sample_identity, sample_provenance,
      (Some (js ''feat/7-x''), Some (js ''feat/7-x''), Some (js ''main'')),
      Some (get_prop (sample_projection_input [sample_branch] []) (js ''evidence''))), [])"
  using wf_identity_validates [OF wf_sample_identity, of "\<lambda>s. s" "js ''$.change''"] sample_provenance_valid
  by (simp add: clean_run_checks projection_front_def clean_run_bind checked sample_bound_eq sample_evidence_def
      sample_projection_input_def projection_input_keys_def projected_identity_def projected_provenance_def
      canonical_branches_def consumed_branch_plan_def sample_authority_def base_mismatch_if_def evidence_object_def Let_def)

lemma sample_bound_reads:
  "run_checks (evidence_reads (get_prop (sample_projection_input [sample_branch] []) (js ''evidence''))) =
    ((Read_Available (7, Open_State), Read_Available [sample_read_branch], Read_Available []), [])"
proof -
  have "clean_run (parse_branch_list (JArr [sample_branch]) path) (Some [sample_read_branch])" for path
    by (auto simp: parse_branch_list_def max_projection_candidates_def checked sample_branch_read clean_run_bind
        List.map_filter_def intro!: exI [of _ "[Some sample_read_branch]"])
  then have "clean_run (read_evidence_source (available (JArr [sample_branch])) path parse_branch_list)
      (Read_Available [sample_read_branch])" for path
    by (auto simp: available_def checked intro: exI [of _ "Some [sample_read_branch]"])
  then show ?thesis
    by (simp add: clean_run_checks evidence_reads_def clean_run_bind checked sample_projection_input_def)
      (simp add: available_def parse_issue_evidence_def parse_pull_request_list_def max_projection_candidates_def
        max_safe_integer_def clean_run_bind checked)
qed

definition sample_leftover :: change where
  "sample_leftover = projected_change sample_identity sample_provenance RECOVERY_REQUIRED (Some (js ''feat/7-x'')) None"

definition sample_candidate :: "branch_evidence candidate" where
  "sample_candidate = \<lparr>cand_value = sample_read_branch, cand_class = Canonical,
     cand_reason = js ''Branch matches the derived canonical identity.''\<rparr>"

lemma sample_leftover_facts:
  "evidence_facts 7 (Some (js ''feat/7-x'')) (js ''feat/7-x'') (js ''main'') (Read_Available (7, Open_State))
     [sample_read_branch] [] =
   \<lparr>pf_issue_known = True, pf_issue_absent = False, pf_ambiguous_anchor = False, pf_branches = [sample_candidate],
    pf_candidates = [], pf_canonical_branches = [sample_candidate], pf_canonical_pulls = [],
    pf_duplicate_number = False, pf_wrong_base = False, pf_conflicting = False, pf_plausible = 0\<rparr>"
  by (simp add: evidence_facts_def ambiguous_anchors_def anchored_names_def set_add_all_def set_add_def classify_branch_def
      branch_occurrences_def sample_read_branch_def sample_candidate_def Let_def)

lemma sample_leftover_projection:
  "projection_for sample_adapter sample_bound =
     project_facts sample_identity sample_provenance (js ''feat/7-x'') (js ''main'') []
       (evidence_facts 7 (Some (js ''feat/7-x'')) (js ''feat/7-x'') (js ''main'') (Read_Available (7, Open_State))
          [sample_read_branch] [])"
proof -
  have "root_issue sample_identity = 7" by (simp add: sample_identity_def)
  then show ?thesis
    by (simp add: projection_for_def project_change_def sample_plans_def sample_bound_front
        sample_bound_reads source_list_def project_evidence_def canonical_branch_of_def issue_mismatch_def Let_def)
qed

lemma sample_leftover_sel:
  "pr_change (projection_for sample_adapter sample_bound) = Some sample_leftover"
  "pr_status (projection_for sample_adapter sample_bound) = Partial"
  "\<not> pr_valid (projection_for sample_adapter sample_bound)"
  "pr_branches (projection_for sample_adapter sample_bound) = [sample_candidate]"
  "pr_pull_requests (projection_for sample_adapter sample_bound) = []"
  "pr_canonical_branch (projection_for sample_adapter sample_bound) = Some (js ''feat/7-x'')"
  by (simp_all add: sample_leftover_projection sample_leftover_facts project_facts_def decide_status_def aborted_pull_def
      Let_def sample_leftover_def merge_provenance_def)

lemma sample_leftover_admitted:
  "abort_admit (abort_services_of sample_adapter sample_abort_request) sample_bound = Inr plan \<longleftrightarrow>
     plan_abort sample_adapter sample_abort_request (projection_for sample_adapter sample_bound) = Plan_Ok plan"
proof -
  have "classify_abort_projection (projection_for sample_adapter sample_bound) = Inr Recovery_Phase"
    by (simp add: classify_abort_projection_def classify_abort_recovery_def sample_leftover_sel abort_cleanup_complete_def
        sample_candidate_def sample_read_branch_def sample_leftover_def projected_change_def sample_provenance_def
        no_provenance_def)
  moreover have "root_issue (ch_identity sample_leftover) = 7"
    by (simp add: sample_leftover_def sample_identity_def)
  ultimately show ?thesis
    by (simp add: abort_admit_def abort_project_checked_def projection_root_issue_def sample_leftover_sel
        split: plan_result.split)
qed

lemma wf_sample_leftover: "wf_change sample_leftover"
  using wf_sample_identity
  by (simp add: wf_change_def sample_leftover_def projected_change_def wf_principal_def sample_provenance_def
      no_provenance_def inari_issuer_principal_def js_eval max_change_principal_length_def control_unit_def
      is_white_space_def max_change_branch_length_def)

definition leftover_target :: transition_target where
  "leftover_target = no_target\<lparr>tt_branch := Some (js ''feat/7-x''), tt_branch_commit_sha := Some sample_commit\<rparr>"

lemma leftover_target_valid:
  "validate_transition_target sample_plans (abort_target sample_leftover (Some sample_commit)) path =
     Some (Inr leftover_target)"
proof -
  let ?v = "abort_target sample_leftover (Some sample_commit)"
  have "clean_run (target_checks sample_plans ?v path ([], None) ([], None)) (Some leftover_target)"
    by (simp del: bounded_text.simps commit_sha.simps add: abort_target_checks sample_leftover_def leftover_target_def no_target_def)
      (simp add: abort_target_def target_keys_def)
  then show ?thesis
    by (simp del: abort_target_sel(9-11) add: validate_transition_target_def plan_property_def Let_def
        validation_result_Inr clean_run_checks [symmetric])
qed

lemma leftover_plan:
  "\<exists>plan. plan_abort sample_adapter sample_abort_request (projection_for sample_adapter sample_bound) = Plan_Ok plan"
proof -
  let ?c = sample_leftover
  let ?q = "\<lparr>tq_transition = OpAbort, tq_change = ?c, tq_target = Some leftover_target\<rparr>"
  have edge: "lifecycle_edge RECOVERY_REQUIRED OpAbort ABORTED" by (simp add: lifecycle_edge.intros)
  have "\<exists>r. validate_transition_semantics lc ?c OpAbort (Some leftover_target) = Inr r" for lc
    using edge by (auto simp: valid_semantics clean_progress_checks target_or_none_def leftover_target_def no_target_def
        same_defined_value_def first_defined_def sample_leftover_def Let_def)
  then have "validate_transition_request (\<lambda>s. s) sample_plans (abort_request_value OpAbort ?c ?c (Some sample_commit)) = Some (Inr ?q)"
    by (simp del: normalize_change_transition.simps transition_name.simps add: validate_transition_request_def abort_request_value_eq
        validation_result_Inr clean_request_checks request_keys_def transition_name_read leftover_target_valid
        wf_change_validates [OF wf_sample_leftover])
  moreover have "\<exists>plan. build_transition_plan ?q = Inr plan"
    using edge by (simp add: build_plan_eq [where to = ABORTED] operation_effects_def abort_plan_effects_def
        resolved_transition_target_def Let_def target_or_none_def leftover_target_def no_target_def sample_leftover_def)
  moreover have "requester_of_execution sample_adapter ?c = ?c"
    by (simp add: requester_of_execution_def sample_leftover_def projected_change_def
        sample_provenance_def no_provenance_def)
  moreover have "observed_commit (projection_for sample_adapter sample_bound) (projected_branch ?c) = Some sample_commit"
    by (simp add: observed_commit_def canonical_branch_candidate_def sample_leftover_sel sample_candidate_def
        sample_read_branch_def sample_leftover_def)
  ultimately show ?thesis
    by (auto simp: plan_abort_def sample_leftover_sel plan_change_transition_def
       )
qed

lemma sample_abort_logs:
  assumes "execute_abort (record_abort (abort_services_of sample_adapter sample_abort_request)) (w, []) = Some (out, w', log)"
  shows "log \<noteq> []"
proof -
  let ?sv = "abort_services_of sample_adapter sample_abort_request"
  have read: "read_abort_input sample_adapter sample_abort_request w = (Fulfilled (Read_Ok sample_bound), w)"
    by (simp add: read_abort_input_Ok) (simp add: sample_bound_def)
  obtain plan where plan: "plan_abort sample_adapter sample_abort_request (projection_for sample_adapter sample_bound) = Plan_Ok plan"
    using leftover_plan by blast
  then have admit: "abort_admit ?sv sample_bound = Inr plan" by (simp only: sample_leftover_admitted)
  from plan have "plan_change_transition (\<lambda>s. s) sample_plans (abort_request_value OpAbort
      (requester_of_execution sample_adapter sample_leftover) sample_leftover
      (observed_commit (projection_for sample_adapter sample_bound) (projected_branch sample_leftover))) = Inr plan"
    by (auto simp: plan_abort_def sample_leftover_sel 
        split: sum.splits)
  from abort_plan_shape [OF this] obtain b s where effects: "tp_effects plan = [DELETE_BRANCH b (Some s)]"
    by (auto simp: sample_leftover_def split: if_splits)
  have "abort_effects (record_abort ?sv) (tp_effects plan) [] (w, []) =
      (Some ([attempt_of Succeeded (DELETE_BRANCH b (Some s))], None), Suc w, [Some (DELETE_BRANCH b (Some s))])"
    by (simp add: effects abort_effect_def record_abort_read)
      (simp add: abort_services_of_def apply_effect_def)
  moreover have "abort_execute_plan (record_abort ?sv) plan (w, []) = (out, w', log)"
    using assms read admit by (simp add: execute_abort_eq abort_program_def record_abort_read)
  ultimately show ?thesis using abort_log_after_loop by fastforce
qed

theorem trusted_abort_effects_witness:
  "\<exists>out w' log b s. execute_abort (record_abort (abort_services_of sample_adapter sample_abort_request)) (0, []) =
     Some (out, w', log) \<and> log = [Some (DELETE_BRANCH b (Some s))]"
proof -
  obtain out w' log where run:
    "execute_abort (record_abort (abort_services_of sample_adapter sample_abort_request)) (0, []) = Some (out, w', log)"
    by (cases "abort_program (record_abort (abort_services_of sample_adapter sample_abort_request)) (0, [])")
      (simp add: execute_abort_eq)
  from trusted_abort_effects [OF run sample_abort_logs [OF run] sample_adapter_sel(6)] obtain input w1 p c b s where
    "ta_read sample_adapter sample_abort_request 0 = (Inr input, w1)"
    "p = projection_for sample_adapter (bind_issuer sample_adapter
       (request_with_provenance input (ta_requester sample_adapter) None))" "pr_change p = Some c"
    "if ch_state c = RECOVERY_REQUIRED then log = [Some (DELETE_BRANCH b (Some (map ascii_lower s)))]
     else \<exists>n rest. projected_pull_request c = Some n \<and> log = Some (CLOSE_PULL_REQUEST n) # rest \<and>
            rest \<in> {[], [Some (DELETE_BRANCH b (Some (map ascii_lower s)))]}"
    by blast
  moreover from this(1-3) have "c = sample_leftover"
    using sample_leftover_sel(1) by (simp add: sample_bound_def)
  ultimately have "log = [Some (DELETE_BRANCH b (Some (map ascii_lower s)))]" by (simp add: sample_leftover_def)
  with run show ?thesis by blast
qed

end
