(* ===== verification/Dependency_Cycles.thy ===== *)
theory Dependency_Cycles
  imports Prelude
begin

text \<open>
  \<^verbatim>\<open>dependencyCycles\<close> of \<^verbatim>\<open>src/src/implementation-frontier.ts\<close>: the
  three-colour depth-first search that marks members of dependency cycles.  The keys are of any type, the
  candidates' graph is the map from the key of a candidate to the keys it depends on.  The recursion of the
  code is bounded by fuel here; one unit more than there are candidates always suffices.
\<close>

subsection \<open>The search\<close>

text \<open>Colours 1 and 2 of the code; a key without an entry has colour 0.\<close>

datatype visit_color = Visiting | Visited

record 'k cycle_search =
  cs_colors :: "'k \<rightharpoonup> visit_color"
  cs_cycle :: "'k list"

fun fold_option :: "('a \<Rightarrow> 's \<Rightarrow> 's option) \<Rightarrow> 'a list \<Rightarrow> 's \<Rightarrow> 's option" where
  "fold_option f [] s = Some s"
| "fold_option f (x # xs) s = (case f x s of None \<Rightarrow> None | Some s' \<Rightarrow> fold_option f xs s')"

text \<open>The part of the stack from the key on, with the key again: what the code concatenates.\<close>

definition cycle_members :: "'k list \<Rightarrow> 'k \<Rightarrow> 'k list" where
  "cycle_members stack key = (if key \<in> set stack then dropWhile (\<lambda>k. k \<noteq> key) stack else stack) @ [key]"

definition set_color :: "'k \<Rightarrow> visit_color \<Rightarrow> 'k cycle_search \<Rightarrow> 'k cycle_search" where
  "set_color key c st = st\<lparr>cs_colors := (cs_colors st)(key \<mapsto> c)\<rparr>"

primrec visit :: "('k \<rightharpoonup> 'k list) \<Rightarrow> nat \<Rightarrow> 'k \<Rightarrow> 'k list \<Rightarrow> 'k cycle_search \<Rightarrow> 'k cycle_search option" where
  "visit g 0 key stack st = None"
| "visit g (Suc n) key stack st =
     (case cs_colors st key of
        Some Visited \<Rightarrow> Some st
      | Some Visiting \<Rightarrow> Some (st\<lparr>cs_cycle := set_add_all (cycle_members stack key) (cs_cycle st)\<rparr>)
      | None \<Rightarrow>
          map_option (set_color key Visited)
            (fold_option (\<lambda>d st. if g d \<noteq> None then visit g n d (stack @ [key]) st else Some st)
               (case g key of None \<Rightarrow> [] | Some ds \<Rightarrow> ds) (set_color key Visiting st)))"

definition dependency_cycles :: "('k \<rightharpoonup> 'k list) \<Rightarrow> nat \<Rightarrow> 'k list \<Rightarrow> 'k list option" where
  "dependency_cycles g n keys =
     map_option cs_cycle
       (fold_option (\<lambda>k st. visit g n k [] st) keys \<lparr>cs_colors = Map.empty, cs_cycle = []\<rparr>)"

subsection \<open>The graph\<close>

definition depends :: "('k \<rightharpoonup> 'k list) \<Rightarrow> ('k \<times> 'k) set" where
  "depends g = {(a, b). \<exists>ds. g a = Some ds \<and> b \<in> set ds \<and> g b \<noteq> None}"

lemma depends_iff: "(a, b) \<in> depends g \<longleftrightarrow> (\<exists>ds. g a = Some ds \<and> b \<in> set ds \<and> g b \<noteq> None)"
  by (simp add: depends_def)

lemma path_reach:
  assumes "successively (\<lambda>a b. (a, b) \<in> r) (x # xs)" and "y \<in> set xs"
  shows "(x, y) \<in> r\<^sup>+"
  using assms
proof (induction xs arbitrary: x)
  case (Cons z zs)
  then have "(x, z) \<in> r" and "y = z \<or> (z, y) \<in> r\<^sup>+" by auto
  then show ?case by (auto intro: trancl_into_trancl2)
qed simp

lemma path_last:
  assumes "successively (\<lambda>a b. (a, b) \<in> r) (xs @ [y])" and "x \<in> set xs"
  shows "(x, y) \<in> r\<^sup>+"
proof -
  obtain us vs where "xs = us @ x # vs" using assms(2) by (meson split_list)
  then show ?thesis
    using assms(1) path_reach [of r x "vs @ [y]" y] by (auto simp: successively_append_iff)
qed

text \<open>Everything on the stack from a key on that the top of the stack leads back to is on a cycle.\<close>

lemma cycle_members_on_cycle:
  assumes path: "successively (\<lambda>a b. (a, b) \<in> r) stack" and top: "stack \<noteq> []" "(last stack, key) \<in> r"
    and on: "key \<in> set stack" and x: "x \<in> set (cycle_members stack key)"
  shows "(x, x) \<in> r\<^sup>+"
proof -
  define rest where "rest = tl (dropWhile (\<lambda>k. k \<noteq> key) stack)"
  have drop: "dropWhile (\<lambda>k. k \<noteq> key) stack = key # rest"
    using on hd_dropWhile [of "\<lambda>k. k \<noteq> key" stack] unfolding rest_def
    by (metis (mono_tags) dropWhile_eq_Nil_conv list.collapse)
  have stack: "stack = takeWhile (\<lambda>k. k \<noteq> key) stack @ key # rest"
    using takeWhile_dropWhile_id [of "\<lambda>k. k \<noteq> key" stack] drop by simp
  have "successively (\<lambda>a b. (a, b) \<in> r) (key # rest)"
    using path stack by (metis successively_append_iff)
  moreover have "last stack = last (key # rest)"
    using stack by (metis last_appendR list.discI)
  ultimately have path': "successively (\<lambda>a b. (a, b) \<in> r) ((key # rest) @ [key])"
    using top by (simp add: successively_append_iff del: append_Cons)
  have "key \<in> set ((key # rest) @ [key])" by simp
  then have key: "(key, key) \<in> r\<^sup>+" using path_reach [of r key "rest @ [key]" key] path' by simp
  from x have "x = key \<or> x \<in> set rest" by (auto simp: cycle_members_def on drop)
  then show ?thesis
  proof
    assume "x \<in> set rest"
    then have "(key, x) \<in> r\<^sup>+" and "(x, key) \<in> r\<^sup>+"
      using path_reach [of r key "rest @ [key]" x] path_last [OF path', of x] path' by auto
    then show ?thesis by (meson trancl_trans)
  qed (simp add: key)
qed

lemma last_in_cycle_members:
  assumes "stack \<noteq> []"
  shows "last stack \<in> set (cycle_members stack key)"
proof (cases "key \<in> set stack")
  case True
  then have "dropWhile (\<lambda>k. k \<noteq> key) stack \<noteq> []" by (simp add: dropWhile_eq_Nil_conv)
  then have "last stack = last (dropWhile (\<lambda>k. k \<noteq> key) stack)"
    by (metis last_appendR takeWhile_dropWhile_id)
  then show ?thesis
    using True \<open>dropWhile _ stack \<noteq> []\<close> by (simp add: cycle_members_def)
qed (simp add: cycle_members_def assms)

subsection \<open>What the search keeps\<close>

text \<open>
  What has been visited is ranked: a dependency of a visited key is a pair of marked keys, or leads to a
  visited key of a lower rank (its visit ended earlier).
\<close>

definition edge_ranked :: "('k \<Rightarrow> nat) \<Rightarrow> 'k cycle_search \<Rightarrow> 'k \<Rightarrow> 'k \<Rightarrow> bool" where
  "edge_ranked rank st a b \<longleftrightarrow>
     {a, b} \<subseteq> set (cs_cycle st) \<or> cs_colors st b = Some Visited \<and> rank b < rank a"

definition ranked :: "('k \<rightharpoonup> 'k list) \<Rightarrow> ('k \<Rightarrow> nat) \<Rightarrow> 'k cycle_search \<Rightarrow> bool" where
  "ranked g rank st \<longleftrightarrow>
     (\<forall>a b. (a, b) \<in> depends g \<longrightarrow> cs_colors st a = Some Visited \<longrightarrow> edge_ranked rank st a b)"

definition search_ok :: "('k \<rightharpoonup> 'k list) \<Rightarrow> 'k list \<Rightarrow> 'k cycle_search \<Rightarrow> bool" where
  "search_ok g stack st \<longleftrightarrow>
     {k. cs_colors st k = Some Visiting} = set stack \<and> distinct stack \<and> set stack \<subseteq> dom g \<and>
     successively (\<lambda>a b. (a, b) \<in> depends g) stack \<and>
     (\<forall>x \<in> set (cs_cycle st). (x, x) \<in> (depends g)\<^sup>+) \<and>
     (\<exists>rank. ranked g rank st)"

definition progress :: "'k cycle_search \<Rightarrow> 'k cycle_search \<Rightarrow> bool" where
  "progress st st' \<longleftrightarrow>
     (\<forall>k. cs_colors st k = Some Visited \<longrightarrow> cs_colors st' k = Some Visited) \<and>
     set (cs_cycle st) \<subseteq> set (cs_cycle st')"

lemma progress_refl [simp]: "progress st st"
  by (simp add: progress_def)

lemma progress_trans: "progress st st' \<Longrightarrow> progress st' st'' \<Longrightarrow> progress st st''"
  by (auto simp: progress_def)

text \<open>A key is settled: its visit is over, or it closed a cycle with the key it was reached from.\<close>

definition settled_from :: "'k list \<Rightarrow> 'k \<Rightarrow> 'k cycle_search \<Rightarrow> bool" where
  "settled_from stack key st \<longleftrightarrow>
     cs_colors st key = Some Visited \<or> stack \<noteq> [] \<and> {last stack, key} \<subseteq> set (cs_cycle st)"

lemma settled_progress: "settled_from stack key st \<Longrightarrow> progress st st' \<Longrightarrow> settled_from stack key st'"
  by (auto simp: settled_from_def progress_def)

lemma fold_option_total:
  assumes "\<And>x s. x \<in> set xs \<Longrightarrow> I s \<Longrightarrow> \<exists>s'. f x s = Some s' \<and> I s' \<and> R s s' \<and> Q x s'"
    and refl: "\<And>s. R s s" and trans: "\<And>s s' s''. R s s' \<Longrightarrow> R s' s'' \<Longrightarrow> R s s''"
    and keep: "\<And>x s s'. Q x s \<Longrightarrow> R s s' \<Longrightarrow> Q x s'" and "I s"
  shows "\<exists>s'. fold_option f xs s = Some s' \<and> I s' \<and> R s s' \<and> (\<forall>x \<in> set xs. Q x s')"
  using assms(1,5)
proof (induction xs arbitrary: s)
  case (Cons x xs)
  obtain s1 where s1: "f x s = Some s1" "I s1" "R s s1" "Q x s1" using Cons.prems by fastforce
  obtain s2 where "fold_option f xs s1 = Some s2" "I s2" "R s1 s2" "\<forall>y \<in> set xs. Q y s2"
    using Cons.IH [OF Cons.prems(1) s1(2)] by auto
  with s1 trans keep show ?case by auto
qed (simp add: refl)

lemma search_open:
  assumes "search_ok g stack st" and "cs_colors st key = None" and "g key \<noteq> None"
    and "stack \<noteq> [] \<Longrightarrow> (last stack, key) \<in> depends g"
  shows "search_ok g (stack @ [key]) (set_color key Visiting st)" and "progress st (set_color key Visiting st)"
    and "key \<notin> set stack"
proof -
  have gray: "{k. cs_colors st k = Some Visiting} = set stack" using assms(1) by (simp add: search_ok_def)
  then show new: "key \<notin> set stack" using assms(2) by (metis mem_Collect_eq option.distinct(1))
  obtain rank where rank: "ranked g rank st" using assms(1) by (auto simp: search_ok_def)
  have "{k. cs_colors (set_color key Visiting st) k = Some Visiting} = set (stack @ [key])"
    using gray by (auto simp: set_color_def)
  moreover have "ranked g rank (set_color key Visiting st)"
    using rank assms(2) by (fastforce simp: ranked_def edge_ranked_def set_color_def split: if_splits)
  ultimately show "search_ok g (stack @ [key]) (set_color key Visiting st)"
    using assms new by (auto simp: search_ok_def successively_append_iff set_color_def)
  show "progress st (set_color key Visiting st)"
    using assms(2) by (auto simp: progress_def set_color_def)
qed

lemma search_close:
  assumes ok: "search_ok g (stack @ [key]) st" and deps: "g key = Some ds"
    and settled: "\<forall>d \<in> set ds. g d \<noteq> None \<longrightarrow> settled_from (stack @ [key]) d st"
  shows "search_ok g stack (set_color key Visited st)" and "progress st (set_color key Visited st)"
proof -
  have gray: "{k. cs_colors st k = Some Visiting} = insert key (set stack)" and new: "key \<notin> set stack"
    using ok by (auto simp: search_ok_def)
  have open_key: "cs_colors st key = Some Visiting" using gray by auto
  obtain rank where rank: "ranked g rank st" using ok by (auto simp: search_ok_def)
  let ?rank = "rank(key := Suc (Max (rank ` set ds)))"
  have "edge_ranked ?rank (set_color key Visited st) a b"
    if edge: "(a, b) \<in> depends g" and visited: "cs_colors (set_color key Visited st) a = Some Visited" for a b
  proof (cases "a = key")
    case True
    then have b: "b \<in> set ds" "g b \<noteq> None" using edge deps by (auto simp: depends_iff)
    then have "b = key \<or> rank b < ?rank key" by (simp add: le_imp_less_Suc)
    moreover have "settled_from (stack @ [key]) b st" using settled b by blast
    ultimately show ?thesis using True open_key by (auto simp: settled_from_def set_color_def edge_ranked_def)
  next
    case False
    then have "edge_ranked rank st a b" using rank edge visited by (simp add: set_color_def ranked_def)
    then show ?thesis using False open_key by (auto simp: set_color_def edge_ranked_def)
  qed
  then have "ranked g ?rank (set_color key Visited st)" by (simp add: ranked_def)
  moreover have "{k. cs_colors (set_color key Visited st) k = Some Visiting} = set stack"
    using gray new by (auto simp: set_color_def)
  moreover have "distinct stack" "set stack \<subseteq> dom g" "successively (\<lambda>a b. (a, b) \<in> depends g) stack"
      "\<forall>x \<in> set (cs_cycle st). (x, x) \<in> (depends g)\<^sup>+"
    using ok by (auto simp: search_ok_def successively_append_iff)
  ultimately show "search_ok g stack (set_color key Visited st)"
    unfolding search_ok_def set_color_def by (simp, blast)
  show "progress st (set_color key Visited st)" by (auto simp: progress_def set_color_def)
qed

lemma search_mark:
  assumes "search_ok g stack st" and "\<And>x. x \<in> set ms \<Longrightarrow> (x, x) \<in> (depends g)\<^sup>+"
  shows "search_ok g stack (st\<lparr>cs_cycle := set_add_all ms (cs_cycle st)\<rparr>)"
proof -
  obtain rank where "ranked g rank st" using assms(1) by (auto simp: search_ok_def)
  then have "ranked g rank (st\<lparr>cs_cycle := set_add_all ms (cs_cycle st)\<rparr>)"
    by (fastforce simp: ranked_def edge_ranked_def)
  then show ?thesis using assms by (auto simp: search_ok_def)
qed

lemma visit_total:
  assumes "finite (dom g)"
  shows "search_ok g stack st \<Longrightarrow> g key \<noteq> None \<Longrightarrow> (stack \<noteq> [] \<Longrightarrow> (last stack, key) \<in> depends g) \<Longrightarrow>
    card (dom g - set stack) < n \<Longrightarrow>
    \<exists>st'. visit g n key stack st = Some st' \<and> search_ok g stack st' \<and> progress st st' \<and> settled_from stack key st'"
proof (induction n arbitrary: key stack st)
  case (Suc n)
  note ok = Suc.prems(1)
  show ?case
  proof (cases "cs_colors st key")
    case None
    obtain ds where ds: "g key = Some ds" using Suc.prems(2) by auto
    note start = search_open [OF ok None Suc.prems(2,3)]
    have new: "key \<in> dom g - set stack" using ds start(3) by auto
    have "dom g - set (stack @ [key]) = (dom g - set stack) - {key}" by auto
    then have "card (dom g - set (stack @ [key])) < card (dom g - set stack)"
      using card_Diff1_less [OF _ new] assms by simp
    then have room: "card (dom g - set (stack @ [key])) < n"
      using Suc.prems(4) by linarith
    let ?f = "\<lambda>d st. if g d \<noteq> None then visit g n d (stack @ [key]) st else Some st"
    have "\<exists>st'. ?f d s = Some st' \<and> search_ok g (stack @ [key]) st' \<and> progress s st' \<and>
        (g d \<noteq> None \<longrightarrow> settled_from (stack @ [key]) d st')"
      if "d \<in> set ds" and "search_ok g (stack @ [key]) s" for d s
      using Suc.IH [OF that(2) _ _ room, of d] that ds by (auto simp: depends_iff)
    then have "\<exists>s'. fold_option ?f ds (set_color key Visiting st) = Some s' \<and> search_ok g (stack @ [key]) s' \<and>
        progress (set_color key Visiting st) s' \<and> (\<forall>d \<in> set ds. g d \<noteq> None \<longrightarrow> settled_from (stack @ [key]) d s')"
      by (rule fold_option_total) (auto intro: progress_trans settled_progress start(1))
    then obtain s' where s': "fold_option ?f ds (set_color key Visiting st) = Some s'" "search_ok g (stack @ [key]) s'"
        "progress (set_color key Visiting st) s'" "\<forall>d \<in> set ds. g d \<noteq> None \<longrightarrow> settled_from (stack @ [key]) d s'"
      by blast
    note close = search_close [OF s'(2) ds s'(4)]
    have "settled_from stack key (set_color key Visited s')" by (simp add: settled_from_def set_color_def)
    then show ?thesis
      using close s'(1) ds None progress_trans [OF start(2) progress_trans [OF s'(3) close(2)]] by simp
  next
    case (Some c)
    show ?thesis
    proof (cases c)
      case Visiting
      have on: "key \<in> set stack" using Some Visiting ok by (auto simp: search_ok_def)
      then have "stack \<noteq> []" by auto
      with Suc.prems(3) have top: "stack \<noteq> []" "(last stack, key) \<in> depends g" by blast+
      let ?st = "st\<lparr>cs_cycle := set_add_all (cycle_members stack key) (cs_cycle st)\<rparr>"
      have path: "successively (\<lambda>a b. (a, b) \<in> depends g) stack" using ok by (simp add: search_ok_def)
      have "search_ok g stack ?st"
        by (rule search_mark [OF ok]) (rule cycle_members_on_cycle [OF path top on])
      moreover have "last stack \<in> set (cycle_members stack key)"
        using top(1) by (rule last_in_cycle_members)
      ultimately show ?thesis
        using Some Visiting top by (auto simp: progress_def settled_from_def cycle_members_def)
    qed (use Some ok in \<open>simp add: settled_from_def\<close>)
  qed
qed simp

subsection \<open>What the search finds\<close>

lemma dependency_cycles_total:
  fixes g :: "'k \<rightharpoonup> 'k list"
  assumes "finite (dom g)" and "set keys \<subseteq> dom g" and "card (dom g) < n"
  shows "\<exists>ks (rank :: 'k \<Rightarrow> nat). dependency_cycles g n keys = Some ks \<and> (\<forall>k \<in> set ks. (k, k) \<in> (depends g)\<^sup>+) \<and>
    (\<forall>a b. a \<in> set keys \<longrightarrow> (a, b) \<in> depends g \<longrightarrow> {a, b} \<subseteq> set ks \<or> rank b < rank a)"
proof -
  let ?st = "\<lparr>cs_colors = Map.empty, cs_cycle = []\<rparr> :: 'k cycle_search"
  have start: "search_ok g [] ?st" by (simp add: search_ok_def ranked_def)
  have "\<exists>st'. visit g n k [] s = Some st' \<and> search_ok g [] st' \<and> progress s st' \<and> settled_from [] k st'"
    if "k \<in> set keys" "search_ok g [] s" for k s
    using visit_total [OF assms(1) that(2), of k n] that assms(2,3) by auto
  then have "\<exists>st'. fold_option (\<lambda>k st. visit g n k [] st) keys ?st = Some st' \<and> search_ok g [] st' \<and> progress ?st st' \<and>
      (\<forall>k \<in> set keys. settled_from [] k st')"
    by (rule fold_option_total) (auto intro: progress_trans settled_progress start)
  then obtain st' where st': "fold_option (\<lambda>k st. visit g n k [] st) keys ?st = Some st'" "search_ok g [] st'"
      "\<forall>k \<in> set keys. settled_from [] k st'"
    by blast
  obtain rank where "ranked g rank st'" using st'(2) by (auto simp: search_ok_def)
  with st' show ?thesis
    by (intro exI [of _ "cs_cycle st'"] exI [of _ rank])
      (auto simp: dependency_cycles_def search_ok_def ranked_def edge_ranked_def settled_from_def)
qed

text \<open>
  The search misses members of cycles: here \<open>2\<close> and \<open>3\<close> are on the cycle through \<open>0\<close>, \<open>2\<close>,
  \<open>3\<close> and \<open>1\<close>, but they are reached when \<open>1\<close> has been visited.
\<close>

definition braided_graph :: "nat \<rightharpoonup> nat list" where
  "braided_graph = [0 \<mapsto> [1, 2], 1 \<mapsto> [0], 2 \<mapsto> [3], 3 \<mapsto> [1]]"

lemma cycle_members_missed:
  "dependency_cycles braided_graph 5 [0, 1, 2, 3] = Some [0, 1]" "(2, 2) \<in> (depends braided_graph)\<^sup>+"
proof -
  show "dependency_cycles braided_graph 5 [0, 1, 2, 3] = Some [0, 1]" by code_simp
  have "(2, 3) \<in> depends braided_graph" "(3, 1) \<in> depends braided_graph" "(1, 0) \<in> depends braided_graph"
      "(0, 2) \<in> depends braided_graph"
    by (simp_all add: depends_iff braided_graph_def)
  then show "(2, 2) \<in> (depends braided_graph)\<^sup>+" by (meson r_into_trancl trancl_trans)
qed

end
