(* ===== verification/Frontier_Evidence.thy ===== *)
theory Frontier_Evidence
  imports Change_Contract "HOL-Library.Sorting_Algorithms"
begin

text \<open>
  The evidence the frontier of implementation work is projected from, after
  \<^verbatim>\<open>src/src/implementation-frontier.ts\<close>: its diagnostics, Issue references, the
  lifecycle evidence of Issues, the evidence of an Implementation and of its Change.  The validators of other
  components are a record of parameters; \<^verbatim>\<open>localeCompare\<close> is a comparator, that is, a
  total preorder on strings.
\<close>

subsection \<open>Diagnostics\<close>

record frontier_diagnostic =
  fd_code :: jstr
  fd_path :: jstr
  fd_message :: jstr
  fd_expected :: "jsval option"
  fd_actual :: "jsval option"

definition max_frontier_candidates :: nat where "max_frontier_candidates = 1000"
definition max_frontier_dependencies :: nat where "max_frontier_dependencies = 1000"
definition max_frontier_diagnostics :: nat where "max_frontier_diagnostics = 100"
definition max_frontier_message_length :: nat where "max_frontier_message_length = 500"

type_synonym 'a noted = "(frontier_diagnostic list, 'a) state"

text \<open>Runs of white space become one blank, and the ends are trimmed.\<close>

fun squeeze_spaces :: "jstr \<Rightarrow> jstr" where
  "squeeze_spaces [] = []"
| "squeeze_spaces [c] = (if is_white_space c then [32] else [c])"
| "squeeze_spaces (c # d # s) =
     (if is_white_space c \<and> is_white_space d then squeeze_spaces (d # s)
      else (if is_white_space c then 32 else c) # squeeze_spaces (d # s))"

definition trim_spaces :: "jstr \<Rightarrow> jstr" where
  "trim_spaces s = rev (dropWhile is_white_space (rev (dropWhile is_white_space s)))"

definition bounded_message :: "jstr \<Rightarrow> jstr" where
  "bounded_message message =
     (let s = trim_spaces (squeeze_spaces message) in
      if max_frontier_message_length < length s then take max_frontier_message_length s @ [8230] else s)"

definition remark_values :: "string \<Rightarrow> jstr \<Rightarrow> jstr \<Rightarrow> jsval option \<Rightarrow> jsval option \<Rightarrow> unit noted" where
  "remark_values code path message expected actual =
     State (\<lambda>ds. ((), if max_frontier_diagnostics \<le> length ds then ds
                     else ds @ [\<lparr>fd_code = js code, fd_path = path, fd_message = bounded_message message,
                                 fd_expected = expected, fd_actual = actual\<rparr>]))"

definition remark :: "string \<Rightarrow> jstr \<Rightarrow> string \<Rightarrow> unit noted" where
  "remark code path message = remark_values code path (js message) None None"

definition remark_if :: "bool \<Rightarrow> string \<Rightarrow> jstr \<Rightarrow> string \<Rightarrow> unit noted" where
  "remark_if b code path message = (if b then remark code path message else State_Monad.return ())"

fun unknown_remarks :: "jstr list \<Rightarrow> jstr list \<Rightarrow> jstr \<Rightarrow> unit noted" where
  "unknown_remarks [] allowed path = State_Monad.return ()"
| "unknown_remarks (k # ks) allowed path = do {
     (if k \<in> set allowed then State_Monad.return ()
      else remark_values ''FRONTIER_INPUT_UNKNOWN_PROPERTY'' (sub_path path k)
             (js ''Property \"'' @ k @ js ''\" is not supported by the Implementation Frontier projection.'') None None);
     unknown_remarks ks allowed path
   }"

definition unknown_properties :: "jsval \<Rightarrow> jstr list \<Rightarrow> jstr \<Rightarrow> unit noted" where
  "unknown_properties v allowed path = unknown_remarks (sort_strings (object_keys v)) allowed path"

text \<open>Order by path, then by code.\<close>

definition diagnostic_order :: "jstr comparator \<Rightarrow> frontier_diagnostic comparator" where
  "diagnostic_order loc = key (\<lambda>d. (fd_path d, fd_code d)) (prod_lex loc loc)"

definition sort_diagnostics :: "jstr comparator \<Rightarrow> frontier_diagnostic list \<Rightarrow> frontier_diagnostic list" where
  "sort_diagnostics loc ds = Sorting_Algorithms.sort (diagnostic_order loc) ds"

subsection \<open>References\<close>

text \<open>The lower-casing of non-ASCII text and the comparison of strings in the locale of the code.\<close>

record locale_functions =
  lf_lower :: "jstr \<Rightarrow> jstr"
  lf_compare :: "jstr comparator"

definition reference_key :: "locale_functions \<Rightarrow> issue_reference \<Rightarrow> jstr" where
  "reference_key lf r = issue_reference_key (lf_lower lf) r"

definition sort_references :: "locale_functions \<Rightarrow> issue_reference list \<Rightarrow> issue_reference list" where
  "sort_references lf rs = Sorting_Algorithms.sort (key (reference_key lf) (lf_compare lf)) rs"

definition same_reference :: "locale_functions \<Rightarrow> issue_reference \<Rightarrow> issue_reference \<Rightarrow> bool" where
  "same_reference lf a b \<longleftrightarrow> reference_key lf a = reference_key lf b"

definition read_reference :: "locale_functions \<Rightarrow> jsval \<Rightarrow> jstr \<Rightarrow> issue_reference option" where
  "read_reference lf v path =
     (case normalize_issue_reference (lf_lower lf) v path of Inl vs \<Rightarrow> None | Inr r \<Rightarrow> Some r)"

fun reference_items ::
  "locale_functions \<Rightarrow> jstr \<Rightarrow> nat \<Rightarrow> jsval list \<Rightarrow> jstr list \<Rightarrow> issue_reference list noted" where
  "reference_items lf path i [] seen = State_Monad.return []"
| "reference_items lf path i (v # vs) seen =
     (case read_reference lf v (item_path path i) of
        None \<Rightarrow> do {
          remark ''FRONTIER_REFERENCE_INVALID'' (item_path path i) ''Dependency reference is invalid.'';
          reference_items lf path (Suc i) vs seen
        }
      | Some r \<Rightarrow>
          if reference_key lf r \<in> set seen then do {
            remark ''FRONTIER_CONTRADICTORY_EVIDENCE'' (item_path path i) ''Dependency references must be unique.'';
            reference_items lf path (Suc i) vs seen
          }
          else do {
            rs \<leftarrow> reference_items lf path (Suc i) vs (reference_key lf r # seen);
            State_Monad.return (r # rs)
          })"

definition normalize_references :: "locale_functions \<Rightarrow> jsval \<Rightarrow> jstr \<Rightarrow> issue_reference list noted" where
  "normalize_references lf v path =
     (case v of
        JArr vs \<Rightarrow>
          if max_frontier_dependencies < length vs then do {
            remark ''FRONTIER_SEMANTIC_EVIDENCE_INVALID'' path ''Dependencies exceed the bounded limit.'';
            State_Monad.return []
          }
          else do {
            rs \<leftarrow> reference_items lf path 0 vs [];
            State_Monad.return (sort_references lf rs)
          }
      | _ \<Rightarrow> do {
          remark ''FRONTIER_SEMANTIC_EVIDENCE_INVALID'' path ''Dependencies must be an array.'';
          State_Monad.return []
        })"

definition normalize_reference :: "locale_functions \<Rightarrow> jsval \<Rightarrow> jstr \<Rightarrow> issue_reference option noted" where
  "normalize_reference lf v path = do {
     remark_if (read_reference lf v path = None) ''FRONTIER_REFERENCE_INVALID'' path ''Issue reference is invalid.'';
     State_Monad.return (read_reference lf v path)
   }"

text \<open>\<^verbatim>\<open>new Map(entries)\<close>: the last value of a key wins.\<close>

definition reference_map :: "locale_functions \<Rightarrow> ('a \<Rightarrow> issue_reference) \<Rightarrow> 'a list \<Rightarrow> jstr \<rightharpoonup> 'a" where
  "reference_map lf f xs = map_of (rev (map (\<lambda>x. (reference_key lf (f x), x)) xs))"

text \<open>\<^verbatim>\<open>map.set(key, value)\<close> on the values of a map in insertion order: replacing keeps the place.\<close>

fun keyed_set :: "('a \<Rightarrow> 'k) \<Rightarrow> 'a \<Rightarrow> 'a list \<Rightarrow> 'a list" where
  "keyed_set f x [] = [x]"
| "keyed_set f x (y # ys) = (if f y = f x then x # ys else y # keyed_set f x ys)"

definition union_references ::
  "locale_functions \<Rightarrow> issue_reference list \<Rightarrow> issue_reference list \<Rightarrow> issue_reference list" where
  "union_references lf xs ys = sort_references lf (fold (keyed_set (reference_key lf)) (xs @ ys) [])"

subsection \<open>Lifecycle evidence of an Issue\<close>

text \<open>The state is true when the Issue is open.\<close>

datatype dependency_evidence = Dependencies_Present | Dependencies_Empty | Dependencies_Unavailable

record lifecycle_issue =
  li_reference :: issue_reference
  li_depends_on :: "issue_reference list"
  li_evidence :: dependency_evidence
  li_open :: "bool option"
  li_invalid :: bool

definition dependency_evidence_value :: "jsval \<Rightarrow> dependency_evidence option" where
  "dependency_evidence_value v =
     (if v = JStr (js ''present'') then Some Dependencies_Present
      else if v = JStr (js ''empty'') then Some Dependencies_Empty
      else if v = JStr (js ''unavailable'') then Some Dependencies_Unavailable
      else None)"

definition open_value :: "jsval \<Rightarrow> bool option" where
  "open_value v =
     (if v = JStr (js ''open'') then Some True else if v = JStr (js ''closed'') then Some False else None)"

definition normalize_state :: "jsval \<Rightarrow> jstr \<Rightarrow> bool option noted" where
  "normalize_state v path = do {
     remark_if (v \<noteq> JUndef \<and> open_value v = None) ''FRONTIER_INPUT_INVALID'' path
       ''Observed Issue state must be open or closed.'';
     State_Monad.return (open_value v)
   }"

definition foreign_remark :: "jstr \<Rightarrow> jstr \<Rightarrow> unit noted" where
  "foreign_remark path message = remark_values ''FRONTIER_SEMANTIC_EVIDENCE_INVALID'' path message None None"

fun array_of :: "jsval \<Rightarrow> jsval list option" where
  "array_of (JArr vs) = Some vs"
| "array_of _ = None"

text \<open>The state of a leaf Issue that its completion tells, when no state was observed.\<close>

definition inferred_state :: "jsval \<Rightarrow> bool option \<Rightarrow> bool option" where
  "inferred_state v observed =
     (case observed of
        Some b \<Rightarrow> Some b
      | None \<Rightarrow>
          (let status = get_prop (get_prop v (js ''completion'')) (js ''status'') in
           if get_prop v (js ''role'') = JStr (js ''leaf'') \<and> status = JStr (js ''complete'') then Some False
           else if get_prop v (js ''role'') = JStr (js ''leaf'') \<and> status = JStr (js ''in-progress'') then Some True
           else None))"

definition issue_dependencies ::
  "locale_functions \<Rightarrow> jsval \<Rightarrow> jstr \<Rightarrow> bool option \<Rightarrow> issue_reference \<Rightarrow> lifecycle_issue noted" where
  "issue_dependencies lf v path observed r = do {
     let evidence = dependency_evidence_value (get_prop v (js ''dependsOnEvidence''));
     (if evidence = None
      then foreign_remark (sub_path path (js ''dependsOnEvidence'')) (js ''Semantic dependency evidence is invalid.'')
      else State_Monad.return ());
     deps \<leftarrow> normalize_references lf (get_prop v (js ''dependsOn'')) (sub_path path (js ''dependsOn''));
     let drift = array_of (get_prop v (js ''drift''));
     (if drift = None
      then foreign_remark (sub_path path (js ''drift'')) (js ''Semantic lifecycle drift evidence is unavailable.'')
      else State_Monad.return ());
     State_Monad.return
       \<lparr>li_reference = r, li_depends_on = deps,
        li_evidence = (case evidence of None \<Rightarrow> Dependencies_Unavailable | Some e \<Rightarrow> e),
        li_open = inferred_state v observed,
        li_invalid = (drift \<noteq> None \<and> drift \<noteq> Some []) \<or> evidence = None\<rparr>
   }"

definition lifecycle_issue_from_projection ::
  "locale_functions \<Rightarrow> jsval \<Rightarrow> jstr \<Rightarrow> bool option \<Rightarrow> lifecycle_issue option noted" where
  "lifecycle_issue_from_projection lf v path observed =
     (if \<not> is_record v then do {
        foreign_remark path (js ''Semantic Issue lifecycle evidence must be an object.'');
        State_Monad.return None
      }
      else do {
        r \<leftarrow> normalize_reference lf (get_prop v (js ''reference'')) (sub_path path (js ''reference''));
        (case r of
           None \<Rightarrow> State_Monad.return None
         | Some r \<Rightarrow> do {
             i \<leftarrow> issue_dependencies lf v path observed r;
             State_Monad.return (Some i)
           })
      })"

subsection \<open>Lifecycle evidence of a batch\<close>

record contract_view =
  cv_host :: jstr
  cv_repository_id :: jstr
  cv_repository :: "jstr option"
  cv_repository_value :: jsval
  cv_dependencies :: "issue_reference list"

text \<open>An inspected authorization: its flags, and the body digest and base revision it binds.\<close>

record authorization_view =
  av_authorized :: bool
  av_current :: bool
  av_status_authorized :: bool
  av_binds :: "(jstr \<times> jstr) option"

record execution_view =
  xv_implementation :: issue_reference
  xv_binds :: "jstr \<times> jstr"

text \<open>
  The functions of other components: the projection of raw Issues (the first argument is true for a complete
  scope; the result is the projection and the paths and messages of its diagnostics), the validators of
  contracts, execution evidence and Change projections, the inspection of an authorization for an Issue, and
  whether conformance evidence is valid and conformant.
\<close>

record frontier_authorities =
  fa_lifecycle :: "bool \<Rightarrow> jsval list \<Rightarrow> jsval option \<times> (jstr \<times> jstr) list"
  fa_contract :: "jsval \<Rightarrow> contract_view option"
  fa_authorization :: "jsval \<Rightarrow> issue_reference \<Rightarrow> authorization_view"
  fa_conformance :: "jsval \<Rightarrow> bool"
  fa_execution :: "jsval \<Rightarrow> execution_view option"
  fa_change :: "jsval \<Rightarrow> projection_result option"

record lifecycle_evidence =
  le_complete :: bool
  le_issues :: "lifecycle_issue list"

definition no_lifecycle :: lifecycle_evidence where
  "no_lifecycle = \<lparr>le_complete = False, le_issues = []\<rparr>"

definition issue_key :: "locale_functions \<Rightarrow> lifecycle_issue \<Rightarrow> jstr" where
  "issue_key lf i = reference_key lf (li_reference i)"

definition find_issue :: "locale_functions \<Rightarrow> lifecycle_issue list \<Rightarrow> jstr \<Rightarrow> lifecycle_issue option" where
  "find_issue lf is k = find (\<lambda>i. issue_key lf i = k) is"

fun lifecycle_items ::
  "locale_functions \<Rightarrow> jstr \<Rightarrow> nat \<Rightarrow> jsval list \<Rightarrow> lifecycle_issue list \<Rightarrow> lifecycle_issue list noted" where
  "lifecycle_items lf path n [] is = State_Monad.return is"
| "lifecycle_items lf path n (v # vs) is = do {
     i \<leftarrow> lifecycle_issue_from_projection lf v (item_path path n) None;
     (case i of
        None \<Rightarrow> lifecycle_items lf path (Suc n) vs is
      | Some i \<Rightarrow> do {
          remark_if (find_issue lf is (issue_key lf i) \<noteq> None) ''FRONTIER_CANDIDATE_DUPLICATE''
            (sub_path (item_path path n) (js ''reference'')) ''Semantic lifecycle Issue references must be unique.'';
          lifecycle_items lf path (Suc n) vs (if find_issue lf is (issue_key lf i) = None then is @ [i] else is)
        })
   }"

definition scope_value :: "jsval \<Rightarrow> bool option" where
  "scope_value v =
     (if v = JStr (js ''complete'') then Some True
      else if v = JStr (js ''unavailable'') then Some False else None)"

definition lifecycle_from_output :: "locale_functions \<Rightarrow> jsval \<Rightarrow> jstr \<Rightarrow> lifecycle_evidence option noted" where
  "lifecycle_from_output lf v path =
     (if \<not> is_record v then do {
        foreign_remark path (js ''Semantic Issue lifecycle projection must be an object.'');
        State_Monad.return None
      }
      else case (array_of (get_prop v (js ''issues'')), scope_value (get_prop v (js ''scope''))) of
        (Some vs, scope) \<Rightarrow>
          if get_prop v (js ''version'') \<noteq> JStr (js ''1'') \<or> get_prop v (js ''kind'') \<noteq> JStr (js ''issue-lifecycle'')
          then do {
            foreign_remark path (js ''Semantic Issue lifecycle projection version or shape is invalid.'');
            State_Monad.return None
          }
          else (case scope of
            None \<Rightarrow> do {
              foreign_remark (sub_path path (js ''scope'')) (js ''Semantic Issue lifecycle scope is invalid.'');
              State_Monad.return None
            }
          | Some b \<Rightarrow> do {
              is \<leftarrow> lifecycle_items lf (sub_path path (js ''issues'')) 0 vs [];
              State_Monad.return (Some \<lparr>le_complete = b, le_issues = is\<rparr>)
            })
      | (None, _) \<Rightarrow> do {
          foreign_remark path (js ''Semantic Issue lifecycle projection version or shape is invalid.'');
          State_Monad.return None
        })"

fun foreign_remarks :: "(jstr \<times> jstr) list \<Rightarrow> unit noted" where
  "foreign_remarks [] = State_Monad.return ()"
| "foreign_remarks ((path, message) # ds) = do { foreign_remark path message; foreign_remarks ds }"

text \<open>The observed state of each raw Issue; the last one of a reference wins.\<close>

definition raw_state :: "locale_functions \<Rightarrow> jsval \<Rightarrow> (jstr \<times> bool) list" where
  "raw_state lf v =
     (case (read_reference lf (get_prop v (js ''reference'')) (js ''$''),
            open_value (get_prop (get_prop v (js ''observed'')) (js ''state''))) of
        (Some r, Some b) \<Rightarrow> [(reference_key lf r, b)]
      | _ \<Rightarrow> [])"

definition observe_states :: "locale_functions \<Rightarrow> jsval list \<Rightarrow> lifecycle_issue list \<Rightarrow> lifecycle_issue list" where
  "observe_states lf vs is =
     map (\<lambda>i. case map_of (rev (concat (map (raw_state lf) vs))) (issue_key lf i) of
                None \<Rightarrow> i
              | Some b \<Rightarrow> i\<lparr>li_open := Some b\<rparr>) is"

definition lifecycle_from_raw ::
  "locale_functions \<Rightarrow> frontier_authorities \<Rightarrow> jsval \<Rightarrow> bool \<Rightarrow> jstr \<Rightarrow> lifecycle_evidence option noted" where
  "lifecycle_from_raw lf fa v scope path =
     (case array_of v of
        None \<Rightarrow> do {
          foreign_remark path (js ''Semantic Issue lifecycle input must contain an Issue array.'');
          State_Monad.return None
        }
      | Some vs \<Rightarrow> do {
          foreign_remarks (snd (fa_lifecycle fa scope vs));
          (case fst (fa_lifecycle fa scope vs) of
             None \<Rightarrow> State_Monad.return None
           | Some projection \<Rightarrow> do {
               e \<leftarrow> lifecycle_from_output lf projection path;
               State_Monad.return (map_option (\<lambda>e. e\<lparr>le_issues := observe_states lf vs (le_issues e)\<rparr>) e)
             })
        })"

text \<open>\<^verbatim>\<open>a ?? b\<close>.\<close>

definition coalesce :: "jsval \<Rightarrow> jsval \<Rightarrow> jsval" where
  "coalesce a b = (if a = JUndef \<or> a = JNull then b else a)"

definition local_issue_value :: "jsval \<Rightarrow> jsval" where
  "local_issue_value c =
     coalesce (get_prop c (js ''lifecycle'')) (coalesce (get_prop c (js ''issue'')) (get_prop c (js ''semantic'')))"

definition batch_lifecycle ::
  "locale_functions \<Rightarrow> frontier_authorities \<Rightarrow> jsval \<Rightarrow> bool \<Rightarrow> jstr \<Rightarrow> lifecycle_evidence noted" where
  "batch_lifecycle lf fa v scope path = do {
     e \<leftarrow> (if is_record v \<and> get_prop v (js ''kind'') = JStr (js ''issue-lifecycle'')
           then lifecycle_from_output lf v path else lifecycle_from_raw lf fa v scope path);
     State_Monad.return (case e of None \<Rightarrow> no_lifecycle | Some e \<Rightarrow> e)
   }"

definition candidate_path :: "nat \<Rightarrow> jstr" where
  "candidate_path n = item_path (js ''$.candidates'') n"

definition candidate_issue ::
  "locale_functions \<Rightarrow> frontier_authorities \<Rightarrow> bool \<Rightarrow> nat \<Rightarrow> jsval \<Rightarrow> jsval \<Rightarrow> lifecycle_issue option noted" where
  "candidate_issue lf fa scope n c v =
     (if is_record v \<and> has_prop v (js ''observed'') then do {
        e \<leftarrow> lifecycle_from_raw lf fa (JArr [v]) scope (sub_path (candidate_path n) (js ''issue''));
        State_Monad.return (case map_option le_issues e of Some (i # is) \<Rightarrow> Some i | _ \<Rightarrow> None)
      }
      else do {
        observed \<leftarrow> normalize_state (get_prop c (js ''state'')) (sub_path (candidate_path n) (js ''state''));
        lifecycle_issue_from_projection lf v (sub_path (candidate_path n) (js ''issue'')) observed
      })"

fun candidate_issues ::
  "locale_functions \<Rightarrow> frontier_authorities \<Rightarrow> bool \<Rightarrow> nat \<Rightarrow> jsval list \<Rightarrow> lifecycle_issue list \<Rightarrow>
     lifecycle_issue list noted" where
  "candidate_issues lf fa scope n [] is = State_Monad.return is"
| "candidate_issues lf fa scope n (c # cs) is =
     (if local_issue_value c = JUndef then candidate_issues lf fa scope (Suc n) cs is
      else do {
        i \<leftarrow> candidate_issue lf fa scope n c (local_issue_value c);
        candidate_issues lf fa scope (Suc n) cs (case i of None \<Rightarrow> is | Some i \<Rightarrow> keyed_set (issue_key lf) i is)
      })"

definition normalize_lifecycle ::
  "locale_functions \<Rightarrow> frontier_authorities \<Rightarrow> jsval \<Rightarrow> jsval list \<Rightarrow> lifecycle_evidence noted" where
  "normalize_lifecycle lf fa v candidates =
     (let scope = (get_prop v (js ''scope'') \<noteq> JStr (js ''unavailable'')) in
      if get_prop v (js ''lifecycle'') \<noteq> JUndef
      then batch_lifecycle lf fa (get_prop v (js ''lifecycle'')) scope (js ''$.lifecycle'')
      else if get_prop v (js ''issues'') \<noteq> JUndef
      then batch_lifecycle lf fa (get_prop v (js ''issues'')) scope (js ''$.issues'')
      else do {
        is \<leftarrow> candidate_issues lf fa scope 0 candidates [];
        State_Monad.return \<lparr>le_complete = scope, le_issues = is\<rparr>
      })"

subsection \<open>Evidence of an Implementation\<close>

record implementation_evidence =
  ie_contract :: "contract_view option"
  ie_satisfied :: bool
  ie_active :: bool
  ie_invalid :: bool

definition implementation_keys :: "jstr list" where
  "implementation_keys = [js ''contract'', js ''authorization'', js ''conformance'', js ''executionEvidence'']"

definition reference_value :: "issue_reference \<Rightarrow> jsval" where
  "reference_value r =
     JObj ([(js ''repositoryHost'', JStr (ir_host r)), (js ''repositoryId'', JStr (ir_repository_id r))]
       @ (case ir_repository r of None \<Rightarrow> [] | Some s \<Rightarrow> [(js ''repository'', JStr s)])
       @ [(js ''number'', JNum (Integral (ir_number r)))])"

definition same_repository :: "contract_view \<Rightarrow> issue_reference \<Rightarrow> bool" where
  "same_repository c r \<longleftrightarrow>
     cv_host c = ir_host r \<and> cv_repository_id c = ir_repository_id r \<and>
     (cv_repository c = None \<or> ir_repository r = None \<or> cv_repository c = ir_repository r)"

text \<open>An Issue that evidence names is another one than the candidate; what cannot be read counts as the candidate.\<close>

definition other_issue :: "locale_functions \<Rightarrow> jsval \<Rightarrow> issue_reference \<Rightarrow> bool" where
  "other_issue lf v r \<longleftrightarrow>
     v \<noteq> JUndef \<and> (case read_reference lf v (js ''$'') of None \<Rightarrow> False | Some s \<Rightarrow> \<not> same_reference lf s r)"

definition contract_evidence ::
  "frontier_authorities \<Rightarrow> jsval \<Rightarrow> jstr \<Rightarrow> issue_reference \<Rightarrow> contract_view option noted" where
  "contract_evidence fa v path r =
     (if v = JUndef then State_Monad.return None
      else case fa_contract fa v of
        None \<Rightarrow> do {
          remark ''FRONTIER_IMPLEMENTATION_INVALID'' path ''Implementation contract is invalid.'';
          State_Monad.return None
        }
      | Some c \<Rightarrow> do {
          (if same_repository c r then State_Monad.return ()
           else remark_values ''FRONTIER_CONTRADICTORY_EVIDENCE'' (sub_path path (js ''repository''))
                  (js ''Implementation contract repository does not match the frontier candidate repository.'')
                  (Some (reference_value r)) (Some (cv_repository_value c)));
          State_Monad.return (Some c)
        })"

definition authorization_evidence ::
  "locale_functions \<Rightarrow> frontier_authorities \<Rightarrow> jsval \<Rightarrow> jstr \<Rightarrow> issue_reference \<Rightarrow> authorization_view option noted" where
  "authorization_evidence lf fa v path r =
     (if v = JUndef then State_Monad.return None
      else if \<not> is_record v \<or> get_prop v (js ''authorization'') = JUndef then do {
        remark ''FRONTIER_AUTHORIZATION_INVALID'' path
          ''Authorization evidence must include a canonical authorization record.'';
        State_Monad.return None
      }
      else do {
        (if other_issue lf (get_prop v (js ''implementation'')) r
         then remark_values ''FRONTIER_CONTRADICTORY_EVIDENCE'' (sub_path path (js ''implementation''))
                (js ''Authorization targets a different Issue than the frontier candidate.'')
                (Some (reference_value r)) (Some (get_prop v (js ''implementation'')))
         else State_Monad.return ());
        let a = fa_authorization fa v r;
        remark_if (\<not> av_authorized a \<or> \<not> av_current a) ''FRONTIER_AUTHORIZATION_INVALID'' path
          ''Authorization is not currently valid.'';
        State_Monad.return (Some a)
      })"

text \<open>The result is whether there is valid, conformant evidence.\<close>

definition conformance_evidence ::
  "locale_functions \<Rightarrow> frontier_authorities \<Rightarrow> jsval \<Rightarrow> jstr \<Rightarrow> issue_reference \<Rightarrow> bool noted" where
  "conformance_evidence lf fa v path r =
     (if v = JUndef then State_Monad.return False
      else if \<not> is_record v \<or> get_prop v (js ''authorization'') = JUndef then do {
        remark ''FRONTIER_CONFORMANCE_INVALID'' path
          ''Conformance evidence must include a canonical authorization record.'';
        State_Monad.return False
      }
      else do {
        let supplied = get_prop (get_prop v (js ''issue'')) (js ''reference'');
        (if other_issue lf supplied r
         then remark_values ''FRONTIER_CONTRADICTORY_EVIDENCE'' (path @ js ''.issue.reference'')
                (js ''Conformance targets a different Issue than the frontier candidate.'')
                (Some (reference_value r)) (Some supplied)
         else State_Monad.return ());
        remark_if (\<not> fa_conformance fa v) ''FRONTIER_CONFORMANCE_INVALID'' path
          ''Conformance evidence does not prove completed work.'';
        State_Monad.return (fa_conformance fa v)
      })"

definition binds_other :: "authorization_view option \<Rightarrow> execution_view \<Rightarrow> bool" where
  "binds_other a x \<longleftrightarrow>
     (case Option.bind a av_binds of None \<Rightarrow> False | Some b \<Rightarrow> b \<noteq> xv_binds x)"

definition execution_evidence_check ::
  "locale_functions \<Rightarrow> frontier_authorities \<Rightarrow> jsval \<Rightarrow> jstr \<Rightarrow> issue_reference \<Rightarrow> authorization_view option \<Rightarrow>
     execution_view option noted" where
  "execution_evidence_check lf fa v path r a =
     (if v = JUndef then State_Monad.return None
      else case fa_execution fa v of
        None \<Rightarrow> do {
          remark ''FRONTIER_EXECUTION_EVIDENCE_INVALID'' path ''Execution evidence is invalid.'';
          State_Monad.return None
        }
      | Some x \<Rightarrow>
          if \<not> same_reference lf (xv_implementation x) r then do {
            remark ''FRONTIER_CONTRADICTORY_EVIDENCE'' (sub_path path (js ''implementation''))
              ''Execution evidence targets a different Issue than the frontier candidate.'';
            State_Monad.return None
          }
          else if binds_other a x then do {
            remark ''FRONTIER_CONTRADICTORY_EVIDENCE'' path
              ''Execution evidence does not bind to the current authorization.'';
            State_Monad.return None
          }
          else State_Monad.return (Some x))"

text \<open>A value with none of the evidence properties is a contract by itself.\<close>

definition implementation_input :: "jsval \<Rightarrow> jsval" where
  "implementation_input v =
     (if is_record v \<and> list_ex (has_prop v) implementation_keys then v else JObj [(js ''contract'', v)])"

definition implementation_checks ::
  "locale_functions \<Rightarrow> frontier_authorities \<Rightarrow> jsval \<Rightarrow> jstr \<Rightarrow> issue_reference \<Rightarrow> implementation_evidence noted" where
  "implementation_checks lf fa v path r = do {
     unknown_properties (implementation_input v) implementation_keys path;
     let part = (\<lambda>key. get_prop (implementation_input v) (js key));
     c \<leftarrow> contract_evidence fa (part ''contract'') (sub_path path (js ''contract'')) r;
     a \<leftarrow> authorization_evidence lf fa (part ''authorization'') (sub_path path (js ''authorization'')) r;
     conformant \<leftarrow> conformance_evidence lf fa (part ''conformance'') (sub_path path (js ''conformance'')) r;
     x \<leftarrow> execution_evidence_check lf fa (part ''executionEvidence'') (sub_path path (js ''executionEvidence'')) r a;
     remark_if (conformant \<and> x = None) ''FRONTIER_EXECUTION_EVIDENCE_INVALID'' (sub_path path (js ''executionEvidence''))
       ''Conformant work is not terminal until exact execution evidence is present.'';
     State_Monad.return
       \<lparr>ie_contract = c, ie_satisfied = (conformant \<and> x \<noteq> None),
        ie_active = (\<not> (conformant \<and> x \<noteq> None) \<and>
          (case a of None \<Rightarrow> False | Some a \<Rightarrow> av_authorized a \<and> av_current a \<and> av_status_authorized a)),
        ie_invalid = False\<rparr>
   }"

definition push_all :: "frontier_diagnostic list \<Rightarrow> unit noted" where
  "push_all new = State (\<lambda>ds. ((), ds @ new))"

definition normalize_implementation ::
  "locale_functions \<Rightarrow> frontier_authorities \<Rightarrow> jsval \<Rightarrow> jstr \<Rightarrow> issue_reference \<Rightarrow> implementation_evidence noted" where
  "normalize_implementation lf fa v path r =
     (if v = JUndef
      then State_Monad.return \<lparr>ie_contract = None, ie_satisfied = False, ie_active = False, ie_invalid = False\<rparr>
      else (case run_state (implementation_checks lf fa v path r) [] of
        (e, local) \<Rightarrow> do { push_all local; State_Monad.return (e\<lparr>ie_invalid := local \<noteq> []\<rparr>) }))"

subsection \<open>Evidence of a Change\<close>

record change_evidence =
  ce_satisfied :: bool
  ce_active :: bool
  ce_invalid :: bool

definition change_evidence_of :: "bool \<Rightarrow> bool \<Rightarrow> change_evidence" where
  "change_evidence_of satisfied active = \<lparr>ce_satisfied = satisfied, ce_active = active, ce_invalid = False\<rparr>"

definition change_reference :: "change \<Rightarrow> issue_reference" where
  "change_reference c =
     \<lparr>ir_host = repository_host (ch_identity c), ir_repository_id = repository_id (ch_identity c),
      ir_repository = None, ir_number = root_issue (ch_identity c)\<rparr>"

definition change_checks_of ::
  "locale_functions \<Rightarrow> projection_result \<Rightarrow> jstr \<Rightarrow> issue_reference \<Rightarrow> change_evidence noted" where
  "change_checks_of lf p path r =
     (if pr_status p = Absent then State_Monad.return (change_evidence_of False False)
      else case pr_change p of
        None \<Rightarrow> do {
          remark ''FRONTIER_CHANGE_STALE'' path
            ''Change evidence is partial, ambiguous, or unavailable and cannot admit a new start.'';
          State_Monad.return (change_evidence_of False False)
        }
      | Some c \<Rightarrow>
          if pr_status p \<noteq> Healthy then do {
            remark ''FRONTIER_CHANGE_STALE'' path
              ''Change evidence is partial, ambiguous, or unavailable and cannot admit a new start.'';
            State_Monad.return (change_evidence_of False False)
          }
          else if \<not> same_reference lf (change_reference c) r then do {
            remark ''FRONTIER_CONTRADICTORY_EVIDENCE'' (path @ js ''.change.identity'')
              ''Change targets a different Issue.'';
            State_Monad.return (change_evidence_of False False)
          }
          else if ch_state c = ABORTED then do {
            remark ''FRONTIER_CHANGE_TERMINAL'' path
              ''An aborted Change is terminal and cannot be re-admitted as READY from the same Implementation candidate.'';
            State_Monad.return (change_evidence_of False False)
          }
          else State_Monad.return
            (change_evidence_of (ch_state c = MERGED) (ch_state c \<in> {DRAFT, REVIEW, ACCEPTED})))"

definition change_checks_value ::
  "locale_functions \<Rightarrow> frontier_authorities \<Rightarrow> jsval \<Rightarrow> jstr \<Rightarrow> issue_reference \<Rightarrow> change_evidence noted" where
  "change_checks_value lf fa v path r =
     (let projection = get_prop v (js ''projection'') in
      case fa_change fa (if is_record v \<and> is_record projection then projection else v) of
        None \<Rightarrow> do {
          remark ''FRONTIER_CHANGE_INVALID'' path ''Change projection is invalid.'';
          State_Monad.return (change_evidence_of False False)
        }
      | Some p \<Rightarrow> change_checks_of lf p path r)"

definition normalize_frontier_change ::
  "locale_functions \<Rightarrow> frontier_authorities \<Rightarrow> jsval \<Rightarrow> jstr \<Rightarrow> issue_reference \<Rightarrow> change_evidence noted" where
  "normalize_frontier_change lf fa v path r =
     (if v = JUndef then State_Monad.return (change_evidence_of False False)
      else (case run_state (change_checks_value lf fa v path r) [] of
        (e, local) \<Rightarrow> do { push_all local; State_Monad.return (e\<lparr>ce_invalid := local \<noteq> []\<rparr>) }))"

subsection \<open>What the evidence proves\<close>

text \<open>
  Completed work: conformance evidence that is valid and conformant, with execution evidence for the Issue,
  or a healthy projection of a merged Change of the Issue.  Neither looks at the state of the Issue.
\<close>

definition proven_implementation ::
  "locale_functions \<Rightarrow> frontier_authorities \<Rightarrow> jsval \<Rightarrow> issue_reference \<Rightarrow> bool" where
  "proven_implementation lf fa v r \<longleftrightarrow>
     fa_conformance fa (get_prop (implementation_input v) (js ''conformance'')) \<and>
     (\<exists>x. fa_execution fa (get_prop (implementation_input v) (js ''executionEvidence'')) = Some x \<and>
        same_reference lf (xv_implementation x) r)"

definition proven_change ::
  "locale_functions \<Rightarrow> frontier_authorities \<Rightarrow> jsval \<Rightarrow> issue_reference \<Rightarrow> bool" where
  "proven_change lf fa v r \<longleftrightarrow>
     (\<exists>p c. fa_change fa (if is_record v \<and> is_record (get_prop v (js ''projection'')) then get_prop v (js ''projection'') else v)
          = Some p \<and> pr_status p = Healthy \<and> pr_change p = Some c \<and> ch_state c = MERGED \<and>
        same_reference lf (change_reference c) r)"

lemma returns_conformance:
  "returns (conformance_evidence lf fa v path r) (\<lambda>b. b \<longrightarrow> fa_conformance fa v)"
  by (auto simp: conformance_evidence_def Let_def intro!: returns_then)

lemma returns_execution:
  "returns (execution_evidence_check lf fa v path r a)
     (\<lambda>x. \<forall>y. x = Some y \<longrightarrow> fa_execution fa v = Some y \<and> same_reference lf (xv_implementation y) r)"
  by (auto simp: execution_evidence_check_def intro!: returns_then split: option.split)

lemma returns_implementation_checks:
  "returns (implementation_checks lf fa v path r) (\<lambda>e. ie_satisfied e \<longrightarrow> proven_implementation lf fa v r)"
  unfolding implementation_checks_def Let_def
  by (rule returns_then, rule returns_then, rule returns_then, rule returns_bind [OF returns_conformance],
      rule returns_bind [OF returns_execution], rule returns_then)
    (auto simp: proven_implementation_def)

lemma returns_implementation:
  "returns (normalize_implementation lf fa v path r) (\<lambda>e. ie_satisfied e \<longrightarrow> proven_implementation lf fa v r)"
  using returnsD [OF returns_implementation_checks]
  by (auto simp: normalize_implementation_def intro!: returns_then split: prod.split)

lemma returns_change_of:
  "returns (change_checks_of lf p path r)
     (\<lambda>e. ce_satisfied e \<longrightarrow> pr_status p = Healthy \<and>
        (\<exists>c. pr_change p = Some c \<and> ch_state c = MERGED \<and> same_reference lf (change_reference c) r))"
proof (cases "pr_change p")
  case None
  then show ?thesis by (simp add: change_checks_of_def change_evidence_of_def returns_then)
next
  case (Some c)
  then show ?thesis
    by (cases "pr_status p = Absent"; cases "pr_status p = Healthy"; cases "same_reference lf (change_reference c) r";
        cases "ch_state c = ABORTED")
      (simp_all add: change_checks_of_def change_evidence_of_def returns_then)
qed

lemma returns_change_value:
  "returns (change_checks_value lf fa v path r) (\<lambda>e. ce_satisfied e \<longrightarrow> proven_change lf fa v r)"
proof -
  let ?w = "if is_record v \<and> is_record (get_prop v (js ''projection'')) then get_prop v (js ''projection'') else v"
  show ?thesis
  proof (cases "fa_change fa ?w")
    case None
    then show ?thesis
      by (simp add: change_checks_value_def change_evidence_of_def returns_then Let_def split del: if_split)
  next
    case (Some p)
    then have "change_checks_value lf fa v path r = change_checks_of lf p path r"
      by (simp add: change_checks_value_def Let_def split del: if_split)
    moreover have "proven_change lf fa v r \<longleftrightarrow> pr_status p = Healthy \<and>
        (\<exists>c. pr_change p = Some c \<and> ch_state c = MERGED \<and> same_reference lf (change_reference c) r)"
      using Some by (auto simp: proven_change_def split del: if_split)
    ultimately show ?thesis using returns_change_of [of lf p path r] by simp
  qed
qed

lemma returns_change:
  "returns (normalize_frontier_change lf fa v path r) (\<lambda>e. ce_satisfied e \<longrightarrow> proven_change lf fa v r)"
  using returnsD [OF returns_change_value]
  by (auto simp: normalize_frontier_change_def change_evidence_of_def intro!: returns_then split: prod.split)

end
