(* ===== verification/Frontier.thy ===== *)
theory Frontier
  imports Frontier_Evidence Dependency_Cycles
begin

text \<open>
  The frontier of implementation work, \<^verbatim>\<open>tryProjectImplementationFrontier\<close> and
  \<^verbatim>\<open>projectImplementationFrontier\<close> of
  \<^verbatim>\<open>src/src/implementation-frontier.ts\<close>: the candidates with their evidence, the cycles of
  their dependencies (theory \<^verbatim>\<open>Dependency_Cycles\<close>), the memoized classification and the
  groups of ready work.
\<close>

subsection \<open>Candidates\<close>

datatype frontier_class = READY | BLOCKED | ACTIVE | SATISFIED | INVALID

record frontier_candidate =
  fc_reference :: issue_reference
  fc_issue :: "lifecycle_issue option"
  fc_implementation :: implementation_evidence
  fc_change :: change_evidence
  fc_dependencies :: "issue_reference list"
  fc_diagnostics :: "frontier_diagnostic list"

definition input_keys :: "jstr list" where
  "input_keys = [js ''version'', js ''kind'', js ''scope'', js ''lifecycle'', js ''issues'', js ''candidates'']"

definition candidate_keys :: "jstr list" where
  "candidate_keys =
     [js ''reference'', js ''issue'', js ''lifecycle'', js ''semantic'', js ''implementation'', js ''change'',
      js ''changeProjection'', js ''state'']"

fun candidate_entries :: "locale_functions \<Rightarrow> nat \<Rightarrow> jsval list \<Rightarrow> jsval list noted" where
  "candidate_entries lf n [] = State_Monad.return []"
| "candidate_entries lf n (v # vs) =
     (if \<not> is_record v then do {
        remark ''FRONTIER_INPUT_INVALID'' (candidate_path n) ''Frontier candidate must be an object.'';
        candidate_entries lf (Suc n) vs
      }
      else do {
        unknown_properties v candidate_keys (candidate_path n);
        let path = sub_path (candidate_path n) (js ''reference'');
        let known = (read_reference lf (get_prop v (js ''reference'')) path \<noteq> None);
        remark_if (\<not> known) ''FRONTIER_REFERENCE_INVALID'' path ''Candidate reference is invalid.'';
        rest \<leftarrow> candidate_entries lf (Suc n) vs;
        State_Monad.return (if known then v # rest else rest)
      })"

fun duplicate_entries :: "locale_functions \<Rightarrow> nat \<Rightarrow> jsval list \<Rightarrow> jstr list \<Rightarrow> unit noted" where
  "duplicate_entries lf n [] seen = State_Monad.return ()"
| "duplicate_entries lf n (v # vs) seen =
     (case read_reference lf (get_prop v (js ''reference'')) (js ''$'') of
        None \<Rightarrow> duplicate_entries lf (Suc n) vs seen
      | Some r \<Rightarrow> do {
          remark_if (reference_key lf r \<in> set seen) ''FRONTIER_CANDIDATE_DUPLICATE''
            (sub_path (candidate_path n) (js ''reference'')) ''Candidate references must be unique.'';
          duplicate_entries lf (Suc n) vs (reference_key lf r # seen)
        })"

definition input_checks ::
  "locale_functions \<Rightarrow> frontier_authorities \<Rightarrow> jsval \<Rightarrow> jsval list \<Rightarrow> (jsval list \<times> lifecycle_evidence) noted" where
  "input_checks lf fa v vs = do {
     remark_if (max_frontier_candidates < length vs) ''FRONTIER_INPUT_INVALID'' (js ''$.candidates'')
       ''Frontier candidates exceed the bounded limit.'';
     cs \<leftarrow> candidate_entries lf 0 vs;
     duplicate_entries lf 0 cs [];
     e \<leftarrow> normalize_lifecycle lf fa v cs;
     State_Monad.return (cs, e)
   }"

definition normalize_input ::
  "locale_functions \<Rightarrow> frontier_authorities \<Rightarrow> jsval \<Rightarrow> (jsval list \<times> lifecycle_evidence) option noted" where
  "normalize_input lf fa v =
     (if \<not> is_record v then do {
        remark ''FRONTIER_INPUT_INVALID'' (js ''$'') ''Frontier input must be an object.'';
        State_Monad.return None
      }
      else do {
        unknown_properties v input_keys (js ''$'');
        remark_if (get_prop v (js ''version'') \<notin> {JUndef, JNum (Integral 1)}) ''FRONTIER_INPUT_INVALID'' (js ''$.version'')
          ''Frontier input version is unsupported.'';
        remark_if (get_prop v (js ''kind'') \<notin> {JUndef, JStr (js ''implementation-frontier-input'')})
          ''FRONTIER_INPUT_INVALID'' (js ''$.kind'') ''Frontier input kind is unsupported.'';
        remark_if (get_prop v (js ''scope'') \<noteq> JUndef \<and> scope_value (get_prop v (js ''scope'')) = None)
          ''FRONTIER_INPUT_INVALID'' (js ''$.scope'') ''Frontier scope is invalid.'';
        (case array_of (get_prop v (js ''candidates'')) of
           None \<Rightarrow> do {
             remark ''FRONTIER_INPUT_INVALID'' (js ''$.candidates'') ''Frontier candidates must be an array.'';
             State_Monad.return None
           }
         | Some vs \<Rightarrow> do { x \<leftarrow> input_checks lf fa v vs; State_Monad.return (Some x) })
      })"

definition issues_differ :: "locale_functions \<Rightarrow> lifecycle_issue \<Rightarrow> lifecycle_issue \<Rightarrow> bool" where
  "issues_differ lf i j \<longleftrightarrow>
     \<not> same_reference lf (li_reference i) (li_reference j) \<or> li_open i \<noteq> li_open j \<or>
     \<not> list_all2 (same_reference lf) (li_depends_on i) (li_depends_on j)"

text \<open>The Issue evidence of a candidate: that of the batch, else its own.\<close>

definition local_issue :: "locale_functions \<Rightarrow> nat \<Rightarrow> jsval \<Rightarrow> lifecycle_issue option noted" where
  "local_issue lf n c =
     (if local_issue_value c = JUndef then State_Monad.return None
      else do {
        observed \<leftarrow> normalize_state (get_prop c (js ''state'')) (sub_path (candidate_path n) (js ''state''));
        lifecycle_issue_from_projection lf (local_issue_value c) (sub_path (candidate_path n) (js ''issue'')) observed
      })"

definition issue_checks_of ::
  "locale_functions \<Rightarrow> nat \<Rightarrow> issue_reference \<Rightarrow> lifecycle_issue option \<Rightarrow> unit noted" where
  "issue_checks_of lf n r issue =
     (let path = sub_path (candidate_path n) (js ''issue'') in
      case issue of
        None \<Rightarrow> remark ''FRONTIER_EVIDENCE_MISSING'' path ''Semantic Issue lifecycle evidence is required.''
      | Some i \<Rightarrow> do {
          remark_if (\<not> same_reference lf (li_reference i) r) ''FRONTIER_CONTRADICTORY_EVIDENCE''
            (sub_path path (js ''reference'')) ''Issue evidence targets a different candidate.'';
          remark_if (li_invalid i) ''FRONTIER_SEMANTIC_EVIDENCE_INVALID'' path
            ''Semantic Issue evidence contains drift or contradiction.'';
          remark_if (li_evidence i = Dependencies_Unavailable) ''FRONTIER_EVIDENCE_UNAVAILABLE''
            (sub_path path (js ''dependsOn'')) ''Semantic dependency evidence is unavailable.''
        })"

text \<open>The dependencies the Issue evidence and the contract state, where they are known.\<close>

definition semantic_dependencies :: "lifecycle_issue option \<Rightarrow> issue_reference list option" where
  "semantic_dependencies issue =
     (case issue of
        None \<Rightarrow> None
      | Some i \<Rightarrow> if li_evidence i = Dependencies_Unavailable then None else Some (li_depends_on i))"

definition dependencies_disagree ::
  "locale_functions \<Rightarrow> issue_reference list option \<Rightarrow> contract_view option \<Rightarrow> bool" where
  "dependencies_disagree lf semantic contract \<longleftrightarrow>
     (case (semantic, contract) of
        (Some rs, Some c) \<Rightarrow> reference_key lf ` set rs \<noteq> reference_key lf ` set (cv_dependencies c)
      | _ \<Rightarrow> False)"

fun self_dependencies :: "locale_functions \<Rightarrow> jstr \<Rightarrow> issue_reference \<Rightarrow> issue_reference list \<Rightarrow> unit noted" where
  "self_dependencies lf path r [] = State_Monad.return ()"
| "self_dependencies lf path r (d # ds) = do {
     remark_if (same_reference lf d r) ''FRONTIER_SELF_DEPENDENCY'' path ''A candidate cannot depend on itself.'';
     self_dependencies lf path r ds
   }"

definition decided :: "implementation_evidence \<Rightarrow> change_evidence \<Rightarrow> bool" where
  "decided e c \<longleftrightarrow> ie_satisfied e \<or> ie_active e \<or> ce_satisfied c \<or> ce_active c"

definition candidate_checks ::
  "locale_functions \<Rightarrow> frontier_authorities \<Rightarrow> lifecycle_evidence \<Rightarrow> nat \<Rightarrow> jsval \<Rightarrow> issue_reference \<Rightarrow>
     frontier_candidate noted" where
  "candidate_checks lf fa e n c r = do {
     let path = candidate_path n;
     let global = find_issue lf (le_issues e) (reference_key lf r);
     own \<leftarrow> local_issue lf n c;
     remark_if (case (global, own) of (Some i, Some j) \<Rightarrow> issues_differ lf i j | _ \<Rightarrow> False)
       ''FRONTIER_CONTRADICTORY_EVIDENCE'' (sub_path path (js ''issue''))
       ''Candidate-local Issue evidence disagrees with the batch Semantic Issue lifecycle evidence.'';
     let issue = (case global of None \<Rightarrow> own | Some i \<Rightarrow> Some i);
     issue_checks_of lf n r issue;
     impl \<leftarrow> normalize_implementation lf fa (get_prop c (js ''implementation''))
       (sub_path path (js ''implementation'')) r;
     chg \<leftarrow> normalize_frontier_change lf fa
       (coalesce (get_prop c (js ''changeProjection'')) (get_prop c (js ''change''))) (sub_path path (js ''change'')) r;
     let semantic = semantic_dependencies issue;
     remark_if (dependencies_disagree lf semantic (ie_contract impl)) ''FRONTIER_CONTRADICTORY_EVIDENCE''
       (sub_path path (js ''dependencies''))
       ''Semantic Issue dependencies disagree with the canonical Implementation contract dependencies.'';
     let deps = union_references lf (case semantic of None \<Rightarrow> [] | Some rs \<Rightarrow> rs)
                  (case ie_contract impl of None \<Rightarrow> [] | Some cv \<Rightarrow> cv_dependencies cv);
     self_dependencies lf (sub_path path (js ''dependencies'')) r deps;
     remark_if (\<not> le_complete e \<and> \<not> decided impl chg) ''FRONTIER_EVIDENCE_UNAVAILABLE'' (sub_path path (js ''lifecycle''))
       ''Complete Issue graph evidence is required for readiness.'';
     State_Monad.return
       \<lparr>fc_reference = r, fc_issue = issue, fc_implementation = impl, fc_change = chg, fc_dependencies = deps,
        fc_diagnostics = []\<rparr>
   }"

definition normalize_candidate ::
  "locale_functions \<Rightarrow> frontier_authorities \<Rightarrow> lifecycle_evidence \<Rightarrow> nat \<Rightarrow> jsval \<Rightarrow> frontier_candidate option" where
  "normalize_candidate lf fa e n c =
     map_option (\<lambda>r. case run_state (candidate_checks lf fa e n c r) [] of (x, ds) \<Rightarrow> x\<lparr>fc_diagnostics := ds\<rparr>)
       (read_reference lf (get_prop c (js ''reference'')) (sub_path (candidate_path n) (js ''reference'')))"

definition normalize_candidates ::
  "locale_functions \<Rightarrow> frontier_authorities \<Rightarrow> lifecycle_evidence \<Rightarrow> jsval list \<Rightarrow> frontier_candidate list" where
  "normalize_candidates lf fa e vs =
     List.map_filter (\<lambda>(n, v). normalize_candidate lf fa e n v) (enumerate 0 vs)"

subsection \<open>Cycles\<close>

definition candidate_key :: "locale_functions \<Rightarrow> frontier_candidate \<Rightarrow> jstr" where
  "candidate_key lf c = reference_key lf (fc_reference c)"

definition dependency_keys :: "locale_functions \<Rightarrow> frontier_candidate \<Rightarrow> jstr list" where
  "dependency_keys lf c = map (reference_key lf) (fc_dependencies c)"

definition by_key :: "locale_functions \<Rightarrow> frontier_candidate list \<Rightarrow> jstr \<rightharpoonup> frontier_candidate" where
  "by_key lf cs = reference_map lf fc_reference cs"

definition dependency_graph :: "locale_functions \<Rightarrow> frontier_candidate list \<Rightarrow> jstr \<rightharpoonup> jstr list" where
  "dependency_graph lf cs = (\<lambda>k. map_option (dependency_keys lf) (by_key lf cs k))"

text \<open>The recursion is at most as deep as there are candidates.\<close>

definition frontier_cycles :: "locale_functions \<Rightarrow> frontier_candidate list \<Rightarrow> jstr list" where
  "frontier_cycles lf cs =
     (case dependency_cycles (dependency_graph lf cs) (Suc (length cs)) (map (candidate_key lf) cs) of
        None \<Rightarrow> [] | Some ks \<Rightarrow> ks)"

subsection \<open>Classification\<close>

text \<open>What the evidence of a candidate itself decides, before its dependencies are looked at.\<close>

definition own_class :: "frontier_candidate \<Rightarrow> frontier_class option" where
  "own_class c =
     (if fc_diagnostics c \<noteq> [] \<or> ie_invalid (fc_implementation c) \<or> ce_invalid (fc_change c) then Some INVALID
      else if ie_satisfied (fc_implementation c) \<or> ce_satisfied (fc_change c) then Some SATISFIED
      else if ie_active (fc_implementation c) \<or> ce_active (fc_change c) then Some ACTIVE
      else if Option.bind (fc_issue c) li_open = Some False then Some INVALID
      else None)"

text \<open>
  The loop over the dependencies: None in the list is a reference without a candidate, None in the result
  that one was met; else the result is whether a dependency is not satisfied.
\<close>

fun dependency_loop ::
  "('a \<Rightarrow> 'm \<Rightarrow> frontier_class \<times> 'm) \<Rightarrow> 'a option list \<Rightarrow> bool \<Rightarrow> 'm \<Rightarrow> bool option \<times> 'm" where
  "dependency_loop f [] blocked m = (Some blocked, m)"
| "dependency_loop f (None # ds) blocked m = (None, m)"
| "dependency_loop f (Some d # ds) blocked m =
     (case f d m of (x, m') \<Rightarrow> dependency_loop f ds (blocked \<or> x \<noteq> SATISFIED) m')"

lemma dependency_loop_cong [fundef_cong]:
  "ds = ds' \<Longrightarrow> b = b' \<Longrightarrow> m = m' \<Longrightarrow> (\<And>d n. Some d \<in> set ds' \<Longrightarrow> f d n = g d n) \<Longrightarrow>
    dependency_loop f ds b m = dependency_loop g ds' b' m'"
proof (induction ds arbitrary: ds' b b' m m')
  case (Cons d ds)
  then show ?case by (cases d) (auto split: prod.split)
qed auto

type_synonym classifications = "jstr \<rightharpoonup> frontier_class"

lemma by_key_Some: "by_key lf cs k = Some c \<Longrightarrow> c \<in> set cs \<and> candidate_key lf c = k"
  by (auto simp: by_key_def reference_map_def candidate_key_def dest!: map_of_SomeD)

function classify ::
  "locale_functions \<Rightarrow> frontier_candidate list \<Rightarrow> jstr list \<Rightarrow> frontier_candidate \<Rightarrow> jstr list \<Rightarrow> classifications \<Rightarrow>
     frontier_class \<times> classifications" where
  "classify lf cs cyc c visiting m =
     (case m (candidate_key lf c) of
        Some x \<Rightarrow> (x, m)
      | None \<Rightarrow>
          if candidate_key lf c \<in> set cyc then (INVALID, m(candidate_key lf c \<mapsto> INVALID))
          else if candidate_key lf c \<in> set visiting then (INVALID, m)
          else case own_class c of
            Some x \<Rightarrow> (x, m(candidate_key lf c \<mapsto> x))
          | None \<Rightarrow>
              (case dependency_loop (\<lambda>d m. classify lf cs cyc d (candidate_key lf c # visiting) m)
                      (map (by_key lf cs) (dependency_keys lf c)) False m of
                 (None, m') \<Rightarrow> (INVALID, m'(candidate_key lf c \<mapsto> INVALID))
               | (Some True, m') \<Rightarrow> (BLOCKED, m'(candidate_key lf c \<mapsto> BLOCKED))
               | (Some False, m') \<Rightarrow> (READY, m'(candidate_key lf c \<mapsto> READY))))"
  by pat_completeness auto
termination
proof (relation "measure (\<lambda>(lf, cs, cyc, c, visiting, m).
    card (insert (candidate_key lf c) (candidate_key lf ` set cs) - set visiting))")
  fix lf cs cyc c and visiting :: "jstr list" and m :: classifications and d and m' :: classifications
  assume new: "candidate_key lf c \<notin> set visiting" and "Some d \<in> set (map (by_key lf cs) (dependency_keys lf c))"
  then have "d \<in> set cs" using by_key_Some by fastforce
  then have "insert (candidate_key lf d) (candidate_key lf ` set cs) - set (candidate_key lf c # visiting)
      \<subset> insert (candidate_key lf c) (candidate_key lf ` set cs) - set visiting"
    using new by auto
  then show "((lf, cs, cyc, d, candidate_key lf c # visiting, m'), lf, cs, cyc, c, visiting, m)
      \<in> measure (\<lambda>(lf, cs, cyc, c, visiting, m).
          card (insert (candidate_key lf c) (candidate_key lf ` set cs) - set visiting))"
    by (simp add: psubset_card_mono)
qed simp

declare classify.simps [simp del]

fun classify_all ::
  "locale_functions \<Rightarrow> frontier_candidate list \<Rightarrow> jstr list \<Rightarrow> frontier_candidate list \<Rightarrow> classifications \<Rightarrow>
     classifications" where
  "classify_all lf cs cyc [] m = m"
| "classify_all lf cs cyc (c # rest) m = classify_all lf cs cyc rest (snd (classify lf cs cyc c [] m))"

definition frontier_classes :: "locale_functions \<Rightarrow> frontier_candidate list \<Rightarrow> classifications" where
  "frontier_classes lf cs = classify_all lf cs (frontier_cycles lf cs) cs Map.empty"

subsection \<open>The projection\<close>

record candidate_projection =
  cj_reference :: issue_reference
  cj_class :: frontier_class
  cj_dependencies :: "issue_reference list"
  cj_satisfied :: "issue_reference list"
  cj_unsatisfied :: "issue_reference list"
  cj_diagnostics :: "frontier_diagnostic list"

text \<open>
  The classification of a dependency, None without a candidate.  Every candidate has been classified by
  then, so the code's second call of \<^verbatim>\<open>classify\<close>, whose effect on the map is not followed
  here, is never made.
\<close>

definition dependency_status ::
  "locale_functions \<Rightarrow> frontier_candidate list \<Rightarrow> jstr list \<Rightarrow> classifications \<Rightarrow> issue_reference \<Rightarrow>
     frontier_class option" where
  "dependency_status lf cs cyc m d =
     map_option (\<lambda>c. case m (reference_key lf d) of None \<Rightarrow> fst (classify lf cs cyc c [] m) | Some x \<Rightarrow> x)
       (by_key lf cs (reference_key lf d))"

fun dependency_remarks :: "frontier_class option list \<Rightarrow> unit noted" where
  "dependency_remarks [] = State_Monad.return ()"
| "dependency_remarks (x # xs) = do {
     (case x of
        None \<Rightarrow> remark ''FRONTIER_DEPENDENCY_MISSING'' (js ''$.dependencies'') ''Dependency candidate evidence is missing.''
      | Some y \<Rightarrow> remark_if (y \<noteq> SATISFIED) ''FRONTIER_DEPENDENCY_BLOCKED'' (js ''$.dependencies'')
                    ''A prerequisite is not SATISFIED.'');
     dependency_remarks xs
   }"

definition projection_remarks ::
  "locale_functions \<Rightarrow> jstr list \<Rightarrow> frontier_candidate \<Rightarrow> frontier_class \<Rightarrow> frontier_class option list \<Rightarrow> unit noted" where
  "projection_remarks lf cyc c x statuses = do {
     remark_if (candidate_key lf c \<in> set cyc) ''FRONTIER_DEPENDENCY_CYCLE'' (js ''$.dependencies'')
       ''Dependency cycles cannot produce READY work.'';
     dependency_remarks statuses;
     remark_if (x = INVALID \<and> Option.bind (fc_issue c) li_open = Some False \<and> fc_diagnostics c = [])
       ''FRONTIER_CLOSED_ISSUE_UNPROVEN'' (js ''$.state'') ''Closed Issue state alone cannot prove SATISFIED or READY.''
   }"

definition project_candidate ::
  "locale_functions \<Rightarrow> frontier_candidate list \<Rightarrow> jstr list \<Rightarrow> classifications \<Rightarrow> frontier_candidate \<Rightarrow>
     candidate_projection" where
  "project_candidate lf cs cyc m c =
     (let x = (case m (candidate_key lf c) of None \<Rightarrow> INVALID | Some x \<Rightarrow> x);
          status = dependency_status lf cs cyc m in
      \<lparr>cj_reference = fc_reference c, cj_class = x, cj_dependencies = fc_dependencies c,
       cj_satisfied = filter (\<lambda>d. status d = Some SATISFIED) (fc_dependencies c),
       cj_unsatisfied = filter (\<lambda>d. status d \<noteq> Some SATISFIED) (fc_dependencies c),
       cj_diagnostics = sort_diagnostics (lf_compare lf)
         (snd (run_state (projection_remarks lf cyc c x (map status (fc_dependencies c))) (fc_diagnostics c)))\<rparr>)"

definition sort_candidates :: "locale_functions \<Rightarrow> frontier_candidate list \<Rightarrow> frontier_candidate list" where
  "sort_candidates lf cs = Sorting_Algorithms.sort (key (candidate_key lf) (lf_compare lf)) cs"

text \<open>The groups: each reference goes to the first group it has no dependency with, in either direction.\<close>

fun place_in_group :: "(issue_reference \<Rightarrow> issue_reference \<Rightarrow> bool) \<Rightarrow> issue_reference \<Rightarrow>
    issue_reference list list \<Rightarrow> issue_reference list list" where
  "place_in_group conflict r [] = [[r]]"
| "place_in_group conflict r (g # gs) =
     (if list_ex (conflict r) g then g # place_in_group conflict r gs else (g @ [r]) # gs)"

definition group_conflict ::
  "locale_functions \<Rightarrow> candidate_projection list \<Rightarrow> issue_reference \<Rightarrow> issue_reference \<Rightarrow> bool" where
  "group_conflict lf ready r s \<longleftrightarrow>
     (let needs = (\<lambda>a b. case reference_map lf cj_reference ready (reference_key lf a) of
                          None \<Rightarrow> False
                        | Some c \<Rightarrow> reference_key lf b \<in> reference_key lf ` set (cj_dependencies c)) in
      needs r s \<or> needs s r)"

definition parallel_groups :: "locale_functions \<Rightarrow> candidate_projection list \<Rightarrow> issue_reference list list" where
  "parallel_groups lf ready =
     map (sort_references lf)
       (fold (place_in_group (group_conflict lf ready)) (map cj_reference ready) [])"

record frontier_projection =
  fp_valid :: bool
  fp_candidates :: "candidate_projection list"
  fp_ready :: "issue_reference list"
  fp_groups :: "issue_reference list list"
  fp_diagnostics :: "frontier_diagnostic list"

definition project_candidates ::
  "locale_functions \<Rightarrow> frontier_candidate list \<Rightarrow> candidate_projection list" where
  "project_candidates lf cs =
     map (project_candidate lf cs (frontier_cycles lf cs) (frontier_classes lf cs)) (sort_candidates lf cs)"

definition frontier_of ::
  "locale_functions \<Rightarrow> frontier_candidate list \<Rightarrow> frontier_diagnostic list \<Rightarrow> frontier_projection" where
  "frontier_of lf cs ds =
     (let projected = project_candidates lf cs; ready = filter (\<lambda>c. cj_class c = READY) projected in
      \<lparr>fp_valid = (list_all (\<lambda>c. cj_class c \<noteq> INVALID) projected \<and> ds = []), fp_candidates = projected,
       fp_ready = map cj_reference ready, fp_groups = parallel_groups lf ready,
       fp_diagnostics = take max_frontier_diagnostics
         (sort_diagnostics (lf_compare lf) (ds @ concat (map cj_diagnostics projected)))\<rparr>)"

text \<open>The projection, None for input that cannot be read, and the diagnostics.\<close>

definition try_project_frontier ::
  "locale_functions \<Rightarrow> frontier_authorities \<Rightarrow> jsval \<Rightarrow> frontier_projection option \<times> frontier_diagnostic list" where
  "try_project_frontier lf fa v =
     (case run_state (normalize_input lf fa v) [] of
        (None, ds) \<Rightarrow> (None, ds)
      | (Some (vs, e), ds) \<Rightarrow>
          (let p = frontier_of lf (normalize_candidates lf fa e vs) ds in (Some p, fp_diagnostics p)))"

definition project_frontier ::
  "locale_functions \<Rightarrow> frontier_authorities \<Rightarrow> jsval \<Rightarrow> frontier_diagnostic list + frontier_projection" where
  "project_frontier lf fa v =
     (case try_project_frontier lf fa v of
        (Some p, ds) \<Rightarrow> if fp_valid p then Inr p else Inl ds
      | (None, ds) \<Rightarrow> Inl ds)"

subsection \<open>The reference classification\<close>

definition satisfied_itself :: "locale_functions \<Rightarrow> jstr list \<Rightarrow> frontier_candidate \<Rightarrow> bool" where
  "satisfied_itself lf cyc c \<longleftrightarrow> candidate_key lf c \<notin> set cyc \<and> own_class c = Some SATISFIED"

definition reference_class ::
  "locale_functions \<Rightarrow> frontier_candidate list \<Rightarrow> jstr list \<Rightarrow> frontier_candidate \<Rightarrow> frontier_class" where
  "reference_class lf cs cyc c =
     (if candidate_key lf c \<in> set cyc then INVALID
      else case own_class c of
        Some x \<Rightarrow> x
      | None \<Rightarrow>
          (let deps = map (by_key lf cs) (dependency_keys lf c) in
           if None \<in> set deps then INVALID
           else if list_all (satisfied_itself lf cyc) (map the deps) then READY
           else BLOCKED))"

lemma reference_class_satisfied: "reference_class lf cs cyc c = SATISFIED \<longleftrightarrow> satisfied_itself lf cyc c"
  by (auto simp: reference_class_def satisfied_itself_def Let_def split: option.split)

lemma by_key_candidate:
  assumes "distinct (map (candidate_key lf) cs)" and "c \<in> set cs"
  shows "by_key lf cs (candidate_key lf c) = Some c"
proof -
  have "distinct (map fst (rev (map (\<lambda>x. (candidate_key lf x, x)) cs)))"
    using assms(1) by (simp add: rev_map [symmetric] comp_def)
  moreover have "(candidate_key lf c, c) \<in> set (rev (map (\<lambda>x. (candidate_key lf x, x)) cs))"
    using assms(2) by simp
  ultimately have "map_of (rev (map (\<lambda>x. (candidate_key lf x, x)) cs)) (candidate_key lf c) = Some c"
    by (rule map_of_is_SomeI)
  then show ?thesis by (simp add: by_key_def reference_map_def candidate_key_def)
qed

definition classes_ok :: "locale_functions \<Rightarrow> frontier_candidate list \<Rightarrow> jstr list \<Rightarrow> classifications \<Rightarrow> bool" where
  "classes_ok lf cs cyc m \<longleftrightarrow>
     (\<forall>k x. m k = Some x \<longrightarrow> (\<exists>c. by_key lf cs k = Some c \<and> x = reference_class lf cs cyc c))"

lemma classes_okD:
  assumes "classes_ok lf cs cyc m" and "m k = Some x"
  shows "\<exists>c. by_key lf cs k = Some c \<and> x = reference_class lf cs cyc c"
  using assms by (simp add: classes_ok_def)

lemma classes_ok_update:
  assumes "classes_ok lf cs cyc m" and "distinct (map (candidate_key lf) cs)" and "c \<in> set cs"
    and "x = reference_class lf cs cyc c"
  shows "classes_ok lf cs cyc (m(candidate_key lf c \<mapsto> x))"
  using assms by_key_candidate [OF assms(2,3)] by (auto simp: classes_ok_def)

text \<open>What one call keeps and returns, for the loop below and for the call itself.\<close>

definition call_ok ::
  "locale_functions \<Rightarrow> frontier_candidate list \<Rightarrow> jstr list \<Rightarrow> frontier_candidate \<Rightarrow> classifications \<Rightarrow>
     frontier_class \<times> classifications \<Rightarrow> bool" where
  "call_ok lf cs cyc c m r \<longleftrightarrow>
     classes_ok lf cs cyc (snd r) \<and> m \<subseteq>\<^sub>m snd r \<and> (fst r = SATISFIED \<longleftrightarrow> satisfied_itself lf cyc c)"

lemma dependency_loop_ok:
  assumes "\<And>d n. Some d \<in> set ds \<Longrightarrow> classes_ok lf cs cyc n \<Longrightarrow> call_ok lf cs cyc d n (f d n)"
    and "classes_ok lf cs cyc m" and "dependency_loop f ds b m = (r, m')"
  shows "classes_ok lf cs cyc m' \<and> m \<subseteq>\<^sub>m m' \<and>
    r = (if None \<in> set ds then None else Some (b \<or> \<not> list_all (satisfied_itself lf cyc) (map the ds)))"
  using assms
proof (induction ds arbitrary: b m)
  case (Cons d ds)
  show ?case
  proof (cases d)
    case None
    then show ?thesis using Cons.prems by simp
  next
    case (Some c)
    obtain x n where call: "f c m = (x, n)" by fastforce
    then have ok: "call_ok lf cs cyc c m (x, n)" using Cons.prems(1) [of c m] Cons.prems(2) Some by simp
    have "dependency_loop f ds (b \<or> x \<noteq> SATISFIED) n = (r, m')" using Cons.prems(3) Some call by simp
    from Cons.IH [OF Cons.prems(1) _ this] ok
    have "classes_ok lf cs cyc m'" "n \<subseteq>\<^sub>m m'"
      "r = (if None \<in> set ds then None
            else Some ((b \<or> x \<noteq> SATISFIED) \<or> \<not> list_all (satisfied_itself lf cyc) (map the ds)))"
      by (auto simp: call_ok_def)
    with ok Some show ?thesis by (auto simp: call_ok_def intro: map_le_trans)
  qed
qed simp

lemma classify_ok:
  assumes distinct: "distinct (map (candidate_key lf) cs)"
  shows "c \<in> set cs \<Longrightarrow> classes_ok lf cs cyc m \<Longrightarrow>
    (\<And>d. d \<in> set cs \<Longrightarrow> candidate_key lf d \<in> set visiting \<Longrightarrow> \<not> satisfied_itself lf cyc d) \<Longrightarrow>
    call_ok lf cs cyc c m (classify lf cs cyc c visiting m) \<and>
    (candidate_key lf c \<notin> set visiting \<longrightarrow>
       snd (classify lf cs cyc c visiting m) (candidate_key lf c) = Some (reference_class lf cs cyc c))"
  using distinct
proof (induction lf cs cyc c visiting m rule: classify.induct)
  case (1 lf cs cyc c visiting m)
  let ?k = "candidate_key lf c"
  note keyed = by_key_candidate [OF 1(5) 1(2)]
  note update = classes_ok_update [OF _ 1(5) 1(2)]
  show ?case
  proof (cases "m ?k")
    case (Some x)
    then have "x = reference_class lf cs cyc c" using classes_okD [OF 1(3)] keyed by fastforce
    then show ?thesis
      using Some 1(3) by (simp add: classify.simps call_ok_def reference_class_satisfied)
  next
    case None
    show ?thesis
    proof (cases "?k \<in> set cyc \<or> ?k \<in> set visiting \<or> own_class c \<noteq> None")
      case True
      then show ?thesis
        using None 1(3) 1(4) [of c] 1(2) update [OF 1(3)]
        by (auto simp: classify.simps call_ok_def reference_class_def satisfied_itself_def map_le_def)
    next
      case False
      then have new: "?k \<notin> set cyc" "?k \<notin> set visiting" "own_class c = None" by auto
      let ?deps = "map (by_key lf cs) (dependency_keys lf c)"
      let ?f = "\<lambda>d m. classify lf cs cyc d (?k # visiting) m"
      have "call_ok lf cs cyc d n (?f d n)" if d: "Some d \<in> set ?deps" and n: "classes_ok lf cs cyc n" for d n
      proof -
        have "d \<in> set cs" using d by_key_Some by fastforce
        moreover have "\<not> satisfied_itself lf cyc b" if "b \<in> set cs" "candidate_key lf b \<in> set (?k # visiting)" for b
        proof (cases "candidate_key lf b = ?k")
          case True
          then have "b = c" using by_key_candidate [OF 1(5) that(1)] keyed by (metis option.inject)
          then show ?thesis using new(3) by (simp add: satisfied_itself_def)
        qed (use that 1(4) in auto)
        ultimately show ?thesis using 1(1) [OF None new(1,2,3) d, of n] n 1(5) by blast
      qed
      moreover obtain r m' where loop: "dependency_loop ?f ?deps False m = (r, m')" by fastforce
      ultimately have after: "classes_ok lf cs cyc m'" "m \<subseteq>\<^sub>m m'"
          "r = (if None \<in> set ?deps then None else Some (\<not> list_all (satisfied_itself lf cyc) (map the ?deps)))"
        using dependency_loop_ok [of ?deps lf cs cyc ?f m False r m'] 1(3) by auto
      then have result: "classify lf cs cyc c visiting m
          = (reference_class lf cs cyc c, m'(?k \<mapsto> reference_class lf cs cyc c))"
        using None new loop by (subst classify.simps) (auto simp: reference_class_def Let_def split: if_splits)
      show ?thesis
        using update [OF after(1) refl] after(2) None
        by (auto simp: result call_ok_def reference_class_satisfied map_le_def dom_def)
    qed
  qed
qed

lemma classify_all_ok:
  assumes "distinct (map (candidate_key lf) cs)"
  shows "set rest \<subseteq> set cs \<Longrightarrow> classes_ok lf cs cyc m \<Longrightarrow>
    classes_ok lf cs cyc (classify_all lf cs cyc rest m) \<and> m \<subseteq>\<^sub>m classify_all lf cs cyc rest m \<and>
    candidate_key lf ` set rest \<subseteq> dom (classify_all lf cs cyc rest m)"
proof (induction rest arbitrary: m)
  case (Cons c rest)
  let ?m = "snd (classify lf cs cyc c [] m)"
  have ok: "call_ok lf cs cyc c m (classify lf cs cyc c [] m)" and "?m (candidate_key lf c) \<noteq> None"
    using classify_ok [OF assms, of c cyc m "[]"] Cons.prems by auto
  then have key: "candidate_key lf c \<in> dom ?m" by auto
  have all: "classes_ok lf cs cyc (classify_all lf cs cyc rest ?m)" "?m \<subseteq>\<^sub>m classify_all lf cs cyc rest ?m"
      "candidate_key lf ` set rest \<subseteq> dom (classify_all lf cs cyc rest ?m)"
    using Cons.IH [of ?m] Cons.prems ok by (auto simp: call_ok_def)
  have "candidate_key lf c \<in> dom (classify_all lf cs cyc rest ?m)"
    by (rule subsetD [OF map_le_implies_dom_le [OF all(2)] key])
  then show ?case
    using ok all by (auto simp: call_ok_def intro: map_le_trans)
qed simp

lemma classes_by_reference:
  assumes "distinct (map (candidate_key lf) cs)"
  shows "frontier_classes lf cs = (\<lambda>k. map_option (reference_class lf cs (frontier_cycles lf cs)) (by_key lf cs k))"
proof
  fix k
  let ?m = "frontier_classes lf cs" and ?cyc = "frontier_cycles lf cs"
  have ok: "classes_ok lf cs ?cyc ?m" and dom: "candidate_key lf ` set cs \<subseteq> dom ?m"
    using classify_all_ok [OF assms, of cs ?cyc Map.empty] by (auto simp: frontier_classes_def classes_ok_def)
  show "?m k = map_option (reference_class lf cs ?cyc) (by_key lf cs k)"
  proof (cases "by_key lf cs k")
    case None
    then show ?thesis using classes_okD [OF ok] by (cases "?m k") fastforce+
  next
    case (Some c)
    then have "k \<in> dom ?m" using by_key_Some [OF Some] dom by auto
    then show ?thesis using classes_okD [OF ok] Some by fastforce
  qed
qed

lemma by_key_dom: "by_key lf cs k \<noteq> None \<longleftrightarrow> k \<in> candidate_key lf ` set cs"
  by (force simp: by_key_def reference_map_def candidate_key_def map_of_eq_None_iff)

lemma dom_dependency_graph: "dom (dependency_graph lf cs) = candidate_key lf ` set cs"
  using by_key_dom [of lf cs] by (auto simp: dependency_graph_def)

lemma frontier_search:
  "\<exists>ks (rank :: jstr \<Rightarrow> nat).
     dependency_cycles (dependency_graph lf cs) (Suc (length cs)) (map (candidate_key lf) cs) = Some ks \<and>
     (\<forall>k \<in> set ks. (k, k) \<in> (depends (dependency_graph lf cs))\<^sup>+) \<and>
     (\<forall>a b. a \<in> candidate_key lf ` set cs \<longrightarrow> (a, b) \<in> depends (dependency_graph lf cs) \<longrightarrow>
        {a, b} \<subseteq> set ks \<or> rank b < rank a)"
proof -
  have "card (candidate_key lf ` set cs) < Suc (length cs)"
    by (meson card_image_le card_length finite_set le_imp_less_Suc le_trans)
  then show ?thesis
    using dependency_cycles_total [of "dependency_graph lf cs" "map (candidate_key lf) cs" "Suc (length cs)"]
    by (simp add: dom_dependency_graph)
qed

lemma frontier_cycles_found:
  "dependency_cycles (dependency_graph lf cs) (Suc (length cs)) (map (candidate_key lf) cs)
     = Some (frontier_cycles lf cs)"
  using frontier_search [of lf cs] by (auto simp: frontier_cycles_def)

lemma marked_on_cycle: "k \<in> set (frontier_cycles lf cs) \<Longrightarrow> (k, k) \<in> (depends (dependency_graph lf cs))\<^sup>+"
  using frontier_search [of lf cs] by (auto simp: frontier_cycles_def)

lemma unmarked_acyclic:
  "acyclic (depends (dependency_graph lf cs) - set (frontier_cycles lf cs) \<times> set (frontier_cycles lf cs))"
proof -
  let ?g = "dependency_graph lf cs" and ?ks = "frontier_cycles lf cs"
  obtain rank :: "jstr \<Rightarrow> nat" where rank:
    "\<forall>a b. a \<in> candidate_key lf ` set cs \<longrightarrow> (a, b) \<in> depends ?g \<longrightarrow> {a, b} \<subseteq> set ?ks \<or> rank b < rank a"
    using frontier_search [of lf cs] by (auto simp: frontier_cycles_def)
  have "a \<in> candidate_key lf ` set cs" if "(a, b) \<in> depends ?g" for a b
    using that dom_dependency_graph [of lf cs] by (auto simp: depends_iff)
  then have "rank b < rank a" if "(a, b) \<in> depends ?g - set ?ks \<times> set ?ks" for a b
    using rank that by blast
  then show ?thesis by (rule acyclicI_order)
qed

text \<open>
  C37. The search for dependency cycles ends, within a recursion as deep as there are candidates, and it marks
  members of dependency cycles only.  It does not mark all of them, but it breaks every cycle: without the
  dependencies between two marked candidates the graph has no cycle left.
\<close>

theorem dependency_cycles_found:
  "\<exists>ks. dependency_cycles (dependency_graph lf cs) (Suc (length cs)) (map (candidate_key lf) cs) = Some ks \<and>
     set ks \<subseteq> {k. (k, k) \<in> (depends (dependency_graph lf cs))\<^sup>+} \<and>
     acyclic (depends (dependency_graph lf cs) - set ks \<times> set ks)"
  using frontier_cycles_found unmarked_acyclic marked_on_cycle by blast


text \<open>A proven candidate, and one that depends on it.\<close>

definition sample_reference :: "int \<Rightarrow> issue_reference" where
  "sample_reference n = \<lparr>ir_host = [104], ir_repository_id = [49], ir_repository = None, ir_number = n\<rparr>"

definition sample_locale :: locale_functions where
  "sample_locale = \<lparr>lf_lower = (\<lambda>s. s), lf_compare = default\<rparr>"

definition sample_candidate :: "int \<Rightarrow> bool \<Rightarrow> issue_reference list \<Rightarrow> frontier_candidate" where
  "sample_candidate n satisfied deps =
     \<lparr>fc_reference = sample_reference n, fc_issue = None,
      fc_implementation = \<lparr>ie_contract = None, ie_satisfied = satisfied, ie_active = False, ie_invalid = False\<rparr>,
      fc_change = change_evidence_of False False, fc_dependencies = deps, fc_diagnostics = []\<rparr>"

definition sample_candidates :: "frontier_candidate list" where
  "sample_candidates = [sample_candidate 1 False [sample_reference 2], sample_candidate 2 True []]"

lemma sample_candidates_distinct: "distinct (map (candidate_key sample_locale) sample_candidates)"
  by code_simp

lemma sample_candidates_acyclic: "frontier_cycles sample_locale sample_candidates = []"
  by code_simp


subsection \<open>Ready work\<close>

lemma reference_class_ready:
  assumes "reference_class lf cs cyc c = READY"
  shows "candidate_key lf c \<notin> set cyc" and "own_class c = None"
    and "d \<in> set (fc_dependencies c) \<Longrightarrow> \<exists>b. by_key lf cs (reference_key lf d) = Some b \<and> satisfied_itself lf cyc b"
proof -
  have own: "own_class c \<noteq> Some READY" by (simp add: own_class_def)
  then show "candidate_key lf c \<notin> set cyc" "own_class c = None"
    using assms by (auto simp: reference_class_def split: if_splits option.splits)
  then have deps: "None \<notin> by_key lf cs ` set (dependency_keys lf c)"
      "list_all (satisfied_itself lf cyc) (map (\<lambda>k. the (by_key lf cs k)) (dependency_keys lf c))"
    using assms by (auto simp: reference_class_def Let_def comp_def split: if_splits)
  show "\<exists>b. by_key lf cs (reference_key lf d) = Some b \<and> satisfied_itself lf cyc b" if "d \<in> set (fc_dependencies c)"
  proof (cases "by_key lf cs (reference_key lf d)")
    case None
    with that deps(1) show ?thesis by (force simp: dependency_keys_def image_iff)
  next
    case (Some b)
    with that deps(2) show ?thesis by (force simp: dependency_keys_def list_all_iff)
  qed
qed

lemma projected_candidate:
  assumes "distinct (map (candidate_key lf) cs)" and "j \<in> set (project_candidates lf cs)"
  obtains c where "c \<in> set cs" and "cj_reference j = fc_reference c" and "cj_dependencies j = fc_dependencies c"
    and "cj_class j = reference_class lf cs (frontier_cycles lf cs) c"
proof -
  obtain c where c: "c \<in> set cs" "j = project_candidate lf cs (frontier_cycles lf cs) (frontier_classes lf cs) c"
    using assms(2) by (auto simp: project_candidates_def sort_candidates_def)
  then have "frontier_classes lf cs (candidate_key lf c) = Some (reference_class lf cs (frontier_cycles lf cs) c)"
    using by_key_candidate [OF assms(1) c(1)] classes_by_reference [OF assms(1)] by simp
  with c that show thesis by (simp add: project_candidate_def Let_def)
qed

lemma place_without_conflict:
  assumes "\<And>r s. r \<in> set rs \<Longrightarrow> s \<in> set g \<union> set rs \<Longrightarrow> \<not> conflict r s"
  shows "fold (place_in_group conflict) rs [g] = [g @ rs]"
  using assms
proof (induction rs arbitrary: g)
  case (Cons r rs)
  have "\<not> list_ex (conflict r) g" using Cons.prems by (auto simp: list_ex_iff)
  then show ?case using Cons.IH [of "g @ [r]"] Cons.prems by auto
qed simp

lemma place_all_without_conflict:
  assumes "\<And>r s. r \<in> set rs \<Longrightarrow> s \<in> set rs \<Longrightarrow> \<not> conflict r s"
  shows "fold (place_in_group conflict) rs [] = (if rs = [] then [] else [rs])"
  using assms place_without_conflict [of "tl rs" "[hd rs]" conflict] by (cases rs) auto

text \<open>
  C39. Ready work is one parallel group.  When the candidates have distinct references, the groups of a
  projection never split the ready references: there is no group without ready work and else one group,
  all of them in order.  A ready candidate has satisfied dependencies only, so no two ready candidates depend
  on each other.
\<close>

theorem ready_work_is_one_group:
  assumes "distinct (map (candidate_key lf) cs)"
  shows "fp_groups (frontier_of lf cs ds) =
    (if fp_ready (frontier_of lf cs ds) = [] then [] else [sort_references lf (fp_ready (frontier_of lf cs ds))])"
proof -
  let ?cyc = "frontier_cycles lf cs"
  let ?ready = "filter (\<lambda>c. cj_class c = READY) (project_candidates lf cs)"
  have needs: False
    if j: "reference_map lf cj_reference ?ready k = Some j" and d: "d \<in> set (cj_dependencies j)"
      and s: "s \<in> cj_reference ` set ?ready" "reference_key lf s = reference_key lf d" for k j d s
  proof -
    have "j \<in> set (project_candidates lf cs)" "cj_class j = READY"
      using j by (auto simp: reference_map_def dest!: map_of_SomeD)
    then obtain c where "cj_dependencies j = fc_dependencies c" "reference_class lf cs ?cyc c = READY"
      using projected_candidate [OF assms] by metis
    then obtain b where b: "by_key lf cs (reference_key lf d) = Some b" "satisfied_itself lf ?cyc b"
      using reference_class_ready(3) d by metis
    obtain i where "i \<in> set (project_candidates lf cs)" "cj_class i = READY" "s = cj_reference i" using s(1) by auto
    then obtain c' where "c' \<in> set cs" "fc_reference c' = s" "reference_class lf cs ?cyc c' = READY"
      using projected_candidate [OF assms] by metis
    then have "by_key lf cs (reference_key lf s) = Some c'" and "\<not> satisfied_itself lf ?cyc c'"
      using by_key_candidate [OF assms] reference_class_satisfied [of lf cs ?cyc c'] by (auto simp: candidate_key_def)
    with b s(2) show False by simp
  qed
  have "\<not> group_conflict lf ?ready r s" if "r \<in> cj_reference ` set ?ready" "s \<in> cj_reference ` set ?ready" for r s
    using needs that by (fastforce simp: group_conflict_def Let_def split: option.splits)
  then have "fold (place_in_group (group_conflict lf ?ready)) (map cj_reference ?ready) []
      = (if map cj_reference ?ready = [] then [] else [map cj_reference ?ready])"
    by (intro place_all_without_conflict) simp
  then show ?thesis by (simp add: frontier_of_def Let_def parallel_groups_def)
qed

theorem ready_work_is_one_group_witness:
  "fp_groups (frontier_of sample_locale sample_candidates []) = [[sample_reference 1]]"
proof -
  have "fp_ready (frontier_of sample_locale sample_candidates []) = [sample_reference 1]" by code_simp
  then show ?thesis
    using ready_work_is_one_group [OF sample_candidates_distinct, of "[]"] by (simp add: sort_references_def)
qed

subsection \<open>Clean input\<close>

lemma grows_remarks [checked]:
  "grows (remark_values code path message expected actual)" "grows (remark code path text)" "grows (remark_if b code path text)"
  "grows (foreign_remark path message)"
  by (auto simp: grows_def remark_values_def remark_def remark_if_def foreign_remark_def)

lemma grows_unknown_remarks [checked]: "grows (unknown_remarks ks allowed path)" "grows (unknown_properties v allowed path)"
proof -
  show grow: "grows (unknown_remarks ks allowed path)" for ks
    by (induction ks) (auto intro!: checked)
  show "grows (unknown_properties v allowed path)" by (simp add: unknown_properties_def grow)
qed

lemma grows_reference_items [checked]: "grows (reference_items lf path i vs seen)"
  by (induction vs arbitrary: i seen) (auto intro!: checked split: option.split)

lemma grows_evidence [checked]:
  "grows (normalize_references lf v path)" "grows (normalize_reference lf v path)" "grows (normalize_state v path)"
  "grows (issue_dependencies lf v path observed r)" "grows (lifecycle_issue_from_projection lf v path observed)"
proof -
  show refs: "grows (normalize_references lf v path)" for v path
    by (auto simp: normalize_references_def intro!: checked split: jsval.split)
  show ref: "grows (normalize_reference lf v path)" for v path
    by (auto simp: normalize_reference_def intro!: checked)
  show "grows (normalize_state v path)" by (auto simp: normalize_state_def intro!: checked)
  show deps: "grows (issue_dependencies lf v path observed r)" for r
    by (auto simp: issue_dependencies_def Let_def intro!: checked refs)
  show "grows (lifecycle_issue_from_projection lf v path observed)"
    by (auto simp: lifecycle_issue_from_projection_def intro!: checked ref deps split: option.split)
qed

lemma grows_lifecycle_items [checked]: "grows (lifecycle_items lf path n vs is)"
  by (induction vs arbitrary: n "is") (auto intro!: checked split: option.split)

lemma grows_foreign_remarks [checked]: "grows (foreign_remarks ds)"
  by (induction ds) (auto intro!: checked)

lemma grows_lifecycle_from_output [checked]: "grows (lifecycle_from_output lf v path)"
  by (auto simp: lifecycle_from_output_def intro!: checked split: option.split)

lemma grows_lifecycle_from_raw [checked]: "grows (lifecycle_from_raw lf fa v scope path)"
  by (auto simp: lifecycle_from_raw_def intro!: checked split: option.split)

lemma grows_candidate_issue [checked]: "grows (candidate_issue lf fa scope n c v)"
  by (auto simp: candidate_issue_def intro!: checked)

lemma grows_candidate_issues [checked]: "grows (candidate_issues lf fa scope n cs is)"
  by (induction cs arbitrary: n "is") (auto intro!: checked)

lemma grows_normalize_lifecycle [checked]: "grows (normalize_lifecycle lf fa v cs)"
  by (auto simp: normalize_lifecycle_def batch_lifecycle_def Let_def intro!: checked)

lemma grows_candidate_entries [checked]: "grows (candidate_entries lf n vs)" "grows (duplicate_entries lf n vs seen)"
proof -
  show "grows (candidate_entries lf n vs)"
    by (induction vs arbitrary: n) (auto simp: Let_def intro!: checked)
  show "grows (duplicate_entries lf n vs seen)"
    by (induction vs arbitrary: n seen) (auto intro!: checked split: option.split)
qed

lemma clean_remark [simp]:
  "\<not> clean_run (remark code path text) y" "clean_run (remark_if b code path text) y \<longleftrightarrow> \<not> b"
  by (simp_all add: clean_run_def remark_def remark_if_def remark_values_def max_frontier_diagnostics_def)

lemma read_reference_path: "read_reference lf v path = read_reference lf v path'"
  using normalize_issue_reference_Inr [of "lf_lower lf" v path] normalize_issue_reference_Inr [of "lf_lower lf" v path']
  by (auto simp: read_reference_def split: sum.split) (metis sum.distinct(1) sum.exhaust)+

text \<open>The key of an entry that has a reference.\<close>

definition entry_key :: "locale_functions \<Rightarrow> jsval \<Rightarrow> jstr option" where
  "entry_key lf v = map_option (reference_key lf) (read_reference lf (get_prop v (js ''reference'')) (js ''$''))"

lemma clean_duplicates:
  "clean_run (duplicate_entries lf n vs seen) y \<Longrightarrow>
    distinct (List.map_filter (entry_key lf) vs) \<and> set (List.map_filter (entry_key lf) vs) \<inter> set seen = {}"
proof (induction vs arbitrary: n seen)
  case (Cons v vs)
  show ?case
  proof (cases "read_reference lf (get_prop v (js ''reference'')) (js ''$'')")
    case None
    then show ?thesis using Cons.IH [of "Suc n" seen] Cons.prems by (simp add: map_filter_simps entry_key_def)
  next
    case (Some r)
    then have "clean_run (duplicate_entries lf (Suc n) vs (reference_key lf r # seen)) y" "reference_key lf r \<notin> set seen"
      using Cons.prems by (auto simp: clean_run_bind checked)
    with Cons.IH [of "Suc n" "reference_key lf r # seen"] Some show ?thesis
      by (auto simp: map_filter_simps entry_key_def)
  qed
qed simp

text \<open>The evidence an entry has for the completion of its work.\<close>

definition change_part :: "jsval \<Rightarrow> jsval" where
  "change_part c = coalesce (get_prop c (js ''changeProjection'')) (get_prop c (js ''change''))"

definition proven_done :: "locale_functions \<Rightarrow> frontier_authorities \<Rightarrow> jsval \<Rightarrow> issue_reference \<Rightarrow> bool" where
  "proven_done lf fa entry r \<longleftrightarrow>
     proven_implementation lf fa (get_prop entry (js ''implementation'')) r \<or> proven_change lf fa (change_part entry) r"

lemma returns_candidate_checks:
  "returns (candidate_checks lf fa e n c r)
     (\<lambda>x. fc_reference x = r \<and> (ie_satisfied (fc_implementation x) \<or> ce_satisfied (fc_change x) \<longrightarrow> proven_done lf fa c r))"
  unfolding candidate_checks_def Let_def
  by (rule returns_then, rule returns_then, rule returns_then, rule returns_bind [OF returns_implementation],
      rule returns_bind [OF returns_change], rule returns_then, rule returns_then, rule returns_then)
    (auto simp: proven_done_def change_part_def)

lemma normalized_candidate:
  assumes "normalize_candidate lf fa e n v = Some c"
  shows "read_reference lf (get_prop v (js ''reference'')) (js ''$'') = Some (fc_reference c)"
    and "own_class c = Some SATISFIED \<Longrightarrow> proven_done lf fa v (fc_reference c)"
proof -
  let ?path = "sub_path (candidate_path n) (js ''reference'')"
  obtain r x ds where r: "read_reference lf (get_prop v (js ''reference'')) ?path = Some r"
      and run: "run_state (candidate_checks lf fa e n v r) [] = (x, ds)" and c: "c = x\<lparr>fc_diagnostics := ds\<rparr>"
    using assms by (auto simp: normalize_candidate_def case_prod_beta prod_eq_iff)
  note x = returnsD [OF returns_candidate_checks run]
  show "read_reference lf (get_prop v (js ''reference'')) (js ''$'') = Some (fc_reference c)"
    using r x c read_reference_path [of lf _ ?path "js ''$''"] by simp
  show "proven_done lf fa v (fc_reference c)" if "own_class c = Some SATISFIED"
    using that x c by (auto simp: own_class_def split: if_splits)
qed

lemma normalize_candidate_None:
  "normalize_candidate lf fa e n v = None \<longleftrightarrow> entry_key lf v = None"
  using read_reference_path [of lf "get_prop v (js ''reference'')" "sub_path (candidate_path n) (js ''reference'')" "js ''$''"]
  by (simp add: normalize_candidate_def entry_key_def)

lemma candidate_keys_of_entries:
  "map (candidate_key lf) (List.map_filter (\<lambda>(n, v). normalize_candidate lf fa e n v) (enumerate n vs))
    = List.map_filter (entry_key lf) vs"
proof (induction vs arbitrary: n)
  case (Cons v vs)
  show ?case
  proof (cases "normalize_candidate lf fa e n v")
    case None
    then show ?thesis using Cons.IH [of "Suc n"] normalize_candidate_None [of lf fa e n v] by (simp add: map_filter_simps)
  next
    case (Some c)
    then show ?thesis
      using Cons.IH [of "Suc n"] normalized_candidate(1) [OF Some]
      by (simp add: map_filter_simps entry_key_def candidate_key_def)
  qed
qed simp

lemma normalized_from_entry:
  assumes "c \<in> set (normalize_candidates lf fa e vs)"
  obtains n v where "v \<in> set vs" and "normalize_candidate lf fa e n v = Some c"
proof -
  obtain n v where "(n, v) \<in> set (enumerate 0 vs)" "normalize_candidate lf fa e n v = Some c"
    using assms by (auto simp: normalize_candidates_def List.map_filter_def split: option.splits)
  moreover from this(1) have "v \<in> set vs" by (auto simp: in_set_enumerate_eq)
  ultimately show thesis using that by blast
qed

lemma clean_input_distinct:
  assumes "run_state (normalize_input lf fa v) [] = (Some (vs, e), [])"
  shows "distinct (map (candidate_key lf) (normalize_candidates lf fa e vs))"
proof -
  have "clean_run (normalize_input lf fa v) (Some (vs, e))" using assms by (simp add: clean_run_def)
  then obtain u where "clean_run (duplicate_entries lf 0 vs []) u"
    by (auto simp: normalize_input_def input_checks_def clean_run_bind checked split: if_splits option.splits)
  from clean_duplicates [OF this] show ?thesis
    by (simp add: normalize_candidates_def candidate_keys_of_entries)
qed

lemma valid_frontier_acyclic:
  assumes distinct: "distinct (map (candidate_key lf) cs)" and valid: "fp_valid (frontier_of lf cs ds)"
  shows "acyclic (depends (dependency_graph lf cs))"
proof -
  have "set (frontier_cycles lf cs) = {}"
  proof (rule equals0I)
    fix k
    assume k: "k \<in> set (frontier_cycles lf cs)"
    then obtain b where "(k, b) \<in> depends (dependency_graph lf cs)" using marked_on_cycle by (meson tranclD)
    then have "k \<in> candidate_key lf ` set cs" using dom_dependency_graph [of lf cs] by (auto simp: depends_iff)
    then obtain c where c: "c \<in> set cs" "k = candidate_key lf c" by blast
    then have "frontier_classes lf cs (candidate_key lf c) = Some INVALID"
      using k by_key_candidate [OF distinct c(1)] by (simp add: classes_by_reference [OF distinct] reference_class_def)
    then have "cj_class (project_candidate lf cs (frontier_cycles lf cs) (frontier_classes lf cs) c) = INVALID"
      by (simp add: project_candidate_def Let_def)
    then show False
      using valid c(1) by (auto simp: frontier_of_def Let_def list_all_iff project_candidates_def sort_candidates_def)
  qed
  then show ?thesis using unmarked_acyclic [of lf cs] by simp
qed

text \<open>
  C40. Only proven work unblocks work.  In a frontier that is accepted, whatever evidence the input carries,
  the candidates come from clean input and their dependencies have no cycle.  A ready reference is a
  candidate without a single diagnostic, not satisfied, active or closed itself, and each of its dependencies
  is an entry of the input with completed work: conformance evidence with execution evidence for that Issue,
  or a healthy projection of its merged Change.  The state of an Issue never stands for completion.
\<close>

theorem ready_work_unblocked_by_proof:
  assumes "project_frontier lf fa v = Inr p" and "r \<in> set (fp_ready p)"
  shows "\<exists>vs e c. run_state (normalize_input lf fa v) [] = (Some (vs, e), []) \<and>
    acyclic (depends (dependency_graph lf (normalize_candidates lf fa e vs))) \<and>
    c \<in> set (normalize_candidates lf fa e vs) \<and> fc_reference c = r \<and> fc_diagnostics c = [] \<and>
    \<not> decided (fc_implementation c) (fc_change c) \<and> Option.bind (fc_issue c) li_open \<noteq> Some False \<and>
    (\<forall>d \<in> set (fc_dependencies c). \<exists>entry \<in> set vs. \<exists>s.
       read_reference lf (get_prop entry (js ''reference'')) (js ''$'') = Some s \<and> same_reference lf s d \<and>
       proven_done lf fa entry s)"
proof -
  obtain vs e ds where run: "run_state (normalize_input lf fa v) [] = (Some (vs, e), ds)"
    and p: "p = frontier_of lf (normalize_candidates lf fa e vs) ds" "fp_valid p"
    using assms(1) by (auto simp: project_frontier_def try_project_frontier_def Let_def
        split: prod.splits option.splits if_splits)
  let ?cs = "normalize_candidates lf fa e vs"
  have clean: "ds = []" using p by (simp add: frontier_of_def Let_def)
  note distinct = clean_input_distinct [OF run [unfolded clean]]
  obtain j where j: "j \<in> set (project_candidates lf ?cs)" "cj_class j = READY" "r = cj_reference j"
    using assms(2) p(1) by (auto simp: frontier_of_def Let_def)
  obtain c where c: "c \<in> set ?cs" "r = fc_reference c" "reference_class lf ?cs (frontier_cycles lf ?cs) c = READY"
    using projected_candidate [OF distinct j(1)] j by metis
  note ready = reference_class_ready [OF c(3)]
  have "\<exists>entry \<in> set vs. \<exists>s. read_reference lf (get_prop entry (js ''reference'')) (js ''$'') = Some s \<and>
      same_reference lf s d \<and> proven_done lf fa entry s" if d: "d \<in> set (fc_dependencies c)" for d
  proof -
    obtain b where b: "by_key lf ?cs (reference_key lf d) = Some b" "own_class b = Some SATISFIED"
      using ready(3) [OF d] by (auto simp: satisfied_itself_def)
    then have "b \<in> set ?cs" and key: "candidate_key lf b = reference_key lf d" using by_key_Some by blast+
    then obtain n entry where "entry \<in> set vs" "normalize_candidate lf fa e n entry = Some b"
      using normalized_from_entry by metis
    with normalized_candidate [OF this(2)] b(2) key show ?thesis
      by (auto simp: same_reference_def candidate_key_def)
  qed
  moreover have "fc_diagnostics c = []" "\<not> decided (fc_implementation c) (fc_change c)"
      "Option.bind (fc_issue c) li_open \<noteq> Some False"
    using ready(2) by (auto simp: own_class_def decided_def split: if_splits)
  ultimately show ?thesis
    using run clean c(1,2) valid_frontier_acyclic [OF distinct, of ds] p by blast
qed

text \<open>Work whose dependency is a merged Change.\<close>

definition sample_issue_value :: "int \<Rightarrow> issue_reference list \<Rightarrow> jsval" where
  "sample_issue_value n deps =
     JObj [(js ''reference'', reference_value (sample_reference n)),
           (js ''dependsOnEvidence'', JStr (js ''present'')),
           (js ''dependsOn'', JArr (map reference_value deps)), (js ''drift'', JArr [])]"

definition sample_entries :: "jsval list" where
  "sample_entries =
     [JObj [(js ''reference'', reference_value (sample_reference 1)),
            (js ''issue'', sample_issue_value 1 [sample_reference 2])],
      JObj [(js ''reference'', reference_value (sample_reference 2)),
            (js ''issue'', sample_issue_value 2 []), (js ''change'', JNull), (js ''changeProjection'', JBool True)]]"

definition sample_frontier_input :: jsval where
  "sample_frontier_input = JObj [(js ''candidates'', JArr sample_entries)]"

definition sample_merged :: change where
  "sample_merged =
     \<lparr>ch_identity = \<lparr>repository_host = [104], repository_id = [49], root_issue = 2\<rparr>, ch_state = MERGED,
      ch_provenance = \<lparr>requester = None, issuer = None, implementer = None, reviewer = None, merger = None\<rparr>,
      ch_projection = None\<rparr>"

definition sample_authorities :: frontier_authorities where
  "sample_authorities =
     \<lparr>fa_lifecycle = (\<lambda>scope vs. (None, [])), fa_contract = (\<lambda>v. None),
      fa_authorization = (\<lambda>v r. \<lparr>av_authorized = False, av_current = False, av_status_authorized = False, av_binds = None\<rparr>),
      fa_conformance = (\<lambda>v. False), fa_execution = (\<lambda>v. None),
      fa_change = (\<lambda>v. if v = JBool True then
         Some \<lparr>pr_valid = True, pr_status = Healthy, pr_canonical_branch = None, pr_canonical_base = None,
               pr_branches = [], pr_pull_requests = [], pr_change = Some sample_merged, pr_diagnostics = []\<rparr>
         else None)\<rparr>"

lemma remark_if_False [simp]: "remark_if False code path text = State_Monad.return ()"
  by (simp add: remark_if_def)

lemma unknown_properties_known:
  assumes "set (object_keys v) \<subseteq> set allowed"
  shows "unknown_properties v allowed path = State_Monad.return ()"
proof -
  have "set ks \<subseteq> set allowed \<Longrightarrow> unknown_remarks ks allowed path = State_Monad.return ()" for ks
    by (induction ks) auto
  then show ?thesis using assms by (simp add: unknown_properties_def)
qed

lemma read_sample_reference [simp]:
  assumes "1 \<le> n" "n \<le> 2"
  shows "read_reference sample_locale (reference_value (sample_reference n)) path = Some (sample_reference n)"
proof -
  have "normalize_issue_reference (lf_lower sample_locale) (reference_value (sample_reference n)) path = Inr (sample_reference n)"
    using assms unfolding normalize_issue_reference_Inr
    by (simp add: reference_value_def sample_reference_def sample_locale_def reference_keys_def to_lower_def ascii_lower_def
        is_white_space_def is_upper_def is_digit_def positive_integer_def max_safe_integer_def)
  then show ?thesis by (simp add: read_reference_def)
qed

lemma sample_references_normalized:
  "normalize_references sample_locale (JArr []) path = State_Monad.return []"
  "normalize_references sample_locale (JArr [reference_value (sample_reference 2)]) path = State_Monad.return [sample_reference 2]"
  by (simp_all add: normalize_references_def max_frontier_dependencies_def sort_references_def)

lemma sample_issue_read:
  assumes "1 \<le> n" "n \<le> 2" "deps \<in> {[], [sample_reference 2]}"
  shows "lifecycle_issue_from_projection sample_locale (sample_issue_value n deps) path None =
    State_Monad.return (Some \<lparr>li_reference = sample_reference n, li_depends_on = deps,
      li_evidence = Dependencies_Present, li_open = None, li_invalid = False\<rparr>)"
  using assms
  by (auto simp: lifecycle_issue_from_projection_def sample_issue_value_def normalize_reference_def issue_dependencies_def
      dependency_evidence_value_def inferred_state_def sample_references_normalized)

definition sample_lifecycle_issue :: "int \<Rightarrow> issue_reference list \<Rightarrow> lifecycle_issue" where
  "sample_lifecycle_issue n deps =
     \<lparr>li_reference = sample_reference n, li_depends_on = deps, li_evidence = Dependencies_Present,
      li_open = None, li_invalid = False\<rparr>"

definition sample_lifecycle :: lifecycle_evidence where
  "sample_lifecycle =
     \<lparr>le_complete = True, le_issues = [sample_lifecycle_issue 1 [sample_reference 2], sample_lifecycle_issue 2 []]\<rparr>"

lemma sample_keys:
  "reference_key sample_locale (sample_reference 1) \<noteq> reference_key sample_locale (sample_reference 2)"
  by code_simp

lemmas sample_input_simps = sample_entries_def sample_issue_read sample_lifecycle_issue_def sample_keys sample_keys [symmetric]
  unknown_properties_known local_issue_value_def coalesce_def normalize_state_def open_value_def issue_key_def

lemma sample_issue_value_sel [simp]:
  "is_record (sample_issue_value n deps)" "sample_issue_value n deps \<noteq> JUndef" "sample_issue_value n deps \<noteq> JNull"
  "\<not> has_prop (sample_issue_value n deps) (js ''observed'')"
  by (simp_all add: sample_issue_value_def)

lemma sample_input_read:
  "run_state (normalize_input sample_locale sample_authorities sample_frontier_input) []
     = (Some (sample_entries, sample_lifecycle), [])"
proof -
  have "candidate_entries sample_locale 0 sample_entries = State_Monad.return sample_entries"
    by (simp add: sample_input_simps candidate_keys_def)
  moreover have "duplicate_entries sample_locale 0 sample_entries [] = State_Monad.return ()"
    by (simp add: sample_input_simps)
  moreover have "normalize_lifecycle sample_locale sample_authorities sample_frontier_input sample_entries
      = State_Monad.return sample_lifecycle"
    by (simp add: normalize_lifecycle_def sample_frontier_input_def sample_input_simps candidate_issue_def sample_lifecycle_def)
  ultimately show ?thesis
    by (simp add: normalize_input_def input_checks_def sample_frontier_input_def unknown_properties_known input_keys_def
        max_frontier_candidates_def) (simp add: sample_entries_def)
qed

definition sample_normalized :: "frontier_candidate list" where
  "sample_normalized =
     [\<lparr>fc_reference = sample_reference 1, fc_issue = Some (sample_lifecycle_issue 1 [sample_reference 2]),
       fc_implementation = \<lparr>ie_contract = None, ie_satisfied = False, ie_active = False, ie_invalid = False\<rparr>,
       fc_change = change_evidence_of False False, fc_dependencies = [sample_reference 2], fc_diagnostics = []\<rparr>,
      \<lparr>fc_reference = sample_reference 2, fc_issue = Some (sample_lifecycle_issue 2 []),
       fc_implementation = \<lparr>ie_contract = None, ie_satisfied = False, ie_active = False, ie_invalid = False\<rparr>,
       fc_change = change_evidence_of True False, fc_dependencies = [], fc_diagnostics = []\<rparr>]"

lemma sample_change [simp]:
  "change_reference sample_merged = sample_reference 2" "ch_state sample_merged = MERGED"
  "push_all [] = State_Monad.return ()" "change_evidence_of a b\<lparr>ce_invalid := False\<rparr> = change_evidence_of a b"
  by (simp_all add: change_reference_def sample_merged_def sample_reference_def push_all_def State_Monad.return_def
      change_evidence_of_def)

lemma sample_input_normalized:
  "normalize_candidates sample_locale sample_authorities sample_lifecycle sample_entries = sample_normalized"
  by (simp add: normalize_candidates_def map_filter_simps normalize_candidate_def sample_input_simps candidate_checks_def
      Let_def sample_lifecycle_def find_issue_def local_issue_def issues_differ_def same_reference_def issue_checks_of_def
      normalize_implementation_def normalize_frontier_change_def change_checks_value_def change_checks_of_def
      sample_authorities_def semantic_dependencies_def dependencies_disagree_def
      union_references_def sort_references_def decided_def sample_normalized_def)

lemma sample_frontier_ready:
  "fp_valid (frontier_of sample_locale sample_normalized [])"
  "fp_ready (frontier_of sample_locale sample_normalized []) = [sample_reference 1]"
  by code_simp+

theorem ready_work_unblocked_by_proof_witness:
  "\<exists>p vs entry s. project_frontier sample_locale sample_authorities sample_frontier_input = Inr p \<and>
     sample_reference 1 \<in> set (fp_ready p) \<and> entry \<in> set vs \<and>
     run_state (normalize_input sample_locale sample_authorities sample_frontier_input) [] = (Some (vs, sample_lifecycle), []) \<and>
     same_reference sample_locale s (sample_reference 2) \<and> proven_done sample_locale sample_authorities entry s"
proof -
  define p where "p = frontier_of sample_locale sample_normalized []"
  have p: "project_frontier sample_locale sample_authorities sample_frontier_input = Inr p"
      "sample_reference 1 \<in> set (fp_ready p)"
    using sample_frontier_ready
    by (simp_all add: p_def project_frontier_def try_project_frontier_def sample_input_read sample_input_normalized Let_def)
  from ready_work_unblocked_by_proof [OF p] obtain c where c: "c \<in> set sample_normalized" "fc_reference c = sample_reference 1"
      "\<forall>d \<in> set (fc_dependencies c). \<exists>entry \<in> set sample_entries. \<exists>s.
         read_reference sample_locale (get_prop entry (js ''reference'')) (js ''$'') = Some s \<and>
         same_reference sample_locale s d \<and> proven_done sample_locale sample_authorities entry s"
    by (auto simp: sample_input_read sample_input_normalized)
  then have "sample_reference 2 \<in> set (fc_dependencies c)"
    by (auto simp: sample_normalized_def sample_reference_def)
  with c(3) obtain entry s where "entry \<in> set sample_entries" "same_reference sample_locale s (sample_reference 2)"
      "proven_done sample_locale sample_authorities entry s"
    by blast
  with p show ?thesis by (auto simp: sample_input_read)
qed

subsection \<open>Raw Issue evidence of a candidate\<close>

lemma grows_candidate_parts [checked]:
  "grows (push_all ds)" "grows (normalize_implementation lf fa v path r)" "grows (normalize_frontier_change lf fa v path r)"
  "grows (issue_checks_of lf n r issue)" "grows (self_dependencies lf path r deps)" "grows (local_issue lf n c)"
proof -
  show push: "grows (push_all ds)" for ds by (simp add: push_all_def grows_def)
  show "grows (normalize_implementation lf fa v path r)"
    by (auto simp: normalize_implementation_def intro!: checked push split: prod.split)
  show "grows (normalize_frontier_change lf fa v path r)"
    by (auto simp: normalize_frontier_change_def intro!: checked push split: prod.split)
  show "grows (issue_checks_of lf n r issue)"
    by (auto simp: issue_checks_of_def Let_def intro!: checked split: option.split)
  show "grows (self_dependencies lf path r deps)"
    by (induction deps) (auto intro!: checked)
  show "grows (local_issue lf n c)"
    by (auto simp: local_issue_def intro!: checked)
qed

lemma clean_foreign_remark [simp]: "\<not> clean_run (foreign_remark path message) y"
  by (simp add: clean_run_def foreign_remark_def remark_values_def max_frontier_diagnostics_def)

lemma clean_normalize_reference: "clean_run (normalize_reference lf v path) r \<Longrightarrow> r \<noteq> None"
  by (auto simp: normalize_reference_def clean_run_bind checked)

lemma no_dependency_evidence_noted:
  assumes "dependency_evidence_value (get_prop v (js ''dependsOnEvidence'')) = None"
  shows "\<not> clean_run (lifecycle_issue_from_projection lf v path observed) y"
proof -
  have "\<not> clean_run (issue_dependencies lf v path observed r) i" for r i
    using assms by (auto simp: issue_dependencies_def Let_def clean_run_bind checked)
  then show ?thesis
    by (auto simp: lifecycle_issue_from_projection_def clean_run_bind checked dest: clean_normalize_reference
        split: option.splits)
qed

text \<open>
  A candidate that brings its Issue in the raw form that the projection of lifecycles takes, without
  dependency evidence, is always invalid: its own evidence is read as a projected Issue as well.
\<close>

lemma raw_candidate_issue_invalid:
  assumes "normalize_candidate lf fa e n v = Some c" and "is_record (local_issue_value v)"
    and "dependency_evidence_value (get_prop (local_issue_value v) (js ''dependsOnEvidence'')) = None"
  shows "own_class c = Some INVALID"
proof -
  obtain r x ds where run: "run_state (candidate_checks lf fa e n v r) [] = (x, ds)" and c: "c = x\<lparr>fc_diagnostics := ds\<rparr>"
    using assms(1) by (auto simp: normalize_candidate_def case_prod_beta prod_eq_iff)
  have "ds \<noteq> []"
  proof
    assume "ds = []"
    with run have "clean_run (candidate_checks lf fa e n v r) x" by (simp add: clean_run_def)
    then obtain own where "clean_run (local_issue lf n v) own"
      by (auto simp: candidate_checks_def Let_def clean_run_bind checked)
    moreover have "local_issue_value v \<noteq> JUndef" using assms(2) by auto
    ultimately show False
      using no_dependency_evidence_noted [OF assms(3)]
      by (auto simp: local_issue_def clean_run_bind checked)
  qed
  then show ?thesis using c by (simp add: own_class_def)
qed

end
