(* ===== verification/Governed_Artifacts.thy ===== *)
theory Governed_Artifacts
  imports Change_Planning
begin

text \<open>
  The checks of \<^verbatim>\<open>src/src/change.ts\<close> on governed artifacts, a contract with the
  body it governs: the root Issue that issuance requires
  (\<^verbatim>\<open>validateGovernedRootIssueEvidence\<close>), the pull request of merge admission
  (\<^verbatim>\<open>validateAdmissionPullRequestContract\<close>) and the Issue artifact of Ready
  (\<^verbatim>\<open>validateReadyIssueArtifact\<close>).  The contract validator, the artifact parser and
  the renderer are parameters (\<^verbatim>\<open>artifact_authority\<close>): a contract is valid when it
  has no violation, and violations have messages.
\<close>

subsection \<open>The artifact contracts\<close>

text \<open>
  A violation of an artifact may lack a path or a message.  An artifact that does not satisfy its
  contract comes with its violations and the diagnostics of its parse; the checks that throw are
  \<^const>\<open>None\<close>.
\<close>

type_synonym artifact_violation = "jstr option \<times> jstr option"

datatype artifact_check =
    Artifact_Valid jsval jsval
  | Artifact_Invalid "artifact_violation list" "artifact_violation list"

record artifact_authority =
  aa_contract :: "jsval \<Rightarrow> (jstr \<times> jstr) list"
  aa_existing_issue :: "jsval \<Rightarrow> jstr option \<Rightarrow> change_identity option \<Rightarrow> artifact_check option"
  aa_existing_pull :: "jsval \<Rightarrow> jstr option \<Rightarrow> artifact_check option"
  aa_render_issue :: "jsval \<Rightarrow> jsval \<Rightarrow> jsval \<Rightarrow> jstr option"

definition max_artifact_body_length :: nat where "max_artifact_body_length = 1048576"

definition invalid_contract :: "jstr \<Rightarrow> jstr \<Rightarrow> unit checked" where
  "invalid_contract path message = add_diagnostic ''CHANGE_PROVENANCE_INVALID_PR_CONTRACT'' path message"

definition contract_unless :: "bool \<Rightarrow> jstr \<Rightarrow> string \<Rightarrow> unit checked" where
  "contract_unless b path message = report_if (\<not> b) ''CHANGE_PROVENANCE_INVALID_PR_CONTRACT'' path (js message)"

definition admission_path :: "jstr \<Rightarrow> jstr \<Rightarrow> jstr" where
  "admission_path root path = (if path = js ''$'' then root else root @ drop 1 path)"

fun add_contract_violations :: "jstr \<Rightarrow> (jstr \<times> jstr) list \<Rightarrow> unit checked" where
  "add_contract_violations root [] = State_Monad.return ()"
| "add_contract_violations root ((path, message) # vs) = do {
     invalid_contract (admission_path root path) message;
     add_contract_violations root vs
   }"

fun add_artifact_violations :: "jstr \<Rightarrow> artifact_violation list \<Rightarrow> unit checked" where
  "add_artifact_violations root [] = State_Monad.return ()"
| "add_artifact_violations root ((path, message) # vs) = do {
     invalid_contract (admission_path root (case path of None \<Rightarrow> js ''$.body'' | Some p \<Rightarrow> p))
       (case message of None \<Rightarrow> js ''invalid'' | Some m \<Rightarrow> m);
     add_artifact_violations root vs
   }"

definition artifact_violations :: "jstr \<Rightarrow> string \<Rightarrow> artifact_violation list \<Rightarrow> artifact_violation list \<Rightarrow> unit checked" where
  "artifact_violations path unsatisfied vs parse_ds =
     (case (if vs \<noteq> [] then vs else parse_ds) of
        [] \<Rightarrow> invalid_contract path (js unsatisfied)
      | vs \<Rightarrow> add_artifact_violations path vs)"

subsection \<open>The provenance of a contract\<close>

text \<open>The texts that differ between the three uses.\<close>

record contract_texts =
  ct_missing :: string
  ct_host :: string
  ct_repository :: string
  ct_no_repository :: string
  ct_base :: string

definition pull_contract_texts :: contract_texts where
  "pull_contract_texts =
     \<lparr>ct_missing = ''The pull-request contract must carry trusted repository provenance.'',
      ct_host = ''The pull-request contract belongs to a different repository host.'',
      ct_repository = ''The pull-request contract does not identify the Change repository.'',
      ct_no_repository = ''The governed pull-request contract must carry a repository database identity.'',
      ct_base = ''The governed pull-request contract was not resolved from the canonical base branch.''\<rparr>"

definition governed_issue_texts :: contract_texts where
  "governed_issue_texts =
     \<lparr>ct_missing = ''The governed root Issue contract must carry trusted repository provenance.'',
      ct_host = ''The governed root Issue contract belongs to a different repository host.'',
      ct_repository = ''The governed root Issue contract does not identify the Change repository.'',
      ct_no_repository = ''The governed root Issue contract must carry a repository database identity.'',
      ct_base = ''The governed root Issue contract was not resolved from the canonical base branch.''\<rparr>"

definition ready_issue_texts :: contract_texts where
  "ready_issue_texts =
     \<lparr>ct_missing = ''The root Issue contract must carry trusted repository provenance.'',
      ct_host = ''The root Issue contract belongs to a different repository host.'',
      ct_repository = ''The root Issue contract does not identify the Change repository.'',
      ct_no_repository = ''The root Issue contract must carry a repository database identity.'',
      ct_base = ''The root Issue contract was not resolved from the canonical base branch.''\<rparr>"

text \<open>
  The repository is given by its host and its id; an undefined base branch
  (\<^const>\<open>JUndef\<close>) is not compared.
\<close>

definition contract_provenance ::
  "(jstr \<Rightarrow> jstr) \<Rightarrow> contract_texts \<Rightarrow> jstr \<Rightarrow> (jstr \<times> jstr) option \<Rightarrow> jsval \<Rightarrow> jsval \<Rightarrow> unit checked" where
  "contract_provenance lc t path repository base contract =
     (if get_prop contract (js ''provenance'') = JUndef
      then contract_unless False (path @ js ''.provenance'') (ct_missing t)
      else do {
        contract_unless (case repository of None \<Rightarrow> True
            | Some (host, _) \<Rightarrow> to_lower lc (plan_text contract [''provenance'', ''repository'', ''host'']) = host)
          (path @ js ''.provenance.repository.host'') (ct_host t);
        contract_unless (case repository of None \<Rightarrow> True
            | Some (_, rid) \<Rightarrow> plan_at contract [''provenance'', ''repository'', ''repositoryId''] = JStr rid)
          (path @ js ''.provenance.repository.repositoryId'') (ct_repository t);
        contract_unless (plan_at contract [''provenance'', ''repository'', ''repositoryId''] \<noteq> JUndef)
          (path @ js ''.provenance.repository.repositoryId'') (ct_no_repository t);
        report_if (base \<noteq> JUndef \<and> plan_at contract [''provenance'', ''ref''] \<noteq> base)
          ''CHANGE_PROVENANCE_BASE_MISMATCH'' (path @ js ''.provenance.ref'') (js (ct_base t))
      })"

definition repository_of :: "change_identity option \<Rightarrow> (jstr \<times> jstr) option" where
  "repository_of = map_option (\<lambda>i. (repository_host i, repository_id i))"

subsection \<open>Bodies\<close>

text \<open>A string or null.\<close>

fun body_text :: "jsval \<Rightarrow> jstr option option" where
  "body_text (JStr s) = Some (Some s)"
| "body_text JNull = Some None"
| "body_text _ = None"

record body_texts =
  bt_type :: string
  bt_bound :: string
  bt_unsatisfied :: string
  bt_failed :: string

definition body_checks ::
  "body_texts \<Rightarrow> jstr \<Rightarrow> jsval \<Rightarrow> (jstr option \<Rightarrow> artifact_check option) \<Rightarrow> unit checked" where
  "body_checks t path v existing =
     (case body_text v of
        None \<Rightarrow> invalid_contract path (js (bt_type t))
      | Some body \<Rightarrow>
          if max_artifact_body_length < length (or_empty body) then invalid_contract path (js (bt_bound t))
          else case existing body of
                 None \<Rightarrow> invalid_contract path (js (bt_failed t))
               | Some (Artifact_Valid values deps) \<Rightarrow> State_Monad.return ()
               | Some (Artifact_Invalid vs ds) \<Rightarrow> artifact_violations path (bt_unsatisfied t) vs ds)"

definition pull_body_texts :: body_texts where
  "pull_body_texts =
     \<lparr>bt_type = ''Physical pull-request body must be a string or null.'',
      bt_bound = ''Physical pull-request body exceeds the bounded evidence limit.'',
      bt_unsatisfied = ''Physical pull-request body does not satisfy the governed contract.'',
      bt_failed = ''Governed pull-request contract validation failed.''\<rparr>"

definition ready_body_texts :: body_texts where
  "ready_body_texts =
     \<lparr>bt_type = ''Artifact body must be a string or null.'',
      bt_bound = ''Artifact body exceeds the bounded evidence limit.'',
      bt_unsatisfied = ''Artifact body does not satisfy the governed contract.'',
      bt_failed = ''Governed artifact contract validation failed.''\<rparr>"

definition artifact_kind_is :: "jsval \<Rightarrow> string \<Rightarrow> bool" where
  "artifact_kind_is contract kind \<longleftrightarrow> get_prop contract (js ''artifactKind'') = JStr (js kind)"

subsection \<open>The pull request of merge admission\<close>

definition admission_contract_checks ::
  "(jstr \<Rightarrow> jstr) \<Rightarrow> artifact_authority \<Rightarrow> jsval \<Rightarrow> jsval \<Rightarrow> change_identity option \<Rightarrow> jsval \<Rightarrow> unit checked" where
  "admission_contract_checks lc aa contract body i base =
     (case aa_contract aa contract of
        v # vs \<Rightarrow> add_contract_violations (js ''$.pullRequest.contract'') (v # vs)
      | [] \<Rightarrow> do {
          contract_unless (artifact_kind_is contract ''pull_request'') (js ''$.pullRequest.contract.artifactKind'')
            ''The governed contract must be a pull-request contract.'';
          contract_provenance lc pull_contract_texts (js ''$.pullRequest.contract'') (repository_of i) base contract;
          body_checks pull_body_texts (js ''$.pullRequest.body'') body (aa_existing_pull aa contract)
        })"

subsection \<open>The root Issue of issuance\<close>

definition governed_body_checks :: "artifact_authority \<Rightarrow> jsval \<Rightarrow> jsval \<Rightarrow> unit checked" where
  "governed_body_checks aa contract v =
     (let path = js ''$.governedIssue.body'' in
      case v of
        JStr body \<Rightarrow>
          if max_artifact_body_length < length body
          then invalid_contract path (js ''The governed root Issue body exceeds the bounded evidence limit.'')
          else if \<not> artifact_kind_is contract ''issue'' then State_Monad.return ()
          else (case aa_existing_issue aa contract (Some body) None of
                  None \<Rightarrow> invalid_contract path (js ''Governed root Issue contract validation failed.'')
                | Some (Artifact_Invalid vs ds) \<Rightarrow>
                    artifact_violations path ''The governed root Issue body does not satisfy the repository contract.'' vs ds
                | Some (Artifact_Valid values deps) \<Rightarrow>
                    (case aa_render_issue aa contract values deps of
                       None \<Rightarrow> invalid_contract path (js ''Governed root Issue contract validation failed.'')
                     | Some canonical \<Rightarrow>
                         contract_unless (canonical = body) path
                           ''The governed root Issue body is not the canonical rendered representation.''))
      | _ \<Rightarrow> invalid_contract path (js ''The governed root Issue body must be a string.''))"

definition artifact_keys :: "jstr list" where
  "artifact_keys = [js ''contract'', js ''body'']"

definition artifact_property :: "jsval \<Rightarrow> jstr \<Rightarrow> string \<Rightarrow> unit checked" where
  "artifact_property v path key =
     report_if (\<not> has_prop v (js key)) ''CHANGE_MISSING_PROPERTY'' (sub_path path (js key)) (js ''Property is required.'')"

definition governed_issue_checks ::
  "(jstr \<Rightarrow> jstr) \<Rightarrow> artifact_authority \<Rightarrow> jsval \<Rightarrow> change_identity option \<Rightarrow> jsval \<Rightarrow> unit checked" where
  "governed_issue_checks lc aa v i base =
     (let path = js ''$.governedIssue''; contract = get_prop v (js ''contract'') in
      if \<not> is_record v
      then add_diagnostic ''CHANGE_PROVENANCE_INVALID_INPUT'' path (js ''Governed root Issue evidence must be an object.'')
      else do {
        add_unknown_properties v artifact_keys path;
        artifact_property v path ''contract'';
        artifact_property v path ''body'';
        (case aa_contract aa contract of
           x # xs \<Rightarrow> add_contract_violations (path @ js ''.contract'') (x # xs)
         | [] \<Rightarrow> do {
             contract_unless (artifact_kind_is contract ''issue'') (path @ js ''.contract.artifactKind'')
               ''The governed root contract must be an Issue contract.'';
             contract_provenance lc governed_issue_texts (path @ js ''.contract'')
               (map_option (\<lambda>(host, rid). (to_lower lc host, rid)) (repository_of i)) base contract;
             governed_body_checks aa contract (get_prop v (js ''body''))
           })
      })"

definition validate_governed_root_issue ::
  "(jstr \<Rightarrow> jstr) \<Rightarrow> artifact_authority \<Rightarrow> jsval \<Rightarrow> change_identity option \<Rightarrow> jsval \<Rightarrow> change_diagnostic list" where
  "validate_governed_root_issue lc aa v i base = diagnostic_report (snd (run_checks (governed_issue_checks lc aa v i base)))"

subsection \<open>Artifacts as evidence\<close>

text \<open>The two properties of an artifact, each with whether it is there.\<close>

record artifact_evidence =
  ae_contract :: "jsval option"
  ae_body :: "jsval option"

definition own_value :: "jsval \<Rightarrow> string \<Rightarrow> jsval option" where
  "own_value v key = (if has_prop v (js key) then Some (get_prop v (js key)) else None)"

definition artifact_checks :: "jsval \<Rightarrow> jstr \<Rightarrow> string \<Rightarrow> artifact_evidence option checked" where
  "artifact_checks v path message =
     (if \<not> is_record v then reject_with ''CHANGE_PROVENANCE_INVALID_INPUT'' path (js message)
      else do {
        add_unknown_properties v artifact_keys path;
        artifact_property v path ''contract'';
        artifact_property v path ''body'';
        State_Monad.return (Some \<lparr>ae_contract = own_value v ''contract'', ae_body = own_value v ''body''\<rparr>)
      })"

definition parse_admission_pull_request :: "jsval \<Rightarrow> artifact_evidence option checked" where
  "parse_admission_pull_request v =
     artifact_checks v (js ''$.pullRequest'') ''Merge-admission pull-request evidence must be an object.''"

definition parse_ready_artifact :: "jsval \<Rightarrow> jstr \<Rightarrow> artifact_evidence option checked" where
  "parse_ready_artifact v path = artifact_checks v path ''Ready artifact evidence must be an object.''"

subsection \<open>The Issue artifact of Ready\<close>

definition ready_artifact_body ::
  "artifact_authority \<Rightarrow> jsval \<Rightarrow> jsval \<Rightarrow> jstr \<Rightarrow> change_identity option \<Rightarrow> unit checked" where
  "ready_artifact_body aa contract body path subject =
     body_checks ready_body_texts path body
       (\<lambda>b. if artifact_kind_is contract ''issue'' then aa_existing_issue aa contract b subject
            else aa_existing_pull aa contract b)"

definition ready_issue_artifact ::
  "(jstr \<Rightarrow> jstr) \<Rightarrow> artifact_authority \<Rightarrow> artifact_evidence option \<Rightarrow> change_identity option \<Rightarrow> jsval \<Rightarrow> unit checked" where
  "ready_issue_artifact lc aa e i base =
     (case Option.bind e (\<lambda>e. Option.bind (ae_contract e) (\<lambda>c. map_option (Pair c) (ae_body e))) of
        None \<Rightarrow> State_Monad.return ()
      | Some (contract, body) \<Rightarrow>
          (case aa_contract aa contract of
             v # vs \<Rightarrow> add_contract_violations (js ''$.issue.contract'') (v # vs)
           | [] \<Rightarrow>
               if \<not> artifact_kind_is contract ''issue''
               then contract_unless False (js ''$.issue.contract.artifactKind'')
                      ''The root Issue contract must be an Issue contract.''
               else do {
                 contract_provenance lc ready_issue_texts (js ''$.issue.contract'') (repository_of i) base contract;
                 ready_artifact_body aa contract body (js ''$.issue.body'') i
               }))"

subsection \<open>What the checks accept\<close>

lemma grows_contract_parts [checked]:
  "grows (invalid_contract path message)" "grows (contract_unless b path m)" "grows (artifact_property v path key)"
  by (simp_all add: invalid_contract_def contract_unless_def artifact_property_def checked)

lemma grows_contract_violations [checked]: "grows (add_contract_violations root vs)"
  by (induction vs) (auto intro!: checked)

lemma grows_artifact_violations [checked]: "grows (add_artifact_violations root vs)"
  by (induction vs) (auto intro!: checked)

lemma grows_contract_provenance [checked]: "grows (contract_provenance lc t path r base contract)"
  by (auto simp: contract_provenance_def intro!: checked)

lemma grows_body_checks [checked]: "grows (body_checks t path v existing)"
  by (auto simp: body_checks_def artifact_violations_def intro!: checked split: option.split artifact_check.split list.split)

lemma grows_admission_contract [checked]: "grows (admission_contract_checks lc aa contract body i base)"
  by (auto simp: admission_contract_checks_def intro!: checked split: list.split)

lemma grows_artifact_checks [checked]:
  "grows (artifact_checks v path m)" "grows (parse_admission_pull_request v)" "grows (parse_ready_artifact v path)"
  by (auto simp: artifact_checks_def parse_admission_pull_request_def parse_ready_artifact_def intro!: checked)

lemma grows_ready_issue [checked]: "grows (ready_issue_artifact lc aa e i base)"
  by (auto simp: ready_issue_artifact_def ready_artifact_body_def intro!: checked split: option.split list.split)

lemma clean_contract_parts [simp]:
  "\<not> clean_run (invalid_contract path message) y"
  "clean_run (contract_unless b path m) y \<longleftrightarrow> b"
  "clean_run (artifact_property v path key) y \<longleftrightarrow> has_prop v (js key)"
  by (simp_all add: invalid_contract_def contract_unless_def artifact_property_def)

lemma clean_artifact_violations [simp]: "\<not> clean_run (artifact_violations path m vs ds) y"
proof -
  have "\<not> clean_run (add_artifact_violations path vs) y" if "vs \<noteq> []" for vs
    using that by (cases vs) (auto simp: clean_run_bind checked)
  then show ?thesis by (auto simp: artifact_violations_def split: list.split)
qed

lemma clean_contract_violations [simp]: "clean_run (add_contract_violations root vs) y \<longleftrightarrow> vs = []"
  by (cases vs) (auto simp: clean_run_bind checked)

text \<open>The contract was resolved for this repository and from this base branch.\<close>

definition contract_for :: "(jstr \<Rightarrow> jstr) \<Rightarrow> (jstr \<times> jstr) option \<Rightarrow> jsval \<Rightarrow> jsval \<Rightarrow> bool" where
  "contract_for lc repository base contract \<longleftrightarrow>
     get_prop contract (js ''provenance'') \<noteq> JUndef \<and>
     plan_at contract [''provenance'', ''repository'', ''repositoryId''] \<noteq> JUndef \<and>
     (\<forall>host rid. repository = Some (host, rid) \<longrightarrow>
        to_lower lc (plan_text contract [''provenance'', ''repository'', ''host'']) = host \<and>
        plan_at contract [''provenance'', ''repository'', ''repositoryId''] = JStr rid) \<and>
     (base \<noteq> JUndef \<longrightarrow> plan_at contract [''provenance'', ''ref''] = base)"

lemma clean_contract_provenance [simp]:
  "clean_run (contract_provenance lc t path repository base contract) y \<longleftrightarrow> contract_for lc repository base contract"
  by (cases repository) (auto simp: contract_provenance_def contract_for_def clean_run_bind checked)

definition satisfied_body :: "jsval \<Rightarrow> (jstr option \<Rightarrow> artifact_check option) \<Rightarrow> bool" where
  "satisfied_body v existing \<longleftrightarrow>
     (\<exists>body values deps. body_text v = Some body \<and> length (or_empty body) \<le> max_artifact_body_length \<and>
        existing body = Some (Artifact_Valid values deps))"

lemma clean_body_checks [simp]: "clean_run (body_checks t path v existing) y \<longleftrightarrow> satisfied_body v existing"
  by (auto simp: body_checks_def satisfied_body_def split: option.split artifact_check.split)

definition governed_pull_request ::
  "(jstr \<Rightarrow> jstr) \<Rightarrow> artifact_authority \<Rightarrow> change_identity option \<Rightarrow> jsval \<Rightarrow> jsval \<Rightarrow> jsval \<Rightarrow> bool" where
  "governed_pull_request lc aa i base contract body \<longleftrightarrow>
     aa_contract aa contract = [] \<and> artifact_kind_is contract ''pull_request'' \<and>
     contract_for lc (repository_of i) base contract \<and> satisfied_body body (aa_existing_pull aa contract)"

lemma clean_admission_contract [simp]:
  "clean_run (admission_contract_checks lc aa contract body i base) y \<longleftrightarrow>
     governed_pull_request lc aa i base contract body"
  by (auto simp: admission_contract_checks_def governed_pull_request_def clean_run_bind checked split: list.split)

end
