(* ===== verification/Issuance_Planning.thy ===== *)
theory Issuance_Planning
  imports Plan_Validation Governed_Artifacts
begin

text \<open>
  Idempotent issuance, \<^verbatim>\<open>planChangeIssuance\<close> and
  \<^verbatim>\<open>validateChangeIssuancePlan\<close> of \<^verbatim>\<open>src/src/change.ts\<close>: from GitHub
  evidence, either the plan that creates branch, provenance commit and pull request of a Change nobody
  issued yet, or the plan without effects that returns the Change that is there.  The planner passes its
  own plan through the validator, so both are here.
\<close>

subsection \<open>Parts of an issuance plan\<close>

definition issuance_healthy_state :: "change_state \<Rightarrow> bool" where
  "issuance_healthy_state s \<longleftrightarrow> s \<in> set [DRAFT, REVIEW, ACCEPTED, MERGED, ABORTED]"

definition invalid_plan :: "jstr \<Rightarrow> string \<Rightarrow> unit checked" where
  "invalid_plan path message = add_diagnostic ''CHANGE_INVALID_PLAN'' path (js message)"

definition plan_unless :: "bool \<Rightarrow> string \<Rightarrow> string \<Rightarrow> unit checked" where
  "plan_unless b path message = report_if (\<not> b) ''CHANGE_INVALID_PLAN'' (js path) (js message)"

definition issuance_text :: "jsval \<Rightarrow> jstr \<Rightarrow> string \<Rightarrow> nat \<Rightarrow> jstr option checked" where
  "issuance_text v path label m =
     (case bounded_text m v of
        None \<Rightarrow> reject_with ''CHANGE_INVALID_PLAN'' path (js (label @ '' is invalid.''))
      | Some s \<Rightarrow> State_Monad.return (Some s))"

definition max_idempotency_key_length :: nat where "max_idempotency_key_length = 512"

definition missing_at :: "jstr \<Rightarrow> unit checked" where
  "missing_at path = add_diagnostic ''CHANGE_MISSING_PROPERTY'' path (js ''Property is required.'')"

definition transaction_keys :: "jstr list" where
  "transaction_keys = [js ''operation'', js ''identity'', js ''idempotencyKey'']"

definition transaction_checks :: "(jstr \<Rightarrow> jstr) \<Rightarrow> jsval \<Rightarrow> issuance_transaction option checked" where
  "transaction_checks lc v =
     (if \<not> is_record v
      then reject_with ''CHANGE_INVALID_PLAN'' (js ''$.transaction'') (js ''Issuance transaction must be an object.'')
      else do {
        add_unknown_properties v transaction_keys (js ''$.transaction'');
        plan_unless (get_prop v (js ''operation'') = JStr (js ''issue'')) ''$.transaction.operation''
          ''Issuance operation must be issue.'';
        i \<leftarrow> (if \<not> has_prop v (js ''identity'')
             then do { missing_at (js ''$.transaction.identity''); State_Monad.return None }
             else adopt (validate_change_identity lc (get_prop v (js ''identity'')) (js ''$.transaction.identity'')));
        key \<leftarrow> issuance_text (get_prop v (js ''idempotencyKey'')) (js ''$.transaction.idempotencyKey'') ''Idempotency key''
                max_idempotency_key_length;
        when_clean (case (i, key) of
           (Some i, Some key) \<Rightarrow> Some \<lparr>it_identity = i, it_idempotency_key = key\<rparr>
         | _ \<Rightarrow> None)
      })"

definition verification_keys :: "jstr list" where
  "verification_keys =
     [js ''phase'', js ''status'', js ''canonicalBranch'', js ''canonicalBaseBranch'', js ''state'', js ''pullRequest'']"

definition expected_number :: "jsval \<Rightarrow> int option checked" where
  "expected_number v =
     (if \<not> has_prop v (js ''pullRequest'')
      then do { missing_at (js ''$.verification.pullRequest''); State_Monad.return None }
      else let p = get_prop v (js ''pullRequest'') in
        if \<not> is_record p
        then reject_with ''CHANGE_INVALID_PLAN'' (js ''$.verification.pullRequest'')
               (js ''Pull-request expectation must be an object.'')
        else do {
          add_unknown_properties p [js ''required'', js ''number''] (js ''$.verification.pullRequest'');
          plan_unless (get_prop p (js ''required'') = JBool True) ''$.verification.pullRequest.required''
            ''Pull-request expectation must require a canonical pull request.'';
          optional_check p (js ''number'') positive_integer ''CHANGE_INVALID_PLAN'' (js ''$.verification.pullRequest'')
            (js ''Expected pull-request number must be a positive safe integer.'')
        })"

definition healthy_state_value :: "jsval \<Rightarrow> change_state option" where
  "healthy_state_value v =
     (case change_state_value v of Some s \<Rightarrow> if issuance_healthy_state s then Some s else None | None \<Rightarrow> None)"

definition verification_checks :: "jsval \<Rightarrow> issuance_verification option checked" where
  "verification_checks v =
     (if \<not> is_record v
      then reject_with ''CHANGE_INVALID_PLAN'' (js ''$.verification'')
             (js ''Issuance verification expectation must be an object.'')
      else do {
        add_unknown_properties v verification_keys (js ''$.verification'');
        plan_unless (get_prop v (js ''phase'') = JStr (js ''post-effect'')) ''$.verification.phase''
          ''Verification phase must be post-effect.'';
        plan_unless (get_prop v (js ''status'') = JStr (js ''healthy'')) ''$.verification.status''
          ''Verification status must be healthy.'';
        branch \<leftarrow> issuance_text (get_prop v (js ''canonicalBranch'')) (js ''$.verification.canonicalBranch'')
                   ''Canonical branch'' max_change_branch_length;
        base \<leftarrow> issuance_text (get_prop v (js ''canonicalBaseBranch'')) (js ''$.verification.canonicalBaseBranch'')
                 ''Canonical base branch'' max_change_branch_length;
        s \<leftarrow> (case healthy_state_value (get_prop v (js ''state'')) of
                None \<Rightarrow> reject_with ''CHANGE_INVALID_PLAN'' (js ''$.verification.state'')
                          (js ''Verification state is not healthy.'')
              | Some s \<Rightarrow> State_Monad.return (Some s));
        n \<leftarrow> expected_number v;
        when_clean (case (branch, base, s) of
           (Some branch, Some base, Some s) \<Rightarrow>
             Some \<lparr>iv_branch = branch, iv_base = base, iv_state = s, iv_pull_request = n\<rparr>
         | _ \<Rightarrow> None)
      })"

subsection \<open>The transition behind a creation\<close>

definition issue_target_value :: "jsval option \<Rightarrow> jstr \<Rightarrow> jstr \<Rightarrow> jsval option \<Rightarrow> jsval" where
  "issue_target_value branch_plan branch base pull_plan =
     JObj (opt_prop ''branchPlan'' (\<lambda>p. p) branch_plan
           @ [(js ''branch'', JStr branch), (js ''baseBranch'', JStr base)]
           @ opt_prop ''semanticPullRequestPlan'' (\<lambda>p. p) pull_plan)"

definition issue_request_value :: "change \<Rightarrow> jsval \<Rightarrow> jsval" where
  "issue_request_value c target =
     JObj [(js ''version'', JNum (Integral 1)), (js ''transition'', JStr (js ''issue'')), (js ''change'', change_value c),
           (js ''target'', target)]"

text \<open>
  The message of what the planner throws: the lines of its report, its own message, or that of the error
  met while the diagnostics of the Semantic Pull Request plan were built or reported.
\<close>

definition violation_error :: "jstr \<Rightarrow> jstr \<times> jstr \<Rightarrow> jstr option" where
  "violation_error path v =
     (let p = semantic_plan_path path (fst v) in
      if snd v = [] then Some (js ''Change diagnostic messages cannot be empty.'')
      else if p = [] then Some (js ''Change diagnostic paths cannot be empty.'')
      else if max_diagnostic_path_length < length p
      then Some (js ''Change text exceeds its '' @ digits_of max_diagnostic_path_length @ js ''-character bound.'')
      else if max_diagnostic_message_length < length (snd v)
      then Some (js ''Change text exceeds its '' @ digits_of max_diagnostic_message_length @ js ''-character bound.'')
      else None)"

definition diagnostics_error_message :: "plan_authority \<Rightarrow> jsval option \<Rightarrow> jstr" where
  "diagnostics_error_message pa pull_plan =
     (case List.map_filter (violation_error (js ''$.target.semanticPullRequestPlan''))
             (case pull_plan of None \<Rightarrow> [] | Some p \<Rightarrow> fst (pa_pull_plan pa p)) of
        m # ms \<Rightarrow> m
      | [] \<Rightarrow> js ''At most '' @ digits_of max_change_diagnostics @ js '' Change diagnostics are supported.'')"

definition diagnostic_line :: "change_diagnostic \<Rightarrow> jstr" where
  "diagnostic_line d = cd_path d @ js '': '' @ cd_message d"

definition plan_error_message :: "plan_authority \<Rightarrow> jsval option \<Rightarrow> plan_error \<Rightarrow> jstr" where
  "plan_error_message pa pull_plan e =
     (case e of
        Plan_Invalid [] \<Rightarrow> js ''Change validation errors require at least one diagnostic.''
      | Plan_Invalid ds \<Rightarrow> join_with 10 (map diagnostic_line ds)
      | Plan_Error message \<Rightarrow> message
      | Diagnostics_Error \<Rightarrow> diagnostics_error_message pa pull_plan)"

subsection \<open>The validator\<close>

definition issuance_plan_keys :: "jstr list" where
  "issuance_plan_keys =
     [js ''version'', js ''operation'', js ''mode'', js ''sourceStatus'', js ''transaction'', js ''branchPlan'',
      js ''result'', js ''effects'', js ''verification'']"

fun mode_name :: "issuance_mode \<Rightarrow> jstr" where
  "mode_name Create_Mode = js ''create''"
| "mode_name Return_Existing = js ''return-existing''"

definition mode_value :: "jsval \<Rightarrow> issuance_mode option" where
  "mode_value v = find (\<lambda>m. v = JStr (mode_name m)) [Create_Mode, Return_Existing]"

definition source_status_value :: "jsval \<Rightarrow> projection_status option" where
  "source_status_value v =
     (if v = JStr (js ''absent'') then Some Absent else if v = JStr (js ''healthy'') then Some Healthy else None)"

definition listed_check :: "jsval \<Rightarrow> string \<Rightarrow> (jsval \<Rightarrow> 'a option) \<Rightarrow> string \<Rightarrow> 'a option checked" where
  "listed_check v key read message =
     required_check v (js key) (\<lambda>x. case read x of
       None \<Rightarrow> reject_with ''CHANGE_INVALID_PLAN'' (sub_path change_root (js key)) (js message)
     | Some y \<Rightarrow> State_Monad.return (Some y))"

record issuance_front =
  if_mode :: "issuance_mode option"
  if_source :: "projection_status option"
  if_transaction :: "issuance_transaction option"
  if_branch_plan :: "(jstr \<times> jstr) option"
  if_result :: "change option"

definition issuance_front_checks ::
  "(jstr \<Rightarrow> jstr) \<Rightarrow> plan_authority \<Rightarrow> jsval \<Rightarrow> issuance_front checked" where
  "issuance_front_checks lc pa v = do {
     add_unknown_properties v issuance_plan_keys change_root;
     version_check v (js ''Change issuance plan version is unsupported.'');
     plan_unless (get_prop v (js ''operation'') = JStr (js ''issue'')) ''$.operation'' ''Issuance operation must be issue.'';
     mode \<leftarrow> listed_check v ''mode'' mode_value ''Issuance mode is unsupported.'';
     source \<leftarrow> listed_check v ''sourceStatus'' source_status_value ''Issuance source status is unsupported.'';
     transaction \<leftarrow> required_check v (js ''transaction'') (transaction_checks lc);
     plan \<leftarrow> (if has_prop v (js ''branchPlan'')
             then consumed_branch_plan (pa_branch pa) (get_prop v (js ''branchPlan'')) (js ''$.branchPlan'')
             else State_Monad.return None);
     result \<leftarrow> required_check v (js ''result'') (\<lambda>x. adopt (validate_change lc x));
     State_Monad.return \<lparr>if_mode = mode, if_source = source, if_transaction = transaction, if_branch_plan = plan,
       if_result = result\<rparr>
   }"

definition issuance_verification_part :: "jsval \<Rightarrow> issuance_verification option checked" where
  "issuance_verification_part v = required_check v (js ''verification'') verification_checks"

text \<open>A creation is compared with the plan the transition planner makes for the Change before issuance.\<close>

definition created_plan :: "change_effect list \<Rightarrow> jsval option" where
  "created_plan effects = Option.bind (find (\<lambda>e. effect_kind e = K_CREATE_PULL_REQUEST) effects) plan_of"

definition change_before_issuance :: "change \<Rightarrow> change" where
  "change_before_issuance c = c\<lparr>ch_state := DEFINED, ch_projection := None\<rparr>"

definition creation_checks ::
  "plan_authority \<Rightarrow> plan_error + transition_plan \<Rightarrow> change \<Rightarrow> change_effect list \<Rightarrow> issuance_verification \<Rightarrow> unit checked" where
  "creation_checks pa expected result effects ver = do {
     plan_unless (ch_state result = DRAFT \<and> projected_pull_request result = None) ''$.result''
       ''A create issuance result must be a Draft Change without a preassigned pull request.'';
     plan_unless (iv_pull_request ver = None) ''$.verification.pullRequest.number''
       ''A create issuance plan cannot preassign a pull-request number.'';
     (case expected of
        Inl e \<Rightarrow> add_diagnostic ''CHANGE_INVALID_PLAN'' (js ''$.result'')
                    (js ''Create issuance transition is invalid: '' @ plan_error_message pa (created_plan effects) e)
      | Inr p \<Rightarrow> do {
          plan_unless (result = tp_result p) ''$.result'' ''Create result does not match the issue transition.'';
          plan_unless (effects = tp_effects p) ''$.effects'' ''Create effects do not match the issue transition.''
        })
   }"

definition existing_checks :: "change \<Rightarrow> change_effect list \<Rightarrow> issuance_verification \<Rightarrow> unit checked" where
  "existing_checks result effects ver = do {
     plan_unless (issuance_healthy_state (ch_state result) \<and> projected_pull_request result \<noteq> None) ''$.result''
       ''A return-existing result must be a healthy canonical Change.'';
     plan_unless (iv_pull_request ver = projected_pull_request result) ''$.verification.pullRequest.number''
       ''Existing verification must identify the returned canonical pull request.'';
     plan_unless (effects = []) ''$.effects'' ''Return-existing issuance must have no effects.''
   }"

definition issuance_agreement ::
  "plan_authority \<Rightarrow> jsval \<Rightarrow> issuance_mode \<Rightarrow> projection_status \<Rightarrow> issuance_transaction \<Rightarrow> (jstr \<times> jstr) option \<Rightarrow>
     change \<Rightarrow> change_effect list \<Rightarrow> issuance_verification \<Rightarrow> jstr \<Rightarrow> plan_error + transition_plan \<Rightarrow>
     issuance_plan option checked" where
  "issuance_agreement pa v mode source transaction plan result effects ver key expected = do {
     plan_unless (plan = None \<or> map_option fst plan = Some (iv_branch ver)) ''$.branchPlan.desired.name''
       ''Semantic Branch plan name must match issuance verification.'';
     plan_unless (plan = None \<or> map_option snd plan = Some (iv_base ver)) ''$.branchPlan.desired.source''
       ''Semantic Branch plan source must match issuance verification.'';
     plan_unless (it_identity transaction = ch_identity result) ''$.transaction.identity''
       ''Transaction identity must match the result.'';
     plan_unless (it_idempotency_key transaction = key) ''$.transaction.idempotencyKey''
       ''Idempotency key must be derived from the Change identity.'';
     plan_unless (source = (case mode of Create_Mode \<Rightarrow> Absent | Return_Existing \<Rightarrow> Healthy)) ''$.sourceStatus''
       ''Issuance mode does not match source status.'';
     plan_unless (iv_state ver = ch_state result) ''$.verification.state'' ''Verification state must match the result.'';
     plan_unless (projected_branch result = Some (iv_branch ver)) ''$.verification.canonicalBranch''
       ''Verification branch must match the result projection.'';
     (case mode of
        Create_Mode \<Rightarrow> creation_checks pa expected result effects ver
      | Return_Existing \<Rightarrow> existing_checks result effects ver);
     State_Monad.return (Some
       \<lparr>ip_mode = mode, ip_source_status = source,
        ip_transaction = \<lparr>it_identity = ch_identity result, it_idempotency_key = key\<rparr>,
        ip_branch_plan = map_option (\<lambda>p. pa_branch_plan pa (get_prop v (js ''branchPlan''))) plan,
        ip_result = result, ip_effects = effects, ip_verification = ver\<rparr>)
   }"

text \<open>
  None: an effect of the list cannot be reported, or the identity of the result has no key.  Both throw
  something else than a validation error of issuance.
\<close>

definition validate_issuance_plan ::
  "(jstr \<Rightarrow> jstr) \<Rightarrow> plan_authority \<Rightarrow> jsval \<Rightarrow> (change_diagnostic list + issuance_plan) option" where
  "validate_issuance_plan lc pa v =
     (if \<not> is_record v
      then Some (Inl (snd (run_checks (add_diagnostic ''CHANGE_INVALID_ROOT'' change_root
                                         (js ''Change issuance plan must be a JSON object.'')))))
      else case run_checks (issuance_front_checks lc pa v) of
        (front, ds) \<Rightarrow>
          (case plan_effects pa v ds of
             None \<Rightarrow> None
           | Some (effects, ds') \<Rightarrow>
               (case run_state (issuance_verification_part v) ds' of
                  (ver, ds'') \<Rightarrow>
                    (case (ds'', if_mode front, if_source front, if_transaction front, if_result front, ver) of
                       ([], Some mode, Some source, Some transaction, Some result, Some ver) \<Rightarrow>
                         (case change_identity_key lc (ch_identity result) of
                            Inl _ \<Rightarrow> None
                          | Inr key \<Rightarrow>
                              Some (validation_result (issuance_agreement pa v mode source transaction
                                (if_branch_plan front) result effects ver key
                                (plan_change_transition lc pa (issue_request_value (change_before_issuance result)
                                   (issue_target_value None (iv_branch ver) (iv_base ver) (created_plan effects)))))))
                     | _ \<Rightarrow> Some (Inl (diagnostic_report ds''))))))"

subsection \<open>The planner\<close>

text \<open>
  What issuance planning throws: its own validation error with a report, or any other error.  An empty
  or an overlong report cannot be made into a validation error.
\<close>

datatype issuance_error = Issuance_Invalid "change_diagnostic list" | Issuance_Error

definition issuance_invalid :: "change_diagnostic list \<Rightarrow> issuance_error" where
  "issuance_invalid ds = (if ds = [] \<or> max_change_diagnostics < length ds then Issuance_Error else Issuance_Invalid ds)"

definition build_issuance_verification :: "change \<Rightarrow> jstr \<Rightarrow> jstr \<Rightarrow> issuance_verification option" where
  "build_issuance_verification result branch base =
     (if \<not> issuance_healthy_state (ch_state result) then None
      else Some \<lparr>iv_branch = branch, iv_base = base, iv_state = ch_state result,
                 iv_pull_request = projected_pull_request result\<rparr>)"

text \<open>The plan of a projection that is absent or healthy; None: it throws.\<close>

definition issuance_plan_of ::
  "issuance_mode \<Rightarrow> change \<Rightarrow> jstr \<Rightarrow> jsval option \<Rightarrow> change \<Rightarrow> change_effect list \<Rightarrow> issuance_verification \<Rightarrow>
     issuance_plan" where
  "issuance_plan_of mode c key branch_plan result effects ver =
     \<lparr>ip_mode = mode, ip_source_status = (case mode of Create_Mode \<Rightarrow> Absent | Return_Existing \<Rightarrow> Healthy),
      ip_transaction = \<lparr>it_identity = ch_identity c, it_idempotency_key = key\<rparr>,
      ip_branch_plan = branch_plan, ip_result = result, ip_effects = effects, ip_verification = ver\<rparr>"

definition build_issuance_plan ::
  "(jstr \<Rightarrow> jstr) \<Rightarrow> plan_authority \<Rightarrow> projection_status \<Rightarrow> change \<Rightarrow> jstr \<Rightarrow> jstr \<Rightarrow> jsval option \<Rightarrow> jsval option \<Rightarrow>
     issuance_plan option" where
  "build_issuance_plan lc pa status c branch base branch_plan pull_plan =
     (case change_identity_key lc (ch_identity c) of
        Inl _ \<Rightarrow> None
      | Inr key \<Rightarrow>
          if status = Absent then
            (case plan_change_transition lc pa (issue_request_value c (issue_target_value branch_plan branch base pull_plan)) of
               Inl _ \<Rightarrow> None
             | Inr p \<Rightarrow>
                 map_option (issuance_plan_of Create_Mode c key branch_plan (tp_result p) (tp_effects p))
                   (build_issuance_verification (tp_result p) branch base))
          else
            map_option (issuance_plan_of Return_Existing c key branch_plan c [])
              (build_issuance_verification c branch base))"

definition verification_value :: "issuance_verification \<Rightarrow> jsval" where
  "verification_value ver =
     JObj [(js ''phase'', JStr (js ''post-effect'')), (js ''status'', JStr (js ''healthy'')),
           (js ''canonicalBranch'', JStr (iv_branch ver)), (js ''canonicalBaseBranch'', JStr (iv_base ver)),
           (js ''state'', JStr (change_state_name (iv_state ver))),
           (js ''pullRequest'', JObj ((js ''required'', JBool True) # opt_prop ''number'' number_value (iv_pull_request ver)))]"

definition transaction_value :: "issuance_transaction \<Rightarrow> jsval" where
  "transaction_value t =
     JObj [(js ''operation'', JStr (js ''issue'')), (js ''identity'', change_identity_value (it_identity t)),
           (js ''idempotencyKey'', JStr (it_idempotency_key t))]"

definition source_status_name :: "projection_status \<Rightarrow> jstr" where
  "source_status_name s = (if s = Absent then js ''absent'' else js ''healthy'')"

definition issuance_plan_value :: "issuance_plan \<Rightarrow> jsval" where
  "issuance_plan_value p =
     JObj ([(js ''version'', JNum (Integral 1)), (js ''operation'', JStr (js ''issue'')),
            (js ''mode'', JStr (mode_name (ip_mode p))),
            (js ''sourceStatus'', JStr (source_status_name (ip_source_status p))),
            (js ''transaction'', transaction_value (ip_transaction p))]
        @ opt_prop ''branchPlan'' (\<lambda>b. b) (ip_branch_plan p)
        @ [(js ''result'', change_value (ip_result p)), (js ''effects'', JArr (map effect_value (ip_effects p))),
           (js ''verification'', verification_value (ip_verification p))])"

definition issuance_failure_diagnostics :: "projection_result \<Rightarrow> change_diagnostic list" where
  "issuance_failure_diagnostics r =
     (if pr_diagnostics r \<noteq> [] then pr_diagnostics r
      else if pr_status r = Absent \<and> pr_change r = None
      then [\<lparr>cd_code = js ''CHANGE_ISSUANCE_ROOT_ISSUE_ABSENT'', cd_path = js ''$.evidence.issue'',
             cd_message = js ''Change issuance requires confirmed root Issue evidence.''\<rparr>]
      else [\<lparr>cd_code = js ''CHANGE_INVALID_PLAN'', cd_path = js ''$.projection'',
             cd_message = js ''Change projection cannot produce an issuance plan.''\<rparr>])"

text \<open>The Semantic Pull Request plan of the input, and the identity governed Issue evidence is checked for.\<close>

definition issuance_pull_plan :: "plan_authority \<Rightarrow> jsval \<Rightarrow> issuance_error + jsval option" where
  "issuance_pull_plan pa v =
     (if \<not> (is_record v \<and> has_prop v (js ''semanticPullRequestPlan'')) then Inr None
      else case plan_property (pa_pull_plan pa) v (js ''$'') (js ''semanticPullRequestPlan'') of
        (None, plan) \<Rightarrow> Inl Issuance_Error
      | (Some [], Some plan) \<Rightarrow> Inr (Some plan)
      | (Some ds, plan) \<Rightarrow> Inl (issuance_invalid (diagnostic_report ds)))"

definition claimed_identity :: "jsval \<Rightarrow> change_identity option" where
  "claimed_identity v =
     (let c = get_prop v (js ''change'');
          raw = (if is_record c \<and> has_prop c (js ''identity'') then get_prop c (js ''identity'') else c) in
      if \<not> is_record raw then None
      else case (get_prop raw (js ''repositoryHost''), get_prop raw (js ''repositoryId''),
                 safe_integer (get_prop raw (js ''rootIssue''))) of
             (JStr h, JStr i, Some n) \<Rightarrow> Some \<lparr>repository_host = h, repository_id = i, root_issue = n\<rparr>
           | _ \<Rightarrow> None)"

definition governed_issue_diagnostics ::
  "(jstr \<Rightarrow> jstr) \<Rightarrow> artifact_authority \<Rightarrow> jsval \<Rightarrow> change_diagnostic list" where
  "governed_issue_diagnostics lc aa v =
     (if is_record v \<and> has_prop v (js ''governedIssue'')
      then validate_governed_root_issue lc aa (get_prop v (js ''governedIssue'')) (claimed_identity v)
             (get_prop v (js ''baseBranch''))
      else [])"

definition input_branch_plan :: "plan_authority \<Rightarrow> jsval \<Rightarrow> jsval option" where
  "input_branch_plan pa v =
     (if is_record v \<and> has_prop v (js ''branchPlan'')
      then (case ba_plan (pa_branch pa) (get_prop v (js ''branchPlan'')) of
              Inl _ \<Rightarrow> None
            | Inr _ \<Rightarrow> Some (pa_branch_plan pa (get_prop v (js ''branchPlan''))))
      else None)"

definition validated_issuance :: "(jstr \<Rightarrow> jstr) \<Rightarrow> plan_authority \<Rightarrow> issuance_plan \<Rightarrow> issuance_error + issuance_plan" where
  "validated_issuance lc pa p =
     (case validate_issuance_plan lc pa (issuance_plan_value p) of
        None \<Rightarrow> Inl Issuance_Error
      | Some (Inl ds) \<Rightarrow> Inl (issuance_invalid ds)
      | Some (Inr p') \<Rightarrow> Inr p')"

definition plan_projection_issuance ::
  "(jstr \<Rightarrow> jstr) \<Rightarrow> plan_authority \<Rightarrow> jsval \<Rightarrow> projection_result \<Rightarrow> jsval option \<Rightarrow> issuance_error + issuance_plan" where
  "plan_projection_issuance lc pa v r pull_plan =
     (case (pr_change r, pr_canonical_branch r, pr_canonical_base r) of
        (Some c, Some branch, Some base) \<Rightarrow>
          if \<not> pr_valid r \<or> pr_status r \<noteq> Absent \<and> pr_status r \<noteq> Healthy
          then Inl (issuance_invalid (issuance_failure_diagnostics r))
          else (case build_issuance_plan lc pa (pr_status r) c branch base (input_branch_plan pa v) pull_plan of
                  None \<Rightarrow> Inl Issuance_Error
                | Some p \<Rightarrow> validated_issuance lc pa p)
      | _ \<Rightarrow> Inl (issuance_invalid (issuance_failure_diagnostics r)))"

definition plan_change_issuance ::
  "(jstr \<Rightarrow> jstr) \<Rightarrow> plan_authority \<Rightarrow> artifact_authority \<Rightarrow> jsval \<Rightarrow> issuance_error + issuance_plan" where
  "plan_change_issuance lc pa aa v =
     on_ok (issuance_pull_plan pa v) (\<lambda>pull_plan.
       let ds = governed_issue_diagnostics lc aa v in
       if ds \<noteq> [] then Inl (issuance_invalid ds)
       else plan_projection_issuance lc pa v (project_change lc (pa_branch pa) v) pull_plan)"

subsection \<open>What the validator accepts\<close>

lemma grows_plan_unless [checked]: "grows (plan_unless b path message)"
  by (simp add: plan_unless_def checked)

lemma grows_missing_at [checked]: "grows (missing_at path)"
  by (simp add: missing_at_def checked)

lemma grows_issuance_text [checked]: "grows (issuance_text v path label m)"
  by (auto simp: issuance_text_def intro!: checked split: option.split)

lemma grows_transaction [checked]: "grows (transaction_checks lc v)"
  by (auto simp: transaction_checks_def intro!: checked)

lemma grows_expected_number [checked]: "grows (expected_number v)"
  by (auto simp: expected_number_def Let_def intro!: checked)

lemma grows_verification [checked]: "grows (verification_checks v)"
  by (auto simp: verification_checks_def intro!: checked split: option.split)

lemma grows_listed [checked]: "grows (listed_check v key read message)"
  by (auto simp: listed_check_def intro!: checked split: option.split)

lemma grows_creation [checked]: "grows (creation_checks pa expected result effects ver)"
  by (auto simp: creation_checks_def intro!: checked split: sum.split)

lemma grows_existing [checked]: "grows (existing_checks result effects ver)"
  by (auto simp: existing_checks_def intro!: checked)

lemma grows_mode_case [checked]:
  "(\<And>u. grows m) \<Longrightarrow> (\<And>u. grows m') \<Longrightarrow> grows (case mode of Create_Mode \<Rightarrow> m | Return_Existing \<Rightarrow> m')"
  by (cases mode) auto

lemma grows_verification_part [checked]: "grows (issuance_verification_part v)"
  by (auto simp: issuance_verification_part_def intro!: checked)

lemma clean_plan_unless [simp]: "clean_run (plan_unless b path message) u \<longleftrightarrow> b"
  by (simp add: plan_unless_def)

lemma clean_missing_at [simp]: "\<not> clean_run (missing_at path) u"
  by (simp add: missing_at_def)

lemma clean_issuance_text [simp]: "clean_run (issuance_text v path label m) y \<longleftrightarrow> y \<noteq> None \<and> bounded_text m v = y"
  by (auto simp: issuance_text_def split: option.split)

lemma clean_listed [simp]:
  "clean_run (listed_check v key read message) y \<longleftrightarrow> has_prop v (js key) \<and> y \<noteq> None \<and> read (get_prop v (js key)) = y"
  by (auto simp: listed_check_def split: option.split)

lemma clean_creation [simp]:
  "clean_run (creation_checks pa expected result effects ver) u \<longleftrightarrow>
     ch_state result = DRAFT \<and> projected_pull_request result = None \<and> iv_pull_request ver = None \<and>
     (\<exists>p. expected = Inr p \<and> result = tp_result p \<and> effects = tp_effects p)"
  by (cases expected) (auto simp: creation_checks_def clean_run_bind checked)

lemma clean_existing [simp]:
  "clean_run (existing_checks result effects ver) u \<longleftrightarrow>
     issuance_healthy_state (ch_state result) \<and> projected_pull_request result \<noteq> None \<and>
     iv_pull_request ver = projected_pull_request result \<and> effects = []"
  by (auto simp: existing_checks_def clean_run_bind checked)

lemma clean_agreement:
  "clean_run (issuance_agreement pa v mode source t plan result effects ver key expected) (Some p) \<longleftrightarrow>
     (plan = None \<or> plan = Some (iv_branch ver, iv_base ver)) \<and>
     it_identity t = ch_identity result \<and> it_idempotency_key t = key \<and>
     source = (case mode of Create_Mode \<Rightarrow> Absent | Return_Existing \<Rightarrow> Healthy) \<and>
     iv_state ver = ch_state result \<and> projected_branch result = Some (iv_branch ver) \<and>
     (case mode of
        Create_Mode \<Rightarrow> clean_run (creation_checks pa expected result effects ver) ()
      | Return_Existing \<Rightarrow> clean_run (existing_checks result effects ver) ()) \<and>
     \<lparr>ip_mode = mode, ip_source_status = source,
          ip_transaction = \<lparr>it_identity = ch_identity result, it_idempotency_key = key\<rparr>,
          ip_branch_plan = map_option (\<lambda>p. pa_branch_plan pa (get_prop v (js ''branchPlan''))) plan,
          ip_result = result, ip_effects = effects, ip_verification = ver\<rparr> = p"
proof -
  have 1: "(plan = None \<or> map_option fst plan = Some (iv_branch ver)) \<and> (plan = None \<or> map_option snd plan = Some (iv_base ver)) \<longleftrightarrow>
      plan = None \<or> plan = Some (iv_branch ver, iv_base ver)"
    by (cases plan) auto
  have 2: "clean_run (case mode of Create_Mode \<Rightarrow> m | Return_Existing \<Rightarrow> m') () \<longleftrightarrow>
      (case mode of Create_Mode \<Rightarrow> clean_run m () | Return_Existing \<Rightarrow> clean_run m' ())" for m m'
    by (cases mode) simp_all
  show ?thesis
    by (simp only: issuance_agreement_def clean_run_bind checked ex_unit clean_plan_unless clean_run_return option.inject 2)
      (use 1 in blast)
qed

lemma clean_issuance_front:
  "clean_run (issuance_front_checks lc pa v) f \<longleftrightarrow>
     set (object_keys v) \<subseteq> set issuance_plan_keys \<and> has_prop v (js ''version'') \<and>
     get_prop v (js ''version'') = JNum (Integral 1) \<and> get_prop v (js ''operation'') = JStr (js ''issue'') \<and>
     has_prop v (js ''mode'') \<and> if_mode f \<noteq> None \<and> mode_value (get_prop v (js ''mode'')) = if_mode f \<and>
     has_prop v (js ''sourceStatus'') \<and> if_source f \<noteq> None \<and>
     source_status_value (get_prop v (js ''sourceStatus'')) = if_source f \<and>
     has_prop v (js ''transaction'') \<and> clean_run (transaction_checks lc (get_prop v (js ''transaction''))) (if_transaction f) \<and>
     (if has_prop v (js ''branchPlan'')
      then \<exists>p. ba_plan (pa_branch pa) (get_prop v (js ''branchPlan'')) = Inr p \<and> if_branch_plan f = Some p
      else if_branch_plan f = None) \<and>
     has_prop v (js ''result'') \<and> result_diagnostics (validate_change lc (get_prop v (js ''result''))) = [] \<and>
     if_result f = result_value (validate_change lc (get_prop v (js ''result'')))"
proof -
  have "grows (consumed_branch_plan ba v path)" for ba v path by (rule checked)
  then show ?thesis
    by (cases f; cases "has_prop v (js ''branchPlan'')")
      (auto simp: issuance_front_checks_def clean_run_bind checked clean_consumed_plan)
qed

lemma clean_verification:
  "clean_run (verification_checks v) (Some ver) \<longleftrightarrow>
     is_record v \<and> set (object_keys v) \<subseteq> set verification_keys \<and> get_prop v (js ''phase'') = JStr (js ''post-effect'') \<and>
     get_prop v (js ''status'') = JStr (js ''healthy'') \<and>
     bounded_text max_change_branch_length (get_prop v (js ''canonicalBranch'')) = Some (iv_branch ver) \<and>
     bounded_text max_change_branch_length (get_prop v (js ''canonicalBaseBranch'')) = Some (iv_base ver) \<and>
     healthy_state_value (get_prop v (js ''state'')) = Some (iv_state ver) \<and>
     clean_run (expected_number v) (iv_pull_request ver)"
  by (cases ver; cases "healthy_state_value (get_prop v (js ''state''))")
    (auto simp: verification_checks_def clean_run_bind checked split: option.splits)

text \<open>An accepted plan: its parts are read without a diagnostic, and they agree.\<close>

lemma accepted_issuance:
  "validate_issuance_plan lc pa v = Some (Inr p) \<longleftrightarrow>
     is_record v \<and>
     (\<exists>front result key.
        clean_run (issuance_front_checks lc pa v) front \<and> if_result front = Some result \<and>
        if_mode front = Some (ip_mode p) \<and> if_source front = Some (ip_source_status p) \<and>
        plan_effects pa v [] = Some (ip_effects p, []) \<and>
        clean_run (issuance_verification_part v) (Some (ip_verification p)) \<and>
        change_identity_key lc (ch_identity result) = Inr key \<and>
        (\<exists>t. if_transaction front = Some t \<and>
        clean_run (issuance_agreement pa v (ip_mode p) (ip_source_status p) t (if_branch_plan front)
          result (ip_effects p) (ip_verification p) key
          (plan_change_transition lc pa (issue_request_value (change_before_issuance result)
             (issue_target_value None (iv_branch (ip_verification p)) (iv_base (ip_verification p))
                (created_plan (ip_effects p)))))) (Some p)))"
  (is "?accepted \<longleftrightarrow> ?agreed")
proof
  assume ?accepted
  then obtain front ds effects ds1 ver mode source t result key where parts:
      "is_record v" "run_checks (issuance_front_checks lc pa v) = (front, ds)" "plan_effects pa v ds = Some (effects, ds1)"
      "run_state (issuance_verification_part v) ds1 = (Some ver, [])" "if_mode front = Some mode"
      "if_source front = Some source" "if_transaction front = Some t" "if_result front = Some result"
      "change_identity_key lc (ch_identity result) = Inr key"
      "clean_run (issuance_agreement pa v mode source t (if_branch_plan front) result effects ver key
        (plan_change_transition lc pa (issue_request_value (change_before_issuance result)
           (issue_target_value None (iv_branch ver) (iv_base ver) (created_plan effects))))) (Some p)"
    by (auto simp: validate_issuance_plan_def validation_result_Inr
        split: if_splits option.splits prod.splits list.splits sum.splits)
  have "grows (issuance_verification_part v)" by (rule checked)
  from run_state_grows [OF this, of ds1] have "ds1 = []" using parts(4) by simp
  moreover have "ds = []" using plan_effects_grow [OF parts(3)] \<open>ds1 = []\<close> by simp
  moreover have "\<lparr>ip_mode = mode, ip_source_status = source,
      ip_transaction = \<lparr>it_identity = ch_identity result, it_idempotency_key = key\<rparr>,
      ip_branch_plan = map_option (\<lambda>p. pa_branch_plan pa (get_prop v (js ''branchPlan''))) (if_branch_plan front),
      ip_result = result, ip_effects = effects, ip_verification = ver\<rparr> = p"
    using parts(10) unfolding clean_agreement by blast
  then have "mode = ip_mode p" "source = ip_source_status p" "effects = ip_effects p" "ver = ip_verification p"
    by auto
  ultimately show ?agreed
    using parts by (auto simp: clean_run_checks clean_run_def)
next
  assume ?agreed
  then obtain front result key t where parts:
      "is_record v" "clean_run (issuance_front_checks lc pa v) front" "if_result front = Some result"
      "if_mode front = Some (ip_mode p)" "if_source front = Some (ip_source_status p)" "if_transaction front = Some t"
      "plan_effects pa v [] = Some (ip_effects p, [])"
      "clean_run (issuance_verification_part v) (Some (ip_verification p))"
      "change_identity_key lc (ch_identity result) = Inr key"
      "clean_run (issuance_agreement pa v (ip_mode p) (ip_source_status p) t (if_branch_plan front)
          result (ip_effects p) (ip_verification p) key
          (plan_change_transition lc pa (issue_request_value (change_before_issuance result)
             (issue_target_value None (iv_branch (ip_verification p)) (iv_base (ip_verification p))
                (created_plan (ip_effects p)))))) (Some p)"
    by blast
  then have "run_checks (issuance_front_checks lc pa v) = (front, [])"
      "run_state (issuance_verification_part v) [] = (Some (ip_verification p), [])"
    by (simp_all add: clean_run_checks clean_run_def)
  with parts show ?accepted
    by (simp add: validate_issuance_plan_def validation_result_Inr)
qed

text \<open>What the two kinds of accepted plans are.\<close>

lemma accepted_issuance_shape:
  assumes "validate_issuance_plan lc pa v = Some (Inr p)"
  shows "validate_change lc (get_prop v (js ''result'')) = Inr (ip_result p)"
    and "mode_value (get_prop v (js ''mode'')) = Some (ip_mode p)"
    and "projected_branch (ip_result p) = Some (iv_branch (ip_verification p))"
    and "clean_run (verification_checks (get_prop v (js ''verification''))) (Some (ip_verification p))"
    and "ip_mode p = Return_Existing \<Longrightarrow> ip_effects p = [] \<and> issuance_healthy_state (ch_state (ip_result p)) \<and>
      projected_pull_request (ip_result p) \<noteq> None \<and> ip_source_status p = Healthy"
    and "ip_mode p = Create_Mode \<Longrightarrow> ch_state (ip_result p) = DRAFT \<and> projected_pull_request (ip_result p) = None \<and>
      ip_source_status p = Absent \<and>
      (\<exists>t. plan_change_transition lc pa (issue_request_value (change_before_issuance (ip_result p))
          (issue_target_value None (iv_branch (ip_verification p)) (iv_base (ip_verification p))
             (created_plan (ip_effects p)))) = Inr t \<and>
        ip_result p = tp_result t \<and> ip_effects p = tp_effects t)"
    and "change_identity_key lc (ch_identity (ip_result p)) = Inr (it_idempotency_key (ip_transaction p))"
    and "it_identity (ip_transaction p) = ch_identity (ip_result p)"
proof -
  obtain front result key t where parts: "clean_run (issuance_front_checks lc pa v) front" "if_result front = Some result"
      "if_mode front = Some (ip_mode p)" "clean_run (issuance_verification_part v) (Some (ip_verification p))"
      "change_identity_key lc (ch_identity result) = Inr key"
      "clean_run (issuance_agreement pa v (ip_mode p) (ip_source_status p) t (if_branch_plan front)
          result (ip_effects p) (ip_verification p) key
          (plan_change_transition lc pa (issue_request_value (change_before_issuance result)
             (issue_target_value None (iv_branch (ip_verification p)) (iv_base (ip_verification p))
                (created_plan (ip_effects p)))))) (Some p)"
    using assms unfolding accepted_issuance by blast
  note agreed = parts(6) [unfolded clean_agreement]
  have result: "ip_result p = result" and key: "it_idempotency_key (ip_transaction p) = key"
    and i: "it_identity (ip_transaction p) = ch_identity result"
    using agreed by (metis issuance_plan.select_convs(5), metis issuance_plan.select_convs(3) issuance_transaction.select_convs(2),
      metis issuance_plan.select_convs(3) issuance_transaction.select_convs(1))
  note front = parts(1) [unfolded clean_issuance_front]
  have "result_value (validate_change lc (get_prop v (js ''result''))) = Some result"
    using front parts(2) by simp
  then show "validate_change lc (get_prop v (js ''result'')) = Inr (ip_result p)" by (simp add: result)
  show "mode_value (get_prop v (js ''mode'')) = Some (ip_mode p)" using front parts(3) by simp
  show "projected_branch (ip_result p) = Some (iv_branch (ip_verification p))" using agreed result by simp
  show "clean_run (verification_checks (get_prop v (js ''verification''))) (Some (ip_verification p))"
    using parts(4) by (simp add: issuance_verification_part_def)
  show "ip_mode p = Return_Existing \<Longrightarrow> ip_effects p = [] \<and> issuance_healthy_state (ch_state (ip_result p)) \<and>
      projected_pull_request (ip_result p) \<noteq> None \<and> ip_source_status p = Healthy"
    using agreed result by simp
  show "ip_mode p = Create_Mode \<Longrightarrow> ch_state (ip_result p) = DRAFT \<and> projected_pull_request (ip_result p) = None \<and>
      ip_source_status p = Absent \<and>
      (\<exists>t. plan_change_transition lc pa (issue_request_value (change_before_issuance (ip_result p))
          (issue_target_value None (iv_branch (ip_verification p)) (iv_base (ip_verification p))
             (created_plan (ip_effects p)))) = Inr t \<and>
        ip_result p = tp_result t \<and> ip_effects p = tp_effects t)"
    using agreed result by simp
  show "change_identity_key lc (ch_identity (ip_result p)) = Inr (it_idempotency_key (ip_transaction p))"
    using parts(5) result key by simp
  show "it_identity (ip_transaction p) = ch_identity (ip_result p)" using i result by simp
qed

subsection \<open>What issuance plans\<close>

lemma issue_target_valid:
  assumes "validate_transition_target pa (issue_target_value None branch base plan) path = Some (Inr t)"
  shows "tt_branch t = Some branch" and "tt_base_branch t = Some base"
proof -
  let ?v = "issue_target_value None branch base plan"
  have v: "\<not> has_prop ?v (js ''branchPlan'')" "has_prop ?v (js ''branch'')" "has_prop ?v (js ''baseBranch'')"
      "get_prop ?v (js ''branch'') = JStr branch" "get_prop ?v (js ''baseBranch'') = JStr base"
    by (cases plan; simp add: issue_target_value_def)+
  obtain p m where "clean_run (target_checks pa ?v path p m) (Some t)"
    using assms
    by (auto simp: validate_transition_target_def validation_result_Inr Let_def split: if_splits option.splits prod.splits)
  then show "tt_branch t = Some branch" and "tt_base_branch t = Some base"
    by (auto simp del: bounded_text.simps simp: target_checks_def clean_run_bind checked v)
qed

lemma issue_request_read:
  assumes "validate_transition_request lc pa (issue_request_value c target) = Some (Inr q)"
    and "is_record target"
  shows "tq_transition q = OpIssue" and "validate_change lc (change_value c) = Inr (tq_change q)"
    and "\<exists>t. tq_target q = Some t \<and> validate_transition_target pa target (js ''$.target'') = Some (Inr t)"
proof -
  obtain r where r: "validate_transition_target pa target (js ''$.target'') = Some r"
      and run: "clean_run (request_checks lc (issue_request_value c target) (Some r)) (Some q)"
    using assms(1)
    by (auto simp: validate_transition_request_def validation_result_Inr issue_request_value_def split: if_splits)
  note req = run [unfolded clean_request_checks]
  have name: "js ''issue'' = transition_name OpIssue" by simp
  show op: "tq_transition q = OpIssue" and "validate_change lc (change_value c) = Inr (tq_change q)"
    using req
    by (simp_all del: normalize_change_transition.simps transition_name.simps
        add: issue_request_value_def name transition_name_read)
  obtain x where "validate_transition_semantics lc (tq_change q) OpIssue (tq_target q) = Inr x"
    using req op by metis
  then have "\<exists>t. tq_target q = Some t" by (auto simp: valid_semantics clean_issue_checks)
  then show "\<exists>t. tq_target q = Some t \<and> validate_transition_target pa target (js ''$.target'') = Some (Inr t)"
    using req r by (cases r) auto
qed

lemma issue_target_record [simp]: "is_record (issue_target_value plan branch base pull)"
  by (simp add: issue_target_value_def)

lemma issue_plan_effects:
  assumes "plan_change_transition lc pa (issue_request_value c (issue_target_value None branch base plan)) = Inr t"
  shows "\<exists>title body pull. tp_effects t =
      [CREATE_BRANCH branch base,
       CREATE_PROVENANCE_COMMIT branch (root_issue (ch_identity c)) (provenance_record_path (root_issue (ch_identity c))),
       CREATE_PULL_REQUEST branch base (root_issue (ch_identity c)) title body pull]"
proof -
  have valid: "validate_transition_request lc pa (issue_request_value c (issue_target_value None branch base plan)) =
      Some (Inr (tp_request t))" and build: "build_transition_plan (tp_request t) = Inr t"
    using assms by (simp_all add: planned)
  note read = issue_request_read [OF valid issue_target_record]
  obtain x where x: "tq_target (tp_request t) = Some x"
      "validate_transition_target pa (issue_target_value None branch base plan) (js ''$.target'') = Some (Inr x)"
    using read(3) by blast
  note target = issue_target_valid [OF x(2)]
  have "root_issue (ch_identity (tq_change (tp_request t))) = root_issue (ch_identity c)"
    using revalidated(4) [OF read(2)] .
  then show ?thesis
    using build_plan_Inr(5) [OF build] read(1) x(1) target
    by (auto simp: operation_effects_def issue_effects_def resolved_transition_target_def target_or_none_def Let_def
        dest!: sym [of _ "tp_effects t"] split: option.splits)
qed

lemma issue_plan_result:
  assumes "plan_change_transition lc pa (issue_request_value c target) = Inr t" and "is_record target"
  shows "ch_provenance (tp_result t) = ch_provenance c"
    and "root_issue (ch_identity (tp_result t)) = root_issue (ch_identity c)"
proof -
  have valid: "validate_transition_request lc pa (issue_request_value c target) = Some (Inr (tp_request t))"
      and build: "build_transition_plan (tp_request t) = Inr t"
    using assms(1) by (simp_all add: planned)
  note change = revalidated [OF issue_request_read(2) [OF valid assms(2)]]
  show "ch_provenance (tp_result t) = ch_provenance c" and "root_issue (ch_identity (tp_result t)) = root_issue (ch_identity c)"
    using build_plan_Inr(4) [OF build] change by (simp_all add: transition_result_def Let_def)
qed

lemma issuance_plan_value_sel [simp]:
  "is_record (issuance_plan_value p)"
  "get_prop (issuance_plan_value p) (js ''mode'') = JStr (mode_name (ip_mode p))"
  "get_prop (issuance_plan_value p) (js ''result'') = change_value (ip_result p)"
  "get_prop (issuance_plan_value p) (js ''verification'') = verification_value (ip_verification p)"
  by (cases "ip_branch_plan p"; simp add: issuance_plan_value_def)+

lemma mode_value_name [simp]: "mode_value (JStr (mode_name m)) = Some m"
  by (cases m) (simp_all add: mode_value_def)

lemma verification_value_branches:
  assumes "clean_run (verification_checks (verification_value ver)) (Some ver')"
  shows "iv_branch ver' = iv_branch ver" and "iv_base ver' = iv_base ver"
proof -
  have "bounded_text max_change_branch_length (JStr (iv_branch ver)) = Some (iv_branch ver')"
      "bounded_text max_change_branch_length (JStr (iv_base ver)) = Some (iv_base ver')"
    using assms by (simp_all del: bounded_text.simps add: clean_verification verification_value_def)
  then show "iv_branch ver' = iv_branch ver" and "iv_base ver' = iv_base ver" using bounded_text_JStr by blast+
qed

lemma build_issuance_Some:
  assumes "build_issuance_plan lc pa status c branch base bp pull = Some p"
  shows "iv_branch (ip_verification p) = branch" and "iv_base (ip_verification p) = base"
    and "status \<noteq> Absent \<Longrightarrow> ip_mode p = Return_Existing \<and> ip_result p = c"
    and "status = Absent \<Longrightarrow> ip_mode p = Create_Mode \<and>
      ch_provenance (ip_result p) = ch_provenance c \<and> root_issue (ch_identity (ip_result p)) = root_issue (ch_identity c)"
  using assms issue_plan_result [OF _ issue_target_record]
  by (auto simp: build_issuance_plan_def issuance_plan_of_def build_issuance_verification_def
      split: sum.splits if_splits)

lemma planned_issuance:
  assumes "plan_change_issuance lc pa aa v = Inr p"
  obtains c branch base pull built where
    "pr_change (project_change lc (pa_branch pa) v) = Some c"
    "pr_canonical_branch (project_change lc (pa_branch pa) v) = Some branch"
    "pr_canonical_base (project_change lc (pa_branch pa) v) = Some base"
    "pr_valid (project_change lc (pa_branch pa) v)"
    "pr_status (project_change lc (pa_branch pa) v) \<in> {Absent, Healthy}"
    "governed_issue_diagnostics lc aa v = []"
    "build_issuance_plan lc pa (pr_status (project_change lc (pa_branch pa) v)) c branch base (input_branch_plan pa v) pull
       = Some built"
    "validate_issuance_plan lc pa (issuance_plan_value built) = Some (Inr p)"
proof -
  let ?r = "project_change lc (pa_branch pa) v"
  obtain pull where "governed_issue_diagnostics lc aa v = []" and step: "plan_projection_issuance lc pa v ?r pull = Inr p"
    using assms by (auto simp: plan_change_issuance_def Let_def split: if_splits)
  moreover obtain c branch base where r: "pr_change ?r = Some c" "pr_canonical_branch ?r = Some branch" "pr_canonical_base ?r = Some base"
    using step
    by (cases "pr_change ?r"; cases "pr_canonical_branch ?r"; cases "pr_canonical_base ?r")
      (simp_all add: plan_projection_issuance_def)
  moreover have ok: "pr_valid ?r" "pr_status ?r \<in> {Absent, Healthy}"
    using step r by (auto simp: plan_projection_issuance_def split: if_splits)
  moreover obtain built where "build_issuance_plan lc pa (pr_status ?r) c branch base (input_branch_plan pa v) pull = Some built"
      "validated_issuance lc pa built = Inr p"
    using step r ok by (auto simp: plan_projection_issuance_def split: option.splits)
  ultimately show ?thesis
    using that by (auto simp: validated_issuance_def split: option.splits sum.splits)
qed

text \<open>
  C28. Issuance is idempotent: what it plans is decided by the projection of the evidence.  A plan exists only
  for a valid projection, with the root Issue governed if evidence of it was supplied, and it is about the
  projected Change.  When nothing exists yet, it creates, in this order and all for the root Issue, the
  canonical branch, its provenance record and a pull request from it to the canonical base, and the result is
  a draft without a number; when the Change is there, the plan has no effects and returns that Change, with
  its pull request.
\<close>

theorem issuance_follows_projection:
  assumes "plan_change_issuance lc pa aa v = Inr p"
  shows "\<exists>c branch base. let r = project_change lc (pa_branch pa) v; n = root_issue (ch_identity c) in
    pr_valid r \<and> pr_change r = Some c \<and> pr_canonical_branch r = Some branch \<and> pr_canonical_base r = Some base \<and>
    governed_issue_diagnostics lc aa v = [] \<and>
    ch_provenance (ip_result p) = ch_provenance c \<and> root_issue (ch_identity (ip_result p)) = n \<and>
    projected_branch (ip_result p) = Some branch \<and>
    (if pr_status r = Absent
     then ch_state (ip_result p) = DRAFT \<and> projected_pull_request (ip_result p) = None \<and>
       (\<exists>title body plan. ip_effects p =
          [CREATE_BRANCH branch base, CREATE_PROVENANCE_COMMIT branch n (provenance_record_path n),
           CREATE_PULL_REQUEST branch base n title body plan])
     else pr_status r = Healthy \<and> ip_effects p = [] \<and> ch_state (ip_result p) = ch_state c \<and>
       ch_projection (ip_result p) = ch_projection c \<and> projected_pull_request c \<noteq> None)"
proof -
  let ?r = "project_change lc (pa_branch pa) v"
  from planned_issuance [OF assms] obtain c branch base pull built where
    r: "pr_change ?r = Some c" "pr_canonical_branch ?r = Some branch" "pr_canonical_base ?r = Some base" "pr_valid ?r"
      "pr_status ?r \<in> {Absent, Healthy}" "governed_issue_diagnostics lc aa v = []"
    and built: "build_issuance_plan lc pa (pr_status ?r) c branch base (input_branch_plan pa v) pull = Some built"
    and valid: "validate_issuance_plan lc pa (issuance_plan_value built) = Some (Inr p)"
    by metis
  note shape = accepted_issuance_shape [OF valid, simplified] and built = build_issuance_Some [OF built]
  note same = revalidated [OF shape(1)]
  have ver: "iv_branch (ip_verification p) = branch" "iv_base (ip_verification p) = base"
    using verification_value_branches [OF shape(4)] built(1,2) by simp_all
  show ?thesis
  proof (cases "pr_status ?r = Absent")
    case True
    then have mode: "ip_mode p = Create_Mode" using built(4) shape(2) by simp
    obtain t where t: "plan_change_transition lc pa (issue_request_value (change_before_issuance (ip_result p))
        (issue_target_value None branch base (created_plan (ip_effects p)))) = Inr t" "ip_effects p = tp_effects t"
      using shape(6) [OF mode] ver by auto
    show ?thesis
      using True r same built(4) shape(3) shape(6) [OF mode] ver issue_plan_effects [OF t(1)] t(2)
      by (auto simp: Let_def change_before_issuance_def)
  next
    case False
    then have "pr_status ?r = Healthy" "ip_mode p = Return_Existing" using r(5) built(3) shape(2) by simp_all
    then show ?thesis
      using r same built(3) shape(3,5) ver
      by (auto simp: Let_def projected_pull_request_def)
  qed
qed

subsection \<open>Plans that validate\<close>

text \<open>A branch plan that its authority accepts unchanged, for this branch and base.\<close>

definition settled_branch_plan :: "plan_authority \<Rightarrow> jstr \<Rightarrow> jstr \<Rightarrow> jsval option \<Rightarrow> bool" where
  "settled_branch_plan pa branch base plan \<longleftrightarrow>
     (case plan of None \<Rightarrow> True | Some v \<Rightarrow> ba_plan (pa_branch pa) v = Inr (branch, base) \<and> pa_branch_plan pa v = v)"

lemma repository_id_text:
  assumes "repository_id_value v = Some s"
  shows "length s \<le> 20" and "\<not> list_ex control_unit s"
  using assms
  by (cases v rule: repository_id_value.cases;
      auto simp: list_ex_iff list_all_iff is_digit_def control_unit_def split: if_splits)+

lemma identity_key_text:
  assumes "wf_identity i" and "\<not> list_ex control_unit (repository_host i)"
  shows "\<exists>key. change_identity_key lc i = Inr key \<and> bounded_text max_idempotency_key_length (JStr key) = Some key"
proof -
  note wf = assms(1) [unfolded wf_identity_def]
  have host: "to_lower lc (repository_host i) = repository_host i"
    using wf by (simp add: to_lower_idem list_all_iff)
  let ?key = "issue_reference_key lc \<lparr>ir_host = repository_host i, ir_repository_id = repository_id i,
      ir_repository = None, ir_number = root_issue i\<rparr>"
  have "issue_number (root_issue i)" using wf by (simp add: issue_number_def)
  note digits = issue_number_digits [OF this]
  have rid: "repository_id_value (JStr (repository_id i)) = Some (repository_id i)" using wf by blast
  have "bounded_text max_idempotency_key_length (JStr ?key) = Some ?key"
    using wf assms(2) digits repository_id_text [OF rid]
    by (simp del: repository_id_value.simps add: issue_reference_key_def host max_idempotency_key_length_def
        max_change_host_length_def control_unit_def)
  moreover have "change_identity_key lc i = Inr ?key"
    using wf_identity_validates [OF assms(1), of lc change_root] by (simp add: change_identity_key_def)
  ultimately show ?thesis by blast
qed

lemma transaction_value_checks:
  assumes "wf_identity i" and "bounded_text max_idempotency_key_length (JStr key) = Some key"
  shows "clean_run (transaction_checks lc (transaction_value \<lparr>it_identity = i, it_idempotency_key = key\<rparr>))
    (Some \<lparr>it_identity = i, it_idempotency_key = key\<rparr>)"
  using assms wf_identity_validates [OF assms(1), of lc "js ''$.transaction.identity''"]
  by (simp del: bounded_text.simps add: transaction_checks_def transaction_value_def transaction_keys_def clean_run_bind checked
      ex_unit)

lemma verification_value_checks:
  assumes "branch_text (iv_branch ver)" and "branch_text (iv_base ver)" and "issuance_healthy_state (iv_state ver)"
    and "case iv_pull_request ver of None \<Rightarrow> True | Some n \<Rightarrow> issue_number n"
  shows "clean_run (verification_checks (verification_value ver)) (Some ver)"
proof -
  have read: "healthy_state_value (JStr (change_state_name (iv_state ver))) = Some (iv_state ver)"
    using assms(3) by (simp add: healthy_state_value_def)
  have "clean_run (expected_number (verification_value ver)) (iv_pull_request ver)"
    using assms(4)
    by (cases "iv_pull_request ver")
      (simp_all add: expected_number_def verification_value_def Let_def clean_run_bind checked ex_unit)
  then show ?thesis
    using assms(1,2) read unfolding clean_verification
    by (simp del: bounded_text.simps add: verification_value_def verification_keys_def branch_text_def)
qed

lemma issuance_plan_value_read [simp]:
  "has_prop (issuance_plan_value p) (js ''branchPlan'') \<longleftrightarrow> ip_branch_plan p \<noteq> None"
  "ip_branch_plan p = Some b \<Longrightarrow> get_prop (issuance_plan_value p) (js ''branchPlan'') = b"
  "has_prop (issuance_plan_value p) (js ''version'')" "has_prop (issuance_plan_value p) (js ''mode'')"
  "has_prop (issuance_plan_value p) (js ''sourceStatus'')" "has_prop (issuance_plan_value p) (js ''transaction'')"
  "has_prop (issuance_plan_value p) (js ''result'')" "has_prop (issuance_plan_value p) (js ''effects'')"
  "has_prop (issuance_plan_value p) (js ''verification'')"
  "get_prop (issuance_plan_value p) (js ''version'') = JNum (Integral 1)"
  "get_prop (issuance_plan_value p) (js ''operation'') = JStr (js ''issue'')"
  "get_prop (issuance_plan_value p) (js ''sourceStatus'') = JStr (source_status_name (ip_source_status p))"
  "get_prop (issuance_plan_value p) (js ''transaction'') = transaction_value (ip_transaction p)"
  "get_prop (issuance_plan_value p) (js ''effects'') = JArr (map effect_value (ip_effects p))"
  "set (object_keys (issuance_plan_value p)) \<subseteq> set issuance_plan_keys"
  by (cases "ip_branch_plan p"; simp add: issuance_plan_value_def issuance_plan_keys_def)+

lemma issuance_plan_validates:
  assumes wf: "wf_change (ip_result p)"
    and key: "change_identity_key lc (ch_identity (ip_result p)) = Inr (it_idempotency_key (ip_transaction p))"
      "bounded_text max_idempotency_key_length (JStr (it_idempotency_key (ip_transaction p))) =
         Some (it_idempotency_key (ip_transaction p))"
      "it_identity (ip_transaction p) = ch_identity (ip_result p)"
    and plan: "settled_branch_plan pa (iv_branch (ip_verification p)) (iv_base (ip_verification p)) (ip_branch_plan p)"
    and effects: "list_all (wf_effect pa) (ip_effects p)" "length (ip_effects p) \<le> 8"
    and ver: "clean_run (verification_checks (verification_value (ip_verification p))) (Some (ip_verification p))"
    and agreed: "iv_state (ip_verification p) = ch_state (ip_result p)"
      "projected_branch (ip_result p) = Some (iv_branch (ip_verification p))"
      "ip_source_status p = (case ip_mode p of Create_Mode \<Rightarrow> Absent | Return_Existing \<Rightarrow> Healthy)"
      "case ip_mode p of
         Create_Mode \<Rightarrow> clean_run (creation_checks pa
           (plan_change_transition lc pa (issue_request_value (change_before_issuance (ip_result p))
             (issue_target_value None (iv_branch (ip_verification p)) (iv_base (ip_verification p))
                (created_plan (ip_effects p))))) (ip_result p) (ip_effects p) (ip_verification p)) ()
       | Return_Existing \<Rightarrow> clean_run (existing_checks (ip_result p) (ip_effects p) (ip_verification p)) ()"
  shows "validate_issuance_plan lc pa (issuance_plan_value p) = Some (Inr p)"
proof -
  let ?v = "issuance_plan_value p" and ?ver = "ip_verification p"
  let ?front = "\<lparr>if_mode = Some (ip_mode p), if_source = Some (ip_source_status p), if_transaction = Some (ip_transaction p),
      if_branch_plan = map_option (\<lambda>_. (iv_branch ?ver, iv_base ?ver)) (ip_branch_plan p), if_result = Some (ip_result p)\<rparr>"
  have "source_status_value (JStr (source_status_name (ip_source_status p))) = Some (ip_source_status p)"
    using agreed(3) by (cases "ip_mode p") (simp_all add: source_status_value_def source_status_name_def)
  moreover have "clean_run (transaction_checks lc (transaction_value (ip_transaction p))) (Some (ip_transaction p))"
    using transaction_value_checks [OF _ key(2), of "ch_identity (ip_result p)" lc] wf key(3)
    by (cases "ip_transaction p") (simp add: wf_change_def)
  moreover have "if ip_branch_plan p \<noteq> None
      then \<exists>x. ba_plan (pa_branch pa) (get_prop ?v (js ''branchPlan'')) = Inr x \<and> if_branch_plan ?front = Some x
      else if_branch_plan ?front = None"
    using plan by (cases "ip_branch_plan p") (simp_all add: settled_branch_plan_def)
  ultimately have front: "clean_run (issuance_front_checks lc pa ?v) ?front"
    using wf_change_validates [OF wf, of lc] unfolding clean_issuance_front by simp
  have "plan_effects pa ?v [] = Some (ip_effects p, [])"
    using effect_list_round_trip [OF effects] by (simp add: plan_effects_def)
  moreover have "clean_run (issuance_verification_part ?v) (Some ?ver)"
    using ver by (simp add: issuance_verification_part_def)
  moreover have "map_option (\<lambda>x. pa_branch_plan pa (get_prop ?v (js ''branchPlan''))) (if_branch_plan ?front) = ip_branch_plan p"
    using plan by (cases "ip_branch_plan p") (simp_all add: settled_branch_plan_def)
  then have "clean_run (issuance_agreement pa ?v (ip_mode p) (ip_source_status p) (ip_transaction p) (if_branch_plan ?front)
      (ip_result p) (ip_effects p) ?ver (it_idempotency_key (ip_transaction p))
      (plan_change_transition lc pa (issue_request_value (change_before_issuance (ip_result p))
         (issue_target_value None (iv_branch ?ver) (iv_base ?ver) (created_plan (ip_effects p)))))) (Some p)"
    using agreed key(3) unfolding clean_agreement
    by (cases p; cases "ip_transaction p"; cases "ip_branch_plan p") simp_all
  ultimately show ?thesis
    unfolding accepted_issuance using front key(1) by auto
qed

subsection \<open>Issuance is not stuck\<close>

definition issue_target :: "jsval option \<Rightarrow> jstr \<Rightarrow> jstr \<Rightarrow> jsval option \<Rightarrow> transition_target" where
  "issue_target branch_plan branch base pull_plan =
     no_target\<lparr>tt_branch_plan := branch_plan, tt_branch := Some branch, tt_base_branch := Some base,
       tt_semantic_plan := pull_plan\<rparr>"

lemma issue_target_sel [simp]:
  "tt_branch (issue_target bp branch base sp) = Some branch" "tt_base_branch (issue_target bp branch base sp) = Some base"
  "tt_pull_request (issue_target bp branch base sp) = None" "tt_semantic_plan (issue_target bp branch base sp) = sp"
  "tt_semantic_merge_plan (issue_target bp branch base sp) = None" "tt_branch_plan (issue_target bp branch base sp) = bp"
  "tt_branch_commit_sha (issue_target bp branch base sp) = None"
  by (simp_all add: issue_target_def no_target_def)

lemma issue_target_value_eq: "issue_target_value bp branch base sp = target_value (issue_target bp branch base sp)"
  by (simp add: issue_target_value_def target_value_def)

definition issuance_effects :: "jstr \<Rightarrow> jstr \<Rightarrow> int \<Rightarrow> jsval option \<Rightarrow> change_effect list" where
  "issuance_effects branch base n pull_plan =
     [CREATE_BRANCH branch base, CREATE_PROVENANCE_COMMIT branch n (provenance_record_path n),
      (case pull_plan of
         None \<Rightarrow> CREATE_PULL_REQUEST branch base n (compatibility_title n) (compatibility_body n) None
       | Some plan \<Rightarrow> CREATE_PULL_REQUEST branch base n (plan_text plan [''desired'', ''title''])
                        (plan_text plan [''desired'', ''body'']) (Some plan))]"

lemma created_issuance_effects [simp]: "created_plan (issuance_effects branch base n sp) = sp"
  by (cases sp) (simp_all add: created_plan_def issuance_effects_def plan_of_def)

text \<open>
  The branch and pull request plans of an issuance are settled when their authorities accept them
  unchanged and they agree with the Change and its branches.
\<close>

definition settled_issuance ::
  "(jstr \<Rightarrow> jstr) \<Rightarrow> plan_authority \<Rightarrow> change \<Rightarrow> jstr \<Rightarrow> jstr \<Rightarrow> jsval option \<Rightarrow> jsval option \<Rightarrow> bool" where
  "settled_issuance lc pa c branch base branch_plan pull_plan \<longleftrightarrow>
     branch_text branch \<and> branch_text base \<and> settled_target pa (issue_target branch_plan branch base pull_plan) \<and>
     (case pull_plan of None \<Rightarrow> True
      | Some s \<Rightarrow> clean_run (issuance_plan_checks lc (ch_identity c) (issue_target branch_plan branch base pull_plan) s) ())"

lemma settled_issuance_plan:
  "settled_issuance lc pa c branch base bp sp \<Longrightarrow> settled_branch_plan pa branch base bp"
  by (auto simp: settled_issuance_def settled_target_def settled_branch_plan_def split: option.splits)

lemma settled_issuance_without_plan:
  "settled_issuance lc pa c branch base bp sp \<Longrightarrow> settled_issuance lc pa c branch base None sp"
  by (auto simp: settled_issuance_def settled_target_def issuance_plan_checks_def split: option.splits)

lemma issue_request_plans:
  assumes c: "wf_change c" "ch_state c = DEFINED" "ch_projection c = None"
    and settled: "settled_issuance lc pa c branch base bp sp"
  shows "\<exists>t. plan_change_transition lc pa (issue_request_value c (issue_target_value bp branch base sp)) = Inr t \<and>
      tp_result t = projected_change (ch_identity c) (ch_provenance c) DRAFT (Some branch) None \<and>
      tp_effects t = issuance_effects branch base (root_issue (ch_identity c)) sp"
    and "list_all (wf_effect pa) (issuance_effects branch base (root_issue (ch_identity c)) sp)"
proof -
  let ?x = "issue_target bp branch base sp" and ?n = "root_issue (ch_identity c)"
  let ?q = "\<lparr>tq_transition = OpIssue, tq_change = c, tq_target = Some ?x\<rparr>"
  have edge: "lifecycle_edge (ch_state c) OpIssue DRAFT" using c(2) by (simp add: lifecycle_edge.intros)
  have canonical: "canonical_target ?x"
    using settled by (simp add: settled_issuance_def canonical_target_def canonical_commit_def)
  have target: "validate_transition_target pa (issue_target_value bp branch base sp) path = Some (Inr ?x)" for path
    using target_round_trip [OF _ canonical] settled by (simp add: settled_issuance_def issue_target_value_eq)
  have "\<exists>r. validate_transition_semantics lc c OpIssue (Some ?x) = Inr r"
    using edge settled c(3)
    by (cases sp)
      (auto simp: valid_semantics clean_issue_checks settled_issuance_def projected_branch_def projected_pull_request_def)
  then obtain r where r: "validate_transition_semantics lc c OpIssue (Some ?x) = Inr r" by blast
  have name: "js ''issue'' = transition_name OpIssue" by simp
  have valid: "validate_transition_request lc pa (issue_request_value c (issue_target_value bp branch base sp)) = Some (Inr ?q)"
    using r target [of "js ''$.target''"] wf_change_validates [OF c(1), of lc]
    by (simp del: normalize_change_transition.simps transition_name.simps add: validate_transition_request_def
        issue_request_value_def name validation_result_Inr clean_request_checks request_keys_def transition_name_read)
  have resolved: "resolved_transition_target ?q = \<lparr>rt_branch = Some branch, rt_base_branch = Some base, rt_pull_request = None,
      rt_branch_commit_sha = None, rt_semantic_plan = sp, rt_semantic_merge_plan = None\<rparr>"
    by (simp add: resolved_transition_target_def target_or_none_def Let_def)
  then have effects: "issue_effects ?n (resolved_transition_target ?q) = Inr (issuance_effects branch base ?n sp)"
    by (cases sp) (simp_all add: issue_effects_def issuance_effects_def)
  show "\<exists>t. plan_change_transition lc pa (issue_request_value c (issue_target_value bp branch base sp)) = Inr t \<and>
      tp_result t = projected_change (ch_identity c) (ch_provenance c) DRAFT (Some branch) None \<and>
      tp_effects t = issuance_effects branch base (root_issue (ch_identity c)) sp"
    using edge by (simp add: plan_change_transition_def valid build_plan_eq [where to = DRAFT] operation_effects_def
        effects [unfolded resolved] transition_result_def resolved Let_def)
  show "list_all (wf_effect pa) (issuance_effects branch base ?n sp)"
  proof (rule wf_issue_effects [where q = ?q])
    show "issue_number (root_issue (ch_identity (tq_change ?q)))"
      using c(1) by (simp add: wf_change_def wf_identity_def issue_number_def)
    show "settled_request pa ?q" using c(1) settled by (simp add: settled_request_def settled_issuance_def)
  qed (use r canonical effects in \<open>simp_all add: target_or_none_def\<close>)
qed

text \<open>What the projection gives issuance.\<close>

lemma state_from_pull_healthy: "issuance_healthy_state (state_from_pull_request p)"
  by (simp add: state_from_pull_request_def issuance_healthy_state_def)

lemma projected_for_issuance:
  assumes "pr_change (project_change lc ba v) = Some c" and "pr_valid (project_change lc ba v)"
  shows "\<exists>canonical. pr_canonical_branch (project_change lc ba v) = Some canonical \<and>
      (pr_status (project_change lc ba v) = Absent \<and> ch_state c = DEFINED \<and> ch_projection c = None \<or>
       pr_status (project_change lc ba v) = Healthy \<and> issuance_healthy_state (ch_state c) \<and>
       (\<exists>n. ch_projection c = Some \<lparr>cp_branch = Some canonical, cp_pull_request = Some n\<rparr>))"
proof -
  obtain i pv a d base r bs ps where
    proj: "project_change lc ba v =
       project_facts i pv (canonical_branch_of a d (anchored_names (root_issue i) bs ps)) base ps
         (evidence_facts (root_issue i) a (canonical_branch_of a d (anchored_names (root_issue i) bs ps)) base r bs ps)"
    using project_change_projected [OF assms(1)] by metis
  define canonical where "canonical = canonical_branch_of a d (anchored_names (root_issue i) bs ps)"
  define f where "f = evidence_facts (root_issue i) a canonical base r bs ps"
  have pc: "project_change lc ba v = project_facts i pv canonical base ps f" by (simp add: proj canonical_def f_def)
  show ?thesis
  proof (cases "decide_status f = Absent")
    case True
    then show ?thesis
      using assms(1) by (auto simp: pc project_facts_sel project_facts_def Let_def projected_change_def split: if_splits)
  next
    case False
    then have healthy: "decide_status f = Healthy" using assms(2) by (simp add: pc project_facts_sel)
    then obtain p where p: "pf_canonical_pulls f = [p]" by (auto elim: decide_status_Healthy)
    have "p \<in> set (filter (identity_matches canonical base (root_issue i)) ps)"
      using p by (simp add: f_def)
    then have "list_ex (\<lambda>p. pe_head p = canonical) ps" by (auto simp: identity_matches_def list_ex_iff)
    then show ?thesis
      using assms(1) healthy p state_from_pull_healthy [of p]
      by (auto simp: pc project_facts_sel project_facts_def Let_def projected_change_def)
  qed
qed

lemma wf_projected_draft:
  assumes "wf_change c" and "branch_text branch"
  shows "wf_change (projected_change (ch_identity c) (ch_provenance c) DRAFT (Some branch) None)"
  using assms by (simp add: wf_change_def projected_change_def branch_text_iff)

lemma issuance_plan_exists:
  assumes "pr_change (project_change lc (pa_branch pa) v) = Some c" and "pr_valid (project_change lc (pa_branch pa) v)"
    and "pr_canonical_branch (project_change lc (pa_branch pa) v) = Some branch"
    and "pr_canonical_base (project_change lc (pa_branch pa) v) = Some base"
    and "wf_change c" and "\<not> list_ex control_unit (repository_host (ch_identity c))"
    and "governed_issue_diagnostics lc aa v = []" and "issuance_pull_plan pa v = Inr sp"
    and "settled_issuance lc pa c branch base (input_branch_plan pa v) sp"
  shows "\<exists>p. plan_change_issuance lc pa aa v = Inr p"
proof -
  let ?r = "project_change lc (pa_branch pa) v" and ?bp = "input_branch_plan pa v"
  have wfi: "wf_identity (ch_identity c)" using assms(5) by (simp add: wf_change_def)
  obtain key where key: "change_identity_key lc (ch_identity c) = Inr key"
      "bounded_text max_idempotency_key_length (JStr key) = Some key"
    using identity_key_text [OF wfi assms(6)] by blast
  note texts = assms(9) [unfolded settled_issuance_def]
  have state: "pr_status ?r = Absent \<and> ch_state c = DEFINED \<and> ch_projection c = None \<or>
      pr_status ?r = Healthy \<and> issuance_healthy_state (ch_state c) \<and>
      (\<exists>n. ch_projection c = Some \<lparr>cp_branch = Some branch, cp_pull_request = Some n\<rparr>)"
    using projected_for_issuance [OF assms(1,2)] assms(3) by auto
  have "\<exists>built. build_issuance_plan lc pa (pr_status ?r) c branch base ?bp sp = Some built \<and>
      validate_issuance_plan lc pa (issuance_plan_value built) = Some (Inr built)"
  proof (cases "pr_status ?r = Absent")
    case True
    then have c: "ch_state c = DEFINED" "ch_projection c = None" using state by auto
    let ?d = "projected_change (ch_identity c) (ch_provenance c) DRAFT (Some branch) None"
    let ?ver = "\<lparr>iv_branch = branch, iv_base = base, iv_state = DRAFT, iv_pull_request = None\<rparr>"
    let ?built = "issuance_plan_of Create_Mode c key ?bp ?d (issuance_effects branch base (root_issue (ch_identity c)) sp) ?ver"
    obtain t where t: "plan_change_transition lc pa (issue_request_value c (issue_target_value ?bp branch base sp)) = Inr t"
        "tp_result t = ?d" "tp_effects t = issuance_effects branch base (root_issue (ch_identity c)) sp"
      using issue_request_plans(1) [OF assms(5) c assms(9)] by blast
    obtain t' where t': "plan_change_transition lc pa (issue_request_value c (issue_target_value None branch base sp)) = Inr t'"
        "tp_result t' = ?d" "tp_effects t' = issuance_effects branch base (root_issue (ch_identity c)) sp"
      using issue_request_plans(1) [OF assms(5) c settled_issuance_without_plan [OF assms(9)]] by blast
    have before: "change_before_issuance ?d = c"
      using c by (cases c) (simp add: change_before_issuance_def projected_change_def)
    have draft: "issuance_healthy_state DRAFT" by (simp add: issuance_healthy_state_def)
    have "build_issuance_plan lc pa (pr_status ?r) c branch base ?bp sp = Some ?built"
      using True key(1) t draft by (simp add: build_issuance_plan_def build_issuance_verification_def)
    moreover have "clean_run (verification_checks (verification_value ?ver)) (Some ?ver)"
      using texts draft by (intro verification_value_checks) simp_all
    then have "validate_issuance_plan lc pa (issuance_plan_value ?built) = Some (Inr ?built)"
      using wf_projected_draft [OF assms(5)] key texts settled_issuance_plan [OF assms(9)] t' before
        issue_request_plans(2) [OF assms(5) c assms(9)]
      by (intro issuance_plan_validates) (simp_all add: issuance_plan_of_def, simp add: issuance_effects_def)
    ultimately show ?thesis by blast
  next
    case False
    then obtain n where c: "pr_status ?r = Healthy" "issuance_healthy_state (ch_state c)"
        "ch_projection c = Some \<lparr>cp_branch = Some branch, cp_pull_request = Some n\<rparr>"
      using state by auto
    let ?ver = "\<lparr>iv_branch = branch, iv_base = base, iv_state = ch_state c, iv_pull_request = Some n\<rparr>"
    let ?built = "issuance_plan_of Return_Existing c key ?bp c [] ?ver"
    have proj: "projected_branch c = Some branch" "projected_pull_request c = Some n"
      using c(3) by (simp_all add: projected_branch_def projected_pull_request_def)
    have "issue_number n" using assms(5) c(3) by (simp add: wf_change_def issue_number_def)
    then have "clean_run (verification_checks (verification_value ?ver)) (Some ?ver)"
      using texts c(2) by (intro verification_value_checks) simp_all
    then have "validate_issuance_plan lc pa (issuance_plan_value ?built) = Some (Inr ?built)"
      using assms(5) key proj c(2) settled_issuance_plan [OF assms(9)]
      by (intro issuance_plan_validates) (simp_all add: issuance_plan_of_def)
    moreover have "build_issuance_plan lc pa (pr_status ?r) c branch base ?bp sp = Some ?built"
      using c(1,2) key(1) proj by (simp add: build_issuance_plan_def build_issuance_verification_def)
    ultimately show ?thesis by blast
  qed
  moreover have "pr_status ?r \<in> {Absent, Healthy}" using state by auto
  ultimately show ?thesis
    using assms(1-4,7,8)
    by (auto simp: plan_change_issuance_def plan_projection_issuance_def validated_issuance_def)
qed


definition sample_artifacts :: artifact_authority where
  "sample_artifacts =
     \<lparr>aa_contract = (\<lambda>v. []), aa_existing_issue = (\<lambda>c b s. None), aa_existing_pull = (\<lambda>c b. None),
      aa_render_issue = (\<lambda>c v d. None)\<rparr>"

definition sample_defined :: change where
  "sample_defined = projected_change sample_identity no_provenance DEFINED None None"

lemma sample_absent_projection:
  "pr_change (project_change (\<lambda>s. s) sample_authority (sample_projection_input [] [])) = Some sample_defined"
  "pr_valid (project_change (\<lambda>s. s) sample_authority (sample_projection_input [] []))"
  "pr_status (project_change (\<lambda>s. s) sample_authority (sample_projection_input [] [])) = Absent"
  "pr_canonical_branch (project_change (\<lambda>s. s) sample_authority (sample_projection_input [] [])) = Some (js ''feat/7-x'')"
  "pr_canonical_base (project_change (\<lambda>s. s) sample_authority (sample_projection_input [] [])) = Some (js ''main'')"
proof -
  have "project_change (\<lambda>s. s) sample_authority (sample_projection_input [] []) =
      project_evidence sample_identity no_provenance (Some (js ''feat/7-x'')) (js ''feat/7-x'') (js ''main'')
        (Read_Available (7, Open_State)) [] []"
    by (subst sample_projection [where qs = "[]"]) (simp_all add: clean_run_bind checked List.map_filter_def)
  moreover have "root_issue sample_identity = 7" by (simp add: sample_identity_def)
  ultimately show
    "pr_change (project_change (\<lambda>s. s) sample_authority (sample_projection_input [] [])) = Some sample_defined"
    "pr_valid (project_change (\<lambda>s. s) sample_authority (sample_projection_input [] []))"
    "pr_status (project_change (\<lambda>s. s) sample_authority (sample_projection_input [] [])) = Absent"
    "pr_canonical_branch (project_change (\<lambda>s. s) sample_authority (sample_projection_input [] [])) = Some (js ''feat/7-x'')"
    "pr_canonical_base (project_change (\<lambda>s. s) sample_authority (sample_projection_input [] [])) = Some (js ''main'')"
    by (simp_all add: project_evidence_def issue_mismatch_def canonical_branch_of_def project_facts_def decide_status_def
        evidence_facts_def anchored_names_def ambiguous_anchors_def set_add_all_def aborted_pull_def sample_defined_def Let_def)
qed

lemma sample_issuance_facts:
  "pr_change (project_change (\<lambda>s. s) (pa_branch sample_plans) (sample_projection_input [] [])) = Some sample_defined"
  "pr_valid (project_change (\<lambda>s. s) (pa_branch sample_plans) (sample_projection_input [] []))"
  "pr_canonical_branch (project_change (\<lambda>s. s) (pa_branch sample_plans) (sample_projection_input [] [])) = Some (js ''feat/7-x'')"
  "pr_canonical_base (project_change (\<lambda>s. s) (pa_branch sample_plans) (sample_projection_input [] [])) = Some (js ''main'')"
  "wf_change sample_defined"
  "\<not> list_ex control_unit (repository_host (ch_identity sample_defined))"
  "governed_issue_diagnostics (\<lambda>s. s) sample_artifacts (sample_projection_input [] []) = []"
  "issuance_pull_plan sample_plans (sample_projection_input [] []) = Inr None"
  "settled_issuance (\<lambda>s. s) sample_plans sample_defined (js ''feat/7-x'') (js ''main'')
     (input_branch_plan sample_plans (sample_projection_input [] [])) None"
proof -
  let ?v = "sample_projection_input [] []"
  have plans: "pa_branch sample_plans = sample_authority" by (simp add: sample_plans_def)
  show "pr_change (project_change (\<lambda>s. s) (pa_branch sample_plans) ?v) = Some sample_defined"
    "pr_valid (project_change (\<lambda>s. s) (pa_branch sample_plans) ?v)"
    "pr_canonical_branch (project_change (\<lambda>s. s) (pa_branch sample_plans) ?v) = Some (js ''feat/7-x'')"
    "pr_canonical_base (project_change (\<lambda>s. s) (pa_branch sample_plans) ?v) = Some (js ''main'')"
    by (simp_all add: plans sample_absent_projection)
  show "wf_change sample_defined"
    using wf_sample_identity
    by (simp add: wf_change_def sample_defined_def projected_change_def no_provenance_def wf_principal_def)
  show "\<not> list_ex control_unit (repository_host (ch_identity sample_defined))"
    by (simp add: sample_defined_def sample_identity_def js_eval control_unit_def)
  show "governed_issue_diagnostics (\<lambda>s. s) sample_artifacts ?v = []"
    by (simp add: governed_issue_diagnostics_def sample_projection_input_def)
  show "issuance_pull_plan sample_plans ?v = Inr None"
    by (simp add: issuance_pull_plan_def sample_projection_input_def)
  have "input_branch_plan sample_plans ?v = Some JNull"
    by (simp add: input_branch_plan_def sample_projection_input_def sample_plans_def sample_authority_def)
  then show "settled_issuance (\<lambda>s. s) sample_plans sample_defined (js ''feat/7-x'') (js ''main'') (input_branch_plan sample_plans ?v) None"
    by (simp del: bounded_text.simps add: settled_issuance_def settled_target_def settled_plan_def branch_text_def
        sample_plans_def sample_authority_def)
qed


lemma sample_issuance_planned:
  "\<exists>p. plan_change_issuance (\<lambda>s. s) sample_plans sample_artifacts (sample_projection_input [] []) = Inr p"
  by (rule issuance_plan_exists [OF sample_issuance_facts])

theorem issuance_follows_projection_witness:
  "\<exists>p title body plan.
     plan_change_issuance (\<lambda>s. s) sample_plans sample_artifacts (sample_projection_input [] []) = Inr p \<and>
     ip_effects p = [CREATE_BRANCH (js ''feat/7-x'') (js ''main''),
       CREATE_PROVENANCE_COMMIT (js ''feat/7-x'') 7 (provenance_record_path 7),
       CREATE_PULL_REQUEST (js ''feat/7-x'') (js ''main'') 7 title body plan]"
proof -
  obtain p where p: "plan_change_issuance (\<lambda>s. s) sample_plans sample_artifacts (sample_projection_input [] []) = Inr p"
    using sample_issuance_planned by blast
  have "root_issue (ch_identity sample_defined) = 7" by (simp add: sample_defined_def sample_identity_def)
  moreover have "pa_branch sample_plans = sample_authority" by (simp add: sample_plans_def)
  ultimately show ?thesis
    using issuance_follows_projection [OF p] p by (simp add: sample_absent_projection Let_def)
qed

end
