(* ===== verification/Projection_Transport.thy ===== *)
theory Projection_Transport
  imports Issuance_Planning
begin

text \<open>
  A projection as a plain object that crosses a transport or a package boundary:
  \<^verbatim>\<open>validateChangeProjectionResult\<close> of \<^verbatim>\<open>src/src/change.ts\<close> with the
  validators of its candidates and of its diagnostics.  The candidates of a transported projection are
  read with the parsers of the evidence, sorted again, and their classification is taken over as it
  stands.
\<close>

subsection \<open>Diagnostics as values\<close>

definition diagnostic_codes :: "string list" where
  "diagnostic_codes =
     [''CHANGE_INVALID_JSON'', ''CHANGE_INVALID_ROOT'', ''CHANGE_MISSING_PROPERTY'', ''CHANGE_UNKNOWN_PROPERTY'',
      ''CHANGE_UNSUPPORTED_VERSION'', ''CHANGE_INVALID_IDENTITY'', ''CHANGE_INVALID_STATE'',
      ''CHANGE_INVALID_PROVENANCE'', ''CHANGE_INVALID_PROJECTION'', ''CHANGE_INVALID_BRANCH_INPUT'',
      ''CHANGE_INVALID_BRANCH_GOVERNANCE'', ''CHANGE_BRANCH_GOVERNANCE_MISMATCH'', ''CHANGE_INVALID_TRANSITION'',
      ''CHANGE_UNSUPPORTED_TRANSITION'', ''CHANGE_TRANSITION_NOT_ALLOWED'', ''CHANGE_INVALID_TRANSITION_TARGET'',
      ''CHANGE_INVALID_EFFECT'', ''CHANGE_INVALID_PLAN'', ''CHANGE_PROJECTION_INVALID_EVIDENCE'',
      ''CHANGE_PROJECTION_EVIDENCE_MISSING'', ''CHANGE_PROJECTION_EVIDENCE_UNAVAILABLE'',
      ''CHANGE_PROJECTION_ISSUE_MISMATCH'', ''CHANGE_PROJECTION_PARTIAL'', ''CHANGE_PROJECTION_DUPLICATE'',
      ''CHANGE_PROJECTION_WRONG_BASE'', ''CHANGE_PROJECTION_AMBIGUOUS'', ''CHANGE_PROJECTION_CONFLICT'',
      ''CHANGE_ISSUANCE_ROOT_ISSUE_ABSENT'', ''CHANGE_PROVENANCE_INVALID_INPUT'',
      ''CHANGE_PROVENANCE_IDENTITY_MISMATCH'', ''CHANGE_PROVENANCE_ROOT_ISSUE_MISMATCH'',
      ''CHANGE_PROVENANCE_BRANCH_MISMATCH'', ''CHANGE_PROVENANCE_BASE_MISMATCH'',
      ''CHANGE_PROVENANCE_PULL_REQUEST_MISMATCH'', ''CHANGE_PROVENANCE_INVALID_ISSUER'',
      ''CHANGE_PROVENANCE_ISSUER_MISMATCH'', ''CHANGE_PROVENANCE_INVALID_PR_CONTRACT'',
      ''CHANGE_PROVENANCE_CONFLICT'', ''CHANGE_IMPLEMENTATION_CONFORMANCE_REQUIRED'',
      ''CHANGE_IMPLEMENTATION_CONFORMANCE_INVALID'']"

definition diagnostic_keys :: "jstr list" where
  "diagnostic_keys = [js ''version'', js ''code'', js ''path'', js ''message'']"

text \<open>\<^verbatim>\<open>isDiagnostic\<close>, with the diagnostic it recognizes.\<close>

definition diagnostic_value_read :: "jsval \<Rightarrow> change_diagnostic option" where
  "diagnostic_value_read v =
     (if \<not> is_record v \<or> \<not> list_all (\<lambda>k. k \<in> set diagnostic_keys) (object_keys v)
        \<or> get_prop v (js ''version'') \<noteq> JNum (Integral 1) then None
      else case (get_prop v (js ''code''), get_prop v (js ''path''), get_prop v (js ''message'')) of
             (JStr code, JStr path, JStr message) \<Rightarrow>
               if code \<in> set (map js diagnostic_codes)
               then Some \<lparr>cd_code = code, cd_path = path, cd_message = message\<rparr> else None
           | _ \<Rightarrow> None)"

text \<open>\<^verbatim>\<open>createChangeDiagnosticReport\<close>: None when it throws.\<close>

definition bounded_diagnostic :: "change_diagnostic \<Rightarrow> bool" where
  "bounded_diagnostic d \<longleftrightarrow>
     length (cd_path d) \<le> max_diagnostic_path_length \<and> length (cd_message d) \<le> max_diagnostic_message_length"

definition create_report :: "change_diagnostic list \<Rightarrow> change_diagnostic list option" where
  "create_report ds =
     (if max_change_diagnostics < length ds \<or> \<not> list_all bounded_diagnostic ds then None
      else Some (diagnostic_report ds))"

definition projection_diagnostics :: "jsval \<Rightarrow> jstr \<Rightarrow> change_diagnostic list checked" where
  "projection_diagnostics v path =
     (let invalid = (\<lambda>message. do {
            add_diagnostic ''CHANGE_INVALID_PLAN'' (sub_path path (js ''diagnostics'')) (js message);
            State_Monad.return []
          }) in
      case get_prop v (js ''diagnostics'') of
        JArr vs \<Rightarrow>
          if max_change_diagnostics < length vs then invalid ''Projection diagnostics are invalid.''
          else (case those (map diagnostic_value_read vs) of
                  None \<Rightarrow> invalid ''Projection diagnostics are invalid.''
                | Some ds \<Rightarrow>
                    (case create_report ds of
                       None \<Rightarrow> invalid ''Projection diagnostics exceed their bounds.''
                     | Some report \<Rightarrow> State_Monad.return report))
      | _ \<Rightarrow> invalid ''Projection diagnostics are invalid.'')"

subsection \<open>Candidates\<close>

fun candidate_class_name :: "candidate_class \<Rightarrow> jstr" where
  "candidate_class_name Canonical = js ''canonical''"
| "candidate_class_name Noncanonical = js ''noncanonical''"
| "candidate_class_name Conflicting = js ''conflicting''"

definition candidate_class_value :: "jsval \<Rightarrow> candidate_class option" where
  "candidate_class_value v = find (\<lambda>k. v = JStr (candidate_class_name k)) [Canonical, Noncanonical, Conflicting]"

fun projection_status_name :: "projection_status \<Rightarrow> jstr" where
  "projection_status_name Healthy = js ''healthy''"
| "projection_status_name Absent = js ''absent''"
| "projection_status_name Partial = js ''partial''"
| "projection_status_name Duplicate = js ''duplicate''"
| "projection_status_name Wrong_Base = js ''wrong-base''"
| "projection_status_name Ambiguous = js ''ambiguous''"
| "projection_status_name Unavailable = js ''unavailable''"

definition projection_status_value :: "jsval \<Rightarrow> projection_status option" where
  "projection_status_value v =
     find (\<lambda>s. v = JStr (projection_status_name s))
       [Healthy, Absent, Partial, Duplicate, Wrong_Base, Ambiguous, Unavailable]"

definition plan_value :: "'a option \<Rightarrow> jstr \<Rightarrow> string \<Rightarrow> 'a option checked" where
  "plan_value x path message =
     (case x of None \<Rightarrow> reject_with ''CHANGE_INVALID_PLAN'' path (js message) | Some y \<Rightarrow> State_Monad.return (Some y))"

text \<open>
  A parser run on an array of its own, whose diagnostics are then pushed without a bound.
\<close>

definition separately :: "'a checked \<Rightarrow> 'a checked" where
  "separately m = (case run_checks m of (x, new) \<Rightarrow> State (\<lambda>ds. (x, ds @ new)))"

definition candidate_keys :: "jstr list" where
  "candidate_keys = [js ''candidate'', js ''classification'', js ''reason'']"

definition candidate_checks ::
  "(jsval \<Rightarrow> jstr \<Rightarrow> 'a option checked) \<Rightarrow> string \<Rightarrow> jsval \<Rightarrow> jstr \<Rightarrow> 'a candidate option checked" where
  "candidate_checks parse message v path =
     (if \<not> is_record v then reject_with ''CHANGE_INVALID_PLAN'' path (js message)
      else do {
        add_unknown_properties v candidate_keys path;
        c \<leftarrow> separately (parse (get_prop v (js ''candidate'')) (sub_path path (js ''candidate'')));
        k \<leftarrow> plan_value (candidate_class_value (get_prop v (js ''classification''))) (sub_path path (js ''classification''))
              ''Projection candidate classification is invalid.'';
        reason \<leftarrow> issuance_text (get_prop v (js ''reason'')) (sub_path path (js ''reason''))
                   ''Projection candidate reason'' max_diagnostic_message_length;
        State_Monad.return (Option.bind k (\<lambda>k. Option.bind reason (\<lambda>reason.
          map_option (\<lambda>c. \<lparr>cand_value = c, cand_class = k, cand_reason = reason\<rparr>) c)))
      })"

definition branch_candidate_checks :: "jsval \<Rightarrow> jstr \<Rightarrow> branch_evidence candidate option checked" where
  "branch_candidate_checks =
     candidate_checks parse_branch_evidence ''Branch projection candidate must be an object.''"

definition pull_candidate_checks :: "jsval \<Rightarrow> jstr \<Rightarrow> pull_request_evidence candidate option checked" where
  "pull_candidate_checks =
     candidate_checks parse_pull_request_evidence ''Pull-request projection candidate must be an object.''"

text \<open>The candidates that could be read; a list of another shape counts as empty.\<close>

definition candidate_list ::
  "(jsval \<Rightarrow> jstr \<Rightarrow> 'a candidate option checked) \<Rightarrow> string \<Rightarrow> string \<Rightarrow> jsval \<Rightarrow> jstr \<Rightarrow> 'a candidate list checked" where
  "candidate_list check not_array too_many v path =
     (let invalid = (\<lambda>message. do { add_diagnostic ''CHANGE_INVALID_PLAN'' path (js message); State_Monad.return [] }) in
      case v of
        JArr vs \<Rightarrow>
          if max_projection_candidates < length vs then invalid too_many
          else do { xs \<leftarrow> parse_items check path 0 vs; State_Monad.return (List.map_filter id xs) }
      | _ \<Rightarrow> invalid not_array)"

definition candidate_lists ::
  "jsval \<Rightarrow> jstr \<Rightarrow> (branch_evidence candidate list \<times> pull_request_evidence candidate list) checked" where
  "candidate_lists v path =
     (if \<not> is_record v then do {
        add_diagnostic ''CHANGE_INVALID_PLAN'' path (js ''Projection candidates must be an object.'');
        State_Monad.return ([], [])
      }
      else do {
        add_unknown_properties v [js ''branches'', js ''pullRequests''] path;
        bs \<leftarrow> candidate_list branch_candidate_checks ''Branch candidates must be an array.''
               ''At most 64 branch candidates are supported.'' (get_prop v (js ''branches'')) (sub_path path (js ''branches''));
        ps \<leftarrow> candidate_list pull_candidate_checks ''Pull-request candidates must be an array.''
               ''At most 64 pull-request candidates are supported.'' (get_prop v (js ''pullRequests''))
               (sub_path path (js ''pullRequests''));
        State_Monad.return (bs, ps)
      })"

definition branch_candidate_key :: "branch_evidence candidate \<Rightarrow> jstr \<times> jstr \<times> jstr \<times> jstr" where
  "branch_candidate_key c =
     (be_name (cand_value c), or_empty (be_sha (cand_value c)), candidate_class_name (cand_class c), cand_reason c)"

definition pull_candidate_key where
  "pull_candidate_key c = (pull_request_key (cand_value c), candidate_class_name (cand_class c), cand_reason c)"

subsection \<open>The projection\<close>

definition projection_result_keys :: "jstr list" where
  "projection_result_keys =
     [js ''valid'', js ''status'', js ''canonicalBranch'', js ''canonicalBaseBranch'', js ''candidates'', js ''change'',
      js ''diagnostics'']"

fun boolean_value :: "jsval \<Rightarrow> bool option" where
  "boolean_value (JBool b) = Some b"
| "boolean_value _ = None"

definition status_agrees :: "bool option \<Rightarrow> projection_status option \<Rightarrow> bool" where
  "status_agrees valid status \<longleftrightarrow>
     (case (valid, status) of (Some b, Some s) \<Rightarrow> b = (s = Healthy \<or> s = Absent) | _ \<Rightarrow> True)"

definition parse_projection_result :: "(jstr \<Rightarrow> jstr) \<Rightarrow> jsval \<Rightarrow> jstr \<Rightarrow> projection_result option checked" where
  "parse_projection_result lc v path =
     (if \<not> is_record v
      then reject_with ''CHANGE_INVALID_PLAN'' path (js ''Projection evidence must be an object.'')
      else do {
        add_unknown_properties v projection_result_keys path;
        valid \<leftarrow> plan_value (boolean_value (get_prop v (js ''valid''))) (sub_path path (js ''valid''))
                  ''Projection evidence validity is invalid.'';
        status \<leftarrow> plan_value (projection_status_value (get_prop v (js ''status''))) (sub_path path (js ''status''))
                   ''Projection evidence status is invalid.'';
        branch \<leftarrow> own_property v path (js ''canonicalBranch'')
                   (\<lambda>x p. issuance_text x p ''Canonical branch'' max_change_branch_length);
        base \<leftarrow> own_property v path (js ''canonicalBaseBranch'')
                 (\<lambda>x p. issuance_text x p ''Canonical base branch'' max_change_branch_length);
        cs \<leftarrow> candidate_lists (get_prop v (js ''candidates'')) (sub_path path (js ''candidates''));
        c \<leftarrow> (if has_prop v (js ''change'') then adopt (validate_change lc (get_prop v (js ''change'')))
             else State_Monad.return None);
        ds \<leftarrow> projection_diagnostics v path;
        report_if (\<not> status_agrees valid status) ''CHANGE_INVALID_PLAN'' (sub_path path (js ''valid''))
          (js ''Projection validity does not match its status.'');
        when_clean (case (valid, status) of
           (Some valid, Some status) \<Rightarrow>
             Some \<lparr>pr_valid = valid, pr_status = status, pr_canonical_branch = branch, pr_canonical_base = base,
                   pr_branches = sort_key branch_candidate_key (fst cs),
                   pr_pull_requests = sort_key pull_candidate_key (snd cs), pr_change = c, pr_diagnostics = ds\<rparr>
         | _ \<Rightarrow> None)
      })"

text \<open>None: the report of the diagnostics throws, since there are more of them than it allows.\<close>

definition validate_projection_result ::
  "(jstr \<Rightarrow> jstr) \<Rightarrow> jsval \<Rightarrow> (change_diagnostic list + projection_result) option" where
  "validate_projection_result lc v =
     (case run_checks (parse_projection_result lc v change_root) of
        (Some r, []) \<Rightarrow> Some (Inr r)
      | (_, ds) \<Rightarrow> if max_change_diagnostics < length ds then None else Some (Inl (diagnostic_report ds)))"

subsection \<open>What the validator accepts\<close>

lemma grows_separately [checked]: "grows (separately m)"
  by (simp add: separately_def grows_def split: prod.split)

lemma clean_separately [simp]: "clean_run (separately m) y \<longleftrightarrow> clean_run m y"
  by (auto simp: separately_def clean_run_def run_checks_def split: prod.split)

lemma grows_plan_value [checked]: "grows (plan_value x path message)"
  by (auto simp: plan_value_def intro!: checked split: option.split)

lemma clean_plan_value [simp]: "clean_run (plan_value x path message) y \<longleftrightarrow> y \<noteq> None \<and> x = y"
  by (auto simp: plan_value_def split: option.split)

lemma grows_candidate [checked]: "grows (candidate_checks parse message v path)"
  by (auto simp: candidate_checks_def intro!: checked split: option.split)

lemma grows_candidate_kinds [checked]:
  "grows (branch_candidate_checks v path)" "grows (pull_candidate_checks v path)"
  by (simp_all add: branch_candidate_checks_def pull_candidate_checks_def checked)

lemma grows_candidate_list [checked]:
  "(\<And>x p. grows (check x p)) \<Longrightarrow> grows (candidate_list check a b v path)"
  by (cases v) (auto simp: candidate_list_def Let_def intro!: checked)

lemma grows_candidate_lists [checked]: "grows (candidate_lists v path)"
  by (auto simp: candidate_lists_def intro!: checked)

lemma grows_projection_diagnostics [checked]: "grows (projection_diagnostics v path)"
  by (auto simp: projection_diagnostics_def Let_def intro!: checked split: jsval.split option.split)

lemma grows_parse_projection [checked]: "grows (parse_projection_result lc v path)"
  by (auto simp: parse_projection_result_def intro!: checked)

lemma clean_candidate [simp]:
  "clean_run (candidate_checks parse message v path) y \<longleftrightarrow>
     is_record v \<and> set (object_keys v) \<subseteq> set candidate_keys \<and>
     (\<exists>c k reason. clean_run (parse (get_prop v (js ''candidate'')) (sub_path path (js ''candidate''))) c \<and>
        candidate_class_value (get_prop v (js ''classification'')) = Some k \<and>
        bounded_text max_diagnostic_message_length (get_prop v (js ''reason'')) = Some reason \<and>
        y = map_option (\<lambda>c. \<lparr>cand_value = c, cand_class = k, cand_reason = reason\<rparr>) c)"
  by (cases "is_record v") (auto simp: candidate_checks_def clean_run_bind checked)

lemma clean_candidate_list:
  assumes "\<And>x p. grows (check x p)"
  shows "clean_run (candidate_list check a b v path) y \<longleftrightarrow>
    (\<exists>vs xs. v = JArr vs \<and> length vs \<le> max_projection_candidates \<and> clean_run (parse_items check path 0 vs) xs \<and>
       y = List.map_filter id xs)"
  using assms by (cases v) (auto simp: candidate_list_def Let_def clean_run_bind checked)

lemma clean_projection_diagnostics:
  "clean_run (projection_diagnostics v path) y \<longleftrightarrow>
     (\<exists>vs ds. get_prop v (js ''diagnostics'') = JArr vs \<and> length vs \<le> max_change_diagnostics \<and>
        those (map diagnostic_value_read vs) = Some ds \<and> create_report ds = Some y)"
  by (cases "get_prop v (js ''diagnostics'')")
    (auto simp: projection_diagnostics_def Let_def clean_run_bind checked split: option.split)

lemma clean_candidate_lists:
  "clean_run (candidate_lists v path) y \<longleftrightarrow>
     is_record v \<and> set (object_keys v) \<subseteq> {js ''branches'', js ''pullRequests''} \<and>
     (\<exists>vs xs ws ys. get_prop v (js ''branches'') = JArr vs \<and> length vs \<le> max_projection_candidates \<and>
        clean_run (parse_items branch_candidate_checks (sub_path path (js ''branches'')) 0 vs) xs \<and>
        get_prop v (js ''pullRequests'') = JArr ws \<and> length ws \<le> max_projection_candidates \<and>
        clean_run (parse_items pull_candidate_checks (sub_path path (js ''pullRequests'')) 0 ws) ys \<and>
        y = (List.map_filter id xs, List.map_filter id ys))"
  by (cases "is_record v") (auto simp: candidate_lists_def clean_run_bind clean_candidate_list checked)

definition optional_read :: "jsval \<Rightarrow> string \<Rightarrow> (jsval \<Rightarrow> 'a option) \<Rightarrow> 'a option \<Rightarrow> bool" where
  "optional_read v key good y \<longleftrightarrow> (if has_prop v (js key) then y \<noteq> None \<and> good (get_prop v (js key)) = y else y = None)"

lemma clean_optional_text:
  "clean_run (own_property v path (js key) (\<lambda>x p. issuance_text x p label m)) y \<longleftrightarrow> optional_read v key (bounded_text m) y"
  by (simp add: optional_read_def)

definition change_read :: "(jstr \<Rightarrow> jstr) \<Rightarrow> jsval \<Rightarrow> change option \<Rightarrow> bool" where
  "change_read lc v c \<longleftrightarrow>
     (if has_prop v (js ''change'')
      then result_diagnostics (validate_change lc (get_prop v (js ''change''))) = [] \<and>
           result_value (validate_change lc (get_prop v (js ''change''))) = c
      else c = None)"

lemma clean_change_read:
  "clean_run (if has_prop v (js ''change'') then adopt (validate_change lc (get_prop v (js ''change'')))
      else State_Monad.return None) c \<longleftrightarrow> change_read lc v c"
  by (auto simp: change_read_def)

lemma clean_parse_projection:
  "clean_run (parse_projection_result lc v path) y \<longleftrightarrow>
     is_record v \<and> set (object_keys v) \<subseteq> set projection_result_keys \<and>
     (\<exists>valid status branch base cs c ds.
        boolean_value (get_prop v (js ''valid'')) = Some valid \<and>
        projection_status_value (get_prop v (js ''status'')) = Some status \<and>
        optional_read v ''canonicalBranch'' (bounded_text max_change_branch_length) branch \<and>
        optional_read v ''canonicalBaseBranch'' (bounded_text max_change_branch_length) base \<and>
        clean_run (candidate_lists (get_prop v (js ''candidates'')) (sub_path path (js ''candidates''))) cs \<and>
        change_read lc v c \<and>
        clean_run (projection_diagnostics v path) ds \<and>
        valid = (status = Healthy \<or> status = Absent) \<and>
        y = Some \<lparr>pr_valid = valid, pr_status = status, pr_canonical_branch = branch, pr_canonical_base = base,
                  pr_branches = sort_key branch_candidate_key (fst cs),
                  pr_pull_requests = sort_key pull_candidate_key (snd cs), pr_change = c, pr_diagnostics = ds\<rparr>)"
  by (cases "is_record v"; cases "boolean_value (get_prop v (js ''valid''))";
      cases "projection_status_value (get_prop v (js ''status''))")
    (simp_all add: parse_projection_result_def clean_run_bind clean_optional_text clean_change_read status_agrees_def checked
       del: clean_own, blast?)

text \<open>A projection that is accepted is one whose validity matches its status.\<close>

lemma clean_items_length:
  assumes "\<And>x p. grows (check x p)" and "clean_run (parse_items check path i vs) xs"
  shows "length (List.map_filter id xs) \<le> length vs"
proof -
  have "length xs = length vs"
    using assms(2) by (induction vs arbitrary: i xs) (auto simp: clean_parse_items [OF assms(1)] simp del: parse_items.simps)
  then show ?thesis by (metis length_filter_le length_map map_filter_def)
qed

lemma accepted_parse:
  "validate_projection_result lc v = Some (Inr r) \<longleftrightarrow> clean_run (parse_projection_result lc v change_root) (Some r)"
  by (auto simp: validate_projection_result_def clean_run_checks [symmetric] split: prod.splits option.splits list.splits)

lemma accepted_projection:
  assumes "validate_projection_result lc v = Some (Inr r)"
  shows "pr_valid r \<longleftrightarrow> pr_status r = Healthy \<or> pr_status r = Absent"
    and "length (pr_branches r) \<le> max_projection_candidates"
    and "length (pr_pull_requests r) \<le> max_projection_candidates"
proof -
  from assms obtain cs where r: "pr_valid r \<longleftrightarrow> pr_status r = Healthy \<or> pr_status r = Absent"
      "pr_branches r = sort_key branch_candidate_key (fst cs)" "pr_pull_requests r = sort_key pull_candidate_key (snd cs)"
    and "clean_run (candidate_lists (get_prop v (js ''candidates'')) (sub_path change_root (js ''candidates''))) cs"
    unfolding accepted_parse clean_parse_projection by fastforce
  then have "length (fst cs) \<le> max_projection_candidates \<and> length (snd cs) \<le> max_projection_candidates"
    unfolding clean_candidate_lists using clean_items_length [OF grows_candidate_kinds(1)]
      clean_items_length [OF grows_candidate_kinds(2)] by fastforce
  with r show "pr_valid r \<longleftrightarrow> pr_status r = Healthy \<or> pr_status r = Absent"
    and "length (pr_branches r) \<le> max_projection_candidates"
    and "length (pr_pull_requests r) \<le> max_projection_candidates"
    by simp_all
qed

subsection \<open>Projections as objects\<close>

definition issue_value :: "issue_state \<Rightarrow> jsval" where
  "issue_value s = JStr (case s of Open_State \<Rightarrow> js ''open'' | Closed_State \<Rightarrow> js ''closed'')"

definition branch_evidence_value :: "branch_evidence \<Rightarrow> jsval" where
  "branch_evidence_value b =
     JObj ((js ''name'', JStr (be_name b)) # opt_prop ''sha'' JStr (be_sha b)
           @ opt_prop ''rootIssue'' number_value (be_root_issue b))"

definition pull_evidence_value :: "pull_request_evidence \<Rightarrow> jsval" where
  "pull_evidence_value p =
     JObj ([(js ''number'', number_value (pe_number p)), (js ''head'', JStr (pe_head p)), (js ''base'', JStr (pe_base p)),
            (js ''state'', issue_value (pe_state p)), (js ''draft'', JBool (pe_draft p))]
           @ opt_prop ''headSha'' JStr (pe_head_sha p) @ opt_prop ''merged'' JBool (pe_merged p)
           @ opt_prop ''accepted'' JBool (pe_accepted p) @ opt_prop ''rootIssue'' number_value (pe_root_issue p)
           @ opt_prop ''provenance'' provenance_value (pe_provenance p))"

definition candidate_value :: "('a \<Rightarrow> jsval) \<Rightarrow> 'a candidate \<Rightarrow> jsval" where
  "candidate_value f c =
     JObj [(js ''candidate'', f (cand_value c)), (js ''classification'', JStr (candidate_class_name (cand_class c))),
           (js ''reason'', JStr (cand_reason c))]"

definition diagnostic_value :: "change_diagnostic \<Rightarrow> jsval" where
  "diagnostic_value d =
     JObj [(js ''version'', JNum (Integral 1)), (js ''code'', JStr (cd_code d)), (js ''path'', JStr (cd_path d)),
           (js ''message'', JStr (cd_message d))]"

definition candidates_value :: "projection_result \<Rightarrow> jsval" where
  "candidates_value r =
     JObj [(js ''branches'', JArr (map (candidate_value branch_evidence_value) (pr_branches r))),
           (js ''pullRequests'', JArr (map (candidate_value pull_evidence_value) (pr_pull_requests r)))]"

definition projection_result_value :: "projection_result \<Rightarrow> jsval" where
  "projection_result_value r =
     JObj ([(js ''valid'', JBool (pr_valid r)), (js ''status'', JStr (projection_status_name (pr_status r))),
            (js ''candidates'', candidates_value r), (js ''diagnostics'', JArr (map diagnostic_value (pr_diagnostics r)))]
           @ opt_prop ''canonicalBranch'' JStr (pr_canonical_branch r)
           @ opt_prop ''canonicalBaseBranch'' JStr (pr_canonical_base r)
           @ opt_prop ''change'' change_value (pr_change r))"

subsection \<open>Well-formed projections\<close>

definition all_option :: "('a \<Rightarrow> bool) \<Rightarrow> 'a option \<Rightarrow> bool" where
  "all_option P x \<longleftrightarrow> (case x of None \<Rightarrow> True | Some y \<Rightarrow> P y)"

lemma all_option_simps [simp]: "all_option P None" "all_option P (Some y) \<longleftrightarrow> P y"
  by (simp_all add: all_option_def)

definition wf_branch_evidence :: "branch_evidence \<Rightarrow> bool" where
  "wf_branch_evidence b \<longleftrightarrow>
     branch_text (be_name b) \<and> canonical_commit (be_sha b) \<and> all_option issue_number (be_root_issue b)"

definition wf_provenance :: "change_provenance \<Rightarrow> bool" where
  "wf_provenance p \<longleftrightarrow> list_all wf_principal [requester p, issuer p, implementer p, reviewer p, merger p]"

definition wf_pull_evidence :: "pull_request_evidence \<Rightarrow> bool" where
  "wf_pull_evidence p \<longleftrightarrow>
     issue_number (pe_number p) \<and> branch_text (pe_head p) \<and> branch_text (pe_base p) \<and> canonical_commit (pe_head_sha p) \<and>
     pe_merged p \<noteq> None \<and> \<not> (pe_state p = Open_State \<and> pe_merged p = Some True) \<and>
     \<not> (pe_draft p \<and> pe_accepted p = Some True) \<and> all_option issue_number (pe_root_issue p) \<and>
     all_option wf_provenance (pe_provenance p)"

definition wf_candidate :: "('a \<Rightarrow> bool) \<Rightarrow> 'a candidate \<Rightarrow> bool" where
  "wf_candidate P c \<longleftrightarrow>
     P (cand_value c) \<and> bounded_text max_diagnostic_message_length (JStr (cand_reason c)) = Some (cand_reason c)"

definition wf_diagnostics :: "change_diagnostic list \<Rightarrow> bool" where
  "wf_diagnostics ds \<longleftrightarrow>
     length ds \<le> max_change_diagnostics \<and>
     list_all (\<lambda>d. cd_code d \<in> set (map js diagnostic_codes) \<and> bounded_diagnostic d) ds"

definition wf_projection :: "projection_result \<Rightarrow> bool" where
  "wf_projection r \<longleftrightarrow>
     pr_valid r = (pr_status r = Healthy \<or> pr_status r = Absent) \<and>
     all_option branch_text (pr_canonical_branch r) \<and> all_option branch_text (pr_canonical_base r) \<and>
     length (pr_branches r) \<le> max_projection_candidates \<and> list_all (wf_candidate wf_branch_evidence) (pr_branches r) \<and>
     sorted (map branch_candidate_key (pr_branches r)) \<and>
     length (pr_pull_requests r) \<le> max_projection_candidates \<and>
     list_all (wf_candidate wf_pull_evidence) (pr_pull_requests r) \<and>
     sorted (map pull_candidate_key (pr_pull_requests r)) \<and>
     all_option wf_change (pr_change r) \<and> wf_diagnostics (pr_diagnostics r) \<and>
     sorted (map diagnostic_key (pr_diagnostics r))"

subsection \<open>The round trip\<close>

lemma issue_value_read [simp]: "open_state_value (issue_value s) = Some s"
  by (cases s) (simp_all add: issue_value_def)

lemma candidate_class_read [simp]: "candidate_class_value (JStr (candidate_class_name k)) = Some k"
  by (cases k) (simp_all add: candidate_class_value_def)

lemma status_read [simp]: "projection_status_value (JStr (projection_status_name s)) = Some s"
  by (cases s) (simp_all add: projection_status_value_def)

lemma branch_evidence_value_sel [simp]:
  "is_record (branch_evidence_value b)"
  "set (object_keys (branch_evidence_value b)) \<subseteq> {js ''name'', js ''sha'', js ''rootIssue''}"
  "get_prop (branch_evidence_value b) (js ''name'') = JStr (be_name b)"
  "has_prop (branch_evidence_value b) (js ''sha'') \<longleftrightarrow> be_sha b \<noteq> None"
  "has_prop (branch_evidence_value b) (js ''rootIssue'') \<longleftrightarrow> be_root_issue b \<noteq> None"
  "be_sha b = Some s \<Longrightarrow> get_prop (branch_evidence_value b) (js ''sha'') = JStr s"
  "be_root_issue b = Some n \<Longrightarrow> get_prop (branch_evidence_value b) (js ''rootIssue'') = number_value n"
  by (cases "be_sha b"; cases "be_root_issue b"; simp add: branch_evidence_value_def)+

lemma branch_evidence_round_trip:
  assumes "wf_branch_evidence b"
  shows "clean_run (parse_branch_evidence (branch_evidence_value b) path) (Some b)"
proof -
  have sha: "clean_run (own_property (branch_evidence_value b) path (js ''sha'') projection_commit_sha) y
      \<longleftrightarrow> y = be_sha b" for y path
    using assms by (cases "be_sha b") (auto simp: wf_branch_evidence_def canonical_commit_def simp del: commit_sha.simps)
  have issue: "clean_run (root_issue_property (branch_evidence_value b) path) y \<longleftrightarrow> y = be_root_issue b" for y path
    using assms by (cases "be_root_issue b") (auto simp: wf_branch_evidence_def)
  show ?thesis
    using assms
    by (simp del: bounded_text.simps commit_sha.simps clean_own clean_root_issue
        add: parse_branch_evidence_def clean_run_bind checked sha issue wf_branch_evidence_def branch_text_def)
qed

lemma pull_object:
  "has_prop (JObj ((k, v) # kvs)) i \<longleftrightarrow> i = k \<or> has_prop (JObj kvs) i"
  "get_prop (JObj ((k, v) # kvs)) i = (if i = k then v else get_prop (JObj kvs) i)"
  "set (object_keys (JObj ((k, v) # kvs))) \<subseteq> K \<longleftrightarrow> k \<in> K \<and> set (object_keys (JObj kvs)) \<subseteq> K"
  "\<not> has_prop (JObj []) i"
  by auto

lemma pull_evidence_value_sel [simp]:
  "is_record (pull_evidence_value p)"
  "set (object_keys (pull_evidence_value p)) \<subseteq> set pull_request_keys"
  "get_prop (pull_evidence_value p) (js ''number'') = number_value (pe_number p)"
  "get_prop (pull_evidence_value p) (js ''head'') = JStr (pe_head p)"
  "get_prop (pull_evidence_value p) (js ''base'') = JStr (pe_base p)"
  "get_prop (pull_evidence_value p) (js ''state'') = issue_value (pe_state p)"
  "get_prop (pull_evidence_value p) (js ''draft'') = JBool (pe_draft p)"
  "has_prop (pull_evidence_value p) (js ''headSha'') \<longleftrightarrow> pe_head_sha p \<noteq> None"
  "has_prop (pull_evidence_value p) (js ''merged'') \<longleftrightarrow> pe_merged p \<noteq> None"
  "has_prop (pull_evidence_value p) (js ''accepted'') \<longleftrightarrow> pe_accepted p \<noteq> None"
  "has_prop (pull_evidence_value p) (js ''rootIssue'') \<longleftrightarrow> pe_root_issue p \<noteq> None"
  "has_prop (pull_evidence_value p) (js ''provenance'') \<longleftrightarrow> pe_provenance p \<noteq> None"
  "pe_head_sha p = Some s \<Longrightarrow> get_prop (pull_evidence_value p) (js ''headSha'') = JStr s"
  "pe_merged p = Some m \<Longrightarrow> get_prop (pull_evidence_value p) (js ''merged'') = JBool m"
  "pe_accepted p = Some a \<Longrightarrow> get_prop (pull_evidence_value p) (js ''accepted'') = JBool a"
  "pe_root_issue p = Some n \<Longrightarrow> get_prop (pull_evidence_value p) (js ''rootIssue'') = number_value n"
  "pe_provenance p = Some q \<Longrightarrow> get_prop (pull_evidence_value p) (js ''provenance'') = provenance_value q"
  by (simp_all del: has_prop.simps get_prop.simps object_keys.simps opt_prop_simps
      add: pull_evidence_value_def opt_prop_read pull_object opt_prop_keys pull_request_keys_def)

lemma pull_evidence_round_trip:
  assumes "wf_pull_evidence p"
  shows "clean_run (parse_pull_request_evidence (pull_evidence_value p) path) (Some p)"
proof -
  from assms obtain m where m: "pe_merged p = Some m" by (auto simp: wf_pull_evidence_def)
  have eq: "\<lparr>pe_number = pe_number p, pe_head = pe_head p, pe_head_sha = pe_head_sha p, pe_base = pe_base p,
      pe_state = pe_state p, pe_draft = pe_draft p, pe_merged = Some m, pe_accepted = pe_accepted p,
      pe_root_issue = pe_root_issue p, pe_provenance = pe_provenance p\<rparr> = p"
    using m by (cases p) simp
  have head_sha: "clean_run (own_property (pull_evidence_value p) path (js ''headSha'') projection_commit_sha) y
      \<longleftrightarrow> y = pe_head_sha p" for y path
    using assms by (cases "pe_head_sha p") (auto simp: wf_pull_evidence_def canonical_commit_def simp del: commit_sha.simps)
  have accepted: "clean_run (if has_prop (pull_evidence_value p) (js ''accepted'')
       then boolean_property (pull_evidence_value p) path (js ''accepted'') msg else State_Monad.return None) y
      \<longleftrightarrow> y = pe_accepted p" for y path msg
    by (cases "pe_accepted p") auto
  have issue: "clean_run (root_issue_property (pull_evidence_value p) path) y \<longleftrightarrow> y = pe_root_issue p" for y path
    using assms by (cases "pe_root_issue p") (auto simp: wf_pull_evidence_def)
  have provenance: "clean_run (own_property (pull_evidence_value p) path (js ''provenance'')
       (\<lambda>x p. adopt (validate_change_provenance x p))) y \<longleftrightarrow> y = pe_provenance p" for y path
    using assms by (cases "pe_provenance p") (auto simp: wf_pull_evidence_def wf_provenance_def wf_provenance_validates)
  show ?thesis
    using assms m
    by (simp del: bounded_text.simps commit_sha.simps clean_own clean_root_issue
        add: parse_pull_request_evidence_def clean_run_bind checked head_sha accepted issue provenance
          wf_pull_evidence_def branch_text_def eq)
      (cases "pe_accepted p"; use eq in auto)
qed

lemma candidate_value_sel [simp]:
  "is_record (candidate_value f c)" "set (object_keys (candidate_value f c)) \<subseteq> set candidate_keys"
  "get_prop (candidate_value f c) (js ''candidate'') = f (cand_value c)"
  "get_prop (candidate_value f c) (js ''classification'') = JStr (candidate_class_name (cand_class c))"
  "get_prop (candidate_value f c) (js ''reason'') = JStr (cand_reason c)"
  by (simp_all add: candidate_value_def candidate_keys_def)

lemma candidate_round_trip:
  assumes "wf_candidate P c" and "\<And>x path. P x \<Longrightarrow> clean_run (parse (f x) path) (Some x)"
  shows "clean_run (candidate_checks parse message (candidate_value f c) path) (Some c)"
proof -
  have "clean_run (parse (f (cand_value c)) (sub_path path (js ''candidate''))) (Some (cand_value c))"
    using assms by (simp add: wf_candidate_def)
  moreover have "\<lparr>cand_value = cand_value c, cand_class = cand_class c, cand_reason = cand_reason c\<rparr> = c"
    by (cases c) simp
  ultimately show ?thesis
    using assms(1) unfolding clean_candidate
    by (intro conjI exI [of _ "Some (cand_value c)"] exI [of _ "cand_class c"] exI [of _ "cand_reason c"])
      (simp_all del: bounded_text.simps add: wf_candidate_def)
qed

lemma candidates_round_trip:
  assumes "list_all P cs" and "\<And>x p. grows (check x p)"
    and "\<And>c path. P c \<Longrightarrow> clean_run (check (g c) path) (Some c)"
  shows "clean_run (parse_items check path i (map g cs)) (map Some cs)"
  using assms(1) by (induction cs arbitrary: i) (auto simp: clean_parse_items [OF assms(2)] assms(3) simp del: parse_items.simps)

lemma map_filter_Some [simp]: "List.map_filter id (map Some xs) = xs"
  by (induction xs) (simp_all add: map_filter_def)

lemma diagnostic_round_trip:
  assumes "wf_diagnostics ds" and "sorted (map diagnostic_key ds)"
  shows "those (map (diagnostic_value_read \<circ> diagnostic_value) ds) = Some ds \<and> create_report ds = Some ds"
proof
  have "diagnostic_value_read (diagnostic_value d) = Some d" if "cd_code d \<in> set (map js diagnostic_codes)" for d
    using that by (cases d) (simp add: diagnostic_value_read_def diagnostic_value_def diagnostic_keys_def)
  with assms(1) show "those (map (diagnostic_value_read \<circ> diagnostic_value) ds) = Some ds"
    unfolding wf_diagnostics_def by (induction ds) auto
  show "create_report ds = Some ds"
    using assms by (auto simp: create_report_def wf_diagnostics_def diagnostic_report_def list_all_iff sort_key_id_if_sorted)
qed

lemma projection_result_value_sel [simp]:
  "is_record (projection_result_value r)"
  "set (object_keys (projection_result_value r)) \<subseteq> set projection_result_keys"
  "get_prop (projection_result_value r) (js ''valid'') = JBool (pr_valid r)"
  "get_prop (projection_result_value r) (js ''status'') = JStr (projection_status_name (pr_status r))"
  "get_prop (projection_result_value r) (js ''candidates'') = candidates_value r"
  "get_prop (projection_result_value r) (js ''diagnostics'') = JArr (map diagnostic_value (pr_diagnostics r))"
  "has_prop (projection_result_value r) (js ''canonicalBranch'') \<longleftrightarrow> pr_canonical_branch r \<noteq> None"
  "has_prop (projection_result_value r) (js ''canonicalBaseBranch'') \<longleftrightarrow> pr_canonical_base r \<noteq> None"
  "has_prop (projection_result_value r) (js ''change'') \<longleftrightarrow> pr_change r \<noteq> None"
  "\<not> has_prop (projection_result_value r) (js ''evidence'')"
  "pr_canonical_branch r = Some b \<Longrightarrow> get_prop (projection_result_value r) (js ''canonicalBranch'') = JStr b"
  "pr_canonical_base r = Some b \<Longrightarrow> get_prop (projection_result_value r) (js ''canonicalBaseBranch'') = JStr b"
  "pr_change r = Some c \<Longrightarrow> get_prop (projection_result_value r) (js ''change'') = change_value c"
  by (simp_all del: has_prop.simps get_prop.simps object_keys.simps opt_prop_simps
      add: projection_result_value_def opt_prop_read pull_object opt_prop_keys projection_result_keys_def)

lemma candidates_value_read:
  assumes "wf_projection r"
  shows "clean_run (candidate_lists (candidates_value r) path) (pr_branches r, pr_pull_requests r)"
proof -
  note wf = assms [unfolded wf_projection_def]
  have "clean_run (parse_items branch_candidate_checks p 0 (map (candidate_value branch_evidence_value) (pr_branches r)))
      (map Some (pr_branches r))" for p
    using wf by (intro candidates_round_trip [where P = "wf_candidate wf_branch_evidence"])
      (simp_all del: clean_candidate add: branch_candidate_checks_def checked candidate_round_trip branch_evidence_round_trip)
  moreover have "clean_run (parse_items pull_candidate_checks p 0 (map (candidate_value pull_evidence_value) (pr_pull_requests r)))
      (map Some (pr_pull_requests r))" for p
    using wf by (intro candidates_round_trip [where P = "wf_candidate wf_pull_evidence"])
      (simp_all del: clean_candidate add: pull_candidate_checks_def checked candidate_round_trip pull_evidence_round_trip)
  moreover have "is_record (candidates_value r)" "set (object_keys (candidates_value r)) \<subseteq> {js ''branches'', js ''pullRequests''}"
      "get_prop (candidates_value r) (js ''branches'') = JArr (map (candidate_value branch_evidence_value) (pr_branches r))"
      "get_prop (candidates_value r) (js ''pullRequests'') = JArr (map (candidate_value pull_evidence_value) (pr_pull_requests r))"
    by (simp_all add: candidates_value_def)
  ultimately show ?thesis
    using wf unfolding clean_candidate_lists by fastforce
qed

lemma projection_round_trip:
  assumes "wf_projection r"
  shows "validate_projection_result lc (projection_result_value r) = Some (Inr r)"
proof -
  note wf = assms [unfolded wf_projection_def]
  have branch: "optional_read (projection_result_value r) ''canonicalBranch'' (bounded_text max_change_branch_length)
      (pr_canonical_branch r)"
    using wf by (cases "pr_canonical_branch r") (simp_all del: bounded_text.simps add: optional_read_def branch_text_def)
  have base: "optional_read (projection_result_value r) ''canonicalBaseBranch'' (bounded_text max_change_branch_length)
      (pr_canonical_base r)"
    using wf by (cases "pr_canonical_base r") (simp_all del: bounded_text.simps add: optional_read_def branch_text_def)
  have change: "change_read lc (projection_result_value r) (pr_change r)"
    using wf by (cases "pr_change r") (simp_all add: change_read_def wf_change_validates)
  have "clean_run (projection_diagnostics (projection_result_value r) change_root) (pr_diagnostics r)"
    using wf diagnostic_round_trip [of "pr_diagnostics r"]
    by (simp add: clean_projection_diagnostics wf_diagnostics_def)
  with branch base change candidates_value_read [OF assms] wf
  have "clean_run (parse_projection_result lc (projection_result_value r) change_root) (Some r)"
    unfolding clean_parse_projection
    by (intro conjI exI [of _ "pr_valid r"] exI [of _ "pr_status r"] exI [of _ "pr_canonical_branch r"]
        exI [of _ "pr_canonical_base r"] exI [of _ "(pr_branches r, pr_pull_requests r)"] exI [of _ "pr_change r"]
        exI [of _ "pr_diagnostics r"])
      (simp_all add: sort_key_id_if_sorted)
  then show ?thesis by (simp add: accepted_parse)
qed

end
