(* ===== verification/Projection_Bounds.thy ===== *)
theory Projection_Bounds
  imports Projection_Transport
begin

text \<open>
  Bounds: the diagnostics of \<^verbatim>\<open>src/src/change.ts\<close> are never more than the report
  allows, and their codes and texts are ones the report accepts.  A second calculus for the
  computations over the array of diagnostics, beside the one of theory
  \<^verbatim>\<open>Change_Diagnostics\<close>: a computation is \<^verbatim>\<open>sound\<close> when it keeps
  the array within these bounds.  With it, whatever the projection makes of untrusted input passes the
  validator of transported projections unchanged.
\<close>

subsection \<open>Computations that keep the diagnostics within bounds\<close>

named_theorems sound \<open>computations that keep the diagnostics within their bounds\<close>

definition sound_run :: "'a checked \<Rightarrow> bool" where
  "sound_run m \<longleftrightarrow> (\<forall>ds. wf_diagnostics ds \<longrightarrow> wf_diagnostics (snd (run_state m ds)))"

lemma wf_no_diagnostics [simp]: "wf_diagnostics []"
  by (simp add: wf_diagnostics_def)

lemma sound_checks: "sound_run m \<Longrightarrow> wf_diagnostics (snd (run_checks m))"
  by (simp add: sound_run_def run_checks_def)

lemma sound_return [sound]: "sound_run (State_Monad.return x)"
  by (simp add: sound_run_def)

lemma sound_bind [sound]: "sound_run m \<Longrightarrow> (\<And>x. sound_run (f x)) \<Longrightarrow> sound_run (State_Monad.bind m f)"
  unfolding sound_run_def by (auto split: prod.split)

lemma sound_get [sound]: "sound_run State_Monad.get"
  by (simp add: sound_run_def)

lemma sound_if [sound]: "(b \<Longrightarrow> sound_run m) \<Longrightarrow> (\<not> b \<Longrightarrow> sound_run m') \<Longrightarrow> sound_run (if b then m else m')"
  by simp

lemma length_safe_text: "0 < m \<Longrightarrow> length (safe_text s m) \<le> m"
  by (simp add: safe_text_def)

lemma sound_add [sound]: "code \<in> set diagnostic_codes \<Longrightarrow> sound_run (add_diagnostic code path message)"
  by (auto simp: sound_run_def add_diagnostic_def wf_diagnostics_def bounded_diagnostic_def length_safe_text
      max_diagnostic_path_length_def max_diagnostic_message_length_def)

lemma sound_push [sound]: "wf_diagnostics new \<Longrightarrow> sound_run (push_diagnostics new)"
  by (auto simp: sound_run_def push_diagnostics_def wf_diagnostics_def list_all_iff dest: in_set_takeD)

lemma sound_reject [sound]: "code \<in> set diagnostic_codes \<Longrightarrow> sound_run (reject_with code path message)"
  by (simp add: reject_with_def sound)

lemma wf_report [simp]: "wf_diagnostics (diagnostic_report ds) \<longleftrightarrow> wf_diagnostics ds"
  by (simp add: wf_diagnostics_def diagnostic_report_def list_all_iff)

lemma sound_result [sound]: "sound_run m \<Longrightarrow> wf_diagnostics (result_diagnostics (validation_result m))"
  using sound_checks [of m]
  by (auto simp: validation_result_def split: prod.split option.split list.split)

lemma sound_adopt [sound]: "wf_diagnostics (result_diagnostics r) \<Longrightarrow> sound_run (adopt r)"
  by (simp add: adopt_def sound)

lemma known_codes [simp]:
  "''CHANGE_INVALID_ROOT'' \<in> set diagnostic_codes"
  "''CHANGE_MISSING_PROPERTY'' \<in> set diagnostic_codes"
  "''CHANGE_UNKNOWN_PROPERTY'' \<in> set diagnostic_codes"
  "''CHANGE_UNSUPPORTED_VERSION'' \<in> set diagnostic_codes"
  "''CHANGE_INVALID_IDENTITY'' \<in> set diagnostic_codes"
  "''CHANGE_INVALID_STATE'' \<in> set diagnostic_codes"
  "''CHANGE_INVALID_PROVENANCE'' \<in> set diagnostic_codes"
  "''CHANGE_INVALID_PROJECTION'' \<in> set diagnostic_codes"
  "''CHANGE_INVALID_BRANCH_INPUT'' \<in> set diagnostic_codes"
  "''CHANGE_INVALID_BRANCH_GOVERNANCE'' \<in> set diagnostic_codes"
  "''CHANGE_BRANCH_GOVERNANCE_MISMATCH'' \<in> set diagnostic_codes"
  "''CHANGE_PROJECTION_INVALID_EVIDENCE'' \<in> set diagnostic_codes"
  "''CHANGE_PROJECTION_EVIDENCE_MISSING'' \<in> set diagnostic_codes"
  "''CHANGE_PROJECTION_EVIDENCE_UNAVAILABLE'' \<in> set diagnostic_codes"
  "''CHANGE_PROJECTION_ISSUE_MISMATCH'' \<in> set diagnostic_codes"
  "''CHANGE_PROJECTION_PARTIAL'' \<in> set diagnostic_codes"
  "''CHANGE_PROJECTION_DUPLICATE'' \<in> set diagnostic_codes"
  "''CHANGE_PROJECTION_WRONG_BASE'' \<in> set diagnostic_codes"
  "''CHANGE_PROJECTION_AMBIGUOUS'' \<in> set diagnostic_codes"
  "''CHANGE_PROJECTION_CONFLICT'' \<in> set diagnostic_codes"
  by (simp_all add: diagnostic_codes_def)

subsection \<open>The validators of a Change\<close>

lemma sound_unknown [sound]: "sound_run (add_unknown ks allowed path)"
  by (induction ks) (auto intro!: sound)

lemma sound_unknown_properties [sound]: "sound_run (add_unknown_properties v allowed path)"
  by (simp add: add_unknown_properties_def sound)

lemma sound_missing [sound]: "sound_run (missing_property key)"
  by (simp add: missing_property_def sound)

lemma sound_version [sound]: "sound_run (version_check v message)"
  by (auto simp: version_check_def intro!: sound)

lemma sound_required [sound]: "(\<And>x. sound_run (check x)) \<Longrightarrow> sound_run (required_check v key check)"
  by (auto simp: required_check_def intro!: sound)

lemma sound_identity [sound]: "sound_run (identity_checks lc v path)"
proof -
  have "sound_run (add_identity_violations path xs)" for xs
    by (induction xs) (auto intro!: sound)
  then show ?thesis
    by (auto simp: identity_checks_def intro!: sound split: sum.split)
qed

lemma sound_role [sound]: "sound_run (role_check v path role)"
  by (auto simp: role_check_def intro!: sound split: option.split)

lemma sound_provenance [sound]: "sound_run (provenance_checks v path)"
  by (auto simp: provenance_checks_def intro!: sound)

lemma sound_optional [sound]:
  "code \<in> set diagnostic_codes \<Longrightarrow> sound_run (optional_check v key good code path message)"
  by (auto simp: optional_check_def intro!: sound split: option.split)

lemma sound_projection [sound]: "sound_run (projection_checks v path)"
  by (auto simp: projection_checks_def intro!: sound)

lemma wf_validated [sound]:
  "wf_diagnostics (result_diagnostics (validate_change_identity lc v path))"
  "wf_diagnostics (result_diagnostics (validate_change_provenance v path))"
  "wf_diagnostics (result_diagnostics (validate_change_projection v path))"
  by (simp_all add: validate_change_identity_def validate_change_provenance_def validate_change_projection_def sound)

lemma sound_state_check [sound]: "sound_run (state_check v)"
  by (auto simp: state_check_def intro!: sound split: option.split)

lemma wf_validated_change [sound]: "wf_diagnostics (result_diagnostics (validate_change lc v))"
  by (auto simp: validate_change_def change_checks_def intro!: sound)

subsection \<open>The projection\<close>

text \<open>The repository branch policy refuses with codes of the vocabulary.\<close>

definition known_refusals :: "branch_authority \<Rightarrow> bool" where
  "known_refusals ba \<longleftrightarrow> (\<forall>v i code m. ba_evidence ba v i = Inl (code, m) \<longrightarrow> code \<in> set diagnostic_codes)"

lemma sound_consumed_plan [sound]: "sound_run (consumed_branch_plan ba v path)"
proof -
  have "sound_run (add_plan_violations path vs)" for vs
    by (induction vs) (auto intro!: sound)
  then show ?thesis
    by (auto simp: consumed_branch_plan_def intro!: sound split: sum.split list.split)
qed

lemma sound_consumed_evidence [sound]: "known_refusals ba \<Longrightarrow> sound_run (consumed_branch_evidence ba v i)"
  by (auto simp: consumed_branch_evidence_def known_refusals_def intro!: sound split: sum.split)

lemma sound_naming_property [sound]: "sound_run (naming_property v key message)"
  by (auto simp: naming_property_def Let_def intro!: sound split: jsval.split)

lemma sound_naming [sound]: "sound_run (canonical_branch_naming v)"
  by (auto simp: canonical_branch_naming_def intro!: sound)

lemma sound_governance [sound]: "sound_run (canonical_governance ba v)"
  by (auto simp: canonical_governance_def intro!: sound split: sum.split option.split)

lemma sound_governed_branch [sound]: "sound_run (governed_branch ba g branch)"
  by (auto simp: governed_branch_def intro!: sound split: sum.split option.split bool.split)

lemma sound_derived_branch [sound]: "sound_run (derived_branch ba i g n)"
  by (auto simp: derived_branch_def intro!: sound split: sum.split)

lemma sound_identity_input [sound]: "sound_run (branch_identity_input lc v)"
  by (auto simp: branch_identity_input_def intro!: sound)

lemma wf_derived_identity [sound]: "wf_diagnostics (result_diagnostics (derive_canonical_branch_identity lc ba v))"
  by (auto simp: derive_canonical_branch_identity_def derivation_checks_def intro!: sound split: list.split option.split)

lemma sound_evidence_parts [sound]:
  "sound_run (invalid_evidence path message)" "sound_run (projection_text v path label m)"
  "sound_run (projection_number v path label)" "sound_run (projection_commit_sha v path)"
  "sound_run (unless_grown n x)" "sound_run (state_property v path message)" "sound_run (boolean_property v path key message)"
  "sound_run (merged_property v path st)" "sound_run (conflict_if b path message)" "sound_run (base_mismatch_if b message)"
  "code \<in> set diagnostic_codes \<Longrightarrow> sound_run (unavailable_source code path message)"
  by (auto simp: invalid_evidence_def projection_text_def projection_number_def projection_commit_sha_def unless_grown_def
      state_property_def boolean_property_def merged_property_def conflict_if_def base_mismatch_if_def unavailable_source_def
      intro!: sound split: option.split jsval.split issue_state.split)

lemma sound_own [sound]: "(\<And>x p. sound_run (parse x p)) \<Longrightarrow> sound_run (own_property v path key parse)"
  by (auto simp: own_property_def intro!: sound)

lemma sound_root_issue [sound]: "sound_run (root_issue_property v path)"
  by (auto simp: root_issue_property_def intro!: sound)

lemma sound_read [sound]: "(\<And>x p. sound_run (parse x p)) \<Longrightarrow> sound_run (read_evidence_source v path parse)"
  by (auto simp: read_evidence_source_def intro!: sound split: option.split)

lemma sound_items [sound]: "(\<And>x p. sound_run (parse x p)) \<Longrightarrow> sound_run (parse_items parse path i vs)"
  by (induction vs arbitrary: i) (auto intro!: sound)

lemma sound_list [sound]: "(\<And>x p. sound_run (parse x p)) \<Longrightarrow> sound_run (parse_evidence_list parse key a b v path)"
  by (cases v) (auto simp: parse_evidence_list_def intro!: sound)

lemma sound_parsers [sound]:
  "sound_run (parse_issue_evidence v path)" "sound_run (parse_branch_evidence v path)"
  "sound_run (parse_pull_request_evidence v path)"
  by (auto simp: parse_issue_evidence_def parse_branch_evidence_def parse_pull_request_evidence_def intro!: sound)

lemma sound_lists [sound]: "sound_run (parse_branch_list v path)" "sound_run (parse_pull_request_list v path)"
  by (simp_all add: parse_branch_list_def parse_pull_request_list_def sound)

lemma sound_projected [sound]: "sound_run (projected_identity lc v)" "sound_run (projected_provenance v p)"
  by (auto simp: projected_identity_def projected_provenance_def Let_def intro!: sound)

lemma sound_branches [sound]: "known_refusals ba \<Longrightarrow> sound_run (canonical_branches lc ba v i)"
  by (auto simp: canonical_branches_def branch_from_evidence_def branch_from_derivation_def base_branch_text_def
      intro!: sound split: option.split)

lemma sound_front [sound]: "known_refusals ba \<Longrightarrow> sound_run (projection_front lc ba v)"
  by (auto simp: projection_front_def evidence_object_def Let_def intro!: sound)

lemma sound_reads [sound]: "sound_run (evidence_reads e)"
  by (auto simp: evidence_reads_def intro!: sound)

lemma sound_status [sound]: "sound_run (status_diagnostic s)"
  by (cases s) (auto intro!: sound)

lemma sorted_report [simp]: "sorted (map diagnostic_key (diagnostic_report ds))"
  by (simp add: diagnostic_report_def)

lemma project_facts_diagnostics:
  "wf_diagnostics (pr_diagnostics (project_facts i pv canonical base ps f)) \<and>
   sorted (map diagnostic_key (pr_diagnostics (project_facts i pv canonical base ps f)))"
proof -
  have "wf_diagnostics (snd (run_checks (do { conflict_if b path message; status_diagnostic s })))" for b path message s
    by (intro sound_checks sound)
  then show ?thesis by (auto simp: project_facts_def Let_def)
qed

lemma project_change_cases:
  obtains (Front) ds b base where "project_change lc ba v = unavailable_result ds b base"
      "ds = snd (run_checks (add_diagnostic ''CHANGE_INVALID_ROOT'' (js ''$'') (js ''Change projection input must be a JSON object.'')))
        \<and> b = None \<and> base = None \<or>
       (\<exists>i pv a e. run_checks (projection_front lc ba v) = ((i, pv, (a, b, base), e), ds))"
  | (Reads) i pv a b base e ds where
      "run_checks (projection_front lc ba v) = ((Some i, pv, (a, Some b, Some base), Some e), [])"
      "ds = snd (run_checks (evidence_reads e))"
      "project_change lc ba v = unavailable_result ds (Some b) (Some base)"
  | (Projected) i pv a b base e r bs ps where
      "run_checks (projection_front lc ba v) = ((Some i, pv, (a, Some b, Some base), Some e), [])"
      "run_checks (evidence_reads e) = ((r, bs, ps), [])"
      "project_change lc ba v = project_evidence i pv a b base r (source_list bs) (source_list ps)"
proof (cases "is_record v")
  case False
  then show ?thesis using Front by (simp add: project_change_def)
next
  case True
  obtain i pv a b base e ds where front: "run_checks (projection_front lc ba v) = ((i, pv, (a, b, base), e), ds)"
    by (metis prod.exhaust)
  show ?thesis
  proof (cases "\<exists>i' b' base' e'. i = Some i' \<and> b = Some b' \<and> base = Some base' \<and> e = Some e' \<and> ds = []")
    case False
    then have "project_change lc ba v = unavailable_result ds b base"
      using True front
      by (cases i, simp add: project_change_def, cases b, simp add: project_change_def,
          cases base, simp add: project_change_def, cases e, simp add: project_change_def, cases ds)
        (simp_all add: project_change_def)
    then show ?thesis using Front front by blast
  next
    case ok: True
    then obtain i' b' base' e' where front': "run_checks (projection_front lc ba v) = ((Some i', pv, (a, Some b', Some base'), Some e'), [])"
      using front by blast
    obtain r bs ps ds' where reads: "run_checks (evidence_reads e') = ((r, bs, ps), ds')"
      by (metis prod.exhaust)
    show ?thesis
    proof (cases ds')
      case Nil
      then show ?thesis using True front' reads Projected by (simp add: project_change_def)
    next
      case (Cons d ds)
      then show ?thesis using True front' reads Reads by (simp add: project_change_def)
    qed
  qed
qed

lemma unavailable_sel [simp]:
  "pr_diagnostics (unavailable_result ds b base) = diagnostic_report ds"
  "pr_valid (unavailable_result ds b base) = False" "pr_status (unavailable_result ds b base) = Unavailable"
  "pr_canonical_branch (unavailable_result ds b base) = b" "pr_canonical_base (unavailable_result ds b base) = base"
  "pr_branches (unavailable_result ds b base) = []" "pr_pull_requests (unavailable_result ds b base) = []"
  by (simp_all add: unavailable_result_def)

lemma projected_diagnostics:
  assumes "known_refusals ba"
  shows "wf_diagnostics (pr_diagnostics (project_change lc ba v)) \<and>
    sorted (map diagnostic_key (pr_diagnostics (project_change lc ba v)))"
proof (cases lc ba v rule: project_change_cases)
  case (Front ds b base)
  then have "wf_diagnostics ds"
    using sound_checks [OF sound_front [OF assms], of lc v]
      sound_checks [OF sound_add [OF known_codes(1)], of "js ''$''" "js ''Change projection input must be a JSON object.''"]
    by auto
  then show ?thesis using Front by simp
next
  case (Reads i pv a b base e ds)
  then show ?thesis using sound_checks [OF sound_reads, of e] by simp
next
  case (Projected i pv a b base e r bs ps)
  have "wf_diagnostics (snd (run_checks (add_diagnostic ''CHANGE_PROJECTION_ISSUE_MISMATCH'' path message)))" for path message
    by (intro sound_checks sound) simp
  then show ?thesis
    using Projected project_facts_diagnostics by (simp add: project_evidence_def Let_def)
qed

text \<open>
  C27.  The report of a projection is bounded whatever the input: it has at most 32 diagnostics, in
  order, each with a code of the vocabulary, a path of at most 160 and a message of at most 240
  code units.
\<close>

theorem projection_report_bounded:
  assumes "known_refusals ba"
  shows "let ds = pr_diagnostics (project_change lc ba v) in
     length ds \<le> 32 \<and> sorted (map diagnostic_key ds) \<and>
     list_all (\<lambda>d. cd_code d \<in> set (map js diagnostic_codes) \<and> length (cd_path d) \<le> 160 \<and> length (cd_message d) \<le> 240) ds"
  using projected_diagnostics [OF assms, of lc v]
  by (simp add: Let_def wf_diagnostics_def bounded_diagnostic_def max_change_diagnostics_def max_diagnostic_path_length_def
      max_diagnostic_message_length_def)

subsection \<open>The projection as a well-formed object\<close>

text \<open>The branch authorities name branches the validators accept.\<close>

definition named_branches :: "branch_authority \<Rightarrow> bool" where
  "named_branches ba \<longleftrightarrow>
     (\<forall>v name source. ba_plan ba v = Inr (name, source) \<longrightarrow> branch_text name \<and> branch_text source) \<and>
     (\<forall>v i branch base. ba_evidence ba v i = Inr (branch, base) \<longrightarrow> branch_text branch)"

fun ascii_value :: "jsval \<Rightarrow> bool" where
  "ascii_value (JStr h) = is_ascii h"
| "ascii_value _ = True"

definition claimed_host :: "jsval \<Rightarrow> jsval" where
  "claimed_host v =
     (let c = get_prop v (js ''change'') in
      get_prop (if is_record c \<and> has_prop c (js ''identity'') then get_prop c (js ''identity'') else c) (js ''repositoryHost''))"

lemma all_option_result: "(\<And>x. r = Inr x \<Longrightarrow> P x) \<Longrightarrow> all_option P (result_value r)"
  by (cases r) simp_all

lemma returns_adopt: "(\<And>x. r = Inr x \<Longrightarrow> P (Some x)) \<Longrightarrow> P None \<Longrightarrow> returns (adopt r) P"
  by (cases r) (auto simp: adopt_def intro!: returns_then)

lemma returns_reject: "P None \<Longrightarrow> returns (reject_with c p m) P"
  by (auto simp: reject_with_def intro!: returns_then)

lemma identity_host:
  assumes "validate_change_identity lc v path = Inr i"
  obtains h where "get_prop v (js ''repositoryHost'') = JStr h"
  using assms by (auto simp: validate_change_identity_Inr dest!: host_value_Some)

lemma validated_ascii_identity:
  assumes "validate_change_identity lc v path = Inr i" and "ascii_value (get_prop v (js ''repositoryHost''))"
  shows "wf_identity i"
  using assms by (metis ascii_value.simps(1) identity_host validated_identity_wf)

lemma validated_ascii_change:
  assumes "validate_change lc v = Inr c" and "ascii_value (get_prop (get_prop v (js ''identity'')) (js ''repositoryHost''))"
  shows "wf_change c"
proof -
  have "validate_change_identity lc (get_prop v (js ''identity'')) (sub_path change_root (js ''identity'')) = Inr (ch_identity c)"
    using assms(1) by (simp add: validate_change_Inr)
  then obtain h where "get_prop (get_prop v (js ''identity'')) (js ''repositoryHost'') = JStr h"
    by (rule identity_host)
  with assms validated_change_wf show ?thesis by (metis ascii_value.simps(1))
qed

lemma validated_provenance_wf: "validate_change_provenance v path = Inr p \<Longrightarrow> wf_provenance p"
  unfolding wf_provenance_def
  by (simp add: validate_change_provenance_Inr provenance_keys_def) (blast intro: wf_principal_role)

lemma wf_change_parts: "wf_change c \<Longrightarrow> wf_identity (ch_identity c) \<and> wf_provenance (ch_provenance c)"
  by (simp add: wf_change_def wf_provenance_def)

lemma wf_no_provenance [simp]: "wf_provenance no_provenance"
  by (simp add: wf_provenance_def no_provenance_def wf_principal_def)

lemma returns_identity:
  assumes "ascii_value (claimed_host v)"
  shows "returns (projected_identity lc v) (\<lambda>(i, p). all_option wf_identity i \<and> wf_provenance p)"
proof -
  let ?c = "get_prop v (js ''change'')"
  have "returns (projected_identity lc v) (\<lambda>(i, p). all_option wf_identity i \<and> wf_provenance p)"
    if "is_record ?c" "has_prop ?c (js ''identity'')"
  proof -
    have "has_prop v (js ''change'')" using that(1) get_prop_absent by force
    moreover have "returns (adopt (validate_change lc ?c)) (all_option wf_change)"
      using that assms validated_ascii_change [of lc ?c] by (auto simp: claimed_host_def Let_def intro!: returns_adopt)
    ultimately show ?thesis
      using that wf_change_parts
      by (auto simp: projected_identity_def Let_def intro!: returns_bind [where Q = "all_option wf_change"] split: option.split)
  qed
  moreover have "returns (projected_identity lc v) (\<lambda>(i, p). all_option wf_identity i \<and> wf_provenance p)"
    if "\<not> (is_record ?c \<and> has_prop ?c (js ''identity''))"
  proof -
    have "returns (adopt (validate_change_identity lc ?c path)) (all_option wf_identity)" for path
      using that assms validated_ascii_identity [of lc ?c] by (auto simp: claimed_host_def Let_def intro!: returns_adopt)
    then show ?thesis
      using that by (auto simp: projected_identity_def Let_def intro!: returns_bind [where Q = "all_option wf_identity"]
          intro: returns_then)
  qed
  ultimately show ?thesis by blast
qed

lemma returns_provenance: "wf_provenance p \<Longrightarrow> returns (projected_provenance v p) wf_provenance"
  by (auto simp: projected_provenance_def validated_provenance_wf split: option.split
      intro!: returns_bind [OF returns_adopt [where P = "\<lambda>r. all_option wf_provenance r"]])

lemma canonical_type_units: "t \<in> set canonical_branch_types \<Longrightarrow> list_all is_lower t"
  by (auto simp: canonical_branch_types_def js_eval is_lower_def)

lemma derived_branch_units:
  assumes "derive_branch_name parts = Inr b"
  shows "b \<noteq> [] \<and> \<not> list_ex control_unit b"
proof -
  from assms obtain n where n: "bp_type parts \<in> set canonical_branch_types" "list_all slug_or_hyphen (bp_slug parts)"
      "b = branch_spelling_of (bp_type parts) n (bp_slug parts)"
    by (auto simp: derive_branch_name_Inr)
  have "\<not> control_unit c" if "is_lower c \<or> slug_or_hyphen c \<or> is_digit c \<or> c = 47 \<or> c = 45" for c
    using that by (auto simp: control_unit_def slug_or_hyphen_def slug_char_def char_class)
  with n canonical_type_units [OF n(1)] show ?thesis
    by (auto simp: branch_spelling_of_def list_ex_iff list_all_iff dest!: digits_of_is_digit)
qed

lemma returns_governed: "P None \<Longrightarrow> P (Some b) \<Longrightarrow> returns (governed_branch ba g b) P"
  by (auto simp: governed_branch_def intro!: returns_reject split: option.split sum.split bool.split)

lemma derived_identity_text: "derive_canonical_branch_identity lc ba v = Inr b \<Longrightarrow> branch_text b"
proof -
  have "returns (derived_branch ba i g n) (all_option branch_text)" for i g n
    using derived_branch_units
    by (auto simp: derived_branch_def branch_text_def intro!: returns_reject returns_governed split: sum.split)
  then have "returns (derivation_checks lc ba v) (all_option branch_text)"
    by (auto simp: derivation_checks_def intro!: returns_then returns_reject split: list.split option.split)
  then show "derive_canonical_branch_identity lc ba v = Inr b \<Longrightarrow> branch_text b"
    by (auto simp: derive_canonical_branch_identity_def validation_result_def run_checks_def
        split: prod.splits option.splits list.splits dest: returnsD)
qed

lemma returns_text: "returns (projection_text v path label max_change_branch_length) (all_option branch_text)"
  using bounded_text_value
  by (auto simp: projection_text_def invalid_evidence_def branch_text_def simp del: bounded_text.simps
      intro!: returns_reject split: option.split)

definition named_texts :: "jstr option \<times> jstr option \<times> jstr option \<Rightarrow> bool" where
  "named_texts t \<longleftrightarrow> (case t of (a, b, base) \<Rightarrow>
     all_option branch_text a \<and> all_option branch_text b \<and> all_option branch_text base)"

lemma named_texts_simps [simp]:
  "named_texts (a, b, base) \<longleftrightarrow> all_option branch_text a \<and> all_option branch_text b \<and> all_option branch_text base"
  by (simp add: named_texts_def)

lemma returns_canonical_branches:
  assumes "named_branches ba"
  shows "returns (canonical_branches lc ba v i) named_texts"
proof -
  have plan: "returns (consumed_branch_plan ba x path) (\<lambda>p. \<forall>name source. p = Some (name, source) \<longrightarrow> branch_text name \<and> branch_text source)"
    for x path
    using assms by (auto simp: consumed_branch_plan_def named_branches_def intro!: returns_then returns_reject
        split: sum.split list.split)
  have evidence: "returns (consumed_branch_evidence ba x i) (\<lambda>e. \<forall>b d. e = Some (b, d) \<longrightarrow> branch_text b)" for x i
    using assms by (auto simp: consumed_branch_evidence_def named_branches_def intro!: returns_reject split: sum.split)
  have base: "returns (base_branch_text v) (all_option branch_text)" for v
    by (simp add: base_branch_text_def returns_text)
  have missing: "returns (do { missing_property k; State_Monad.return None }) (all_option branch_text)" for k
    by (auto intro!: returns_then)
  have "returns (branch_from_evidence ba v i) named_texts" for v i
    unfolding branch_from_evidence_def
  proof (rule returns_bind [where Q = "\<lambda>e. \<forall>b d. e = Some (b, d) \<longrightarrow> branch_text b"])
    show "returns (if has_prop v (js ''branchPlan'') \<or> has_prop v (js ''naming'') \<or> has_prop v (js ''branchGovernance'')
          then reject_with c p m
          else case i of None \<Rightarrow> State_Monad.return None
               | Some i \<Rightarrow> consumed_branch_evidence ba (get_prop v (js ''branchEvidence'')) i)
        (\<lambda>e. \<forall>b d. e = Some (b, d) \<longrightarrow> branch_text b)" for c p m
      using evidence by (auto intro!: returns_reject split: option.split)
    fix e :: "(jstr \<times> jstr) option"
    assume e: "\<forall>b d. e = Some (b, d) \<longrightarrow> branch_text b"
    have read: "returns (do { base \<leftarrow> base_branch_text v; base_mismatch_if (base \<noteq> None \<and> base \<noteq> Some d) m; State_Monad.return base })
        (all_option branch_text)" for d m
      by (rule returns_bind [OF base]) (auto intro!: returns_then)
    have "returns (if \<not> has_prop v (js ''baseBranch'') then do { missing_property (js ''baseBranch''); State_Monad.return None }
         else case e of None \<Rightarrow> State_Monad.return None
              | Some (branch, d) \<Rightarrow> do {
                  base \<leftarrow> base_branch_text v; base_mismatch_if (base \<noteq> None \<and> base \<noteq> Some d) m; State_Monad.return base })
        (all_option branch_text)" for m
      using missing read by (auto split: option.split)
    then show "returns (do {
        base \<leftarrow> (if \<not> has_prop v (js ''baseBranch'') then do { missing_property (js ''baseBranch''); State_Monad.return None }
                else case e of None \<Rightarrow> State_Monad.return None
                     | Some (branch, d) \<Rightarrow> do {
                         base \<leftarrow> base_branch_text v; base_mismatch_if (base \<noteq> None \<and> base \<noteq> Some d) m; State_Monad.return base });
        State_Monad.return (map_option fst e, map_option fst e, base) }) named_texts" for m
      by (rule returns_bind) (use e in \<open>auto simp: all_option_def split: option.split\<close>)
  qed
  moreover have "returns (branch_from_derivation lc ba v i) named_texts" for v i
  proof -
    have "returns (adopt (derive_canonical_branch_identity lc ba x)) (all_option branch_text)" for x
      using derived_identity_text by (auto intro: returns_adopt)
    then have 1: "returns (case i of None \<Rightarrow> State_Monad.return None | Some i \<Rightarrow> adopt (derive_canonical_branch_identity lc ba (f i)))
        (all_option branch_text)" for f
      by (auto split: option.split)
    have 2: "returns (if \<not> has_prop v (js ''baseBranch'') then do { missing_property (js ''baseBranch''); State_Monad.return None }
        else base_branch_text v) (all_option branch_text)"
      using missing base by auto
    show ?thesis
      unfolding branch_from_derivation_def
      by (rule returns_bind [OF 1], rule returns_bind [OF 2]) simp
  qed
  moreover have "returns (if has_prop v (js ''branchPlan'') then consumed_branch_plan ba x path else State_Monad.return None)
      (\<lambda>p. \<forall>name source. p = Some (name, source) \<longrightarrow> branch_text name \<and> branch_text source)" for x path
    using plan by auto
  ultimately show ?thesis
    unfolding canonical_branches_def
    by - (rule returns_bind, assumption, auto intro!: returns_then split: option.split)
qed

lemma read_branch_wf: "clean_run (parse_branch_evidence v path) (Some b) \<Longrightarrow> wf_branch_evidence b"
  by (auto simp del: bounded_text.simps commit_sha.simps simp: parse_branch_evidence_def clean_run_bind checked
      wf_branch_evidence_def branch_text_def canonical_commit_def all_option_def issue_number_def
      split: option.split if_splits dest: bounded_text_value commit_sha_canonical positive_integer_Some)

lemma read_pull_wf:
  assumes "clean_run (parse_pull_request_evidence v path) (Some p)"
  shows "wf_pull_evidence p"
proof -
  from assms obtain number head head_sha base st draft merged accepted issue provenance where
    read: "positive_integer (get_prop v (js ''number'')) = Some number"
      "bounded_text max_change_branch_length (get_prop v (js ''head'')) = Some head"
      "head_sha \<noteq> None \<Longrightarrow> commit_sha (get_prop v (js ''headSha'')) = head_sha"
      "bounded_text max_change_branch_length (get_prop v (js ''base'')) = Some base"
      "\<not> (st = Open_State \<and> merged)" "\<not> (draft \<and> accepted = Some True)"
      "issue \<noteq> None \<Longrightarrow> positive_integer (get_prop v (js ''rootIssue'')) = issue"
      "\<And>q. provenance = Some q \<Longrightarrow> validate_change_provenance (get_prop v (js ''provenance'')) (sub_path path (js ''provenance'')) = Inr q"
    and p: "p = \<lparr>pe_number = number, pe_head = head, pe_head_sha = head_sha, pe_base = base, pe_state = st, pe_draft = draft,
        pe_merged = Some merged, pe_accepted = accepted, pe_root_issue = issue, pe_provenance = provenance\<rparr>"
    by (auto simp del: bounded_text.simps commit_sha.simps simp: parse_pull_request_evidence_def clean_run_bind checked
        split: option.splits if_splits dest: result_Inr)
  then show ?thesis
    by (auto simp del: bounded_text.simps commit_sha.simps simp: wf_pull_evidence_def branch_text_def canonical_commit_def
        all_option_def issue_number_def split: option.split
        dest: bounded_text_value commit_sha_canonical positive_integer_Some validated_provenance_wf)
qed

lemma clean_items_all:
  assumes "\<And>x p. grows (parse x p)" and "\<And>x p y. clean_run (parse x p) (Some y) \<Longrightarrow> P y"
    and "clean_run (parse_items parse path i vs) xs"
  shows "list_all P (List.map_filter id xs)"
  using assms(3)
  by (induction vs arbitrary: i xs)
    (auto simp: clean_parse_items [OF assms(1)] map_filter_simps simp del: parse_items.simps split: option.split intro: assms(2))

lemma clean_evidence_list:
  assumes "\<And>x p. grows (parse x p)" and "\<And>x p y. clean_run (parse x p) (Some y) \<Longrightarrow> P y"
    and "clean_run (parse_evidence_list parse k a b v path) (Some ys)"
  shows "length ys \<le> max_projection_candidates \<and> list_all P ys \<and> sorted (map k ys)"
proof -
  from assms(3) obtain vs xs where "length vs \<le> max_projection_candidates" "clean_run (parse_items parse path 0 vs) xs"
      "ys = sort_key k (List.map_filter id xs)"
    by (auto simp: clean_list [OF assms(1)] split: if_splits)
  with clean_items_length [OF assms(1)] clean_items_all [OF assms(1,2)] show ?thesis
    by (fastforce simp: list_all_iff)
qed

definition wf_branches :: "branch_evidence list \<Rightarrow> bool" where
  "wf_branches bs \<longleftrightarrow>
     length bs \<le> max_projection_candidates \<and> list_all wf_branch_evidence bs \<and> sorted (map branch_key bs)"

definition wf_pulls :: "pull_request_evidence list \<Rightarrow> bool" where
  "wf_pulls ps \<longleftrightarrow>
     length ps \<le> max_projection_candidates \<and> list_all wf_pull_evidence ps \<and> sorted (map pull_request_key ps)"

lemma clean_evidence_reads:
  assumes "clean_run (evidence_reads e) (r, bs, ps)"
  shows "wf_branches (source_list bs)" and "wf_pulls (source_list ps)"
proof -
  have lists: "wf_branches ys" if "clean_run (parse_branch_list v path) (Some ys)" for v path ys
    using clean_evidence_list [OF _ read_branch_wf that [unfolded parse_branch_list_def]]
    by (simp add: wf_branches_def checked)
  have pulls: "wf_pulls ys" if "clean_run (parse_pull_request_list v path) (Some ys)" for v path ys
    using clean_evidence_list [OF _ read_pull_wf that [unfolded parse_pull_request_list_def]]
    by (simp add: wf_pulls_def checked)
  have none: "wf_branches []" "wf_pulls []" by (simp_all add: wf_branches_def wf_pulls_def)
  from assms obtain x y where "clean_run (read_evidence_source x (js ''$.evidence.branches'') parse_branch_list) bs"
      and "clean_run (read_evidence_source y (js ''$.evidence.pullRequests'') parse_pull_request_list) ps"
    by (auto simp: evidence_reads_def clean_run_bind checked simp del: clean_read)
  then show "wf_branches (source_list bs)" and "wf_pulls (source_list ps)"
    using lists pulls none by (auto simp: clean_read checked source_list_def split: option.splits evidence_read.splits)
qed

text \<open>
  Candidates keep the order of the evidence when they are classified: two of the same name (or the same
  number) are both reported more than once, so they have the same class and the same reason.
\<close>

lemma filter_two:
  assumes "i < j" and "j < length xs" and "P (xs ! i)" and "P (xs ! j)"
  shows "1 < length (filter P xs)"
proof -
  have "{i, j} \<subseteq> {k. k < length xs \<and> P (xs ! k)}" using assms by auto
  then have "card {i, j} \<le> length (filter P xs)"
    unfolding length_filter_conv_card by (intro card_mono) auto
  then show ?thesis using assms(1) by simp
qed

lemma classified_branches_sorted:
  assumes "sorted (map branch_key bs)"
  shows "sorted (map branch_candidate_key (map (classify_branch bs canonical n) bs))"
proof -
  have "branch_candidate_key (classify_branch bs canonical n (bs ! i)) \<le> branch_candidate_key (classify_branch bs canonical n (bs ! j))"
    if "i < j" "j < length bs" for i j
  proof -
    have le: "branch_key (bs ! i) \<le> branch_key (bs ! j)"
      using assms that by (auto simp: sorted_iff_nth_mono_less)
    show ?thesis
    proof (cases "be_name (bs ! i) = be_name (bs ! j)")
      case True
      have "1 < branch_occurrences bs (be_name (bs ! j))"
        unfolding branch_occurrences_def using True that by (intro filter_two [of i j]) auto
      with True have "cand_class (classify_branch bs canonical n (bs ! i)) = cand_class (classify_branch bs canonical n (bs ! j))"
          "cand_reason (classify_branch bs canonical n (bs ! i)) = cand_reason (classify_branch bs canonical n (bs ! j))"
        by (simp_all add: classify_branch_def)
      with True le show ?thesis by (auto simp: branch_candidate_key_def branch_key_def less_eq_prod_def)
    next
      case False
      with le show ?thesis by (auto simp: branch_candidate_key_def branch_key_def less_eq_prod_def)
    qed
  qed
  then show ?thesis by (simp add: sorted_iff_nth_mono_less)
qed

lemma classified_pulls_sorted:
  assumes "sorted (map pull_request_key ps)"
  shows "sorted (map pull_candidate_key (map (classify_pull_request ps canonical base n) ps))"
proof -
  have "pull_candidate_key (classify_pull_request ps canonical base n (ps ! i))
      \<le> pull_candidate_key (classify_pull_request ps canonical base n (ps ! j))"
    if "i < j" "j < length ps" for i j
  proof -
    have le: "pull_request_key (ps ! i) \<le> pull_request_key (ps ! j)"
      using assms that by (auto simp: sorted_iff_nth_mono_less)
    show ?thesis
    proof (cases "pull_request_key (ps ! i) = pull_request_key (ps ! j)")
      case True
      then have number: "pe_number (ps ! i) = pe_number (ps ! j)" by (simp add: pull_request_key_def)
      have "1 < number_occurrences ps (pe_number (ps ! j))"
        unfolding number_occurrences_def using number that by (intro filter_two [of i j]) auto
      with number True show ?thesis
        by (simp add: pull_candidate_key_def classify_pull_request_def)
    next
      case False
      with le have "pull_request_key (ps ! i) < pull_request_key (ps ! j)" by simp
      then show ?thesis by (simp add: pull_candidate_key_def less_eq_prod_def)
    qed
  qed
  then show ?thesis by (simp add: sorted_iff_nth_mono_less)
qed

lemma reasons_bounded:
  "bounded_text max_diagnostic_message_length (JStr (cand_reason (classify_branch bs canonical n b)))
     = Some (cand_reason (classify_branch bs canonical n b))"
  "bounded_text max_diagnostic_message_length (JStr (cand_reason (classify_pull_request ps canonical base n p)))
     = Some (cand_reason (classify_pull_request ps canonical base n p))"
proof -
  have "bounded_text max_diagnostic_message_length (JStr (js t)) = Some (js t)"
    if "list_all (\<lambda>c. 32 \<le> (of_char c :: nat) \<and> (of_char c :: nat) < 127) t" "t \<noteq> []" "length t \<le> 240" for t
    using that by (auto simp: max_diagnostic_message_length_def control_unit_def js_def list_all_iff list_ex_iff)
  then show "bounded_text max_diagnostic_message_length (JStr (cand_reason (classify_branch bs canonical n b)))
     = Some (cand_reason (classify_branch bs canonical n b))"
    and "bounded_text max_diagnostic_message_length (JStr (cand_reason (classify_pull_request ps canonical base n p)))
     = Some (cand_reason (classify_pull_request ps canonical base n p))"
    by (simp_all del: bounded_text.simps add: classify_branch_def classify_pull_request_def)
qed

lemma wf_merged: "wf_provenance p \<Longrightarrow> all_option wf_provenance q \<Longrightarrow> wf_provenance (merge_provenance p q)"
  by (cases q) (auto simp: merge_provenance_def wf_provenance_def Let_def split: option.split)

lemma wf_projected:
  assumes "wf_identity i" and "wf_provenance p" and "all_option branch_text b" and "all_option issue_number n"
  shows "wf_change (projected_change i p s b n)"
  using assms
  by (cases b; cases n)
    (auto simp: projected_change_def wf_change_def wf_provenance_def branch_text_def issue_number_def list_all_iff list_ex_iff
      split: if_splits)

lemma canonical_branch_text:
  assumes "all_option branch_text authority" and "branch_text derived" and "wf_branches bs" and "wf_pulls ps"
  shows "branch_text (canonical_branch_of authority derived (anchored_names n bs ps))"
proof -
  have "branch_text a" if "a \<in> set (anchored_names n bs ps)" for a
    using that assms(3,4)
    by (auto simp: anchored_names_def wf_branches_def wf_pulls_def list_all_iff wf_branch_evidence_def wf_pull_evidence_def)
  then show ?thesis
    using assms(1,2) by (auto simp: canonical_branch_of_def split: option.split list.split)
qed

lemma wf_projected_facts:
  assumes "wf_identity i" and "wf_provenance pv" and "branch_text canonical" and "branch_text base"
    and "wf_branches bs" and "wf_pulls ps"
  shows "wf_projection (project_facts i pv canonical base ps (evidence_facts (root_issue i) a canonical base r bs ps))"
    (is "wf_projection (project_facts i pv canonical base ps ?f)")
proof -
  have pull: "wf_pull_evidence p" if "pf_canonical_pulls ?f = [p]" for p
  proof -
    have "p \<in> set (filter (identity_matches canonical base (root_issue i)) ps)" using that by simp
    then show ?thesis using assms(6) by (auto simp: wf_pulls_def list_all_iff)
  qed
  have change: "all_option wf_change (pr_change (project_facts i pv canonical base ps ?f))"
  proof -
    let ?pull = "case pf_canonical_pulls ?f of [p] \<Rightarrow> Some p | _ \<Rightarrow> None"
    have "all_option issue_number (map_option pe_number ?pull)" and "all_option wf_provenance (Option.bind ?pull pe_provenance)"
      using pull by (auto simp: wf_pull_evidence_def split: list.split)
    then have "wf_change (projected_change i (merge_provenance pv (Option.bind ?pull pe_provenance)) s
        (if known then Some canonical else None) (map_option pe_number ?pull))" for s known
      using assms by (intro wf_projected wf_merged) auto
    moreover have "wf_change (projected_change i pv DEFINED None None)"
      using assms by (intro wf_projected) auto
    ultimately show ?thesis
      by (simp add: project_facts_def Let_def)
  qed
  have branches: "list_all (wf_candidate wf_branch_evidence) (map (classify_branch bs canonical (root_issue i)) bs)"
    using assms(5) by (auto simp: wf_candidate_def wf_branches_def list_all_iff reasons_bounded simp del: bounded_text.simps)
  have pulls: "list_all (wf_candidate wf_pull_evidence) (map (classify_pull_request ps canonical base (root_issue i)) ps)"
    using assms(6) by (auto simp: wf_candidate_def wf_pulls_def list_all_iff reasons_bounded simp del: bounded_text.simps)
  show ?thesis
    unfolding wf_projection_def
    using change branches pulls assms project_facts_diagnostics classified_branches_sorted [of bs] classified_pulls_sorted [of ps]
    by (simp add: project_facts_sel wf_branches_def wf_pulls_def)
qed

lemma wf_unavailable:
  assumes "wf_diagnostics ds" and "all_option branch_text b" and "all_option branch_text base"
  shows "wf_projection (unavailable_result ds b base)"
  using assms by (simp add: wf_projection_def)

lemma front_texts:
  assumes "named_branches ba"
  shows "returns (projection_front lc ba v) (\<lambda>(i, pv, t, e). named_texts t)"
  unfolding projection_front_def
  by (rule returns_then, rule returns_then, rule returns_then, rule returns_bind [OF returns_canonical_branches [OF assms]],
      rule returns_then) simp

lemma front_identity:
  assumes "ascii_value (claimed_host v)"
  shows "returns (projection_front lc ba v) (\<lambda>(i, pv, t, e). all_option wf_identity i \<and> wf_provenance pv)"
  unfolding projection_front_def
  by (rule returns_then, rule returns_bind [OF returns_identity [OF assms]], rule returns_bind [OF returns_provenance],
      auto intro!: returns_then)

lemma project_change_wf:
  assumes "known_refusals ba" and "named_branches ba" and "ascii_value (claimed_host v)"
  shows "wf_projection (project_change lc ba v)"
proof (cases lc ba v rule: project_change_cases)
  case (Front ds b base)
  have "all_option branch_text b \<and> all_option branch_text base"
    using Front(2) by (auto simp: run_checks_def dest!: returnsD [OF front_texts [OF assms(2)]])
  moreover have "wf_diagnostics ds"
    using projected_diagnostics [OF assms(1), of lc v] Front(1) by simp
  ultimately show ?thesis unfolding Front(1) by (blast intro: wf_unavailable)
next
  case (Reads i pv a b base e ds)
  have "branch_text b \<and> branch_text base"
    using returnsD [OF front_texts [OF assms(2)] Reads(1) [unfolded run_checks_def]] by simp
  moreover have "wf_diagnostics ds"
    using projected_diagnostics [OF assms(1), of lc v] Reads(3) by simp
  ultimately show ?thesis unfolding Reads(3) by (auto intro: wf_unavailable)
next
  case (Projected i pv a b base e r bs ps)
  have texts: "all_option branch_text a" "branch_text b" "branch_text base"
    using returnsD [OF front_texts [OF assms(2)] Projected(1) [unfolded run_checks_def]] by simp_all
  have front: "wf_identity i" "wf_provenance pv"
    using returnsD [OF front_identity [OF assms(3)] Projected(1) [unfolded run_checks_def]] by simp_all
  have "clean_run (evidence_reads e) (r, bs, ps)" using Projected(2) by (simp add: clean_run_checks)
  note lists = clean_evidence_reads [OF this]
  let ?c = "canonical_branch_of a b (anchored_names (root_issue i) (source_list bs) (source_list ps))"
  have c: "branch_text ?c" by (rule canonical_branch_text [OF texts(1,2) lists])
  note facts = wf_projected_facts [OF front c texts(3) lists]
  show ?thesis
  proof (cases "issue_mismatch r (root_issue i)")
    case False
    then show ?thesis using facts by (simp add: Projected(3) project_evidence_def Let_def)
  next
    case True
    have "wf_diagnostics (snd (run_checks (add_diagnostic ''CHANGE_PROJECTION_ISSUE_MISMATCH'' path message)))" for path message
      by (intro sound_checks sound) simp
    then show ?thesis
      using facts [of a r] True
      by (simp add: Projected(3) project_evidence_def Let_def wf_projection_def project_facts_sel unavailable_result_def)
  qed
qed

text \<open>
  C26.  A projection survives transport: the plain object of whatever the projector makes of its input is
  accepted by the validator of transported projections, which returns the same projection.  The branch
  authorities name branches of at most 255 code units without control characters, and the host of the
  identity is ASCII.
\<close>

theorem projection_transport:
  assumes "known_refusals ba" and "named_branches ba" and "ascii_value (claimed_host v)"
  shows "validate_projection_result lc (projection_result_value (project_change lc ba v)) =
    Some (Inr (project_change lc ba v))"
  by (rule projection_round_trip [OF project_change_wf [OF assms]])

lemma sample_authority_settled: "known_refusals sample_authority" "named_branches sample_authority"
  by (simp_all del: bounded_text.simps add: known_refusals_def named_branches_def sample_authority_def branch_text_def)

lemma sample_host: "ascii_value (claimed_host (sample_projection_input bs ps))"
  by (simp add: claimed_host_def sample_projection_input_def change_identity_value_def sample_identity_def js_eval)

theorem projection_report_bounded_witness:
  "length (pr_diagnostics (project_change (\<lambda>s. s) sample_authority JNull)) \<le> 32"
  using projection_report_bounded [OF sample_authority_settled(1), of "\<lambda>s. s" JNull] by (simp add: Let_def)

theorem projection_transport_witness:
  "validate_projection_result (\<lambda>s. s)
     (projection_result_value (project_change (\<lambda>s. s) sample_authority (sample_projection_input [] [sample_pull True]))) =
   Some (Inr (project_change (\<lambda>s. s) sample_authority (sample_projection_input [] [sample_pull True])))"
  by (rule projection_transport [OF sample_authority_settled sample_host])

end
