(* ===== verification/Merge_Admission.thy ===== *)
theory Merge_Admission
  imports Projection_Bounds
begin

text \<open>
  \<^verbatim>\<open>validateChangeMergeAdmission\<close> of \<^verbatim>\<open>src/src/change.ts\<close>: the last check
  before a pull request is merged.  The input names a canonical Change, a projection (raw evidence, which
  is projected here, or a projection that was transported), an issuance plan and the governed pull-request
  artifact, each under one of several names; the parts must agree with each other and with the trusted issuer.
\<close>

subsection \<open>Input under several names\<close>

definition comma_list :: "jstr list \<Rightarrow> jstr" where
  "comma_list ks = (case ks of [] \<Rightarrow> [] | k # ks \<Rightarrow> k @ concat (map (\<lambda>x. js '', '' @ x) ks))"

definition admission_alias :: "jsval \<Rightarrow> string list \<Rightarrow> string \<Rightarrow> jsval option checked" where
  "admission_alias v keys path =
     (let present = filter (\<lambda>k. has_prop v (js k)) keys in do {
        report_if (1 < length present) ''CHANGE_PROVENANCE_CONFLICT'' (js path)
          (js ''Ambiguous input uses multiple aliases: '' @ comma_list (map js present) @ js ''.'');
        State_Monad.return (case present of [] \<Rightarrow> None | k # ks \<Rightarrow> Some (get_prop v (js k)))
      })"

text \<open>
  \<^verbatim>\<open>appendAdmissionDiagnostics\<close>.  A diagnostic that came from a transported projection may
  have an empty message, which \<^verbatim>\<open>createChangeDiagnostic\<close> refuses by throwing
  (\<^const>\<open>None\<close>), unless the array is full already.
\<close>

fun append_admission ::
  "jstr \<Rightarrow> change_diagnostic list \<Rightarrow> change_diagnostic list \<Rightarrow> change_diagnostic list option" where
  "append_admission root [] ds = Some ds"
| "append_admission root (d # new) ds =
     (if max_change_diagnostics \<le> length ds then Some ds
      else if cd_message d = [] then None
      else append_admission root new (ds @
             [\<lparr>cd_code = cd_code d, cd_path = safe_text (admission_path root (cd_path d)) max_diagnostic_path_length,
               cd_message = safe_text (cd_message d) max_diagnostic_message_length\<rparr>]))"

definition admission_keys :: "jstr list" where
  "admission_keys =
     [js ''change'', js ''projection'', js ''issuance'', js ''pullRequest'', js ''issuer'', js ''canonicalChange'',
      js ''canonical'', js ''projectionInput'', js ''projectionResult'', js ''issuancePlan'', js ''governedPullRequest'',
      js ''pullRequestContract'', js ''pullRequestBody'', js ''prContract'', js ''prBody'', js ''contract'', js ''body'',
      js ''expectedIssuer'', js ''branchGovernance'', js ''branchPlan'', js ''naming'', js ''baseBranch'', js ''evidence'',
      js ''provenance'']"

subsection \<open>Reading the parts\<close>

text \<open>
  Each reader takes the diagnostics collected so far and returns its part with the diagnostics after it;
  \<^const>\<open>None\<close> is an exception that leaves the validator.
\<close>

definition read_issuance ::
  "(jstr \<Rightarrow> jstr) \<Rightarrow> plan_authority \<Rightarrow> jsval \<Rightarrow> change_diagnostic list \<Rightarrow>
     (issuance_plan option \<times> change_diagnostic list) option" where
  "read_issuance lc pa v ds =
     (case run_state (admission_alias v [''issuance'', ''issuancePlan''] ''$.issuance'') ds of
        (None, ds) \<Rightarrow> Some (None, ds)
      | (Some x, ds) \<Rightarrow> do {
          r \<leftarrow> validate_issuance_plan lc pa x;
          ds \<leftarrow> append_admission (js ''$.issuance'') (result_diagnostics r) ds;
          Some (result_value r, ds)
        })"

definition change_alias :: "jsval \<Rightarrow> jsval option checked" where
  "change_alias v = admission_alias v [''change'', ''canonicalChange'', ''canonical''] ''$.change''"

definition read_canonical ::
  "(jstr \<Rightarrow> jstr) \<Rightarrow> jsval option \<Rightarrow> issuance_plan option \<Rightarrow> change_diagnostic list \<Rightarrow>
     (change option \<times> change_diagnostic list) option" where
  "read_canonical lc x issuance ds =
     (case (x, issuance) of
        (None, Some p) \<Rightarrow> Some (Some (ip_result p), ds)
      | (None, None) \<Rightarrow> Some (None, snd (run_state (missing_at (js ''$.change'')) ds))
      | (Some x, _) \<Rightarrow> do {
          ds \<leftarrow> append_admission (js ''$.change'') (result_diagnostics (validate_change lc x)) ds;
          Some (result_value (validate_change lc x), ds)
        })"

definition flattened_keys :: "string list" where
  "flattened_keys = [''branchPlan'', ''branchGovernance'', ''naming'', ''baseBranch'', ''evidence'', ''provenance'']"

text \<open>A projection input spread over the admission input itself.\<close>

definition flattened_projection :: "jsval \<Rightarrow> jsval option \<Rightarrow> change option \<Rightarrow> jsval" where
  "flattened_projection v x canonical =
     (let own = (\<lambda>k. if has_prop v (js k) then [(js k, get_prop v (js k))] else []) in
      JObj ((js ''change'',
              (case x of
                 Some c \<Rightarrow> if c = JUndef \<or> c = JNull then (case canonical of None \<Rightarrow> JUndef | Some c \<Rightarrow> change_value c) else c
               | None \<Rightarrow> (case canonical of None \<Rightarrow> JUndef | Some c \<Rightarrow> change_value c)))
            # own ''branchPlan''
            @ [(js ''branchGovernance'', get_prop v (js ''branchGovernance'')), (js ''naming'', get_prop v (js ''naming'')),
               (js ''baseBranch'', get_prop v (js ''baseBranch'')), (js ''evidence'', get_prop v (js ''evidence''))]
            @ own ''provenance''))"

definition projection_alias :: "jsval \<Rightarrow> jsval option checked" where
  "projection_alias v = admission_alias v [''projection'', ''projectionInput'', ''projectionResult''] ''$.projection''"

text \<open>The object the projection is taken from, under one of its names or spread over the input.\<close>

definition projection_source :: "jsval \<Rightarrow> jsval option \<Rightarrow> jsval option \<Rightarrow> change option \<Rightarrow> jsval option" where
  "projection_source v p x canonical =
     (case p of
        Some p \<Rightarrow> Some p
      | None \<Rightarrow>
          if list_ex (\<lambda>k. has_prop v (js k)) flattened_keys then Some (flattened_projection v x canonical) else None)"

definition is_raw_projection :: "jsval \<Rightarrow> bool" where
  "is_raw_projection s \<longleftrightarrow> is_record s \<and> has_prop s (js ''evidence'')"

definition read_projection ::
  "(jstr \<Rightarrow> jstr) \<Rightarrow> branch_authority \<Rightarrow> jsval option \<Rightarrow> change_diagnostic list \<Rightarrow>
     (projection_result option \<times> change_diagnostic list) option" where
  "read_projection lc ba source ds =
     (case source of
        None \<Rightarrow> Some (None, snd (run_state (missing_at (js ''$.projection'')) ds))
      | Some s \<Rightarrow>
          if is_raw_projection s then do {
            ds \<leftarrow> append_admission (js ''$.projection'') (pr_diagnostics (project_change lc ba s)) ds;
            Some (Some (project_change lc ba s), ds)
          }
          else do {
            r \<leftarrow> validate_projection_result lc s;
            ds \<leftarrow> append_admission (js ''$.projection'') (result_diagnostics r) ds;
            ds \<leftarrow> (case result_value r of
                    None \<Rightarrow> Some ds
                  | Some p \<Rightarrow> append_admission (js ''$.projection.result'') (pr_diagnostics p) ds);
            Some (result_value r, ds)
          })"

text \<open>An issuance plan that is not given (or not valid) is planned from raw evidence; what that throws is dropped.\<close>

definition planned_issuance_of ::
  "(jstr \<Rightarrow> jstr) \<Rightarrow> plan_authority \<Rightarrow> artifact_authority \<Rightarrow> jsval option \<Rightarrow> issuance_plan option \<Rightarrow> issuance_plan option" where
  "planned_issuance_of lc pa aa source issuance =
     (case (issuance, source) of
        (None, Some s) \<Rightarrow>
          if is_raw_projection s
          then (case plan_change_issuance lc pa aa s of Inl _ \<Rightarrow> None | Inr p \<Rightarrow> Some p)
          else None
      | _ \<Rightarrow> issuance)"

definition read_pull_artifact :: "jsval \<Rightarrow> artifact_evidence option checked" where
  "read_pull_artifact v = do {
     p \<leftarrow> admission_alias v [''pullRequest'', ''governedPullRequest''] ''$.pullRequest'';
     (case p of
        Some x \<Rightarrow> parse_admission_pull_request x
      | None \<Rightarrow> do {
          c \<leftarrow> admission_alias v [''pullRequestContract'', ''prContract'', ''contract''] ''$.pullRequest.contract'';
          b \<leftarrow> admission_alias v [''pullRequestBody'', ''prBody'', ''body''] ''$.pullRequest.body'';
          e \<leftarrow> (if c \<noteq> None \<or> b \<noteq> None
                then parse_admission_pull_request (JObj (opt_prop ''contract'' (\<lambda>x. x) c @ opt_prop ''body'' (\<lambda>x. x) b))
                else State_Monad.return None);
          (if e = None then missing_at (js ''$.pullRequest'') else State_Monad.return ());
          State_Monad.return e
        })
   }"

definition admission_issuer :: "jsval \<Rightarrow> jstr \<Rightarrow> jstr option checked" where
  "admission_issuer v path =
     (case Option.bind (result_value (validate_change_provenance (JObj [(js ''issuer'', v)]) change_root)) issuer of
        Some i \<Rightarrow> State_Monad.return (Some i)
      | None \<Rightarrow> reject_with ''CHANGE_PROVENANCE_INVALID_ISSUER'' path (js ''Issuer provenance is invalid.''))"

definition read_issuer :: "jsval \<Rightarrow> jstr option checked" where
  "read_issuer v = do {
     x \<leftarrow> admission_alias v [''issuer'', ''expectedIssuer''] ''$.issuer'';
     (case x of None \<Rightarrow> State_Monad.return None | Some x \<Rightarrow> admission_issuer x (js ''$.issuer''))
   }"

subsection \<open>Agreement of the parts\<close>

definition unless_issuer :: "bool \<Rightarrow> string \<Rightarrow> string \<Rightarrow> unit checked" where
  "unless_issuer b path message = report_if (\<not> b) ''CHANGE_PROVENANCE_ISSUER_MISMATCH'' (js path) (js message)"

definition unless_branch :: "bool \<Rightarrow> string \<Rightarrow> string \<Rightarrow> unit checked" where
  "unless_branch b path message = report_if (\<not> b) ''CHANGE_PROVENANCE_BRANCH_MISMATCH'' (js path) (js message)"

definition unless_pull :: "bool \<Rightarrow> string \<Rightarrow> string \<Rightarrow> unit checked" where
  "unless_pull b path message = report_if (\<not> b) ''CHANGE_PROVENANCE_PULL_REQUEST_MISMATCH'' (js path) (js message)"

definition unless_conflict :: "bool \<Rightarrow> string \<Rightarrow> string \<Rightarrow> unit checked" where
  "unless_conflict b path message = report_if (\<not> b) ''CHANGE_PROVENANCE_CONFLICT'' (js path) (js message)"

definition unless_identity :: "bool \<Rightarrow> string \<Rightarrow> string \<Rightarrow> unit checked" where
  "unless_identity b path message = report_if (\<not> b) ''CHANGE_PROVENANCE_IDENTITY_MISMATCH'' (js path) (js message)"

definition trusted_issuer :: "jstr \<Rightarrow> bool" where
  "trusted_issuer s \<longleftrightarrow> s = inari_issuer_principal"

text \<open>An issuer that must be there, be trusted and be the expected one.\<close>

definition issuer_checks :: "jstr option \<Rightarrow> jstr option \<Rightarrow> string \<Rightarrow> string \<Rightarrow> string \<Rightarrow> unit checked" where
  "issuer_checks x expected path missing mismatch =
     (case x of
        None \<Rightarrow> add_diagnostic ''CHANGE_PROVENANCE_INVALID_ISSUER'' (js path) (js missing)
      | Some i \<Rightarrow> unless_issuer (trusted_issuer i \<and> expected = Some i) path mismatch)"

definition change_issuer :: "change \<Rightarrow> jstr option" where
  "change_issuer c = issuer (ch_provenance c)"

text \<open>The issuer the parts are compared with, after the issuers of the input itself are checked.\<close>

definition input_issuer_checks :: "change option \<Rightarrow> jstr option \<Rightarrow> jstr option checked" where
  "input_issuer_checks canonical explicit =
     (let own = Option.bind canonical change_issuer in do {
        (if canonical \<noteq> None \<and> own = None
         then add_diagnostic ''CHANGE_PROVENANCE_INVALID_ISSUER'' (js ''$.change.provenance.issuer'')
                (js ''A canonical Change must identify its issuer.'')
         else unless_issuer (case own of None \<Rightarrow> True | Some i \<Rightarrow> trusted_issuer i) ''$.change.provenance.issuer''
                ''Canonical Change issuer provenance is not anchored to the trusted Inari issuer authority.'');
        unless_issuer (case explicit of None \<Rightarrow> True | Some i \<Rightarrow> trusted_issuer i) ''$.issuer''
          ''Explicit issuer provenance is not anchored to the trusted Inari issuer authority.'';
        unless_issuer (explicit = None \<or> own = None \<or> explicit = own) ''$.issuer''
          ''Explicit issuer provenance does not match the canonical Change.'';
        State_Monad.return (if explicit = None then own else explicit)
      })"

definition canonical_change_checks :: "change \<Rightarrow> projection_result \<Rightarrow> jstr option \<Rightarrow> unit checked" where
  "canonical_change_checks c r expected = do {
     issuer_checks (Option.bind (pr_change r) change_issuer) expected ''$.projection.change.provenance.issuer''
       ''Projected canonical Change must identify its issuer.''
       ''Projected Change issuer provenance does not match the trusted canonical issuer.'';
     unless_identity (case pr_change r of None \<Rightarrow> True | Some p \<Rightarrow> ch_identity p = ch_identity c)
       ''$.projection.change.identity'' ''Projection identity does not match the canonical Change.'';
     report_if (\<not> issuance_healthy_state (ch_state c)) ''CHANGE_PROVENANCE_INVALID_INPUT'' (js ''$.change.state'')
       (js ''Only a healthy canonical Change can pass merge admission.'');
     unless_branch (projected_branch c \<noteq> None) ''$.change.projection.branch''
       ''Canonical Change must identify its canonical branch.'';
     unless_pull (projected_pull_request c \<noteq> None) ''$.change.projection.pullRequest''
       ''Canonical Change must identify its canonical pull request.''
   }"

definition canonical_of :: "'a candidate list \<Rightarrow> 'a candidate list" where
  "canonical_of cs = filter (\<lambda>x. cand_class x = Canonical) cs"

definition has_conflict :: "projection_result \<Rightarrow> bool" where
  "has_conflict r \<longleftrightarrow> list_ex (\<lambda>x. cand_class x = Conflicting) (pr_branches r)
     \<or> list_ex (\<lambda>x. cand_class x = Conflicting) (pr_pull_requests r)"

definition projected_change_checks :: "change \<Rightarrow> change option \<Rightarrow> unit checked" where
  "projected_change_checks c projected =
     (case projected of
        None \<Rightarrow> unless_conflict False ''$.projection.change''
                  ''A healthy projection must contain a canonical Change snapshot.''
      | Some p \<Rightarrow> do {
          unless_conflict (ch_state p = ch_state c) ''$.projection.change.state''
            ''Projection lifecycle state does not match the canonical Change.'';
          unless_branch (projected_branch c = None \<or> projected_branch p = projected_branch c)
            ''$.projection.change.projection.branch'' ''Projected Change does not identify the canonical branch.'';
          unless_pull (projected_pull_request c = None \<or> projected_pull_request p = projected_pull_request c)
            ''$.projection.change.projection.pullRequest''
            ''Projected Change does not identify the canonical pull request.''
        })"

definition healthy_projection_checks :: "change \<Rightarrow> projection_result \<Rightarrow> unit checked" where
  "healthy_projection_checks c r =
     (if pr_status r \<noteq> Healthy \<or> \<not> pr_valid r
      then unless_conflict (pr_diagnostics r \<noteq> []) ''$.projection.status''
             ''Only a healthy Change projection can pass merge admission.''
      else do {
        unless_conflict (length (canonical_of (pr_branches r)) = 1 \<and> length (canonical_of (pr_pull_requests r)) = 1)
          ''$.projection.candidates''
          ''A healthy projection must contain exactly one canonical branch and pull request candidate.'';
        unless_conflict (\<not> has_conflict r) ''$.projection.candidates''
          ''A healthy projection cannot contain conflicting candidates.'';
        unless_branch (projected_branch c = None \<or> pr_canonical_branch r = projected_branch c)
          ''$.projection.canonicalBranch'' ''Projection branch does not match the canonical Change.'';
        projected_change_checks c (pr_change r)
      })"

definition physical_candidates :: "projection_result \<Rightarrow> int \<Rightarrow> pull_request_evidence candidate list" where
  "physical_candidates r n = filter (\<lambda>x. pe_number (cand_value x) = n) (pr_pull_requests r)"

definition physical_pull_checks ::
  "change \<Rightarrow> projection_result \<Rightarrow> jstr option \<Rightarrow> pull_request_evidence candidate \<Rightarrow> unit checked" where
  "physical_pull_checks c r expected x =
     (let p = cand_value x in do {
        unless_conflict (cand_class x = Canonical) ''$.projection.candidates.pullRequests''
          ''The physical pull request is not a canonical projection candidate.'';
        unless_branch (projected_branch c = None \<or> projected_branch c = Some (pe_head p))
          ''$.projection.candidates.pullRequests'' ''Physical pull-request head does not match the canonical branch.'';
        report_if (pr_canonical_base r \<noteq> None \<and> pr_canonical_base r \<noteq> Some (pe_base p))
          ''CHANGE_PROVENANCE_BASE_MISMATCH'' (js ''$.projection.candidates.pullRequests'')
          (js ''Physical pull-request base does not match the canonical base branch.'');
        report_if (pe_root_issue p \<noteq> None \<and> pe_root_issue p \<noteq> Some (root_issue (ch_identity c)))
          ''CHANGE_PROVENANCE_ROOT_ISSUE_MISMATCH'' (js ''$.projection.candidates.pullRequests'')
          (js ''Physical pull-request root Issue claim does not match the canonical Change.'');
        issuer_checks (Option.bind (pe_provenance p) issuer) expected ''$.projection.candidates.pullRequests''
          ''The canonical physical pull request has no issuer provenance.''
          ''Physical pull-request issuer provenance does not match the canonical issuer.''
      })"

definition physical_checks :: "change \<Rightarrow> projection_result \<Rightarrow> jstr option \<Rightarrow> unit checked" where
  "physical_checks c r expected =
     (case projected_pull_request c of
        None \<Rightarrow> State_Monad.return ()
      | Some n \<Rightarrow>
          (case physical_candidates r n of
             [x] \<Rightarrow> physical_pull_checks c r expected x
           | _ \<Rightarrow> unless_pull False ''$.projection.candidates.pullRequests''
                    ''The pre-established canonical pull-request identity is not present exactly once in physical evidence.''))"

definition issuance_checks :: "issuance_plan \<Rightarrow> change \<Rightarrow> jstr option \<Rightarrow> jstr option \<Rightarrow> unit checked" where
  "issuance_checks p c base expected = do {
     unless_identity (it_identity (ip_transaction p) = ch_identity c) ''$.issuance.transaction.identity''
       ''Issuance transaction identity does not match the canonical Change.'';
     unless_identity (ch_identity (ip_result p) = ch_identity c) ''$.issuance.result.identity''
       ''Issuance result identity does not match the canonical Change.'';
     unless_branch (projected_branch c = None \<or> projected_branch c = Some (iv_branch (ip_verification p)))
       ''$.issuance.verification.canonicalBranch'' ''Issuance verification does not identify the canonical branch.'';
     unless_branch (projected_branch c = None \<or> projected_branch (ip_result p) = projected_branch c)
       ''$.issuance.result.projection.branch'' ''Issuance result does not identify the canonical branch.'';
     report_if (base \<noteq> None \<and> base \<noteq> Some (iv_base (ip_verification p))) ''CHANGE_PROVENANCE_BASE_MISMATCH''
       (js ''$.issuance.verification.canonicalBaseBranch'')
       (js ''Issuance verification does not identify the canonical base branch.'');
     issuer_checks (change_issuer (ip_result p)) expected ''$.issuance.result.provenance.issuer''
       ''Issuance result must identify its issuer.'' ''Issuance issuer provenance does not match the canonical issuer.'';
     unless_pull (projected_pull_request c = None \<or> ip_mode p \<noteq> Return_Existing
         \<or> projected_pull_request (ip_result p) = projected_pull_request c)
       ''$.issuance.result.projection.pullRequest'' ''Issuance does not identify the canonical pull request.'';
     unless_pull (projected_pull_request c = None \<or> iv_pull_request (ip_verification p) = None
         \<or> iv_pull_request (ip_verification p) = projected_pull_request c)
       ''$.issuance.verification.pullRequest.number''
       ''Issuance verification does not identify the canonical pull request.''
   }"

text \<open>All checks on what was read.\<close>

definition artifact_parts :: "artifact_evidence option \<Rightarrow> (jsval \<times> jsval) option" where
  "artifact_parts e = Option.bind e (\<lambda>e. Option.bind (ae_contract e) (\<lambda>c. map_option (Pair c) (ae_body e)))"

definition admission_agreement ::
  "(jstr \<Rightarrow> jstr) \<Rightarrow> artifact_authority \<Rightarrow> change option \<Rightarrow> projection_result option \<Rightarrow> issuance_plan option \<Rightarrow>
     artifact_evidence option \<Rightarrow> jstr option \<Rightarrow> unit checked" where
  "admission_agreement lc aa canonical projection issuance pull explicit = do {
     expected \<leftarrow> input_issuer_checks canonical explicit;
     (case (canonical, projection) of
        (Some c, Some r) \<Rightarrow> do {
          canonical_change_checks c r expected;
          healthy_projection_checks c r;
          physical_checks c r expected;
          (case issuance of None \<Rightarrow> State_Monad.return () | Some p \<Rightarrow> issuance_checks p c (pr_canonical_base r) expected);
          (case artifact_parts pull of
             None \<Rightarrow> State_Monad.return ()
           | Some (contract, body) \<Rightarrow>
               admission_contract_checks lc aa contract body (Some (ch_identity c)) (optional_text (pr_canonical_base r)))
        }
      | _ \<Rightarrow> State_Monad.return ())
   }"

subsection \<open>Merge admission\<close>

record merge_admission =
  ma_valid :: bool
  ma_change :: "change option"
  ma_projection :: "projection_result option"
  ma_pull_request :: "pull_request_evidence option"
  ma_diagnostics :: "change_diagnostic list"

definition admission_result ::
  "change option \<Rightarrow> projection_result option \<Rightarrow> artifact_evidence option \<Rightarrow> change_diagnostic list \<Rightarrow> merge_admission" where
  "admission_result canonical projection pull ds =
     (let valid = (ds = [] \<and> canonical \<noteq> None
                   \<and> (case projection of None \<Rightarrow> False | Some r \<Rightarrow> pr_valid r \<and> pr_status r = Healthy)
                   \<and> artifact_parts pull \<noteq> None) in
      \<lparr>ma_valid = valid, ma_change = (if valid then canonical else None), ma_projection = projection,
       ma_pull_request =
         (case (Option.bind canonical projected_pull_request, projection) of
            (Some n, Some r) \<Rightarrow> map_option cand_value (find (\<lambda>x. pe_number (cand_value x) = n) (pr_pull_requests r))
          | _ \<Rightarrow> None),
       ma_diagnostics = diagnostic_report ds\<rparr>)"

definition validate_merge_admission ::
  "(jstr \<Rightarrow> jstr) \<Rightarrow> plan_authority \<Rightarrow> artifact_authority \<Rightarrow> jsval \<Rightarrow> merge_admission option" where
  "validate_merge_admission lc pa aa v =
     (if \<not> is_record v
      then Some (admission_result None None None
             (snd (run_checks (add_diagnostic ''CHANGE_PROVENANCE_INVALID_INPUT'' change_root
                (js ''Change merge-admission input must be a JSON object.'')))))
      else do {
        (issuance, ds) \<leftarrow> read_issuance lc pa v (snd (run_checks (add_unknown_properties v admission_keys change_root)));
        let (x, ds) = run_state (change_alias v) ds;
        (canonical, ds) \<leftarrow> read_canonical lc x issuance ds;
        let (p, ds) = run_state (projection_alias v) ds;
        let source = projection_source v p x canonical;
        (projection, ds) \<leftarrow> read_projection lc (pa_branch pa) source ds;
        let ((pull, explicit), ds) = run_state (do { e \<leftarrow> read_pull_artifact v; i \<leftarrow> read_issuer v; State_Monad.return (e, i) }) ds;
        let ds = snd (run_state (admission_agreement lc aa canonical projection
                        (planned_issuance_of lc pa aa source issuance) pull explicit) ds);
        Some (admission_result canonical projection pull ds)
      })"

subsection \<open>What an admission establishes\<close>

lemma grows_agreement_parts [checked]:
  "grows (unless_issuer b p m)" "grows (unless_branch b p m)" "grows (unless_pull b p m)" "grows (unless_conflict b p m)"
  "grows (unless_identity b p m)"
  by (simp_all add: unless_issuer_def unless_branch_def unless_pull_def unless_conflict_def unless_identity_def checked)

lemma clean_agreement_parts [simp]:
  "clean_run (unless_issuer b p m) y \<longleftrightarrow> b" "clean_run (unless_branch b p m) y \<longleftrightarrow> b"
  "clean_run (unless_pull b p m) y \<longleftrightarrow> b" "clean_run (unless_conflict b p m) y \<longleftrightarrow> b"
  "clean_run (unless_identity b p m) y \<longleftrightarrow> b"
  by (simp_all add: unless_issuer_def unless_branch_def unless_pull_def unless_conflict_def unless_identity_def)

lemma grows_alias [checked]: "grows (admission_alias v keys path)"
  by (auto simp: admission_alias_def Let_def intro!: checked)

lemma grows_issuer_checks [checked]: "grows (issuer_checks x e p a b)"
  by (auto simp: issuer_checks_def intro!: checked split: option.split)

lemma clean_issuer_checks [simp]:
  "clean_run (issuer_checks x e p a b) y \<longleftrightarrow> x = Some inari_issuer_principal \<and> e = Some inari_issuer_principal"
  by (auto simp: issuer_checks_def trusted_issuer_def split: option.split)

lemma grows_input_issuer [checked]: "grows (input_issuer_checks c e)"
  by (auto simp: input_issuer_checks_def Let_def intro!: checked)

lemma clean_input_issuer:
  "clean_run (input_issuer_checks (Some c) e) y \<longleftrightarrow>
     change_issuer c = Some inari_issuer_principal \<and> (e = None \<or> e = Some inari_issuer_principal) \<and>
     y = Some inari_issuer_principal"
  by (cases "change_issuer c"; cases e)
    (auto simp: input_issuer_checks_def Let_def clean_run_bind checked trusted_issuer_def)

lemma grows_canonical_change [checked]: "grows (canonical_change_checks c r e)"
  by (auto simp: canonical_change_checks_def intro!: checked)

lemma grows_projected_change [checked]: "grows (projected_change_checks c p)"
  by (auto simp: projected_change_checks_def intro!: checked split: option.split)

lemma grows_healthy_projection [checked]: "grows (healthy_projection_checks c r)"
  by (auto simp: healthy_projection_checks_def intro!: checked)

lemma grows_physical_pull [checked]: "grows (physical_pull_checks c r e x)"
  by (auto simp: physical_pull_checks_def Let_def intro!: checked)

lemma grows_physical [checked]: "grows (physical_checks c r e)"
  by (auto simp: physical_checks_def intro!: checked split: option.split list.split)

lemma grows_issuance_checks [checked]: "grows (issuance_checks p c base e)"
  by (auto simp: issuance_checks_def intro!: checked)

lemma grows_agreement [checked]: "grows (admission_agreement lc aa c r i pull e)"
  by (auto simp: admission_agreement_def intro!: checked split: option.split)

lemma grows_read_parts [checked]: "grows (read_pull_artifact v)" "grows (read_issuer v)"
  by (auto simp: read_pull_artifact_def read_issuer_def admission_issuer_def intro!: checked split: option.split)

lemma grows_aliases [checked]: "grows (change_alias v)" "grows (projection_alias v)"
  by (simp_all add: change_alias_def projection_alias_def checked)

lemma grown_Nil:
  assumes "grows m" and "run_state m ds = (y, [])"
  shows "ds = [] \<and> clean_run m y"
proof -
  obtain new where "snd (run_state m ds) = ds @ new" using assms(1) by (auto simp: grows_def)
  with assms(2) have "ds = []" by simp
  with assms(2) show ?thesis by (simp add: clean_run_def)
qed

lemma append_admission_grows: "append_admission p new ds = Some ds' \<Longrightarrow> \<exists>ext. ds' = ds @ ext"
  by (induction p new ds rule: append_admission.induct) (auto split: if_splits)

lemma append_admission_Nil:
  assumes "append_admission p new ds = Some []"
  shows "ds = [] \<and> new = []"
proof -
  have "ds = []" using append_admission_grows [OF assms] by simp
  moreover have "new = []"
  proof (cases new)
    case (Cons d rest)
    with assms \<open>ds = []\<close> show ?thesis
      using append_admission_grows [of p rest] by (auto simp: max_change_diagnostics_def split: if_splits)
  qed simp
  ultimately show ?thesis by simp
qed

text \<open>The agreement of the parts, as one predicate.\<close>

definition agreed_pull :: "change \<Rightarrow> projection_result \<Rightarrow> jstr \<Rightarrow> pull_request_evidence \<Rightarrow> bool" where
  "agreed_pull c r branch p \<longleftrightarrow>
     pe_head p = branch \<and> same_defined_value (pr_canonical_base r) (Some (pe_base p)) \<and>
     same_defined_value (pe_root_issue p) (Some (root_issue (ch_identity c))) \<and>
     Option.bind (pe_provenance p) issuer = Some inari_issuer_principal"

definition agreed_projection :: "change \<Rightarrow> projection_result \<Rightarrow> jstr \<Rightarrow> int \<Rightarrow> bool" where
  "agreed_projection c r branch n \<longleftrightarrow>
     pr_canonical_branch r = Some branch \<and> \<not> has_conflict r \<and> length (canonical_of (pr_branches r)) = 1 \<and>
     (\<exists>p. pr_change r = Some p \<and> ch_identity p = ch_identity c \<and> ch_state p = ch_state c \<and>
        change_issuer p = Some inari_issuer_principal \<and> projected_branch p = Some branch \<and>
        projected_pull_request p = Some n)"

lemma clean_canonical_change:
  "clean_run (canonical_change_checks c r e) u \<longleftrightarrow>
     (\<exists>p branch n. pr_change r = Some p \<and> change_issuer p = Some inari_issuer_principal \<and> e = Some inari_issuer_principal \<and>
        ch_identity p = ch_identity c \<and> issuance_healthy_state (ch_state c) \<and>
        projected_branch c = Some branch \<and> projected_pull_request c = Some n)"
  by (cases "pr_change r") (auto simp: canonical_change_checks_def clean_run_bind checked)

lemma clean_healthy_projection:
  assumes "pr_status r = Healthy" and "pr_valid r" and "projected_branch c = Some branch" and "projected_pull_request c = Some n"
    and "pr_change r = Some p" and "change_issuer p = Some inari_issuer_principal" and "ch_identity p = ch_identity c"
  shows "clean_run (healthy_projection_checks c r) u \<longleftrightarrow>
    agreed_projection c r branch n \<and> length (canonical_of (pr_pull_requests r)) = 1"
  using assms
  by (auto simp: healthy_projection_checks_def projected_change_checks_def agreed_projection_def clean_run_bind checked)

lemma clean_physical:
  assumes "projected_branch c = Some branch" and "projected_pull_request c = Some n"
  shows "clean_run (physical_checks c r e) u \<longleftrightarrow>
    (\<exists>x. physical_candidates r n = [x] \<and> cand_class x = Canonical \<and> agreed_pull c r branch (cand_value x) \<and>
       e = Some inari_issuer_principal)"
  using assms
  by (auto simp: physical_checks_def physical_pull_checks_def agreed_pull_def same_defined_value_def Let_def clean_run_bind
      checked split: list.split)

definition agreed_issuance :: "issuance_plan \<Rightarrow> change \<Rightarrow> jstr option \<Rightarrow> jstr \<Rightarrow> int \<Rightarrow> bool" where
  "agreed_issuance p c base branch n \<longleftrightarrow>
     it_identity (ip_transaction p) = ch_identity c \<and> ch_identity (ip_result p) = ch_identity c \<and>
     iv_branch (ip_verification p) = branch \<and> projected_branch (ip_result p) = Some branch \<and>
     same_defined_value base (Some (iv_base (ip_verification p))) \<and>
     change_issuer (ip_result p) = Some inari_issuer_principal \<and>
     (ip_mode p = Return_Existing \<longrightarrow> projected_pull_request (ip_result p) = Some n) \<and>
     same_defined_value (iv_pull_request (ip_verification p)) (Some n)"

lemma clean_issuance_checks:
  assumes "projected_branch c = Some branch" and "projected_pull_request c = Some n"
  shows "clean_run (issuance_checks p c base e) u \<longleftrightarrow>
    agreed_issuance p c base branch n \<and> e = Some inari_issuer_principal"
  using assms
  by (auto simp: issuance_checks_def agreed_issuance_def same_defined_value_def clean_run_bind checked)

text \<open>
  What a merge needs: one trusted issuer behind every part, and one branch and one pull request that
  the canonical Change, the projection, the physical evidence and the issuance plan all identify.
\<close>

definition agreed_merge ::
  "(jstr \<Rightarrow> jstr) \<Rightarrow> artifact_authority \<Rightarrow> change \<Rightarrow> projection_result \<Rightarrow> issuance_plan option \<Rightarrow> jsval \<Rightarrow> jsval \<Rightarrow>
     jstr \<Rightarrow> int \<Rightarrow> pull_request_evidence candidate \<Rightarrow> bool" where
  "agreed_merge lc aa c r issuance contract body branch n x \<longleftrightarrow>
     change_issuer c = Some inari_issuer_principal \<and> issuance_healthy_state (ch_state c) \<and>
     projected_branch c = Some branch \<and> projected_pull_request c = Some n \<and>
     agreed_projection c r branch n \<and> canonical_of (pr_pull_requests r) = [x] \<and> physical_candidates r n = [x] \<and>
     agreed_pull c r branch (cand_value x) \<and>
     (case issuance of None \<Rightarrow> True | Some p \<Rightarrow> agreed_issuance p c (pr_canonical_base r) branch n) \<and>
     governed_pull_request lc aa (Some (ch_identity c)) (optional_text (pr_canonical_base r)) contract body"

lemma single_candidate:
  assumes "length (canonical_of cs) = 1" and "x \<in> set cs" and "cand_class x = Canonical"
  shows "canonical_of cs = [x]"
proof -
  from assms(1) obtain y where y: "canonical_of cs = [y]" by (cases "canonical_of cs") auto
  have "x \<in> set (canonical_of cs)" using assms(2,3) by (simp add: canonical_of_def)
  with y show ?thesis by simp
qed

lemma physical_in: "physical_candidates r n = [x] \<Longrightarrow> x \<in> set (pr_pull_requests r) \<and> pe_number (cand_value x) = n"
  unfolding physical_candidates_def by (drule arg_cong [where f = set]) auto

lemma clean_admission_agreement:
  assumes "clean_run (admission_agreement lc aa (Some c) (Some r) issuance pull explicit) ()"
    and "pr_status r = Healthy" and "pr_valid r" and "artifact_parts pull = Some (contract, body)"
  obtains branch n x where "agreed_merge lc aa c r issuance contract body branch n x"
proof -
  from assms(1,4) obtain e u1 u2 u3 u4 where
    clean: "clean_run (input_issuer_checks (Some c) explicit) e" "clean_run (canonical_change_checks c r e) u1"
      "clean_run (healthy_projection_checks c r) u2" "clean_run (physical_checks c r e) u3"
      "clean_run (case issuance of None \<Rightarrow> State_Monad.return () | Some p \<Rightarrow> issuance_checks p c (pr_canonical_base r) e) u4"
      "governed_pull_request lc aa (Some (ch_identity c)) (optional_text (pr_canonical_base r)) contract body"
    by (auto simp: admission_agreement_def clean_run_bind checked split: option.split)
  from clean(1) have issuer: "change_issuer c = Some inari_issuer_principal" by (simp add: clean_input_issuer)
  from clean(2) obtain p branch n where canonical: "pr_change r = Some p" "change_issuer p = Some inari_issuer_principal"
      "ch_identity p = ch_identity c" "issuance_healthy_state (ch_state c)"
      "projected_branch c = Some branch" "projected_pull_request c = Some n"
    unfolding clean_canonical_change by blast
  from clean(3) have projection: "agreed_projection c r branch n" "length (canonical_of (pr_pull_requests r)) = 1"
    by (simp_all add: clean_healthy_projection [OF assms(2,3) canonical(5,6,1,2,3)])
  from clean(4) obtain x where x: "physical_candidates r n = [x]" "cand_class x = Canonical" "agreed_pull c r branch (cand_value x)"
    unfolding clean_physical [OF canonical(5,6)] by blast
  have "canonical_of (pr_pull_requests r) = [x]"
    using projection(2) x(2) physical_in [OF x(1)] by (blast intro: single_candidate)
  moreover have "case issuance of None \<Rightarrow> True | Some p \<Rightarrow> agreed_issuance p c (pr_canonical_base r) branch n"
    using clean(5) clean_issuance_checks [OF canonical(5,6)] by (auto split: option.splits)
  ultimately show thesis
    using that issuer canonical projection(1) x clean(6) by (simp add: agreed_merge_def)
qed

text \<open>The parts an admission read, without a diagnostic.\<close>

lemma read_canonical_Nil:
  assumes "read_canonical lc x issuance ds = Some (canonical, [])"
  shows "ds = []"
  using assms append_admission_Nil
  by (auto simp: read_canonical_def missing_at_def add_diagnostic_def max_change_diagnostics_def bind_eq_Some_conv
      split: option.splits if_splits)

lemma read_projection_Nil:
  assumes "read_projection lc ba source ds = Some (Some r, [])"
  shows "ds = [] \<and> pr_diagnostics r = [] \<and>
    (\<exists>s. source = Some s \<and> (if is_raw_projection s then r = project_change lc ba s
       else validate_projection_result lc s = Some (Inr r)))"
proof (cases source)
  case None
  then show ?thesis using assms by (simp add: read_projection_def)
next
  case (Some s)
  show ?thesis
  proof (cases "is_raw_projection s")
    case True
    then show ?thesis using assms Some by (auto simp: read_projection_def bind_eq_Some_conv dest: append_admission_Nil)
  next
    case False
    then obtain q ds' where q: "validate_projection_result lc s = Some q" "append_admission (js ''$.projection'') (result_diagnostics q) ds = Some ds'"
        "result_value q = Some r" "append_admission (js ''$.projection.result'') (pr_diagnostics r) ds' = Some []"
      using assms Some by (fastforce simp: read_projection_def bind_eq_Some_conv)
    then have r: "q = Inr r" by (cases q) simp_all
    from append_admission_Nil [OF q(4)] have 1: "ds' = []" "pr_diagnostics r = []" by simp_all
    from append_admission_Nil [OF q(2) [unfolded 1(1)]] have "ds = []" by simp
    with 1 r q(1) False Some show ?thesis by simp
  qed
qed

lemma admission_result_valid:
  assumes "ma_valid (admission_result canonical projection pull ds)"
  obtains c r contract body where "canonical = Some c" "projection = Some r" "artifact_parts pull = Some (contract, body)"
    "pr_valid r" "pr_status r = Healthy" "ds = []"
  using assms by (auto simp: admission_result_def Let_def split: option.splits)

lemma valid_admission:
  assumes "validate_merge_admission lc pa aa v = Some m" and "ma_valid m"
  obtains c r source issuance contract body branch n x i where
    "read_canonical lc (fst (run_state (change_alias v) [])) i [] = Some (Some c, [])"
    "projection_source v (fst (run_state (projection_alias v) [])) (fst (run_state (change_alias v) [])) (Some c) = Some source"
    "m = \<lparr>ma_valid = True, ma_change = Some c, ma_projection = Some r, ma_pull_request = Some (cand_value x), ma_diagnostics = []\<rparr>"
    "pr_status r = Healthy" "pr_diagnostics r = []"
    "if is_raw_projection source then r = project_change lc (pa_branch pa) source
     else validate_projection_result lc source = Some (Inr r)"
    "agreed_merge lc aa c r (planned_issuance_of lc pa aa (Some source) issuance) contract body branch n x"
    "set (object_keys v) \<subseteq> set admission_keys"
proof -
  have rec: "is_record v"
  proof (rule ccontr)
    assume "\<not> is_record v"
    then have "m = admission_result None None None
        (snd (run_checks (add_diagnostic ''CHANGE_PROVENANCE_INVALID_INPUT'' change_root
          (js ''Change merge-admission input must be a JSON object.''))))"
      using assms(1) by (simp add: validate_merge_admission_def)
    with assms(2) show False by (auto elim: admission_result_valid)
  qed
  obtain issuance ds1 where issuance: "read_issuance lc pa v (snd (run_checks (add_unknown_properties v admission_keys change_root)))
      = Some (issuance, ds1)"
    using assms(1) rec by (auto simp: validate_merge_admission_def bind_eq_Some_conv)
  obtain x ds2 where x: "run_state (change_alias v) ds1 = (x, ds2)" by fastforce
  obtain canonical ds3 where canonical: "read_canonical lc x issuance ds2 = Some (canonical, ds3)"
    using assms(1) rec issuance x by (auto simp: validate_merge_admission_def bind_eq_Some_conv)
  obtain p ds4 where p: "run_state (projection_alias v) ds3 = (p, ds4)" by fastforce
  let ?source = "projection_source v p x canonical"
  obtain projection ds5 where projection: "read_projection lc (pa_branch pa) ?source ds4 = Some (projection, ds5)"
    using assms(1) rec issuance x canonical p by (auto simp: validate_merge_admission_def bind_eq_Some_conv Let_def)
  obtain pull ds6 where pull: "run_state (read_pull_artifact v) ds5 = (pull, ds6)" by fastforce
  obtain explicit ds7 where explicit: "run_state (read_issuer v) ds6 = (explicit, ds7)" by fastforce
  obtain ds8 where agreement: "run_state (admission_agreement lc aa canonical projection
      (planned_issuance_of lc pa aa ?source issuance) pull explicit) ds7 = ((), ds8)"
    by (metis old.unit.exhaust surj_pair)
  have m: "m = admission_result canonical projection pull ds8"
    using assms(1) rec issuance x canonical p projection pull explicit agreement
    by (simp add: validate_merge_admission_def Let_def)
  from assms(2) [unfolded m] obtain c r contract body where parts: "canonical = Some c" "projection = Some r"
      "artifact_parts pull = Some (contract, body)" "pr_valid r" "pr_status r = Healthy" "ds8 = []"
    by (rule admission_result_valid)
  note clean7 = grown_Nil [OF grows_agreement agreement [unfolded parts(6)]]
  then have 7: "ds7 = []" by simp
  from grown_Nil [OF grows_read_parts(2) explicit [unfolded 7]] have 6: "ds6 = []" by simp
  from grown_Nil [OF grows_read_parts(1) pull [unfolded 6]] have 5: "ds5 = []" by simp
  from read_projection_Nil [OF projection [unfolded 5 parts(2)]] obtain s where
    4: "ds4 = []" "pr_diagnostics r = []" and s: "?source = Some s" "if is_raw_projection s then r = project_change lc (pa_branch pa) s
       else validate_projection_result lc s = Some (Inr r)" by blast
  from grown_Nil [OF grows_aliases(2) p [unfolded 4]] have 3: "ds3 = []" by simp
  from read_canonical_Nil [OF canonical [unfolded 3]] have 2: "ds2 = []" .
  from grown_Nil [OF grows_aliases(1) x [unfolded 2]] have 1: "ds1 = []" by simp
  have keys: "set (object_keys v) \<subseteq> set admission_keys"
  proof -
    have "snd (run_checks (add_unknown_properties v admission_keys change_root)) = []"
    proof -
      obtain a d where a: "run_state (admission_alias v [''issuance'', ''issuancePlan''] ''$.issuance'')
          (snd (run_checks (add_unknown_properties v admission_keys change_root))) = (a, d)" by fastforce
      have "d = []"
        using issuance [unfolded 1] a append_admission_Nil
        by (auto simp: read_issuance_def bind_eq_Some_conv split: option.splits)
      with a grown_Nil [OF grows_alias] show ?thesis by blast
    qed
    then show ?thesis by (simp add: run_checks_clean)
  qed
  have "clean_run (admission_agreement lc aa (Some c) (Some r) (planned_issuance_of lc pa aa (Some s) issuance) pull explicit) ()"
    using clean7 parts(1,2) s(1) by simp
  from clean_admission_agreement [OF this parts(5,4,3)]
  obtain branch n y where agreed: "agreed_merge lc aa c r (planned_issuance_of lc pa aa (Some s) issuance) contract body branch n y"
    by metis
  then have "physical_candidates r n = [y]" "projected_pull_request c = Some n" by (simp_all add: agreed_merge_def)
  moreover have "find P xs = Some z" if "filter P xs = [z]" for P :: "pull_request_evidence candidate \<Rightarrow> bool" and xs z
    using that by (induction xs) (auto split: if_splits)
  ultimately have "find (\<lambda>x. pe_number (cand_value x) = n) (pr_pull_requests r) = Some y"
    by (simp add: physical_candidates_def)
  with parts m agreed
  have "m = \<lparr>ma_valid = True, ma_change = Some c, ma_projection = Some r, ma_pull_request = Some (cand_value y), ma_diagnostics = []\<rparr>"
    by (simp add: admission_result_def Let_def diagnostic_report_def agreed_merge_def)
  moreover have "read_canonical lc (fst (run_state (change_alias v) [])) issuance [] = Some (Some c, [])"
    using canonical x 1 2 3 parts(1) by simp
  moreover have "projection_source v (fst (run_state (projection_alias v) [])) (fst (run_state (change_alias v) [])) (Some c) = Some s"
    using s(1) p x 1 2 3 4(1) parts(1) by simp
  ultimately show thesis using that parts(5) 4(2) s(2) agreed keys by blast
qed

subsection \<open>Acceptance\<close>

definition admission_value :: "change \<Rightarrow> projection_result \<Rightarrow> jsval \<Rightarrow> jsval \<Rightarrow> jsval" where
  "admission_value c r contract body =
     JObj [(js ''change'', change_value c), (js ''projection'', projection_result_value r),
           (js ''pullRequest'', JObj [(js ''contract'', contract), (js ''body'', body)])]"

lemma admission_value_aliases:
  "run_state (admission_alias (admission_value c r contract body) [''issuance'', ''issuancePlan''] p) ds = (None, ds)"
  "run_state (change_alias (admission_value c r contract body)) ds = (Some (change_value c), ds)"
  "run_state (projection_alias (admission_value c r contract body)) ds = (Some (projection_result_value r), ds)"
  "run_state (read_issuer (admission_value c r contract body)) ds = (None, ds)"
  by (simp_all add: admission_alias_def change_alias_def projection_alias_def read_issuer_def admission_value_def report_if_def
      Let_def run_state_bind)

lemma admission_value_pull:
  "clean_run (read_pull_artifact (admission_value c r contract body))
     (Some \<lparr>ae_contract = Some contract, ae_body = Some body\<rparr>)"
proof -
  let ?e = "JObj [(js ''contract'', contract), (js ''body'', body)]"
  have "clean_run (admission_alias (admission_value c r contract body) [''pullRequest'', ''governedPullRequest''] ''$.pullRequest'')
      (Some ?e)"
    by (simp add: admission_alias_def admission_value_def clean_run_bind checked Let_def)
  moreover have "clean_run (parse_admission_pull_request ?e) (Some \<lparr>ae_contract = Some contract, ae_body = Some body\<rparr>)"
    by (simp add: parse_admission_pull_request_def artifact_checks_def artifact_keys_def own_value_def clean_run_bind checked)
  ultimately show ?thesis by (simp add: read_pull_artifact_def clean_run_def)
qed

lemma admission_value_not_raw: "\<not> is_raw_projection (projection_result_value r)"
  by (auto simp: is_raw_projection_def projection_result_value_def opt_prop_def split: option.splits)

lemma agreement_clean:
  assumes "agreed_merge lc aa c r issuance contract body branch n x" and "pr_status r = Healthy" and "pr_valid r"
  shows "clean_run (admission_agreement lc aa (Some c) (Some r) issuance
    (Some \<lparr>ae_contract = Some contract, ae_body = Some body\<rparr>) None) ()"
proof -
  from assms(1) obtain p where p: "pr_change r = Some p" "ch_identity p = ch_identity c" "change_issuer p = Some inari_issuer_principal"
    by (auto simp: agreed_merge_def agreed_projection_def)
  have x: "cand_class x = Canonical"
  proof -
    have "x \<in> set (canonical_of (pr_pull_requests r))" using assms(1) by (simp add: agreed_merge_def)
    then show ?thesis by (simp add: canonical_of_def)
  qed
  have c: "projected_branch c = Some branch" "projected_pull_request c = Some n" using assms(1) by (simp_all add: agreed_merge_def)
  have "clean_run (canonical_change_checks c r (Some inari_issuer_principal)) ()"
    using assms(1) p by (simp add: clean_canonical_change agreed_merge_def)
  moreover have "clean_run (healthy_projection_checks c r) ()"
    using assms(1) by (simp add: clean_healthy_projection [OF assms(2,3) c p(1,3,2)] agreed_merge_def)
  moreover have "clean_run (physical_checks c r (Some inari_issuer_principal)) ()"
    using assms(1) x by (simp add: clean_physical [OF c] agreed_merge_def)
  moreover have "clean_run (case issuance of None \<Rightarrow> State_Monad.return ()
      | Some p \<Rightarrow> issuance_checks p c (pr_canonical_base r) (Some inari_issuer_principal)) ()"
    using assms(1) by (cases issuance) (simp_all add: clean_issuance_checks [OF c] agreed_merge_def)
  ultimately show ?thesis
    using assms(1) unfolding admission_agreement_def agreed_merge_def
    by (cases issuance) (auto simp: clean_run_bind checked clean_input_issuer artifact_parts_def)
qed

lemma no_planned_issuance:
  "planned_issuance_of lc pa aa (Some (projection_result_value r)) None = None"
  by (simp add: planned_issuance_of_def admission_value_not_raw)

lemma admission_value_run:
  assumes "wf_change c" and "wf_projection r" and "pr_diagnostics r = []"
  shows "validate_merge_admission lc pa aa (admission_value c r contract body) =
    Some (admission_result (Some c) (Some r) (Some \<lparr>ae_contract = Some contract, ae_body = Some body\<rparr>)
      (snd (run_state (admission_agreement lc aa (Some c) (Some r) None
        (Some \<lparr>ae_contract = Some contract, ae_body = Some body\<rparr>) None) [])))"
proof -
  let ?v = "admission_value c r contract body"
  have keys: "snd (run_checks (add_unknown_properties ?v admission_keys change_root)) = []"
    by (simp add: run_checks_clean admission_value_def admission_keys_def)
  have issuance: "read_issuance lc pa ?v [] = Some (None, [])"
    by (simp add: read_issuance_def admission_value_aliases)
  have canonical: "read_canonical lc (Some (change_value c)) None [] = Some (Some c, [])"
    using wf_change_validates [OF assms(1), of lc] by (simp add: read_canonical_def)
  have projection: "read_projection lc (pa_branch pa) (Some (projection_result_value r)) [] = Some (Some r, [])"
    using assms(3) by (simp add: read_projection_def admission_value_not_raw projection_round_trip [OF assms(2)])
  have pull: "run_state (read_pull_artifact ?v) [] = (Some \<lparr>ae_contract = Some contract, ae_body = Some body\<rparr>, [])"
    using admission_value_pull by (simp add: clean_run_def)
  have source: "projection_source ?v (Some (projection_result_value r)) x c' = Some (projection_result_value r)" for x c'
    by (simp add: projection_source_def)
  have "is_record ?v" by (simp add: admission_value_def)
  then show ?thesis
    by (simp add: validate_merge_admission_def keys issuance admission_value_aliases canonical projection pull source
        no_planned_issuance Let_def split: prod.split)
qed

lemma agreed_projects:
  assumes "wf_change c" and "wf_projection r" and "pr_status r = Healthy" and "pr_diagnostics r = []"
    and "agreed_merge lc aa c r None contract body branch n x"
  shows "\<exists>m. validate_merge_admission lc pa aa (admission_value c r contract body) = Some m \<and> ma_valid m"
proof -
  have "pr_valid r" using assms(2,3) by (simp add: wf_projection_def)
  with agreement_clean [OF assms(5,3)] assms(3) show ?thesis
    by (simp add: admission_value_run [OF assms(1,2,4)] admission_result_def artifact_parts_def clean_run_def)
qed

text \<open>
  C31.  Merge admission of a transported projection accepts exactly the agreement of the parts: for a
  well-formed Change and a well-formed healthy projection without diagnostics, the admission of their plain
  objects with a governed pull-request artifact is valid if and only if some branch, pull-request number and
  candidate satisfy the agreement predicate (and it never throws).
\<close>

theorem transported_admission:
  assumes "wf_change c" and "wf_projection r" and "pr_status r = Healthy" and "pr_diagnostics r = []"
  shows "\<exists>m. validate_merge_admission lc pa aa (admission_value c r contract body) = Some m \<and>
    (ma_valid m \<longleftrightarrow> (\<exists>branch n x. agreed_merge lc aa c r None contract body branch n x))"
proof -
  let ?e = "\<lparr>ae_contract = Some contract, ae_body = Some body\<rparr>"
  let ?m = "admission_agreement lc aa (Some c) (Some r) None (Some ?e) None"
  have valid: "pr_valid r" using assms(2,3) by (simp add: wf_projection_def)
  have "ma_valid (admission_result (Some c) (Some r) (Some ?e) (snd (run_state ?m []))) \<longleftrightarrow> clean_run ?m ()"
    using valid assms(3) by (simp add: admission_result_def artifact_parts_def clean_run_def prod_eq_iff Let_def)
  moreover have "clean_run ?m () \<longleftrightarrow> (\<exists>branch n x. agreed_merge lc aa c r None contract body branch n x)"
  proof
    assume "clean_run ?m ()"
    then show "\<exists>branch n x. agreed_merge lc aa c r None contract body branch n x"
      by (rule clean_admission_agreement) (auto simp: artifact_parts_def assms(3) valid)
  qed (use agreement_clean assms(3) valid in blast)
  ultimately show ?thesis by (simp add: admission_value_run [OF assms(1,2,4)])
qed


subsection \<open>A sample merge\<close>

definition merge_provenance_sample :: change_provenance where
  "merge_provenance_sample = no_provenance\<lparr>issuer := Some inari_issuer_principal\<rparr>"

definition merge_change :: "change_state \<Rightarrow> change" where
  "merge_change s = projected_change sample_identity merge_provenance_sample s (Some (js ''feat/7-x'')) (Some 8)"

definition merge_branch :: "branch_evidence candidate" where
  "merge_branch = \<lparr>cand_value = \<lparr>be_name = js ''feat/7-x'', be_sha = None, be_root_issue = Some 7\<rparr>, cand_class = Canonical,
     cand_reason = js ''Branch matches.''\<rparr>"

definition merge_pull :: "pull_request_evidence candidate" where
  "merge_pull = \<lparr>cand_value = \<lparr>pe_number = 8, pe_head = js ''feat/7-x'', pe_head_sha = None, pe_base = js ''main'',
       pe_state = Open_State, pe_draft = False, pe_merged = Some False, pe_accepted = None, pe_root_issue = Some 7,
       pe_provenance = Some merge_provenance_sample\<rparr>,
     cand_class = Canonical, cand_reason = js ''Pull request matches.''\<rparr>"

definition merge_projection :: "change_state \<Rightarrow> projection_result" where
  "merge_projection s =
     \<lparr>pr_valid = True, pr_status = Healthy, pr_canonical_branch = Some (js ''feat/7-x''), pr_canonical_base = Some (js ''main''),
      pr_branches = [merge_branch], pr_pull_requests = [merge_pull], pr_change = Some (merge_change s), pr_diagnostics = []\<rparr>"

definition merge_contract :: jsval where
  "merge_contract = JObj [(js ''artifactKind'', JStr (js ''pull_request'')),
     (js ''provenance'', JObj [(js ''ref'', JStr (js ''main'')),
        (js ''repository'', JObj [(js ''host'', JStr (js ''github.com'')), (js ''repositoryId'', JStr (js ''42''))])])]"

definition merge_artifacts :: artifact_authority where
  "merge_artifacts = \<lparr>aa_contract = (\<lambda>c. []), aa_existing_issue = (\<lambda>c b i. Some (Artifact_Valid JNull JNull)),
     aa_existing_pull = (\<lambda>c b. if b = Some (js ''body'') then Some (Artifact_Valid JNull JNull) else None),
     aa_render_issue = (\<lambda>c v d. None)\<rparr>"

lemma merge_principal: "wf_principal (Some inari_issuer_principal)"
  by (simp add: wf_principal_def inari_issuer_principal_def js_eval max_change_principal_length_def control_unit_def
      is_white_space_def)

lemma merge_change_sel [simp]:
  "ch_identity (merge_change s) = sample_identity" "ch_state (merge_change s) = s"
  "change_issuer (merge_change s) = Some inari_issuer_principal" "projected_branch (merge_change s) = Some (js ''feat/7-x'')"
  "projected_pull_request (merge_change s) = Some 8"
  by (simp_all add: merge_change_def projected_change_def change_issuer_def merge_provenance_sample_def no_provenance_def
      projected_branch_def projected_pull_request_def)

lemma merge_reasons:
  "bounded_text max_diagnostic_message_length (JStr (js ''Branch matches.'')) = Some (js ''Branch matches.'')"
  "bounded_text max_diagnostic_message_length (JStr (js ''Pull request matches.'')) = Some (js ''Pull request matches.'')"
  by (simp_all add: max_diagnostic_message_length_def js_eval control_unit_def is_white_space_def)

lemma wf_merge_change: "wf_change (merge_change s)"
  using wf_sample_identity merge_principal
  by (simp add: wf_change_def merge_change_def projected_change_def merge_provenance_sample_def no_provenance_def
      wf_principal_def js_eval max_change_branch_length_def control_unit_def max_safe_integer_def)

lemma wf_merge_projection: "wf_projection (merge_projection s)"
  using wf_merge_change [of s] merge_principal merge_reasons
  by (simp del: bounded_text.simps add: wf_projection_def merge_projection_def merge_branch_def merge_pull_def branch_text_def
      max_projection_candidates_def wf_candidate_def wf_branch_evidence_def wf_pull_evidence_def canonical_commit_def
      issue_number_def max_safe_integer_def wf_provenance_def merge_provenance_sample_def no_provenance_def wf_principal_def
      wf_diagnostics_def)

lemma merge_projection_sel:
  "pr_status (merge_projection s) = Healthy" "pr_diagnostics (merge_projection s) = []"
  by (simp_all add: merge_projection_def)

lemma merge_agreed:
  assumes "issuance_healthy_state s"
  shows "agreed_merge (\<lambda>s. s) merge_artifacts (merge_change s) (merge_projection s) None merge_contract (JStr (js ''body''))
    (js ''feat/7-x'') 8 merge_pull"
proof -
  have "agreed_projection (merge_change s) (merge_projection s) (js ''feat/7-x'') 8"
    by (simp add: agreed_projection_def merge_projection_def merge_branch_def merge_pull_def has_conflict_def canonical_of_def
)
  moreover have "agreed_pull (merge_change s) (merge_projection s) (js ''feat/7-x'') (cand_value merge_pull)"
    by (simp add: agreed_pull_def merge_pull_def merge_projection_def same_defined_value_def
        sample_identity_def merge_provenance_sample_def)
  moreover have "governed_pull_request (\<lambda>s. s) merge_artifacts (Some (ch_identity (merge_change s)))
      (optional_text (pr_canonical_base (merge_projection s))) merge_contract (JStr (js ''body''))"
    by (simp add: governed_pull_request_def merge_artifacts_def artifact_kind_is_def merge_contract_def contract_for_def
        satisfied_body_def repository_of_def sample_identity_def merge_projection_def
        plan_at_def plan_text_def js_eval max_artifact_body_length_def optional_text_def to_lower_def
        ascii_lower_def is_upper_def)
  ultimately show ?thesis
    using assms
    by (simp add: agreed_merge_def canonical_of_def physical_candidates_def merge_projection_def merge_pull_def)
qed

theorem transported_admission_witness:
  "\<exists>m. validate_merge_admission (\<lambda>s. s) sample_plans merge_artifacts
      (admission_value (merge_change REVIEW) (merge_projection REVIEW) merge_contract (JStr (js ''body''))) = Some m \<and> ma_valid m"
proof -
  have "issuance_healthy_state REVIEW" by (simp add: issuance_healthy_state_def)
  from merge_agreed [OF this]
    transported_admission [OF wf_merge_change wf_merge_projection merge_projection_sel, of "\<lambda>s. s" sample_plans merge_artifacts REVIEW REVIEW
      merge_contract "JStr (js ''body'')"]
  show ?thesis by blast
qed

lemma merge_admitted:
  assumes "issuance_healthy_state s"
  shows "\<exists>m. validate_merge_admission (\<lambda>s. s) pa merge_artifacts
      (admission_value (merge_change s) (merge_projection s) merge_contract (JStr (js ''body''))) = Some m \<and> ma_valid m"
  by (rule agreed_projects [OF wf_merge_change wf_merge_projection merge_projection_sel merge_agreed [OF assms]])


end
