(* ===== verification/PR_Mutation_Plan.thy ===== *)
theory PR_Mutation_Plan
  imports Change_Contract
begin

text \<open>
  The requests and plans of the Semantic Pull Request mutations,
  \<^verbatim>\<open>src/src/semantic-pr-mutation.ts\<close>: conversation comments, reviews and
  merges.  A request is materialized from an untrusted value, a plan is made from a request, and a
  transported plan is accepted only if it serializes like the plan of its own request.
\<close>

subsection \<open>Requests\<close>

datatype review_intent = Approve | Request_Changes | Comment_Only
datatype retry_mode = Reject_Duplicate | Allow_Duplicate
datatype merge_strategy = Merge_Commit | Squash | Rebase
datatype mutation_operation = Comment_Op | Review_Op | Merge_Op

record pr_repository =
  rp_hostname :: jstr
  rp_name :: jstr
  rp_id :: "jstr option"

record comment_request =
  cq_repository :: pr_repository
  cq_pull_request :: int
  cq_body :: jstr
  cq_head :: "jstr option"

record review_request =
  vq_repository :: pr_repository
  vq_pull_request :: int
  vq_head :: jstr
  vq_intent :: review_intent
  vq_body :: jstr
  vq_retry :: retry_mode

record merge_request =
  gq_repository :: pr_repository
  gq_pull_request :: int
  gq_head :: jstr
  gq_base :: jstr
  gq_strategy :: merge_strategy

datatype pr_request =
    Comment_Request comment_request
  | Review_Request review_request
  | Merge_Request merge_request

fun request_operation :: "pr_request \<Rightarrow> mutation_operation" where
  "request_operation (Comment_Request q) = Comment_Op"
| "request_operation (Review_Request q) = Review_Op"
| "request_operation (Merge_Request q) = Merge_Op"

fun request_repository :: "pr_request \<Rightarrow> pr_repository" where
  "request_repository (Comment_Request q) = cq_repository q"
| "request_repository (Review_Request q) = vq_repository q"
| "request_repository (Merge_Request q) = gq_repository q"

fun request_pull_request :: "pr_request \<Rightarrow> int" where
  "request_pull_request (Comment_Request q) = cq_pull_request q"
| "request_pull_request (Review_Request q) = vq_pull_request q"
| "request_pull_request (Merge_Request q) = gq_pull_request q"

fun operation_name :: "mutation_operation \<Rightarrow> jstr" where
  "operation_name Comment_Op = js ''comment''"
| "operation_name Review_Op = js ''review''"
| "operation_name Merge_Op = js ''merge''"

fun intent_name :: "review_intent \<Rightarrow> jstr" where
  "intent_name Approve = js ''approve''"
| "intent_name Request_Changes = js ''request-changes''"
| "intent_name Comment_Only = js ''comment-only''"

fun retry_name :: "retry_mode \<Rightarrow> jstr" where
  "retry_name Reject_Duplicate = js ''reject-duplicate''"
| "retry_name Allow_Duplicate = js ''allow-duplicate''"

fun strategy_name :: "merge_strategy \<Rightarrow> jstr" where
  "strategy_name Merge_Commit = js ''merge''"
| "strategy_name Squash = js ''squash''"
| "strategy_name Rebase = js ''rebase''"

definition operation_value :: "jsval \<Rightarrow> mutation_operation option" where
  "operation_value v = find (\<lambda>x. v = JStr (operation_name x)) [Comment_Op, Review_Op, Merge_Op]"

definition intent_value :: "jsval \<Rightarrow> review_intent option" where
  "intent_value v = find (\<lambda>x. v = JStr (intent_name x)) [Approve, Request_Changes, Comment_Only]"

definition retry_value :: "jsval \<Rightarrow> retry_mode option" where
  "retry_value v = (if v = JUndef then Some Reject_Duplicate else find (\<lambda>x. v = JStr (retry_name x)) [Reject_Duplicate, Allow_Duplicate])"

definition strategy_value :: "jsval \<Rightarrow> merge_strategy option" where
  "strategy_value v = find (\<lambda>x. v = JStr (strategy_name x)) [Merge_Commit, Squash, Rebase]"

subsection \<open>Violations\<close>

record mutation_violation =
  mv_code :: jstr
  mv_path :: jstr
  mv_message :: jstr

type_synonym 'a mutation_checked = "(mutation_violation list, 'a) state"

definition max_mutation_body :: nat where "max_mutation_body = 65536"
definition max_expected_head :: nat where "max_expected_head = 128"
definition max_expected_base :: nat where "max_expected_base = 512"
definition max_mutation_diagnostics :: nat where "max_mutation_diagnostics = 32"
definition max_mutation_message :: nat where "max_mutation_message = 500"

definition violation_of :: "string \<Rightarrow> jstr \<Rightarrow> jstr \<Rightarrow> mutation_violation" where
  "violation_of code path message = \<lparr>mv_code = js code, mv_path = path, mv_message = message\<rparr>"

definition violate :: "string \<Rightarrow> jstr \<Rightarrow> jstr \<Rightarrow> unit mutation_checked" where
  "violate code path message = State (\<lambda>vs. ((), vs @ [violation_of code path message]))"

definition violate_if :: "bool \<Rightarrow> string \<Rightarrow> jstr \<Rightarrow> string \<Rightarrow> unit mutation_checked" where
  "violate_if b code path message = (if b then violate code path (js message) else State_Monad.return ())"

fun unknown_mutation_keys :: "jstr list \<Rightarrow> jstr list \<Rightarrow> jstr \<Rightarrow> unit mutation_checked" where
  "unknown_mutation_keys [] allowed path = State_Monad.return ()"
| "unknown_mutation_keys (k # ks) allowed path = do {
     (if k \<in> set allowed then State_Monad.return ()
      else violate ''PR_MUTATION_REQUEST_UNKNOWN_PROPERTY'' (sub_path path k)
             (js ''Property \"'' @ k @ js ''\" is not supported.''));
     unknown_mutation_keys ks allowed path
   }"

definition unknown_mutation_properties :: "jsval \<Rightarrow> jstr list \<Rightarrow> jstr \<Rightarrow> unit mutation_checked" where
  "unknown_mutation_properties v allowed path = unknown_mutation_keys (sort_strings (object_keys v)) allowed path"

subsection \<open>Materialization\<close>

text \<open>\<^verbatim>\<open>boundedString\<close>: bounded in code units and in bytes of UTF-8.\<close>

definition mutation_text_ok :: "jstr \<Rightarrow> nat \<Rightarrow> bool \<Rightarrow> bool \<Rightarrow> bool" where
  "mutation_text_ok s limit allow_empty reject_controls \<longleftrightarrow>
     (allow_empty \<or> s \<noteq> []) \<and> length s \<le> limit \<and> 0 \<notin> set s \<and> (reject_controls \<longrightarrow> \<not> list_ex control_unit s) \<and>
     utf8_length s \<le> limit"

definition mutation_text :: "jsval \<Rightarrow> jstr \<Rightarrow> nat \<Rightarrow> bool \<Rightarrow> bool \<Rightarrow> jstr option mutation_checked" where
  "mutation_text v path limit allow_empty reject_controls =
     (case v of
        JStr s \<Rightarrow>
          if mutation_text_ok s limit allow_empty reject_controls then State_Monad.return (Some s)
          else do {
            violate ''PR_MUTATION_REQUEST_VALUE_INVALID'' path (js ''Value is not within the bounded string contract.'');
            State_Monad.return None
          }
      | _ \<Rightarrow> do {
          violate ''PR_MUTATION_REQUEST_VALUE_INVALID'' path (js ''Value is not within the bounded string contract.'');
          State_Monad.return None
        })"

definition mutation_number :: "jsval \<Rightarrow> jstr \<Rightarrow> int option mutation_checked" where
  "mutation_number v path = do {
     violate_if (positive_integer v = None) ''PR_MUTATION_REQUEST_VALUE_INVALID'' path
       ''Pull request number must be a positive integer.'';
     State_Monad.return (positive_integer v)
   }"

definition repository_word :: "jstr \<Rightarrow> bool" where
  "repository_word s \<longleftrightarrow> s \<noteq> [] \<and> list_all (\<lambda>c. \<not> is_white_space c \<and> c \<noteq> 47) s"

fun repository_words :: "jstr list \<Rightarrow> bool" where
  "repository_words [a, b] = (repository_word a \<and> repository_word b)"
| "repository_words _ = False"

definition pr_repository_keys :: "jstr list" where
  "pr_repository_keys = [js ''hostname'', js ''nameWithOwner'', js ''repositoryId'']"

fun bad_repository_id :: "jstr option \<Rightarrow> bool" where
  "bad_repository_id None = False"
| "bad_repository_id (Some s) = (repository_id_value (JStr s) = None)"

definition located_repository ::
  "(jstr \<Rightarrow> jstr) \<Rightarrow> jstr \<Rightarrow> jstr option \<Rightarrow> jstr option \<Rightarrow> jstr option \<Rightarrow> pr_repository option mutation_checked" where
  "located_repository lc path host name rid =
     (case host of
        None \<Rightarrow> State_Monad.return None
      | Some h \<Rightarrow>
          (case name of
             None \<Rightarrow> State_Monad.return None
           | Some n \<Rightarrow>
               if repository_word h \<and> repository_words (split_on 47 n)
               then State_Monad.return (Some \<lparr>rp_hostname = to_lower lc h, rp_name = n, rp_id = rid\<rparr>)
               else do {
                 violate ''PR_MUTATION_REQUEST_VALUE_INVALID'' path (js ''Repository identity has an invalid host or owner/name.'');
                 State_Monad.return None
               }))"

definition mutation_repository :: "(jstr \<Rightarrow> jstr) \<Rightarrow> jsval \<Rightarrow> jstr \<Rightarrow> pr_repository option mutation_checked" where
  "mutation_repository lc v path =
     (if \<not> is_record v then do {
        violate ''PR_MUTATION_REQUEST_INVALID'' path (js ''Repository identity is required.'');
        State_Monad.return None
      }
      else do {
        unknown_mutation_properties v pr_repository_keys path;
        host \<leftarrow> mutation_text (get_prop v (js ''hostname'')) (path @ js ''.hostname'') 255 False False;
        name \<leftarrow> mutation_text (get_prop v (js ''nameWithOwner'')) (path @ js ''.nameWithOwner'') 512 False False;
        rid \<leftarrow> (if get_prop v (js ''repositoryId'') = JUndef then State_Monad.return None
               else mutation_text (get_prop v (js ''repositoryId'')) (path @ js ''.repositoryId'') 32 False False);
        violate_if (bad_repository_id rid)
          ''PR_MUTATION_REQUEST_VALUE_INVALID'' (path @ js ''.repositoryId'') ''Repository database identity is invalid.'';
        located_repository lc path host name rid
      })"

fun request_keys_of :: "mutation_operation \<Rightarrow> jstr list" where
  "request_keys_of Comment_Op =
     [js ''version'', js ''operation'', js ''repository'', js ''pullRequest'', js ''body'', js ''expectedHead'']"
| "request_keys_of Review_Op =
     [js ''version'', js ''operation'', js ''repository'', js ''pullRequest'', js ''expectedHead'', js ''intent'', js ''body'',
      js ''retry'']"
| "request_keys_of Merge_Op =
     [js ''version'', js ''operation'', js ''repository'', js ''pullRequest'', js ''expectedHead'', js ''expectedBase'',
      js ''strategy'']"

definition head_text :: "jsval \<Rightarrow> jstr option mutation_checked" where
  "head_text v = mutation_text (get_prop v (js ''expectedHead'')) (js ''$.expectedHead'') max_expected_head False True"

definition comment_request_checks ::
  "jsval \<Rightarrow> pr_repository option \<Rightarrow> int option \<Rightarrow> pr_request option mutation_checked" where
  "comment_request_checks v repository number = do {
     body \<leftarrow> mutation_text (get_prop v (js ''body'')) (js ''$.body'') max_mutation_body False False;
     head \<leftarrow> (if get_prop v (js ''expectedHead'') = JUndef then State_Monad.return None else head_text v);
     State_Monad.return
       (case (repository, number, body) of
          (Some r, Some n, Some b) \<Rightarrow>
            Some (Comment_Request \<lparr>cq_repository = r, cq_pull_request = n, cq_body = b, cq_head = head\<rparr>)
        | _ \<Rightarrow> None)
   }"

definition review_request_checks ::
  "jsval \<Rightarrow> pr_repository option \<Rightarrow> int option \<Rightarrow> pr_request option mutation_checked" where
  "review_request_checks v repository number = do {
     head \<leftarrow> head_text v;
     let intent = intent_value (get_prop v (js ''intent''));
     violate_if (intent = None) ''PR_MUTATION_REQUEST_VALUE_INVALID'' (js ''$.intent'') ''Review intent is invalid.'';
     body \<leftarrow> mutation_text (if get_prop v (js ''body'') = JUndef then JStr [] else get_prop v (js ''body'')) (js ''$.body'')
              max_mutation_body True False;
     let retry = retry_value (get_prop v (js ''retry''));
     violate_if (retry = None) ''PR_MUTATION_REQUEST_VALUE_INVALID'' (js ''$.retry'') ''Retry mode is invalid.'';
     State_Monad.return
       (case (repository, number, head, intent, body, retry) of
          (Some r, Some n, Some h, Some i, Some b, Some m) \<Rightarrow>
            Some (Review_Request \<lparr>vq_repository = r, vq_pull_request = n, vq_head = h, vq_intent = i, vq_body = b, vq_retry = m\<rparr>)
        | _ \<Rightarrow> None)
   }"

definition merge_request_checks ::
  "jsval \<Rightarrow> pr_repository option \<Rightarrow> int option \<Rightarrow> pr_request option mutation_checked" where
  "merge_request_checks v repository number = do {
     head \<leftarrow> head_text v;
     base \<leftarrow> mutation_text (get_prop v (js ''expectedBase'')) (js ''$.expectedBase'') max_expected_base False True;
     let strategy = strategy_value (get_prop v (js ''strategy''));
     violate_if (strategy = None) ''PR_MUTATION_REQUEST_VALUE_INVALID'' (js ''$.strategy'') ''Merge strategy is invalid.'';
     State_Monad.return
       (case (repository, number, head, base, strategy) of
          (Some r, Some n, Some h, Some b, Some s) \<Rightarrow>
            Some (Merge_Request \<lparr>gq_repository = r, gq_pull_request = n, gq_head = h, gq_base = b, gq_strategy = s\<rparr>)
        | _ \<Rightarrow> None)
   }"

definition mutation_request_checks :: "(jstr \<Rightarrow> jstr) \<Rightarrow> jsval \<Rightarrow> pr_request option mutation_checked" where
  "mutation_request_checks lc v = do {
     violate_if (get_prop v (js ''version'') \<noteq> JStr (js ''1'')) ''PR_MUTATION_REQUEST_INVALID'' (js ''$.version'')
       ''Mutation request version is unsupported.'';
     (case operation_value (get_prop v (js ''operation'')) of
        None \<Rightarrow> do {
          violate ''PR_MUTATION_REQUEST_INVALID'' (js ''$.operation'') (js ''Mutation operation must be comment, review, or merge.'');
          State_Monad.return None
        }
      | Some op \<Rightarrow> do {
          unknown_mutation_properties v (request_keys_of op) (js ''$'');
          repository \<leftarrow> mutation_repository lc (get_prop v (js ''repository'')) (js ''$.repository'');
          number \<leftarrow> mutation_number (get_prop v (js ''pullRequest'')) (js ''$.pullRequest'');
          (case op of
             Comment_Op \<Rightarrow> comment_request_checks v repository number
           | Review_Op \<Rightarrow> review_request_checks v repository number
           | Merge_Op \<Rightarrow> merge_request_checks v repository number)
        })
   }"

text \<open>The request, or the violations, of which the first 32 are kept.\<close>

definition materialize_request :: "(jstr \<Rightarrow> jstr) \<Rightarrow> jsval \<Rightarrow> mutation_violation list + pr_request" where
  "materialize_request lc v =
     (if \<not> is_record v
      then Inl [violation_of ''PR_MUTATION_REQUEST_INVALID'' (js ''$'') (js ''Mutation request must be an object.'')]
      else case run_state (mutation_request_checks lc v) [] of
             (Some q, []) \<Rightarrow> Inr q
           | (_, vs) \<Rightarrow> Inl (take max_mutation_diagnostics vs))"

subsection \<open>Plans\<close>

datatype mutation_precondition =
    Identity_Match pr_repository int
  | Head_Match jstr
  | Base_Match jstr
  | Not_Draft
  | Mergeable

datatype mutation_effect =
    Create_Comment jstr
  | Submit_Review review_intent jstr
  | Merge_Effect merge_strategy

record mutation_plan =
  pp_request :: pr_request
  pp_preconditions :: "mutation_precondition list"
  pp_effect :: mutation_effect

fun plan_preconditions :: "pr_request \<Rightarrow> mutation_precondition list" where
  "plan_preconditions (Comment_Request q) = (case cq_head q of None \<Rightarrow> [] | Some h \<Rightarrow> [Head_Match h])"
| "plan_preconditions (Review_Request q) = [Head_Match (vq_head q)]"
| "plan_preconditions (Merge_Request q) = [Head_Match (gq_head q), Base_Match (gq_base q), Not_Draft, Mergeable]"

fun plan_effect :: "pr_request \<Rightarrow> mutation_effect" where
  "plan_effect (Comment_Request q) = Create_Comment (cq_body q)"
| "plan_effect (Review_Request q) = Submit_Review (vq_intent q) (vq_body q)"
| "plan_effect (Merge_Request q) = Merge_Effect (gq_strategy q)"

definition plan_of_request :: "pr_request \<Rightarrow> mutation_plan" where
  "plan_of_request q =
     \<lparr>pp_request = q,
      pp_preconditions = Identity_Match (request_repository q) (request_pull_request q) # plan_preconditions q,
      pp_effect = plan_effect q\<rparr>"

definition plan_pull_request_mutation :: "(jstr \<Rightarrow> jstr) \<Rightarrow> jsval \<Rightarrow> mutation_violation list + mutation_plan" where
  "plan_pull_request_mutation lc v = map_sum (\<lambda>vs. vs) plan_of_request (materialize_request lc v)"

subsection \<open>Plans as values\<close>

text \<open>The plain object of a plan, as \<^verbatim>\<open>cloneImmutable\<close> leaves it: with sorted keys.\<close>

definition repository_json :: "pr_repository \<Rightarrow> jsval" where
  "repository_json r = JObj ([(js ''hostname'', JStr (rp_hostname r)), (js ''nameWithOwner'', JStr (rp_name r))]
     @ opt_prop ''repositoryId'' JStr (rp_id r))"

fun request_json :: "pr_request \<Rightarrow> jsval" where
  "request_json (Comment_Request q) =
     JObj ((js ''body'', JStr (cq_body q)) # opt_prop ''expectedHead'' JStr (cq_head q)
       @ [(js ''operation'', JStr (js ''comment'')), (js ''pullRequest'', JNum (Integral (cq_pull_request q))),
          (js ''repository'', repository_json (cq_repository q)), (js ''version'', JStr (js ''1''))])"
| "request_json (Review_Request q) =
     JObj [(js ''body'', JStr (vq_body q)), (js ''expectedHead'', JStr (vq_head q)), (js ''intent'', JStr (intent_name (vq_intent q))),
       (js ''operation'', JStr (js ''review'')), (js ''pullRequest'', JNum (Integral (vq_pull_request q))),
       (js ''repository'', repository_json (vq_repository q)), (js ''retry'', JStr (retry_name (vq_retry q))),
       (js ''version'', JStr (js ''1''))]"
| "request_json (Merge_Request q) =
     JObj [(js ''expectedBase'', JStr (gq_base q)), (js ''expectedHead'', JStr (gq_head q)), (js ''operation'', JStr (js ''merge'')),
       (js ''pullRequest'', JNum (Integral (gq_pull_request q))), (js ''repository'', repository_json (gq_repository q)),
       (js ''strategy'', JStr (strategy_name (gq_strategy q))), (js ''version'', JStr (js ''1''))]"

fun precondition_json :: "mutation_precondition \<Rightarrow> jsval" where
  "precondition_json (Identity_Match r n) =
     JObj [(js ''kind'', JStr (js ''PULL_REQUEST_IDENTITY_MATCH'')), (js ''pullRequest'', JNum (Integral n)),
       (js ''repository'', repository_json r)]"
| "precondition_json (Head_Match h) = JObj [(js ''expectedHead'', JStr h), (js ''kind'', JStr (js ''PULL_REQUEST_HEAD_MATCH''))]"
| "precondition_json (Base_Match b) = JObj [(js ''expectedBase'', JStr b), (js ''kind'', JStr (js ''PULL_REQUEST_BASE_MATCH''))]"
| "precondition_json Not_Draft = JObj [(js ''kind'', JStr (js ''PULL_REQUEST_NOT_DRAFT''))]"
| "precondition_json Mergeable = JObj [(js ''kind'', JStr (js ''PULL_REQUEST_MERGEABLE''))]"

fun effect_json :: "mutation_effect \<Rightarrow> jsval" where
  "effect_json (Create_Comment b) = JObj [(js ''body'', JStr b), (js ''kind'', JStr (js ''CREATE_CONVERSATION_COMMENT''))]"
| "effect_json (Submit_Review i b) =
     JObj [(js ''body'', JStr b), (js ''intent'', JStr (intent_name i)), (js ''kind'', JStr (js ''SUBMIT_REVIEW''))]"
| "effect_json (Merge_Effect s) = JObj [(js ''kind'', JStr (js ''MERGE_PULL_REQUEST'')), (js ''strategy'', JStr (strategy_name s))]"

definition plan_json :: "mutation_plan \<Rightarrow> jsval" where
  "plan_json p =
     JObj [(js ''effects'', JArr [effect_json (pp_effect p)]), (js ''kind'', JStr (js ''pull_request_mutation'')),
       (js ''operation'', JStr (operation_name (request_operation (pp_request p)))),
       (js ''preconditions'', JArr (map precondition_json (pp_preconditions p))), (js ''request'', request_json (pp_request p)),
       (js ''version'', JStr (js ''1''))]"

text \<open>
  \<^verbatim>\<open>stableSerialize\<close>: text with sorted keys.  The text of a string
  (\<^verbatim>\<open>JSON.stringify\<close>) and of a finite number (\<^verbatim>\<open>String\<close>) are
  parameters; a number that is not finite throws (\<^const>\<open>None\<close>).
\<close>

record json_text =
  jt_string :: "jstr \<Rightarrow> jstr"
  jt_number :: "js_number \<Rightarrow> jstr"

fun finite_number :: "js_number \<Rightarrow> bool" where
  "finite_number Infinite = False"
| "finite_number NegInfinite = False"
| "finite_number NaN = False"
| "finite_number _ = True"

fun comma_join :: "jstr list \<Rightarrow> jstr" where
  "comma_join [] = []"
| "comma_join [s] = s"
| "comma_join (s # t # ss) = s @ [44] @ comma_join (t # ss)"

definition serialize_array :: "jstr list \<Rightarrow> jstr" where
  "serialize_array ss = [91] @ comma_join ss @ [93]"

definition serialize_object :: "json_text \<Rightarrow> (jstr \<times> jstr) list \<Rightarrow> jstr" where
  "serialize_object t es = [123] @ comma_join (map (\<lambda>(k, s). jt_string t k @ [58] @ s) (sort_key fst es)) @ [125]"

fun stable_serialize :: "json_text \<Rightarrow> jsval \<Rightarrow> jstr option"
  and serialize_all :: "json_text \<Rightarrow> jsval list \<Rightarrow> jstr list option"
  and serialize_entries :: "json_text \<Rightarrow> (jstr \<times> jsval) list \<Rightarrow> (jstr \<times> jstr) list option" where
  "stable_serialize t JNull = Some (js ''null'')"
| "stable_serialize t (JStr s) = Some (jt_string t s)"
| "stable_serialize t (JBool b) = Some (if b then js ''true'' else js ''false'')"
| "stable_serialize t (JNum x) = (if finite_number x then Some (jt_number t x) else None)"
| "stable_serialize t JUndef = Some (js ''undefined'')"
| "stable_serialize t (JArr xs) = map_option serialize_array (serialize_all t xs)"
| "stable_serialize t (JObj kvs) = map_option (serialize_object t) (serialize_entries t kvs)"
| "serialize_all t [] = Some []"
| "serialize_all t (x # xs) = do { s \<leftarrow> stable_serialize t x; ss \<leftarrow> serialize_all t xs; Some (s # ss) }"
| "serialize_entries t [] = Some []"
| "serialize_entries t ((k, x) # kvs) = do { s \<leftarrow> stable_serialize t x; es \<leftarrow> serialize_entries t kvs; Some ((k, s) # es) }"

text \<open>
  \<^verbatim>\<open>validatePlan\<close>.  What it returns is a clone of the value with sorted keys, which
  serializes like the plan of its request: that plan here.
\<close>

definition plan_violations :: "json_text \<Rightarrow> jsval \<Rightarrow> mutation_violation list + mutation_plan \<Rightarrow> mutation_violation list" where
  "plan_violations t v planned =
     (case planned of Inl vs \<Rightarrow> vs | Inr p \<Rightarrow> [])
     @ (if get_prop v (js ''version'') \<noteq> JStr (js ''1'')
        then [violation_of ''PR_MUTATION_PLAN_INVALID'' (js ''$.version'') (js ''Mutation plan version is unsupported.'')] else [])
     @ (if get_prop v (js ''kind'') \<noteq> JStr (js ''pull_request_mutation'')
        then [violation_of ''PR_MUTATION_PLAN_INVALID'' (js ''$.kind'') (js ''Mutation plan kind is invalid.'')] else [])
     @ (if operation_value (get_prop v (js ''operation'')) = None
        then [violation_of ''PR_MUTATION_PLAN_INVALID'' (js ''$.operation'') (js ''Mutation plan operation is invalid.'')] else [])
     @ (case planned of
          Inl vs \<Rightarrow> []
        | Inr p \<Rightarrow>
            (let same = operation_value (get_prop v (js ''operation'')) = Some (request_operation (pp_request p));
                 throws = same \<and> (stable_serialize t (plan_json p) = None \<or> stable_serialize t v = None) in
             (if throws then [violation_of ''PR_MUTATION_PLAN_INVALID'' (js ''$'')
                                (js ''Mutation plan contains unsupported or cyclic data.'')] else [])
             @ (if throws \<or> \<not> same \<or> stable_serialize t (plan_json p) \<noteq> stable_serialize t v
                then [violation_of ''PR_MUTATION_PLAN_INVALID'' (js ''$'')
                        (js ''Mutation plan is not the canonical plan for its request.'')] else [])))"

definition validate_mutation_plan ::
  "(jstr \<Rightarrow> jstr) \<Rightarrow> json_text \<Rightarrow> jsval \<Rightarrow> mutation_violation list + mutation_plan" where
  "validate_mutation_plan lc t v =
     (if \<not> is_record v
      then Inl [violation_of ''PR_MUTATION_PLAN_INVALID'' (js ''$'') (js ''Mutation plan must be an object.'')]
      else
        (let planned = plan_pull_request_mutation lc (get_prop v (js ''request''));
             vs = plan_violations t v planned in
         case planned of
           Inr p \<Rightarrow> if vs = [] then Inr p else Inl vs
         | Inl _ \<Rightarrow> Inl vs))"

subsection \<open>Accepted requests\<close>

lemma grows_violate [checked]: "grows (violate c p m)"
  by (auto simp: grows_def violate_def)

lemma clean_violate [simp]: "\<not> clean_run (violate c p m) y"
  by (simp add: clean_run_def violate_def)

lemma grows_violate_if [checked]: "grows (violate_if b c p m)"
  by (simp add: violate_if_def checked)

lemma clean_violate_if [simp]: "clean_run (violate_if b c p m) y \<longleftrightarrow> \<not> b"
  by (simp add: violate_if_def)

lemma grows_unknown_mutation_keys [checked]: "grows (unknown_mutation_keys ks allowed path)"
  by (induction ks) (auto intro!: checked)

lemma clean_unknown_mutation_keys [simp]:
  "clean_run (unknown_mutation_keys ks allowed path) y \<longleftrightarrow> set ks \<subseteq> set allowed"
  by (induction ks) (auto simp: clean_run_bind checked)

lemma grows_unknown_mutation_properties [checked]: "grows (unknown_mutation_properties v allowed path)"
  by (simp add: unknown_mutation_properties_def checked)

lemma clean_unknown_mutation_properties [simp]:
  "clean_run (unknown_mutation_properties v allowed path) y \<longleftrightarrow> set (object_keys v) \<subseteq> set allowed"
  by (simp add: unknown_mutation_properties_def)

lemma grows_mutation_text [checked]: "grows (mutation_text v path n e c)"
  by (auto simp: mutation_text_def intro!: checked split: jsval.split)

lemma clean_mutation_text [simp]:
  "clean_run (mutation_text v path n e c) y \<longleftrightarrow> (\<exists>s. v = JStr s \<and> mutation_text_ok s n e c \<and> y = Some s)"
  by (cases v) (auto simp: mutation_text_def clean_run_bind checked)

lemma grows_mutation_number [checked]: "grows (mutation_number v path)"
  by (simp add: mutation_number_def checked)

lemma clean_mutation_number [simp]:
  "clean_run (mutation_number v path) y \<longleftrightarrow> (\<exists>n. positive_integer v = Some n \<and> y = Some n)"
  by (auto simp: mutation_number_def clean_run_bind checked)

lemma grows_located_repository [checked]: "grows (located_repository lc path h n i)"
  by (auto simp: located_repository_def intro!: checked split: option.split)

lemma clean_located_repository [simp]:
  "clean_run (located_repository lc path (Some h) (Some n) i) y \<longleftrightarrow>
     repository_word h \<and> repository_words (split_on 47 n) \<and> y = Some \<lparr>rp_hostname = to_lower lc h, rp_name = n, rp_id = i\<rparr>"
  by (auto simp: located_repository_def clean_run_bind checked)

lemma grows_mutation_repository [checked]: "grows (mutation_repository lc v path)"
  by (auto simp: mutation_repository_def intro!: checked split: option.split)

text \<open>The identity of a repository as materialized, and requests as materialized.\<close>

definition wf_pr_repository :: "pr_repository \<Rightarrow> bool" where
  "wf_pr_repository r \<longleftrightarrow>
     mutation_text_ok (rp_name r) 512 False False \<and> repository_words (split_on 47 (rp_name r)) \<and>
     \<not> bad_repository_id (rp_id r)"

definition wf_head :: "jstr \<Rightarrow> bool" where
  "wf_head h \<longleftrightarrow> mutation_text_ok h max_expected_head False True"

fun wf_pr_request :: "pr_request \<Rightarrow> bool" where
  "wf_pr_request (Comment_Request q) \<longleftrightarrow>
     wf_pr_repository (cq_repository q) \<and> 1 \<le> cq_pull_request q \<and> cq_pull_request q \<le> max_safe_integer \<and>
     mutation_text_ok (cq_body q) max_mutation_body False False \<and> (case cq_head q of None \<Rightarrow> True | Some h \<Rightarrow> wf_head h)"
| "wf_pr_request (Review_Request q) \<longleftrightarrow>
     wf_pr_repository (vq_repository q) \<and> 1 \<le> vq_pull_request q \<and> vq_pull_request q \<le> max_safe_integer \<and>
     wf_head (vq_head q) \<and> mutation_text_ok (vq_body q) max_mutation_body True False"
| "wf_pr_request (Merge_Request q) \<longleftrightarrow>
     wf_pr_repository (gq_repository q) \<and> 1 \<le> gq_pull_request q \<and> gq_pull_request q \<le> max_safe_integer \<and>
     wf_head (gq_head q) \<and> mutation_text_ok (gq_base q) max_expected_base False True"

text \<open>The host as it is before it is lowered.\<close>

definition wf_host :: "jstr \<Rightarrow> bool" where
  "wf_host h \<longleftrightarrow> mutation_text_ok h 255 False False \<and> repository_word h"

lemma repository_id_short: "repository_id_value (JStr s) = Some r \<Longrightarrow> mutation_text_ok s 32 False False \<and> r = s"
proof -
  assume id: "repository_id_value (JStr s) = Some r"
  then obtain c w where s: "s = c # w" "is_digit c" "list_all is_digit w" "length w \<le> 19" "r = s"
    by (cases s) (auto split: if_splits)
  then have "\<forall>x \<in> set s. is_digit x" by (auto simp: list_all_iff)
  then have "is_ascii s" and "0 \<notin> set s" by (auto simp: is_ascii_def is_digit_def)
  with s show ?thesis by (simp add: mutation_text_ok_def utf8_length_ascii)
qed

lemma clean_mutation_repository:
  "clean_run (mutation_repository lc v path) y \<longleftrightarrow>
     is_record v \<and> set (object_keys v) \<subseteq> set pr_repository_keys \<and>
     (\<exists>h n i. get_prop v (js ''hostname'') = JStr h \<and> get_prop v (js ''nameWithOwner'') = JStr n \<and> wf_host h \<and>
        (if get_prop v (js ''repositoryId'') = JUndef then i = None
         else \<exists>s. get_prop v (js ''repositoryId'') = JStr s \<and> i = Some s) \<and>
        y = Some \<lparr>rp_hostname = to_lower lc h, rp_name = n, rp_id = i\<rparr> \<and>
        wf_pr_repository \<lparr>rp_hostname = to_lower lc h, rp_name = n, rp_id = i\<rparr>)"
  by (auto simp: mutation_repository_def clean_run_bind checked wf_pr_repository_def wf_host_def
      dest: repository_id_short)

lemma grows_request_parts [checked]:
  "grows (head_text v)" "grows (comment_request_checks v r n)" "grows (review_request_checks v r n)" "grows (merge_request_checks v r n)"
  by (auto simp: head_text_def comment_request_checks_def review_request_checks_def merge_request_checks_def Let_def
      intro!: checked split: option.split)

lemma operation_value_Some [simp]: "operation_value v = Some x \<longleftrightarrow> v = JStr (operation_name x)"
  by (cases x) (auto simp: operation_value_def)

lemma intent_value_Some [simp]: "intent_value v = Some x \<longleftrightarrow> v = JStr (intent_name x)"
  by (cases x) (auto simp: intent_value_def)

lemma strategy_value_Some [simp]: "strategy_value v = Some x \<longleftrightarrow> v = JStr (strategy_name x)"
  by (cases x) (auto simp: strategy_value_def)

lemma names_inject [simp]:
  "intent_name i = intent_name j \<longleftrightarrow> i = j" "strategy_name s = strategy_name u \<longleftrightarrow> s = u"
  "operation_name a = operation_name b \<longleftrightarrow> a = b"
  by ((cases i; cases j; simp), (cases s; cases u; simp), (cases a; cases b; simp))

lemma retry_value_name [simp]: "retry_value (JStr (retry_name x)) = Some x"
  by (cases x) (auto simp: retry_value_def)

lemma clean_head_text [simp]:
  "clean_run (head_text v) y \<longleftrightarrow> (\<exists>h. get_prop v (js ''expectedHead'') = JStr h \<and> wf_head h \<and> y = Some h)"
  by (simp add: head_text_def wf_head_def)

lemma clean_comment_request:
  "clean_run (comment_request_checks v (Some r) (Some n)) y \<longleftrightarrow>
     (\<exists>b h. get_prop v (js ''body'') = JStr b \<and> mutation_text_ok b max_mutation_body False False \<and>
        (if get_prop v (js ''expectedHead'') = JUndef then h = None
         else \<exists>s. get_prop v (js ''expectedHead'') = JStr s \<and> wf_head s \<and> h = Some s) \<and>
        y = Some (Comment_Request \<lparr>cq_repository = r, cq_pull_request = n, cq_body = b, cq_head = h\<rparr>))"
  by (auto simp: comment_request_checks_def clean_run_bind checked)

lemma clean_review_request:
  "clean_run (review_request_checks v (Some r) (Some n)) y \<longleftrightarrow>
     (\<exists>h i b m. get_prop v (js ''expectedHead'') = JStr h \<and> wf_head h \<and> intent_value (get_prop v (js ''intent'')) = Some i \<and>
        (if get_prop v (js ''body'') = JUndef then b = [] else get_prop v (js ''body'') = JStr b) \<and>
        mutation_text_ok b max_mutation_body True False \<and> retry_value (get_prop v (js ''retry'')) = Some m \<and>
        y = Some (Review_Request \<lparr>vq_repository = r, vq_pull_request = n, vq_head = h, vq_intent = i, vq_body = b, vq_retry = m\<rparr>))"
  by (auto simp: review_request_checks_def clean_run_bind checked Let_def simp del: intent_value_Some)

lemma clean_merge_request:
  "clean_run (merge_request_checks v (Some r) (Some n)) y \<longleftrightarrow>
     (\<exists>h b s. get_prop v (js ''expectedHead'') = JStr h \<and> wf_head h \<and> get_prop v (js ''expectedBase'') = JStr b \<and>
        mutation_text_ok b max_expected_base False True \<and> strategy_value (get_prop v (js ''strategy'')) = Some s \<and>
        y = Some (Merge_Request \<lparr>gq_repository = r, gq_pull_request = n, gq_head = h, gq_base = b, gq_strategy = s\<rparr>))"
  by (auto simp: merge_request_checks_def clean_run_bind checked Let_def simp del: strategy_value_Some)

lemma clean_mutation_request:
  "clean_run (mutation_request_checks lc v) y \<longleftrightarrow>
     get_prop v (js ''version'') = JStr (js ''1'') \<and>
     (\<exists>op r n. operation_value (get_prop v (js ''operation'')) = Some op \<and> set (object_keys v) \<subseteq> set (request_keys_of op) \<and>
        clean_run (mutation_repository lc (get_prop v (js ''repository'')) (js ''$.repository'')) (Some r) \<and>
        positive_integer (get_prop v (js ''pullRequest'')) = Some n \<and>
        (case op of
           Comment_Op \<Rightarrow> clean_run (comment_request_checks v (Some r) (Some n)) y
         | Review_Op \<Rightarrow> clean_run (review_request_checks v (Some r) (Some n)) y
         | Merge_Op \<Rightarrow> clean_run (merge_request_checks v (Some r) (Some n)) y))"
proof -
  have located: "clean_run (mutation_repository lc w p) x \<Longrightarrow> \<exists>r. x = Some r" for w p x
    by (auto simp: clean_mutation_repository)
  show ?thesis
  proof (cases "operation_value (get_prop v (js ''operation''))")
    case None
    then show ?thesis by (simp add: mutation_request_checks_def clean_run_bind checked)
  next
    case (Some op)
    then show ?thesis
      by (cases op) (auto simp: mutation_request_checks_def clean_run_bind checked simp del: operation_value_Some; metis located)+
  qed
qed

lemma materialized:
  "materialize_request lc v = Inr q \<longleftrightarrow> is_record v \<and> clean_run (mutation_request_checks lc v) (Some q)"
  by (auto simp: materialize_request_def clean_run_def split: prod.splits option.splits list.splits)

lemma materialized_request:
  assumes "materialize_request lc v = Inr q"
  shows "wf_pr_request q" and
    "\<exists>h. get_prop (get_prop v (js ''repository'')) (js ''hostname'') = JStr h \<and> wf_host h \<and>
      rp_hostname (request_repository q) = to_lower lc h"
proof -
  from assms have clean: "clean_run (mutation_request_checks lc v) (Some q)" by (simp add: materialized)
  from clean [unfolded clean_mutation_request] obtain op r n where
    op: "operation_value (get_prop v (js ''operation'')) = Some op"
    and r: "clean_run (mutation_repository lc (get_prop v (js ''repository'')) (js ''$.repository'')) (Some r)"
    and n: "positive_integer (get_prop v (js ''pullRequest'')) = Some n"
    and q: "case op of
           Comment_Op \<Rightarrow> clean_run (comment_request_checks v (Some r) (Some n)) (Some q)
         | Review_Op \<Rightarrow> clean_run (review_request_checks v (Some r) (Some n)) (Some q)
         | Merge_Op \<Rightarrow> clean_run (merge_request_checks v (Some r) (Some n)) (Some q)" by blast
  have "1 \<le> n \<and> n \<le> max_safe_integer" using n by (rule positive_integer_Some)
  moreover have "wf_pr_repository r" using r by (auto simp: clean_mutation_repository)
  ultimately have "wf_pr_request q \<and> request_repository q = r"
    using q
    by (cases op) (auto simp: clean_comment_request clean_review_request clean_merge_request mutation_text_ok_def split: if_splits)
  then show "wf_pr_request q" and "\<exists>h. get_prop (get_prop v (js ''repository'')) (js ''hostname'') = JStr h \<and> wf_host h \<and>
      rp_hostname (request_repository q) = to_lower lc h"
    using r by (auto simp: clean_mutation_repository)
qed

text \<open>A well-formed request whose host is in lower case is what its plain object materializes to.\<close>

lemma repository_round_trip:
  assumes "wf_pr_repository r" and "wf_host (rp_hostname r)" and "to_lower lc (rp_hostname r) = rp_hostname r"
  shows "clean_run (mutation_repository lc (repository_json r) path) (Some r)"
  using assms by (cases "rp_id r") (simp_all add: clean_mutation_repository repository_json_def pr_repository_keys_def wf_pr_repository_def)

lemma positive_number [simp]: "1 \<le> n \<Longrightarrow> n \<le> max_safe_integer \<Longrightarrow> positive_integer (JNum (Integral n)) = Some n"
  by (simp add: positive_integer_def)

lemma pr_request_round_trip:
  assumes "wf_pr_request q" and "wf_host (rp_hostname (request_repository q))"
    and "to_lower lc (rp_hostname (request_repository q)) = rp_hostname (request_repository q)"
  shows "materialize_request lc (request_json q) = Inr q"
proof (cases q)
  case (Comment_Request c)
  with assms have "clean_run (mutation_repository lc (repository_json (cq_repository c)) (js ''$.repository'')) (Some (cq_repository c))"
    by (simp add: repository_round_trip)
  with assms Comment_Request show ?thesis
    unfolding materialized clean_mutation_request
    by (intro conjI exI [of _ Comment_Op] exI [of _ "cq_repository c"] exI [of _ "cq_pull_request c"]; cases "cq_head c")
      (simp_all add: clean_comment_request)
next
  case (Review_Request c)
  with assms have "clean_run (mutation_repository lc (repository_json (vq_repository c)) (js ''$.repository'')) (Some (vq_repository c))"
    by (simp add: repository_round_trip)
  with assms Review_Request show ?thesis
    unfolding materialized clean_mutation_request
    by (intro conjI exI [of _ Review_Op] exI [of _ "vq_repository c"] exI [of _ "vq_pull_request c"])
      (simp_all add: clean_review_request)
next
  case (Merge_Request c)
  with assms have "clean_run (mutation_repository lc (repository_json (gq_repository c)) (js ''$.repository'')) (Some (gq_repository c))"
    by (simp add: repository_round_trip)
  with assms Merge_Request show ?thesis
    unfolding materialized clean_mutation_request
    by (intro conjI exI [of _ Merge_Op] exI [of _ "gq_repository c"] exI [of _ "gq_pull_request c"])
      (simp_all add: clean_merge_request)
qed

subsection \<open>Plans round trip\<close>

definition ascii_host :: "jsval \<Rightarrow> bool" where
  "ascii_host v \<longleftrightarrow>
     (case get_prop (get_prop v (js ''repository'')) (js ''hostname'') of JStr h \<Rightarrow> is_ascii h | _ \<Rightarrow> True)"

lemma lowered_host:
  assumes "wf_host h" and "is_ascii h"
  shows "wf_host (to_lower lc h) \<and> to_lower lc (to_lower lc h) = to_lower lc h"
proof -
  have unit: "ascii_lower c < 128" "ascii_lower (ascii_lower c) = ascii_lower c"
      "is_white_space (ascii_lower c) \<longleftrightarrow> is_white_space c" "ascii_lower c = 47 \<longleftrightarrow> c = 47" "ascii_lower c = 0 \<longleftrightarrow> c = 0"
    if "c \<in> set h" for c
  proof -
    have "c < 128" using assms(2) that by (simp add: is_ascii_def)
    from ascii_lower_unit [OF this] show "ascii_lower c < 128" "ascii_lower (ascii_lower c) = ascii_lower c"
        "is_white_space (ascii_lower c) \<longleftrightarrow> is_white_space c" "ascii_lower c = 47 \<longleftrightarrow> c = 47"
      by (simp_all add: ascii_lower_def)
    show "ascii_lower c = 0 \<longleftrightarrow> c = 0" by (simp add: ascii_lower_def is_upper_def)
  qed
  have low: "to_lower lc h = map ascii_lower h" using assms(2) by (simp add: to_lower_def)
  moreover have ascii: "is_ascii (map ascii_lower h)" using unit by (auto simp: is_ascii_def)
  moreover have "mutation_text_ok (map ascii_lower h) 255 False False"
  proof -
    have "0 \<notin> set (map ascii_lower h)" using assms(1) unit(5) by (auto simp: wf_host_def mutation_text_ok_def)
    then show ?thesis
      using assms ascii by (simp add: wf_host_def mutation_text_ok_def utf8_length_ascii)
  qed
  moreover have "repository_word (map ascii_lower h)"
    using assms(1) unit by (auto simp: wf_host_def repository_word_def list_all_iff)
  ultimately show ?thesis using unit by (simp add: wf_host_def to_lower_def)
qed

lemma repository_serializes: "\<exists>s. stable_serialize t (repository_json r) = Some s"
  by (cases "rp_id r") (simp_all add: repository_json_def)

lemma plan_serializes: "\<exists>s. stable_serialize t (plan_json (plan_of_request q)) = Some s"
proof -
  obtain s where s: "stable_serialize t (repository_json (request_repository q)) = Some s"
    using repository_serializes by blast
  show ?thesis
  proof (cases q)
    case (Comment_Request c)
    with s show ?thesis by (cases "cq_head c") (simp_all add: plan_json_def plan_of_request_def)
  qed (use s in \<open>simp_all add: plan_json_def plan_of_request_def\<close>)
qed

lemma planned_request:
  "plan_pull_request_mutation lc v = Inr p \<longleftrightarrow> (\<exists>q. materialize_request lc v = Inr q \<and> p = plan_of_request q)"
  by (cases "materialize_request lc v") (auto simp: plan_pull_request_mutation_def)

lemma plan_json_sel:
  "is_record (plan_json p)" "get_prop (plan_json p) (js ''request'') = request_json (pp_request p)"
  "get_prop (plan_json p) (js ''version'') = JStr (js ''1'')"
  "get_prop (plan_json p) (js ''kind'') = JStr (js ''pull_request_mutation'')"
  "get_prop (plan_json p) (js ''operation'') = JStr (operation_name (request_operation (pp_request p)))"
  by (simp_all add: plan_json_def)

lemma plan_of_request_sel [simp]: "pp_request (plan_of_request q) = q"
  by (simp add: plan_of_request_def)

text \<open>An accepted plan is the plan of its own request, and the value it came from serializes like it.\<close>

lemma accepted_plan:
  assumes "validate_mutation_plan lc t v = Inr p"
  shows "plan_pull_request_mutation lc (get_prop v (js ''request'')) = Inr p" and
    "stable_serialize t v = stable_serialize t (plan_json p)" and
    "get_prop v (js ''operation'') = JStr (operation_name (request_operation (pp_request p)))"
proof -
  have planned: "plan_pull_request_mutation lc (get_prop v (js ''request'')) = Inr p"
      and none: "plan_violations t v (Inr p) = []"
    using assms by (auto simp: validate_mutation_plan_def Let_def split: if_splits sum.splits)
  from planned show "plan_pull_request_mutation lc (get_prop v (js ''request'')) = Inr p" .
  from none show "stable_serialize t v = stable_serialize t (plan_json p)"
      "get_prop v (js ''operation'') = JStr (operation_name (request_operation (pp_request p)))"
    by (auto simp: plan_violations_def Let_def split: if_splits)
qed

lemma plan_survives_transport:
  assumes "plan_pull_request_mutation lc v = Inr p" and "ascii_host v"
  shows "wf_pr_request (pp_request p) \<and> plan_pull_request_mutation lc (request_json (pp_request p)) = Inr p \<and>
    validate_mutation_plan lc t (plan_json p) = Inr p"
proof -
  obtain q where q: "materialize_request lc v = Inr q" "p = plan_of_request q"
    using assms(1) by (auto simp: planned_request)
  from materialized_request(2) [OF q(1)] obtain h where
    h: "get_prop (get_prop v (js ''repository'')) (js ''hostname'') = JStr h" "wf_host h"
      "rp_hostname (request_repository q) = to_lower lc h" by blast
  from assms(2) h(1) have "is_ascii h" by (simp add: ascii_host_def)
  note low = lowered_host [OF h(2) this, of lc]
  have again: "materialize_request lc (request_json q) = Inr q"
    using pr_request_round_trip [OF materialized_request(1) [OF q(1)]] low h(3) by simp
  obtain s where s: "stable_serialize t (plan_json p) = Some s" using plan_serializes q(2) by blast
  have "plan_pull_request_mutation lc (request_json q) = Inr p" using again q(2) by (simp add: planned_request)
  then show ?thesis
    using materialized_request(1) [OF q(1)] q(2) s
    by (simp add: validate_mutation_plan_def plan_json_sel plan_violations_def Let_def)
qed

lemmas plan_survives = plan_survives_transport [THEN conjunct2, THEN conjunct2]

text \<open>
  C36.  A Pull Request mutation plan survives transport: a plan made from a request whose host is ASCII has
  a well-formed request, its plain object is accepted by the plan validator, which gives back the same plan,
  and planning the plain object of its request again gives the same plan.
\<close>

theorem mutation_plan_round_trip:
  assumes "plan_pull_request_mutation lc v = Inr p" and "ascii_host v"
  shows "wf_pr_request (pp_request p) \<and> plan_pull_request_mutation lc (request_json (pp_request p)) = Inr p \<and>
    validate_mutation_plan lc t (plan_json p) = Inr p"
  by (rule plan_survives_transport [OF assms])

definition sample_repository :: pr_repository where
  "sample_repository = \<lparr>rp_hostname = js ''github.com'', rp_name = js ''acme/app'', rp_id = None\<rparr>"

definition sample_merge :: merge_request where
  "sample_merge = \<lparr>gq_repository = sample_repository, gq_pull_request = 8, gq_head = js ''c0ffee'', gq_base = js ''main'',
     gq_strategy = Squash\<rparr>"

lemma sample_merge_materializes: "materialize_request (\<lambda>s. s) (request_json (Merge_Request sample_merge)) = Inr (Merge_Request sample_merge)"
proof (rule pr_request_round_trip)
  show "wf_pr_request (Merge_Request sample_merge)"
    by (simp add: sample_merge_def sample_repository_def wf_pr_repository_def wf_head_def mutation_text_ok_def js_eval
        max_expected_head_def max_expected_base_def control_unit_def max_safe_integer_def repository_word_def
        is_white_space_def utf8_length_ascii)
  show "wf_host (rp_hostname (request_repository (Merge_Request sample_merge)))"
    by (simp add: sample_merge_def sample_repository_def wf_host_def mutation_text_ok_def js_eval repository_word_def
        is_white_space_def utf8_length_ascii)
  show "to_lower (\<lambda>s. s) (rp_hostname (request_repository (Merge_Request sample_merge))) =
      rp_hostname (request_repository (Merge_Request sample_merge))"
    by (simp add: sample_merge_def sample_repository_def to_lower_def js_eval ascii_lower_def is_upper_def)
qed

lemma sample_merge_plans:
  "plan_pull_request_mutation (\<lambda>s. s) (request_json (Merge_Request sample_merge)) = Inr (plan_of_request (Merge_Request sample_merge))"
  by (simp add: planned_request sample_merge_materializes del: request_json.simps)

lemma sample_merge_ascii: "ascii_host (request_json (Merge_Request sample_merge))"
  by (simp add: ascii_host_def sample_merge_def sample_repository_def repository_json_def js_eval)

definition sample_text :: json_text where
  "sample_text = \<lparr>jt_string = (\<lambda>s. s), jt_number = (\<lambda>n. [])\<rparr>"

theorem mutation_plan_round_trip_witness:
  "validate_mutation_plan (\<lambda>s. s) sample_text (plan_json (plan_of_request (Merge_Request sample_merge))) =
     Inr (plan_of_request (Merge_Request sample_merge))"
  using mutation_plan_round_trip [OF sample_merge_plans sample_merge_ascii] by blast

end
