(* ===== verification/PR_Mutation.thy ===== *)
theory PR_Mutation
  imports PR_Mutation_Plan
begin

text \<open>
  The executor of Semantic Pull Request mutations, \<^verbatim>\<open>LocalSemanticPullRequestMutationExecutor\<close>
  of \<^verbatim>\<open>src/src/semantic-pr-mutation.ts\<close>: it validates a plan, reads the pull request
  afresh, admits it, asks the provider for one effect, reads again, and returns only what the second read proves.
  The provider is a port that threads the environment.
\<close>

subsection \<open>Provider evidence\<close>

text \<open>
  The fields of a pull request that the executor reads; the others are only handed to the observation
  contract.  The mergeable flag is undefined (\<^const>\<open>None\<close>), null or a Boolean; an
  absent merge time or commit is undefined or null.
\<close>

record gh_pull =
  gp_number :: int
  gp_state :: issue_state
  gp_draft :: bool
  gp_head :: jstr
  gp_head_sha :: "jstr option"
  gp_base :: jstr
  gp_mergeable :: "bool option option"
  gp_mergeable_state :: "jstr option"
  gp_merged :: "bool option"
  gp_merged_at :: "jstr option"
  gp_merge_commit :: "jstr option"
  gp_merge_method :: "merge_strategy option"
  gp_rest :: jsval

record repository_context =
  rc_hostname :: jstr
  rc_name :: jstr
  rc_id :: "jstr option"

record pr_comment =
  cm_id :: int
  cm_body :: jstr
  cm_url :: "jstr option"

datatype review_state = Approved | Changes_Requested | Commented | Dismissed | Pending | Unknown_Review

record pr_review =
  rv_id :: int
  rv_body :: "jstr option"
  rv_state :: review_state
  rv_commit :: jstr
  rv_url :: "jstr option"
  rv_author :: "jstr option"

record merge_response =
  mr_merged :: bool

record policy_proof =
  ap_authoritative :: bool
  ap_satisfied :: bool

record merge_policy =
  py_strategies :: "merge_strategy list option"
  py_checks :: "policy_proof option"
  py_reviews :: "policy_proof option"

text \<open>
  The provider.  What it rejects with is a value; for reads, the value is not looked at.
  \<^verbatim>\<open>tryObserveSemanticPullRequest\<close>, of another module, is the observation.
\<close>

record 'w mutation_provider =
  mp_context :: "'w \<Rightarrow> repository_context option \<times> 'w"
  mp_user :: "'w \<Rightarrow> jstr option \<times> 'w"
  mp_pull :: "int \<Rightarrow> 'w \<Rightarrow> gh_pull option \<times> 'w"
  mp_comments :: "int \<Rightarrow> 'w \<Rightarrow> pr_comment list option \<times> 'w"
  mp_comment :: "int \<Rightarrow> jstr \<Rightarrow> 'w \<Rightarrow> (jsval + pr_comment) \<times> 'w"
  mp_reviews :: "int \<Rightarrow> 'w \<Rightarrow> pr_review list option \<times> 'w"
  mp_review :: "int \<Rightarrow> review_intent \<Rightarrow> jstr \<Rightarrow> jstr \<Rightarrow> 'w \<Rightarrow> (jsval + pr_review) \<times> 'w"
  mp_merge :: "int \<Rightarrow> merge_strategy \<Rightarrow> jstr \<Rightarrow> 'w \<Rightarrow> (jsval + merge_response) \<times> 'w"
  mp_policy :: "(gh_pull \<Rightarrow> 'w \<Rightarrow> merge_policy option \<times> 'w) option"
  mp_observe :: "gh_pull \<Rightarrow> repository_context \<Rightarrow> mutation_violation list option"

subsection \<open>Results and errors\<close>

datatype mutation_outcome = Succeeded_Mutation | Idempotent | Stale | Blocked | Failed_Mutation | Recovery_Mutation
datatype effect_report = Not_Attempted | Effect_Succeeded | Effect_Failed_Report | Effect_Ambiguous
datatype postcondition = Recorded | Merged_Post | Not_Proven
datatype provider_response = Accepted | Rejected_Response | Ambiguous_Response

record current_pull =
  cu_number :: int
  cu_head :: jstr
  cu_base :: jstr
  cu_state :: issue_state

record mutation_evidence =
  mv_operation :: mutation_operation
  mv_outcome :: mutation_outcome
  mv_effect :: effect_report
  mv_verified :: bool
  mv_postcondition :: "postcondition option"
  mv_response :: "provider_response option"
  mv_current :: "current_pull option"
  mv_resource :: "(int \<times> jstr option) option"

datatype mutation_resource = Comment_Resource pr_comment | Review_Resource pr_review

record mutation_result =
  sr_operation :: mutation_operation
  sr_outcome :: mutation_outcome
  sr_plan :: mutation_plan
  sr_evidence :: mutation_evidence
  sr_current :: gh_pull
  sr_resource :: "mutation_resource option"

datatype mutation_error_code =
    EXECUTION_REQUEST_INVALID | EXECUTION_PLAN_INVALID | REPOSITORY_MISMATCH | TARGET_READ_FAILED | TARGET_INVALID | STALE_HEAD | STALE_BASE
  | PR_DRAFT | NOT_OPEN | DUPLICATE_REVIEW | MERGE_BLOCKED | POLICY_READ_FAILED | PR_EFFECT_FAILED
  | POSTCONDITION_READ_FAILED | POSTCONDITION_FAILED | RECOVERY_NEEDED

fun mutation_code_name :: "mutation_error_code \<Rightarrow> jstr" where
  "mutation_code_name EXECUTION_REQUEST_INVALID = js ''PR_MUTATION_EXECUTION_REQUEST_INVALID''"
| "mutation_code_name EXECUTION_PLAN_INVALID = js ''PR_MUTATION_EXECUTION_PLAN_INVALID''"
| "mutation_code_name REPOSITORY_MISMATCH = js ''PR_MUTATION_REPOSITORY_MISMATCH''"
| "mutation_code_name TARGET_READ_FAILED = js ''PR_MUTATION_TARGET_READ_FAILED''"
| "mutation_code_name TARGET_INVALID = js ''PR_MUTATION_TARGET_INVALID''"
| "mutation_code_name STALE_HEAD = js ''PR_MUTATION_STALE_HEAD''"
| "mutation_code_name STALE_BASE = js ''PR_MUTATION_STALE_BASE''"
| "mutation_code_name PR_DRAFT = js ''PR_MUTATION_DRAFT''"
| "mutation_code_name NOT_OPEN = js ''PR_MUTATION_NOT_OPEN''"
| "mutation_code_name DUPLICATE_REVIEW = js ''PR_MUTATION_DUPLICATE_REVIEW''"
| "mutation_code_name MERGE_BLOCKED = js ''PR_MUTATION_MERGE_BLOCKED''"
| "mutation_code_name POLICY_READ_FAILED = js ''PR_MUTATION_POLICY_READ_FAILED''"
| "mutation_code_name PR_EFFECT_FAILED = js ''PR_MUTATION_EFFECT_FAILED''"
| "mutation_code_name POSTCONDITION_READ_FAILED = js ''PR_MUTATION_POSTCONDITION_READ_FAILED''"
| "mutation_code_name POSTCONDITION_FAILED = js ''PR_MUTATION_POSTCONDITION_FAILED''"
| "mutation_code_name RECOVERY_NEEDED = js ''PR_MUTATION_RECOVERY_REQUIRED''"

record mutation_error =
  er_code :: mutation_error_code
  er_outcome :: mutation_outcome
  er_message :: jstr
  er_diagnostics :: "mutation_violation list"
  er_evidence :: mutation_evidence

definition mutation_diagnostic :: "mutation_violation \<Rightarrow> mutation_violation" where
  "mutation_diagnostic d = d\<lparr>mv_message := take max_mutation_message (mv_message d)\<rparr>"

definition coded_diagnostic :: "mutation_error_code \<Rightarrow> string \<Rightarrow> string \<Rightarrow> mutation_violation" where
  "coded_diagnostic code path message =
     mutation_diagnostic \<lparr>mv_code = mutation_code_name code, mv_path = js path, mv_message = js message\<rparr>"

text \<open>\<^verbatim>\<open>SemanticPullRequestMutationError\<close> keeps 32 diagnostics.\<close>

definition mutation_error_of ::
  "mutation_error_code \<Rightarrow> mutation_outcome \<Rightarrow> string \<Rightarrow> mutation_violation list \<Rightarrow> mutation_evidence \<Rightarrow> mutation_error" where
  "mutation_error_of code outcome message ds evidence =
     \<lparr>er_code = code, er_outcome = outcome, er_message = js message, er_diagnostics = take max_mutation_diagnostics ds,
      er_evidence = evidence\<rparr>"

definition head_of :: "gh_pull \<Rightarrow> jstr" where
  "head_of p = (case gp_head_sha p of None \<Rightarrow> gp_head p | Some s \<Rightarrow> s)"

definition current_evidence :: "gh_pull \<Rightarrow> current_pull" where
  "current_evidence p = \<lparr>cu_number = gp_number p, cu_head = head_of p, cu_base = gp_base p, cu_state = gp_state p\<rparr>"

definition empty_evidence ::
  "mutation_operation \<Rightarrow> mutation_outcome \<Rightarrow> effect_report \<Rightarrow> bool \<Rightarrow> mutation_evidence" where
  "empty_evidence op outcome e verified =
     \<lparr>mv_operation = op, mv_outcome = outcome, mv_effect = e, mv_verified = verified, mv_postcondition = None,
      mv_response = None, mv_current = None, mv_resource = None\<rparr>"

text \<open>The two shapes of an error: before the effect, and with one diagnostic of the code of the error.\<close>

definition refused ::
  "mutation_error_code \<Rightarrow> mutation_outcome \<Rightarrow> string \<Rightarrow> string \<Rightarrow> string \<Rightarrow> mutation_operation \<Rightarrow> gh_pull option \<Rightarrow> mutation_error" where
  "refused code outcome message path reason op current =
     mutation_error_of code outcome message [coded_diagnostic code path reason]
       ((empty_evidence op outcome Not_Attempted False)\<lparr>mv_current := map_option current_evidence current\<rparr>)"

subsection \<open>Predicates on evidence\<close>

definition is_merged :: "gh_pull \<Rightarrow> bool" where
  "is_merged p \<longleftrightarrow> gp_state p = Closed_State \<and> (gp_merged p = Some True \<or> gp_merged_at p \<noteq> None \<or> gp_merge_commit p \<noteq> None)"

definition merged_matching_target :: "gh_pull \<Rightarrow> merge_request \<Rightarrow> bool" where
  "merged_matching_target p q \<longleftrightarrow>
     is_merged p \<and> gp_number p = gq_pull_request q \<and> gp_head_sha p = Some (gq_head q) \<and> gp_base p = gq_base q"

definition merged_as_requested :: "gh_pull \<Rightarrow> merge_request \<Rightarrow> bool" where
  "merged_as_requested p q \<longleftrightarrow> merged_matching_target p q \<and> gp_merge_method p = Some (gq_strategy q)"

definition merged_matching_own_effect :: "gh_pull \<Rightarrow> merge_request \<Rightarrow> bool" where
  "merged_matching_own_effect p q \<longleftrightarrow>
     merged_matching_target p q \<and> (gp_merge_method p = None \<or> gp_merge_method p = Some (gq_strategy q))"

definition repository_matches :: "(jstr \<Rightarrow> jstr) \<Rightarrow> pr_repository \<Rightarrow> repository_context \<Rightarrow> bool" where
  "repository_matches lc r c \<longleftrightarrow>
     to_lower lc (rp_hostname r) = to_lower lc (rc_hostname c) \<and> rp_name r = rc_name c \<and>
     (rp_id r = None \<or> rp_id r = rc_id c)"

fun intent_for_review :: "review_state \<Rightarrow> review_intent option" where
  "intent_for_review Approved = Some Approve"
| "intent_for_review Changes_Requested = Some Request_Changes"
| "intent_for_review Commented = Some Comment_Only"
| "intent_for_review _ = None"

definition same_intent :: "pr_review \<Rightarrow> review_request \<Rightarrow> jstr \<Rightarrow> bool" where
  "same_intent r q actor \<longleftrightarrow>
     rv_author r = Some actor \<and> rv_commit r = vq_head q \<and> intent_for_review (rv_state r) = Some (vq_intent q)"

definition same_review :: "pr_review \<Rightarrow> review_request \<Rightarrow> jstr \<Rightarrow> bool" where
  "same_review r q actor \<longleftrightarrow> same_intent r q actor \<and> or_empty (rv_body r) = vq_body q"

definition strategy_allowed :: "merge_strategy \<Rightarrow> merge_policy option \<Rightarrow> bool" where
  "strategy_allowed s policy \<longleftrightarrow>
     (case Option.bind policy py_strategies of None \<Rightarrow> True | Some allowed \<Rightarrow> s \<in> set allowed)"

definition policy_proven :: "policy_proof option \<Rightarrow> bool" where
  "policy_proven x \<longleftrightarrow> (case x of None \<Rightarrow> True | Some p \<Rightarrow> ap_authoritative p \<longrightarrow> ap_satisfied p)"

definition merge_policy_satisfied :: "merge_policy option \<Rightarrow> bool" where
  "merge_policy_satisfied policy \<longleftrightarrow>
     (case policy of None \<Rightarrow> True | Some y \<Rightarrow> policy_proven (py_checks y) \<and> policy_proven (py_reviews y))"

definition mergeability_blocked :: "gh_pull \<Rightarrow> bool" where
  "mergeability_blocked p \<longleftrightarrow>
     gp_mergeable p = Some (Some False) \<or>
     or_empty (gp_mergeable_state p) \<in> set [js ''blocked'', js ''dirty'', js ''conflicting'', js ''unstable'']"

definition mergeability_unknown :: "gh_pull \<Rightarrow> bool" where
  "mergeability_unknown p \<longleftrightarrow>
     gp_mergeable p = Some None \<or> or_empty (gp_mergeable_state p) \<in> set [js ''unknown'', js ''checking'']"

definition unsettled_category :: "jsval \<Rightarrow> bool" where
  "unsettled_category v \<longleftrightarrow> v \<in> set [JStr (js ''transport''), JStr (js ''timeout'')]"

definition error_is_ambiguous :: "jsval \<Rightarrow> bool" where
  "error_is_ambiguous e \<longleftrightarrow>
     is_record e \<and> (get_prop e (js ''ambiguous'') = JBool True \<or> unsettled_category (get_prop e (js ''category'')) \<or>
       is_record (get_prop e (js ''details'')) \<and> unsettled_category (get_prop (get_prop e (js ''details'')) (js ''category'')))"

definition result_of ::
  "mutation_plan \<Rightarrow> gh_pull \<Rightarrow> mutation_outcome \<Rightarrow> mutation_evidence \<Rightarrow> mutation_resource option \<Rightarrow> mutation_result" where
  "result_of plan current outcome evidence resource =
     \<lparr>sr_operation = request_operation (pp_request plan), sr_outcome = outcome, sr_plan = plan, sr_evidence = evidence,
      sr_current = current, sr_resource = resource\<rparr>"

subsection \<open>Reading and admitting the target\<close>

text \<open>Both reads are started, whether or not the first is rejected.\<close>

definition read_target ::
  "'w mutation_provider \<Rightarrow> mutation_plan \<Rightarrow> 'w \<Rightarrow> (mutation_error + repository_context \<times> gh_pull) \<times> 'w" where
  "read_target pv plan w =
     (let op = request_operation (pp_request plan);
          (context, w1) = mp_context pv w;
          (pull, w2) = mp_pull pv (request_pull_request (pp_request plan)) w1 in
      (case (context, pull) of
         (Some c, Some p) \<Rightarrow>
           (case mp_observe pv p c of
              None \<Rightarrow> Inr (c, p)
            | Some vs \<Rightarrow>
                Inl (mutation_error_of TARGET_INVALID Failed_Mutation
                  ''The provider returned pull-request evidence outside the existing observation contract.''
                  (map mutation_diagnostic vs)
                  ((empty_evidence op Failed_Mutation Not_Attempted False)\<lparr>mv_current := Some (current_evidence p)\<rparr>)))
       | _ \<Rightarrow>
           Inl (refused TARGET_READ_FAILED Failed_Mutation
             ''Current pull-request identity could not be established before mutation.'' ''$.pullRequest''
             ''Current pull-request evidence is unavailable.'' op None), w2))"

definition admit_identity ::
  "(jstr \<Rightarrow> jstr) \<Rightarrow> mutation_plan \<Rightarrow> repository_context \<Rightarrow> gh_pull \<Rightarrow> mutation_error option" where
  "admit_identity lc plan c p =
     (if \<not> repository_matches lc (request_repository (pp_request plan)) c \<or>
         gp_number p \<noteq> request_pull_request (pp_request plan)
      then Some (refused REPOSITORY_MISMATCH Blocked
        ''The observed pull request does not match the requested repository identity.'' ''$.repository''
        ''Target identity verification failed.'' (request_operation (pp_request plan)) (Some p))
      else None)"

definition admit_head :: "mutation_operation \<Rightarrow> gh_pull \<Rightarrow> jstr option \<Rightarrow> mutation_error option" where
  "admit_head op p expected =
     (case expected of
        None \<Rightarrow> None
      | Some h \<Rightarrow>
          if gp_head_sha p = None
          then Some (refused TARGET_INVALID Failed_Mutation
            ''The provider did not return an immutable pull-request head identity.'' ''$.headSha''
            ''Expected-head admission requires provider commit evidence.'' op (Some p))
          else if gp_head_sha p \<noteq> Some h
          then Some (refused STALE_HEAD Stale ''The pull-request head changed after the mutation request was prepared.''
            ''$.expectedHead'' ''Execution-time pull-request head does not match expectedHead.'' op (Some p))
          else None)"

subsection \<open>Comments\<close>

definition comment_evidence :: "mutation_outcome \<Rightarrow> effect_report \<Rightarrow> pr_comment \<Rightarrow> mutation_evidence" where
  "comment_evidence outcome e c =
     (empty_evidence Comment_Op outcome e False)\<lparr>mv_response := Some Accepted, mv_resource := Some (cm_id c, cm_url c)\<rparr>"

definition comment_failure :: "'w mutation_provider \<Rightarrow> comment_request \<Rightarrow> jsval \<Rightarrow> 'w \<Rightarrow> mutation_error \<times> 'w" where
  "comment_failure pv q e w =
     (if error_is_ambiguous e
      then (mutation_error_of RECOVERY_NEEDED Recovery_Mutation
              ''The comment provider result is ambiguous and the created comment is not identified safely.''
              [coded_diagnostic RECOVERY_NEEDED ''$.effects[0]'' ''Reread comments and recover the outcome before retrying.'']
              ((empty_evidence Comment_Op Recovery_Mutation Effect_Ambiguous False)\<lparr>mv_response := Some Ambiguous_Response\<rparr>),
            snd (mp_comments pv (cq_pull_request q) w))
      else (mutation_error_of PR_EFFECT_FAILED Failed_Mutation
              ''GitHub rejected the pull-request conversation comment mutation.''
              [coded_diagnostic PR_EFFECT_FAILED ''$.effects[0]'' ''The conversation comment was not accepted by the provider.'']
              ((empty_evidence Comment_Op Failed_Mutation Effect_Failed_Report False)\<lparr>mv_response := Some Rejected_Response\<rparr>),
            w))"

definition comment_verdict ::
  "mutation_plan \<Rightarrow> comment_request \<Rightarrow> gh_pull \<Rightarrow> pr_comment \<Rightarrow> pr_comment list option \<Rightarrow> mutation_error + mutation_result" where
  "comment_verdict plan q before created comments =
     (case comments of
        None \<Rightarrow>
          Inl (mutation_error_of POSTCONDITION_READ_FAILED Recovery_Mutation
            ''The created conversation comment could not be reread for verification.''
            [coded_diagnostic POSTCONDITION_READ_FAILED ''$.resource'' ''Created comment evidence is unavailable.'']
            (comment_evidence Recovery_Mutation Effect_Ambiguous created))
      | Some cs \<Rightarrow>
          if list_ex (\<lambda>c. cm_id c = cm_id created \<and> cm_body c = cq_body q) cs
          then Inr (result_of plan before Succeeded_Mutation
                 ((empty_evidence Comment_Op Succeeded_Mutation Effect_Succeeded True)
                    \<lparr>mv_postcondition := Some Recorded, mv_response := Some Accepted,
                     mv_current := Some (current_evidence before), mv_resource := Some (cm_id created, cm_url created)\<rparr>)
                 (Some (Comment_Resource created)))
          else Inl (mutation_error_of POSTCONDITION_FAILED Failed_Mutation
                 ''The provider response did not produce a verifiable conversation comment.''
                 [coded_diagnostic POSTCONDITION_FAILED ''$.resource'' ''Created comment postcondition is not proven.'']
                 ((comment_evidence Failed_Mutation Effect_Succeeded created)\<lparr>mv_postcondition := Some Not_Proven\<rparr>)))"

definition execute_comment ::
  "'w mutation_provider \<Rightarrow> mutation_plan \<Rightarrow> comment_request \<Rightarrow> gh_pull \<Rightarrow> 'w \<Rightarrow> (mutation_error + mutation_result) \<times> 'w" where
  "execute_comment pv plan q before w =
     (case admit_head Comment_Op before (cq_head q) of
        Some e \<Rightarrow> (Inl e, w)
      | None \<Rightarrow>
          (case mp_comment pv (cq_pull_request q) (cq_body q) w of
             (Inl e, w1) \<Rightarrow> (case comment_failure pv q e w1 of (f, w2) \<Rightarrow> (Inl f, w2))
           | (Inr created, w1) \<Rightarrow>
               (case mp_comments pv (cq_pull_request q) w1 of
                  (comments, w2) \<Rightarrow> (comment_verdict plan q before created comments, w2))))"

subsection \<open>Reviews\<close>

definition review_refused :: "mutation_error_code \<Rightarrow> mutation_outcome \<Rightarrow> string \<Rightarrow> string \<Rightarrow> string \<Rightarrow> gh_pull \<Rightarrow> mutation_error" where
  "review_refused code outcome message path reason p = refused code outcome message path reason Review_Op (Some p)"

definition reviews_unreadable :: "gh_pull \<Rightarrow> mutation_error" where
  "reviews_unreadable p =
     mutation_error_of TARGET_READ_FAILED Failed_Mutation
       ''Current pull-request review evidence could not be established before mutation.''
       [mutation_diagnostic (violation_of ''PR_MUTATION_REVIEW_READ_FAILED'' (js ''$.reviews'')
          (js ''Current review evidence is unavailable.''))]
       ((empty_evidence Review_Op Failed_Mutation Not_Attempted False)\<lparr>mv_current := Some (current_evidence p)\<rparr>)"

definition recorded_review ::
  "mutation_plan \<Rightarrow> gh_pull \<Rightarrow> mutation_outcome \<Rightarrow> effect_report \<Rightarrow> provider_response option \<Rightarrow> pr_review \<Rightarrow> mutation_result" where
  "recorded_review plan before outcome e response r =
     result_of plan before outcome
       ((empty_evidence Review_Op outcome e True)
          \<lparr>mv_postcondition := Some Recorded, mv_response := response, mv_current := Some (current_evidence before),
           mv_resource := Some (rv_id r, rv_url r)\<rparr>)
       (Some (Review_Resource r))"

text \<open>Reviews that exist already: an exact one is the result, one of the same intent blocks, unless retried.\<close>

definition existing_review ::
  "mutation_plan \<Rightarrow> review_request \<Rightarrow> gh_pull \<Rightarrow> jstr \<Rightarrow> pr_review list \<Rightarrow> (mutation_error + mutation_result) option" where
  "existing_review plan q before actor reviews =
     (let same = filter (\<lambda>r. same_intent r q actor) reviews in
      if vq_retry q \<noteq> Reject_Duplicate then None
      else case find (\<lambda>r. same_review r q actor) same of
             Some r \<Rightarrow> Some (Inr (recorded_review plan before Idempotent Not_Attempted None r))
           | None \<Rightarrow>
               if same = [] then None
               else Some (Inl (review_refused DUPLICATE_REVIEW Blocked
                 ''A review with the requested intent already exists on this pull-request head; retry explicitly to add another.''
                 ''$.retry'' ''Duplicate review retry was rejected by the semantic contract.'' before)))"

definition review_recovery_error :: "string \<Rightarrow> string \<Rightarrow> mutation_error" where
  "review_recovery_error message reason =
     mutation_error_of RECOVERY_NEEDED Recovery_Mutation message [coded_diagnostic RECOVERY_NEEDED ''$.effects[0]'' reason]
       ((empty_evidence Review_Op Recovery_Mutation Effect_Ambiguous False)\<lparr>mv_response := Some Ambiguous_Response\<rparr>)"

definition review_failure ::
  "'w mutation_provider \<Rightarrow> mutation_plan \<Rightarrow> review_request \<Rightarrow> gh_pull \<Rightarrow> jstr \<Rightarrow> jsval \<Rightarrow> 'w \<Rightarrow>
     (mutation_error + mutation_result) \<times> 'w" where
  "review_failure pv plan q before actor e w =
     (if error_is_ambiguous e
      then (case mp_reviews pv (vq_pull_request q) w of
              (None, w1) \<Rightarrow>
                (Inl (review_recovery_error
                   ''The review provider result is ambiguous and current review evidence is unavailable.''
                   ''Reread reviews before deciding whether it is safe to retry.''), w1)
            | (Some reviews, w1) \<Rightarrow>
                (case find (\<lambda>r. same_review r q actor) reviews of
                   Some r \<Rightarrow>
                     (Inr (recorded_review plan before Idempotent Effect_Ambiguous (Some Ambiguous_Response) r), w1)
                 | None \<Rightarrow>
                     (Inl (review_recovery_error
                        ''The review provider result is ambiguous and current evidence does not identify the requested review.''
                        ''Reread reviews before deciding whether it is safe to retry.''), w1)))
      else (Inl (mutation_error_of PR_EFFECT_FAILED Failed_Mutation ''GitHub rejected the pull-request review mutation.''
              [coded_diagnostic PR_EFFECT_FAILED ''$.effects[0]'' ''The review was not accepted by the provider.'']
              ((empty_evidence Review_Op Failed_Mutation Effect_Failed_Report False)\<lparr>mv_response := Some Rejected_Response\<rparr>)), w))"

definition review_evidence :: "mutation_outcome \<Rightarrow> effect_report \<Rightarrow> pr_review \<Rightarrow> mutation_evidence" where
  "review_evidence outcome e r =
     (empty_evidence Review_Op outcome e False)\<lparr>mv_response := Some Accepted, mv_resource := Some (rv_id r, rv_url r)\<rparr>"

definition review_verdict ::
  "mutation_plan \<Rightarrow> review_request \<Rightarrow> gh_pull \<Rightarrow> jstr \<Rightarrow> pr_review \<Rightarrow> pr_review list option \<Rightarrow> mutation_error + mutation_result" where
  "review_verdict plan q before actor submitted reread =
     (case reread of
        None \<Rightarrow>
          Inl (mutation_error_of POSTCONDITION_READ_FAILED Recovery_Mutation
            ''The submitted review could not be reread for verification.''
            [coded_diagnostic POSTCONDITION_READ_FAILED ''$.resource'' ''Submitted review evidence is unavailable.'']
            (review_evidence Recovery_Mutation Effect_Ambiguous submitted))
      | Some rs \<Rightarrow>
          if list_ex (\<lambda>r. rv_id r = rv_id submitted \<and> same_review r q actor) rs
          then Inr (recorded_review plan before Succeeded_Mutation Effect_Succeeded (Some Accepted) submitted)
          else Inl (mutation_error_of POSTCONDITION_FAILED Failed_Mutation
                 ''The provider response did not produce a verifiable review on the expected pull-request head.''
                 [coded_diagnostic POSTCONDITION_FAILED ''$.resource'' ''Submitted review postcondition is not proven.'']
                 ((review_evidence Failed_Mutation Effect_Succeeded submitted)\<lparr>mv_postcondition := Some Not_Proven\<rparr>)))"

definition submit_review ::
  "'w mutation_provider \<Rightarrow> mutation_plan \<Rightarrow> review_request \<Rightarrow> gh_pull \<Rightarrow> jstr \<Rightarrow> 'w \<Rightarrow> (mutation_error + mutation_result) \<times> 'w" where
  "submit_review pv plan q before actor w =
     (case mp_review pv (vq_pull_request q) (vq_intent q) (vq_body q) (vq_head q) w of
        (Inl e, w1) \<Rightarrow> review_failure pv plan q before actor e w1
      | (Inr submitted, w1) \<Rightarrow>
          (case mp_reviews pv (vq_pull_request q) w1 of
             (reread, w2) \<Rightarrow> (review_verdict plan q before actor submitted reread, w2)))"

definition review_admission :: "review_request \<Rightarrow> gh_pull \<Rightarrow> mutation_error option" where
  "review_admission q before =
     (case admit_head Review_Op before (Some (vq_head q)) of
        Some e \<Rightarrow> Some e
      | None \<Rightarrow>
          if gp_state before \<noteq> Open_State
          then Some (review_refused NOT_OPEN Blocked ''The pull request is not open for review.'' ''$.pullRequest.state''
            ''The pull request is not open.'' before)
          else None)"

definition execute_review ::
  "'w mutation_provider \<Rightarrow> mutation_plan \<Rightarrow> review_request \<Rightarrow> gh_pull \<Rightarrow> 'w \<Rightarrow> (mutation_error + mutation_result) \<times> 'w" where
  "execute_review pv plan q before w =
     (case review_admission q before of
        Some e \<Rightarrow> (Inl e, w)
      | None \<Rightarrow>
          (case mp_user pv w of
             (None, w1) \<Rightarrow>
               (Inl (review_refused TARGET_READ_FAILED Failed_Mutation
                  ''The authenticated mutation principal could not be established before review execution.'' ''$.actor''
                  ''Caller identity evidence is unavailable.'' before), w1)
           | (Some actor, w1) \<Rightarrow>
               (case mp_reviews pv (vq_pull_request q) w1 of
                  (None, w2) \<Rightarrow> (Inl (reviews_unreadable before), w2)
                | (Some reviews, w2) \<Rightarrow>
                    (case existing_review plan q before actor reviews of
                       Some out \<Rightarrow> (out, w2)
                     | None \<Rightarrow> submit_review pv plan q before actor w2))))"

subsection \<open>Merges\<close>

definition merge_refused :: "mutation_error_code \<Rightarrow> mutation_outcome \<Rightarrow> string \<Rightarrow> string \<Rightarrow> string \<Rightarrow> gh_pull \<Rightarrow> mutation_error" where
  "merge_refused code outcome message path reason p = refused code outcome message path reason Merge_Op (Some p)"

text \<open>The checks on the pull request as read: an error, the result of a replay, or go on (\<^const>\<open>None\<close>).\<close>

definition merge_admission_of ::
  "mutation_plan \<Rightarrow> merge_request \<Rightarrow> gh_pull \<Rightarrow> (mutation_error + mutation_result) option" where
  "merge_admission_of plan q before =
     (case admit_head Merge_Op before (Some (gq_head q)) of
        Some e \<Rightarrow> Some (Inl e)
      | None \<Rightarrow>
          if gp_base before \<noteq> gq_base q
          then Some (Inl (merge_refused STALE_BASE Stale
            ''The pull-request base branch changed after the merge request was prepared.'' ''$.expectedBase''
            ''Execution-time pull-request base does not match expectedBase.'' before))
          else if merged_as_requested before q
          then Some (Inr (result_of plan before Idempotent
            ((empty_evidence Merge_Op Idempotent Not_Attempted True)
               \<lparr>mv_postcondition := Some Merged_Post, mv_current := Some (current_evidence before)\<rparr>) None))
          else if gp_state before \<noteq> Open_State
          then Some (Inl (merge_refused NOT_OPEN Blocked
            ''The pull request is not open and is not proven to be the requested merged head.'' ''$.pullRequest.state''
            ''The pull request is not open for merge.'' before))
          else if gp_draft before
          then Some (Inl (merge_refused PR_DRAFT Blocked
            ''Draft pull requests cannot be merged through the governed PR mutation authority.'' ''$.pullRequest.draft''
            ''Draft state blocks merge admission.'' before))
          else if mergeability_blocked before \<or> mergeability_unknown before
          then Some (Inl (merge_refused MERGE_BLOCKED Blocked
            ''Current pull-request mergeability is conflicting, blocked, or not authoritatively known.''
            ''$.pullRequest.mergeability'' ''Merge admission requires known non-conflicting evidence.'' before))
          else None)"

text \<open>A provider without policy evidence gives an undefined policy; a policy read may be rejected.\<close>

definition read_merge_policy ::
  "'w mutation_provider \<Rightarrow> gh_pull \<Rightarrow> 'w \<Rightarrow> (mutation_error + merge_policy option) \<times> 'w" where
  "read_merge_policy pv before w =
     (case mp_policy pv of
        None \<Rightarrow> (Inr None, w)
      | Some policy \<Rightarrow>
          (case policy before w of
             (Some y, w1) \<Rightarrow> (Inr (Some y), w1)
           | (None, w1) \<Rightarrow>
               (Inl (merge_refused POLICY_READ_FAILED Failed_Mutation
                  ''Authoritative repository merge policy evidence could not be established.'' ''$.policy''
                  ''Required merge policy evidence is unavailable.'' before), w1)))"

text \<open>
  \<^verbatim>\<open>providerError\<close> is undefined after a response, and after a rejection with
  \<^verbatim>\<open>undefined\<close>.
\<close>

definition provider_error :: "jsval + merge_response \<Rightarrow> jsval option" where
  "provider_error r = (case r of Inl e \<Rightarrow> if e = JUndef then None else Some e | Inr _ \<Rightarrow> None)"

definition reported_merge :: "jsval + merge_response \<Rightarrow> bool" where
  "reported_merge r = (case r of Inl e \<Rightarrow> False | Inr response \<Rightarrow> mr_merged response)"

definition response_effect :: "jsval + merge_response \<Rightarrow> effect_report" where
  "response_effect r = (if provider_error r = None then Effect_Succeeded else Effect_Ambiguous)"

definition response_of :: "jsval + merge_response \<Rightarrow> provider_response" where
  "response_of r = (if provider_error r = None then Accepted else Ambiguous_Response)"

definition merge_evidence ::
  "mutation_outcome \<Rightarrow> bool \<Rightarrow> postcondition \<Rightarrow> jsval + merge_response \<Rightarrow> gh_pull \<Rightarrow> mutation_evidence" where
  "merge_evidence outcome verified post r current =
     (empty_evidence Merge_Op outcome (response_effect r) verified)
       \<lparr>mv_postcondition := Some post, mv_response := Some (response_of r), mv_current := Some (current_evidence current)\<rparr>"

definition merge_unproven :: "jsval + merge_response \<Rightarrow> gh_pull \<Rightarrow> mutation_error" where
  "merge_unproven r after =
     (if (case provider_error r of None \<Rightarrow> False | Some e \<Rightarrow> error_is_ambiguous e)
      then mutation_error_of RECOVERY_NEEDED Recovery_Mutation
        ''The merge provider result is ambiguous and current evidence does not prove the requested merge.''
        [coded_diagnostic RECOVERY_NEEDED ''$.postcondition'' ''Recover by rereading current provider state before retrying.'']
        (merge_evidence Recovery_Mutation False Not_Proven r after)
      else if reported_merge r
      then mutation_error_of POSTCONDITION_FAILED Failed_Mutation
        ''The provider reported a merge, but the verified postcondition does not match the requested PR head/base.''
        [coded_diagnostic POSTCONDITION_FAILED ''$.postcondition'' ''Requested merged postcondition is not proven.'']
        (merge_evidence Failed_Mutation False Not_Proven r after)
      else mutation_error_of PR_EFFECT_FAILED Failed_Mutation
        ''GitHub did not complete the requested pull-request merge.''
        [coded_diagnostic POSTCONDITION_FAILED ''$.postcondition'' ''Requested merged postcondition is not proven.'']
        (merge_evidence Failed_Mutation False Not_Proven r after))"

definition merge_proven :: "merge_request \<Rightarrow> jsval + merge_response \<Rightarrow> gh_pull \<Rightarrow> bool" where
  "merge_proven q r after \<longleftrightarrow>
     (if provider_error r = None then merged_matching_own_effect after q else merged_as_requested after q)"

definition merge_verdict ::
  "mutation_plan \<Rightarrow> merge_request \<Rightarrow> gh_pull \<Rightarrow> jsval + merge_response \<Rightarrow> gh_pull option \<Rightarrow> mutation_error + mutation_result" where
  "merge_verdict plan q before r after =
     (case after of
        None \<Rightarrow>
          Inl (mutation_error_of POSTCONDITION_READ_FAILED Recovery_Mutation
            ''Merge outcome is not known because the post-mutation pull request reread failed.''
            [coded_diagnostic POSTCONDITION_READ_FAILED ''$.postcondition'' ''Merged state cannot be established safely.'']
            (merge_evidence Recovery_Mutation False Not_Proven r before))
      | Some p \<Rightarrow>
          if merge_proven q r p
          then (let outcome = (if reported_merge r then Succeeded_Mutation else Idempotent) in
                Inr (result_of plan p outcome (merge_evidence outcome True Merged_Post r p) None))
          else Inl (merge_unproven r p))"

definition merge_effect ::
  "'w mutation_provider \<Rightarrow> mutation_plan \<Rightarrow> merge_request \<Rightarrow> gh_pull \<Rightarrow> 'w \<Rightarrow> (mutation_error + mutation_result) \<times> 'w" where
  "merge_effect pv plan q before w =
     (let (r, w1) = mp_merge pv (gq_pull_request q) (gq_strategy q) (gq_head q) w;
          (after, w2) = mp_pull pv (gq_pull_request q) w1 in
      (merge_verdict plan q before r after, w2))"

definition execute_pr_merge ::
  "'w mutation_provider \<Rightarrow> mutation_plan \<Rightarrow> merge_request \<Rightarrow> gh_pull \<Rightarrow> 'w \<Rightarrow> (mutation_error + mutation_result) \<times> 'w" where
  "execute_pr_merge pv plan q before w =
     (case merge_admission_of plan q before of
        Some out \<Rightarrow> (out, w)
      | None \<Rightarrow>
          (case read_merge_policy pv before w of
             (Inl e, w1) \<Rightarrow> (Inl e, w1)
           | (Inr policy, w1) \<Rightarrow>
               if \<not> strategy_allowed (gq_strategy q) policy \<or> \<not> merge_policy_satisfied policy
               then (Inl (merge_refused MERGE_BLOCKED Blocked
                      ''Repository merge policy or required checks/reviews do not admit this merge.'' ''$.strategy''
                      ''The requested merge is not admitted by current policy evidence.'' before), w1)
               else merge_effect pv plan q before w1))"

subsection \<open>Execution\<close>

definition execution_request_error :: mutation_error where
  "execution_request_error =
     mutation_error_of EXECUTION_REQUEST_INVALID Failed_Mutation ''Semantic PR mutation execution request is invalid.''
       [coded_diagnostic EXECUTION_REQUEST_INVALID ''$.version'' ''Execution request version is unsupported.'']
       (empty_evidence Comment_Op Failed_Mutation Not_Attempted False)"

definition execution_plan_error :: "mutation_violation list \<Rightarrow> mutation_error" where
  "execution_plan_error vs =
     mutation_error_of EXECUTION_PLAN_INVALID Failed_Mutation ''Semantic PR mutation plan is invalid and cannot be executed.''
       (map mutation_diagnostic vs) (empty_evidence Comment_Op Failed_Mutation Not_Attempted False)"

definition run_plan ::
  "(jstr \<Rightarrow> jstr) \<Rightarrow> 'w mutation_provider \<Rightarrow> mutation_plan \<Rightarrow> 'w \<Rightarrow> (mutation_error + mutation_result) \<times> 'w" where
  "run_plan lc pv plan w =
     (case read_target pv plan w of
        (Inl e, w1) \<Rightarrow> (Inl e, w1)
      | (Inr (context, p), w1) \<Rightarrow>
          (case admit_identity lc plan context p of
             Some e \<Rightarrow> (Inl e, w1)
           | None \<Rightarrow>
               if gp_state p \<noteq> Open_State \<and> request_operation (pp_request plan) \<noteq> Merge_Op
               then (Inl (refused NOT_OPEN Blocked ''The pull request is not open for this mutation.''
                      ''$.pullRequest.state'' ''The pull request is not open.'' (request_operation (pp_request plan)) (Some p)), w1)
               else (case pp_request plan of
                       Comment_Request q \<Rightarrow> execute_comment pv plan q p w1
                     | Review_Request q \<Rightarrow> execute_review pv plan q p w1
                     | Merge_Request q \<Rightarrow> execute_pr_merge pv plan q p w1)))"

definition execute_mutation ::
  "(jstr \<Rightarrow> jstr) \<Rightarrow> json_text \<Rightarrow> 'w mutation_provider \<Rightarrow> jsval \<Rightarrow> 'w \<Rightarrow> (mutation_error + mutation_result) \<times> 'w" where
  "execute_mutation lc t pv v w =
     (if \<not> is_record v \<or> get_prop v (js ''version'') \<noteq> JStr (js ''1'') \<or> \<not> has_prop v (js ''plan'')
      then (Inl execution_request_error, w)
      else case validate_mutation_plan lc t (get_prop v (js ''plan'')) of
             Inl vs \<Rightarrow> (Inl (execution_plan_error vs), w)
           | Inr plan \<Rightarrow> run_plan lc pv plan w)"

subsection \<open>Recording the effects\<close>

datatype provider_effect =
    Posted int jstr
  | Reviewed int review_intent jstr jstr
  | Merged int merge_strategy jstr

definition reading :: "('w \<Rightarrow> 'a \<times> 'w) \<Rightarrow> 'w \<times> 'e list \<Rightarrow> 'a \<times> 'w \<times> 'e list" where
  "reading f s = (case s of (w, log) \<Rightarrow> case f w of (r, w') \<Rightarrow> (r, w', log))"

definition writing :: "'e \<Rightarrow> ('w \<Rightarrow> 'a \<times> 'w) \<Rightarrow> 'w \<times> 'e list \<Rightarrow> 'a \<times> 'w \<times> 'e list" where
  "writing e f s = (case s of (w, log) \<Rightarrow> case f w of (r, w') \<Rightarrow> (r, w', log @ [e]))"

definition record_provider :: "'w mutation_provider \<Rightarrow> ('w \<times> provider_effect list) mutation_provider" where
  "record_provider pv =
     \<lparr>mp_context = reading (mp_context pv), mp_user = reading (mp_user pv), mp_pull = (\<lambda>n. reading (mp_pull pv n)),
      mp_comments = (\<lambda>n. reading (mp_comments pv n)), mp_comment = (\<lambda>n b. writing (Posted n b) (mp_comment pv n b)),
      mp_reviews = (\<lambda>n. reading (mp_reviews pv n)),
      mp_review = (\<lambda>n i b h. writing (Reviewed n i b h) (mp_review pv n i b h)),
      mp_merge = (\<lambda>n s h. writing (Merged n s h) (mp_merge pv n s h)),
      mp_policy = map_option (\<lambda>f p. reading (f p)) (mp_policy pv), mp_observe = mp_observe pv\<rparr>"

lemma record_provider_sel [simp]:
  "mp_context (record_provider pv) (w, log) = (case mp_context pv w of (r, w') \<Rightarrow> (r, w', log))"
  "mp_user (record_provider pv) (w, log) = (case mp_user pv w of (r, w') \<Rightarrow> (r, w', log))"
  "mp_pull (record_provider pv) n (w, log) = (case mp_pull pv n w of (r, w') \<Rightarrow> (r, w', log))"
  "mp_comments (record_provider pv) n (w, log) = (case mp_comments pv n w of (r, w') \<Rightarrow> (r, w', log))"
  "mp_reviews (record_provider pv) n (w, log) = (case mp_reviews pv n w of (r, w') \<Rightarrow> (r, w', log))"
  "mp_comment (record_provider pv) n b (w, log) = (case mp_comment pv n b w of (r, w') \<Rightarrow> (r, w', log @ [Posted n b]))"
  "mp_review (record_provider pv) n i b h (w, log) = (case mp_review pv n i b h w of (r, w') \<Rightarrow> (r, w', log @ [Reviewed n i b h]))"
  "mp_merge (record_provider pv) n s h (w, log) = (case mp_merge pv n s h w of (r, w') \<Rightarrow> (r, w', log @ [Merged n s h]))"
  "mp_policy (record_provider pv) = map_option (\<lambda>f p. reading (f p)) (mp_policy pv)"
  "mp_observe (record_provider pv) = mp_observe pv"
  by (simp_all add: record_provider_def reading_def writing_def)

lemma reading_eq [simp]: "reading f (w, log) = (case f w of (r, w') \<Rightarrow> (r, w', log))"
  by (simp add: reading_def)

subsection \<open>What is reported of an effect\<close>

text \<open>
  An outcome accounts for the effects: the evidence says that no effect was attempted exactly when none
  was, it carries the outcome, and it is verified exactly when there is a result.
\<close>

fun outcome_evidence :: "mutation_error + mutation_result \<Rightarrow> mutation_evidence" where
  "outcome_evidence (Inl e) = er_evidence e"
| "outcome_evidence (Inr r) = sr_evidence r"

fun reported_outcome :: "mutation_error + mutation_result \<Rightarrow> mutation_outcome" where
  "reported_outcome (Inl e) = er_outcome e"
| "reported_outcome (Inr r) = sr_outcome r"

definition accounts :: "mutation_error + mutation_result \<Rightarrow> 'e list \<Rightarrow> bool" where
  "accounts out log \<longleftrightarrow>
     (mv_effect (outcome_evidence out) = Not_Attempted \<longleftrightarrow> log = []) \<and> mv_outcome (outcome_evidence out) = reported_outcome out \<and>
     mv_verified (outcome_evidence out) = (\<exists>r. out = Inr r) \<and>
     ((\<exists>r. out = Inr r) \<longleftrightarrow> reported_outcome out = Succeeded_Mutation \<or> reported_outcome out = Idempotent)"

lemma error_sel [simp]:
  "er_code (mutation_error_of c out m ds ev) = c" "er_outcome (mutation_error_of c out m ds ev) = out"
  "er_evidence (mutation_error_of c out m ds ev) = ev"
  by (simp_all add: mutation_error_of_def)

lemma empty_evidence_sel [simp]:
  "mv_effect (empty_evidence op out e b) = e" "mv_outcome (empty_evidence op out e b) = out"
  "mv_verified (empty_evidence op out e b) = b" "mv_operation (empty_evidence op out e b) = op"
  by (simp_all add: empty_evidence_def)

lemma result_of_sel [simp]:
  "sr_outcome (result_of plan p out ev res) = out" "sr_evidence (result_of plan p out ev res) = ev"
  "sr_current (result_of plan p out ev res) = p" "sr_plan (result_of plan p out ev res) = plan"
  by (simp_all add: result_of_def)

lemma accounts_refused [simp]:
  "out \<notin> {Succeeded_Mutation, Idempotent} \<Longrightarrow> accounts (Inl (refused c out m path r op p)) log \<longleftrightarrow> log = []"
  by (auto simp: accounts_def refused_def)

lemma accounts_error [simp]:
  "accounts (Inl (mutation_error_of c out m ds ev)) log \<longleftrightarrow>
     (mv_effect ev = Not_Attempted \<longleftrightarrow> log = []) \<and> mv_outcome ev = out \<and> \<not> mv_verified ev \<and>
     out \<noteq> Succeeded_Mutation \<and> out \<noteq> Idempotent"
  by (auto simp: accounts_def)

lemma accounts_result [simp]:
  "accounts (Inr (result_of plan p out ev res)) log \<longleftrightarrow>
     (mv_effect ev = Not_Attempted \<longleftrightarrow> log = []) \<and> mv_outcome ev = out \<and> mv_verified ev \<and>
     (out = Succeeded_Mutation \<or> out = Idempotent)"
  by (auto simp: accounts_def)

lemma admit_head_accounts: "admit_head op p h = Some e \<Longrightarrow> accounts (Inl e) []"
  by (auto simp: admit_head_def split: option.splits if_splits)

lemma admit_head_None: "admit_head op p (Some h) = None \<longleftrightarrow> gp_head_sha p = Some h"
  by (auto simp: admit_head_def)

text \<open>What the target satisfies when an effect is asked for.\<close>

fun admitted_effect :: "'w mutation_provider \<Rightarrow> pr_request \<Rightarrow> gh_pull \<Rightarrow> provider_effect \<Rightarrow> bool" where
  "admitted_effect pv (Comment_Request q) p e \<longleftrightarrow>
     gp_state p = Open_State \<and> (case cq_head q of None \<Rightarrow> True | Some h \<Rightarrow> gp_head_sha p = Some h) \<and>
     e = Posted (cq_pull_request q) (cq_body q)"
| "admitted_effect pv (Review_Request q) p e \<longleftrightarrow>
     gp_state p = Open_State \<and> gp_head_sha p = Some (vq_head q) \<and>
     e = Reviewed (vq_pull_request q) (vq_intent q) (vq_body q) (vq_head q)"
| "admitted_effect pv (Merge_Request q) p e \<longleftrightarrow>
     gp_state p = Open_State \<and> gp_head_sha p = Some (gq_head q) \<and> gp_base p = gq_base q \<and> \<not> gp_draft p \<and>
     \<not> mergeability_blocked p \<and> \<not> mergeability_unknown p \<and>
     (case mp_policy pv of None \<Rightarrow> True
      | Some policy \<Rightarrow> \<exists>w y w'. policy p w = (Some y, w') \<and> strategy_allowed (gq_strategy q) (Some y) \<and>
          merge_policy_satisfied (Some y)) \<and>
     e = Merged (gq_pull_request q) (gq_strategy q) (gq_head q)"

definition effect_account :: "'w mutation_provider \<Rightarrow> pr_request \<Rightarrow> gh_pull \<Rightarrow> mutation_error + mutation_result \<Rightarrow> provider_effect list \<Rightarrow> bool" where
  "effect_account pv q p out log \<longleftrightarrow> accounts out log \<and> (log = [] \<or> (\<exists>e. log = [e] \<and> admitted_effect pv q p e))"

lemma comment_account:
  assumes "execute_comment (record_provider pv) plan q p (w, []) = (out, w', log)" and "gp_state p = Open_State"
  shows "effect_account pv (Comment_Request q) p out log"
proof (cases "admit_head Comment_Op p (cq_head q)")
  case (Some e)
  then show ?thesis
    using assms by (auto simp: execute_comment_def effect_account_def admit_head_accounts)
next
  case None
  then have head: "case cq_head q of None \<Rightarrow> True | Some h \<Rightarrow> gp_head_sha p = Some h"
    by (cases "cq_head q") (simp_all add: admit_head_None)
  have "log = [Posted (cq_pull_request q) (cq_body q)] \<and> accounts out log"
    using assms(1) None
    by (auto simp: execute_comment_def comment_failure_def comment_verdict_def comment_evidence_def
        split: prod.splits sum.splits option.splits if_splits)
  with head assms(2) show ?thesis by (auto simp: effect_account_def)
qed

lemma review_account:
  assumes "execute_review (record_provider pv) plan q p (w, []) = (out, w', log)"
  shows "effect_account pv (Review_Request q) p out log"
proof (cases "review_admission q p")
  case (Some e)
  then have "accounts (Inl e) []"
    by (auto simp: review_admission_def review_refused_def admit_head_accounts split: option.splits if_splits)
  then show ?thesis using assms Some by (simp add: execute_review_def effect_account_def)
next
  case None
  then have open_head: "gp_state p = Open_State" "gp_head_sha p = Some (vq_head q)"
    by (auto simp: review_admission_def admit_head_None split: option.splits if_splits)
  obtain user w1 where user: "mp_user pv w = (user, w1)" by fastforce
  show ?thesis
  proof (cases user)
    case None
    with user \<open>review_admission q p = None\<close> assms show ?thesis
      by (auto simp: execute_review_def review_refused_def effect_account_def)
  next
    case (Some actor)
    obtain reviews w2 where reviews: "mp_reviews pv (vq_pull_request q) w1 = (reviews, w2)" by fastforce
    show ?thesis
    proof (cases reviews)
      case None
      with user Some reviews \<open>review_admission q p = None\<close> assms show ?thesis
        by (auto simp: execute_review_def reviews_unreadable_def effect_account_def)
    next
      case (Some rs)
      show ?thesis
      proof (cases "existing_review plan q p actor rs")
        case (Some r)
        then have "accounts r []"
          by (auto simp: existing_review_def Let_def recorded_review_def review_refused_def split: if_splits option.splits)
        with Some user \<open>user = Some actor\<close> reviews \<open>reviews = Some rs\<close> \<open>review_admission q p = None\<close> assms show ?thesis
          by (simp add: execute_review_def effect_account_def)
      next
        case None
        with user \<open>user = Some actor\<close> reviews \<open>reviews = Some rs\<close> \<open>review_admission q p = None\<close> assms
        have "submit_review (record_provider pv) plan q p actor (w2, []) = (out, w', log)"
          by (simp add: execute_review_def)
        then have "log = [Reviewed (vq_pull_request q) (vq_intent q) (vq_body q) (vq_head q)] \<and> accounts out log"
          by (auto simp: submit_review_def review_failure_def review_recovery_error_def review_verdict_def recorded_review_def
              review_evidence_def split: prod.splits sum.splits option.splits if_splits)
        with open_head show ?thesis by (auto simp: effect_account_def)
      qed
    qed
  qed
qed

lemma merge_admission_accounts: "merge_admission_of plan q p = Some out \<Longrightarrow> accounts out []"
  by (auto simp: merge_admission_of_def merge_refused_def admit_head_accounts split: option.splits if_splits)

lemma merge_admission_None:
  assumes "merge_admission_of plan q p = None"
  shows "gp_state p = Open_State \<and> gp_head_sha p = Some (gq_head q) \<and> gp_base p = gq_base q \<and> \<not> gp_draft p \<and>
    \<not> mergeability_blocked p \<and> \<not> mergeability_unknown p"
  using assms by (auto simp: merge_admission_of_def admit_head_None split: option.splits if_splits)

lemma recorded_policy:
  assumes "read_merge_policy (record_provider pv) p (w, log) = (r, w', log')"
  shows "log' = log \<and> read_merge_policy pv p w = (r, w')"
  using assms by (auto simp: read_merge_policy_def split: option.splits prod.splits)

lemma merge_policy_read:
  assumes "read_merge_policy pv p w = (Inr policy, w')"
  shows "case mp_policy pv of None \<Rightarrow> policy = None | Some f \<Rightarrow> \<exists>y w'. f p w = (Some y, w') \<and> policy = Some y"
  using assms by (auto simp: read_merge_policy_def split: option.splits prod.splits)

lemma merge_effect_log:
  assumes "merge_effect (record_provider pv) plan q p (w, []) = (out, w', log)"
  shows "log = [Merged (gq_pull_request q) (gq_strategy q) (gq_head q)] \<and> accounts out log"
  using assms
  by (auto simp: merge_effect_def merge_verdict_def merge_unproven_def merge_evidence_def response_effect_def Let_def
      split: prod.splits sum.splits option.splits if_splits)

lemma merge_account:
  assumes "execute_pr_merge (record_provider pv) plan q p (w, []) = (out, w', log)"
  shows "effect_account pv (Merge_Request q) p out log"
proof (cases "merge_admission_of plan q p")
  case (Some o')
  with assms show ?thesis
    by (auto simp: execute_pr_merge_def effect_account_def merge_admission_accounts)
next
  case None
  obtain r w1 l1 where policy: "read_merge_policy (record_provider pv) p (w, []) = (r, w1, l1)" by (metis prod_cases3)
  note read = recorded_policy [OF policy]
  show ?thesis
  proof (cases r)
    case (Inl e)
    then have "accounts (Inl e) []"
      using read by (auto simp: read_merge_policy_def merge_refused_def split: option.splits prod.splits)
    with Inl None policy read assms show ?thesis by (auto simp: execute_pr_merge_def effect_account_def)
  next
    case (Inr y)
    show ?thesis
    proof (cases "strategy_allowed (gq_strategy q) y \<and> merge_policy_satisfied y")
      case False
      with Inr None policy read assms show ?thesis
        by (auto simp: execute_pr_merge_def effect_account_def merge_refused_def)
    next
      case True
      with Inr None policy read assms have "merge_effect (record_provider pv) plan q p (w1, []) = (out, w', log)"
        by (simp add: execute_pr_merge_def)
      from merge_effect_log [OF this] merge_admission_None [OF None] True merge_policy_read [of pv p w y w1] read Inr
      show ?thesis by (auto simp: effect_account_def split: option.splits)
    qed
  qed
qed

lemma recorded_target:
  assumes "read_target (record_provider pv) plan (w, log) = (r, w', log')"
  shows "log' = log \<and> read_target pv plan w = (r, w')"
  using assms by (auto simp: read_target_def Let_def split: prod.splits option.splits)

lemma target_accounts: "read_target pv plan w = (Inl e, w') \<Longrightarrow> accounts (Inl e) []"
  by (auto simp: read_target_def Let_def split: prod.splits option.splits)

lemma identity_accounts: "admit_identity lc plan c p = Some e \<Longrightarrow> accounts (Inl e) []"
  by (auto simp: admit_identity_def split: if_splits)

lemma run_plan_account:
  assumes "run_plan lc (record_provider pv) plan (w, []) = (out, w', log)"
  shows "accounts out log \<and> (log = [] \<or>
    (\<exists>c p w1 e. read_target pv plan w = (Inr (c, p), w1) \<and> admit_identity lc plan c p = None \<and>
       log = [e] \<and> admitted_effect pv (pp_request plan) p e))"
proof -
  obtain r w1 l1 where target: "read_target (record_provider pv) plan (w, []) = (r, w1, l1)" by (metis prod_cases3)
  note read = recorded_target [OF target]
  show ?thesis
  proof (cases r)
    case (Inl e)
    with target read assms show ?thesis by (auto simp: run_plan_def target_accounts)
  next
    case (Inr cp)
    obtain c p where cp: "cp = (c, p)" by fastforce
    show ?thesis
    proof (cases "admit_identity lc plan c p")
      case (Some e)
      with Inr cp target read assms show ?thesis by (auto simp: run_plan_def identity_accounts)
    next
      case None
      let ?closed = "gp_state p \<noteq> Open_State \<and> request_operation (pp_request plan) \<noteq> Merge_Op"
      show ?thesis
      proof (cases ?closed)
        case True
        with None Inr cp target read assms show ?thesis by (auto simp: run_plan_def)
      next
        case False
        then have "effect_account pv (pp_request plan) p out log"
          using None Inr cp target read assms
          by (cases "pp_request plan") (auto simp: run_plan_def intro: comment_account review_account merge_account)
        with None Inr cp read show ?thesis by (auto simp: effect_account_def)
      qed
    qed
  qed
qed

text \<open>
  C32.  A mutation has at most one effect, on an admitted target.  Whatever the request value and the provider:
  the execution asks the provider for no effect, or for the one effect of a valid plan after a fresh read of
  the pull request that identifies the repository and the number and satisfies the admission of the operation
  (open; the expected head; for a merge also the expected base, not a draft, mergeability neither blocked nor
  unknown, and the policy evidence, where the provider has it).  The evidence of the outcome accounts for it:
  it says that no effect was attempted exactly when none was, and it is verified exactly for a result.
\<close>

theorem mutation_effect_admitted:
  assumes "execute_mutation lc t (record_provider pv) v (w, []) = (out, w', log)"
  shows "accounts out log \<and> (log = [] \<or>
    (\<exists>plan c p w1 e. validate_mutation_plan lc t (get_prop v (js ''plan'')) = Inr plan \<and>
       read_target pv plan w = (Inr (c, p), w1) \<and> admit_identity lc plan c p = None \<and>
       log = [e] \<and> admitted_effect pv (pp_request plan) p e))"
proof (cases "validate_mutation_plan lc t (get_prop v (js ''plan''))")
  case (Inl vs)
  then show ?thesis
    using assms by (auto simp: execute_mutation_def execution_request_error_def execution_plan_error_def split: if_splits)
next
  case (Inr plan)
  then show ?thesis
    using assms run_plan_account [of lc pv plan w out w' log]
    by (auto simp: execute_mutation_def execution_request_error_def split: if_splits)
qed

subsection \<open>What a result proves\<close>

lemma target_request: "merged_as_requested p q \<Longrightarrow> merged_matching_target p q"
  by (simp add: merged_as_requested_def)

definition proven_merge :: "merge_request \<Rightarrow> mutation_result \<Rightarrow> bool" where
  "proven_merge q r \<longleftrightarrow>
     merged_matching_target (sr_current r) q \<and>
     (gp_merge_method (sr_current r) = Some (gq_strategy q) \<or>
      gp_merge_method (sr_current r) = None \<and> mv_response (sr_evidence r) = Some Accepted) \<and>
     mv_postcondition (sr_evidence r) = Some Merged_Post \<and>
     (sr_outcome r = Succeeded_Mutation \<longrightarrow> mv_effect (sr_evidence r) = Effect_Succeeded)"

lemma merge_verdict_proven:
  assumes "merge_verdict plan q p x after = Inr r"
  shows "proven_merge q r \<and> sr_plan r = plan \<and> after = Some (sr_current r)"
  using assms
  by (auto simp: merge_verdict_def merge_proven_def proven_merge_def merged_as_requested_def merged_matching_own_effect_def
      merge_evidence_def response_effect_def response_of_def provider_error_def reported_merge_def Let_def
      split: option.splits if_splits sum.splits)

lemma merge_admission_proven:
  assumes "merge_admission_of plan q p = Some (Inr r)"
  shows "proven_merge q r \<and> sr_plan r = plan \<and> sr_current r = p"
  using assms
  by (auto simp: merge_admission_of_def proven_merge_def merged_as_requested_def split: option.splits if_splits)

lemma pr_merge_proven:
  assumes "execute_pr_merge pv plan q p w = (Inr r, w')"
  shows "proven_merge q r \<and> sr_plan r = plan"
  using assms merge_admission_proven [of plan q p r] merge_verdict_proven [of plan q p _ _ r]
  by (auto simp: execute_pr_merge_def merge_effect_def Let_def split: option.splits prod.splits sum.splits if_splits)

lemma comment_plan: "execute_comment pv plan q p w = (Inr r, w') \<Longrightarrow> sr_plan r = plan"
  by (auto simp: execute_comment_def comment_verdict_def comment_failure_def split: option.splits prod.splits sum.splits if_splits)

lemma review_plan: "execute_review pv plan q p w = (Inr r, w') \<Longrightarrow> sr_plan r = plan"
  by (auto simp: execute_review_def submit_review_def review_failure_def review_verdict_def existing_review_def recorded_review_def
      Let_def split: option.splits prod.splits sum.splits if_splits)

lemma run_plan_result:
  assumes "run_plan lc pv plan w = (Inr r, w')"
  shows "sr_plan r = plan \<and> (\<forall>q. pp_request plan = Merge_Request q \<longrightarrow> proven_merge q r)"
proof -
  obtain c p w1 where run: "(case pp_request plan of
        Comment_Request q \<Rightarrow> execute_comment pv plan q p w1
      | Review_Request q \<Rightarrow> execute_review pv plan q p w1
      | Merge_Request q \<Rightarrow> execute_pr_merge pv plan q p w1) = (Inr r, w')"
    using assms by (auto simp: run_plan_def split: prod.splits sum.splits option.splits if_splits)
  show ?thesis
    using run comment_plan [of pv plan _ p w1 r w'] review_plan [of pv plan _ p w1 r w'] pr_merge_proven [of pv plan _ p w1 r w']
    by (cases "pp_request plan") auto
qed


subsection \<open>A sample merge\<close>

definition sample_pull_state :: "bool \<Rightarrow> gh_pull" where
  "sample_pull_state merged =
     \<lparr>gp_number = 8, gp_state = (if merged then Closed_State else Open_State), gp_draft = False, gp_head = js ''feat/7-x'',
      gp_head_sha = Some (js ''c0ffee''), gp_base = js ''main'', gp_mergeable = Some (Some True), gp_mergeable_state = Some (js ''clean''),
      gp_merged = Some merged, gp_merged_at = None, gp_merge_commit = None, gp_merge_method = None, gp_rest = JUndef\<rparr>"

definition sample_provider :: "bool mutation_provider" where
  "sample_provider =
     \<lparr>mp_context = (\<lambda>w. (Some \<lparr>rc_hostname = js ''github.com'', rc_name = js ''acme/app'', rc_id = None\<rparr>, w)),
      mp_user = (\<lambda>w. (None, w)), mp_pull = (\<lambda>n w. (Some (sample_pull_state w), w)), mp_comments = (\<lambda>n w. (None, w)),
      mp_comment = (\<lambda>n b w. (Inl JUndef, w)), mp_reviews = (\<lambda>n w. (None, w)), mp_review = (\<lambda>n i b h w. (Inl JUndef, w)),
      mp_merge = (\<lambda>n s h w. (Inr \<lparr>mr_merged = True\<rparr>, True)), mp_policy = None, mp_observe = (\<lambda>p c. None)\<rparr>"

definition sample_execution :: jsval where
  "sample_execution = JObj [(js ''version'', JStr (js ''1'')), (js ''plan'', plan_json (plan_of_request (Merge_Request sample_merge)))]"

lemma sample_execution_plan:
  "validate_mutation_plan (\<lambda>s. s) t (get_prop sample_execution (js ''plan'')) = Inr (plan_of_request (Merge_Request sample_merge))"
  by (simp add: sample_execution_def plan_survives [OF sample_merge_plans sample_merge_ascii])

lemma sample_run:
  "\<exists>r. execute_mutation (\<lambda>s. s) t (record_provider sample_provider) sample_execution (False, []) =
     (Inr r, True, [Merged 8 Squash (js ''c0ffee'')]) \<and> sr_plan r = plan_of_request (Merge_Request sample_merge)"
proof -
  let ?plan = "plan_of_request (Merge_Request sample_merge)"
  have target: "read_target (record_provider sample_provider) ?plan (False, []) =
      (Inr (\<lparr>rc_hostname = js ''github.com'', rc_name = js ''acme/app'', rc_id = None\<rparr>, sample_pull_state False), False, [])"
    by (simp add: read_target_def sample_provider_def Let_def)
  have identity: "admit_identity (\<lambda>s. s) ?plan \<lparr>rc_hostname = js ''github.com'', rc_name = js ''acme/app'', rc_id = None\<rparr>
      (sample_pull_state False) = None"
    by (simp add: admit_identity_def repository_matches_def sample_merge_def sample_repository_def sample_pull_state_def)
  have admitted: "merge_admission_of ?plan sample_merge (sample_pull_state False) = None"
    by (simp add: merge_admission_of_def admit_head_def sample_pull_state_def sample_merge_def merged_as_requested_def
        mergeability_blocked_def mergeability_unknown_def)
  have policy: "read_merge_policy (record_provider sample_provider) p s = (Inr None, s)" for p s
    by (cases s) (simp add: read_merge_policy_def sample_provider_def)
  have "\<exists>r. merge_effect (record_provider sample_provider) ?plan sample_merge (sample_pull_state False) (False, []) =
      (Inr r, True, [Merged 8 Squash (js ''c0ffee'')]) \<and> sr_plan r = ?plan"
    by (simp add: merge_effect_def sample_provider_def merge_verdict_def merge_proven_def provider_error_def
        merged_matching_own_effect_def merged_matching_target_def is_merged_def sample_pull_state_def sample_merge_def Let_def)
  then have "\<exists>r. run_plan (\<lambda>s. s) (record_provider sample_provider) ?plan (False, []) =
      (Inr r, True, [Merged 8 Squash (js ''c0ffee'')]) \<and> sr_plan r = ?plan"
    by (simp add: run_plan_def target identity execute_pr_merge_def admitted policy strategy_allowed_def merge_policy_satisfied_def)
  then show ?thesis
    using sample_execution_plan [of t] by (simp add: execute_mutation_def sample_execution_def)
qed

theorem mutation_effect_admitted_witness:
  "\<exists>plan c p w1. validate_mutation_plan (\<lambda>s. s) sample_text (get_prop sample_execution (js ''plan'')) = Inr plan \<and>
     read_target sample_provider plan False = (Inr (c, p), w1) \<and>
     admitted_effect sample_provider (pp_request plan) p (Merged 8 Squash (js ''c0ffee''))"
proof -
  obtain r where "execute_mutation (\<lambda>s. s) sample_text (record_provider sample_provider) sample_execution (False, []) =
     (Inr r, True, [Merged 8 Squash (js ''c0ffee'')])"
    using sample_run by blast
  from mutation_effect_admitted [OF this] show ?thesis by auto
qed


end
