(* ===== verification/Governed_Sample.thy ===== *)
theory Governed_Sample
  imports Merge_Admission Trusted_Adapter
begin

text \<open>
  A repository with a Change under way, for the witnesses of merge and Ready: the evidence of Issue 7, its branch and its
  pull request, which is a draft, in review or merged; and the merge admission of that evidence.
\<close>

subsection \<open>Issuance planned again\<close>

text \<open>
  Planning the issuance of a healthy Change again never contradicts merge admission: the plan returns the
  projected Change, with its branch, base and pull request.
\<close>

lemma verification_value_pull:
  assumes "clean_run (verification_checks (verification_value ver)) (Some ver')"
  shows "same_defined_value (iv_pull_request ver') (iv_pull_request ver)"
proof -
  from assms have "clean_run (expected_number (verification_value ver)) (iv_pull_request ver')"
    unfolding clean_verification by blast
  then show ?thesis
    by (cases "iv_pull_request ver")
      (auto simp: expected_number_def verification_value_def clean_run_bind checked Let_def same_defined_value_def
        opt_prop_def positive_integer_def number_value_def split: if_splits option.splits)
qed

lemma replanned_agrees:
  assumes "plan_change_issuance lc pa aa v = Inr p" and "pr_status (project_change lc (pa_branch pa) v) = Healthy"
    and "pr_change (project_change lc (pa_branch pa) v) = Some c0" and "validate_change lc (change_value c0) = Inr c"
    and "change_issuer c = Some inari_issuer_principal"
    and "pr_canonical_branch (project_change lc (pa_branch pa) v) = Some branch"
    and "projected_branch c = Some branch" and "projected_pull_request c = Some n" and "projected_pull_request c0 = Some n"
  shows "agreed_issuance p c (pr_canonical_base (project_change lc (pa_branch pa) v)) branch n"
proof -
  from planned_issuance [OF assms(1)] obtain base pull built where
    base: "pr_canonical_base (project_change lc (pa_branch pa) v) = Some base"
    and built: "build_issuance_plan lc pa Healthy c0 branch base (input_branch_plan pa v) pull = Some built"
    and valid: "validate_issuance_plan lc pa (issuance_plan_value built) = Some (Inr p)"
    using assms(2,3,6) by (metis option.inject)
  note shape = accepted_issuance_shape [OF valid, simplified]
  note b = build_issuance_Some [OF built]
  have result: "ip_result built = c0" "ip_mode built = Return_Existing" using b(3) by simp_all
  have same: "ip_result p = c" using shape(1) result(1) assms(4) by simp
  have ver: "iv_branch (ip_verification p) = branch" "iv_base (ip_verification p) = base"
    using verification_value_branches [OF shape(4)] b(1,2) by simp_all
  have "iv_pull_request (ip_verification built) = Some n"
    using built assms(9) by (auto simp: build_issuance_plan_def build_issuance_verification_def issuance_plan_of_def
        split: sum.splits if_splits)
  then have "same_defined_value (iv_pull_request (ip_verification p)) (Some n)"
    using verification_value_pull [OF shape(4)] by simp
  with same ver assms(5,7,8) base shape(8) show ?thesis
    by (simp add: agreed_issuance_def same_defined_value_def)
qed

subsection \<open>Evidence\<close>

definition merge_branch_json :: jsval where
  "merge_branch_json = JObj [(js ''name'', JStr (js ''feat/7-x'')), (js ''rootIssue'', JNum (Integral 7))]"

definition issued_by_inari :: jsval where
  "issued_by_inari = JObj [(js ''issuer'', JStr inari_issuer_principal)]"

definition merge_pull_json :: "change_state \<Rightarrow> jsval" where
  "merge_pull_json s =
     JObj [(js ''number'', JNum (Integral 8)), (js ''head'', JStr (js ''feat/7-x'')), (js ''headSha'', JStr sample_commit),
           (js ''base'', JStr (js ''main'')),
           (js ''state'', JStr (if s = MERGED then js ''closed'' else js ''open'')), (js ''draft'', JBool (s = DRAFT)),
           (js ''merged'', JBool (s = MERGED)), (js ''provenance'', issued_by_inari)]"

definition pull_artifact :: jsval where
  "pull_artifact = JObj [(js ''contract'', merge_contract), (js ''body'', JStr (js ''body''))]"

definition issue_contract :: jsval where
  "issue_contract = JObj [(js ''artifactKind'', JStr (js ''issue'')),
     (js ''provenance'', JObj [(js ''ref'', JStr (js ''main'')),
        (js ''repository'', JObj [(js ''host'', JStr (js ''github.com'')), (js ''repositoryId'', JStr (js ''42''))])])]"

definition issue_artifact :: jsval where
  "issue_artifact = JObj [(js ''contract'', issue_contract), (js ''body'', JStr (js ''body''))]"

definition merge_read_branch :: branch_evidence where
  "merge_read_branch = \<lparr>be_name = js ''feat/7-x'', be_sha = None, be_root_issue = Some 7\<rparr>"

definition merge_read_pull :: "change_state \<Rightarrow> pull_request_evidence" where
  "merge_read_pull s =
     \<lparr>pe_number = 8, pe_head = js ''feat/7-x'', pe_head_sha = Some sample_commit, pe_base = js ''main'',
      pe_state = (if s = MERGED then Closed_State else Open_State),
      pe_draft = s = DRAFT, pe_merged = Some (s = MERGED), pe_accepted = None, pe_root_issue = None,
      pe_provenance = Some merge_provenance_sample\<rparr>"

definition governed_evidence :: "change_state \<Rightarrow> projection_input" where
  "governed_evidence s =
     (case sample_projection_input [merge_branch_json] [merge_pull_json s] of JObj kvs \<Rightarrow> kvs | _ \<Rightarrow> [])
     @ [(js ''provenance'', issued_by_inari),
        (js ''readyEvidence'', JObj [(js ''issue'', issue_artifact), (js ''pullRequest'', pull_artifact)])]"

lemma merge_branch_read: "clean_run (parse_branch_evidence merge_branch_json path) (Some merge_read_branch)"
  by (simp del: bounded_text.simps commit_sha.simps add: parse_branch_evidence_def clean_run_bind checked merge_branch_json_def
      merge_read_branch_def max_safe_integer_def)

lemma issued_by_value: "issued_by_inari = provenance_value merge_provenance_sample"
  by (simp add: issued_by_inari_def provenance_value_def merge_provenance_sample_def no_provenance_def)

lemma issued_by_valid: "validate_change_provenance issued_by_inari path = Inr merge_provenance_sample"
  unfolding issued_by_value
  by (rule wf_provenance_validates) (use merge_principal in \<open>simp add: merge_provenance_sample_def no_provenance_def wf_principal_def\<close>)

lemma merge_pull_read: "clean_run (parse_pull_request_evidence (merge_pull_json s) path) (Some (merge_read_pull s))"
  by (simp del: bounded_text.simps commit_sha.simps add: parse_pull_request_evidence_def clean_run_bind checked merge_pull_json_def
      merge_read_pull_def pull_request_keys_def max_safe_integer_def issued_by_valid)

lemma merge_front:
  "run_checks (projection_front (\<lambda>s. s) sample_authority (JObj (governed_evidence s))) =
    ((Some sample_identity, merge_provenance_sample,
      (Some (js ''feat/7-x''), Some (js ''feat/7-x''), Some (js ''main'')),
      Some (get_prop (sample_projection_input [merge_branch_json] [merge_pull_json s]) (js ''evidence''))), [])"
  using wf_identity_validates [OF wf_sample_identity, of "\<lambda>s. s" "js ''$.change''"]
  by (simp add: clean_run_checks projection_front_def clean_run_bind checked governed_evidence_def issued_by_valid
      sample_projection_input_def projection_input_keys_def projected_identity_def projected_provenance_def
      canonical_branches_def consumed_branch_plan_def sample_authority_def base_mismatch_if_def evidence_object_def Let_def)

lemma merge_reads:
  "run_checks (evidence_reads (get_prop (sample_projection_input [merge_branch_json] [merge_pull_json s]) (js ''evidence''))) =
    ((Read_Available (7, Open_State), Read_Available [merge_read_branch], Read_Available [merge_read_pull s]), [])"
proof -
  have "clean_run (parse_branch_list (JArr [merge_branch_json]) path) (Some [merge_read_branch])" for path
    by (auto simp: parse_branch_list_def max_projection_candidates_def checked merge_branch_read clean_run_bind
        List.map_filter_def intro!: exI [of _ "[Some merge_read_branch]"])
  then have "clean_run (read_evidence_source (available (JArr [merge_branch_json])) path parse_branch_list)
      (Read_Available [merge_read_branch])" for path
    by (auto simp: available_def checked intro: exI [of _ "Some [merge_read_branch]"])
  moreover have "clean_run (parse_pull_request_list (JArr [merge_pull_json s]) path) (Some [merge_read_pull s])" for path
    by (auto simp: parse_pull_request_list_def max_projection_candidates_def checked merge_pull_read clean_run_bind
        List.map_filter_def intro!: exI [of _ "[Some (merge_read_pull s)]"])
  then have "clean_run (read_evidence_source (available (JArr [merge_pull_json s])) path parse_pull_request_list)
      (Read_Available [merge_read_pull s])" for path
    by (auto simp: available_def checked intro: exI [of _ "Some [merge_read_pull s]"])
  ultimately show ?thesis
    by (simp add: clean_run_checks evidence_reads_def clean_run_bind checked sample_projection_input_def)
      (simp add: available_def parse_issue_evidence_def max_safe_integer_def clean_run_bind checked)
qed

definition merge_sample_branch :: "branch_evidence candidate" where
  "merge_sample_branch = \<lparr>cand_value = merge_read_branch, cand_class = Canonical,
     cand_reason = js ''Branch matches the derived canonical identity.''\<rparr>"

definition merge_sample_pull :: "change_state \<Rightarrow> pull_request_evidence candidate" where
  "merge_sample_pull s = \<lparr>cand_value = merge_read_pull s, cand_class = Canonical,
     cand_reason = js ''Pull request matches the canonical branch, base, and Change identity.''\<rparr>"

lemma merge_facts:
  "evidence_facts 7 (Some (js ''feat/7-x'')) (js ''feat/7-x'') (js ''main'') (Read_Available (7, Open_State))
     [merge_read_branch] [merge_read_pull s] =
   \<lparr>pf_issue_known = True, pf_issue_absent = False, pf_ambiguous_anchor = False, pf_branches = [merge_sample_branch],
    pf_candidates = [merge_sample_pull s], pf_canonical_branches = [merge_sample_branch], pf_canonical_pulls = [merge_read_pull s],
    pf_duplicate_number = False, pf_wrong_base = False, pf_conflicting = False, pf_plausible = 0\<rparr>"
proof -
  have "identity_matches (js ''feat/7-x'') (js ''main'') 7 (merge_read_pull s)"
    by (simp add: identity_matches_def merge_read_pull_def)
  then show ?thesis
    by (simp add: evidence_facts_def ambiguous_anchors_def anchored_names_def set_add_all_def set_add_def classify_branch_def
        branch_occurrences_def merge_read_branch_def merge_sample_branch_def classify_pull_request_def number_occurrences_def
        merge_read_pull_def merge_sample_pull_def Let_def)
qed

definition sample_project :: "change_state \<Rightarrow> projection_result" where
  "sample_project s =
     \<lparr>pr_valid = True, pr_status = Healthy, pr_canonical_branch = Some (js ''feat/7-x''), pr_canonical_base = Some (js ''main''),
      pr_branches = [merge_sample_branch], pr_pull_requests = [merge_sample_pull s], pr_change = Some (merge_change s),
      pr_diagnostics = []\<rparr>"

lemma merge_sample_projection:
  assumes "s \<in> {DRAFT, REVIEW, MERGED}"
  shows "project_change (\<lambda>s. s) sample_authority (JObj (governed_evidence s)) = sample_project s"
proof -
  let ?f = "\<lparr>pf_issue_known = True, pf_issue_absent = False, pf_ambiguous_anchor = False, pf_branches = [merge_sample_branch],
    pf_candidates = [merge_sample_pull s], pf_canonical_branches = [merge_sample_branch], pf_canonical_pulls = [merge_read_pull s],
    pf_duplicate_number = False, pf_wrong_base = False, pf_conflicting = False, pf_plausible = 0\<rparr>"
  have "root_issue sample_identity = 7" by (simp add: sample_identity_def)
  then have "project_change (\<lambda>s. s) sample_authority (JObj (governed_evidence s)) =
     project_facts sample_identity merge_provenance_sample (js ''feat/7-x'') (js ''main'') [merge_read_pull s]
       (evidence_facts 7 (Some (js ''feat/7-x'')) (js ''feat/7-x'') (js ''main'') (Read_Available (7, Open_State))
          [merge_read_branch] [merge_read_pull s])"
    by (simp add: project_change_def merge_front
        merge_reads source_list_def project_evidence_def canonical_branch_of_def issue_mismatch_def Let_def)
  moreover have "project_facts sample_identity merge_provenance_sample (js ''feat/7-x'') (js ''main'') [merge_read_pull s] ?f =
      sample_project s"
  proof -
    have healthy: "decide_status ?f = Healthy"
      by (cases "s = MERGED") (simp_all add: decide_status_def aborted_pull_def merge_read_pull_def Let_def)
    have pull: "pe_provenance (merge_read_pull s) = Some merge_provenance_sample" "pe_number (merge_read_pull s) = 8"
        "pe_head (merge_read_pull s) = js ''feat/7-x''"
      by (simp_all add: merge_read_pull_def)
    have state: "state_from_pull_request (merge_read_pull s) = s"
      using assms by (cases s) (simp_all add: merge_read_pull_def state_from_pull_request_def)
    have both: "merge_provenance merge_provenance_sample (Some merge_provenance_sample) = merge_provenance_sample"
      by (simp add: merge_provenance_def merge_provenance_sample_def no_provenance_def)
    have quiet: "snd (run_checks (conflict_if False p q)) = []" for p q
      by (simp add: conflict_if_def run_checks_clean)
    show ?thesis
      using quiet by (simp add: project_facts_def healthy pull state both merge_change_def sample_project_def Let_def)
  qed
  ultimately show ?thesis by (simp only: merge_facts)
qed

lemma sample_admission_run:
  assumes "pa_branch pa = sample_authority" and "s \<in> {DRAFT, REVIEW, MERGED}"
  shows "validate_merge_admission (\<lambda>s. s) pa merge_artifacts
      (JObj [(js ''change'', change_value (merge_change s)), (js ''projection'', JObj (governed_evidence s)), (js ''pullRequest'', pull_artifact)]) =
    Some (admission_result (Some (merge_change s)) (Some (sample_project s))
      (Some \<lparr>ae_contract = Some merge_contract, ae_body = Some (JStr (js ''body''))\<rparr>) [])"
proof -
  let ?c = "merge_change s" and ?r = "sample_project s"
  let ?e = pull_artifact
  let ?v = "JObj [(js ''change'', change_value ?c), (js ''projection'', JObj (governed_evidence s)), (js ''pullRequest'', ?e)]"
  let ?i = "planned_issuance_of (\<lambda>s. s) pa merge_artifacts (Some (JObj (governed_evidence s))) None"
  have keys: "snd (run_checks (add_unknown_properties ?v admission_keys change_root)) = []"
    by (simp add: run_checks_clean admission_keys_def)
  have issuance: "read_issuance (\<lambda>s. s) pa ?v [] = Some (None, [])"
    by (simp add: read_issuance_def admission_alias_def report_if_def Let_def run_state_bind)
  have aliases: "run_state (change_alias ?v) [] = (Some (change_value ?c), [])"
      "run_state (projection_alias ?v) [] = (Some (JObj (governed_evidence s)), [])"
      "run_state (read_issuer ?v) [] = (None, [])"
    by (simp_all add: admission_alias_def change_alias_def projection_alias_def read_issuer_def report_if_def Let_def run_state_bind)
  have canonical: "read_canonical (\<lambda>s. s) (Some (change_value ?c)) None [] = Some (Some ?c, [])"
    using wf_change_validates [OF wf_merge_change [of s], of "\<lambda>s. s"] by (simp add: read_canonical_def)
  have raw: "is_raw_projection (JObj (governed_evidence s))"
    by (simp add: is_raw_projection_def governed_evidence_def sample_projection_input_def)
  note r = merge_sample_projection [OF assms(2)]
  have projection: "read_projection (\<lambda>s. s) sample_authority (Some (JObj (governed_evidence s))) [] = Some (Some ?r, [])"
    by (simp add: read_projection_def raw r sample_project_def)
  have pull: "run_state (read_pull_artifact ?v) [] = (Some \<lparr>ae_contract = Some merge_contract, ae_body = Some (JStr (js ''body''))\<rparr>, [])"
  proof -
    have "clean_run (admission_alias ?v [''pullRequest'', ''governedPullRequest''] ''$.pullRequest'') (Some ?e)"
      by (simp add: admission_alias_def clean_run_bind checked Let_def)
    moreover have "clean_run (parse_admission_pull_request ?e) (Some \<lparr>ae_contract = Some merge_contract, ae_body = Some (JStr (js ''body''))\<rparr>)"
      by (simp add: parse_admission_pull_request_def pull_artifact_def artifact_checks_def artifact_keys_def own_value_def clean_run_bind checked)
    ultimately show ?thesis by (simp add: read_pull_artifact_def clean_run_def run_state_bind)
  qed
  have agreed: "agreed_merge (\<lambda>s. s) merge_artifacts ?c ?r ?i merge_contract (JStr (js ''body'')) (js ''feat/7-x'') 8 (merge_sample_pull s)"
  proof -
    have healthy: "issuance_healthy_state s" using assms(2) by (auto simp: issuance_healthy_state_def)
    from merge_agreed [OF healthy] have "governed_pull_request (\<lambda>s. s) merge_artifacts (Some sample_identity) (optional_text (Some (js ''main'')))
        merge_contract (JStr (js ''body''))"
      by (simp add: agreed_merge_def merge_projection_def)
    moreover have "agreed_projection ?c ?r (js ''feat/7-x'') 8"
      by (simp add: agreed_projection_def sample_project_def merge_sample_branch_def merge_sample_pull_def has_conflict_def
          canonical_of_def)
    moreover have "agreed_pull ?c ?r (js ''feat/7-x'') (cand_value (merge_sample_pull s))"
      by (simp add: agreed_pull_def merge_sample_pull_def sample_project_def merge_read_pull_def same_defined_value_def
          merge_provenance_sample_def)
    moreover have sel: "canonical_of (pr_pull_requests ?r) = [merge_sample_pull s]" "physical_candidates ?r 8 = [merge_sample_pull s]"
        "pr_canonical_base ?r = Some (js ''main'')"
      by (simp_all add: sample_project_def canonical_of_def physical_candidates_def merge_sample_pull_def merge_read_pull_def)
    moreover have "case ?i of None \<Rightarrow> True | Some p \<Rightarrow> agreed_issuance p ?c (pr_canonical_base ?r) (js ''feat/7-x'') 8"
      using replanned_agrees [of "\<lambda>s. s" pa merge_artifacts "JObj (governed_evidence s)" _ ?c ?c "js ''feat/7-x''" 8]
        wf_change_validates [OF wf_merge_change [of s], of "\<lambda>s. s"]
      by (simp add: planned_issuance_of_def raw r assms(1) sample_project_def split: sum.split)
    ultimately show ?thesis
      using healthy
      by (simp add: agreed_merge_def sel)
  qed
  have "pr_status ?r = Healthy" "pr_valid ?r" by (simp_all add: sample_project_def)
  note clean = agreement_clean [OF agreed this]
  have source: "projection_source ?v (Some (JObj (governed_evidence s))) x c' = Some (JObj (governed_evidence s))" for x c'
    by (simp add: projection_source_def)
  show ?thesis
    using clean
    by (simp add: validate_merge_admission_def assms(1) keys issuance aliases canonical projection pull source clean_run_def run_state_bind Let_def)
qed

lemma governed_evidence_bound: "request_with_provenance (governed_evidence s) None None = governed_evidence s"
  by (simp add: request_with_provenance_def governed_evidence_def sample_projection_input_def set_role_def provenance_entries_def
      issued_by_inari_def)

end
