(* ===== verification/Trusted_Merge.thy ===== *)
theory Trusted_Merge
  imports Governed_Sample PR_Mutation
begin

text \<open>
  The merge of a Change by the trusted adapter, \<^verbatim>\<open>executeMerge\<close> of
  \<^verbatim>\<open>src/src/change/machine/trusted-execution-adapter.ts\<close>: evidence is read and
  projected, merge admission decides, a Semantic Pull Request merge is planned and executed through the
  port of that authority, and the merged Change is proved by a second read and a second admission.
\<close>

subsection \<open>Ports\<close>

text \<open>
  The executor of Pull Request mutations throws an error of its own, or anything else
  (\<^const>\<open>None\<close>).  The repository is that of the adapter.
\<close>

type_synonym 'w mutation_port = "jsval \<Rightarrow> 'w \<Rightarrow> (mutation_error option + mutation_result) \<times> 'w"

record 'w merge_ports =
  tm_artifacts :: artifact_authority
  tm_hostname :: jstr
  tm_name :: jstr
  tm_repository_id :: jstr
  tm_executor :: "'w mutation_port option"

subsection \<open>Admission\<close>

definition precondition_failure :: "string \<Rightarrow> change_diagnostic list \<Rightarrow> execution_failure" where
  "precondition_failure message ds = exec_failure PRECONDITION_FAILED message ds"

definition merge_state_failure :: "change_state \<Rightarrow> execution_failure" where
  "merge_state_failure s =
     precondition_failure ''Change merge is admitted only from REVIEW, ACCEPTED, or a proven MERGED replay.''
       [\<lparr>cd_code = js ''CHANGE_TRANSITION_NOT_ALLOWED'', cd_path = js ''$.change.state'',
         cd_message = js ''Merge is not allowed from Change state \"'' @ change_state_name s @ js ''\".''\<rparr>]"

text \<open>The Change a merge is about.\<close>

definition merge_subject :: "mutation_request \<Rightarrow> projection_result \<Rightarrow> execution_failure + change" where
  "merge_subject request p =
     (case pr_change p of
        None \<Rightarrow> Inl (precondition_failure ''A healthy canonical Change projection is required before merge admission.'' (pr_diagnostics p))
      | Some c \<Rightarrow>
          if \<not> pr_valid p \<or> pr_status p \<noteq> Healthy
          then Inl (precondition_failure ''A healthy canonical Change projection is required before merge admission.'' (pr_diagnostics p))
          else if root_issue (ch_identity c) \<noteq> mr_issue request
          then Inl (exec_failure READ_FAILED ''Trusted Change evidence identity does not match the semantic request.'' [])
          else if ch_state c \<notin> set [REVIEW, ACCEPTED, MERGED] then Inl (merge_state_failure (ch_state c))
          else Inr c)"

definition ready_evidence_of :: "projection_input \<Rightarrow> jsval" where
  "ready_evidence_of input = get_prop (JObj input) (js ''readyEvidence'')"

definition adapter_admission ::
  "'w trusted_adapter \<Rightarrow> 'w merge_ports \<Rightarrow> projection_input \<Rightarrow> change \<Rightarrow> merge_admission option" where
  "adapter_admission ad mp input c =
     validate_merge_admission (ta_lower ad) (ta_plans ad) (tm_artifacts mp)
       (JObj [(js ''change'', change_value c), (js ''projection'', JObj input),
              (js ''pullRequest'', get_prop (ready_evidence_of input) (js ''pullRequest''))])"

record merge_target =
  mt_change :: change
  mt_branch :: jstr
  mt_pull :: int
  mt_base :: jstr
  mt_head :: jstr

text \<open>\<^verbatim>\<open>physicalPullRequest?.headSha ?? branchCandidate?.candidate.sha\<close>\<close>

definition expected_head :: "projection_result \<Rightarrow> jstr option \<Rightarrow> pull_request_evidence option \<Rightarrow> jstr option" where
  "expected_head r branch physical =
     (case Option.bind physical pe_head_sha of Some s \<Rightarrow> Some s | None \<Rightarrow> observed_commit r branch)"

definition located_merge :: "merge_admission \<Rightarrow> merge_target option" where
  "located_merge m = do {
     c \<leftarrow> ma_change m;
     r \<leftarrow> ma_projection m;
     branch \<leftarrow> projected_branch c;
     n \<leftarrow> projected_pull_request c;
     base \<leftarrow> pr_canonical_base r;
     physical \<leftarrow> ma_pull_request m;
     head \<leftarrow> expected_head r (Some branch) (Some physical);
     Some \<lparr>mt_change = c, mt_branch = branch, mt_pull = n, mt_base = base, mt_head = head\<rparr>
   }"

text \<open>Failing, or any other exception (\<^const>\<open>None\<close>), or the target.\<close>

definition admit_merge ::
  "'w trusted_adapter \<Rightarrow> 'w merge_ports \<Rightarrow> projection_input \<Rightarrow> change \<Rightarrow> execution_failure option + merge_target" where
  "admit_merge ad mp input c =
     (if ready_evidence_of input = JUndef
      then Inl (Some (precondition_failure ''Governed pull-request evidence is required before merge admission.''
        [diagnostic_of ''CHANGE_PROVENANCE_INVALID_PR_CONTRACT'' (js ''$.readyEvidence.pullRequest'')
           ''The canonical pull-request contract and body were not supplied.'']))
      else case adapter_admission ad mp input c of
             None \<Rightarrow> Inl None
           | Some m \<Rightarrow>
               if \<not> ma_valid m \<or> ma_change m = None \<or> ma_projection m = None
               then Inl (Some (precondition_failure ''Change merge admission failed closed.'' (ma_diagnostics m)))
               else (case located_merge m of
                       None \<Rightarrow>
                         Inl (Some (precondition_failure
                           ''Canonical pull-request head, base, and identity evidence are required before merge.''
                           [diagnostic_of ''CHANGE_PROVENANCE_CONFLICT'' (js ''$.projection.candidates'')
                              ''The canonical pull-request head generation is unavailable or ambiguous.'']))
                     | Some t \<Rightarrow> Inr t))"

subsection \<open>Planning\<close>

definition merge_plan_request :: "'w merge_ports \<Rightarrow> merge_target \<Rightarrow> jstr \<Rightarrow> jsval" where
  "merge_plan_request mp t strategy =
     JObj [(js ''version'', JStr (js ''1'')), (js ''operation'', JStr (js ''merge'')),
       (js ''repository'', JObj [(js ''hostname'', JStr (tm_hostname mp)), (js ''nameWithOwner'', JStr (tm_name mp)),
          (js ''repositoryId'', JStr (tm_repository_id mp))]),
       (js ''pullRequest'', JNum (Integral (mt_pull t))), (js ''expectedHead'', JStr (mt_head t)),
       (js ''expectedBase'', JStr (mt_base t)), (js ''strategy'', JStr strategy)]"

definition merge_transition_value :: "merge_target \<Rightarrow> mutation_plan \<Rightarrow> jsval" where
  "merge_transition_value t plan =
     JObj [(js ''version'', JNum (Integral 1)), (js ''transition'', JStr (js ''merge'')), (js ''change'', change_value (mt_change t)),
       (js ''target'', JObj [(js ''branch'', JStr (mt_branch t)), (js ''baseBranch'', JStr (mt_base t)),
          (js ''pullRequest'', JNum (Integral (mt_pull t))), (js ''semanticPullRequestMergePlan'', plan_json plan)])]"

text \<open>The executor and the plan; a merged Change is not planned again.\<close>

definition prepare_merge ::
  "'w trusted_adapter \<Rightarrow> 'w merge_ports \<Rightarrow> mutation_request \<Rightarrow> change_state \<Rightarrow> merge_target \<Rightarrow>
     execution_failure + 'w mutation_port \<times> mutation_plan" where
  "prepare_merge ad mp request s t =
     (case mr_merge_strategy request of
        None \<Rightarrow> Inl (precondition_failure ''Change merge strategy is required.'' [])
      | Some strategy \<Rightarrow>
          (case tm_executor mp of
             None \<Rightarrow> Inl (precondition_failure ''The governed Semantic PR merge authority is unavailable.'' [])
           | Some run \<Rightarrow>
               (case plan_pull_request_mutation (ta_lower ad) (merge_plan_request mp t strategy) of
                  Inl vs \<Rightarrow>
                    Inl (precondition_failure ''The canonical Semantic PR merge plan could not be prepared.''
                      [diagnostic_of ''CHANGE_INVALID_PLAN'' (js ''$.semanticPullRequestMergePlan'')
                         ''The canonical Semantic PR merge plan is invalid.''])
                | Inr plan \<Rightarrow>
                    if s = MERGED then Inr (run, plan)
                    else (case plan_change_transition (ta_lower ad) (ta_plans ad) (merge_transition_value t plan) of
                            Inl e \<Rightarrow>
                              Inl (precondition_failure ''Change merge transition planning failed closed.''
                                [diagnostic_of ''CHANGE_INVALID_PLAN'' (js ''$.target.semanticPullRequestMergePlan'')
                                   ''The merge plan is not bound to the canonical Change projection.''])
                          | Inr _ \<Rightarrow> Inr (run, plan)))))"

subsection \<open>Outcomes\<close>

definition merge_attempt :: "attempt_status \<Rightarrow> effect_evidence" where
  "merge_attempt s = \<lparr>ee_kind = Merge_Pull_Request, ee_status = s, ee_created_commit = None\<rparr>"

definition merge_failure_evidence :: "jstr \<Rightarrow> jstr \<Rightarrow> execution_failure_evidence" where
  "merge_failure_evidence code message =
     \<lparr>xf_kind = Merge_Pull_Request,
      xf_failure = \<lparr>ef_code = code, ef_message = message, ef_reason = None, ef_status = None, ef_provider = None\<rparr>\<rparr>"

definition merge_execution_failure ::
  "'w trusted_adapter \<Rightarrow> mutation_request \<Rightarrow> execution_failure_code \<Rightarrow> string \<Rightarrow> change_diagnostic list \<Rightarrow> execution_outcome \<Rightarrow>
     attempt_status \<Rightarrow> compensation_status \<Rightarrow> jstr \<Rightarrow> jstr \<Rightarrow> execution_failure" where
  "merge_execution_failure ad request code message ds outcome status compensated fcode fmessage =
     \<lparr>xl_code = code, xl_message = js message, xl_diagnostics = ds,
      xl_evidence = Some (evidence_of_execution (mr_operation request) outcome (ta_requester ad) [merge_attempt status] compensated
        (Some (merge_failure_evidence fcode fmessage)) None)\<rparr>"

text \<open>
  A diagnostic of the executor as a Change diagnostic; \<^verbatim>\<open>createChangeDiagnostic\<close>
  throws for an empty or a long path or message (\<^const>\<open>None\<close>).
\<close>

definition converted_diagnostic :: "mutation_violation \<Rightarrow> change_diagnostic option" where
  "converted_diagnostic d =
     (if mv_message d = [] \<or> mv_path d = [] \<or> max_diagnostic_path_length < length (mv_path d) \<or>
         max_diagnostic_message_length < length (mv_message d)
      then None
      else Some \<lparr>cd_code = (if mv_code d \<in> set [mutation_code_name STALE_HEAD, mutation_code_name STALE_BASE]
                           then js ''CHANGE_PROVENANCE_CONFLICT'' else js ''CHANGE_INVALID_PLAN''),
                 cd_path = mv_path d, cd_message = mv_message d\<rparr>)"

fun converted_diagnostics :: "mutation_violation list \<Rightarrow> change_diagnostic list option" where
  "converted_diagnostics [] = Some []"
| "converted_diagnostics (d # ds) = do { x \<leftarrow> converted_diagnostic d; xs \<leftarrow> converted_diagnostics ds; Some (x # xs) }"

definition mutation_failure_code :: "mutation_outcome \<Rightarrow> execution_failure_code" where
  "mutation_failure_code out =
     (if out = Recovery_Mutation then EXECUTION_RECOVERY_REQUIRED
      else if out \<in> set [Stale, Blocked] then PRECONDITION_FAILED else EFFECT_FAILED)"

definition merge_run_failure ::
  "'w trusted_adapter \<Rightarrow> mutation_request \<Rightarrow> mutation_error option \<Rightarrow> execution_outcome_value option" where
  "merge_run_failure ad request e =
     (case e of
        None \<Rightarrow>
          Some (Failure (merge_execution_failure ad request EFFECT_FAILED ''Governed Semantic PR merge execution failed closed.'' []
            Exec_Failed Failed Not_Required (mutation_code_name PR_EFFECT_FAILED) (js ''Merge effect failed.'')))
      | Some e \<Rightarrow>
          map_option (\<lambda>ds. Failure (merge_execution_failure ad request (mutation_failure_code (er_outcome e))
              ''Governed Semantic PR merge execution failed closed.'' ds
              (if er_outcome e = Recovery_Mutation then Recovery_Needed else Exec_Failed) Failed
              (if er_outcome e = Recovery_Mutation then Comp_Failed else Not_Required)
              (mutation_code_name (er_code e)) (er_message e)))
            (converted_diagnostics (er_diagnostics e)))"

definition merge_postcondition :: "merge_target \<Rightarrow> gh_pull \<Rightarrow> bool" where
  "merge_postcondition t p \<longleftrightarrow>
     gp_number p = mt_pull t \<and> head_of p = mt_head t \<and> gp_base p = mt_base t \<and> gp_state p = Closed_State"

definition merge_unproved :: "'w trusted_adapter \<Rightarrow> mutation_request \<Rightarrow> execution_failure" where
  "merge_unproved ad request =
     merge_execution_failure ad request PROJECTION_VERIFICATION_FAILED
       ''Semantic PR merge postcondition did not prove the canonical merged pull request.''
       [diagnostic_of ''CHANGE_PROVENANCE_CONFLICT'' (js ''$.semanticPullRequestMutation.current'')
          ''The merged pull-request postcondition differs from the canonical Change head or base.'']
       Recovery_Needed Failed Comp_Failed (mutation_code_name POSTCONDITION_FAILED) (js ''Merged postcondition was not proven.'')"

definition merge_unread :: "'w trusted_adapter \<Rightarrow> mutation_request \<Rightarrow> execution_failure" where
  "merge_unread ad request =
     merge_execution_failure ad request EXECUTION_RECOVERY_REQUIRED
       ''Merge effect completed without an authoritative Change reread.'' [] Recovery_Needed Succeeded Comp_Failed
       (mutation_code_name POSTCONDITION_READ_FAILED) (js ''Merged Change projection reread failed.'')"

text \<open>The admission of the merged Change: whether it is valid, and its diagnostics.\<close>

definition final_admission ::
  "'w trusted_adapter \<Rightarrow> 'w merge_ports \<Rightarrow> projection_input \<Rightarrow> (bool \<times> change_diagnostic list) option" where
  "final_admission ad mp input =
     (let p = projection_for ad input in
      (case pr_change p of
         None \<Rightarrow> Some (False, pr_diagnostics p)
       | Some c \<Rightarrow>
           if ready_evidence_of input = JUndef then Some (False, pr_diagnostics p)
           else map_option (\<lambda>m. (ma_valid m, ma_diagnostics m)) (adapter_admission ad mp input c)))"

definition merged_projection :: "merge_target \<Rightarrow> projection_result \<Rightarrow> bool" where
  "merged_projection t p \<longleftrightarrow>
     pr_valid p \<and> pr_status p = Healthy \<and> map_option ch_state (pr_change p) = Some MERGED \<and>
     Option.bind (pr_change p) projected_pull_request = Some (mt_pull t) \<and>
     Option.bind (pr_change p) projected_branch = Some (mt_branch t)"

definition merge_unverified :: "'w trusted_adapter \<Rightarrow> mutation_request \<Rightarrow> change_diagnostic list \<Rightarrow> execution_failure" where
  "merge_unverified ad request ds =
     merge_execution_failure ad request PROJECTION_VERIFICATION_FAILED ''Post-merge Change projection verification failed.'' ds
       Recovery_Needed Succeeded Comp_Failed (mutation_code_name POSTCONDITION_FAILED)
       (js ''Merged Change projection was not proven.'')"

definition merge_evidence_of :: "'w trusted_adapter \<Rightarrow> mutation_request \<Rightarrow> mutation_result \<Rightarrow> execution_evidence" where
  "merge_evidence_of ad request r =
     (if sr_outcome r = Idempotent
      then completed_evidence ad (mr_operation request) Returned_Existing []
      else completed_evidence ad (mr_operation request) Verified [merge_attempt Succeeded])"

definition finish_merge ::
  "'w trusted_adapter \<Rightarrow> 'w merge_ports \<Rightarrow> mutation_request \<Rightarrow> merge_target \<Rightarrow> mutation_result \<Rightarrow> projection_input \<Rightarrow>
     execution_outcome_value option" where
  "finish_merge ad mp request t r input =
     (let p = projection_for ad input in
      map_option (\<lambda>(valid, ds).
          if \<not> merged_projection t p \<or> \<not> valid
          then Failure (merge_unverified ad request (if ds \<noteq> [] then ds else pr_diagnostics p))
          else Result \<lparr>xr_projection = p, xr_evidence = Some (merge_evidence_of ad request r)\<rparr>)
        (final_admission ad mp input))"

subsection \<open>The merge\<close>

definition execution_value :: "mutation_plan \<Rightarrow> jsval" where
  "execution_value plan = JObj [(js ''version'', JStr (js ''1'')), (js ''plan'', plan_json plan)]"

definition run_merge ::
  "'w trusted_adapter \<Rightarrow> 'w merge_ports \<Rightarrow> mutation_request \<Rightarrow> merge_target \<Rightarrow> 'w mutation_port \<Rightarrow> mutation_plan \<Rightarrow> 'w \<Rightarrow>
     execution_outcome_value option \<times> 'w" where
  "run_merge ad mp request t run plan w =
     (case run (execution_value plan) w of
        (Inl e, w1) \<Rightarrow> (merge_run_failure ad request e, w1)
      | (Inr r, w1) \<Rightarrow>
          if \<not> merge_postcondition t (sr_current r) then (Some (Failure (merge_unproved ad request)), w1)
          else (case read_raw_input ad request w1 of
                  (Inl f, w2) \<Rightarrow> (Some (Failure (merge_unread ad request)), w2)
                | (Inr input, w2) \<Rightarrow> (finish_merge ad mp request t r input, w2)))"

definition execute_trusted_merge ::
  "'w trusted_adapter \<Rightarrow> 'w merge_ports \<Rightarrow> mutation_request \<Rightarrow> 'w \<Rightarrow> execution_outcome_value option \<times> 'w" where
  "execute_trusted_merge ad mp request w =
     (case read_raw_input ad request w of
        (Inl f, w1) \<Rightarrow> (Some (Failure f), w1)
      | (Inr input, w1) \<Rightarrow>
          (case merge_subject request (projection_for ad input) of
             Inl f \<Rightarrow> (Some (Failure f), w1)
           | Inr c \<Rightarrow>
               (case admit_merge ad mp input c of
                  Inl f \<Rightarrow> (map_option Failure f, w1)
                | Inr t \<Rightarrow>
                    (case prepare_merge ad mp request (ch_state c) t of
                       Inl f \<Rightarrow> (Some (Failure f), w1)
                     | Inr (run, plan) \<Rightarrow> run_merge ad mp request t run plan w1))))"

subsection \<open>What is admitted\<close>

lemma returns_evidence: "returns (evidence_object v) (\<lambda>e. e \<noteq> None \<longrightarrow> has_prop v (js ''evidence''))"
  by (auto simp: evidence_object_def invalid_evidence_def reject_with_def Let_def intro!: returns_then)

lemma front_evidence:
  "returns (projection_front lc ba v) (\<lambda>(i, pv, t, e). e \<noteq> None \<longrightarrow> has_prop v (js ''evidence''))"
  unfolding projection_front_def
  by (rule returns_then, rule returns_then, rule returns_then, rule returns_then, rule returns_bind [OF returns_evidence]) simp

lemma healthy_is_raw:
  assumes "pr_status (project_change lc ba v) = Healthy"
  shows "is_raw_projection v"
proof (cases lc ba v rule: project_change_cases)
  case (Projected i pv a b base e r bs ps)
  have "has_prop v (js ''evidence'')"
    using returnsD [OF front_evidence Projected(1) [unfolded run_checks_def]] by simp
  then show ?thesis by (cases v) (simp_all add: is_raw_projection_def)
qed (use assms in \<open>simp_all add: unavailable_result_def\<close>)

text \<open>The admission of the adapter, of the projection it already has.\<close>

lemma adapter_admitted:
  assumes "adapter_admission ad mp input c = Some m" and "ma_valid m" and "pr_status (projection_for ad input) = Healthy"
  obtains c' issuance contract body branch n x where
    "m = \<lparr>ma_valid = True, ma_change = Some c', ma_projection = Some (projection_for ad input),
          ma_pull_request = Some (cand_value x), ma_diagnostics = []\<rparr>"
    "validate_change (ta_lower ad) (change_value c) = Inr c'" "pr_diagnostics (projection_for ad input) = []"
    "agreed_merge (ta_lower ad) (tm_artifacts mp) c' (projection_for ad input)
       (planned_issuance_of (ta_lower ad) (ta_plans ad) (tm_artifacts mp) (Some (JObj input)) issuance) contract body branch n x"
proof -
  let ?v = "JObj [(js ''change'', change_value c), (js ''projection'', JObj input),
              (js ''pullRequest'', get_prop (ready_evidence_of input) (js ''pullRequest''))]"
  have aliases: "fst (run_state (change_alias ?v) []) = Some (change_value c)"
      "fst (run_state (projection_alias ?v) []) = Some (JObj input)"
    by (simp_all add: change_alias_def projection_alias_def admission_alias_def report_if_def Let_def run_state_bind)
  from valid_admission [OF assms(1) [unfolded adapter_admission_def] assms(2)]
  obtain c' r source issuance contract body branch n x i where
    parts: "read_canonical (ta_lower ad) (Some (change_value c)) i [] = Some (Some c', [])"
      "projection_source ?v (Some (JObj input)) (Some (change_value c)) (Some c') = Some source"
      "m = \<lparr>ma_valid = True, ma_change = Some c', ma_projection = Some r, ma_pull_request = Some (cand_value x), ma_diagnostics = []\<rparr>"
      "pr_diagnostics r = []"
      "if is_raw_projection source then r = project_change (ta_lower ad) (pa_branch (ta_plans ad)) source
       else validate_projection_result (ta_lower ad) source = Some (Inr r)"
      "agreed_merge (ta_lower ad) (tm_artifacts mp) c' r
         (planned_issuance_of (ta_lower ad) (ta_plans ad) (tm_artifacts mp) (Some source) issuance) contract body branch n x"
    unfolding aliases by metis
  have source: "source = JObj input" using parts(2) by (simp add: projection_source_def)
  with parts(5) healthy_is_raw assms(3) have r: "r = projection_for ad input" by (simp add: projection_for_def)
  have "validate_change (ta_lower ad) (change_value c) = Inr c'"
    using parts(1) by (cases "validate_change (ta_lower ad) (change_value c)") (auto simp: read_canonical_def bind_eq_Some_conv)
  with that parts(3,4,6) show thesis unfolding source r by blast
qed

lemma located:
  "located_merge m = Some t \<longleftrightarrow>
     (\<exists>r physical. ma_change m = Some (mt_change t) \<and> ma_projection m = Some r \<and> projected_branch (mt_change t) = Some (mt_branch t) \<and>
        projected_pull_request (mt_change t) = Some (mt_pull t) \<and> pr_canonical_base r = Some (mt_base t) \<and>
        ma_pull_request m = Some physical \<and> expected_head r (Some (mt_branch t)) (Some physical) = Some (mt_head t))"
  by (cases t) (auto simp: located_merge_def bind_eq_Some_conv)

lemma merge_subject_Inr:
  "merge_subject request p = Inr c \<longleftrightarrow>
     pr_change p = Some c \<and> pr_valid p \<and> pr_status p = Healthy \<and> root_issue (ch_identity c) = mr_issue request \<and>
     ch_state c \<in> {REVIEW, ACCEPTED, MERGED}"
  by (auto simp: merge_subject_def split: option.split)

text \<open>The target a merge is admitted with, from the evidence.\<close>

definition merge_admitted_from :: "'w trusted_adapter \<Rightarrow> 'w merge_ports \<Rightarrow> mutation_request \<Rightarrow> projection_input \<Rightarrow> merge_target \<Rightarrow> bool" where
  "merge_admitted_from ad mp request input t \<longleftrightarrow>
     (let p = projection_for ad input in
      pr_status p = Healthy \<and> pr_valid p \<and> pr_diagnostics p = [] \<and>
      root_issue (ch_identity (mt_change t)) = mr_issue request \<and> ch_state (mt_change t) \<in> {REVIEW, ACCEPTED, MERGED} \<and>
      pr_canonical_base p = Some (mt_base t) \<and>
      (\<exists>issuance contract body x.
         agreed_merge (ta_lower ad) (tm_artifacts mp) (mt_change t) p issuance contract body (mt_branch t) (mt_pull t) x \<and>
         expected_head p (Some (mt_branch t)) (Some (cand_value x)) = Some (mt_head t)))"

lemma admitted_target:
  assumes "merge_subject request (projection_for ad input) = Inr c" and "admit_merge ad mp input c = Inr t"
  shows "merge_admitted_from ad mp request input t" and "ch_state (mt_change t) = ch_state c"
proof -
  note subject = assms(1) [unfolded merge_subject_Inr]
  from assms(2) obtain m where m: "adapter_admission ad mp input c = Some m" "ma_valid m" "located_merge m = Some t"
    by (auto simp: admit_merge_def split: if_splits option.splits)
  from subject have healthy: "pr_status (projection_for ad input) = Healthy" by simp
  from adapter_admitted [OF m(1,2) healthy] obtain c' issuance contract body branch n x where
    parts: "m = \<lparr>ma_valid = True, ma_change = Some c', ma_projection = Some (projection_for ad input),
          ma_pull_request = Some (cand_value x), ma_diagnostics = []\<rparr>"
      "validate_change (ta_lower ad) (change_value c) = Inr c'" "pr_diagnostics (projection_for ad input) = []"
      "agreed_merge (ta_lower ad) (tm_artifacts mp) c' (projection_for ad input)
         (planned_issuance_of (ta_lower ad) (ta_plans ad) (tm_artifacts mp) (Some (JObj input)) issuance) contract body branch n x"
    by metis
  from m(3) [unfolded located] have t: "c' = mt_change t" "projected_branch c' = Some (mt_branch t)"
      "projected_pull_request c' = Some (mt_pull t)" "pr_canonical_base (projection_for ad input) = Some (mt_base t)"
      "expected_head (projection_for ad input) (Some (mt_branch t)) (Some (cand_value x)) = Some (mt_head t)"
    by (auto simp: parts(1))
  have "branch = mt_branch t" "n = mt_pull t" using parts(4) t by (auto simp: agreed_merge_def)
  with parts(3,4) t subject revalidated [OF parts(2)] healthy
  show "merge_admitted_from ad mp request input t" and "ch_state (mt_change t) = ch_state c"
    by (auto simp: merge_admitted_from_def Let_def)
qed

lemma prepared_merge:
  assumes "prepare_merge ad mp request s t = Inr (run, plan)"
  shows "tm_executor mp = Some run" and
    "\<exists>strategy. mr_merge_strategy request = Some strategy \<and>
       plan_pull_request_mutation (ta_lower ad) (merge_plan_request mp t strategy) = Inr plan"
    and "s \<noteq> MERGED \<Longrightarrow> \<exists>tp. plan_change_transition (ta_lower ad) (ta_plans ad) (merge_transition_value t plan) = Inr tp"
  using assms by (auto simp: prepare_merge_def split: option.splits sum.splits if_splits)

text \<open>The plan of an admitted merge is a merge of the admitted pull request at its head and base.\<close>

lemma planned_merge:
  assumes "plan_pull_request_mutation lc (merge_plan_request mp t strategy) = Inr plan"
  obtains s where "pp_request plan = Merge_Request \<lparr>gq_repository = \<lparr>rp_hostname = to_lower lc (tm_hostname mp),
      rp_name = tm_name mp, rp_id = Some (tm_repository_id mp)\<rparr>, gq_pull_request = mt_pull t, gq_head = mt_head t,
      gq_base = mt_base t, gq_strategy = s\<rparr>" "strategy = strategy_name s" "plan = plan_of_request (pp_request plan)"
proof -
  obtain q where q: "materialize_request lc (merge_plan_request mp t strategy) = Inr q" "plan = plan_of_request q"
    using assms by (auto simp: planned_request)
  from q(1) have "clean_run (mutation_request_checks lc (merge_plan_request mp t strategy)) (Some q)" by (simp add: materialized)
  then obtain op r n where read: "JStr (js ''merge'') = JStr (operation_name op)"
      "clean_run (mutation_repository lc (JObj [(js ''hostname'', JStr (tm_hostname mp)), (js ''nameWithOwner'', JStr (tm_name mp)),
          (js ''repositoryId'', JStr (tm_repository_id mp))]) (js ''$.repository'')) (Some r)"
      "positive_integer (JNum (Integral (mt_pull t))) = Some n"
      "case op of
           Comment_Op \<Rightarrow> clean_run (comment_request_checks (merge_plan_request mp t strategy) (Some r) (Some n)) (Some q)
         | Review_Op \<Rightarrow> clean_run (review_request_checks (merge_plan_request mp t strategy) (Some r) (Some n)) (Some q)
         | Merge_Op \<Rightarrow> clean_run (merge_request_checks (merge_plan_request mp t strategy) (Some r) (Some n)) (Some q)"
    unfolding clean_mutation_request by (auto simp: merge_plan_request_def)
  have op: "op = Merge_Op" using read(1) by (cases op) simp_all
  have r: "r = \<lparr>rp_hostname = to_lower lc (tm_hostname mp), rp_name = tm_name mp, rp_id = Some (tm_repository_id mp)\<rparr>"
    using read(2) by (auto simp: clean_mutation_repository)
  have n: "n = mt_pull t" using read(3) by (simp add: positive_integer_def split: if_splits)
  from read(4) op show thesis
    using that q(2) r n by (auto simp: clean_merge_request merge_plan_request_def)
qed

subsection \<open>The executor of the merge\<close>

text \<open>
  What the adapter relies on: the result of a merge shows the pull request closed, with the number, the head
  and the base of the plan.
\<close>

locale proving_port =
  fixes run :: "'w mutation_port"
  assumes proves: "run (execution_value plan) w = (Inr r, w') \<Longrightarrow> pp_request plan = Merge_Request q \<Longrightarrow>
    gp_number (sr_current r) = gq_pull_request q \<and> head_of (sr_current r) = gq_head q \<and>
    gp_base (sr_current r) = gq_base q \<and> gp_state (sr_current r) = Closed_State"
begin

lemma postcondition:
  assumes "plan_pull_request_mutation lc (merge_plan_request mp t strategy) = Inr plan"
    and "run (execution_value plan) w = (Inr r, w')"
  shows "merge_postcondition t (sr_current r)"
proof (rule planned_merge [OF assms(1)])
  fix s
  assume "pp_request plan = Merge_Request \<lparr>gq_repository = \<lparr>rp_hostname = to_lower lc (tm_hostname mp),
      rp_name = tm_name mp, rp_id = Some (tm_repository_id mp)\<rparr>, gq_pull_request = mt_pull t, gq_head = mt_head t,
      gq_base = mt_base t, gq_strategy = s\<rparr>"
  from proves [OF assms(2) this] show ?thesis by (simp add: merge_postcondition_def)
qed

text \<open>With such a port, the postcondition the adapter checks again never fails.\<close>

lemma run_merge_proved:
  assumes "plan_pull_request_mutation lc (merge_plan_request mp t strategy) = Inr plan"
  shows "run_merge ad mp' request t run plan w =
    (case run (execution_value plan) w of
       (Inl e, w1) \<Rightarrow> (merge_run_failure ad request e, w1)
     | (Inr r, w1) \<Rightarrow>
         (case read_raw_input ad request w1 of
            (Inl f, w2) \<Rightarrow> (Some (Failure (merge_unread ad request)), w2)
          | (Inr input, w2) \<Rightarrow> (finish_merge ad mp' request t r input, w2)))"
proof -
  obtain x w1 where x: "run (execution_value plan) w = (x, w1)" by fastforce
  show ?thesis
    using x postcondition [OF assms, of w _ w1] by (cases x) (simp_all add: run_merge_def)
qed

end

text \<open>The local executor of Pull Request mutations as that port: it throws its own errors only.\<close>

definition local_executor :: "(jstr \<Rightarrow> jstr) \<Rightarrow> json_text \<Rightarrow> 'w mutation_provider \<Rightarrow> 'w mutation_port" where
  "local_executor lc jt pv v w = (case execute_mutation lc jt pv v w of (x, w') \<Rightarrow> (map_sum Some (\<lambda>r. r) x, w'))"

lemma execution_value_read:
  "is_record (execution_value plan)" "get_prop (execution_value plan) (js ''version'') = JStr (js ''1'')"
  "has_prop (execution_value plan) (js ''plan'')" "get_prop (execution_value plan) (js ''plan'') = plan_json plan"
  by (simp_all add: execution_value_def)

lemma executed_value:
  "execute_mutation lc jt pv (execution_value plan) w =
     (case validate_mutation_plan lc jt (plan_json plan) of
        Inl vs \<Rightarrow> (Inl (execution_plan_error vs), w) | Inr plan' \<Rightarrow> run_plan lc pv plan' w)"
  by (simp add: execute_mutation_def execution_value_read)

lemma materialized_merge:
  assumes "materialize_request lc (request_json (Merge_Request q)) = Inr q'"
  obtains r where "q' = Merge_Request (q\<lparr>gq_repository := r\<rparr>)"
proof -
  from assms have "clean_run (mutation_request_checks lc (request_json (Merge_Request q))) (Some q')" by (simp add: materialized)
  then obtain op r n where read: "JStr (js ''merge'') = JStr (operation_name op)"
      "positive_integer (JNum (Integral (gq_pull_request q))) = Some n"
      "case op of
           Comment_Op \<Rightarrow> clean_run (comment_request_checks (request_json (Merge_Request q)) (Some r) (Some n)) (Some q')
         | Review_Op \<Rightarrow> clean_run (review_request_checks (request_json (Merge_Request q)) (Some r) (Some n)) (Some q')
         | Merge_Op \<Rightarrow> clean_run (merge_request_checks (request_json (Merge_Request q)) (Some r) (Some n)) (Some q')"
    unfolding clean_mutation_request by auto
  have op: "op = Merge_Op" using read(1) by (cases op) simp_all
  have n: "n = gq_pull_request q" using read(2) by (simp add: positive_integer_def split: if_splits)
  from read(3) op show thesis
    using that [of r] n by (cases q) (auto simp: clean_merge_request)
qed

lemma validated_merge:
  assumes "validate_mutation_plan lc jt (plan_json plan) = Inr plan'" and "pp_request plan = Merge_Request q"
  obtains r where "pp_request plan' = Merge_Request (q\<lparr>gq_repository := r\<rparr>)"
proof -
  from accepted_plan(1) [OF assms(1)] obtain q' where
    q': "materialize_request lc (request_json (pp_request plan)) = Inr q'" "plan' = plan_of_request q'"
    by (auto simp: planned_request plan_json_sel)
  from materialized_merge [OF q'(1) [unfolded assms(2)]] q'(2) that show thesis by auto
qed

lemma local_merge_proven:
  assumes "local_executor lc jt pv (execution_value plan) w = (Inr r, w')" and "pp_request plan = Merge_Request q"
  shows "gp_number (sr_current r) = gq_pull_request q \<and> head_of (sr_current r) = gq_head q \<and>
    gp_base (sr_current r) = gq_base q \<and> gp_state (sr_current r) = Closed_State"
proof -
  have "execute_mutation lc jt pv (execution_value plan) w = (Inr r, w')"
    using assms(1) by (cases "fst (execute_mutation lc jt pv (execution_value plan) w)")
      (auto simp: local_executor_def split: prod.splits)
  then obtain plan' where plan': "validate_mutation_plan lc jt (plan_json plan) = Inr plan'" "run_plan lc pv plan' w = (Inr r, w')"
    by (auto simp: executed_value split: sum.splits)
  obtain x where "pp_request plan' = Merge_Request (q\<lparr>gq_repository := x\<rparr>)"
    by (rule validated_merge [OF plan'(1) assms(2)])
  with run_plan_result [OF plan'(2)] show ?thesis
    by (auto simp: proven_merge_def merged_matching_target_def is_merged_def head_of_def)
qed

interpretation local_port: proving_port "local_executor lc jt pv"
  by unfold_locales (rule local_merge_proven)

subsection \<open>When the executor is called\<close>

lemma read_raw_input_Inr:
  "read_raw_input ad q w = (Inr input, w') \<longleftrightarrow>
     (\<exists>raw. ta_read ad q w = (Inr raw, w') \<and> input = request_with_provenance raw (ta_requester ad) None)"
  by (auto simp: read_raw_input_def split: prod.splits sum.splits option.splits)

lemma trusted_merge_steps:
  assumes "execute_trusted_merge ad mp request w = (out, w')"
  shows "w' = snd (ta_read ad request w) \<and> (\<forall>x. out \<noteq> Some (Result x)) \<or>
    (\<exists>raw w1 t run plan strategy. ta_read ad request w = (Inr raw, w1) \<and>
       merge_admitted_from ad mp request (request_with_provenance raw (ta_requester ad) None) t \<and>
       tm_executor mp = Some run \<and> mr_merge_strategy request = Some strategy \<and>
       plan_pull_request_mutation (ta_lower ad) (merge_plan_request mp t strategy) = Inr plan \<and>
       run_merge ad mp request t run plan w1 = (out, w'))"
proof -
  obtain x w1 where read: "read_raw_input ad request w = (x, w1)" by fastforce
  have w1: "w1 = snd (ta_read ad request w)"
    using read by (auto simp: read_raw_input_def split: prod.splits sum.splits option.splits)
  show ?thesis
  proof (cases x)
    case (Inl f)
    with read w1 assms show ?thesis by (auto simp: execute_trusted_merge_def)
  next
    case (Inr input)
    show ?thesis
    proof (cases "merge_subject request (projection_for ad input)")
      case (Inl f)
      with read Inr w1 assms show ?thesis by (auto simp: execute_trusted_merge_def)
    next
      case subject: (Inr c)
      show ?thesis
      proof (cases "admit_merge ad mp input c")
        case (Inl f)
        with read Inr subject w1 assms show ?thesis by (auto simp: execute_trusted_merge_def)
      next
        case admitted: (Inr t)
        show ?thesis
        proof (cases "prepare_merge ad mp request (ch_state c) t")
          case (Inl f)
          with read Inr subject admitted w1 assms show ?thesis by (auto simp: execute_trusted_merge_def)
        next
          case prepared: (Inr rp)
          obtain run plan where rp: "rp = (run, plan)" by fastforce
          have "run_merge ad mp request t run plan w1 = (out, w')"
            using assms read Inr subject admitted prepared rp by (simp add: execute_trusted_merge_def)
          moreover obtain raw where "ta_read ad request w = (Inr raw, w1)"
              "input = request_with_provenance raw (ta_requester ad) None"
            using read Inr by (auto simp: read_raw_input_Inr)
          ultimately show ?thesis
            using admitted_target(1) [OF subject admitted] prepared_merge(1,2) [OF prepared [unfolded rp]] by blast
        qed
      qed
    qed
  qed
qed

subsection \<open>Effects and results\<close>

text \<open>The adapter beside a log of provider effects: it never writes to it itself.\<close>

definition quiet_adapter :: "'w trusted_adapter \<Rightarrow> ('w \<times> 'e list) trusted_adapter" where
  "quiet_adapter ad =
     \<lparr>ta_lower = ta_lower ad, ta_plans = ta_plans ad, ta_requester = ta_requester ad, ta_read = (\<lambda>q. reading (ta_read ad q)),
      ta_apply = (\<lambda>e. reading (ta_apply ad e)), ta_transition_recovery = ta_transition_recovery ad\<rparr>"

lemma quiet_adapter_sel [simp]:
  "ta_lower (quiet_adapter ad) = ta_lower ad" "ta_plans (quiet_adapter ad) = ta_plans ad"
  "ta_requester (quiet_adapter ad) = ta_requester ad" "ta_read (quiet_adapter ad) q = reading (ta_read ad q)"
  by (simp_all add: quiet_adapter_def)

lemma quiet_read:
  "read_raw_input (quiet_adapter ad) q (w, log) = (case read_raw_input ad q w of (x, w') \<Rightarrow> (x, w', log))"
  by (auto simp: read_raw_input_def split: prod.splits sum.splits option.splits)

text \<open>The pull request, as read for the merge, that the provider is asked to merge.\<close>

definition mergeable_pull :: "merge_target \<Rightarrow> gh_pull \<Rightarrow> bool" where
  "mergeable_pull t p \<longleftrightarrow>
     gp_number p = mt_pull t \<and> gp_state p = Open_State \<and> gp_head_sha p = Some (mt_head t) \<and> gp_base p = mt_base t \<and>
     \<not> gp_draft p \<and> \<not> mergeability_blocked p \<and> \<not> mergeability_unknown p"

lemma run_merge_effects:
  assumes "run_merge (quiet_adapter ad) mp request t (local_executor lc jt (record_provider pv)) plan (w, []) = (out, w', log)"
    and "pp_request plan = Merge_Request q" and "gq_pull_request q = mt_pull t" and "gq_head q = mt_head t"
    and "gq_base q = mt_base t" and "log \<noteq> []"
  shows "log = [Merged (mt_pull t) (gq_strategy q) (mt_head t)] \<and>
    (\<exists>p w1 w2. mp_pull pv (mt_pull t) w1 = (Some p, w2) \<and> mergeable_pull t p)"
proof -
  obtain x w1 l where run: "execute_mutation lc jt (record_provider pv) (execution_value plan) (w, []) = (x, w1, l)"
    by (metis prod_cases3)
  have "l = log"
    using assms(1) run by (cases x) (auto simp: run_merge_def local_executor_def quiet_read split: if_splits prod.splits sum.splits)
  with run assms(6) obtain plan' where plan': "validate_mutation_plan lc jt (plan_json plan) = Inr plan'"
      "run_plan lc (record_provider pv) plan' (w, []) = (x, w1, log)"
    by (auto simp: executed_value split: sum.splits)
  obtain r where q: "pp_request plan' = Merge_Request (q\<lparr>gq_repository := r\<rparr>)"
    by (rule validated_merge [OF plan'(1) assms(2)])
  from run_plan_account [OF plan'(2)] assms(6) obtain c p w2 e where
    e: "read_target pv plan' w = (Inr (c, p), w2)" "admit_identity lc plan' c p = None" "log = [e]"
      "admitted_effect pv (pp_request plan') p e" by auto
  have "\<exists>w1 w2. mp_pull pv (mt_pull t) w1 = (Some p, w2)"
    using e(1) q assms(3) by (auto simp: read_target_def Let_def split: prod.splits option.splits)
  moreover have "gp_number p = mt_pull t"
    using e(2) q assms(3) by (auto simp: admit_identity_def split: if_splits)
  ultimately show ?thesis
    using e(3,4) q assms(3-5) by (auto simp: mergeable_pull_def)
qed



subsection \<open>A sample merge\<close>

definition merge_state :: "bool \<Rightarrow> change_state" where
  "merge_state m = (if m then MERGED else REVIEW)"

lemma merge_state_in: "merge_state m \<in> {DRAFT, REVIEW, MERGED}"
  by (simp add: merge_state_def)

text \<open>The adapter reads the evidence of a repository whose pull request is merged or not.\<close>

definition merge_plans :: plan_authority where
  "merge_plans = sample_plans\<lparr>pa_merge_plan := (\<lambda>v. ([], Some v))\<rparr>"

lemma merge_plans_sel [simp]: "pa_branch merge_plans = sample_authority" "pa_merge_plan merge_plans v = ([], Some v)"
    "pa_pull_plan merge_plans v = ([], None)"
  by (simp_all add: merge_plans_def sample_plans_def)

definition merge_adapter :: "bool trusted_adapter" where
  "merge_adapter =
     \<lparr>ta_lower = (\<lambda>s. s), ta_plans = merge_plans, ta_requester = None,
      ta_read = (\<lambda>q w. (Inr (governed_evidence (merge_state w)), w)), ta_apply = (\<lambda>e w. (Inr None, w)),
      ta_transition_recovery = (\<lambda>plan attempts f i. None)\<rparr>"

lemma merge_adapter_sel [simp]:
  "ta_lower merge_adapter = (\<lambda>s. s)" "ta_plans merge_adapter = merge_plans" "ta_requester merge_adapter = None"
  "ta_read merge_adapter q w = (Inr (governed_evidence (merge_state w)), w)"
  by (simp_all add: merge_adapter_def)

lemma sample_projected:
  "projection_for merge_adapter (governed_evidence (merge_state m)) = sample_project (merge_state m)"
  by (simp add: projection_for_def merge_sample_projection [OF merge_state_in])

lemma merge_sample_admitted:
  "\<exists>x. adapter_admission merge_adapter mp (governed_evidence (merge_state m)) (merge_change (merge_state m)) = Some x \<and> ma_valid x \<and>
     located_merge x = Some \<lparr>mt_change = merge_change (merge_state m), mt_branch = js ''feat/7-x'', mt_pull = 8,
       mt_base = js ''main'', mt_head = sample_commit\<rparr>"
  if "tm_artifacts mp = merge_artifacts"
proof -
  have "get_prop (ready_evidence_of (governed_evidence s)) (js ''pullRequest'') = pull_artifact" for s
    by (simp add: ready_evidence_of_def governed_evidence_def sample_projection_input_def)
  then show ?thesis
    by (simp add: adapter_admission_def that sample_admission_run [OF _ merge_state_in] admission_result_def artifact_parts_def
        sample_project_def located_merge_def expected_head_def merge_sample_pull_def merge_read_pull_def)
qed

definition sample_merge_target :: "bool \<Rightarrow> merge_target" where
  "sample_merge_target m = \<lparr>mt_change = merge_change (merge_state m), mt_branch = js ''feat/7-x'', mt_pull = 8,
     mt_base = js ''main'', mt_head = sample_commit\<rparr>"

definition governed_merge :: merge_request where
  "governed_merge = \<lparr>gq_repository = \<lparr>rp_hostname = js ''github.com'', rp_name = js ''acme/app'', rp_id = Some (js ''42'')\<rparr>,
     gq_pull_request = 8, gq_head = sample_commit, gq_base = js ''main'', gq_strategy = Squash\<rparr>"

definition governed_plan :: mutation_plan where
  "governed_plan = plan_of_request (Merge_Request governed_merge)"

definition governed_provider :: "bool mutation_provider" where
  "governed_provider = sample_provider
     \<lparr>mp_context := (\<lambda>w. (Some \<lparr>rc_hostname = js ''github.com'', rc_name = js ''acme/app'', rc_id = Some (js ''42'')\<rparr>, w)),
      mp_pull := (\<lambda>n w. (Some ((sample_pull_state w)\<lparr>gp_head_sha := Some sample_commit\<rparr>), w))\<rparr>"

definition sample_ports :: "json_text \<Rightarrow> (bool \<times> provider_effect list) merge_ports" where
  "sample_ports jt = \<lparr>tm_artifacts = merge_artifacts, tm_hostname = js ''github.com'', tm_name = js ''acme/app'',
     tm_repository_id = js ''42'', tm_executor = Some (local_executor (\<lambda>s. s) jt (record_provider governed_provider))\<rparr>"

definition sample_merge_request :: mutation_request where
  "sample_merge_request = (sample_request OpMerge)\<lparr>mr_issue := 7, mr_merge_strategy := Some (strategy_name Squash)\<rparr>"

lemma sample_ports_sel [simp]:
  "tm_artifacts (sample_ports jt) = merge_artifacts" "tm_hostname (sample_ports jt) = js ''github.com''"
  "tm_name (sample_ports jt) = js ''acme/app''" "tm_repository_id (sample_ports jt) = js ''42''"
  "tm_executor (sample_ports jt) = Some (local_executor (\<lambda>s. s) jt (record_provider governed_provider))"
  "mr_issue sample_merge_request = 7" "mr_merge_strategy sample_merge_request = Some (strategy_name Squash)"
  by (simp_all add: sample_ports_def sample_merge_request_def sample_request_def)

lemma governed_repository: "clean_run (mutation_repository (\<lambda>s. s) (repository_json (gq_repository governed_merge)) path)
    (Some (gq_repository governed_merge))"
proof (rule repository_round_trip)
  show "wf_pr_repository (gq_repository governed_merge)"
    by (simp add: governed_merge_def wf_pr_repository_def mutation_text_ok_def js_eval repository_word_def
        is_white_space_def utf8_length_ascii control_unit_def is_digit_def)
  show "wf_host (rp_hostname (gq_repository governed_merge))"
    by (simp add: governed_merge_def wf_host_def mutation_text_ok_def js_eval repository_word_def is_white_space_def utf8_length_ascii)
  show "to_lower (\<lambda>s. s) (rp_hostname (gq_repository governed_merge)) = rp_hostname (gq_repository governed_merge)"
    by (simp add: governed_merge_def to_lower_def js_eval ascii_lower_def is_upper_def)
qed

lemma governed_plan_made:
  "plan_pull_request_mutation (\<lambda>s. s) (merge_plan_request (sample_ports jt) (sample_merge_target m) (strategy_name Squash)) = Inr governed_plan"
proof -
  have "wf_head sample_commit" "mutation_text_ok (js ''main'') max_expected_base False True"
    by (simp_all add: wf_head_def mutation_text_ok_def sample_commit_def js_eval max_expected_head_def max_expected_base_def
        control_unit_def is_white_space_def utf8_length_ascii is_ascii_def list_ex_iff list_all_iff)
  then have "clean_run (merge_request_checks (merge_plan_request (sample_ports jt) (sample_merge_target m) (strategy_name Squash))
      (Some (gq_repository governed_merge)) (Some 8)) (Some (Merge_Request governed_merge))"
    by (simp add: clean_merge_request merge_plan_request_def sample_merge_target_def governed_merge_def)
  then have "materialize_request (\<lambda>s. s) (merge_plan_request (sample_ports jt) (sample_merge_target m) (strategy_name Squash)) =
      Inr (Merge_Request governed_merge)"
    unfolding materialized clean_mutation_request
    by (intro conjI exI [of _ Merge_Op] exI [of _ "gq_repository governed_merge"] exI [of _ 8])
      (use governed_repository in \<open>simp_all add: merge_plan_request_def sample_merge_target_def max_safe_integer_def
        repository_json_def governed_merge_def\<close>)
  then show ?thesis by (simp add: planned_request governed_plan_def)
qed

lemma governed_plan_valid: "validate_mutation_plan (\<lambda>s. s) jt (plan_json governed_plan) = Inr governed_plan"
proof (rule plan_survives [OF governed_plan_made])
  show "ascii_host (merge_plan_request (sample_ports jt) (sample_merge_target m) (strategy_name Squash))" for jt m
    by (simp add: ascii_host_def merge_plan_request_def js_eval)
qed

lemma governed_run:
  "\<exists>r. local_executor (\<lambda>s. s) jt (record_provider governed_provider) (execution_value governed_plan) (False, []) =
     (Inr r, True, [Merged 8 Squash sample_commit]) \<and> merge_postcondition (sample_merge_target m) (sr_current r)"
proof -
  let ?pv = "record_provider governed_provider"
  let ?reached = "\<lparr>rc_hostname = js ''github.com'', rc_name = js ''acme/app'', rc_id = Some (js ''42'')\<rparr>"
  let ?pull = "\<lambda>w. (sample_pull_state w)\<lparr>gp_head_sha := Some sample_commit\<rparr>"
  have req: "pp_request governed_plan = Merge_Request governed_merge" by (simp add: governed_plan_def)
  have target: "read_target ?pv governed_plan (False, []) = (Inr (?reached, ?pull False), False, [])"
    by (simp add: read_target_def governed_provider_def sample_provider_def Let_def)
  have identity: "admit_identity (\<lambda>s. s) governed_plan ?reached (?pull False) = None"
    by (simp add: admit_identity_def repository_matches_def governed_plan_def governed_merge_def sample_pull_state_def)
  have admitted: "merge_admission_of governed_plan governed_merge (?pull False) = None"
    by (simp add: merge_admission_of_def admit_head_def sample_pull_state_def governed_merge_def merged_as_requested_def
        mergeability_blocked_def mergeability_unknown_def)
  have policy: "read_merge_policy ?pv p s = (Inr None, s)" for p s
    by (cases s) (simp add: read_merge_policy_def governed_provider_def sample_provider_def)
  have "\<exists>r. merge_effect ?pv governed_plan governed_merge (?pull False) (False, []) =
      (Inr r, True, [Merged 8 Squash sample_commit]) \<and> sr_current r = ?pull True"
    by (simp add: merge_effect_def governed_provider_def sample_provider_def merge_verdict_def merge_proven_def provider_error_def
        merged_matching_own_effect_def merged_matching_target_def is_merged_def sample_pull_state_def governed_merge_def Let_def)
  then obtain r where r: "merge_effect ?pv governed_plan governed_merge (?pull False) (False, []) =
      (Inr r, True, [Merged 8 Squash sample_commit])" "sr_current r = ?pull True" by blast
  have "run_plan (\<lambda>s. s) ?pv governed_plan (False, []) = (Inr r, True, [Merged 8 Squash sample_commit])"
    using r(1) by (simp add: run_plan_def target identity execute_pr_merge_def admitted policy strategy_allowed_def
        merge_policy_satisfied_def req)
  then have "local_executor (\<lambda>s. s) jt ?pv (execution_value governed_plan) (False, []) =
      (Inr r, True, [Merged 8 Squash sample_commit])"
    by (simp add: local_executor_def executed_value governed_plan_valid)
  moreover have "merge_postcondition (sample_merge_target m) (sr_current r)"
    by (simp add: merge_postcondition_def r(2) sample_merge_target_def sample_pull_state_def head_of_def)
  ultimately show ?thesis by blast
qed

subsection \<open>The sample merge, run\<close>

definition sample_merge_json :: jsval where
  "sample_merge_json =
     JObj [(js ''branch'', JStr (js ''feat/7-x'')), (js ''baseBranch'', JStr (js ''main'')),
       (js ''pullRequest'', JNum (Integral 8)), (js ''semanticPullRequestMergePlan'', plan_json governed_plan)]"

definition sample_transition :: transition_request where
  "sample_transition = \<lparr>tq_transition = OpMerge, tq_change = merge_change REVIEW,
     tq_target = Some (no_target\<lparr>tt_branch := Some (js ''feat/7-x''), tt_base_branch := Some (js ''main''), tt_pull_request := Some 8,
       tt_semantic_merge_plan := Some (plan_json governed_plan)\<rparr>)\<rparr>"

lemma sample_merge_target_valid:
  "validate_transition_target merge_plans sample_merge_json path = Some (Inr (the (tq_target sample_transition)))"
proof -
  have "clean_run (target_checks merge_plans sample_merge_json path ([], None) ([], Some (plan_json governed_plan)))
      (Some (the (tq_target sample_transition)))"
    by (simp del: bounded_text.simps commit_sha.simps add: target_checks_def clean_run_bind checked sample_merge_json_def
        target_keys_def sample_transition_def no_target_def max_safe_integer_def)
  then show ?thesis
    by (simp add: validate_transition_target_def plan_property_def sample_merge_json_def Let_def
        validation_result_Inr clean_run_checks [symmetric])
qed

lemma sample_merge_semantics: "\<exists>r. validate_transition_semantics (\<lambda>s. s) (merge_change REVIEW) OpMerge (tq_target sample_transition) = Inr r"
proof -
  have "lifecycle_edge REVIEW OpMerge MERGED" by (simp add: lifecycle_edge.intros)
  moreover have "\<not> plan_repository_differs (\<lambda>s. s) (plan_json governed_plan) [''request'', ''repository''] ''hostname'' sample_identity"
    by (simp add: plan_repository_differs_def plan_at_def plan_text_def plan_json_def governed_plan_def governed_merge_def
        repository_json_def sample_identity_def to_lower_def js_eval ascii_lower_def is_upper_def)
  moreover have "plan_at (plan_json governed_plan) [''operation''] = JStr (js ''merge'')"
      "plan_at (plan_json governed_plan) [''request'', ''pullRequest''] = JNum (Integral 8)"
      "plan_at (plan_json governed_plan) [''request'', ''expectedBase''] = JStr (js ''main'')"
    by (simp_all add: plan_at_def plan_json_def governed_plan_def governed_merge_def)
  ultimately show ?thesis
    by (auto simp: valid_semantics clean_merge_checks sample_transition_def no_target_def)
qed

lemma sample_transition_plans:
  "\<exists>p. plan_change_transition (\<lambda>s. s) merge_plans (merge_transition_value (sample_merge_target False) governed_plan) = Inr p"
proof -
  have edge: "lifecycle_edge REVIEW OpMerge MERGED" by (simp add: lifecycle_edge.intros)
  have shape: "merge_transition_value (sample_merge_target False) governed_plan =
      JObj [(js ''version'', JNum (Integral 1)), (js ''transition'', JStr (js ''merge'')),
        (js ''change'', change_value (merge_change REVIEW)), (js ''target'', sample_merge_json)]"
    by (simp add: merge_transition_value_def sample_merge_target_def sample_merge_json_def merge_state_def)
  have name: "normalize_change_transition (\<lambda>s. s) (JStr (js ''merge'')) = Some OpMerge"
    using sample_transition_read [of OpMerge] by simp
  obtain r where "validate_transition_semantics (\<lambda>s. s) (merge_change REVIEW) OpMerge
      (Some (the (tq_target sample_transition))) = Inr r"
    using sample_merge_semantics by (auto simp: sample_transition_def)
  then have "validate_transition_request (\<lambda>s. s) merge_plans (merge_transition_value (sample_merge_target False) governed_plan) =
      Some (Inr sample_transition)"
    using wf_change_validates [OF wf_merge_change [of REVIEW], of "\<lambda>s. s"]
    by (simp del: normalize_change_transition.simps transition_name.simps add: validate_transition_request_def shape name
        validation_result_Inr clean_request_checks request_keys_def sample_merge_target_valid)
      (simp add: sample_transition_def)
  moreover have "\<exists>p. build_transition_plan sample_transition = Inr p"
    using edge by (simp add: sample_transition_def build_plan_eq [where to = MERGED] operation_effects_def
        resolved_transition_target_def Let_def target_or_none_def no_target_def)
  ultimately show ?thesis by (auto simp: plan_change_transition_def)
qed

lemma quiet_admission [simp]:
  "projection_for (quiet_adapter ad) i = projection_for ad i"
  "adapter_admission (quiet_adapter ad) mp i c =
     validate_merge_admission (ta_lower ad) (ta_plans ad) (tm_artifacts mp)
       (JObj [(js ''change'', change_value c), (js ''projection'', JObj i),
              (js ''pullRequest'', get_prop (ready_evidence_of i) (js ''pullRequest''))])"
  by (simp_all add: projection_for_def adapter_admission_def)

lemma sample_admission:
  "\<exists>x. adapter_admission (quiet_adapter merge_adapter) (sample_ports jt) (governed_evidence (merge_state m)) (merge_change (merge_state m)) = Some x \<and>
     ma_valid x \<and> located_merge x = Some (sample_merge_target m)"
  using merge_sample_admitted [of "\<lparr>tm_artifacts = merge_artifacts, tm_hostname = [], tm_name = [], tm_repository_id = [], tm_executor = None\<rparr>" m]
  by (auto simp: adapter_admission_def sample_merge_target_def)

lemma sample_reading:
  "read_raw_input (quiet_adapter merge_adapter) q (w, log) = (Inr (governed_evidence (merge_state w)), w, log)"
  by (simp add: quiet_read read_raw_input_def governed_evidence_bound)

lemma sample_merge_run:
  "\<exists>x. execute_trusted_merge (quiet_adapter merge_adapter) (sample_ports jt) sample_merge_request (False, []) =
     (Some (Result x), True, [Merged 8 Squash sample_commit])"
proof -
  let ?ad = "quiet_adapter merge_adapter" and ?mp = "sample_ports jt"
  obtain r where r: "local_executor (\<lambda>s. s) jt (record_provider governed_provider) (execution_value governed_plan) (False, []) =
      (Inr r, True, [Merged 8 Squash sample_commit])" "merge_postcondition (sample_merge_target False) (sr_current r)"
    using governed_run by blast
  have subject: "merge_subject sample_merge_request (projection_for ?ad (governed_evidence (merge_state False))) = Inr (merge_change (merge_state False))"
    by (simp add: merge_subject_def sample_projected) (simp add: sample_project_def sample_identity_def merge_state_def)
  have ready: "ready_evidence_of (governed_evidence (merge_state m)) \<noteq> JUndef" for m
    by (simp add: ready_evidence_of_def governed_evidence_def sample_projection_input_def)
  obtain x where x: "adapter_admission ?ad ?mp (governed_evidence (merge_state False)) (merge_change (merge_state False)) = Some x" "ma_valid x"
      "located_merge x = Some (sample_merge_target False)"
    using sample_admission by blast
  then have "ma_change x \<noteq> None" "ma_projection x \<noteq> None" by (auto simp: located_merge_def bind_eq_Some_conv)
  with x have admitted: "admit_merge ?ad ?mp (governed_evidence (merge_state False)) (merge_change (merge_state False)) = Inr (sample_merge_target False)"
    by (simp add: admit_merge_def ready del: quiet_admission)
  obtain tp where "plan_change_transition (\<lambda>s. s) merge_plans (merge_transition_value (sample_merge_target False) governed_plan) = Inr tp"
    using sample_transition_plans by blast
  then have prepared: "prepare_merge ?ad ?mp sample_merge_request (merge_state False) (sample_merge_target False) =
      Inr (local_executor (\<lambda>s. s) jt (record_provider governed_provider), governed_plan)"
    using governed_plan_made [of jt False] by (simp add: prepare_merge_def merge_state_def)
  have final: "\<exists>ds. final_admission ?ad ?mp (governed_evidence (merge_state True)) = Some (True, ds)"
    using sample_admission [of jt True] by (auto simp: final_admission_def Let_def ready sample_projected sample_project_def simp del: quiet_admission(2))
  have merged: "merged_projection (sample_merge_target False) (projection_for ?ad (governed_evidence (merge_state True)))"
    by (simp add: merged_projection_def sample_projected) (simp add: sample_project_def sample_merge_target_def merge_state_def)
  from final merged have "\<exists>x. finish_merge ?ad ?mp sample_merge_request (sample_merge_target False) r (governed_evidence (merge_state True)) = Some (Result x)"
    by (auto simp: finish_merge_def Let_def)
  then obtain x where "finish_merge ?ad ?mp sample_merge_request (sample_merge_target False) r (governed_evidence (merge_state True)) = Some (Result x)"
    by blast
  then show ?thesis
    by (simp add: execute_trusted_merge_def sample_reading subject admitted prepared run_merge_def r del: quiet_admission)
qed



end
