(* ===== verification/Ready_Admission.thy ===== *)
theory Ready_Admission
  imports Governed_Sample
begin

text \<open>
  \<^verbatim>\<open>validateChangeReadyTransition\<close> and \<^verbatim>\<open>planChangeReadyTransition\<close> of
  \<^verbatim>\<open>src/src/change.ts\<close>: what must hold before a draft pull request is marked ready for review.
  Ready admission is merge admission of fresh evidence, with an open root Issue and either a governed
  root Issue artifact or the conformance of the current Implementation.
\<close>

subsection \<open>The input of merge admission\<close>

definition alias_prop :: "string \<Rightarrow> jsval option \<Rightarrow> (jstr \<times> jsval) list" where
  "alias_prop key x = opt_prop key (\<lambda>v. v) x"

definition spread_projection :: "jsval \<Rightarrow> jsval option \<Rightarrow> jsval option" where
  "spread_projection v x =
     (let own = (\<lambda>k. if has_prop v (js k) then [(js k, get_prop v (js k))] else []) in
      if \<not> list_ex (\<lambda>k. has_prop v (js k)) flattened_keys then None
      else Some (JObj ((js ''change'', (case x of None \<Rightarrow> JUndef | Some c \<Rightarrow> c)) # own ''branchPlan''
            @ [(js ''branchGovernance'', get_prop v (js ''branchGovernance'')), (js ''naming'', get_prop v (js ''naming'')),
               (js ''baseBranch'', get_prop v (js ''baseBranch'')), (js ''evidence'', get_prop v (js ''evidence''))]
            @ own ''provenance'')))"

definition ready_pull_alias :: "jsval \<Rightarrow> jsval option checked" where
  "ready_pull_alias v = do {
     p \<leftarrow> admission_alias v [''pullRequest'', ''governedPullRequest''] ''$.pullRequest'';
     (case p of
        Some x \<Rightarrow> State_Monad.return (Some x)
      | None \<Rightarrow> do {
          c \<leftarrow> admission_alias v [''pullRequestContract'', ''prContract'', ''contract''] ''$.pullRequest.contract'';
          b \<leftarrow> admission_alias v [''pullRequestBody'', ''prBody'', ''body''] ''$.pullRequest.body'';
          State_Monad.return (if c \<noteq> None \<or> b \<noteq> None then Some (JObj (alias_prop ''contract'' c @ alias_prop ''body'' b)) else None)
        })
   }"

text \<open>The change, projection, pull request and issuer of the input, each if there is one.\<close>

definition ready_admission_parts ::
  "jsval \<Rightarrow> (jsval option \<times> jsval option \<times> jsval option \<times> jsval option) checked" where
  "ready_admission_parts v = do {
     c \<leftarrow> change_alias v;
     p \<leftarrow> projection_alias v;
     r \<leftarrow> ready_pull_alias v;
     i \<leftarrow> admission_alias v [''issuer'', ''expectedIssuer''] ''$.issuer'';
     State_Monad.return (c, if p = None then spread_projection v c else p, r, i)
   }"

text \<open>The property \<^verbatim>\<open>readyEvidence\<close>, where it is an object.\<close>

definition record_at :: "jsval \<Rightarrow> string \<Rightarrow> jsval" where
  "record_at v key = (let x = get_prop v (js key) in if is_record x then x else JUndef)"

definition nested_evidence :: "jsval \<Rightarrow> jsval" where
  "nested_evidence v = record_at v ''readyEvidence''"

definition ready_pull_request_input :: "jsval \<Rightarrow> jsval" where
  "ready_pull_request_input v =
     (let nested = nested_evidence v; direct = get_prop nested (js ''pullRequest'') in
      if has_prop v (js ''pullRequest'') \<or> has_prop v (js ''governedPullRequest'') then JUndef
      else if has_prop nested (js ''pullRequest'') \<or> has_prop nested (js ''governedPullRequest'')
      then (if direct = JUndef \<or> direct = JNull then get_prop nested (js ''governedPullRequest'') else direct)
      else JUndef)"

definition ready_admission_value ::
  "jsval \<Rightarrow> jsval option \<times> jsval option \<times> jsval option \<times> jsval option \<Rightarrow> jsval" where
  "ready_admission_value v parts =
     (case parts of (c, p, r, i) \<Rightarrow>
        let nested = ready_pull_request_input v in
        JObj (alias_prop ''change'' c @ alias_prop ''projection'' p @ alias_prop ''pullRequest'' r @ alias_prop ''issuer'' i
          @ (if r = None \<and> nested \<noteq> JUndef then [(js ''pullRequest'', nested)] else [])))"

subsection \<open>The root Issue\<close>

definition evidence_unless :: "bool \<Rightarrow> string \<Rightarrow> string \<Rightarrow> string \<Rightarrow> unit checked" where
  "evidence_unless b code path message = report_if (\<not> b) code (js path) (js message)"

definition root_issue_value_checks :: "jsval \<Rightarrow> change_identity option \<Rightarrow> unit checked" where
  "root_issue_value_checks value identity = do {
     evidence_unless (get_prop value (js ''state'') = JStr (js ''open'')) ''CHANGE_PROVENANCE_ROOT_ISSUE_MISMATCH''
       ''$.projection.evidence.issue.value.state'' ''The root Issue must remain open for the Ready transition.'';
     evidence_unless (case identity of None \<Rightarrow> True | Some i \<Rightarrow> get_prop value (js ''number'') = JNum (Integral (root_issue i)))
       ''CHANGE_PROJECTION_ISSUE_MISMATCH'' ''$.projection.evidence.issue.value.number''
       ''Root Issue evidence does not match the canonical Change identity.''
   }"

definition root_issue_checks :: "jsval \<Rightarrow> change_identity option \<Rightarrow> unit checked" where
  "root_issue_checks projection identity =
     (let evidence = get_prop projection (js ''evidence''); issue = get_prop evidence (js ''issue'');
          value = get_prop issue (js ''value'') in
      if \<not> is_record evidence
      then evidence_unless False ''CHANGE_PROJECTION_EVIDENCE_MISSING'' ''$.projection.evidence.issue''
             ''Ready validation requires fresh root Issue evidence.''
      else if \<not> is_record issue \<or> get_prop issue (js ''status'') \<noteq> JStr (js ''available'')
      then evidence_unless False ''CHANGE_PROJECTION_EVIDENCE_MISSING'' ''$.projection.evidence.issue''
             ''Ready validation requires an available root Issue read.''
      else if \<not> is_record value
      then evidence_unless False ''CHANGE_PROJECTION_INVALID_EVIDENCE'' ''$.projection.evidence.issue.value''
             ''Root Issue evidence is invalid.''
      else root_issue_value_checks value identity)"

subsection \<open>Conformance of the Implementation\<close>

text \<open>
  The result of \<^verbatim>\<open>tryVerifyImplementationConformance\<close>
  (\<^verbatim>\<open>src/src/implementation-conformance.ts\<close>, a parameter), as far as Ready reads it.
\<close>

record conformance_binding =
  cb_pull_request :: jstr
  cb_repository :: jstr
  cb_base :: jstr
  cb_branch :: jstr

record conformance_pull =
  cf_number :: int
  cf_host :: jstr
  cf_repository_id :: "jstr option"
  cf_head_branch :: jstr
  cf_head_revision :: jstr
  cf_base_branch :: jstr
  cf_base_revision :: jstr

record conformance_result =
  co_status :: jstr
  co_valid :: bool
  co_authorized :: bool
  co_current :: bool
  co_authorization :: "jstr option"
  co_binding :: "conformance_binding option"
  co_pull :: "conformance_pull option"
  co_diagnostics :: "(jstr \<times> jstr \<times> jstr) list"

definition bound_everywhere :: "conformance_binding \<Rightarrow> bool" where
  "bound_everywhere b \<longleftrightarrow>
     cb_pull_request b = js ''matched'' \<and> cb_repository b = js ''matched'' \<and> cb_base b = js ''matched'' \<and> cb_branch b = js ''matched''"

definition conformant :: "conformance_result \<Rightarrow> bool" where
  "conformant r \<longleftrightarrow>
     co_valid r \<and> co_status r = js ''conformant'' \<and> co_authorized r \<and> co_current r \<and> co_authorization r = Some (js ''authorized'') \<and>
     (case co_binding r of None \<Rightarrow> False | Some b \<Rightarrow> bound_everywhere b) \<and> co_pull r \<noteq> None \<and> co_diagnostics r = []"

definition conformance_unless :: "bool \<Rightarrow> string \<Rightarrow> string \<Rightarrow> unit checked" where
  "conformance_unless b path message = report_if (\<not> b) ''CHANGE_IMPLEMENTATION_CONFORMANCE_INVALID'' (js path) (js message)"

definition conformance_required :: "string \<Rightarrow> string \<Rightarrow> unit checked" where
  "conformance_required path message = add_diagnostic ''CHANGE_IMPLEMENTATION_CONFORMANCE_REQUIRED'' (js path) (js message)"

fun add_conformance_diagnostics :: "(jstr \<times> jstr \<times> jstr) list \<Rightarrow> unit checked" where
  "add_conformance_diagnostics [] = State_Monad.return ()"
| "add_conformance_diagnostics ((code, path, message) # ds) = do {
     add_diagnostic ''CHANGE_IMPLEMENTATION_CONFORMANCE_INVALID'' (admission_path (js ''$.implementationConformance'') path)
       (code @ js '': '' @ message);
     add_conformance_diagnostics ds
   }"

definition conformance_outcome :: "conformance_result \<Rightarrow> unit checked" where
  "conformance_outcome r =
     (if conformant r then State_Monad.return ()
      else if co_diagnostics r = []
      then add_diagnostic ''CHANGE_IMPLEMENTATION_CONFORMANCE_INVALID'' (js ''$.implementationConformance'')
             (js ''Implementation conformance is '' @ co_status r @ js '' and cannot admit Ready.'')
      else add_conformance_diagnostics (co_diagnostics r))"

definition ready_evidence_value :: "jsval \<Rightarrow> string \<Rightarrow> jsval option" where
  "ready_evidence_value v key =
     (if has_prop v (js key) then Some (get_prop v (js key))
      else if has_prop (nested_evidence v) (js key) then Some (get_prop (nested_evidence v) (js key)) else None)"

definition value_or_undefined :: "jsval option \<Rightarrow> jsval" where
  "value_or_undefined x = (case x of None \<Rightarrow> JUndef | Some v \<Rightarrow> v)"

text \<open>\<^verbatim>\<open>===\<close>; two objects of an input are never the same object.\<close>

definition strictly_equal :: "jsval \<Rightarrow> jsval \<Rightarrow> bool" where
  "strictly_equal v w \<longleftrightarrow> v = w \<and> \<not> is_record v \<and> (case v of JArr xs \<Rightarrow> False | _ \<Rightarrow> True)"

definition same_implementation_reference :: "(jstr \<Rightarrow> jstr) \<Rightarrow> jsval \<Rightarrow> change_identity option \<Rightarrow> bool" where
  "same_implementation_reference lc v identity =
     (case (identity, normalize_issue_reference lc v (js ''$'')) of
        (Some i, Inr r) \<Rightarrow> ir_host r = repository_host i \<and> ir_repository_id r = repository_id i \<and> ir_number r = root_issue i
      | _ \<Rightarrow> False)"

text \<open>The body of the pull request of the input, wherever it stands.\<close>

definition admission_pull_body :: "jsval \<Rightarrow> jsval" where
  "admission_pull_body v =
     (let nested = nested_evidence v; here = (\<lambda>x. has_prop x (js ''pullRequest'') \<or> has_prop x (js ''governedPullRequest''));
          body = (\<lambda>x. get_prop (record_at x (if has_prop x (js ''pullRequest'') then ''pullRequest'' else ''governedPullRequest''))
                        (js ''body'')) in
      if here v then body v
      else if here nested then body nested
      else if has_prop v (js ''pullRequestBody'') then get_prop v (js ''pullRequestBody'')
      else if has_prop v (js ''prBody'') then get_prop v (js ''prBody'')
      else get_prop v (js ''body''))"

definition conformance_issue_checks :: "(jstr \<Rightarrow> jstr) \<Rightarrow> jsval \<Rightarrow> jsval \<Rightarrow> change_identity option \<Rightarrow> unit checked" where
  "conformance_issue_checks lc v raw identity =
     (let issue = record_at raw ''issue''; body = value_or_undefined (ready_evidence_value v ''implementationIssueBody'') in do {
        conformance_unless (same_implementation_reference lc (get_prop issue (js ''reference'')) identity)
          ''$.implementationConformance.issue.reference''
          ''Implementation conformance must target the canonical Change Implementation.'';
        (case body of
           JStr s \<Rightarrow> conformance_unless (get_prop issue (js ''body'') = JStr s) ''$.implementationConformance.issue.body''
             ''Implementation conformance was not derived from the current Implementation body.''
         | _ \<Rightarrow> conformance_required ''$.implementationIssueBody'' ''Current Implementation Issue body evidence is required.'')
      })"

definition conformance_base_checks :: "jsval \<Rightarrow> jsval \<Rightarrow> conformance_result \<Rightarrow> unit checked" where
  "conformance_base_checks v raw r =
     (let base = record_at raw ''base''; revision = value_or_undefined (ready_evidence_value v ''baseRevision'') in do {
        (case revision of
           JStr (c # s) \<Rightarrow> conformance_unless (case co_pull r of None \<Rightarrow> True | Some p \<Rightarrow> cf_base_revision p = c # s)
             ''$.implementationConformance.pullRequest.base.revision''
             ''Implementation conformance does not bind to the current base revision.''
         | _ \<Rightarrow> conformance_required ''$.baseRevision'' ''Current base revision evidence is required.'');
        conformance_unless (base \<noteq> JUndef \<and> strictly_equal (get_prop base (js ''revision'')) revision)
          ''$.implementationConformance.base.revision'' ''Implementation conformance base evidence is stale or unavailable.''
      })"

definition conformance_pull_checks :: "conformance_result \<Rightarrow> merge_admission \<Rightarrow> change_identity option \<Rightarrow> unit checked" where
  "conformance_pull_checks r m identity =
     (case co_pull r of
        None \<Rightarrow> State_Monad.return ()
      | Some p \<Rightarrow> do {
          conformance_unless (Option.bind (ma_change m) projected_pull_request = Some (cf_number p))
            ''$.implementationConformance.pullRequest.number''
            ''Implementation conformance PR identity does not match the canonical Change PR.'';
          conformance_unless (case identity of None \<Rightarrow> True
              | Some i \<Rightarrow> cf_host p = repository_host i \<and> cf_repository_id p = Some (repository_id i))
            ''$.implementationConformance.pullRequest.repository''
            ''Implementation conformance PR repository does not match the canonical Change repository.'';
          conformance_unless (Option.bind (ma_change m) projected_branch = Some (cf_head_branch p))
            ''$.implementationConformance.pullRequest.head.branch''
            ''Implementation conformance PR branch does not match the canonical Change branch.'';
          conformance_unless (Option.bind (ma_projection m) pr_canonical_base = Some (cf_base_branch p))
            ''$.implementationConformance.pullRequest.base.branch''
            ''Implementation conformance PR base branch does not match the canonical Change base.''
        })"

definition conformance_head_checks :: "conformance_result \<Rightarrow> merge_admission \<Rightarrow> unit checked" where
  "conformance_head_checks r m =
     (case Option.bind (ma_pull_request m) pe_head_sha of
        None \<Rightarrow> conformance_required ''$.projection.candidates.pullRequests.headSha''
                  ''Current pull-request head revision evidence is required for Implementation Ready.''
      | Some sha \<Rightarrow> conformance_unless (case co_pull r of None \<Rightarrow> True | Some p \<Rightarrow> cf_head_revision p = sha)
          ''$.implementationConformance.pullRequest.head.revision''
          ''Implementation conformance is stale for the current pull-request head.'')"

definition conformance_body_checks :: "jsval \<Rightarrow> jsval \<Rightarrow> unit checked" where
  "conformance_body_checks v raw =
     (let pull = record_at raw ''pullRequest'' in
      if \<not> has_prop pull (js ''body'')
      then conformance_required ''$.implementationConformance.pullRequest.body''
             ''Current pull-request body evidence is required for Implementation Ready.''
      else conformance_unless (strictly_equal (get_prop pull (js ''body'')) (admission_pull_body v))
             ''$.implementationConformance.pullRequest.body''
             ''Implementation conformance was not derived from the current pull-request body.'')"

text \<open>Whether the input is about an Implementation, after checking that it conforms.\<close>

definition conformance_checks ::
  "(jstr \<Rightarrow> jstr) \<Rightarrow> (jsval \<Rightarrow> conformance_result) \<Rightarrow> jsval \<Rightarrow> merge_admission \<Rightarrow> change_identity option \<Rightarrow> bool checked" where
  "conformance_checks lc verifier v m identity =
     (case ready_evidence_value v ''implementationConformance'' of
        None \<Rightarrow> State_Monad.return False
      | Some raw \<Rightarrow>
          if raw = JUndef
          then do {
            conformance_required ''$.implementationConformance''
              ''Implementation-native Ready requires raw current Implementation conformance evidence.'';
            State_Monad.return True
          }
          else let r = verifier raw in do {
            conformance_outcome r;
            conformance_issue_checks lc v raw identity;
            conformance_base_checks v raw r;
            conformance_pull_checks r m identity;
            conformance_head_checks r m;
            conformance_body_checks v raw;
            State_Monad.return True
          })"

subsection \<open>The root Issue artifact\<close>

definition nested_ready_keys :: "jstr list" where
  "nested_ready_keys =
     [js ''issue'', js ''rootIssue'', js ''pullRequest'', js ''implementationConformance'', js ''implementationIssueBody'',
      js ''baseRevision'']"

definition spread_issue_evidence :: "jsval \<Rightarrow> bool \<Rightarrow> artifact_evidence option checked" where
  "spread_issue_evidence v native = do {
     c \<leftarrow> admission_alias v [''issueContract'', ''rootIssueContract''] ''$.issue.contract'';
     b \<leftarrow> admission_alias v [''issueBody'', ''rootIssueBody''] ''$.issue.body'';
     (if c \<noteq> None \<or> b \<noteq> None
      then parse_ready_artifact (JObj (alias_prop ''contract'' c @ alias_prop ''body'' b)) (js ''$.issue'')
      else if native then State_Monad.return None
      else reject_with ''CHANGE_MISSING_PROPERTY'' (js ''$.issue'') (js ''Root Issue governance evidence is required.''))
   }"

definition ready_issue_evidence :: "jsval \<Rightarrow> bool \<Rightarrow> artifact_evidence option checked" where
  "ready_issue_evidence v native =
     (let nested = nested_evidence v in do {
        (if nested = JUndef then State_Monad.return ()
         else add_unknown_properties nested nested_ready_keys (js ''$.readyEvidence''));
        direct \<leftarrow> admission_alias v [''issue'', ''rootIssue'', ''issueArtifact'', ''rootIssueArtifact''] ''$.issue'';
        (case direct of
           Some x \<Rightarrow> parse_ready_artifact x (js ''$.issue'')
         | None \<Rightarrow> do {
             inner \<leftarrow> (if nested = JUndef then State_Monad.return None
                      else admission_alias nested [''issue'', ''rootIssue''] ''$.readyEvidence.issue'');
             (case inner of Some x \<Rightarrow> parse_ready_artifact x (js ''$.issue'') | None \<Rightarrow> spread_issue_evidence v native)
           })
      })"

subsection \<open>Ready admission\<close>

definition ready_keys :: "jstr list" where
  "ready_keys =
     [js ''change'', js ''projection'', js ''issue'', js ''rootIssue'', js ''issueArtifact'', js ''rootIssueArtifact'',
      js ''pullRequest'', js ''governedPullRequest'', js ''issuer'', js ''expectedIssuer'', js ''canonicalChange'', js ''canonical'',
      js ''projectionInput'', js ''projectionResult'', js ''issueContract'', js ''rootIssueContract'', js ''issueBody'',
      js ''rootIssueBody'', js ''pullRequestContract'', js ''prContract'', js ''pullRequestBody'', js ''prBody'', js ''contract'',
      js ''body'', js ''branchGovernance'', js ''branchPlan'', js ''naming'', js ''baseBranch'', js ''evidence'',
      js ''provenance'', js ''readyEvidence'', js ''implementationConformance'', js ''implementationIssueBody'',
      js ''baseRevision'']"

record ready_validation =
  rv_valid :: bool
  rv_change :: "change option"
  rv_projection :: "projection_result option"
  rv_pull_request :: "pull_request_evidence option"
  rv_idempotent :: "bool option"
  rv_diagnostics :: "change_diagnostic list"

definition ready_state_checks :: "merge_admission \<Rightarrow> unit checked" where
  "ready_state_checks m =
     (case ma_change m of
        Some c \<Rightarrow>
          if ma_valid m \<and> ch_state c \<notin> set [DRAFT, REVIEW]
          then add_diagnostic ''CHANGE_TRANSITION_NOT_ALLOWED'' (js ''$.change.state'')
                 (js ''Ready transition is only allowed from DRAFT or REVIEW, not '' @ change_state_name (ch_state c) @ js ''.'')
          else State_Monad.return ()
      | None \<Rightarrow> State_Monad.return ())"

definition ready_checks ::
  "(jstr \<Rightarrow> jstr) \<Rightarrow> artifact_authority \<Rightarrow> (jsval \<Rightarrow> conformance_result) \<Rightarrow> jsval \<Rightarrow> jsval \<Rightarrow> merge_admission \<Rightarrow> unit checked" where
  "ready_checks lc aa verifier v admission m =
     (let identity = map_option ch_identity (result_value (validate_change lc (get_prop admission (js ''change'')))) in do {
        root_issue_checks (get_prop admission (js ''projection'')) identity;
        native \<leftarrow> conformance_checks lc verifier v m identity;
        e \<leftarrow> ready_issue_evidence v native;
        (if native then State_Monad.return ()
         else ready_issue_artifact lc aa e identity (optional_text (Option.bind (ma_projection m) pr_canonical_base)));
        ready_state_checks m
      })"

definition ready_result :: "merge_admission \<Rightarrow> change_diagnostic list \<Rightarrow> ready_validation" where
  "ready_result m ds =
     (let valid = (ma_valid m \<and> ds = []) in
      \<lparr>rv_valid = valid, rv_change = (if valid then ma_change m else None), rv_projection = ma_projection m,
       rv_pull_request = ma_pull_request m,
       rv_idempotent = (if valid then Some (map_option ch_state (ma_change m) = Some REVIEW) else None),
       rv_diagnostics = diagnostic_report ds\<rparr>)"

text \<open>\<^const>\<open>None\<close>: an exception of merge admission, or of taking over its diagnostics.\<close>

definition validate_ready ::
  "(jstr \<Rightarrow> jstr) \<Rightarrow> plan_authority \<Rightarrow> artifact_authority \<Rightarrow> (jsval \<Rightarrow> conformance_result) \<Rightarrow> jsval \<Rightarrow> ready_validation option" where
  "validate_ready lc pa aa verifier v =
     (if \<not> is_record v
      then Some \<lparr>rv_valid = False, rv_change = None, rv_projection = None, rv_pull_request = None, rv_idempotent = None,
             rv_diagnostics = diagnostic_report (snd (run_checks (add_diagnostic ''CHANGE_PROVENANCE_INVALID_INPUT'' change_root
                (js ''Ready transition input must be an object.''))))\<rparr>
      else do {
        let (parts, ds) = run_checks (do { add_unknown_properties v ready_keys change_root; ready_admission_parts v });
        let admission = ready_admission_value v parts;
        m \<leftarrow> validate_merge_admission lc pa aa admission;
        ds \<leftarrow> append_admission change_root (ma_diagnostics m) ds;
        Some (ready_result m (snd (run_state (ready_checks lc aa verifier v admission m) ds)))
      })"

text \<open>Planning: a validation error with its report, or what the planner throws, or another exception (\<^const>\<open>None\<close>).\<close>

definition ready_transition_value :: "change \<Rightarrow> jsval" where
  "ready_transition_value c =
     JObj [(js ''version'', JNum (Integral 1)), (js ''transition'', JStr (js ''ready'')), (js ''change'', change_value c),
       (js ''target'', JObj [(js ''branch'', optional_text (projected_branch c)),
          (js ''pullRequest'', (case projected_pull_request c of None \<Rightarrow> JUndef | Some n \<Rightarrow> JNum (Integral n)))])]"

definition plan_ready ::
  "(jstr \<Rightarrow> jstr) \<Rightarrow> plan_authority \<Rightarrow> artifact_authority \<Rightarrow> (jsval \<Rightarrow> conformance_result) \<Rightarrow> jsval \<Rightarrow> (plan_error + transition_plan) option" where
  "plan_ready lc pa aa verifier v =
     map_option (\<lambda>r.
       case rv_change r of
         Some c \<Rightarrow> if rv_valid r then plan_change_transition lc pa (ready_transition_value c) else Inl (Plan_Invalid (rv_diagnostics r))
       | None \<Rightarrow> Inl (Plan_Invalid (rv_diagnostics r)))
     (validate_ready lc pa aa verifier v)"

subsection \<open>Computations that only add diagnostics\<close>

lemma grows_ready_parts [checked]:
  "grows (evidence_unless b code path message)" "grows (conformance_unless b path message)" "grows (conformance_required path message)"
  by (simp_all add: evidence_unless_def conformance_unless_def conformance_required_def checked)

lemma clean_ready_parts [simp]:
  "clean_run (evidence_unless b code path message) y \<longleftrightarrow> b" "clean_run (conformance_unless b path message) y \<longleftrightarrow> b"
  "\<not> clean_run (conformance_required path message) y"
  by (simp_all add: evidence_unless_def conformance_unless_def conformance_required_def)

lemma grows_ready_aliases [checked]: "grows (ready_pull_alias v)" "grows (ready_admission_parts v)"
  by (auto simp: ready_pull_alias_def ready_admission_parts_def intro!: checked split: option.split)

lemma grows_ready_root [checked]: "grows (root_issue_checks p i)"
  by (auto simp: root_issue_checks_def root_issue_value_checks_def Let_def intro!: checked)

lemma grows_conformance_diagnostics [checked]: "grows (add_conformance_diagnostics ds)"
  by (induction ds rule: add_conformance_diagnostics.induct) (auto intro!: checked)

lemma clean_conformance_diagnostics [simp]: "clean_run (add_conformance_diagnostics ds) y \<longleftrightarrow> ds = []"
  by (cases ds rule: add_conformance_diagnostics.cases) (auto simp: clean_run_bind checked)

lemma grows_conformance_parts [checked]:
  "grows (conformance_outcome r)" "grows (conformance_issue_checks lc v raw i)" "grows (conformance_base_checks v raw r)"
  "grows (conformance_pull_checks r m i)" "grows (conformance_head_checks r m)" "grows (conformance_body_checks v raw)"
  by (auto simp: conformance_outcome_def conformance_issue_checks_def conformance_base_checks_def conformance_pull_checks_def
      conformance_head_checks_def conformance_body_checks_def Let_def intro!: checked split: option.split jsval.split list.split)

lemma grows_conformance [checked]: "grows (conformance_checks lc verifier v m i)"
  by (auto simp: conformance_checks_def Let_def intro!: checked split: option.split)

lemma grows_issue_evidence [checked]: "grows (spread_issue_evidence v n)" "grows (ready_issue_evidence v n)"
  by (auto simp: spread_issue_evidence_def ready_issue_evidence_def Let_def intro!: checked split: option.split)

lemma grows_ready_state [checked]: "grows (ready_state_checks m)"
  by (auto simp: ready_state_checks_def intro!: checked split: option.split)

lemma grows_ready [checked]: "grows (ready_checks lc aa verifier v a m)"
  by (auto simp: ready_checks_def Let_def intro!: checked)

subsection \<open>What the checks establish\<close>

text \<open>Fresh evidence shows the root Issue open.\<close>

definition open_root_issue :: "jsval \<Rightarrow> change_identity option \<Rightarrow> bool" where
  "open_root_issue projection identity \<longleftrightarrow>
     (let evidence = get_prop projection (js ''evidence''); issue = get_prop evidence (js ''issue'');
          value = get_prop issue (js ''value'') in
      is_record evidence \<and> is_record issue \<and> get_prop issue (js ''status'') = JStr (js ''available'') \<and> is_record value \<and>
      get_prop value (js ''state'') = JStr (js ''open'') \<and>
      (case identity of None \<Rightarrow> True | Some i \<Rightarrow> get_prop value (js ''number'') = JNum (Integral (root_issue i))))"

lemma clean_ready_root [simp]: "clean_run (root_issue_checks p i) y \<longleftrightarrow> open_root_issue p i"
  by (auto simp: root_issue_checks_def root_issue_value_checks_def open_root_issue_def Let_def clean_run_bind checked)

text \<open>
  The Implementation conforms: its verification is conformant without a diagnostic, it is the Implementation of the
  Change, and the pull request it verified is the canonical one, with the canonical branches, at the head commit of the
  fresh evidence and on the current base revision, its body and that of the Issue being the current ones.
\<close>

definition conforms ::
  "(jstr \<Rightarrow> jstr) \<Rightarrow> conformance_result \<Rightarrow> jsval \<Rightarrow> jsval \<Rightarrow> merge_admission \<Rightarrow> change_identity option \<Rightarrow> conformance_pull \<Rightarrow> bool" where
  "conforms lc r v raw m identity p \<longleftrightarrow>
     raw \<noteq> JUndef \<and> conformant r \<and> co_pull r = Some p \<and>
     same_implementation_reference lc (get_prop (record_at raw ''issue'') (js ''reference'')) identity \<and>
     (\<exists>body. ready_evidence_value v ''implementationIssueBody'' = Some (JStr body) \<and>
        get_prop (record_at raw ''issue'') (js ''body'') = JStr body) \<and>
     ready_evidence_value v ''baseRevision'' = Some (JStr (cf_base_revision p)) \<and> cf_base_revision p \<noteq> [] \<and>
     get_prop (record_at raw ''base'') (js ''revision'') = JStr (cf_base_revision p) \<and>
     Option.bind (ma_change m) projected_pull_request = Some (cf_number p) \<and>
     (\<forall>i \<in> set_option identity. cf_host p = repository_host i \<and> cf_repository_id p = Some (repository_id i)) \<and>
     Option.bind (ma_change m) projected_branch = Some (cf_head_branch p) \<and>
     Option.bind (ma_projection m) pr_canonical_base = Some (cf_base_branch p) \<and>
     Option.bind (ma_pull_request m) pe_head_sha = Some (cf_head_revision p) \<and>
     has_prop (record_at raw ''pullRequest'') (js ''body'') \<and>
     strictly_equal (get_prop (record_at raw ''pullRequest'') (js ''body'')) (admission_pull_body v)"

lemma clean_conformance_outcome [simp]: "clean_run (conformance_outcome r) y \<longleftrightarrow> conformant r"
  by (auto simp: conformance_outcome_def conformant_def)

lemma clean_conformance_issue [simp]:
  "clean_run (conformance_issue_checks lc v raw i) y \<longleftrightarrow>
     same_implementation_reference lc (get_prop (record_at raw ''issue'') (js ''reference'')) i \<and>
     (\<exists>body. ready_evidence_value v ''implementationIssueBody'' = Some (JStr body) \<and>
        get_prop (record_at raw ''issue'') (js ''body'') = JStr body)"
proof -
  define x where "x = ready_evidence_value v ''implementationIssueBody''"
  show ?thesis
    unfolding conformance_issue_checks_def x_def [symmetric]
    by (cases x; cases "the x") (auto simp: value_or_undefined_def clean_run_bind checked Let_def)
qed

lemma base_is_record [simp]: "record_at v k \<noteq> JUndef \<longleftrightarrow> is_record (get_prop v (js k))"
  by (auto simp: record_at_def Let_def)

lemma clean_base_checks:
  assumes "co_pull r = Some p"
  shows "clean_run (conformance_base_checks v raw r) y \<longleftrightarrow>
     ready_evidence_value v ''baseRevision'' = Some (JStr (cf_base_revision p)) \<and> cf_base_revision p \<noteq> [] \<and>
     get_prop (record_at raw ''base'') (js ''revision'') = JStr (cf_base_revision p)"
proof -
  define x where "x = ready_evidence_value v ''baseRevision''"
  have rec: "record_at raw ''base'' \<noteq> JUndef" if "get_prop (record_at raw ''base'') (js ''revision'') = JStr s" for s
    using that by (auto simp: record_at_def Let_def split: if_splits)
  show ?thesis
  proof (cases "\<exists>c s. x = Some (JStr (c # s))")
    case True
    then obtain c s where "x = Some (JStr (c # s))" by blast
    with assms rec show ?thesis
      unfolding conformance_base_checks_def x_def [symmetric]
      by (auto simp: value_or_undefined_def clean_run_bind checked Let_def strictly_equal_def simp del: base_is_record)
  next
    case False
    have empty: "s = []" if "value_or_undefined x = JStr s" for s
      using False that by (cases x; cases s) (auto simp: value_or_undefined_def)
    have "\<not> clean_run (conformance_base_checks v raw r) y"
    proof (cases "value_or_undefined x")
      case (JStr s)
      with empty have "value_or_undefined x = JStr []" by blast
      then show ?thesis
        unfolding conformance_base_checks_def x_def [symmetric] Let_def by (simp add: clean_run_bind checked)
    qed (simp_all add: conformance_base_checks_def x_def [symmetric] clean_run_bind checked)
    moreover have "\<not> (x = Some (JStr (cf_base_revision p)) \<and> cf_base_revision p \<noteq> [])"
      using False by (cases "cf_base_revision p") simp_all
    ultimately show ?thesis unfolding x_def by blast
  qed
qed

lemma clean_conformance:
  "clean_run (conformance_checks lc verifier v m i) native \<longleftrightarrow>
     (case ready_evidence_value v ''implementationConformance'' of
        None \<Rightarrow> \<not> native
      | Some raw \<Rightarrow> native \<and> (\<exists>p. conforms lc (verifier raw) v raw m i p))"
proof (cases "ready_evidence_value v ''implementationConformance''")
  case None
  then show ?thesis by (auto simp: conformance_checks_def)
next
  case (Some raw)
  let ?r = "verifier raw"
  show ?thesis
  proof (cases "co_pull ?r")
    case None
    then have "\<not> conformant ?r" by (simp add: conformant_def)
    then show ?thesis by (auto simp: conformance_checks_def Some conforms_def clean_run_bind checked Let_def)
  next
    case pull: (Some p)
    have p: "clean_run (conformance_pull_checks ?r m i) u \<longleftrightarrow>
        Option.bind (ma_change m) projected_pull_request = Some (cf_number p) \<and>
        (\<forall>i \<in> set_option i. cf_host p = repository_host i \<and> cf_repository_id p = Some (repository_id i)) \<and>
        Option.bind (ma_change m) projected_branch = Some (cf_head_branch p) \<and>
        Option.bind (ma_projection m) pr_canonical_base = Some (cf_base_branch p)" for u
      by (cases i) (auto simp: conformance_pull_checks_def pull clean_run_bind checked)
    have h: "clean_run (conformance_head_checks ?r m) u \<longleftrightarrow> Option.bind (ma_pull_request m) pe_head_sha = Some (cf_head_revision p)" for u
      by (auto simp: conformance_head_checks_def pull split: option.split)
    have b: "clean_run (conformance_body_checks v raw) u \<longleftrightarrow> has_prop (record_at raw ''pullRequest'') (js ''body'') \<and>
        strictly_equal (get_prop (record_at raw ''pullRequest'') (js ''body'')) (admission_pull_body v)" for u
      by (simp add: conformance_body_checks_def Let_def)
    have one: "Ex (conforms lc ?r v raw m i) \<longleftrightarrow> conforms lc ?r v raw m i p" by (auto simp: conforms_def pull)
    show ?thesis
      unfolding Some option.case one
      by (cases "raw = JUndef") (simp_all add: conformance_checks_def Some conforms_def pull p h b clean_run_bind checked Let_def
        clean_base_checks [OF pull] conj_ac)
  qed
qed

text \<open>The body and the contract of the root Issue satisfy each other, for this repository and base branch.\<close>

definition governed_ready_issue ::
  "(jstr \<Rightarrow> jstr) \<Rightarrow> artifact_authority \<Rightarrow> change_identity option \<Rightarrow> jsval \<Rightarrow> jsval \<Rightarrow> jsval \<Rightarrow> bool" where
  "governed_ready_issue lc aa i base contract body \<longleftrightarrow>
     aa_contract aa contract = [] \<and> artifact_kind_is contract ''issue'' \<and>
     contract_for lc (repository_of i) base contract \<and> satisfied_body body (\<lambda>b. aa_existing_issue aa contract b i)"

lemma clean_ready_issue:
  "clean_run (ready_issue_artifact lc aa (Some \<lparr>ae_contract = Some contract, ae_body = Some body\<rparr>) i base) y \<longleftrightarrow>
     governed_ready_issue lc aa i base contract body"
  by (auto simp: ready_issue_artifact_def governed_ready_issue_def ready_artifact_body_def clean_run_bind checked
      split: list.split)

lemma clean_artifact:
  assumes "clean_run (parse_ready_artifact v path) e"
  shows "\<exists>contract body. e = Some \<lparr>ae_contract = Some contract, ae_body = Some body\<rparr>"
  using assms by (auto simp: parse_ready_artifact_def artifact_checks_def own_value_def clean_run_bind checked split: if_splits)

lemma clean_issue_evidence:
  assumes "clean_run (ready_issue_evidence v False) e"
  shows "\<exists>contract body. e = Some \<lparr>ae_contract = Some contract, ae_body = Some body\<rparr>"
  using assms
  by (auto simp: ready_issue_evidence_def spread_issue_evidence_def Let_def clean_run_bind checked
      split: option.splits if_splits dest: clean_artifact)

text \<open>Without an issuance plan in the input, the Change of an admission is the one of the input.\<close>

lemma admitted_change:
  assumes "validate_merge_admission lc pa aa v = Some m" and "ma_valid m" and "is_record v"
    and "\<not> has_prop v (js ''issuance'')" and "\<not> has_prop v (js ''issuancePlan'')"
  shows "fst (run_state (change_alias v) []) \<noteq> None"
proof
  assume none: "fst (run_state (change_alias v) []) = None"
  have same: "fst (run_state (change_alias v) ds) = fst (run_state (change_alias v) [])" for ds
    by (simp add: change_alias_def admission_alias_def report_if_def Let_def run_state_bind add_diagnostic_def split: prod.split)
  have issuance: "read_issuance lc pa v ds = Some (None, ds)" for ds
    using assms(4,5) by (simp add: read_issuance_def admission_alias_def report_if_def Let_def run_state_bind)
  obtain ds where ds: "run_state (change_alias v) (snd (run_checks (add_unknown_properties v admission_keys change_root))) = (None, ds)"
    using same none by (metis surj_pair fst_conv)
  have "\<exists>p pull d. m = admission_result None p pull d"
    using assms(1,3) by (auto simp: validate_merge_admission_def issuance ds read_canonical_def bind_eq_Some_conv Let_def
        split: prod.splits)
  with assms(2) show False by (auto elim: admission_result_valid)
qed

lemma ready_value_has:
  "has_prop (ready_admission_value v (c, p, r, i)) k \<longleftrightarrow>
     c \<noteq> None \<and> k = js ''change'' \<or> p \<noteq> None \<and> k = js ''projection'' \<or>
     (r \<noteq> None \<or> ready_pull_request_input v \<noteq> JUndef) \<and> k = js ''pullRequest'' \<or> i \<noteq> None \<and> k = js ''issuer''"
  by (cases c; cases p; cases r; cases i; auto simp: ready_admission_value_def alias_prop_def Let_def)

lemma ready_value_get:
  "get_prop (ready_admission_value v (c, p, r, i)) (js ''change'') = value_or_undefined c"
  "get_prop (ready_admission_value v (c, p, r, i)) (js ''projection'') = value_or_undefined p"
  by (cases c; cases p; cases r; cases i; simp add: ready_admission_value_def alias_prop_def value_or_undefined_def Let_def)+

lemma alias_of:
  assumes "has_prop v (js k) \<longleftrightarrow> x \<noteq> None" and "\<And>l. l \<in> set ks \<Longrightarrow> \<not> has_prop v (js l)"
    and "get_prop v (js k) = value_or_undefined x"
  shows "fst (run_state (admission_alias v (k # ks) path) []) = x"
proof -
  have "filter (\<lambda>k. has_prop v (js k)) ks = []" using assms(2) by (simp add: filter_empty_conv)
  with assms(1,3) show ?thesis
    by (cases x) (simp_all add: admission_alias_def report_if_def run_state_bind Let_def value_or_undefined_def)
qed

lemma ready_value_read:
  "is_record (ready_admission_value v (c, p, r, i))"
  "\<not> has_prop (ready_admission_value v (c, p, r, i)) (js ''issuance'')"
  "\<not> has_prop (ready_admission_value v (c, p, r, i)) (js ''issuancePlan'')"
  "fst (run_state (change_alias (ready_admission_value v (c, p, r, i))) []) = c"
  "fst (run_state (projection_alias (ready_admission_value v (c, p, r, i))) []) = p"
proof -
  show "is_record (ready_admission_value v (c, p, r, i))" by (simp add: ready_admission_value_def Let_def)
  show "fst (run_state (change_alias (ready_admission_value v (c, p, r, i))) []) = c"
    unfolding change_alias_def by (rule alias_of) (auto simp: ready_value_has ready_value_get)
  show "fst (run_state (projection_alias (ready_admission_value v (c, p, r, i))) []) = p"
    unfolding projection_alias_def by (rule alias_of) (auto simp: ready_value_has ready_value_get)
qed (simp_all add: ready_value_has)

lemma defined_prop: "get_prop v k \<noteq> JUndef \<Longrightarrow> is_record v \<and> has_prop v k"
  by (cases v) (auto split: option.splits dest!: map_of_SomeD intro: rev_image_eqI)

text \<open>A valid Ready: nothing was reported, by merge admission or by the checks after it.\<close>

lemma valid_ready:
  assumes "validate_ready lc pa aa verifier v = Some r" and "rv_valid r"
  obtains parts m where "clean_run (ready_admission_parts v) parts"
    "validate_merge_admission lc pa aa (ready_admission_value v parts) = Some m" "ma_valid m"
    "clean_run (ready_checks lc aa verifier v (ready_admission_value v parts) m) ()" "r = ready_result m []"
proof -
  have rec: "is_record v"
    using assms by (auto simp: validate_ready_def split: if_splits)
  obtain parts ds where front: "run_checks (do { add_unknown_properties v ready_keys change_root; ready_admission_parts v }) = (parts, ds)"
    by fastforce
  let ?a = "ready_admission_value v parts"
  from assms(1) rec front obtain m ds' where m: "validate_merge_admission lc pa aa ?a = Some m"
      "append_admission change_root (ma_diagnostics m) ds = Some ds'"
      "r = ready_result m (snd (run_state (ready_checks lc aa verifier v ?a m) ds'))"
    by (auto simp: validate_ready_def bind_eq_Some_conv Let_def)
  obtain ds'' where run: "run_state (ready_checks lc aa verifier v ?a m) ds' = ((), ds'')"
    by (metis old.unit.exhaust surj_pair)
  from assms(2) m(3) run have valid: "ma_valid m" "ds'' = []" by (simp_all add: ready_result_def Let_def)
  from grown_Nil [OF grows_ready run [unfolded valid(2)]] have clean: "ds' = []"
      "clean_run (ready_checks lc aa verifier v ?a m) ()" by simp_all
  from append_admission_Nil [OF m(2) [unfolded clean(1)]] have "ds = []" by simp
  with front have "clean_run (do { add_unknown_properties v ready_keys change_root; ready_admission_parts v }) parts"
    by (simp add: clean_run_checks)
  then have "clean_run (ready_admission_parts v) parts" by (auto simp: clean_run_bind checked)
  moreover have "r = ready_result m []" using m(3) run valid(2) by simp
  ultimately show thesis using that m(1) valid(1) clean(2) by blast
qed

text \<open>What the work itself must show: the conformance of the Implementation, or a governed root Issue.\<close>

definition ready_work ::
  "(jstr \<Rightarrow> jstr) \<Rightarrow> artifact_authority \<Rightarrow> (jsval \<Rightarrow> conformance_result) \<Rightarrow> jsval \<Rightarrow> merge_admission \<Rightarrow> change_identity \<Rightarrow>
     jstr option \<Rightarrow> bool" where
  "ready_work lc aa verifier v m i base \<longleftrightarrow>
     (case ready_evidence_value v ''implementationConformance'' of
        None \<Rightarrow> \<exists>contract body. governed_ready_issue lc aa (Some i) (optional_text base) contract body
      | Some raw \<Rightarrow> \<exists>p. conforms lc (verifier raw) v raw m (Some i) p)"

definition admitted_ready :: "change \<Rightarrow> projection_result \<Rightarrow> pull_request_evidence candidate \<Rightarrow> merge_admission" where
  "admitted_ready c p x =
     \<lparr>ma_valid = True, ma_change = Some c, ma_projection = Some p, ma_pull_request = Some (cand_value x), ma_diagnostics = []\<rparr>"

lemma ready_established:
  assumes "validate_ready lc pa aa verifier v = Some r" and "rv_valid r"
  obtains c p source issuance contract body branch n x y where
    "r = \<lparr>rv_valid = True, rv_change = Some c, rv_projection = Some p, rv_pull_request = Some (cand_value x),
          rv_idempotent = Some (ch_state c = REVIEW), rv_diagnostics = []\<rparr>"
    "ch_state c \<in> {DRAFT, REVIEW}" "p = project_change lc (pa_branch pa) source" "pr_status p = Healthy" "pr_diagnostics p = []"
    "open_root_issue source (Some (ch_identity c))" "validate_change lc y = Inr c"
    "agreed_merge lc aa c p (planned_issuance_of lc pa aa (Some source) issuance) contract body branch n x"
    "ready_work lc aa verifier v (admitted_ready c p x) (ch_identity c) (pr_canonical_base p)"
    "\<exists>parts. clean_run (ready_admission_parts v) parts \<and> fst parts = Some y \<and> fst (snd parts) = Some source"
proof -
  from valid_ready [OF assms] obtain parts m where
    parts: "clean_run (ready_admission_parts v) parts" "validate_merge_admission lc pa aa (ready_admission_value v parts) = Some m"
      "ma_valid m" "clean_run (ready_checks lc aa verifier v (ready_admission_value v parts) m) ()" "r = ready_result m []"
    by blast
  obtain c0 p0 r0 i0 where q: "parts = (c0, p0, r0, i0)" by (cases parts)
  note read = ready_value_read [of v c0 p0 r0 i0, folded q] and gets = ready_value_get [of v c0 p0 r0 i0, folded q]
  have "c0 \<noteq> None" using admitted_change [OF parts(2,3) read(1-3)] by (simp add: read(4))
  then obtain y where y: "c0 = Some y" by blast
  from valid_admission [OF parts(2,3)] obtain c p source issuance contract body branch n x i where
    a: "read_canonical lc (Some y) i [] = Some (Some c, [])"
      "projection_source (ready_admission_value v parts) p0 (Some y) (Some c) = Some source"
      "m = admitted_ready c p x" "pr_status p = Healthy" "pr_diagnostics p = []"
      "if is_raw_projection source then p = project_change lc (pa_branch pa) source
       else validate_projection_result lc source = Some (Inr p)"
      "agreed_merge lc aa c p (planned_issuance_of lc pa aa (Some source) issuance) contract body branch n x"
    unfolding read(4,5) y admitted_ready_def by metis
  have valid: "validate_change lc y = Inr c"
    using a(1) by (cases "validate_change lc y") (auto simp: read_canonical_def bind_eq_Some_conv)
  let ?v = "ready_admission_value v parts"
  have id: "map_option ch_identity (result_value (validate_change lc (get_prop ?v (js ''change'')))) = Some (ch_identity c)"
    by (simp add: gets(1) y value_or_undefined_def valid)
  from parts(4) obtain native e where checks: "open_root_issue (get_prop ?v (js ''projection'')) (Some (ch_identity c))"
      "clean_run (conformance_checks lc verifier v m (Some (ch_identity c))) native" "clean_run (ready_issue_evidence v native) e"
      "native \<or> clean_run (ready_issue_artifact lc aa e (Some (ch_identity c)) (optional_text (pr_canonical_base p))) ()"
      "clean_run (ready_state_checks m) ()"
    unfolding ready_checks_def Let_def id by (auto simp: clean_run_bind checked a(3) admitted_ready_def split: if_splits)
  have p0: "p0 \<noteq> None"
    using checks(1) by (auto simp: gets(2) value_or_undefined_def open_root_issue_def split: option.splits)
  with a(2) have source: "p0 = Some source" by (auto simp: projection_source_def)
  have open_issue: "open_root_issue source (Some (ch_identity c))" using checks(1) by (simp add: gets(2) source value_or_undefined_def)
  then have "get_prop source (js ''evidence'') \<noteq> JUndef" by (auto simp: open_root_issue_def Let_def)
  from defined_prop [OF this] have "is_raw_projection source" by (simp add: is_raw_projection_def)
  with a(6) have fresh: "p = project_change lc (pa_branch pa) source" by simp
  have state: "ch_state c \<in> {DRAFT, REVIEW}"
    using checks(5) by (auto simp: ready_state_checks_def a(3) admitted_ready_def split: if_splits)
  have work: "ready_work lc aa verifier v m (ch_identity c) (pr_canonical_base p)"
  proof (cases "ready_evidence_value v ''implementationConformance''")
    case None
    with checks(2) have "\<not> native" by (simp add: clean_conformance)
    with checks(3,4) clean_issue_evidence show ?thesis by (fastforce simp: ready_work_def None clean_ready_issue)
  next
    case (Some raw)
    with checks(2) show ?thesis by (simp add: ready_work_def clean_conformance)
  qed
  have "r = \<lparr>rv_valid = True, rv_change = Some c, rv_projection = Some p, rv_pull_request = Some (cand_value x),
          rv_idempotent = Some (ch_state c = REVIEW), rv_diagnostics = []\<rparr>"
    using parts(5) by (simp add: ready_result_def a(3) admitted_ready_def diagnostic_report_def)
  moreover have "fst parts = Some y" "fst (snd parts) = Some source" by (simp_all add: q y source)
  ultimately show thesis
    using that state fresh a(4,5,7) open_issue valid work [unfolded a(3)] parts(1) by blast
qed

text \<open>
  C0.  Ready is admitted only on fresh and complete evidence, whatever the input: the projection is computed here from raw
  GitHub evidence, which shows the root Issue of the Change open; merge admission accepts the Change, that
  projection and the governed pull request; the Change is a draft or in review already (and the result
  says which); and either the root Issue artifact satisfies its contract, for this repository and base
  branch, or the Implementation conforms and its verified pull request is the canonical one at the current head,
  base and bodies.
\<close>

theorem ready_admitted_on_evidence:
  assumes "validate_ready lc pa aa verifier v = Some r" and "rv_valid r"
  shows "\<exists>c p source issuance contract body branch n x.
    r = \<lparr>rv_valid = True, rv_change = Some c, rv_projection = Some p, rv_pull_request = Some (cand_value x),
         rv_idempotent = Some (ch_state c = REVIEW), rv_diagnostics = []\<rparr> \<and>
    ch_state c \<in> {DRAFT, REVIEW} \<and> p = project_change lc (pa_branch pa) source \<and> pr_status p = Healthy \<and>
    open_root_issue source (Some (ch_identity c)) \<and>
    agreed_merge lc aa c p (planned_issuance_of lc pa aa (Some source) issuance) contract body branch n x \<and>
    ready_work lc aa verifier v (admitted_ready c p x) (ch_identity c) (pr_canonical_base p)"
  by (rule ready_established [OF assms]) blast

subsection \<open>A sample Ready\<close>

definition ready_sample :: "change_state \<Rightarrow> jsval" where
  "ready_sample s =
     JObj [(js ''change'', change_value (merge_change s)), (js ''projection'', JObj (governed_evidence s)),
       (js ''issue'', issue_artifact), (js ''pullRequest'', pull_artifact)]"

lemma sample_issue: "governed_ready_issue (\<lambda>s. s) merge_artifacts (Some sample_identity) (JStr (js ''main'')) issue_contract (JStr (js ''body''))"
  by (simp add: governed_ready_issue_def merge_artifacts_def artifact_kind_is_def issue_contract_def contract_for_def
      satisfied_body_def repository_of_def sample_identity_def plan_at_def plan_text_def js_eval max_artifact_body_length_def
      to_lower_def ascii_lower_def is_upper_def)

lemma sample_root_issue: "open_root_issue (JObj (governed_evidence s)) (Some sample_identity)"
  by (simp add: open_root_issue_def governed_evidence_def sample_projection_input_def available_def sample_identity_def Let_def)

lemma sample_ready_parts:
  "clean_run (ready_admission_parts (ready_sample s))
     (Some (change_value (merge_change s)), Some (JObj (governed_evidence s)), Some pull_artifact, None)"
  by (simp add: ready_admission_parts_def change_alias_def projection_alias_def ready_pull_alias_def admission_alias_def
      ready_sample_def clean_run_bind checked Let_def)

lemma sample_ready_evidence:
  "ready_evidence_value (ready_sample s) ''implementationConformance'' = None"
  "clean_run (ready_issue_evidence (ready_sample s) False)
     (Some \<lparr>ae_contract = Some issue_contract, ae_body = Some (JStr (js ''body''))\<rparr>)"
proof -
  have nested: "nested_evidence (ready_sample s) = JUndef" by (simp add: nested_evidence_def record_at_def ready_sample_def)
  then show "ready_evidence_value (ready_sample s) ''implementationConformance'' = None"
    by (simp add: ready_evidence_value_def) (simp add: ready_sample_def)
  have "clean_run (admission_alias (ready_sample s) [''issue'', ''rootIssue'', ''issueArtifact'', ''rootIssueArtifact''] ''$.issue'')
      (Some issue_artifact)"
    by (simp add: admission_alias_def ready_sample_def clean_run_bind checked Let_def)
  moreover have "clean_run (parse_ready_artifact issue_artifact path)
      (Some \<lparr>ae_contract = Some issue_contract, ae_body = Some (JStr (js ''body''))\<rparr>)" for path
    by (simp add: parse_ready_artifact_def artifact_checks_def issue_artifact_def artifact_keys_def own_value_def clean_run_bind checked)
  ultimately show "clean_run (ready_issue_evidence (ready_sample s) False)
      (Some \<lparr>ae_contract = Some issue_contract, ae_body = Some (JStr (js ''body''))\<rparr>)"
    by (simp add: ready_issue_evidence_def nested Let_def clean_run_def run_state_bind)
qed

lemma governed_ready_run:
  assumes "pa_branch pa = sample_authority" and "s \<in> {DRAFT, REVIEW}"
  shows "validate_ready (\<lambda>s. s) pa merge_artifacts verifier (ready_sample s) =
    Some \<lparr>rv_valid = True, rv_change = Some (merge_change s), rv_projection = Some (sample_project s),
      rv_pull_request = Some (merge_read_pull s), rv_idempotent = Some (s = REVIEW), rv_diagnostics = []\<rparr>"
proof -
  let ?parts = "(Some (change_value (merge_change s)), Some (JObj (governed_evidence s)), Some pull_artifact, None)"
  let ?a = "JObj [(js ''change'', change_value (merge_change s)), (js ''projection'', JObj (governed_evidence s)),
    (js ''pullRequest'', pull_artifact)]"
  let ?m = "admission_result (Some (merge_change s)) (Some (sample_project s))
      (Some \<lparr>ae_contract = Some merge_contract, ae_body = Some (JStr (js ''body''))\<rparr>) []"
  have state: "s \<in> {DRAFT, REVIEW, MERGED}" using assms(2) by blast
  have m: "?m = \<lparr>ma_valid = True, ma_change = Some (merge_change s), ma_projection = Some (sample_project s),
      ma_pull_request = Some (merge_read_pull s), ma_diagnostics = []\<rparr>"
    by (simp add: admission_result_def artifact_parts_def sample_project_def merge_sample_pull_def merge_read_pull_def
        diagnostic_report_def)
  have shape: "ready_admission_value (ready_sample s) ?parts = ?a"
    by (simp add: ready_admission_value_def alias_prop_def)
  have front: "run_checks (do { add_unknown_properties (ready_sample s) ready_keys change_root; ready_admission_parts (ready_sample s) }) =
      (?parts, [])"
    using sample_ready_parts [of s] by (simp add: clean_run_checks clean_run_bind checked) (simp add: ready_sample_def ready_keys_def)
  have id: "map_option ch_identity (result_value (validate_change (\<lambda>s. s) (get_prop ?a (js ''change'')))) = Some sample_identity"
    by (simp add: wf_change_validates [OF wf_merge_change])
  have base: "Option.bind (ma_projection ?m) pr_canonical_base = Some (js ''main'')" unfolding m by (simp add: sample_project_def)
  have "clean_run (conformance_checks (\<lambda>s. s) verifier (ready_sample s) ?m (Some sample_identity)) False"
    by (simp add: clean_conformance sample_ready_evidence)
  moreover have "clean_run (ready_issue_artifact (\<lambda>s. s) merge_artifacts
      (Some \<lparr>ae_contract = Some issue_contract, ae_body = Some (JStr (js ''body''))\<rparr>) (Some sample_identity)
      (optional_text (Some (js ''main'')))) ()"
    using sample_issue by (simp add: clean_ready_issue optional_text_def)
  moreover have "clean_run (ready_state_checks ?m) ()" using assms(2) by (auto simp: ready_state_checks_def m)
  moreover have "clean_run (root_issue_checks (get_prop ?a (js ''projection'')) (Some sample_identity)) ()"
    by (simp add: sample_root_issue)
  ultimately have "clean_run (ready_checks (\<lambda>s. s) merge_artifacts verifier (ready_sample s) ?a ?m) ()"
    using sample_ready_evidence(2) [of s] unfolding ready_checks_def Let_def id base
    by (auto simp: clean_run_bind checked)
  then have "run_state (ready_checks (\<lambda>s. s) merge_artifacts verifier (ready_sample s) ?a ?m) [] = ((), [])"
    by (simp add: clean_run_def)
  moreover have "is_record (ready_sample s)" by (simp add: ready_sample_def)
  ultimately show ?thesis
    by (simp add: validate_ready_def front shape sample_admission_run [OF assms(1) state] del: One_nat_def)
      (simp add: m ready_result_def diagnostic_report_def)
qed

text \<open>A verifier that finds no Implementation to conform to.\<close>

definition no_conformance :: "jsval \<Rightarrow> conformance_result" where
  "no_conformance v =
     \<lparr>co_status = js ''unverifiable'', co_valid = False, co_authorized = False, co_current = False, co_authorization = None,
      co_binding = None, co_pull = None, co_diagnostics = []\<rparr>"

theorem ready_admitted_on_evidence_witness:
  "\<exists>r c p source. validate_ready (\<lambda>s. s) sample_plans merge_artifacts no_conformance (ready_sample DRAFT) = Some r \<and>
     rv_change r = Some c \<and> ch_state c = DRAFT \<and> p = project_change (\<lambda>s. s) sample_authority source \<and>
     rv_projection r = Some p \<and> open_root_issue source (Some (ch_identity c))"
proof -
  have branch: "pa_branch sample_plans = sample_authority" by (simp add: sample_plans_def)
  from governed_ready_run [OF branch, of DRAFT no_conformance] obtain r where
    r: "validate_ready (\<lambda>s. s) sample_plans merge_artifacts no_conformance (ready_sample DRAFT) = Some r" "rv_valid r"
      "rv_change r = Some (merge_change DRAFT)" by simp
  from ready_admitted_on_evidence [OF r(1,2)] r(1,3) show ?thesis by (force simp: branch)
qed

end
