(* ===== verification/Spec2Isabelle.thy ===== *)
theory Spec2Isabelle
  imports
    Prelude Change_Types Lifecycle Statechart Ready_Machine Abort_Machine Issuance_Machine
    Relay_Delivery Branch_Naming Capability Protected_Paths Change_Diagnostics Change_Contract Change_Projection
    Change_Planning Plan_Validation Trusted_Adapter Dependency_Cycles Frontier_Evidence Frontier
    Governed_Artifacts Issuance_Planning Projection_Transport Projection_Bounds
    Merge_Admission PR_Mutation_Plan PR_Mutation Governed_Sample Trusted_Merge Ready_Admission
begin

text \<open>
  The governed core of Inari: Changes, their execution machines, and the authority checks around
  them.

  Inari governs work on a GitHub repository: a root Issue is turned into a \<^emph>\<open>Change\<close> (a
  branch, a provenance commit and a pull request), and the Change is moved through issue, ready,
  abort and merge by a trusted executor that reads GitHub evidence, plans effects with the pure
  Core, applies them one at a time, and rereads the evidence to verify them.  Agents act through
  capability claims, cannot write below the Delegator's trust root, and receive jobs through a
  relay that tracks delivery.  This library models the parts whose own logic decides these things.
  All file names below are relative to the repository.

  Theories and sources.

  \<^item> \<^verbatim>\<open>Prelude\<close>: JavaScript strings (lists of UTF-16 code units, type \<^verbatim>\<open>jstr\<close>),
    numbers, untrusted values (\<^verbatim>\<open>jsval\<close>), property access, ordered sets and the lemmas on
    them that the components share.
  \<^item> \<^verbatim>\<open>Change_Types\<close>: the data of \<^verbatim>\<open>src/src/change.ts\<close> and of
    \<^verbatim>\<open>src/src/change-execution-port.ts\<close> that the machines carry: Changes, effects,
    attempts, failures, plans, projections, results.
  \<^item> \<^verbatim>\<open>Lifecycle\<close>: \<^verbatim>\<open>src/src/change/machine/lifecycle-machine.ts\<close>.  The machine,
    the pure transition (\<^verbatim>\<open>transition_change_lifecycle\<close>) and the stateful facade
    (\<^verbatim>\<open>facade_run\<close>), against an abstract edge relation.
  \<^item> \<^verbatim>\<open>Statechart\<close>: the part of an XState actor the execution machines use (entry
    actions, eventless transitions in order, one invoked promise per state, final states, the
    actor stopped in error by an exception), as a step function and a partial run, with the locale
    \<^verbatim>\<open>terminating_chart\<close>: a chart whose states and contexts decrease a lexicographic
    measure at every step has a run that stops.  Each machine is an interpretation.
  \<^item> \<^verbatim>\<open>Ready_Machine\<close>, \<^verbatim>\<open>Abort_Machine\<close>, \<^verbatim>\<open>Issuance_Machine\<close>: the files
    \<^verbatim>\<open>src/src/change/machine/{ready,abort,issuance}-execution-machine.ts\<close>.  One definition
    per entry action, per transition table and per invoked promise of each state; the context
    records have the context's optional properties as options.
  \<^item> \<^verbatim>\<open>Relay_Delivery\<close>: \<^verbatim>\<open>src/src/relay/delivery-state.ts\<close>.
  \<^item> \<^verbatim>\<open>Branch_Naming\<close>: \<^verbatim>\<open>src/src/branch-naming.ts\<close>.
  \<^item> \<^verbatim>\<open>Capability\<close>: \<^verbatim>\<open>src/src/agent-authority/capability.ts\<close>, which validates
    branch spellings with \<^verbatim>\<open>Branch_Naming\<close>.
  \<^item> \<^verbatim>\<open>Protected_Paths\<close>: \<^verbatim>\<open>src/src/agent-authority/protected-paths.ts\<close>, which
    validates capabilities with \<^verbatim>\<open>Capability\<close>.

  \<^item> \<^verbatim>\<open>Change_Diagnostics\<close>, \<^verbatim>\<open>Change_Contract\<close>: the diagnostics and the
    validators of \<^verbatim>\<open>change.ts\<close> on untrusted values, as computations of the state monad
    over the array of diagnostics, with \<^verbatim>\<open>src/src/contract/issue-reference.ts\<close>; the calculus
    (\<^verbatim>\<open>grows\<close>, \<^verbatim>\<open>clean_run\<close>) that turns "accepted without a diagnostic" into
    the conjunction of the checks.
  \<^item> \<^verbatim>\<open>Change_Projection\<close>: \<^verbatim>\<open>projectChangeFromGitHubEvidence\<close>, the readers of
    evidence and the classifications of abort.
  \<^item> \<^verbatim>\<open>Change_Planning\<close>: the validators of transition requests and
    \<^verbatim>\<open>planChangeTransition\<close> of \<^verbatim>\<open>change.ts\<close>.
  \<^item> \<^verbatim>\<open>Plan_Validation\<close>: the validators of effects, of the evidence of their success and
    of transported transition plans in \<^verbatim>\<open>change.ts\<close>, with the plain objects of plans.
  \<^item> \<^verbatim>\<open>Governed_Artifacts\<close>: the readers and checks of \<^verbatim>\<open>change.ts\<close> on
    the governed Issue and pull request artifacts behind an admission (provenance, contract, body).
  \<^item> \<^verbatim>\<open>Issuance_Planning\<close>: \<^verbatim>\<open>planChangeIssuance\<close> and the validator of
    issuance plans in \<^verbatim>\<open>change.ts\<close>.
  \<^item> \<^verbatim>\<open>Trusted_Adapter\<close>: the services of Abort in
    \<^verbatim>\<open>src/src/change/machine/trusted-execution-adapter.ts\<close>, which close the loop: the
    machine runs with the projection and the planner modelled here.

  \<^item> \<^verbatim>\<open>Dependency_Cycles\<close>, \<^verbatim>\<open>Frontier_Evidence\<close>,
    \<^verbatim>\<open>Frontier\<close>: \<^verbatim>\<open>src/src/implementation-frontier.ts\<close>, the projection of
    which implementation work may start: the evidence of every candidate, the depth-first search for cycles of
    their dependencies (recursion bounded by the number of candidates), the memoized classification and the
    groups of ready work.

  How the parts interact.  The machines call the lifecycle (Ready's admission) and otherwise their
  \<^emph>\<open>services\<close>: reads, effects, and the Core semantics (projection, planning, verification,
  results).  Services are parameters, a record of functions; the two that reach GitHub thread an
  environment of any type, so a property that holds for all environments holds for every
  interleaving of other actors between two calls.  A service that throws, or a promise that is
  rejected, is a value (\<^verbatim>\<open>None\<close>, \<^verbatim>\<open>Rejected\<close>) and every model says what the
  machine does then.

  What the lemmas show.  For each machine: a \<^emph>\<open>refinement\<close> (the interpreted state machine
  equals a straight-line program of the protocol, for all services and environments, exceptions
  included, which also gives termination), a \<^emph>\<open>safety\<close> property of the effects requested (a
  recording environment logs them), and an accounting property of the result.  For the lifecycle:
  refinement of the edge relation, obligations before a merge, absorption.  For the relay: the
  state invariant on untrusted input, permanence of delivery evidence, safety of the automatic
  retry.  For branch names: round trips between naming, title, format and branch.  For the
  authority checks: canonical claims, and that an admitted write cannot reach the trust root.  For
  the Core of \<^verbatim>\<open>change.ts\<close>: what a validator accepts, that a projection is justified by
  its evidence and independent of its order, that plans follow the lifecycle, that a transported
  plan is the plan of its transition, and that issuance plans exist for sound requests and follow
  the projection.  For the frontier: the cycle search finds exactly the work on a cycle, and
  ready work is unblocked by proof.

  Bounds and termination.  No fuel is used.  The machines run by \<^verbatim>\<open>partial_function\<close> and
  are shown to stop; the effect loops decrease the number of remaining effects.  Issue numbers are
  integers bounded by the safe-integer checks of the code; string lengths are lengths in code
  units, as in JavaScript, or UTF-8 bytes where the code encodes.

  Assumptions and parameters.  Promises settle.  Unicode normalization forms, lower-casing and the
  general categories of non-ASCII characters are parameters (\<^verbatim>\<open>unicode_tables\<close>,
  \<^verbatim>\<open>path_unicode\<close>), constrained only where a property says so.

  Not modelled.  JSON text, deadlines and cancellation; the recovery planners of
  \<^verbatim>\<open>src/src/change.ts\<close> and their validators; the services of issue, ready and merge in the
  trusted adapter; GitHub, HTTP, CLI, MCP, relay transport and storage glue; the template and Markdown
  languages.

  Plan.  In this order: the admission and execution of merges, the admission and execution of
  Ready, and the recovery planners of \<^verbatim>\<open>change.ts\<close>; scope selectors and the projection of
  implementation scopes; integration routing; capability admission and branch advance; session
  documents.
\<close>

end
